(* ===== verification/Prelude.thy ===== *)
theory Prelude
  imports Main "HOL-Library.List_Lexorder" "HOL-Library.Word"
begin

section \<open>Shared vocabulary of the development\<close>

text \<open>
  What every component uses: results and their sequencing, 64-bit integers with the checked and
  saturating operations of the Rust standard library, Rust strings as lists of Unicode code points
  with their UTF-8 length and character classes, and ascending lists. The lemma collections
  \<^verbatim>\<open>result_simps\<close> and \<^verbatim>\<open>i64_simps\<close> carry the proofs of the components.
\<close>

named_theorems result_simps \<open>sequencing and inversion of results\<close>
named_theorems i64_simps \<open>checked and saturating 64-bit arithmetic\<close>
named_theorems text_simps \<open>character classes and string lengths\<close>

subsection \<open>Results\<close>

text \<open>
  A Rust \<open>Result\<close> is a sum, the error on the left. \<open>and_then\<close> is the \<open>?\<close> operator: the rest
  of the body runs on the value, an error returns at once. \<open>ensure\<close> is an early return guarded
  by a condition; its first argument is the condition under which the body goes on.
\<close>

abbreviation Ok :: "'a \<Rightarrow> 'e + 'a" where "Ok \<equiv> Inr"
abbreviation Err :: "'e \<Rightarrow> 'e + 'a" where "Err \<equiv> Inl"

definition and_then :: "'e + 'a \<Rightarrow> ('a \<Rightarrow> 'e + 'b) \<Rightarrow> 'e + 'b" where
  "and_then r k = (case r of Inl e \<Rightarrow> Inl e | Inr x \<Rightarrow> k x)"

definition ensure :: "bool \<Rightarrow> 'e \<Rightarrow> 'e + unit" where
  "ensure ok e = (if ok then Inr () else Inl e)"

definition map_err :: "('e \<Rightarrow> 'f) \<Rightarrow> 'e + 'a \<Rightarrow> 'f + 'a" where
  "map_err g r = (case r of Inl e \<Rightarrow> Inl (g e) | Inr x \<Rightarrow> Inr x)"

definition ok_or :: "'e \<Rightarrow> 'a option \<Rightarrow> 'e + 'a" where
  "ok_or e x = (case x of None \<Rightarrow> Inl e | Some v \<Rightarrow> Inr v)"

definition is_ok :: "'e + 'a \<Rightarrow> bool" where
  "is_ok r = (case r of Inl _ \<Rightarrow> False | Inr _ \<Rightarrow> True)"

lemma and_then_simps [simp, result_simps]:
  "and_then (Inl e) k = Inl e"
  "and_then (Inr x) k = k x"
  by (simp_all add: and_then_def)

lemma and_then_Inr_iff [result_simps]:
  "and_then r k = Inr y \<longleftrightarrow> (\<exists>x. r = Inr x \<and> k x = Inr y)"
  by (cases r) auto

lemma and_then_InrE:
  assumes "and_then r k = Inr y"
  obtains x where "r = Inr x" "k x = Inr y"
  using assms by (cases r) auto

lemma and_then_pairE:
  assumes "and_then r (\<lambda>(a, b). k a b) = Inr y"
  obtains a b where "r = Inr (a, b)" "k a b = Inr y"
  using assms by (cases r) auto

lemma and_then_Inl_iff [result_simps]:
  "and_then r k = Inl e \<longleftrightarrow> r = Inl e \<or> (\<exists>x. r = Inr x \<and> k x = Inl e)"
  by (cases r) auto

lemma ensure_simps [simp, result_simps]:
  "ensure True e = Inr ()"
  "ensure False e = Inl e"
  by (simp_all add: ensure_def)

lemma ensure_Inr_iff [simp, result_simps]: "ensure b e = Inr u \<longleftrightarrow> b"
  by (simp add: ensure_def)

lemma ensure_Inl_iff [simp, result_simps]: "ensure b e = Inl f \<longleftrightarrow> \<not> b \<and> e = f"
  by (auto simp: ensure_def)

lemma and_then_ensure [result_simps]:
  "and_then (ensure b e) k = (if b then k () else Inl e)"
  by simp

lemma map_err_simps [simp, result_simps]:
  "map_err g (Inl e) = Inl (g e)"
  "map_err g (Inr x) = Inr x"
  by (simp_all add: map_err_def)

lemma map_err_Inr_iff [simp, result_simps]: "map_err g r = Inr x \<longleftrightarrow> r = Inr x"
  by (cases r) auto

lemma ok_or_simps [simp, result_simps]:
  "ok_or e None = Inl e"
  "ok_or e (Some v) = Inr v"
  by (simp_all add: ok_or_def)

lemma ok_or_Inr_iff [simp, result_simps]: "ok_or e x = Inr v \<longleftrightarrow> x = Some v"
  by (cases x) auto

lemma ok_or_Inl_iff [simp, result_simps]: "ok_or e x = Inl f \<longleftrightarrow> x = None \<and> e = f"
  by (cases x) auto

lemma is_ok_simps [simp, result_simps]:
  "is_ok (Inl e) = False"
  "is_ok (Inr x) = True"
  by (simp_all add: is_ok_def)

lemma is_ok_iff: "is_ok r \<longleftrightarrow> (\<exists>x. r = Inr x)"
  by (cases r) auto

lemma is_ok_and_then [result_simps]:
  "is_ok (and_then r k) \<longleftrightarrow> (\<exists>x. r = Inr x \<and> is_ok (k x))"
  by (cases r) auto

lemma is_ok_ensure [simp, result_simps]: "is_ok (ensure b e) \<longleftrightarrow> b"
  by (simp add: ensure_def)

subsection \<open>64-bit integers\<close>

text \<open>
  An \<open>i64\<close> is an integer in the range below; \<open>checked_add\<close>, \<open>checked_sub\<close> give \<open>None\<close> out of
  the range and \<open>saturating_add\<close>, \<open>saturating_sub\<close> stop at its ends, as the standard library does.
\<close>

definition i64_min :: int where "i64_min = - 9223372036854775808"
definition i64_max :: int where "i64_max = 9223372036854775807"

definition in_i64 :: "int \<Rightarrow> bool" where
  "in_i64 x \<longleftrightarrow> i64_min \<le> x \<and> x \<le> i64_max"

definition checked_add :: "int \<Rightarrow> int \<Rightarrow> int option" where
  "checked_add a b = (if in_i64 (a + b) then Some (a + b) else None)"

definition checked_sub :: "int \<Rightarrow> int \<Rightarrow> int option" where
  "checked_sub a b = (if in_i64 (a - b) then Some (a - b) else None)"

definition clamp_i64 :: "int \<Rightarrow> int" where
  "clamp_i64 x = max i64_min (min i64_max x)"

definition saturating_add :: "int \<Rightarrow> int \<Rightarrow> int" where
  "saturating_add a b = clamp_i64 (a + b)"

definition saturating_sub :: "int \<Rightarrow> int \<Rightarrow> int" where
  "saturating_sub a b = clamp_i64 (a - b)"

lemma checked_add_Some [i64_simps]: "checked_add a b = Some c \<longleftrightarrow> c = a + b \<and> in_i64 (a + b)"
  by (auto simp: checked_add_def)

lemma checked_add_None [i64_simps]: "checked_add a b = None \<longleftrightarrow> \<not> in_i64 (a + b)"
  by (simp add: checked_add_def)

lemma checked_sub_Some [i64_simps]: "checked_sub a b = Some c \<longleftrightarrow> c = a - b \<and> in_i64 (a - b)"
  by (auto simp: checked_sub_def)

lemma checked_sub_None [i64_simps]: "checked_sub a b = None \<longleftrightarrow> \<not> in_i64 (a - b)"
  by (simp add: checked_sub_def)

lemmas i64_unfold = in_i64_def i64_min_def i64_max_def
lemmas saturating_unfold = saturating_add_def saturating_sub_def clamp_i64_def i64_min_def i64_max_def

lemma in_i64_between: "in_i64 a \<Longrightarrow> in_i64 b \<Longrightarrow> a \<le> x \<Longrightarrow> x \<le> b \<Longrightarrow> in_i64 x"
  by (simp add: i64_unfold)

lemma saturating_add_less_iff [i64_simps]:
  "in_i64 a \<Longrightarrow> in_i64 t \<Longrightarrow> 0 \<le> b \<Longrightarrow> saturating_add a b < t \<longleftrightarrow> a + b < t"
  by (auto simp: saturating_unfold i64_unfold)

lemma less_saturating_sub_iff [i64_simps]:
  "in_i64 a \<Longrightarrow> in_i64 t \<Longrightarrow> 0 \<le> b \<Longrightarrow> t < saturating_sub a b \<longleftrightarrow> t < a - b"
  by (auto simp: saturating_unfold i64_unfold)

subsection \<open>Strings\<close>

text \<open>
  A Rust \<open>String\<close> is the list of its Unicode scalar values. \<open>lit\<close> reads an ASCII literal.
  \<open>utf8\<close> is the byte sequence Rust stores, \<open>byte_len\<close> is \<open>str::len\<close> (bytes, not characters),
  \<open>is_control\<close> and \<open>is_whitespace\<close> are the Unicode classes \<open>Cc\<close> and \<open>White_Space\<close> that
  \<open>char::is_control\<close>, \<open>char::is_whitespace\<close> and \<open>str::trim\<close> use.
\<close>

type_synonym ustr = "nat list"
type_synonym byte = "8 word"

definition lit :: "string \<Rightarrow> ustr" where "lit s = map of_char s"

definition utf8_width :: "nat \<Rightarrow> nat" where
  "utf8_width c = (if c < 0x80 then 1 else if c < 0x800 then 2 else if c < 0x10000 then 3 else 4)"

definition utf8_char :: "nat \<Rightarrow> byte list" where
  "utf8_char c =
    (if c < 0x80 then [of_nat c]
     else if c < 0x800 then [of_nat (0xC0 + c div 0x40), of_nat (0x80 + c mod 0x40)]
     else if c < 0x10000 then
       [of_nat (0xE0 + c div 0x1000), of_nat (0x80 + c div 0x40 mod 0x40), of_nat (0x80 + c mod 0x40)]
     else
       [of_nat (0xF0 + c div 0x40000), of_nat (0x80 + c div 0x1000 mod 0x40),
        of_nat (0x80 + c div 0x40 mod 0x40), of_nat (0x80 + c mod 0x40)])"

definition utf8 :: "ustr \<Rightarrow> byte list" where "utf8 s = concat (map utf8_char s)"

definition byte_len :: "ustr \<Rightarrow> nat" where "byte_len s = sum_list (map utf8_width s)"

definition is_control :: "nat \<Rightarrow> bool" where
  "is_control c \<longleftrightarrow> c < 0x20 \<or> 0x7F \<le> c \<and> c < 0xA0"

definition is_whitespace :: "nat \<Rightarrow> bool" where
  "is_whitespace c \<longleftrightarrow>
    0x9 \<le> c \<and> c \<le> 0xD \<or> c = 0x20 \<or> c = 0x85 \<or> c = 0xA0 \<or> c = 0x1680
    \<or> 0x2000 \<le> c \<and> c \<le> 0x200A \<or> c = 0x2028 \<or> c = 0x2029 \<or> c = 0x202F \<or> c = 0x205F \<or> c = 0x3000"

definition is_ascii :: "ustr \<Rightarrow> bool" where "is_ascii s \<longleftrightarrow> list_all (\<lambda>c. c < 0x80) s"

definition is_ascii_digit :: "nat \<Rightarrow> bool" where
  "is_ascii_digit c \<longleftrightarrow> 0x30 \<le> c \<and> c \<le> 0x39"

definition is_ascii_alphanumeric :: "nat \<Rightarrow> bool" where
  "is_ascii_alphanumeric c \<longleftrightarrow>
    is_ascii_digit c \<or> 0x41 \<le> c \<and> c \<le> 0x5A \<or> 0x61 \<le> c \<and> c \<le> 0x7A"

definition ascii_lower :: "nat \<Rightarrow> nat" where
  "ascii_lower c = (if 0x41 \<le> c \<and> c \<le> 0x5A then c + 0x20 else c)"

definition to_ascii_lowercase :: "ustr \<Rightarrow> ustr" where
  "to_ascii_lowercase s = map ascii_lower s"

definition trim :: "ustr \<Rightarrow> ustr" where
  "trim s = rev (dropWhile is_whitespace (rev (dropWhile is_whitespace s)))"

text \<open>\<open>starts_with\<close> and \<open>strip_prefix\<close> of \<open>str\<close>, and \<open>str::split\<close> on one character.\<close>

definition strip_prefix :: "ustr \<Rightarrow> ustr \<Rightarrow> ustr option" where
  "strip_prefix p s = (if take (length p) s = p then Some (drop (length p) s) else None)"

fun split_on :: "nat \<Rightarrow> ustr \<Rightarrow> ustr list" where
  "split_on d [] = [[]]"
| "split_on d (c # cs) =
    (if c = d then [] # split_on d cs
     else (case split_on d cs of [] \<Rightarrow> [[c]] | w # ws \<Rightarrow> (c # w) # ws))"

lemma strip_prefix_Some: "strip_prefix p s = Some r \<longleftrightarrow> s = p @ r"
  by (metis append_eq_conv_conj append_take_drop_id option.distinct(1) option.inject strip_prefix_def)

lemma length_utf8_char [simp, text_simps]: "length (utf8_char c) = utf8_width c"
  by (simp add: utf8_char_def utf8_width_def)

lemma length_utf8 [simp, text_simps]: "length (utf8 s) = byte_len s"
  by (induction s) (simp_all add: utf8_def byte_len_def)

lemma utf8_width_pos [simp]: "0 < utf8_width c"
  by (simp add: utf8_width_def)

lemma length_le_byte_len: "length s \<le> byte_len s"
proof (induction s)
  case (Cons c s)
  have "1 \<le> utf8_width c" by (simp add: utf8_width_def)
  with Cons show ?case by (simp add: byte_len_def)
qed (simp add: byte_len_def)

lemma byte_len_simps [simp, text_simps]:
  "byte_len [] = 0"
  "byte_len (c # s) = utf8_width c + byte_len s"
  "byte_len (s @ t) = byte_len s + byte_len t"
  by (simp_all add: byte_len_def)

lemma byte_len_ascii [text_simps]: "is_ascii s \<Longrightarrow> byte_len s = length s"
  by (induction s) (auto simp: is_ascii_def utf8_width_def)

lemma byte_len_0_iff [simp]: "byte_len s = 0 \<longleftrightarrow> s = []"
  using length_le_byte_len [of s] by auto

lemma is_ascii_lower [simp]: "is_ascii (to_ascii_lowercase s) = is_ascii s"
  by (auto simp: is_ascii_def to_ascii_lowercase_def list_all_iff ascii_lower_def)

lemma ascii_lower_idem [simp]: "ascii_lower (ascii_lower c) = ascii_lower c"
  by (simp add: ascii_lower_def)

lemma to_ascii_lowercase_idem [simp]:
  "to_ascii_lowercase (to_ascii_lowercase s) = to_ascii_lowercase s"
  by (simp add: to_ascii_lowercase_def)

lemma ascii_lower_classes [simp]:
  "is_control (ascii_lower c) = is_control c"
  "is_whitespace (ascii_lower c) = is_whitespace c"
  by (auto simp: ascii_lower_def is_control_def is_whitespace_def)

lemma trim_length: "length (trim s) \<le> length s"
  unfolding trim_def length_rev
  by (metis length_dropWhile_le length_rev order_trans)

lemma trim_eq_self_iff:
  "trim s = s \<longleftrightarrow> s = [] \<or> \<not> is_whitespace (hd s) \<and> \<not> is_whitespace (last s)"
proof (cases "s = []")
  case False
  show ?thesis
  proof
    assume trimmed: "trim s = s"
    have "length s \<le> length (dropWhile is_whitespace s)"
      using trimmed by (metis trim_def length_dropWhile_le length_rev)
    moreover have "length (takeWhile is_whitespace s) + length (dropWhile is_whitespace s) = length s"
      by (metis length_append takeWhile_dropWhile_id)
    ultimately have "length (takeWhile is_whitespace s) = 0"
      by linarith
    then have front: "dropWhile is_whitespace s = s"
      by (metis append_Nil length_0_conv takeWhile_dropWhile_id)
    with trimmed have "dropWhile is_whitespace (rev s) = rev s"
      by (simp add: trim_def rev_swap)
    with front False show "s = [] \<or> \<not> is_whitespace (hd s) \<and> \<not> is_whitespace (last s)"
      by (simp add: dropWhile_eq_self_iff hd_rev)
  next
    assume "s = [] \<or> \<not> is_whitespace (hd s) \<and> \<not> is_whitespace (last s)"
    with False have "dropWhile is_whitespace s = s" "dropWhile is_whitespace (rev s) = rev s"
      by (simp_all add: dropWhile_eq_self_iff hd_rev)
    then show "trim s = s" by (simp add: trim_def)
  qed
qed (simp add: trim_def)

lemma trim_lowercase: "trim s = s \<Longrightarrow> trim (to_ascii_lowercase s) = to_ascii_lowercase s"
  by (cases "s = []") (auto simp: trim_eq_self_iff to_ascii_lowercase_def hd_map last_map)

lemma lit_append [simp]: "lit (a @ b) = lit a @ lit b"
  by (simp add: lit_def)

lemma lit_Nil [simp]: "lit [] = []"
  by (simp add: lit_def)

lemma lit_eq_iff: "lit a = lit b \<longleftrightarrow> a = b"
proof -
  have "inj (of_char :: char \<Rightarrow> nat)" by (rule inj_of_char)
  then show ?thesis by (simp add: lit_def inj_map_eq_map)
qed

subsection \<open>Ascending lists\<close>

text \<open>\<open>values.windows(2).all(|w| w[0] < w[1])\<close>\<close>

fun ascending :: "'a::linorder list \<Rightarrow> bool" where
  "ascending (x # y # ys) = (x < y \<and> ascending (y # ys))"
| "ascending _ = True"

lemma ascending_sorted_wrt: "ascending xs \<longleftrightarrow> sorted_wrt (<) xs"
proof (induction xs rule: ascending.induct)
  case (1 x y ys)
  then show ?case by (auto dest: less_trans)
qed simp_all

lemma ascending_distinct: "ascending xs \<Longrightarrow> distinct xs"
  by (simp add: ascending_sorted_wrt strict_sorted_iff)

lemma ascending_sorted_remdups: "ascending (sorted_list_of_set (set xs))"
  by (simp add: ascending_sorted_wrt)

end
