(* ===== verification/Identifiers.thy ===== *)
theory Identifiers
  imports Prelude
begin

section \<open>Identifiers (identity-core/src/lib.rs)\<close>

text \<open>
  Instances, principals, sessions, providers (all non-nil UUIDs), issuers and clients (bounded
  strings). The \<open>uuid\<close> crate is not part of the repository: a UUID is its 128 bits, the nil UUID
  is 0, and parsing and printing are parameters of the definitions that use them. The locale
  \<open>checked_value\<close> is the interface all validated values share: one constructor checks the raw
  form, storage keeps the raw form, and restoring runs the same constructor.
\<close>

type_synonym uuid = "128 word"

definition uuid_nil :: uuid where "uuid_nil = 0"

datatype ValidationError = InvalidValue

datatype InstanceId = InstanceId uuid
datatype PrincipalId = PrincipalId uuid
datatype SessionId = SessionId uuid

fun instance_uuid :: "InstanceId \<Rightarrow> uuid" where "instance_uuid (InstanceId u) = u"
fun principal_uuid :: "PrincipalId \<Rightarrow> uuid" where "principal_uuid (PrincipalId u) = u"
fun session_uuid :: "SessionId \<Rightarrow> uuid" where "session_uuid (SessionId u) = u"

definition InstanceId_parse :: "(ustr \<Rightarrow> uuid option) \<Rightarrow> ustr \<Rightarrow> ValidationError + InstanceId" where
  "InstanceId_parse parse_str value =
    and_then (ok_or InvalidValue (parse_str value)) (\<lambda>id.
    and_then (ensure (id \<noteq> uuid_nil) InvalidValue) (\<lambda>_.
    Ok (InstanceId id)))"

definition PrincipalId_parse :: "(ustr \<Rightarrow> uuid option) \<Rightarrow> ustr \<Rightarrow> ValidationError + PrincipalId" where
  "PrincipalId_parse parse_str value =
    and_then (ok_or InvalidValue (parse_str value)) (\<lambda>id.
    and_then (ensure (id \<noteq> uuid_nil) InvalidValue) (\<lambda>_.
    Ok (PrincipalId id)))"

definition SessionId_parse :: "(ustr \<Rightarrow> uuid option) \<Rightarrow> ustr \<Rightarrow> ValidationError + SessionId" where
  "SessionId_parse parse_str value =
    and_then (ok_or InvalidValue (parse_str value)) (\<lambda>id.
    and_then (ensure (id \<noteq> uuid_nil) InvalidValue) (\<lambda>_.
    Ok (SessionId id)))"

text \<open>The \<open>Display\<close> forms, also the wire form of a session identifier.\<close>

definition InstanceId_show :: "(uuid \<Rightarrow> ustr) \<Rightarrow> InstanceId \<Rightarrow> ustr" where
  "InstanceId_show show_uuid i = show_uuid (instance_uuid i)"

definition SessionId_show :: "(uuid \<Rightarrow> ustr) \<Rightarrow> SessionId \<Rightarrow> ustr" where
  "SessionId_show show_uuid i = show_uuid (session_uuid i)"

datatype IssuerId = IssuerId ustr
datatype ClientId = ClientId ustr

fun issuer_str :: "IssuerId \<Rightarrow> ustr" where "issuer_str (IssuerId s) = s"
fun client_str :: "ClientId \<Rightarrow> ustr" where "client_str (ClientId s) = s"

definition IssuerId_parse :: "ustr \<Rightarrow> ValidationError + IssuerId" where
  "IssuerId_parse value =
    (if value = [] \<or> trim value \<noteq> value \<or> list_ex is_control value then Err InvalidValue
     else Ok (IssuerId value))"

definition ClientId_parse :: "ustr \<Rightarrow> ValidationError + ClientId" where
  "ClientId_parse value =
    (if value = [] \<or> trim value \<noteq> value \<or> list_ex is_control value then Err InvalidValue
     else Ok (ClientId value))"

subsection \<open>The interface of a validated value\<close>

text \<open>
  \<open>check\<close> is the constructor, \<open>raw\<close> what storage and the wire keep of an accepted value and
  \<open>valid\<close> the invariant the rest of the program relies on. The constructor establishes the
  invariant and accepts exactly the raw forms of valid values.
\<close>

locale checked_value =
  fixes check :: "'r \<Rightarrow> 'e + 'v"
    and raw :: "'v \<Rightarrow> 'r"
    and valid :: "'v \<Rightarrow> bool"
  assumes check_valid: "check r = Inr v \<Longrightarrow> valid v"
    and check_raw: "valid v \<Longrightarrow> check (raw v) = Inr v"
begin

lemma recheck: "check r = Inr v \<Longrightarrow> check (raw v) = Inr v"
  by (rule check_raw) (rule check_valid)

lemma valid_iff_accepted: "valid v \<longleftrightarrow> (\<exists>r. check r = Inr v)"
  using check_valid check_raw by blast

lemma raw_inject: "valid v \<Longrightarrow> valid w \<Longrightarrow> raw v = raw w \<Longrightarrow> v = w"
  by (metis check_raw sum.inject(2))

lemma check_raw_fixpoint: "check r = Inr v \<Longrightarrow> check (raw v) = Inr w \<Longrightarrow> w = v"
  by (drule recheck) simp

end

definition valid_name :: "ustr \<Rightarrow> bool" where
  "valid_name s \<longleftrightarrow> s \<noteq> [] \<and> trim s = s \<and> \<not> list_ex is_control s"

interpretation issuer: checked_value IssuerId_parse issuer_str "\<lambda>i. valid_name (issuer_str i)"
proof unfold_locales
  show "valid_name (issuer_str v)" if "IssuerId_parse r = Inr v" for r v
    using that by (auto simp: IssuerId_parse_def valid_name_def split: if_splits)
  show "IssuerId_parse (issuer_str v) = Inr v" if "valid_name (issuer_str v)" for v
    using that by (cases v) (simp add: IssuerId_parse_def valid_name_def)
qed

interpretation client: checked_value ClientId_parse client_str "\<lambda>i. valid_name (client_str i)"
proof unfold_locales
  show "valid_name (client_str v)" if "ClientId_parse r = Inr v" for r v
    using that by (auto simp: ClientId_parse_def valid_name_def split: if_splits)
  show "ClientId_parse (client_str v) = Inr v" if "valid_name (client_str v)" for v
    using that by (cases v) (simp add: ClientId_parse_def valid_name_def)
qed

lemma PrincipalId_parse_Ok:
  "PrincipalId_parse p s = Inr i \<longleftrightarrow> p s = Some (principal_uuid i) \<and> principal_uuid i \<noteq> uuid_nil"
  by (cases i) (auto simp: PrincipalId_parse_def result_simps split: if_splits)

lemma SessionId_parse_Ok:
  "SessionId_parse p s = Inr i \<longleftrightarrow> p s = Some (session_uuid i) \<and> session_uuid i \<noteq> uuid_nil"
  by (cases i) (auto simp: SessionId_parse_def result_simps split: if_splits)

lemma InstanceId_parse_Ok:
  "InstanceId_parse p s = Inr i \<longleftrightarrow> p s = Some (instance_uuid i) \<and> instance_uuid i \<noteq> uuid_nil"
  by (cases i) (auto simp: InstanceId_parse_def result_simps split: if_splits)


subsection \<open>The bytes of a UUID\<close>

text \<open>\<open>Uuid::as_bytes\<close> and \<open>Uuid::from_slice\<close>: 16 bytes, the most significant first.\<close>

definition uuid_bytes :: "uuid \<Rightarrow> byte list" where
  "uuid_bytes u = map (\<lambda>i. ucast (drop_bit (8 * (15 - i)) u)) [0..<16]"

definition uuid_from_slice :: "byte list \<Rightarrow> uuid option" where
  "uuid_from_slice bytes = (if length bytes = 16 then Some (word_rcat bytes) else None)"

lemma bit_rcat_bytes:
  "bit (word_rcat (bs :: byte list) :: uuid) n \<longleftrightarrow>
    n < 128 \<and> n div 8 < length bs \<and> bit (rev bs ! (n div 8)) (n mod 8)"
proof -
  have "bit (horner_sum uint (2 ^ LENGTH(8)) (rev bs)) n \<longleftrightarrow>
      n div LENGTH(8) < length (rev bs) \<and> bit (rev bs ! (n div LENGTH(8))) (n mod LENGTH(8))"
    by (rule bit_horner_sum_uint_exp_iff)
  then show ?thesis
    unfolding word_rcat_def o_def bit_word_of_int_iff by simp
qed

lemma length_uuid_bytes [simp]: "length (uuid_bytes u) = 16"
  by (simp add: uuid_bytes_def)

lemma uuid_from_slice_bytes [simp]: "uuid_from_slice (uuid_bytes u) = Some u"
proof -
  have "word_rcat (uuid_bytes u) = u"
  proof (rule bit_word_eqI)
    fix n assume "n < LENGTH(128)"
    then have n: "n < 128" "n div 8 < 16" by auto
    then have "[0..<16] ! (15 - n div 8) = 15 - n div 8" "15 - (15 - n div 8) = n div 8"
      by (simp_all add: nth_upt del: upt_rec_numeral)
    with n show "bit (word_rcat (uuid_bytes u) :: uuid) n \<longleftrightarrow> bit u n"
      by (simp add: bit_rcat_bytes rev_nth uuid_bytes_def bit_ucast_iff bit_drop_bit_eq del: upt_rec_numeral)
  qed
  then show ?thesis by (simp add: uuid_from_slice_def)
qed

lemma uuid_bytes_inject [simp]: "uuid_bytes u = uuid_bytes v \<longleftrightarrow> u = v"
  by (metis option.inject uuid_from_slice_bytes)

lemma uuid_bytes_from_slice: "uuid_from_slice bs = Some u \<Longrightarrow> uuid_bytes u = bs"
proof -
  assume "uuid_from_slice bs = Some u"
  then have len: "length bs = 16" and u: "u = word_rcat bs"
    by (auto simp: uuid_from_slice_def split: if_splits)
  show ?thesis
  proof (rule nth_equalityI)
    fix i assume "i < length (uuid_bytes u)"
    then have i: "i < 16" by simp
    have "ucast (drop_bit (8 * (15 - i)) u) = bs ! i"
    proof (rule bit_word_eqI)
      fix n assume "n < LENGTH(8)"
      then have n: "n < 8" by simp
      then have "(8 * (15 - i) + n) div 8 = 15 - i" "(8 * (15 - i) + n) mod 8 = n"
        "8 * (15 - i) + n < 128" "15 - i < 16" by simp_all
      with n i len show "bit (ucast (drop_bit (8 * (15 - i)) u) :: byte) n \<longleftrightarrow> bit (bs ! i) n"
        by (simp add: u bit_rcat_bytes rev_nth bit_ucast_iff bit_drop_bit_eq)
    qed
    with i show "uuid_bytes u ! i = bs ! i" by (simp add: uuid_bytes_def)
  qed (simp add: len)
qed

end
