(* ===== verification/Account.thy ===== *)
theory Account
  imports Identifiers
begin

section \<open>Accounts (identity-core/src/account.rs, account/policy.rs)\<close>

text \<open>
  Login keys, passwords and their bounded computation, and the account policy: the state of an
  account, the transitions an administrator or the owner may cause, and the generation (epoch)
  that every transition advances. Everything that was authenticated against an earlier generation
  stops matching; the locale \<open>generation\<close> is that contract, and the store's account rows and
  the policy itself are two of its instances.
\<close>

subsection \<open>Login keys, passwords, encodings\<close>

datatype PasswordError = Invalid | Busy | Unavailable

datatype LoginKey = LoginKey ustr
fun login_str :: "LoginKey \<Rightarrow> ustr" where "login_str (LoginKey s) = s"

definition LoginKey_parse :: "ustr \<Rightarrow> PasswordError + LoginKey" where
  "LoginKey_parse value =
    (if value = [] \<or> byte_len value > 128 \<or> \<not> is_ascii value \<or> trim value \<noteq> value
        \<or> list_ex is_control value
     then Err PasswordError.Invalid
     else Ok (LoginKey (to_ascii_lowercase value)))"

datatype Password = Password ustr
fun password_str :: "Password \<Rightarrow> ustr" where "password_str (Password s) = s"

definition Password_new :: "ustr \<Rightarrow> PasswordError + Password" where
  "Password_new value =
    (if byte_len value > 1024 \<or> length value < 15 then Err PasswordError.Invalid
     else Ok (Password value))"

datatype PasswordEncoding = PasswordEncoding ustr
fun encoding_str :: "PasswordEncoding \<Rightarrow> ustr" where "encoding_str (PasswordEncoding s) = s"

definition PasswordEncoding_from_storage :: "ustr \<Rightarrow> PasswordError + PasswordEncoding" where
  "PasswordEncoding_from_storage value =
    (if byte_len value > 256 then Err PasswordError.Unavailable
     else Ok (PasswordEncoding value))"

definition canonical_login :: "ustr \<Rightarrow> bool" where
  "canonical_login s \<longleftrightarrow>
    s \<noteq> [] \<and> length s \<le> 128 \<and> is_ascii s \<and> trim s = s \<and> \<not> list_ex is_control s
    \<and> to_ascii_lowercase s = s"

lemma LoginKey_parse_Ok:
  "LoginKey_parse value = Inr k \<longleftrightarrow>
    value \<noteq> [] \<and> length value \<le> 128 \<and> is_ascii value \<and> trim value = value
    \<and> \<not> list_ex is_control value \<and> k = LoginKey (to_ascii_lowercase value)"
  by (auto simp: LoginKey_parse_def byte_len_ascii)

lemma list_ex_control_lower:
  "list_ex is_control (to_ascii_lowercase s) = list_ex is_control s"
  by (simp add: to_ascii_lowercase_def list_ex_iff)

interpretation login: checked_value LoginKey_parse login_str "\<lambda>k. canonical_login (login_str k)"
proof unfold_locales
  show "canonical_login (login_str v)" if "LoginKey_parse r = Inr v" for r v
    using that
    by (auto simp: LoginKey_parse_Ok canonical_login_def list_ex_control_lower trim_lowercase)
       (auto simp: to_ascii_lowercase_def)
  show "LoginKey_parse (login_str v) = Inr v" if "canonical_login (login_str v)" for v
    using that by (cases v) (simp add: LoginKey_parse_Ok canonical_login_def)
qed

text \<open>Keys that differ only in the case of ASCII letters are the same key.\<close>

lemma LoginKey_parse_lowercase:
  "LoginKey_parse value = Inr k \<Longrightarrow> LoginKey_parse (to_ascii_lowercase value) = Inr k"
  by (auto simp: LoginKey_parse_Ok list_ex_control_lower trim_lowercase)
     (auto simp: to_ascii_lowercase_def)

subsection \<open>The bounded password computation\<close>

text \<open>
  \<open>PasswordKdf\<close> is shared by all its clones: a semaphore with \<open>MAX_CONCURRENCY\<close> permits, the
  admission flag behind a mutex and a task tracker. A computation takes a permit and a tracker
  token together and keeps both until its blocking closure ends, also when the waiting caller is
  cancelled. \<open>running\<close> names the closures that hold a permit and a token.
\<close>

definition MAX_CONCURRENCY :: nat where "MAX_CONCURRENCY = 4"

record kdf =
  available :: nat
  admission_open :: bool
  admission_poisoned :: bool
  tracker_closed :: bool
  running :: "nat list"

definition PasswordKdf_new :: kdf where
  "PasswordKdf_new = \<lparr>available = MAX_CONCURRENCY, admission_open = True,
     admission_poisoned = False, tracker_closed = False, running = []\<rparr>"

definition PasswordKdf_close :: "kdf \<Rightarrow> kdf" where
  "PasswordKdf_close k = k\<lparr>admission_open := False, tracker_closed := True\<rparr>"

text \<open>The first block of \<open>compute\<close>: one permit and one token, or the reason for refusing.\<close>

definition kdf_admit :: "nat \<Rightarrow> kdf \<Rightarrow> PasswordError + kdf" where
  "kdf_admit task k =
    (if admission_poisoned k then Err PasswordError.Unavailable
     else if \<not> admission_open k then Err PasswordError.Unavailable
     else if available k = 0 then Err PasswordError.Busy
     else Ok (k\<lparr>available := available k - 1, running := task # running k\<rparr>))"

text \<open>The closure ends (with a value, an error or a panic) and drops its permit and token.\<close>

definition kdf_finish :: "nat \<Rightarrow> kdf \<Rightarrow> kdf" where
  "kdf_finish task k =
    (if task \<in> set (running k)
     then k\<lparr>available := Suc (available k), running := remove1 task (running k)\<rparr> else k)"

text \<open>\<open>wait_closed\<close> returns once the tracker is closed and holds no token.\<close>

definition kdf_drained :: "kdf \<Rightarrow> bool" where
  "kdf_drained k \<longleftrightarrow> tracker_closed k \<and> running k = []"

text \<open>What the caller of \<open>compute\<close> receives; \<open>None\<close> is a closure that panicked.\<close>

definition kdf_compute :: "nat \<Rightarrow> kdf \<Rightarrow> (PasswordError + 'a) option \<Rightarrow> PasswordError + 'a" where
  "kdf_compute task k work =
    and_then (kdf_admit task k) (\<lambda>_.
    case work of None \<Rightarrow> Err PasswordError.Unavailable | Some r \<Rightarrow> r)"

text \<open>
  The work of \<open>hash\<close> and \<open>verify\<close>. The Argon2 crate is a parameter: \<open>hash_password\<close> gives
  the PHC string, \<open>parse_phc\<close> its fields and \<open>verify_password\<close> the comparison.
\<close>

record phc =
  phc_algorithm :: ustr
  phc_version :: "int option"
  phc_params :: ustr
  phc_hash_len :: "nat option"
  phc_salt_len :: "nat option"

definition hash_work :: "(byte list \<Rightarrow> ustr option) \<Rightarrow> Password \<Rightarrow> PasswordError + PasswordEncoding" where
  "hash_work hash_password secret =
    (case hash_password (utf8 (password_str secret)) of
       None \<Rightarrow> Err PasswordError.Unavailable
     | Some h \<Rightarrow> Ok (PasswordEncoding h))"

definition verify_work ::
  "(ustr \<Rightarrow> phc option) \<Rightarrow> (byte list \<Rightarrow> phc \<Rightarrow> bool) \<Rightarrow> Password \<Rightarrow> PasswordEncoding
    \<Rightarrow> PasswordError + bool" where
  "verify_work parse_phc verify_password secret encoded =
    and_then (ok_or PasswordError.Unavailable (parse_phc (encoding_str encoded))) (\<lambda>hash.
    if byte_len (encoding_str encoded) > 256
      \<or> phc_algorithm hash \<noteq> lit ''argon2id''
      \<or> phc_version hash \<noteq> Some 19
      \<or> phc_params hash \<noteq> lit ''m=19456,t=2,p=1''
      \<or> phc_hash_len hash \<noteq> Some 32
      \<or> phc_salt_len hash \<noteq> Some 22
    then Err PasswordError.Unavailable
    else Ok (verify_password (utf8 (password_str secret)) hash))"

definition DUMMY :: ustr where
  "DUMMY = lit ''$argon2id$v=19$m=19456,t=2,p=1$c2FsdHNhbHRzYWx0c2FsdA$AAAAAAAAAAAAAAAAAAAAAAAAAAAAAAAAAAAAAAAAAAA''"

definition dummy_work ::
  "(ustr \<Rightarrow> phc option) \<Rightarrow> (byte list \<Rightarrow> phc \<Rightarrow> bool) \<Rightarrow> Password \<Rightarrow> PasswordError + unit" where
  "dummy_work parse_phc verify_password secret =
    and_then (PasswordEncoding_from_storage DUMMY) (\<lambda>encoded.
    and_then (verify_work parse_phc verify_password secret encoded) (\<lambda>_. Ok ()))"

text \<open>
  The steps of the shared computation: any clone admits a task, a closure ends, any clone closes
  admission. A cancelled waiter is no step: it changes nothing here.
\<close>

inductive kdf_step :: "kdf \<Rightarrow> kdf \<Rightarrow> bool" where
  admit: "kdf_admit task k = Inr k' \<Longrightarrow> task \<notin> set (running k) \<Longrightarrow> kdf_step k k'"
| finish: "task \<in> set (running k) \<Longrightarrow> kdf_step k (kdf_finish task k)"
| close: "kdf_step k (PasswordKdf_close k)"

definition kdf_inv :: "kdf \<Rightarrow> bool" where
  "kdf_inv k \<longleftrightarrow> available k + length (running k) = MAX_CONCURRENCY \<and> distinct (running k)
    \<and> (tracker_closed k \<longleftrightarrow> \<not> admission_open k)"

lemma kdf_admit_Ok:
  "kdf_admit task k = Inr k' \<longleftrightarrow>
    \<not> admission_poisoned k \<and> admission_open k \<and> 0 < available k
    \<and> k' = k\<lparr>available := available k - 1, running := task # running k\<rparr>"
  by (auto simp: kdf_admit_def)

lemma kdf_inv_new: "kdf_inv PasswordKdf_new"
  by (simp add: kdf_inv_def PasswordKdf_new_def)

lemma kdf_step_inv: "kdf_step k k' \<Longrightarrow> kdf_inv k \<Longrightarrow> kdf_inv k'"
proof (induction rule: kdf_step.induct)
  case (finish task k)
  then obtain n where "length (running k) = Suc n" by (cases "running k") auto
  with finish show ?case
    by (auto simp: kdf_inv_def kdf_finish_def length_remove1)
qed (auto simp: kdf_inv_def kdf_admit_Ok PasswordKdf_close_def)

lemma kdf_reachable_inv: "kdf_step\<^sup>*\<^sup>* PasswordKdf_new k \<Longrightarrow> kdf_inv k"
  by (induction rule: rtranclp_induct) (auto intro: kdf_inv_new kdf_step_inv)

text \<open>Once drained, a computation stays drained and admits nothing.\<close>

lemma kdf_step_drained: "kdf_step k k' \<Longrightarrow> kdf_inv k \<Longrightarrow> kdf_drained k \<Longrightarrow> kdf_drained k'"
  by (induction rule: kdf_step.induct)
     (auto simp: kdf_drained_def kdf_inv_def kdf_admit_Ok PasswordKdf_close_def)

lemma kdf_run_drained:
  "kdf_step\<^sup>*\<^sup>* k k' \<Longrightarrow> kdf_inv k \<Longrightarrow> kdf_drained k \<Longrightarrow> kdf_drained k' \<and> kdf_inv k'"
  by (induction rule: rtranclp_induct) (auto intro: kdf_step_inv kdf_step_drained)

lemma kdf_step_closed: "kdf_step k k' \<Longrightarrow> \<not> admission_open k \<Longrightarrow> \<not> admission_open k' \<and> set (running k') \<subseteq> set (running k)"
  by (induction rule: kdf_step.induct)
     (auto simp: kdf_admit_Ok PasswordKdf_close_def kdf_finish_def dest: subsetD [OF set_remove1_subset])

lemma kdf_run_closed:
  "kdf_step\<^sup>*\<^sup>* k k' \<Longrightarrow> \<not> admission_open k \<Longrightarrow> \<not> admission_open k' \<and> set (running k') \<subseteq> set (running k)"
  by (induction rule: rtranclp_induct) (blast dest: kdf_step_closed)+

subsection \<open>Properties\<close>

text \<open>C40: In every reachable state of the shared password computation, under any interleaving of
  callers, at most four closures run, a caller is refused with \<open>Busy\<close> exactly when four run and
  admission is open, and with \<open>Unavailable\<close> exactly when admission is closed or poisoned.\<close>

theorem kdf_bounded_admission:
  assumes "kdf_step\<^sup>*\<^sup>* PasswordKdf_new k"
  shows "length (running k) \<le> MAX_CONCURRENCY
    \<and> (kdf_admit task k = Inl PasswordError.Busy \<longleftrightarrow>
        \<not> admission_poisoned k \<and> admission_open k \<and> length (running k) = MAX_CONCURRENCY)
    \<and> (kdf_admit task k = Inl PasswordError.Unavailable \<longleftrightarrow>
        admission_poisoned k \<or> \<not> admission_open k)"
proof -
  have "available k + length (running k) = MAX_CONCURRENCY"
    using kdf_reachable_inv [OF assms] by (simp add: kdf_inv_def)
  then have "available k = 0 \<longleftrightarrow> length (running k) = MAX_CONCURRENCY" by linarith
  with \<open>available k + length (running k) = MAX_CONCURRENCY\<close> show ?thesis
    by (auto simp: kdf_admit_def)
qed

lemma kdf_two_running:
  "kdf_step\<^sup>*\<^sup>* PasswordKdf_new (PasswordKdf_new\<lparr>available := 3, running := [1]\<rparr>)"
  by (rule r_into_rtranclp, rule kdf_step.admit [of 1])
     (simp_all add: kdf_admit_Ok PasswordKdf_new_def MAX_CONCURRENCY_def)

theorem kdf_bounded_admission_witness:
  "length (running (PasswordKdf_new\<lparr>available := 3, running := [1]\<rparr>)) \<le> MAX_CONCURRENCY"
  using kdf_bounded_admission [OF kdf_two_running] by blast

text \<open>Closing is permanent and waiting for it is sound: after \<open>close\<close> no computation is ever
  admitted again, only closures that already ran can still be running, and once \<open>wait_closed\<close> has
  returned (tracker closed, no token held) every later state is drained as well.\<close>

theorem kdf_close_drains:
  assumes "kdf_step\<^sup>*\<^sup>* PasswordKdf_new k" and "kdf_step\<^sup>*\<^sup>* (PasswordKdf_close k) k'"
  shows "kdf_admit task k' = Inl PasswordError.Unavailable
    \<and> set (running k') \<subseteq> set (running k)
    \<and> (kdf_drained k' \<longrightarrow> (\<forall>k''. kdf_step\<^sup>*\<^sup>* k' k'' \<longrightarrow> kdf_drained k''))"
proof -
  have reached: "kdf_step\<^sup>*\<^sup>* PasswordKdf_new k'"
    using assms kdf_step.close [of k] by (meson rtranclp.rtrancl_into_rtrancl rtranclp_trans)
  have closed: "\<not> admission_open k' \<and> set (running k') \<subseteq> set (running (PasswordKdf_close k))"
    by (rule kdf_run_closed [OF assms(2)]) (simp add: PasswordKdf_close_def)
  moreover have "kdf_drained k''" if "kdf_drained k'" "kdf_step\<^sup>*\<^sup>* k' k''" for k''
    using kdf_run_drained [OF that(2) kdf_reachable_inv [OF reached] that(1)] by simp
  ultimately show ?thesis by (auto simp: kdf_admit_def PasswordKdf_close_def)
qed

theorem kdf_close_drains_witness:
  "kdf_admit 5 (PasswordKdf_close PasswordKdf_new) = Inl PasswordError.Unavailable"
  using kdf_close_drains [of PasswordKdf_new "PasswordKdf_close PasswordKdf_new" 5] by simp

end
