(* ===== verification/Federation_Error.thy ===== *)
theory Federation_Error
  imports Prelude
begin

section \<open>Federation errors (identity-core/src/federation.rs)\<close>

text \<open>
  The error type every federation value shares, its stage and reason vocabulary and the diagnostic
  projection. It stands before the other federation values because assurance, groups and
  departments report the same errors.
\<close>

datatype ProviderStage = Binding | Discovery | Jwks | Exchange | Claims

datatype ProviderReason =
  InvalidTrustAnchor | EgressDenied | TlsRejected | Unavailable | Timeout | InvalidResponse
| IssuerMismatch | IssuerResponseUnsupported | CodeRejected | InvalidToken

record ProviderFailure =
  pf_stage :: ProviderStage
  pf_reason :: ProviderReason

datatype FederationError =
  Configuration | Rejected | Conflict | StaleConfiguration | ProviderLimitReached | Unavailable
| Claims | Provider ProviderFailure

definition provider_error :: "ProviderStage \<Rightarrow> ProviderReason \<Rightarrow> FederationError" where
  "provider_error stage reason = Provider \<lparr>pf_stage = stage, pf_reason = reason\<rparr>"

fun diagnostic :: "FederationError \<Rightarrow> ProviderFailure" where
  "diagnostic (Provider f) = f"
| "diagnostic FederationError.Claims =
    \<lparr>pf_stage = ProviderStage.Claims, pf_reason = InvalidToken\<rparr>"
| "diagnostic FederationError.Unavailable = \<lparr>pf_stage = Discovery, pf_reason = Timeout\<rparr>"
| "diagnostic _ = \<lparr>pf_stage = Binding, pf_reason = InvalidResponse\<rparr>"

lemma diagnostic_provider_error:
  "diagnostic (provider_error s r) = \<lparr>pf_stage = s, pf_reason = r\<rparr>"
  by (simp add: provider_error_def)

end
