(* ===== verification/Session.thy ===== *)
theory Session
  imports Identifiers
begin

section \<open>Sessions (identity-core/src/session.rs)\<close>

text \<open>
  Session secrets (64 lower-case hexadecimal characters of 32 random bytes), their storage digest
  and the CSRF token derived from them, and the lifetime of a session: an idle deadline that
  activity moves, inside an absolute deadline that nothing moves. SHA-256 is a parameter, the
  random bytes are an argument (\<open>None\<close> when the system source fails).
\<close>

unbundle bit_operations_syntax

datatype SessionError = SessionError

definition DIGITS :: ustr where "DIGITS = lit ''0123456789abcdef''"

definition hex :: "byte list \<Rightarrow> ustr" where
  "hex bytes = concat (map (\<lambda>b. [DIGITS ! unat (drop_bit 4 b), DIGITS ! unat (b AND 15)]) bytes)"

datatype SessionSecret = SessionSecret ustr

fun expose :: "SessionSecret \<Rightarrow> ustr" where "expose (SessionSecret s) = s"

definition SessionSecret_generate :: "byte list option \<Rightarrow> SessionError + SessionSecret" where
  "SessionSecret_generate random =
    and_then (ok_or SessionError random) (\<lambda>bytes. Ok (SessionSecret (hex bytes)))"

definition is_lower_hex :: "nat \<Rightarrow> bool" where
  "is_lower_hex b \<longleftrightarrow> is_ascii_digit b \<or> 0x61 \<le> b \<and> b \<le> 0x66"

definition SessionSecret_parse :: "ustr \<Rightarrow> SessionError + SessionSecret" where
  "SessionSecret_parse value =
    (if byte_len value \<noteq> 64 \<or> \<not> list_all (\<lambda>b. is_lower_hex (unat b)) (utf8 value)
     then Err SessionError else Ok (SessionSecret value))"

definition SessionSecret_digest :: "(byte list \<Rightarrow> byte list) \<Rightarrow> SessionSecret \<Rightarrow> byte list" where
  "SessionSecret_digest sha256 s = sha256 (utf8 (expose s))"

definition CSRF_DOMAIN :: "byte list" where
  "CSRF_DOMAIN = utf8 (lit ''rss-identity.session.csrf.v1'') @ [0]"

definition csrf :: "(byte list \<Rightarrow> byte list) \<Rightarrow> SessionSecret \<Rightarrow> ustr" where
  "csrf sha256 s = hex (sha256 (CSRF_DOMAIN @ utf8 (expose s)))"

definition check_csrf :: "(byte list \<Rightarrow> byte list) \<Rightarrow> SessionSecret \<Rightarrow> ustr \<Rightarrow> bool" where
  "check_csrf sha256 s presented \<longleftrightarrow> utf8 (csrf sha256 s) = utf8 presented"

datatype CredentialKind = Cookie | Bearer

fun CredentialKind_as_str :: "CredentialKind \<Rightarrow> ustr" where
  "CredentialKind_as_str Cookie = lit ''cookie''"
| "CredentialKind_as_str Bearer = lit ''bearer''"

datatype BearerSecret = BearerSecret SessionSecret

definition BearerSecret_parse :: "ustr \<Rightarrow> SessionError + BearerSecret" where
  "BearerSecret_parse value = and_then (SessionSecret_parse value) (\<lambda>s. Ok (BearerSecret s))"

fun BearerSecret_digest :: "(byte list \<Rightarrow> byte list) \<Rightarrow> BearerSecret \<Rightarrow> byte list" where
  "BearerSecret_digest sha256 (BearerSecret s) = SessionSecret_digest sha256 s"

datatype AuthenticationSource = LocalPassword | Oidc | Platform

subsection \<open>Policies and lifetimes\<close>

record SessionPolicy =
  pol_idle :: int
  pol_absolute :: int

definition SessionPolicy_new :: "int \<Rightarrow> int \<Rightarrow> SessionError + SessionPolicy" where
  "SessionPolicy_new idle_seconds absolute_seconds =
    (if idle_seconds \<le> 0 \<or> absolute_seconds < idle_seconds then Err SessionError
     else Ok \<lparr>pol_idle = idle_seconds, pol_absolute = absolute_seconds\<rparr>)"

record SessionLifetime =
  lt_policy :: SessionPolicy
  lt_issued_at :: int
  lt_idle_expires_at :: int
  lt_absolute_expires_at :: int

definition SessionLifetime_restore ::
  "int \<Rightarrow> int \<Rightarrow> int \<Rightarrow> SessionPolicy \<Rightarrow> SessionError + SessionLifetime" where
  "SessionLifetime_restore issued_at idle_expires_at absolute_expires_at policy =
    (if issued_at \<le> 0 \<or> idle_expires_at \<le> issued_at \<or> idle_expires_at > absolute_expires_at
        \<or> (case checked_sub absolute_expires_at issued_at of
             None \<Rightarrow> True | Some duration \<Rightarrow> duration \<noteq> pol_absolute policy)
     then Err SessionError
     else Ok \<lparr>lt_policy = policy, lt_issued_at = issued_at, lt_idle_expires_at = idle_expires_at,
              lt_absolute_expires_at = absolute_expires_at\<rparr>)"

definition SessionLifetime_new :: "int \<Rightarrow> SessionPolicy \<Rightarrow> SessionError + SessionLifetime" where
  "SessionLifetime_new now policy =
    and_then (ok_or SessionError (checked_add now (pol_idle policy))) (\<lambda>idle.
    and_then (ok_or SessionError (checked_add now (pol_absolute policy))) (\<lambda>absolute.
    SessionLifetime_restore now idle absolute policy))"

definition valid_at :: "SessionLifetime \<Rightarrow> int \<Rightarrow> bool" where
  "valid_at l now \<longleftrightarrow>
    lt_issued_at l \<le> now \<and> now < lt_idle_expires_at l \<and> now < lt_absolute_expires_at l"

definition renew :: "SessionLifetime \<Rightarrow> int \<Rightarrow> SessionError + SessionLifetime" where
  "renew l now =
    and_then (ensure (valid_at l now) SessionError) (\<lambda>_.
    and_then (ok_or SessionError (checked_add now (pol_idle (lt_policy l)))) (\<lambda>t.
    Ok (l\<lparr>lt_idle_expires_at := max (lt_idle_expires_at l) (min t (lt_absolute_expires_at l))\<rparr>)))"

text \<open>A sequence of activity instants; the first one that is not valid ends it.\<close>

fun renew_all :: "SessionLifetime \<Rightarrow> int list \<Rightarrow> SessionError + SessionLifetime" where
  "renew_all l [] = Ok l"
| "renew_all l (t # ts) = and_then (renew l t) (\<lambda>l'. renew_all l' ts)"

definition lifetime_inv :: "SessionLifetime \<Rightarrow> bool" where
  "lifetime_inv l \<longleftrightarrow>
    0 < lt_issued_at l \<and> lt_issued_at l < lt_idle_expires_at l
    \<and> lt_idle_expires_at l \<le> lt_absolute_expires_at l
    \<and> lt_absolute_expires_at l - lt_issued_at l = pol_absolute (lt_policy l)
    \<and> in_i64 (pol_absolute (lt_policy l))"

subsection \<open>Secrets are canonical\<close>

lemma DIGITS_eq: "DIGITS = [48, 49, 50, 51, 52, 53, 54, 55, 56, 57, 97, 98, 99, 100, 101, 102]"
  by (simp add: DIGITS_def lit_def)

lemma length_DIGITS: "length DIGITS = 16"
  by (simp add: DIGITS_eq)

lemma high_nibble_eq: "unat (drop_bit 4 (b::byte)) = unat b div 16"
  by (simp add: drop_bit_eq_div unat_div)

lemma low_nibble_eq: "unat ((b::byte) AND 15) = unat b mod 16"
proof -
  have "b AND 15 = take_bit 4 b"
    by (simp add: take_bit_eq_mask mask_eq_exp_minus_1)
  also have "\<dots> = b mod 16" by (simp add: take_bit_eq_mod)
  finally show ?thesis by (simp add: unat_mod)
qed

lemma nibbles_less: "unat (b::byte) div 16 < 16" "unat (b::byte) mod 16 < 16"
proof -
  have "unat b < 2 ^ LENGTH(8)" by (rule unsigned_less)
  then show "unat b div 16 < 16" by simp
qed simp

lemma nth_DIGITS_lower_hex: "i < 16 \<Longrightarrow> is_lower_hex (DIGITS ! i)"
proof -
  assume "i < 16"
  then have "DIGITS ! i \<in> set DIGITS" by (simp add: length_DIGITS)
  then show ?thesis by (auto simp: DIGITS_eq is_lower_hex_def is_ascii_digit_def)
qed

lemma DIGITS_inject: "i < 16 \<Longrightarrow> j < 16 \<Longrightarrow> DIGITS ! i = DIGITS ! j \<longleftrightarrow> i = j"
  by (rule nth_eq_iff_index_eq) (simp_all add: DIGITS_eq)

lemma length_hex [simp]: "length (hex bs) = 2 * length bs"
  by (induction bs) (simp_all add: hex_def)

lemma hex_lower_hex: "list_all is_lower_hex (hex bs)"
  by (induction bs) (simp_all add: hex_def nth_DIGITS_lower_hex high_nibble_eq low_nibble_eq nibbles_less)

lemma byte_of_nibbles:
  assumes "unat (b::byte) div 16 = unat c div 16" and "unat b mod 16 = unat c mod 16"
  shows "b = c"
proof -
  have "unat b = unat c" using assms by (metis div_mult_mod_eq)
  then show ?thesis by (rule unsigned_word_eqI)
qed

lemma hex_inject: "hex bs = hex cs \<longleftrightarrow> bs = cs"
proof
  show "hex bs = hex cs \<Longrightarrow> bs = cs"
  proof (induction bs arbitrary: cs)
    case Nil
    then show ?case using length_hex [of cs] by (simp add: hex_def)
  next
    case (Cons b bs)
    then obtain c cs' where cs: "cs = c # cs'" by (cases cs) (simp_all add: hex_def)
    with Cons.prems have "DIGITS ! (unat b div 16) = DIGITS ! (unat c div 16)"
      "DIGITS ! (unat b mod 16) = DIGITS ! (unat c mod 16)" and tails: "hex bs = hex cs'"
      by (simp_all add: hex_def high_nibble_eq low_nibble_eq)
    then have "b = c"
      by (intro byte_of_nibbles) (simp_all add: DIGITS_inject nibbles_less)
    with Cons.IH [OF tails] cs show ?case by simp
  qed
qed simp

lemma lower_hex_ascii: "is_lower_hex c \<Longrightarrow> c < 128"
  by (auto simp: is_lower_hex_def is_ascii_digit_def)

lemma utf8_lower_hex: "list_all is_lower_hex s \<Longrightarrow> utf8 s = map of_nat s \<and> is_ascii s"
  by (induction s) (auto simp: utf8_def utf8_char_def is_ascii_def dest: lower_hex_ascii)

lemma SessionSecret_parse_hex: "length bs = 32 \<Longrightarrow> SessionSecret_parse (hex bs) = Inr (SessionSecret (hex bs))"
proof -
  assume len: "length bs = 32"
  have hex: "list_all is_lower_hex (hex bs)" by (rule hex_lower_hex)
  then have "byte_len (hex bs) = 64" using len utf8_lower_hex by (simp add: byte_len_ascii)
  moreover have "unat (of_nat c :: byte) = c" if "c \<in> set (hex bs)" for c
  proof -
    have "c < 128" using hex that by (auto simp: list_all_iff dest: lower_hex_ascii)
    then show ?thesis by (simp add: unat_of_nat)
  qed
  then have "list_all (\<lambda>b. is_lower_hex (unat b)) (utf8 (hex bs))"
    using hex utf8_lower_hex [OF hex] by (auto simp: list_all_iff)
  ultimately show ?thesis by (simp add: SessionSecret_parse_def)
qed

subsection \<open>Lifetimes\<close>

lemma SessionLifetime_restore_Ok:
  "SessionLifetime_restore i e a p = Inr l \<longleftrightarrow>
    l = \<lparr>lt_policy = p, lt_issued_at = i, lt_idle_expires_at = e, lt_absolute_expires_at = a\<rparr>
    \<and> lifetime_inv l"
  by (auto simp: SessionLifetime_restore_def lifetime_inv_def i64_simps split: option.splits)

lemma SessionLifetime_new_Ok:
  assumes "SessionLifetime_new now p = Inr l"
  shows "lifetime_inv l" "lt_policy l = p" "lt_issued_at l = now"
    "lt_idle_expires_at l = now + pol_idle p" "lt_absolute_expires_at l = now + pol_absolute p"
  using assms by (auto simp: SessionLifetime_new_def result_simps i64_simps SessionLifetime_restore_Ok)

lemma renew_Ok:
  "renew l t = Inr l' \<longleftrightarrow>
    valid_at l t \<and> in_i64 (t + pol_idle (lt_policy l))
    \<and> l' = l\<lparr>lt_idle_expires_at := max (lt_idle_expires_at l)
           (min (t + pol_idle (lt_policy l)) (lt_absolute_expires_at l))\<rparr>"
  by (auto simp: renew_def result_simps i64_simps)

lemma renew_inv: "renew l t = Inr l' \<Longrightarrow> lifetime_inv l \<Longrightarrow> lifetime_inv l'"
  by (auto simp: renew_Ok lifetime_inv_def)

lemma renew_all_frame:
  "renew_all l ts = Inr l' \<Longrightarrow> lt_policy l' = lt_policy l \<and> lt_issued_at l' = lt_issued_at l
     \<and> lt_absolute_expires_at l' = lt_absolute_expires_at l
     \<and> lt_idle_expires_at l \<le> lt_idle_expires_at l'"
  by (induction ts arbitrary: l) (fastforce simp: result_simps renew_Ok)+

lemma renew_all_inv: "renew_all l ts = Inr l' \<Longrightarrow> lifetime_inv l \<Longrightarrow> lifetime_inv l'"
  by (induction ts arbitrary: l) (auto simp: result_simps dest: renew_inv)

lemma renew_all_idle:
  "renew_all l ts = Inr l' \<Longrightarrow>
    lt_idle_expires_at l' = lt_idle_expires_at l
    \<or> (\<exists>t\<in>set ts. lt_idle_expires_at l' \<le> t + pol_idle (lt_policy l) \<and> valid_at l' t)"
proof (induction ts arbitrary: l)
  case (Cons t ts)
  then obtain m where m: "renew l t = Inr m" "renew_all m ts = Inr l'" by (auto simp: result_simps)
  have frame: "lt_policy m = lt_policy l" "lt_idle_expires_at m \<le> lt_idle_expires_at l'"
    "lt_issued_at l' = lt_issued_at l" "lt_absolute_expires_at l' = lt_absolute_expires_at l"
    "lt_idle_expires_at l \<le> lt_idle_expires_at m"
    using m(1) renew_all_frame [OF m(2)] by (auto simp: renew_Ok)
  have valid: "valid_at l' t" using m(1) frame by (auto simp: renew_Ok valid_at_def)
  from Cons.IH [OF m(2)] show ?case
  proof
    assume same: "lt_idle_expires_at l' = lt_idle_expires_at m"
    show ?thesis
    proof (cases "lt_idle_expires_at m = lt_idle_expires_at l")
      case False
      then have "lt_idle_expires_at m \<le> t + pol_idle (lt_policy l)"
        using m(1) by (auto simp: renew_Ok)
      with same valid show ?thesis by auto
    qed (use same in simp)
  qed (use frame in auto)
qed simp

text \<open>The stored columns of a lifetime restore to the same lifetime.\<close>

fun restore_columns :: "int \<times> int \<times> int \<times> SessionPolicy \<Rightarrow> SessionError + SessionLifetime" where
  "restore_columns (issued_at, idle_expires_at, absolute_expires_at, policy) =
    SessionLifetime_restore issued_at idle_expires_at absolute_expires_at policy"

definition lifetime_columns :: "SessionLifetime \<Rightarrow> int \<times> int \<times> int \<times> SessionPolicy" where
  "lifetime_columns l =
    (lt_issued_at l, lt_idle_expires_at l, lt_absolute_expires_at l, lt_policy l)"

interpretation lifetime: checked_value restore_columns lifetime_columns lifetime_inv
proof unfold_locales
  show "lifetime_inv v" if "restore_columns r = Inr v" for r v
    using that by (cases r) (auto simp: SessionLifetime_restore_Ok)
  show "restore_columns (lifetime_columns v) = Inr v" if "lifetime_inv v" for v
    using that by (simp add: lifetime_columns_def SessionLifetime_restore_Ok)
qed

subsection \<open>Properties\<close>

text \<open>A generated secret is canonical: it has 64 characters, parsing its text gives the same secret
  back, and two different draws of 32 random bytes give different secrets.\<close>

theorem session_secret_roundtrip:
  assumes "length bs = 32" and "SessionSecret_generate (Some bs) = Inr s"
  shows "SessionSecret_parse (expose s) = Inr s \<and> length (expose s) = 64
    \<and> (SessionSecret_generate (Some cs) = Inr s \<longrightarrow> cs = bs)"
  using assms by (auto simp: SessionSecret_generate_def SessionSecret_parse_hex hex_inject)

theorem session_secret_roundtrip_witness:
  "SessionSecret_parse (hex (replicate 32 171)) = Inr (SessionSecret (hex (replicate 32 171)))"
  using session_secret_roundtrip [of "replicate 32 171" "SessionSecret (hex (replicate 32 171))"]
  by (simp add: SessionSecret_generate_def)

text \<open>Whatever sequence of activity renews a session, it is valid only from its issue on, never
  at or after the absolute deadline fixed at issue, and only within the idle window of its issue
  or of one of the recorded activities.\<close>

theorem session_never_outlives_deadlines:
  assumes "SessionLifetime_new now p = Inr l" and "renew_all l ts = Inr l'" and "valid_at l' t"
  shows "now \<le> t \<and> t < now + pol_absolute p \<and> (\<exists>a\<in>insert now (set ts). t < a + pol_idle p)"
proof -
  note fresh = SessionLifetime_new_Ok [OF assms(1)]
  have "now \<le> t \<and> t < now + pol_absolute p"
    using assms(3) fresh renew_all_frame [OF assms(2)] by (auto simp: valid_at_def)
  moreover have "t < lt_idle_expires_at l'" using assms(3) by (simp add: valid_at_def)
  ultimately show ?thesis using renew_all_idle [OF assms(2)] fresh by fastforce
qed

theorem session_never_outlives_deadlines_witness:
  "\<exists>a\<in>insert 1000 (set [2799 :: int]). 4598 < a + 1800"
proof -
  let ?p = "\<lparr>pol_idle = 1800, pol_absolute = 28800\<rparr>"
  let ?l = "\<lparr>lt_policy = ?p, lt_issued_at = 1000, lt_idle_expires_at = 2800,
     lt_absolute_expires_at = 29800\<rparr>"
  have new: "SessionLifetime_new 1000 ?p = Inr ?l"
    by (simp add: SessionLifetime_new_def SessionLifetime_restore_def checked_add_def
        checked_sub_def i64_unfold)
  have renewed: "renew_all ?l [2799] = Inr (?l\<lparr>lt_idle_expires_at := 4599\<rparr>)"
    by (simp add: result_simps renew_Ok valid_at_def i64_unfold)
  show ?thesis
    using session_never_outlives_deadlines [OF new renewed, of 4598] by (simp add: valid_at_def)
qed

text \<open>A renewal succeeds exactly for an instant at which the session is valid (and whose idle
  deadline is an \<open>i64\<close>), keeps everything but the idle deadline, keeps the stored row restorable,
  and makes the session valid exactly up to the later of its old idle deadline and the new one cut
  at the absolute deadline.\<close>

theorem renew_extends_exactly:
  assumes "lifetime_inv l" and "renew l t = Inr l'"
  shows "valid_at l t \<and> restore_columns (lifetime_columns l') = Inr l'
    \<and> lt_absolute_expires_at l' = lt_absolute_expires_at l
    \<and> (valid_at l' t' \<longleftrightarrow> lt_issued_at l \<le> t'
        \<and> t' < max (lt_idle_expires_at l)
                 (min (t + pol_idle (lt_policy l)) (lt_absolute_expires_at l)))"
  using assms lifetime.check_raw [OF renew_inv [OF assms(2,1)]]
  by (auto simp: renew_Ok valid_at_def lifetime_inv_def)

theorem renew_extends_exactly_witness:
  "valid_at \<lparr>lt_policy = \<lparr>pol_idle = 900, pol_absolute = 14400\<rparr>, lt_issued_at = 1000,
      lt_idle_expires_at = 1900, lt_absolute_expires_at = 15400\<rparr> 1800"
  using renew_extends_exactly [of "\<lparr>lt_policy = \<lparr>pol_idle = 900, pol_absolute = 14400\<rparr>,
      lt_issued_at = 1000, lt_idle_expires_at = 1900, lt_absolute_expires_at = 15400\<rparr>" 1800
    "\<lparr>lt_policy = \<lparr>pol_idle = 900, pol_absolute = 14400\<rparr>, lt_issued_at = 1000,
      lt_idle_expires_at = 2700, lt_absolute_expires_at = 15400\<rparr>"]
  by (simp add: renew_Ok valid_at_def lifetime_inv_def i64_unfold)

end
