(* ===== verification/Entra.thy ===== *)
theory Entra
  imports Federation_Error Identifiers Session
begin

section \<open>External subjects and the Entra token profile (identity-core/src/entra.rs)\<close>

text \<open>
  An external subject is an OIDC subject or an Entra user of one tenant. Its storage key is the
  only form the authority keeps, so it must not confuse two subjects. Printing a UUID (the \<open>uuid\<close>
  crate) is a parameter; what the key relies on is that the printed form has a fixed length and
  is injective. \<open>hyphenated\<close> is the form the crate documents and shows both can hold.
\<close>

datatype SubjectMapping = Oidc | Entra uuid

datatype ExternalSubject = Oidc ustr | Entra uuid uuid

fun ExternalSubject_validate :: "ExternalSubject \<Rightarrow> FederationError + unit" where
  "ExternalSubject_validate (ExternalSubject.Oidc v) =
    (if v \<noteq> [] \<and> byte_len v \<le> 255 \<and> \<not> list_ex is_control v then Ok ()
     else Err FederationError.Claims)"
| "ExternalSubject_validate (ExternalSubject.Entra tenant user) =
    (if tenant \<noteq> uuid_nil \<and> user \<noteq> uuid_nil then Ok () else Err FederationError.Claims)"

fun storage_key :: "(uuid \<Rightarrow> ustr) \<Rightarrow> ExternalSubject \<Rightarrow> ustr" where
  "storage_key show_uuid (ExternalSubject.Oidc v) = lit ''oidc:'' @ v"
| "storage_key show_uuid (ExternalSubject.Entra tenant user) =
    lit ''entra:'' @ show_uuid tenant @ lit '':'' @ show_uuid user"

fun subject_matches :: "ExternalSubject \<Rightarrow> SubjectMapping \<Rightarrow> bool" where
  "subject_matches (ExternalSubject.Oidc _) SubjectMapping.Oidc = True"
| "subject_matches (ExternalSubject.Entra a _) (SubjectMapping.Entra b) = (a = b)"
| "subject_matches _ _ = False"

record EntraTokenProfile =
  et_tenant :: uuid
  et_app_id :: uuid
  et_authorized_clients :: "uuid list"
  et_required_scopes :: "ustr list"
  et_device_claim :: ustr

definition ENTRA_RESERVED :: "ustr list" where
  "ENTRA_RESERVED = map lit
    [''iss'', ''aud'', ''tid'', ''oid'', ''sub'', ''idtyp'', ''ver'', ''azp'', ''exp'', ''nbf'',
     ''iat'', ''scp'']"

definition is_claim_name_byte :: "byte \<Rightarrow> bool" where
  "is_claim_name_byte b \<longleftrightarrow> is_ascii_alphanumeric (unat b) \<or> b = 0x5F"

definition EntraTokenProfile_validate :: "EntraTokenProfile \<Rightarrow> FederationError + unit" where
  "EntraTokenProfile_validate p =
    (if et_tenant p = uuid_nil \<or> et_app_id p = uuid_nil
        \<or> et_authorized_clients p = [] \<or> length (et_authorized_clients p) > 16
        \<or> list_ex (\<lambda>c. c = uuid_nil) (et_authorized_clients p)
        \<or> card (set (et_authorized_clients p)) \<noteq> length (et_authorized_clients p)
        \<or> length (et_required_scopes p) > 16
        \<or> list_ex (\<lambda>s. s = [] \<or> byte_len s > 128 \<or> list_ex is_whitespace s) (et_required_scopes p)
        \<or> et_device_claim p = [] \<or> byte_len (et_device_claim p) > 64
        \<or> \<not> list_all is_claim_name_byte (utf8 (et_device_claim p))
        \<or> et_device_claim p \<in> set ENTRA_RESERVED
     then Err FederationError.Configuration else Ok ())"

definition entra_issuer :: "(uuid \<Rightarrow> ustr) \<Rightarrow> uuid \<Rightarrow> ustr" where
  "entra_issuer show_uuid tenant =
    lit ''https://login.microsoftonline.com/'' @ show_uuid tenant @ lit ''/v2.0''"

definition EntraTokenProfile_issuer :: "(uuid \<Rightarrow> ustr) \<Rightarrow> EntraTokenProfile \<Rightarrow> ustr" where
  "EntraTokenProfile_issuer show_uuid p = entra_issuer show_uuid (et_tenant p)"

record EntraTokenClaims =
  ec_tenant :: uuid
  ec_user :: uuid
  ec_device :: "uuid option"
  ec_issued_at :: int
  ec_expires_at :: int

definition EntraTokenClaims_subject :: "EntraTokenClaims \<Rightarrow> ExternalSubject" where
  "EntraTokenClaims_subject c = ExternalSubject.Entra (ec_tenant c) (ec_user c)"

definition EntraTokenClaims_validate ::
  "EntraTokenClaims \<Rightarrow> EntraTokenProfile \<Rightarrow> FederationError + unit" where
  "EntraTokenClaims_validate c p =
    and_then (EntraTokenProfile_validate p) (\<lambda>_.
    and_then (ExternalSubject_validate (EntraTokenClaims_subject c)) (\<lambda>_.
    if ec_tenant c \<noteq> et_tenant p \<or> ec_device c = Some uuid_nil
       \<or> ec_issued_at c \<le> 0 \<or> ec_expires_at c \<le> ec_issued_at c
    then Err FederationError.Claims else Ok ()))"

subsection \<open>One subject, one key\<close>

text \<open>The hyphenated form of a UUID: 32 hexadecimal digits in groups of 8, 4, 4, 4 and 12.\<close>

definition hyphenated :: "uuid \<Rightarrow> ustr" where
  "hyphenated u =
    (let h = hex (uuid_bytes u); dash = lit ''-'' in
     take 8 h @ dash @ take 4 (drop 8 h) @ dash @ take 4 (drop 12 h) @ dash
       @ take 4 (drop 16 h) @ dash @ drop 20 h)"

lemma length_hyphenated: "length (hyphenated u) = 36"
  by (simp add: hyphenated_def Let_def lit_def)

lemma hyphenated_hex:
  "hex (uuid_bytes u) = (let t = hyphenated u in take 8 t @ take 4 (drop 9 t) @ take 4 (drop 14 t)
     @ take 4 (drop 19 t) @ drop 24 t)"
proof -
  obtain h where h: "h = hex (uuid_bytes u)" "length h = 32" by simp
  have "h = take 8 h @ take 4 (drop 8 h) @ take 4 (drop 12 h) @ take 4 (drop 16 h) @ drop 20 h"
    by (simp flip: take_add drop_drop append_assoc add: h)
  with h show ?thesis
    by (simp add: hyphenated_def Let_def lit_def)
qed

lemma inj_hyphenated: "inj hyphenated"
  by (rule injI) (metis hyphenated_hex hex_inject uuid_bytes_inject)

lemma lit_oidc_entra: "lit ''oidc:'' @ s \<noteq> lit ''entra:'' @ t"
  by (simp add: lit_def)

lemma lit_entra_oidc: "lit ''entra:'' @ s \<noteq> lit ''oidc:'' @ t"
  by (simp add: lit_def)

lemma subject_matches_iff:
  "subject_matches (ExternalSubject.Oidc v) m \<longleftrightarrow> m = SubjectMapping.Oidc"
  "subject_matches (ExternalSubject.Entra t u) m \<longleftrightarrow> m = SubjectMapping.Entra t"
  by (cases m; auto)+

lemma unique_mapping: "\<exists>!m. subject_matches a m"
  by (cases a) (simp_all add: subject_matches_iff)

lemma storage_key_inject:
  assumes "inj show_uuid" "\<And>u. length (show_uuid u) = 36"
  shows "storage_key show_uuid a = storage_key show_uuid b \<longleftrightarrow> a = b"
proof -
  have show_inj: "show_uuid u = show_uuid v \<longleftrightarrow> u = v" for u v
    using assms(1) by (rule inj_eq)
  have run: "show_uuid t @ x = show_uuid t' @ y \<longleftrightarrow> t = t' \<and> x = y" for t t' x y
    using show_inj [of t t'] by (simp add: append_eq_append_conv assms(2))
  show ?thesis
    by (cases a; cases b)
      (simp_all only: storage_key.simps same_append_eq run show_inj lit_oidc_entra lit_entra_oidc
        ExternalSubject.inject ExternalSubject.distinct)
qed

text \<open>The storage key of an external subject identifies it: two subjects have the same key
  exactly when they are the same subject, so an OIDC subject whose text imitates the Entra
  form, and Entra pairs whose printed parts could run together, never share an account link.
  A subject fits exactly one interpretation of a provider, so no subject is admitted under
  two mappings. The only reliance on the UUID printer is that it is injective and has a fixed
  length, which the hyphenated form satisfies.\<close>

theorem storage_key_identifies:
  assumes "inj show_uuid" "\<forall>u. length (show_uuid u) = 36"
  shows "(storage_key show_uuid a = storage_key show_uuid b \<longleftrightarrow> a = b)
    \<and> (\<exists>!m. subject_matches a m)"
  using storage_key_inject [OF assms(1), of a b] assms(2) unique_mapping by blast

theorem storage_key_identifies_witness:
  "storage_key hyphenated (ExternalSubject.Entra 1 2) \<noteq> storage_key hyphenated (ExternalSubject.Entra 2 1)
   \<and> storage_key hyphenated (ExternalSubject.Entra 1 2) \<noteq>
      storage_key hyphenated (ExternalSubject.Oidc (lit ''entra:1:2''))"
  using storage_key_identifies [OF inj_hyphenated, of "ExternalSubject.Entra 1 2" "ExternalSubject.Entra 2 1"]
    storage_key_identifies [OF inj_hyphenated, of "ExternalSubject.Entra 1 2"
      "ExternalSubject.Oidc (lit ''entra:1:2'')"]
  by (simp add: length_hyphenated)

lemma ExternalSubject_validate_Ok:
  "ExternalSubject_validate s = Ok u \<longleftrightarrow>
    (case s of ExternalSubject.Oidc v \<Rightarrow> v \<noteq> [] \<and> byte_len v \<le> 255 \<and> \<not> list_ex is_control v
     | ExternalSubject.Entra t v \<Rightarrow> t \<noteq> uuid_nil \<and> v \<noteq> uuid_nil)"
  by (cases s) auto

lemma EntraTokenClaims_validate_Ok:
  "EntraTokenClaims_validate c p = Ok u \<Longrightarrow>
    EntraTokenProfile_validate p = Ok () \<and> ExternalSubject_validate (EntraTokenClaims_subject c) = Ok ()
    \<and> subject_matches (EntraTokenClaims_subject c) (SubjectMapping.Entra (et_tenant p))
    \<and> ec_device c \<noteq> Some uuid_nil \<and> 0 < ec_issued_at c \<and> ec_issued_at c < ec_expires_at c"
  by (auto simp: EntraTokenClaims_validate_def and_then_Inr_iff EntraTokenClaims_subject_def
      split: if_splits)

lemma EntraTokenProfile_validate_Ok:
  "EntraTokenProfile_validate p = Ok u \<Longrightarrow>
    et_tenant p \<noteq> uuid_nil \<and> et_app_id p \<noteq> uuid_nil \<and> distinct (et_authorized_clients p)
    \<and> et_authorized_clients p \<noteq> [] \<and> uuid_nil \<notin> set (et_authorized_clients p)
    \<and> et_device_claim p \<notin> set ENTRA_RESERVED"
  by (auto simp: EntraTokenProfile_validate_def list_ex_iff card_distinct split: if_splits)

end
