(* ===== verification/Facts.thy ===== *)
theory Facts
  imports Identifiers Federation_Error
begin

section \<open>Fact sources and observation windows (identity-core/src/facts.rs)\<close>

text \<open>
  The time rules that group and department facts share, and the source an observation names. URL
  parsing (the \<open>url\<close> crate) is a parameter that gives the parts of an absolute URL.
\<close>

definition MIN_TTL_SECONDS :: int where "MIN_TTL_SECONDS = 1"
definition MAX_TTL_SECONDS :: int where "MAX_TTL_SECONDS = 300"
definition MAX_FUTURE_SKEW_SECONDS :: int where "MAX_FUTURE_SKEW_SECONDS = 30"

definition valid_max_age :: "int \<Rightarrow> bool" where
  "valid_max_age seconds \<longleftrightarrow> MIN_TTL_SECONDS \<le> seconds \<and> seconds \<le> MAX_TTL_SECONDS"

definition valid_snapshot_window :: "int \<Rightarrow> int \<Rightarrow> bool" where
  "valid_snapshot_window observed_at expires_at \<longleftrightarrow>
    observed_at > 0
    \<and> (case checked_sub expires_at observed_at of None \<Rightarrow> False | Some d \<Rightarrow> valid_max_age d)"

definition acceptable_observation :: "int \<Rightarrow> int \<Rightarrow> bool" where
  "acceptable_observation observed_at now \<longleftrightarrow>
    observed_at > 0 \<and> now > 0
    \<and> (case checked_sub observed_at now of None \<Rightarrow> False
       | Some ahead \<Rightarrow> ahead \<le> MAX_FUTURE_SKEW_SECONDS)"

datatype FactUnavailableReason = LocalIdentity | NotConfigured | ClaimMissing | NotYetValid

record url_parts =
  url_scheme :: ustr
  url_host :: "ustr option"
  url_username :: ustr
  url_password :: "ustr option"
  url_query :: "ustr option"
  url_fragment :: "ustr option"
  url_path :: ustr
  url_names :: "ustr list"
  url_str :: ustr

record FactSource =
  fs_provider_id :: uuid
  fs_issuer :: ustr

definition valid_issuer :: "(ustr \<Rightarrow> url_parts option) \<Rightarrow> ustr \<Rightarrow> bool" where
  "valid_issuer url_parse value \<longleftrightarrow>
    byte_len value \<le> 2048 \<and> trim value = value \<and> \<not> list_ex is_control value
    \<and> (case url_parse value of None \<Rightarrow> False
       | Some u \<Rightarrow> url_scheme u \<in> {lit ''https'', lit ''http''} \<and> url_host u \<noteq> None
           \<and> url_username u = [] \<and> url_password u = None \<and> url_query u = None
           \<and> url_fragment u = None)"

definition FactSource_new ::
  "(ustr \<Rightarrow> url_parts option) \<Rightarrow> uuid \<Rightarrow> ustr \<Rightarrow> ValidationError + FactSource" where
  "FactSource_new url_parse provider_id issuer =
    (if provider_id = uuid_nil \<or> \<not> valid_issuer url_parse issuer then Err InvalidValue
     else Ok \<lparr>fs_provider_id = provider_id, fs_issuer = issuer\<rparr>)"

definition FactSource_try_from ::
  "(ustr \<Rightarrow> url_parts option) \<Rightarrow> FactSource \<Rightarrow> ValidationError + FactSource" where
  "FactSource_try_from url_parse input =
    FactSource_new url_parse (fs_provider_id input) (fs_issuer input)"

definition facts_expires_at :: "int \<Rightarrow> int \<Rightarrow> int \<Rightarrow> int \<Rightarrow> FederationError + int" where
  "facts_expires_at max_age issued_at expires_at now =
    (if \<not> acceptable_observation issued_at now \<or> expires_at \<le> issued_at \<or> expires_at \<le> now
     then Err FederationError.Claims
     else and_then (ok_or FederationError.Claims (checked_add issued_at max_age)) (\<lambda>t.
          Ok (min t expires_at)))"

definition valid_source :: "(ustr \<Rightarrow> url_parts option) \<Rightarrow> FactSource \<Rightarrow> bool" where
  "valid_source url_parse s \<longleftrightarrow> fs_provider_id s \<noteq> uuid_nil \<and> valid_issuer url_parse (fs_issuer s)"

lemma FactSource_try_from_Ok:
  "FactSource_try_from url_parse i = Inr s \<longleftrightarrow> s = i \<and> valid_source url_parse i"
  by (auto simp: FactSource_try_from_def FactSource_new_def valid_source_def)

interpretation fact_source:
  checked_value "FactSource_try_from url_parse" "\<lambda>s. s" "valid_source url_parse" for url_parse
  by unfold_locales (simp_all add: FactSource_try_from_Ok)

lemma valid_snapshot_window_iff:
  "valid_snapshot_window o_at e_at \<longleftrightarrow> 0 < o_at \<and> 1 \<le> e_at - o_at \<and> e_at - o_at \<le> 300"
  by (auto simp: valid_snapshot_window_def valid_max_age_def MIN_TTL_SECONDS_def MAX_TTL_SECONDS_def
      checked_sub_def i64_unfold)

lemma acceptable_observation_iff:
  "acceptable_observation o_at now \<longleftrightarrow>
    0 < o_at \<and> 0 < now \<and> o_at - now \<le> 30 \<and> in_i64 (o_at - now)"
  by (auto simp: acceptable_observation_def MAX_FUTURE_SKEW_SECONDS_def checked_sub_def)

lemma facts_expires_at_Ok:
  "facts_expires_at age i e now = Inr t \<longleftrightarrow>
    acceptable_observation i now \<and> i < e \<and> now < e \<and> in_i64 (i + age) \<and> t = min (i + age) e"
  by (auto simp: facts_expires_at_def result_simps i64_simps)

subsection \<open>The contract of a bounded fact lifetime\<close>

text \<open>
  Group and department policies give a deadline from the signed observation alone. The contract:
  the deadline depends on the signed times only (refreshing later cannot move it), lies in the
  signed lifetime and within the shared five-minute window.
\<close>

locale bounded_deadline =
  fixes deadline :: "'p \<Rightarrow> int \<Rightarrow> int \<Rightarrow> int \<Rightarrow> FederationError + int"
    and max_age :: "'p \<Rightarrow> int"
    and valid_policy :: "'p \<Rightarrow> bool"
  assumes policy_age: "valid_policy p \<Longrightarrow> valid_max_age (max_age p)"
    and deadline_eq: "deadline p i e now = facts_expires_at (max_age p) i e now"
begin

lemma deadline_window:
  "valid_policy p \<Longrightarrow> deadline p i e now = Inr t \<Longrightarrow> valid_snapshot_window i t \<and> t \<le> e"
  using policy_age [of p]
  by (auto simp: deadline_eq facts_expires_at_Ok valid_snapshot_window_iff acceptable_observation_iff
      valid_max_age_def MIN_TTL_SECONDS_def MAX_TTL_SECONDS_def)

lemma deadline_fixed:
  "deadline p i e now = Inr t \<Longrightarrow> deadline p i e now' = Inr t' \<Longrightarrow> t' = t"
  by (auto simp: deadline_eq facts_expires_at_Ok)

lemma deadline_stale: "deadline p i e now = Inr t \<Longrightarrow> now < e"
  by (simp add: deadline_eq facts_expires_at_Ok)

end

end
