(* ===== verification/Group_Facts.thy ===== *)
theory Group_Facts
  imports Facts
begin

section \<open>Group observations (identity-core/src/groups.rs)\<close>

text \<open>
  Bounded, canonically ordered group values, the versioned observation that carries them, and the
  deployment policy for their lifetime. Strings compare by their code points, which is the order
  Rust's \<open>String\<close> has on the UTF-8 bytes.
\<close>

definition VERSION :: int where "VERSION = 1"

datatype Groups =
  Available (g_version: int) (g_source: FactSource) (g_snapshot_id: uuid)
    (g_provider_config_version: int) (g_observed_at: int) (g_expires_at: int) (g_values: "ustr list")
| Unavailable (g_version: int) (g_reason: FactUnavailableReason)
| Expired (g_version: int)

definition groups_unavailable :: "FactUnavailableReason \<Rightarrow> Groups" where
  "groups_unavailable reason = Groups.Unavailable VERSION reason"

definition bounded_values :: "ustr list \<Rightarrow> bool" where
  "bounded_values values \<longleftrightarrow>
    length values \<le> 100
    \<and> list_all (\<lambda>v. v \<noteq> [] \<and> byte_len v \<le> 256 \<and> \<not> list_ex is_control v) values"

definition canonical_values :: "ustr list \<Rightarrow> bool" where
  "canonical_values values \<longleftrightarrow> bounded_values values \<and> ascending values"

fun structurally_valid_at :: "Groups \<Rightarrow> int \<Rightarrow> bool" where
  "structurally_valid_at (Groups.Unavailable version _) now \<longleftrightarrow> version = VERSION"
| "structurally_valid_at (Expired version) now \<longleftrightarrow> version = VERSION"
| "structurally_valid_at (Available version _ snapshot_id config_version observed_at expires_at values) now
    \<longleftrightarrow> version = VERSION \<and> snapshot_id \<noteq> uuid_nil \<and> config_version > 0
      \<and> acceptable_observation observed_at now \<and> valid_snapshot_window observed_at expires_at
      \<and> canonical_values values"

datatype GroupFactsMaxAge = GroupFactsMaxAge int
fun group_max_age :: "GroupFactsMaxAge \<Rightarrow> int" where "group_max_age (GroupFactsMaxAge s) = s"

definition GroupFactsMaxAge_new :: "int \<Rightarrow> FederationError + GroupFactsMaxAge" where
  "GroupFactsMaxAge_new seconds =
    (if \<not> valid_max_age seconds then Err Configuration else Ok (GroupFactsMaxAge seconds))"

definition group_expires_at :: "GroupFactsMaxAge \<Rightarrow> int \<Rightarrow> int \<Rightarrow> int \<Rightarrow> FederationError + int" where
  "group_expires_at p issued_at expires_at now =
    facts_expires_at (group_max_age p) issued_at expires_at now"

datatype UpstreamGroups = NotConfigured | Missing | Present "ustr list"

definition UpstreamGroups_present :: "ustr list \<Rightarrow> FederationError + UpstreamGroups" where
  "UpstreamGroups_present values =
    (if \<not> bounded_values values then Err FederationError.Claims
     else Ok (Present (remdups_adj (sort values))))"

fun upstream_values :: "UpstreamGroups \<Rightarrow> ustr list option" where
  "upstream_values (Present values) = Some values"
| "upstream_values UpstreamGroups.NotConfigured = None"
| "upstream_values Missing = None"

definition UpstreamGroups_validate :: "UpstreamGroups \<Rightarrow> FederationError + unit" where
  "UpstreamGroups_validate g =
    (if (case upstream_values g of None \<Rightarrow> False | Some v \<Rightarrow> \<not> canonical_values v)
     then Err FederationError.Claims else Ok ())"

interpretation group_deadline: bounded_deadline group_expires_at group_max_age
  "\<lambda>p. GroupFactsMaxAge_new (group_max_age p) = Inr p"
proof unfold_locales
  show "valid_max_age (group_max_age p)" if "GroupFactsMaxAge_new (group_max_age p) = Inr p" for p
    using that by (simp add: GroupFactsMaxAge_new_def split: if_splits)
qed (simp add: group_expires_at_def)

lemma sorted_ascending_remdups_adj: "sorted xs \<Longrightarrow> ascending (remdups_adj xs)"
proof (induction xs rule: remdups_adj.induct)
  case (3 x y xs)
  have "remdups_adj (y # xs) = y # tl (remdups_adj (y # xs))"
    by (rule remdups_adj_Cons_alt [symmetric])
  with 3 show ?case
    by (cases "x = y") (simp, metis ascending.simps(1) order_le_neq_trans remdups_adj.simps(3)
        sorted2 sorted_simps(2) list.set_intros(1))
qed simp_all

lemma ascending_remdups_adj_sort: "ascending (remdups_adj (sort (xs :: 'a::linorder list)))"
  by (simp add: sorted_ascending_remdups_adj)

lemma bounded_values_normalised:
  "bounded_values vs \<Longrightarrow> bounded_values (remdups_adj (sort vs))"
  using remdups_adj_length [of "sort vs"] by (auto simp: bounded_values_def list_all_iff)

lemma ascending_unique: "ascending xs \<Longrightarrow> ascending ys \<Longrightarrow> set xs = set ys \<Longrightarrow> xs = ys"
  by (simp add: ascending_sorted_wrt strict_sorted_equal)

subsection \<open>Properties\<close>

text \<open>Group values accepted from a provider are stored in one canonical form: the values validate,
  keep exactly the members of the claim, and two claims with the same members give the same value
  whatever their order or repetitions.\<close>

theorem upstream_groups_canonical:
  assumes "UpstreamGroups_present vs = Inr g"
  shows "UpstreamGroups_validate g = Inr ()
    \<and> (\<exists>ws. g = Present ws \<and> set ws = set vs \<and> canonical_values ws)
    \<and> (set us = set vs \<longrightarrow> (\<forall>h. UpstreamGroups_present us = Inr h \<longrightarrow> h = g))"
proof -
  let ?ws = "remdups_adj (sort vs)"
  from assms have bounded: "bounded_values vs" and g: "g = Present ?ws"
    by (auto simp: UpstreamGroups_present_def split: if_splits)
  have canonical: "canonical_values ?ws"
    using bounded_values_normalised [OF bounded] ascending_remdups_adj_sort
    by (simp add: canonical_values_def)
  have "h = g" if "set us = set vs" "UpstreamGroups_present us = Inr h" for h
    using that g ascending_unique [OF ascending_remdups_adj_sort ascending_remdups_adj_sort, of us vs]
    by (auto simp: UpstreamGroups_present_def split: if_splits)
  with g canonical show ?thesis by (auto simp: UpstreamGroups_validate_def)
qed

theorem upstream_groups_canonical_witness:
  "UpstreamGroups_validate (Present [lit ''ops'', lit ''staff'']) = Inr ()"
  using upstream_groups_canonical [of "[lit ''staff'', lit ''ops'', lit ''staff'']"
      "Present [lit ''ops'', lit ''staff'']"]
  by (simp add: UpstreamGroups_present_def bounded_values_def lit_def utf8_width_def is_control_def)

end
