(* ===== verification/Department.thy ===== *)
theory Department
  imports Facts
begin

section \<open>Department snapshots (identity-core/src/department.rs)\<close>

text \<open>
  One full organisation tree and the memberships of a subject in it. The constructor checks the
  bounds, that node codes are unique, that there is one root and that following the parents of
  every node ends at a root within sixteen nodes, which excludes cycles and missing parents. The
  source keeps the nodes in a \<open>BTreeMap\<close>; here the map is the list of its entries, as only
  lookups and order-independent checks use it.
\<close>

datatype DepartmentId = DepartmentId ustr
fun department_str :: "DepartmentId \<Rightarrow> ustr" where "department_str (DepartmentId s) = s"

definition bounded_label :: "ustr \<Rightarrow> bool" where
  "bounded_label s \<longleftrightarrow> s \<noteq> [] \<and> byte_len s \<le> 256 \<and> trim s = s \<and> \<not> list_ex is_control s"

definition DepartmentId_new :: "ustr \<Rightarrow> FederationError + DepartmentId" where
  "DepartmentId_new value =
    (if value = [] \<or> byte_len value > 256 \<or> trim value \<noteq> value \<or> list_ex is_control value
     then Err FederationError.Claims else Ok (DepartmentId value))"

record DepartmentSnapshotClaim =
  dc_claim :: ustr
  dc_max_age_seconds :: int

definition RESERVED :: "ustr list" where
  "RESERVED = map lit
    [''iss'', ''sub'', ''sid'', ''aud'', ''exp'', ''nbf'', ''iat'', ''jti'', ''auth_time'', ''nonce'',
     ''acr'', ''amr'', ''azp'', ''at_hash'', ''c_hash'', ''s_hash'', ''name'', ''given_name'',
     ''family_name'', ''middle_name'', ''nickname'', ''preferred_username'', ''profile'',
     ''picture'', ''website'', ''email'', ''email_verified'', ''gender'', ''birthdate'',
     ''zoneinfo'', ''locale'', ''phone_number'', ''phone_number_verified'', ''address'',
     ''updated_at'']"

definition is_claim_byte :: "byte \<Rightarrow> bool" where
  "is_claim_byte b \<longleftrightarrow> is_ascii_alphanumeric (unat b) \<or> b = 0x5F"

definition DepartmentSnapshotClaim_new :: "ustr \<Rightarrow> int \<Rightarrow> FederationError + DepartmentSnapshotClaim" where
  "DepartmentSnapshotClaim_new claim max_age_seconds =
    (if claim = [] \<or> byte_len claim > 64 \<or> \<not> list_all is_claim_byte (utf8 claim)
        \<or> claim \<in> set RESERVED \<or> \<not> valid_max_age max_age_seconds
     then Err Configuration
     else Ok \<lparr>dc_claim = claim, dc_max_age_seconds = max_age_seconds\<rparr>)"

definition department_expires_at ::
  "DepartmentSnapshotClaim \<Rightarrow> int \<Rightarrow> int \<Rightarrow> int \<Rightarrow> FederationError + int" where
  "department_expires_at c issued_at expires_at now =
    facts_expires_at (dc_max_age_seconds c) issued_at expires_at now"

record DepartmentNode =
  dn_id :: DepartmentId
  dn_display_name :: ustr
  dn_parent_id :: "DepartmentId option"

definition DepartmentNode_new ::
  "DepartmentId \<Rightarrow> ustr \<Rightarrow> DepartmentId option \<Rightarrow> FederationError + DepartmentNode" where
  "DepartmentNode_new nid display_name parent_id =
    (if display_name = [] \<or> byte_len display_name > 256 \<or> trim display_name \<noteq> display_name
        \<or> list_ex is_control display_name
     then Err FederationError.Claims
     else Ok \<lparr>dn_id = nid, dn_display_name = display_name, dn_parent_id = parent_id\<rparr>)"

record DepartmentSnapshot =
  ds_version :: int
  ds_source_revision :: ustr
  ds_nodes :: "DepartmentNode list"
  ds_memberships :: "DepartmentId list"

text \<open>The loops of the constructor: collecting the nodes, following one chain, checking members.\<close>

fun collect_nodes ::
  "(ustr \<times> ustr option) list \<Rightarrow> DepartmentNode list \<Rightarrow> FederationError + (ustr \<times> ustr option) list" where
  "collect_nodes m [] = Ok m"
| "collect_nodes m (n # ns) =
    (if department_str (dn_id n) \<in> fst ` set m then Err FederationError.Claims
     else collect_nodes (m @ [(department_str (dn_id n), map_option department_str (dn_parent_id n))]) ns)"

function follow_chain ::
  "(ustr \<times> ustr option) list \<Rightarrow> nat \<Rightarrow> ustr option \<Rightarrow> FederationError + unit" where
  "follow_chain m depth None = Ok ()"
| "follow_chain m depth (Some nid) =
    (if depth + 1 > 16 then Err FederationError.Claims
     else case map_of m nid of
         None \<Rightarrow> Err FederationError.Claims
       | Some parent \<Rightarrow> follow_chain m (depth + 1) parent)"
  by pat_completeness auto
termination
  by (relation "measure (\<lambda>(m, depth, cursor). 17 - depth)") auto

fun follow_all :: "(ustr \<times> ustr option) list \<Rightarrow> ustr list \<Rightarrow> FederationError + unit" where
  "follow_all m [] = Ok ()"
| "follow_all m (nid # ids) = and_then (follow_chain m 0 (Some nid)) (\<lambda>_. follow_all m ids)"

fun check_members ::
  "(ustr \<times> ustr option) list \<Rightarrow> ustr list \<Rightarrow> DepartmentId list \<Rightarrow> FederationError + unit" where
  "check_members m seen [] = Ok ()"
| "check_members m seen (d # ds) =
    (if department_str d \<notin> fst ` set m \<or> department_str d \<in> set seen then Err FederationError.Claims
     else check_members m (department_str d # seen) ds)"

definition DepartmentSnapshot_new ::
  "ustr \<Rightarrow> DepartmentNode list \<Rightarrow> DepartmentId list \<Rightarrow> FederationError + DepartmentSnapshot" where
  "DepartmentSnapshot_new source_revision nodes memberships =
    and_then (ensure (\<not> (nodes = [] \<or> length nodes > 256 \<or> length memberships > 16
        \<or> \<not> is_ok (DepartmentId_new source_revision))) FederationError.Claims) (\<lambda>_.
    and_then (collect_nodes [] nodes) (\<lambda>m.
    and_then (ensure (length (filter (\<lambda>e. snd e = None) m) = 1) FederationError.Claims) (\<lambda>_.
    and_then (follow_all m (map fst m)) (\<lambda>_.
    and_then (check_members m [] memberships) (\<lambda>_.
    Ok \<lparr>ds_version = 1, ds_source_revision = source_revision, ds_nodes = nodes,
        ds_memberships = memberships\<rparr>)))))"

definition DepartmentSnapshot_try_from :: "DepartmentSnapshot \<Rightarrow> FederationError + DepartmentSnapshot" where
  "DepartmentSnapshot_try_from input =
    (if ds_version input \<noteq> 1 then Err FederationError.Claims
     else DepartmentSnapshot_new (ds_source_revision input) (ds_nodes input) (ds_memberships input))"

datatype UpstreamDepartmentSnapshot = NotConfigured | Missing | Invalid | Present DepartmentSnapshot

datatype DepartmentUnavailableReason =
  LocalIdentity | NotConfigured | ClaimMissing | InvalidClaim | NotYetValid

interpretation department_deadline: bounded_deadline department_expires_at dc_max_age_seconds
  "\<lambda>c. DepartmentSnapshotClaim_new (dc_claim c) (dc_max_age_seconds c) = Inr c"
proof unfold_locales
  show "valid_max_age (dc_max_age_seconds c)"
    if "DepartmentSnapshotClaim_new (dc_claim c) (dc_max_age_seconds c) = Inr c" for c
    using that by (simp add: DepartmentSnapshotClaim_new_def split: if_splits)
qed (simp add: department_expires_at_def)

interpretation department_id: checked_value DepartmentId_new department_str
  "\<lambda>d. bounded_label (department_str d)"
proof unfold_locales
  show "bounded_label (department_str v)" if "DepartmentId_new r = Inr v" for r v
    using that by (auto simp: DepartmentId_new_def bounded_label_def split: if_splits)
  show "DepartmentId_new (department_str v) = Inr v" if "bounded_label (department_str v)" for v
    using that by (cases v) (simp add: DepartmentId_new_def bounded_label_def)
qed

subsection \<open>The abstract tree\<close>

text \<open>\<open>chain m nid ps\<close>: \<open>ps\<close> is the path from \<open>nid\<close> through the parents up to a root.\<close>

inductive chain :: "(ustr \<times> ustr option) list \<Rightarrow> ustr \<Rightarrow> ustr list \<Rightarrow> bool" for m where
  root: "map_of m nid = Some None \<Longrightarrow> chain m nid [nid]"
| child: "map_of m nid = Some (Some p) \<Longrightarrow> chain m p ps \<Longrightarrow> chain m nid (nid # ps)"

inductive_cases chain_elim: "chain m nid ps"

definition entries :: "DepartmentNode list \<Rightarrow> (ustr \<times> ustr option) list" where
  "entries nodes =
    map (\<lambda>n. (department_str (dn_id n), map_option department_str (dn_parent_id n))) nodes"

lemma entries_simps [simp]:
  "entries [] = []"
  "entries (n # ns) =
    (department_str (dn_id n), map_option department_str (dn_parent_id n)) # entries ns"
  by (simp_all add: entries_def)

lemma chain_deterministic: "chain m nid ps \<Longrightarrow> chain m nid qs \<Longrightarrow> ps = qs"
  by (induction arbitrary: qs rule: chain.induct) (erule chain_elim; auto)+

lemma chain_nonempty: "chain m nid ps \<Longrightarrow> ps \<noteq> [] \<and> hd ps = nid"
  by (auto elim: chain.cases)

lemma chain_member: "chain m nid ps \<Longrightarrow> x \<in> set ps \<Longrightarrow> \<exists>qs. chain m x qs \<and> length qs \<le> length ps"
proof (induction rule: chain.induct)
  case (root nid)
  then have "chain m x [nid]" by (auto intro: chain.root)
  then show ?case by auto
next
  case (child nid p ps)
  show ?case
  proof (cases "x = nid")
    case True
    with child.hyps have "chain m x (nid # ps)" by (auto intro: chain.child)
    then show ?thesis by auto
  next
    case False
    with child show ?thesis by fastforce
  qed
qed

lemma chain_distinct: "chain m nid ps \<Longrightarrow> distinct ps"
proof (induction rule: chain.induct)
  case (child nid p ps)
  have "nid \<notin> set ps"
  proof
    assume "nid \<in> set ps"
    with child.hyps(2) obtain qs where "chain m nid qs" "length qs \<le> length ps"
      using chain_member by blast
    moreover have "chain m nid (nid # ps)" using child.hyps by (auto intro: chain.child)
    ultimately show False using chain_deterministic by fastforce
  qed
  with child show ?case by simp
qed simp

lemma chain_last_root: "chain m nid ps \<Longrightarrow> map_of m (last ps) = Some None"
  by (induction rule: chain.induct) (auto dest: chain_nonempty)

lemma chain_known: "chain m nid ps \<Longrightarrow> set ps \<subseteq> fst ` set m"
  by (induction rule: chain.induct) (auto dest!: map_of_SomeD intro: rev_image_eqI)

declare follow_chain.simps [simp del]

lemma follow_chain_None [simp]: "follow_chain m d None = Ok ()"
  by (simp add: follow_chain.simps)

lemma chain_root_only: "map_of m nid = Some None \<Longrightarrow> chain m nid ps \<longleftrightarrow> ps = [nid]"
  by (auto intro: chain.root elim: chain.cases)

lemma chain_child_only:
  "map_of m nid = Some (Some p) \<Longrightarrow> chain m nid ps \<longleftrightarrow> (\<exists>qs. ps = nid # qs \<and> chain m p qs)"
  by (auto intro: chain.child elim: chain.cases)

lemma chain_unknown: "map_of m nid = None \<Longrightarrow> \<not> chain m nid ps"
  by (auto elim: chain.cases)

lemma follow_chain_iff:
  "is_ok (follow_chain m d (Some nid)) \<longleftrightarrow> (\<exists>ps. chain m nid ps \<and> d + length ps \<le> 16)"
proof (induction "16 - d" arbitrary: d nid)
  case 0
  then have d: "16 \<le> d" by simp
  then have "\<not> is_ok (follow_chain m d (Some nid))" by (subst follow_chain.simps(2)) simp
  moreover have "\<not> d + length ps \<le> 16" if "chain m nid ps" for ps
    using chain_nonempty [OF that] d by (cases ps) auto
  ultimately show ?case by blast
next
  case (Suc k)
  then have step: "\<not> 16 < d + 1" "k = 16 - (d + 1)" by auto
  consider "map_of m nid = None" | "map_of m nid = Some None"
    | p where "map_of m nid = Some (Some p)"
    by (cases "map_of m nid") auto
  then show ?case
  proof cases
    case 1
    with step show ?thesis by (subst follow_chain.simps(2)) (simp add: chain_unknown)
  next
    case 2
    with step show ?thesis by (subst follow_chain.simps(2)) (simp add: chain_root_only)
  next
    case (3 p)
    then have "(\<exists>ps. chain m nid ps \<and> d + length ps \<le> 16)
        \<longleftrightarrow> (\<exists>ps. chain m p ps \<and> (d + 1) + length ps \<le> 16)"
      by (auto simp: chain_child_only)
    with Suc.hyps(1) [OF step(2), of p] 3 step show ?thesis
      by (subst follow_chain.simps(2)) simp
  qed
qed

lemma collect_nodes_Ok:
  "collect_nodes m ns = Inr m' \<longleftrightarrow>
    m' = m @ entries ns \<and> distinct (map fst (entries ns)) \<and> fst ` set m \<inter> fst ` set (entries ns) = {}"
  by (induction ns arbitrary: m) auto

lemma follow_all_Ok:
  "follow_all m ids = Inr u \<longleftrightarrow> (\<forall>nid\<in>set ids. \<exists>ps. chain m nid ps \<and> length ps \<le> 16)"
proof (induction ids)
  case (Cons nid ids)
  have "follow_chain m 0 (Some nid) = Inr () \<longleftrightarrow> (\<exists>ps. chain m nid ps \<and> length ps \<le> 16)"
    using follow_chain_iff [of m 0 nid] by (auto simp: is_ok_iff)
  with Cons show ?case by (simp add: result_simps)
qed simp

lemma check_members_Ok:
  "check_members m seen ds = Inr u \<longleftrightarrow>
    set (map department_str ds) \<subseteq> fst ` set m \<and> distinct (map department_str ds)
    \<and> set seen \<inter> set (map department_str ds) = {}"
  by (induction ds arbitrary: seen) auto

lemma is_ok_label: "is_ok (DepartmentId_new s) \<longleftrightarrow> bounded_label s"
  by (auto simp: DepartmentId_new_def bounded_label_def)

lemma DepartmentSnapshot_new_Ok:
  "DepartmentSnapshot_new revision nodes members = Inr s \<longleftrightarrow>
    nodes \<noteq> [] \<and> length nodes \<le> 256 \<and> length members \<le> 16 \<and> bounded_label revision
    \<and> distinct (map fst (entries nodes))
    \<and> length (filter (\<lambda>e. snd e = None) (entries nodes)) = 1
    \<and> (\<forall>e\<in>set (entries nodes). \<exists>ps. chain (entries nodes) (fst e) ps \<and> length ps \<le> 16)
    \<and> set (map department_str members) \<subseteq> fst ` set (entries nodes)
    \<and> distinct (map department_str members)
    \<and> s = \<lparr>ds_version = 1, ds_source_revision = revision, ds_nodes = nodes, ds_memberships = members\<rparr>"
  by (auto simp: DepartmentSnapshot_new_def result_simps is_ok_label collect_nodes_Ok follow_all_Ok
      check_members_Ok)

text \<open>The stored snapshot is checked by the same constructor when it is read back.\<close>

definition valid_snapshot :: "DepartmentSnapshot \<Rightarrow> bool" where
  "valid_snapshot s \<longleftrightarrow> ds_version s = 1
    \<and> DepartmentSnapshot_new (ds_source_revision s) (ds_nodes s) (ds_memberships s) = Inr s"

interpretation snapshot: checked_value DepartmentSnapshot_try_from "\<lambda>s. s" valid_snapshot
proof unfold_locales
  show "valid_snapshot v" if "DepartmentSnapshot_try_from r = Inr v" for r v
    using that
    by (auto simp: DepartmentSnapshot_try_from_def valid_snapshot_def DepartmentSnapshot_new_Ok
        split: if_splits)
qed (simp add: DepartmentSnapshot_try_from_def valid_snapshot_def)

lemma one_filtered_unique:
  assumes "length (filter P xs) = 1" and "x \<in> set xs" "P x" and "y \<in> set xs" "P y"
  shows "x = y"
proof -
  obtain z where "filter P xs = [z]" using assms(1) by (cases "filter P xs") auto
  then have "v = z" if "v \<in> set xs" "P v" for v
  proof -
    have "v \<in> set (filter P xs)" using that by simp
    with \<open>filter P xs = [z]\<close> show ?thesis by simp
  qed
  with assms show ?thesis by blast
qed

lemma snapshot_root_unique:
  assumes "length (filter (\<lambda>e. snd e = None) m) = 1"
    and "map_of m a = Some None" and "map_of m b = Some None"
  shows "a = b"
  using one_filtered_unique [OF assms(1), of "(a, None)" "(b, None)"] assms(2,3)
  by (auto dest: map_of_SomeD)

definition example_nodes :: "DepartmentNode list" where
  "example_nodes =
    [\<lparr>dn_id = DepartmentId [101], dn_display_name = [69], dn_parent_id = Some (DepartmentId [114])\<rparr>,
     \<lparr>dn_id = DepartmentId [114], dn_display_name = [67], dn_parent_id = None\<rparr>]"

lemma example_chains:
  "chain (entries example_nodes) [101] [[101], [114]]" "chain (entries example_nodes) [114] [[114]]"
  by (auto simp: example_nodes_def intro!: chain.intros)

lemma example_snapshot:
  "DepartmentSnapshot_new [49] example_nodes [DepartmentId [101]] =
    Inr \<lparr>ds_version = 1, ds_source_revision = [49], ds_nodes = example_nodes,
         ds_memberships = [DepartmentId [101]]\<rparr>"
  unfolding DepartmentSnapshot_new_Ok using example_chains
  by (force simp: example_nodes_def bounded_label_def utf8_width_def trim_eq_self_iff
      is_whitespace_def is_control_def)

subsection \<open>Properties\<close>

text \<open>The constructor of a department snapshot accepts exactly the bounded trees: the bounds on nodes,
  members and revision hold, node codes are unique, one node has no parent, the parents of every
  node lead to a root through at most sixteen nodes, and the members are distinct known nodes.\<close>

theorem department_snapshot_accepts:
  "is_ok (DepartmentSnapshot_new revision nodes members) \<longleftrightarrow>
    nodes \<noteq> [] \<and> length nodes \<le> 256 \<and> length members \<le> 16 \<and> bounded_label revision
    \<and> distinct (map dn_id nodes)
    \<and> length (filter (\<lambda>n. dn_parent_id n = None) nodes) = 1
    \<and> list_all (\<lambda>n. \<exists>ps. chain (entries nodes) (department_str (dn_id n)) ps \<and> length ps \<le> 16) nodes
    \<and> set members \<subseteq> dn_id ` set nodes \<and> distinct members"
proof -
  have inj: "inj department_str" by (rule injI) (metis DepartmentId.exhaust department_str.simps)
  have ids: "map fst (entries nodes) = map department_str (map dn_id nodes)"
    by (simp add: entries_def)
  have roots: "length (filter (\<lambda>e. snd e = None) (entries nodes)) =
      length (filter (\<lambda>n. dn_parent_id n = None) nodes)"
    by (induction nodes) simp_all
  have known: "set (map department_str members) \<subseteq> fst ` set (entries nodes)
      \<longleftrightarrow> set members \<subseteq> dn_id ` set nodes"
    using inj_image_subset_iff [OF inj, of "set members" "dn_id ` set nodes"]
    by (simp add: entries_def image_image)
  have unique: "distinct (map department_str ds) = distinct ds" for ds
    using inj by (simp add: distinct_map inj_on_def inj_def)
  show ?thesis
    unfolding is_ok_iff DepartmentSnapshot_new_Ok known roots ids unique
    by (auto simp: entries_def list_all_iff)
qed



end
