(* ===== verification/Profile.thy ===== *)
theory Profile
  imports Identifiers
begin

section \<open>Login profiles (identity-core/src/profile.rs)\<close>

text \<open>
  Bounded profile values: fixed attributes and a business object of unknown keys. A JSON value has
  the constructors of \<open>serde_json::Value\<close>; a number is what \<open>as_f64\<close> makes of it, a finite
  double being mantissa times a power of two; an object is the list of its entries, whose keys are
  unique. The length of the serialised text is a parameter (\<open>None\<close> when serialising fails).
\<close>

datatype f64 = NonFinite | Finite int int

datatype Value =
  Null
| Bool bool
| Number "f64 option"
| String ustr
| Array "Value list"
| Object "(ustr \<times> Value) list"

datatype ProfileError = ProfileError

definition MAX_BYTES :: nat where "MAX_BYTES = 65536"
definition MAX_MEMBERS :: nat where "MAX_MEMBERS = 256"
definition MAX_DEPTH :: nat where "MAX_DEPTH = 8"
definition MAX_ARRAY :: nat where "MAX_ARRAY = 128"
definition MAX_SAFE_INTEGER :: int where "MAX_SAFE_INTEGER = 9007199254740991"

record ProfileLimits =
  pl_bytes :: nat
  pl_members :: nat
  pl_depth :: nat
  pl_array :: nat
  pl_max_age :: nat

definition ProfileLimits_default :: ProfileLimits where
  "ProfileLimits_default = \<lparr>pl_bytes = MAX_BYTES, pl_members = MAX_MEMBERS, pl_depth = MAX_DEPTH,
     pl_array = MAX_ARRAY, pl_max_age = 86400\<rparr>"

definition ProfileLimits_new ::
  "nat \<Rightarrow> nat \<Rightarrow> nat \<Rightarrow> nat \<Rightarrow> nat \<Rightarrow> ProfileError + ProfileLimits" where
  "ProfileLimits_new bytes members depth array max_age =
    (if bytes = 0 \<or> bytes > MAX_BYTES \<or> members = 0 \<or> members > MAX_MEMBERS \<or> depth = 0
        \<or> depth > MAX_DEPTH \<or> array = 0 \<or> array > MAX_ARRAY \<or> \<not> (60 \<le> max_age \<and> max_age \<le> 86400)
     then Err ProfileError
     else Ok \<lparr>pl_bytes = bytes, pl_members = members, pl_depth = depth, pl_array = array,
              pl_max_age = max_age\<rparr>)"

subsection \<open>The budget of the business object\<close>

definition SECRET_KEYS :: "ustr list" where
  "SECRET_KEYS = map lit
    [''password'', ''access_token'', ''refresh_token'', ''id_token'', ''client_secret'',
     ''totp_seed'', ''private_key'', ''recovery_codes'']"

definition normalised_key :: "ustr \<Rightarrow> ustr" where
  "normalised_key key = map (\<lambda>c. if c = 0x2D then 0x5F else c) (to_ascii_lowercase key)"

definition refused_key :: "ustr \<Rightarrow> bool" where
  "refused_key key \<longleftrightarrow> list_ex is_control key \<or> normalised_key key \<in> set SECRET_KEYS"

fun unsafe_number :: "f64 option \<Rightarrow> bool" where
  "unsafe_number None = True"
| "unsafe_number (Some NonFinite) = True"
| "unsafe_number (Some (Finite m e)) =
    (if 0 \<le> e then \<bar>m\<bar> * 2 ^ nat e > MAX_SAFE_INTEGER
     else 2 ^ nat (- e) dvd m \<and> \<bar>m\<bar> > MAX_SAFE_INTEGER * 2 ^ nat (- e))"

definition usize_limit :: nat where "usize_limit = 2 ^ 64"

text \<open>
  \<open>check_object\<close> and \<open>check_value\<close> of the source call each other and thread one member count
  through the whole value. \<open>check_each\<close> is a loop over a list with that count, \<open>check_members\<close>
  the body of \<open>check_object\<close> over the check of a value.
\<close>

fun check_each :: "('a \<Rightarrow> nat \<Rightarrow> ProfileError + nat) \<Rightarrow> 'a list \<Rightarrow> nat \<Rightarrow> ProfileError + nat" where
  "check_each f [] members = Ok members"
| "check_each f (x # xs) members = and_then (f x members) (\<lambda>members. check_each f xs members)"

lemma check_each_cong [fundef_cong]:
  "\<lbrakk>xs = ys; m = n; \<And>x k. x \<in> set ys \<Longrightarrow> f x k = g x k\<rbrakk> \<Longrightarrow> check_each f xs m = check_each g ys n"
proof (induction xs arbitrary: ys m n)
  case (Cons a xs)
  have "check_each f xs k = check_each g xs k" for k
    by (rule Cons.IH) (use Cons.prems in auto)
  then have "check_each f xs = check_each g xs" by blast
  with Cons.prems show ?case by auto
qed simp

definition check_members :: "(Value \<Rightarrow> nat \<Rightarrow> ProfileError + nat) \<Rightarrow>
    (ustr \<times> Value) list \<Rightarrow> nat \<Rightarrow> nat \<Rightarrow> ProfileLimits \<Rightarrow> ProfileError + nat" where
  "check_members check obj depth members limits =
    (if depth > pl_depth limits then Err ProfileError
     else if members + length obj \<ge> usize_limit then Err ProfileError
     else if members + length obj > pl_members limits then Err ProfileError
     else check_each
       (\<lambda>e members. if refused_key (fst e) then Err ProfileError else check (snd e) members)
       obj (members + length obj))"

lemma check_members_cong [fundef_cong]:
  "\<lbrakk>xs = ys; d = d'; m = n; l = l'; \<And>k x j. (k, x) \<in> set ys \<Longrightarrow> f x j = g x j\<rbrakk>
    \<Longrightarrow> check_members f xs d m l = check_members g ys d' n l'"
  unfolding check_members_def by (auto intro!: check_each_cong)

lemma size_entry [termination_simp]: "(k, x) \<in> set obj \<Longrightarrow> size x < Suc (size_list (size_prod size size) obj)"
  by (induction obj) auto

fun check_value :: "Value \<Rightarrow> nat \<Rightarrow> nat \<Rightarrow> ProfileLimits \<Rightarrow> ProfileError + nat" where
  "check_value (Object obj) depth members limits =
    check_members (\<lambda>v members. check_value v (depth + 1) members limits) obj (depth + 1) members limits"
| "check_value (Array values) depth members limits =
    (if depth \<ge> pl_depth limits \<or> length values > pl_array limits then Err ProfileError
     else check_each (\<lambda>v members. check_value v (depth + 1) members limits) values members)"
| "check_value (String s) depth members limits =
    (if 0 \<in> set s then Err ProfileError else Ok members)"
| "check_value (Number n) depth members limits =
    (if unsafe_number n then Err ProfileError else Ok members)"
| "check_value Null depth members limits = Ok members"
| "check_value (Bool b) depth members limits = Ok members"

definition check_object :: "(ustr \<times> Value) list \<Rightarrow> nat \<Rightarrow> nat \<Rightarrow> ProfileLimits \<Rightarrow> ProfileError + nat" where
  "check_object obj depth members limits =
    check_members (\<lambda>v members. check_value v depth members limits) obj depth members limits"

lemma check_value_Object:
  "check_value (Object obj) depth members limits = check_object obj (depth + 1) members limits"
  by (simp add: check_object_def)

datatype Extensions = Extensions "(ustr \<times> Value) list"
fun ext_object :: "Extensions \<Rightarrow> (ustr \<times> Value) list" where "ext_object (Extensions obj) = obj"

definition Extensions_try_from :: "(Value \<Rightarrow> nat option) \<Rightarrow> Value \<Rightarrow> ProfileError + Extensions" where
  "Extensions_try_from json_len value =
    (case value of
       Object obj \<Rightarrow>
         and_then (check_object obj 1 0 ProfileLimits_default) (\<lambda>_.
         and_then (ok_or ProfileError (json_len (Object obj))) (\<lambda>len.
         if len > MAX_BYTES then Err ProfileError else Ok (Extensions obj)))
     | _ \<Rightarrow> Err ProfileError)"

subsection \<open>Profiles\<close>

datatype 'a Attribute = NotConfigured | Missing | Invalid | Available 'a

fun attribute_value :: "'a Attribute \<Rightarrow> 'a option" where
  "attribute_value (Available v) = Some v"
| "attribute_value _ = None"

record Profile =
  pr_display_name :: "ustr Attribute"
  pr_username :: "ustr Attribute"
  pr_email :: "ustr Attribute"
  pr_email_verified :: "bool Attribute"
  pr_extensions :: "Extensions Attribute"

record ProfileSettings =
  ps_extensions_claim :: "ustr option"
  ps_max_age_seconds :: nat

definition apply_limits :: "(Value \<Rightarrow> nat option) \<Rightarrow> ProfileLimits \<Rightarrow> Profile \<Rightarrow> Profile" where
  "apply_limits json_len limits p =
    (case pr_extensions p of
       Available value \<Rightarrow>
         if \<not> is_ok (check_object (ext_object value) 1 0 limits)
           \<or> (case json_len (Object (ext_object value)) of None \<Rightarrow> True | Some len \<Rightarrow> len > pl_bytes limits)
         then p\<lparr>pr_extensions := Invalid\<rparr> else p
     | _ \<Rightarrow> p)"

definition text_claim :: "Value option \<Rightarrow> nat \<Rightarrow> ustr Attribute" where
  "text_claim value most =
    (case value of
       None \<Rightarrow> Missing
     | Some Null \<Rightarrow> Missing
     | Some (String s) \<Rightarrow>
         if byte_len s \<le> most \<and> \<not> list_ex is_control s then Available s else Invalid
     | Some _ \<Rightarrow> Invalid)"

definition from_claims ::
  "(Value \<Rightarrow> nat option) \<Rightarrow> (ustr \<times> Value) list \<Rightarrow> ProfileSettings \<Rightarrow> Profile" where
  "from_claims json_len claims settings =
    \<lparr>pr_display_name = text_claim (map_of claims (lit ''name'')) 512,
     pr_username = text_claim (map_of claims (lit ''preferred_username'')) 256,
     pr_email = text_claim (map_of claims (lit ''email'')) 320,
     pr_email_verified =
       (case map_of claims (lit ''email_verified'') of
          None \<Rightarrow> Missing | Some Null \<Rightarrow> Missing | Some (Bool b) \<Rightarrow> Available b | Some _ \<Rightarrow> Invalid),
     pr_extensions =
       (case ps_extensions_claim settings of
          None \<Rightarrow> NotConfigured
        | Some root \<Rightarrow>
            (case map_of claims root of
               None \<Rightarrow> Missing
             | Some Null \<Rightarrow> Missing
             | Some value \<Rightarrow>
                 (case Extensions_try_from json_len value of
                    Inl _ \<Rightarrow> Invalid | Inr ext \<Rightarrow> Available ext)))\<rparr>"

definition Profile_missing :: Profile where
  "Profile_missing = \<lparr>pr_display_name = Missing, pr_username = Missing, pr_email = Missing,
     pr_email_verified = Missing, pr_extensions = Missing\<rparr>"

definition Profile_validate :: "Profile \<Rightarrow> ProfileError + unit" where
  "Profile_validate p =
    (if list_ex (\<lambda>(a, most). case attribute_value a of None \<Rightarrow> False
           | Some v \<Rightarrow> byte_len v > most \<or> list_ex is_control v)
         [(pr_display_name p, 512), (pr_username p, 256), (pr_email p, 320)]
     then Err ProfileError else Ok ())"

definition PROFILE_RESERVED :: "ustr list" where
  "PROFILE_RESERVED = map lit
    [''sub'', ''iss'', ''aud'', ''exp'', ''iat'', ''nonce'', ''auth_time'', ''acr'', ''amr'',
     ''name'', ''preferred_username'', ''email'', ''email_verified'']"

definition ProfileSettings_default :: ProfileSettings where
  "ProfileSettings_default = \<lparr>ps_extensions_claim = None, ps_max_age_seconds = 14400\<rparr>"

definition ProfileSettings_validate :: "ProfileSettings \<Rightarrow> ProfileError + unit" where
  "ProfileSettings_validate s =
    and_then (ensure (60 \<le> ps_max_age_seconds s \<and> ps_max_age_seconds s \<le> 86400) ProfileError) (\<lambda>_.
    ensure (\<not> (case ps_extensions_claim s of None \<Rightarrow> False
      | Some root \<Rightarrow> root = [] \<or> byte_len root > 128 \<or> list_ex is_control root
          \<or> root \<in> set PROFILE_RESERVED)) ProfileError)"

record LocalProfile =
  lp_display_name :: "ustr option"
  lp_username :: "ustr option"
  lp_email :: "ustr option"
  lp_extensions :: Extensions
  lp_max_age_seconds :: nat

definition optional_attribute :: "'a option \<Rightarrow> 'a Attribute" where
  "optional_attribute v = (case v of None \<Rightarrow> Missing | Some x \<Rightarrow> Available x)"

definition observation :: "LocalProfile \<Rightarrow> ProfileError + Profile" where
  "observation lp =
    and_then (ProfileSettings_validate
      \<lparr>ps_extensions_claim = None, ps_max_age_seconds = lp_max_age_seconds lp\<rparr>) (\<lambda>_.
    let profile = \<lparr>pr_display_name = optional_attribute (lp_display_name lp),
      pr_username = optional_attribute (lp_username lp), pr_email = optional_attribute (lp_email lp),
      pr_email_verified = Missing, pr_extensions = Available (lp_extensions lp)\<rparr> in
    and_then (Profile_validate profile) (\<lambda>_. Ok profile))"

subsection \<open>What a business object holds\<close>

text \<open>Measures of a JSON value that know nothing of the order in which the check visits it.\<close>

fun json_depth :: "Value \<Rightarrow> nat" where
  "json_depth (Array vs) = Suc (fold max (map json_depth vs) 0)"
| "json_depth (Object es) = Suc (fold max (map (\<lambda>e. json_depth (snd e)) es) 0)"
| "json_depth _ = 0"

fun json_members :: "Value \<Rightarrow> nat" where
  "json_members (Array vs) = sum_list (map json_members vs)"
| "json_members (Object es) = length es + sum_list (map (\<lambda>e. json_members (snd e)) es)"
| "json_members _ = 0"

text \<open>Every key, string, number and array inside the value is admissible.\<close>

fun json_clean :: "nat \<Rightarrow> Value \<Rightarrow> bool" where
  "json_clean w (Array vs) \<longleftrightarrow> length vs \<le> w \<and> list_all (json_clean w) vs"
| "json_clean w (Object es) \<longleftrightarrow>
    list_all (\<lambda>e. \<not> refused_key (fst e) \<and> json_clean w (snd e)) es"
| "json_clean w (String s) \<longleftrightarrow> 0 \<notin> set s"
| "json_clean w (Number n) \<longleftrightarrow> \<not> unsafe_number n"
| "json_clean w _ \<longleftrightarrow> True"


subsection \<open>The budget check is exact\<close>

lemma fold_max_room:
  "d < b \<Longrightarrow> d + Suc (fold max (map g xs) (0::nat)) \<le> b \<longleftrightarrow> list_all (\<lambda>x. d + Suc (g x) \<le> b) xs"
proof -
  have "fold max ys a \<le> c \<longleftrightarrow> a \<le> c \<and> list_all (\<lambda>y. y \<le> c) ys" for ys and a c :: nat
    by (induction ys arbitrary: a) auto
  from this [of "map g xs" 0 "b - Suc d"] show "d < b \<Longrightarrow> ?thesis"
    by (auto simp: list_all_iff)
qed

text \<open>A loop whose steps each add a weight within one bound adds the sum of the weights.\<close>

lemma check_each_sum:
  assumes "\<And>x m. x \<in> set xs \<Longrightarrow> m \<le> M \<Longrightarrow>
      f x m = (if P x \<and> m + g x \<le> M then Ok (m + g x) else Err ProfileError)"
    and "members \<le> M"
  shows "check_each f xs members =
    (if list_all P xs \<and> members + sum_list (map g xs) \<le> M then Ok (members + sum_list (map g xs))
     else Err ProfileError)"
  using assms
proof (induction xs arbitrary: members)
  case (Cons x xs)
  have head: "f x members = (if P x \<and> members + g x \<le> M then Ok (members + g x) else Err ProfileError)"
    using Cons.prems by simp
  show ?case
  proof (cases "P x \<and> members + g x \<le> M")
    case True
    have "check_each f xs (members + g x) =
      (if list_all P xs \<and> members + g x + sum_list (map g xs) \<le> M
       then Ok (members + g x + sum_list (map g xs)) else Err ProfileError)"
      by (rule Cons.IH) (use Cons.prems True in auto)
    with True head show ?thesis by (simp add: add.assoc)
  qed (use head in auto)
qed simp

definition within_budget :: "ProfileLimits \<Rightarrow> nat \<Rightarrow> nat \<Rightarrow> Value \<Rightarrow> bool" where
  "within_budget l depth members v \<longleftrightarrow>
    json_clean (pl_array l) v \<and> depth + json_depth v \<le> pl_depth l
    \<and> members + json_members v \<le> pl_members l"

lemma check_value_exact:
  assumes "depth \<le> pl_depth l" "members \<le> pl_members l" "pl_members l < usize_limit"
  shows "check_value v depth members l =
    (if within_budget l depth members v then Ok (members + json_members v) else Err ProfileError)"
  using assms
proof (induction v arbitrary: depth members)
  case (Array vs)
  show ?case
  proof (cases "depth < pl_depth l")
    case True
    let ?P = "\<lambda>v. json_clean (pl_array l) v \<and> depth + 1 + json_depth v \<le> pl_depth l"
    have loop: "check_each (\<lambda>v members. check_value v (depth + 1) members l) vs members =
      (if list_all ?P vs \<and> members + sum_list (map json_members vs) \<le> pl_members l
       then Ok (members + sum_list (map json_members vs)) else Err ProfileError)"
      by (rule check_each_sum) (use Array True in \<open>auto simp: within_budget_def\<close>)
    have "list_all ?P vs \<longleftrightarrow> list_all (json_clean (pl_array l)) vs
        \<and> depth + json_depth (Array vs) \<le> pl_depth l"
      using fold_max_room [of depth _ json_depth vs] True by (auto simp: list_all_iff)
    with loop True show ?thesis by (auto simp: within_budget_def)
  qed (auto simp: within_budget_def)
next
  case (Object es)
  show ?case
  proof (cases "depth < pl_depth l \<and> members + length es \<le> pl_members l")
    case True
    let ?P = "\<lambda>e. \<not> refused_key (fst e) \<and> json_clean (pl_array l) (snd e)
      \<and> depth + 1 + json_depth (snd e) \<le> pl_depth l"
    let ?w = "\<lambda>e. json_members (snd e)"
    have loop: "check_each
        (\<lambda>e members. if refused_key (fst e) then Err ProfileError else check_value (snd e) (Suc depth) members l)
        es (members + length es) =
      (if list_all ?P es \<and> members + length es + sum_list (map ?w es) \<le> pl_members l
       then Ok (members + length es + sum_list (map ?w es)) else Err ProfileError)"
      by (rule check_each_sum) (use Object True in \<open>auto simp: within_budget_def snds.simps\<close>)
    have "list_all ?P es \<longleftrightarrow> json_clean (pl_array l) (Object es)
        \<and> depth + json_depth (Object es) \<le> pl_depth l"
      using fold_max_room [of depth _ "\<lambda>e. json_depth (snd e)" es] True by (auto simp: list_all_iff)
    with loop True Object.prems show ?thesis
      by (simp add: within_budget_def check_members_def add.assoc del: json_clean.simps json_depth.simps)
  qed (use Object.prems in \<open>auto simp: within_budget_def check_members_def\<close>)
qed (auto simp: within_budget_def)

lemma check_object_exact:
  assumes "0 < pl_depth l" "pl_members l < usize_limit"
  shows "is_ok (check_object obj 1 0 l) \<longleftrightarrow>
    json_clean (pl_array l) (Object obj) \<and> json_depth (Object obj) \<le> pl_depth l
    \<and> json_members (Object obj) \<le> pl_members l"
proof -
  have "check_object obj 1 0 l = check_value (Object obj) 0 0 l"
    by (simp add: check_object_def)
  with assms check_value_exact [of 0 l 0 "Object obj"] show ?thesis
    by (simp add: within_budget_def del: check_value.simps json_clean.simps json_depth.simps
        json_members.simps)
qed

lemmas budget_consts = MAX_BYTES_def MAX_MEMBERS_def MAX_DEPTH_def MAX_ARRAY_def usize_limit_def

lemma default_limits_sel:
  "pl_depth ProfileLimits_default = 8" "pl_members ProfileLimits_default = 256"
  "pl_array ProfileLimits_default = 128" "pl_bytes ProfileLimits_default = 65536"
  by (simp_all add: ProfileLimits_default_def budget_consts)

lemma ProfileLimits_new_Ok:
  "ProfileLimits_new b m d a x = Ok l \<Longrightarrow>
    pl_bytes l = b \<and> pl_members l = m \<and> pl_depth l = d \<and> pl_array l = a \<and> pl_max_age l = x
    \<and> 0 < b \<and> b \<le> MAX_BYTES \<and> 0 < m \<and> m \<le> MAX_MEMBERS \<and> 0 < d \<and> d \<le> MAX_DEPTH \<and> 0 < a
    \<and> a \<le> MAX_ARRAY \<and> 60 \<le> x \<and> x \<le> 86400"
  by (auto simp: ProfileLimits_new_def split: if_splits)

lemma Extensions_try_from_Ok:
  "Extensions_try_from json_len v = Ok e \<longleftrightarrow>
    (\<exists>obj n. v = Object obj \<and> e = Extensions obj \<and> json_clean 128 v \<and> json_depth v \<le> 8
      \<and> json_members v \<le> 256 \<and> json_len v = Some n \<and> n \<le> 65536)"
proof (cases v)
  case (Object obj)
  have "is_ok (check_object obj 1 0 ProfileLimits_default) \<longleftrightarrow>
    json_clean 128 v \<and> json_depth v \<le> 8 \<and> json_members v \<le> 256"
    using check_object_exact [of ProfileLimits_default obj] Object
    by (simp add: default_limits_sel usize_limit_def)
  then have budget: "(\<exists>k. check_object obj 1 0 ProfileLimits_default = Ok k) \<longleftrightarrow>
    json_clean 128 v \<and> json_depth v \<le> 8 \<and> json_members v \<le> 256"
    by (simp only: is_ok_iff)
  have "Extensions_try_from json_len v = Ok e \<longleftrightarrow>
    (\<exists>k. check_object obj 1 0 ProfileLimits_default = Ok k) \<and>
    (\<exists>n. json_len v = Some n \<and> n \<le> MAX_BYTES) \<and> e = Extensions obj"
    by (auto simp: Object Extensions_try_from_def and_then_Inr_iff not_less)
  with Object show ?thesis
    unfolding budget by (auto simp only: MAX_BYTES_def Value.inject)
qed (auto simp: Extensions_try_from_def)

text \<open>The budget check of a business object is exact. The code walks the value once with a
  running member count and stops at the first offence; it accepts a value as extensions exactly
  when the value is an object nested at most 8 deep, with at most 256 members in all objects
  together, no array over 128 items, no refused or control-character key, no NUL string, no
  unsafe number anywhere, and a serialised form of at most 65536 bytes. Under the tightened
  limits of a deployment a profile's extensions are withheld exactly when one of these
  measures, with the deployment's numbers, is exceeded, and nothing else of it changes.\<close>

theorem profile_budget_exact:
  assumes "ProfileLimits_new b m d a x = Ok limits" "pr_extensions p = Available (Extensions obj)"
  shows "(is_ok (Extensions_try_from json_len v) \<longleftrightarrow>
      (\<exists>obj n. v = Object obj \<and> json_clean 128 v \<and> json_depth v \<le> 8 \<and> json_members v \<le> 256
        \<and> json_len v = Some n \<and> n \<le> 65536))
    \<and> apply_limits json_len limits p =
        (if json_clean a (Object obj) \<and> json_depth (Object obj) \<le> d \<and> json_members (Object obj) \<le> m
            \<and> (\<exists>n. json_len (Object obj) = Some n \<and> n \<le> b)
         then p else p\<lparr>pr_extensions := Invalid\<rparr>)"
proof (rule conjI)
  show "is_ok (Extensions_try_from json_len v) \<longleftrightarrow>
      (\<exists>obj n. v = Object obj \<and> json_clean 128 v \<and> json_depth v \<le> 8 \<and> json_members v \<le> 256
        \<and> json_len v = Some n \<and> n \<le> 65536)"
    by (auto simp: is_ok_iff Extensions_try_from_Ok)
  have "is_ok (check_object obj 1 0 limits) \<longleftrightarrow>
      json_clean a (Object obj) \<and> json_depth (Object obj) \<le> d \<and> json_members (Object obj) \<le> m"
    using check_object_exact [of limits obj] ProfileLimits_new_Ok [OF assms(1)]
    by (auto simp: budget_consts)
  with assms(2) ProfileLimits_new_Ok [OF assms(1)]
  show "apply_limits json_len limits p =
      (if json_clean a (Object obj) \<and> json_depth (Object obj) \<le> d \<and> json_members (Object obj) \<le> m
          \<and> (\<exists>n. json_len (Object obj) = Some n \<and> n \<le> b)
       then p else p\<lparr>pr_extensions := Invalid\<rparr>)"
    by (auto simp: apply_limits_def simp del: json_clean.simps json_depth.simps json_members.simps
        split: option.split)
qed

definition sample_profile :: Profile where
  "sample_profile = Profile_missing\<lparr>pr_extensions :=
     Available (Extensions [(lit ''team'', Array [Number (Some (Finite 3 1)), Null])])\<rparr>"

lemma profile_budget_exact_witness:
  "is_ok (Extensions_try_from (\<lambda>_. Some 17) (Object [(lit ''team'', Array [Null])]))
   \<and> apply_limits (\<lambda>_. Some 17) \<lparr>pl_bytes = 100, pl_members = 4, pl_depth = 1, pl_array = 4,
       pl_max_age = 60\<rparr> sample_profile = sample_profile\<lparr>pr_extensions := Invalid\<rparr>"
proof -
  have new: "ProfileLimits_new 100 4 1 4 60 = Ok \<lparr>pl_bytes = 100, pl_members = 4, pl_depth = 1,
      pl_array = 4, pl_max_age = 60\<rparr>"
    by (simp add: ProfileLimits_new_def budget_consts)
  have key: "\<not> refused_key (lit ''team'')"
    by code_simp
  have ext: "pr_extensions sample_profile =
      Available (Extensions [(lit ''team'', Array [Number (Some (Finite 3 1)), Null])])"
    by (simp add: sample_profile_def)
  show ?thesis
    using profile_budget_exact [OF new ext, of "\<lambda>_. Some 17" "Object [(lit ''team'', Array [Null])]"] key
    by simp
qed

subsection \<open>Every profile the constructors make is valid\<close>

lemma text_claim_valid:
  "attribute_value (text_claim v n) = Some s \<Longrightarrow> byte_len s \<le> n \<and> \<not> list_ex is_control s"
  by (auto simp: text_claim_def split: option.splits Value.splits if_splits)

text \<open>A profile read from verified provider claims always passes its own validation, whatever
  the claims hold: an ill-typed, oversized or control-character claim becomes the value
  \<open>Invalid\<close> of its attribute and never an error of the login. A configured root of the business
  object cannot be one of the protocol claims, and the email-verified flag is taken from a JSON
  boolean only.\<close>

theorem profile_from_claims_valid:
  "Profile_validate (from_claims json_len claims settings) = Ok ()
   \<and> (pr_email_verified (from_claims json_len claims settings) = Available b \<longleftrightarrow>
        map_of claims (lit ''email_verified'') = Some (Bool b))
   \<and> (pr_extensions (from_claims json_len claims settings) = Available e \<longleftrightarrow>
        (\<exists>root v. ps_extensions_claim settings = Some root \<and> map_of claims root = Some v
          \<and> Extensions_try_from json_len v = Ok e))"
proof (intro conjI)
  show "Profile_validate (from_claims json_len claims settings) = Ok ()"
    by (auto simp: Profile_validate_def from_claims_def split: option.splits
        dest!: text_claim_valid)
  show "pr_email_verified (from_claims json_len claims settings) = Available b \<longleftrightarrow>
      map_of claims (lit ''email_verified'') = Some (Bool b)"
    by (auto simp: from_claims_def split: option.splits Value.splits)
  show "pr_extensions (from_claims json_len claims settings) = Available e \<longleftrightarrow>
      (\<exists>root v. ps_extensions_claim settings = Some root \<and> map_of claims root = Some v
        \<and> Extensions_try_from json_len v = Ok e)"
    by (auto simp: from_claims_def Extensions_try_from_def
        split: option.splits Value.splits sum.splits)
qed

lemma observation_Ok:
  "observation lp = Ok p \<Longrightarrow>
    Profile_validate p = Ok () \<and> pr_extensions p = Available (lp_extensions lp)
    \<and> pr_email_verified p = Missing \<and> 60 \<le> lp_max_age_seconds lp \<and> lp_max_age_seconds lp \<le> 86400"
  by (auto simp: observation_def ProfileSettings_validate_def and_then_Inr_iff Let_def)

lemma apply_limits_idem:
  "apply_limits json_len limits (apply_limits json_len limits p) = apply_limits json_len limits p"
  by (auto simp: apply_limits_def split: Attribute.split option.split)

end
