(* ===== verification/Assurance.thy ===== *)
theory Assurance
  imports Identifiers Federation_Error
begin

section \<open>Authentication assurance (identity-core/src/assurance.rs)\<close>

text \<open>
  The normalised strength (\<open>acr\<close>), methods (\<open>amr\<close>, in canonical order) and time of an
  authentication, and the check of these facts against the intent of a request: a login, a
  reauthentication or a step-up. Construction and deserialisation share one validating function.
\<close>

datatype Acr = Unspecified | Mfa

fun Acr_as_str :: "Acr \<Rightarrow> ustr" where
  "Acr_as_str Unspecified = lit ''unspecified''"
| "Acr_as_str Acr.Mfa = lit ''mfa''"

definition Acr_from_str :: "ustr \<Rightarrow> unit + Acr" where
  "Acr_from_str s =
    (if s = lit ''unspecified'' then Ok Unspecified
     else if s = lit ''mfa'' then Ok Acr.Mfa else Err ())"

datatype Amr = Mfa | Otp | Pwd

fun Amr_as_str :: "Amr \<Rightarrow> ustr" where
  "Amr_as_str Amr.Mfa = lit ''mfa''"
| "Amr_as_str Otp = lit ''otp''"
| "Amr_as_str Pwd = lit ''pwd''"

definition Amr_from_str :: "ustr \<Rightarrow> unit + Amr" where
  "Amr_from_str s =
    (if s = lit ''mfa'' then Ok Amr.Mfa
     else if s = lit ''otp'' then Ok Otp
     else if s = lit ''pwd'' then Ok Pwd else Err ())"

text \<open>The derived order of \<open>Amr\<close> is the order of its variants, which is that of the spellings.\<close>

fun Amr_rank :: "Amr \<Rightarrow> nat" where
  "Amr_rank Amr.Mfa = 0" | "Amr_rank Otp = 1" | "Amr_rank Pwd = 2"

instantiation Amr :: linorder
begin

definition less_eq_Amr :: "Amr \<Rightarrow> Amr \<Rightarrow> bool" where "less_eq_Amr a b \<longleftrightarrow> Amr_rank a \<le> Amr_rank b"
definition less_Amr :: "Amr \<Rightarrow> Amr \<Rightarrow> bool" where "less_Amr a b \<longleftrightarrow> Amr_rank a < Amr_rank b"

lemma Amr_rank_inject: "Amr_rank a = Amr_rank b \<longleftrightarrow> a = b"
  by (cases a; cases b) simp_all

instance
  by standard (auto simp: less_eq_Amr_def less_Amr_def Amr_rank_inject)

end

lemma Amr_less_str: "a < b \<longleftrightarrow> Amr_as_str a < Amr_as_str b"
  by (cases a; cases b) (simp_all add: less_Amr_def lit_def)

definition canonical_methods :: "Amr list \<Rightarrow> bool" where
  "canonical_methods methods = ascending methods"

datatype AuthenticationMode = Login | Reauthenticate | StepUp

fun AuthenticationMode_code :: "AuthenticationMode \<Rightarrow> int" where
  "AuthenticationMode_code Login = 0"
| "AuthenticationMode_code Reauthenticate = 1"
| "AuthenticationMode_code StepUp = 2"

definition AuthenticationMode_from_storage :: "int \<Rightarrow> FederationError + AuthenticationMode" where
  "AuthenticationMode_from_storage value =
    (if value = 0 then Ok Login else if value = 1 then Ok Reauthenticate
     else if value = 2 then Ok StepUp else Err FederationError.Claims)"

record Assurance =
  as_auth_time :: "int option"
  as_acr :: Acr
  as_amr :: "Amr list"

definition Assurance_try_from :: "Assurance \<Rightarrow> FederationError + Assurance" where
  "Assurance_try_from v =
    (if (case as_auth_time v of None \<Rightarrow> False | Some t \<Rightarrow> t \<le> 0)
        \<or> as_acr v = Acr.Mfa \<and> as_auth_time v = None
        \<or> \<not> canonical_methods (as_amr v)
     then Err FederationError.Claims
     else Ok \<lparr>as_auth_time = as_auth_time v, as_acr = as_acr v, as_amr = as_amr v\<rparr>)"

definition Assurance_new :: "int option \<Rightarrow> Acr \<Rightarrow> Amr list \<Rightarrow> FederationError + Assurance" where
  "Assurance_new auth_time acr amr =
    Assurance_try_from \<lparr>as_auth_time = auth_time, as_acr = acr, as_amr = amr\<rparr>"

definition Assurance_password :: "int \<Rightarrow> FederationError + Assurance" where
  "Assurance_password auth_time =
    Assurance_try_from \<lparr>as_auth_time = Some auth_time, as_acr = Unspecified, as_amr = [Pwd]\<rparr>"

definition Assurance_check ::
  "Assurance \<Rightarrow> AuthenticationMode \<Rightarrow> int \<Rightarrow> int \<Rightarrow> FederationError + unit" where
  "Assurance_check a mode started now =
    (if started \<le> 0 \<or> now < started
        \<or> (case as_auth_time a of None \<Rightarrow> False | Some t \<Rightarrow> t > saturating_add now 30)
        \<or> mode \<noteq> Login
          \<and> (case as_auth_time a of None \<Rightarrow> True | Some t \<Rightarrow> t < saturating_sub started 30)
        \<or> mode = StepUp \<and> as_acr a \<noteq> Acr.Mfa
     then Err FederationError.Claims else Ok ())"

definition valid_assurance :: "Assurance \<Rightarrow> bool" where
  "valid_assurance a \<longleftrightarrow>
    (\<forall>t. as_auth_time a = Some t \<longrightarrow> 0 < t) \<and> (as_acr a = Acr.Mfa \<longrightarrow> as_auth_time a \<noteq> None)
    \<and> canonical_methods (as_amr a)"

lemma Assurance_try_from_Ok:
  "Assurance_try_from v = Inr a \<longleftrightarrow> a = v \<and> valid_assurance v"
  by (auto simp: Assurance_try_from_def valid_assurance_def split: option.splits)

interpretation assurance: checked_value Assurance_try_from "\<lambda>a. a" valid_assurance
  by unfold_locales (simp_all add: Assurance_try_from_Ok)

lemma canonical_methods_distinct: "canonical_methods ms \<Longrightarrow> distinct ms \<and> length ms \<le> 3"
proof -
  assume "canonical_methods ms"
  then have distinct: "distinct ms"
    by (simp add: canonical_methods_def ascending_distinct)
  have "set ms \<subseteq> {Amr.Mfa, Otp, Pwd}" using Amr.exhaust by blast
  then have "card (set ms) \<le> card {Amr.Mfa, Otp, Pwd}" by (intro card_mono) simp_all
  with distinct show ?thesis by (simp add: distinct_card)
qed

subsection \<open>Properties\<close>

text \<open>The assurance check accepts exactly the fresh facts its intent needs: the request started in
  the past of the clock, no claimed time lies more than 30 seconds ahead of it; beyond a plain
  login the time is present and at most 30 seconds older than the request; a step-up needs MFA.\<close>

theorem assurance_check_accepts:
  assumes "in_i64 started" and "in_i64 now" and "\<forall>t. as_auth_time a = Some t \<longrightarrow> in_i64 t"
  shows "is_ok (Assurance_check a mode started now) \<longleftrightarrow>
    0 < started \<and> started \<le> now
    \<and> (\<forall>t. as_auth_time a = Some t \<longrightarrow> t \<le> now + 30)
    \<and> (mode \<noteq> Login \<longrightarrow> (\<exists>t. as_auth_time a = Some t \<and> started - 30 \<le> t))
    \<and> (mode = StepUp \<longrightarrow> as_acr a = Acr.Mfa)"
proof (cases "as_auth_time a")
  case None
  then show ?thesis by (auto simp: Assurance_check_def)
next
  case (Some t)
  with assms have "in_i64 t" by simp
  with Some assms(1,2) show ?thesis
    by (auto simp: Assurance_check_def saturating_add_less_iff less_saturating_sub_iff not_less)
qed

theorem assurance_check_accepts_witness:
  "is_ok (Assurance_check \<lparr>as_auth_time = Some 990, as_acr = Acr.Mfa, as_amr = [Amr.Mfa, Pwd]\<rparr>
     StepUp 1000 1010)
   \<and> \<not> is_ok (Assurance_check \<lparr>as_auth_time = Some 900, as_acr = Acr.Mfa, as_amr = [Amr.Mfa, Pwd]\<rparr>
     StepUp 1000 1010)"
  using assurance_check_accepts [of 1000 1010
      "\<lparr>as_auth_time = Some 990, as_acr = Acr.Mfa, as_amr = [Amr.Mfa, Pwd]\<rparr>" StepUp]
    assurance_check_accepts [of 1000 1010
      "\<lparr>as_auth_time = Some 900, as_acr = Acr.Mfa, as_amr = [Amr.Mfa, Pwd]\<rparr>" StepUp]
  by (simp add: i64_unfold)

end
