(* ===== verification/Account_Policy.thy ===== *)
theory Account_Policy
  imports Account
begin

section \<open>Account policy (identity-core/src/account/policy.rs)\<close>

text \<open>
  The pure account state and its transitions. Each success advances the authentication epoch by
  one; the membership epoch advances exactly when the membership flips. The locale \<open>generation\<close>
  states what a verification relies on: a generation that only grows makes every snapshot taken
  before a step unusable after it.
\<close>

datatype TenantId = TenantId uuid

record AccountKey =
  ak_tenant :: TenantId
  ak_principal :: PrincipalId

record AccountState =
  st_key :: AccountKey
  st_enabled :: bool
  st_member_active :: bool
  st_epoch :: int
  st_has_local_password :: bool
  st_membership_epoch :: int

datatype AccountChange = Enabled bool | Membership bool | Password Account.Password
datatype LocalChange = Enabled bool | Membership bool | Password

datatype AccountRuleError =
  InvalidState | Rejected | InsufficientPrivilege | ReauthenticationRequired | AlreadyExists
| EpochExhausted

datatype SecurityAction =
  Initialized | AccountCreated | AccountEnabled | AccountDisabled | MembershipEnabled
| MembershipDisabled | PasswordChanged | PasswordRecovered

fun SecurityAction_as_str :: "SecurityAction \<Rightarrow> ustr" where
  "SecurityAction_as_str Initialized = lit ''initialized''"
| "SecurityAction_as_str AccountCreated = lit ''account_created''"
| "SecurityAction_as_str AccountEnabled = lit ''account_enabled''"
| "SecurityAction_as_str AccountDisabled = lit ''account_disabled''"
| "SecurityAction_as_str MembershipEnabled = lit ''membership_enabled''"
| "SecurityAction_as_str MembershipDisabled = lit ''membership_disabled''"
| "SecurityAction_as_str PasswordChanged = lit ''password_changed''"
| "SecurityAction_as_str PasswordRecovered = lit ''password_recovered''"

definition AccountState_restore ::
  "AccountKey \<Rightarrow> bool \<Rightarrow> bool \<Rightarrow> int \<Rightarrow> bool \<Rightarrow> int \<Rightarrow> AccountRuleError + AccountState" where
  "AccountState_restore key enabled member_active epoch has_local_password membership_epoch =
    (if epoch < 1 \<or> membership_epoch < 1 then Err AccountRuleError.InvalidState
     else Ok \<lparr>st_key = key, st_enabled = enabled, st_member_active = member_active,
              st_epoch = epoch, st_has_local_password = has_local_password,
              st_membership_epoch = membership_epoch\<rparr>)"

definition new_local :: "AccountKey \<Rightarrow> AccountRuleError + AccountState" where
  "new_local key = AccountState_restore key True True 1 True 1"

definition new_federated :: "AccountKey \<Rightarrow> AccountRuleError + AccountState" where
  "new_federated key = AccountState_restore key True True 1 False 1"

definition active :: "AccountState \<Rightarrow> bool" where
  "active s \<longleftrightarrow> st_enabled s \<and> st_member_active s"

definition revoke_sessions :: "AccountState \<Rightarrow> AccountRuleError + AccountState" where
  "revoke_sessions s =
    and_then (ensure (active s) AccountRuleError.Rejected) (\<lambda>_.
    and_then (ok_or AccountRuleError.EpochExhausted (checked_add (st_epoch s) 1)) (\<lambda>e.
    Ok (s\<lparr>st_epoch := e\<rparr>)))"

definition matches_verification :: "AccountState \<Rightarrow> AccountState \<Rightarrow> bool" where
  "matches_verification s expected \<longleftrightarrow>
    active s \<and> st_key s = st_key expected \<and> st_epoch s = st_epoch expected
    \<and> st_has_local_password s = st_has_local_password expected
    \<and> st_membership_epoch s = st_membership_epoch expected"

definition transition ::
  "AccountState \<Rightarrow> LocalChange \<Rightarrow> AccountRuleError + (AccountState \<times> SecurityAction)" where
  "transition s change =
    and_then (ensure (\<not> (change = LocalChange.Password \<and> \<not> st_has_local_password s))
       AccountRuleError.Rejected) (\<lambda>_.
    and_then (ok_or AccountRuleError.EpochExhausted (checked_add (st_epoch s) 1)) (\<lambda>e.
    let next = s\<lparr>st_epoch := e\<rparr> in
    case change of
      LocalChange.Enabled v \<Rightarrow>
        Ok (next\<lparr>st_enabled := v\<rparr>, if v then AccountEnabled else AccountDisabled)
    | LocalChange.Membership v \<Rightarrow>
        and_then
          (if v \<noteq> st_member_active next
           then and_then (ok_or AccountRuleError.EpochExhausted
                  (checked_add (st_membership_epoch next) 1))
                  (\<lambda>m. Ok (next\<lparr>st_membership_epoch := m\<rparr>))
           else Ok next)
          (\<lambda>next. Ok (next\<lparr>st_member_active := v\<rparr>,
                     if v then MembershipEnabled else MembershipDisabled))
    | LocalChange.Password \<Rightarrow> Ok (next, PasswordChanged)))"

definition recover :: "AccountState \<Rightarrow> AccountRuleError + (AccountState \<times> SecurityAction)" where
  "recover s =
    and_then (ensure (st_has_local_password s) AccountRuleError.Rejected) (\<lambda>_.
    and_then (ok_or AccountRuleError.EpochExhausted (checked_add (st_epoch s) 1)) (\<lambda>e.
    Ok (s\<lparr>st_epoch := e\<rparr>, PasswordRecovered)))"

text \<open>Every way an account state changes.\<close>

inductive account_step :: "AccountState \<Rightarrow> AccountState \<Rightarrow> bool" where
  change: "transition s c = Inr (s', a) \<Longrightarrow> account_step s s'"
| recovery: "recover s = Inr (s', a) \<Longrightarrow> account_step s s'"
| revoke: "revoke_sessions s = Inr s' \<Longrightarrow> account_step s s'"

inductive_simps account_step_iff: "account_step s s'"

definition valid_account :: "AccountState \<Rightarrow> bool" where
  "valid_account s \<longleftrightarrow>
    1 \<le> st_epoch s \<and> in_i64 (st_epoch s) \<and> 1 \<le> st_membership_epoch s \<and> in_i64 (st_membership_epoch s)"

subsection \<open>The contract of a generation counter\<close>

locale generation =
  fixes step :: "'s \<Rightarrow> 's \<Rightarrow> bool"
    and gen :: "'s \<Rightarrow> int"
    and owner :: "'s \<Rightarrow> 'k"
  assumes step_gen: "step s s' \<Longrightarrow> gen s < gen s'"
    and step_owner: "step s s' \<Longrightarrow> owner s' = owner s"
begin

lemma run_gen: "step\<^sup>+\<^sup>+ s s' \<Longrightarrow> gen s < gen s'"
  by (induction rule: tranclp_induct) (auto dest: step_gen intro: less_trans)

lemma run_gen_le: "step\<^sup>*\<^sup>* s s' \<Longrightarrow> gen s \<le> gen s'"
  by (induction rule: rtranclp_induct) (auto dest: step_gen)

lemma run_owner: "step\<^sup>*\<^sup>* s s' \<Longrightarrow> owner s' = owner s"
  by (induction rule: rtranclp_induct) (auto simp: step_owner)

lemma never_returns: "step\<^sup>+\<^sup>+ s s' \<Longrightarrow> gen s' \<noteq> gen s"
  by (auto dest: run_gen)

lemma run_length: "(step ^^ n) s s' \<Longrightarrow> gen s + int n \<le> gen s'"
proof (induction n arbitrary: s')
  case (Suc n)
  then obtain t where "(step ^^ n) s t" "step t s'" by auto
  with Suc.IH [of t] step_gen [of t s'] show ?case by simp
qed simp

end

subsection \<open>What one transition does\<close>

lemma transition_Ok:
  "transition s c = Inr (s', a) \<longleftrightarrow>
    (c = LocalChange.Password \<longrightarrow> st_has_local_password s) \<and> in_i64 (st_epoch s + 1)
    \<and> (case c of
        LocalChange.Enabled v \<Rightarrow>
          s' = s\<lparr>st_epoch := st_epoch s + 1, st_enabled := v\<rparr>
          \<and> a = (if v then AccountEnabled else AccountDisabled)
      | LocalChange.Membership v \<Rightarrow>
          (v \<noteq> st_member_active s \<longrightarrow> in_i64 (st_membership_epoch s + 1))
          \<and> s' = s\<lparr>st_epoch := st_epoch s + 1, st_member_active := v,
                  st_membership_epoch := st_membership_epoch s
                    + (if v \<noteq> st_member_active s then 1 else 0)\<rparr>
          \<and> a = (if v then MembershipEnabled else MembershipDisabled)
      | LocalChange.Password \<Rightarrow> s' = s\<lparr>st_epoch := st_epoch s + 1\<rparr> \<and> a = PasswordChanged)"
  by (cases c) (auto simp: transition_def result_simps i64_simps Let_def)

lemma recover_Ok:
  "recover s = Inr (s', a) \<longleftrightarrow>
    st_has_local_password s \<and> in_i64 (st_epoch s + 1)
    \<and> s' = s\<lparr>st_epoch := st_epoch s + 1\<rparr> \<and> a = PasswordRecovered"
  by (auto simp: recover_def result_simps i64_simps)

lemma revoke_sessions_Ok:
  "revoke_sessions s = Inr s' \<longleftrightarrow>
    active s \<and> in_i64 (st_epoch s + 1) \<and> s' = s\<lparr>st_epoch := st_epoch s + 1\<rparr>"
  by (auto simp: revoke_sessions_def result_simps i64_simps)

lemma transition_effect:
  assumes "transition s c = Inr (s', a)"
  shows "st_epoch s' = st_epoch s + 1" "st_key s' = st_key s"
    "st_has_local_password s' = st_has_local_password s"
    "valid_account s \<Longrightarrow> valid_account s'"
  using assms by (cases c; auto simp: transition_Ok valid_account_def)+

lemma account_step_epoch: "account_step s s' \<Longrightarrow> st_epoch s' = st_epoch s + 1"
  by (auto simp: account_step_iff recover_Ok revoke_sessions_Ok transition_effect)

lemma account_step_key: "account_step s s' \<Longrightarrow> st_key s' = st_key s"
  by (auto simp: account_step_iff recover_Ok revoke_sessions_Ok transition_effect)

lemma account_step_valid: "account_step s s' \<Longrightarrow> valid_account s \<Longrightarrow> valid_account s'"
  by (auto simp: account_step_iff recover_Ok revoke_sessions_Ok valid_account_def
      dest: transition_effect(4) [unfolded valid_account_def])

interpretation account: generation account_step st_epoch st_key
  by unfold_locales (auto simp: account_step_epoch account_step_key)

lemma matches_verification_refl: "matches_verification s s = active s"
  by (simp add: matches_verification_def)

subsection \<open>Properties\<close>

text \<open>An account transition (an administrator's change, a recovery, a revocation of all sessions)
  makes every verification taken before it unusable, however many further transitions follow.\<close>

theorem stale_verification_never_matches:
  assumes "account_step\<^sup>+\<^sup>+ s s'"
  shows "\<not> matches_verification s' s \<and> st_epoch s < st_epoch s' \<and> st_key s' = st_key s"
  using account.never_returns [OF assms] account.run_gen [OF assms]
    account.run_owner [OF tranclp_into_rtranclp [OF assms]]
  by (simp add: matches_verification_def)

definition sample_key :: AccountKey where
  "sample_key = \<lparr>ak_tenant = TenantId 7, ak_principal = PrincipalId 9\<rparr>"

definition sample_account :: AccountState where
  "sample_account = \<lparr>st_key = sample_key, st_enabled = True, st_member_active = True,
     st_epoch = 1, st_has_local_password = True, st_membership_epoch = 1\<rparr>"

lemma sample_disable:
  "account_step sample_account (sample_account\<lparr>st_epoch := 2, st_enabled := False\<rparr>)"
proof (rule account_step.change)
  show "transition sample_account (LocalChange.Enabled False) =
      Inr (sample_account\<lparr>st_epoch := 2, st_enabled := False\<rparr>, AccountDisabled)"
    by (simp add: transition_Ok sample_account_def i64_unfold)
qed

theorem stale_verification_never_matches_witness:
  "\<not> matches_verification (sample_account\<lparr>st_epoch := 2, st_enabled := False\<rparr>) sample_account"
  using stale_verification_never_matches [OF tranclp.r_into_trancl [of account_step, OF sample_disable]] by simp

text \<open>A change of an account is refused exactly when it would change the password of an account
  without a local credential (\<open>Rejected\<close>), or when the epoch, or the membership epoch of a flipped
  membership, has no successor in \<open>i64\<close> (\<open>EpochExhausted\<close>); no other error exists.\<close>

theorem transition_refusals:
  "transition s c = Inl e \<longleftrightarrow>
    (if c = LocalChange.Password \<and> \<not> st_has_local_password s
     then e = AccountRuleError.Rejected
     else e = AccountRuleError.EpochExhausted
       \<and> (\<not> in_i64 (st_epoch s + 1)
          \<or> (\<exists>v. c = LocalChange.Membership v) \<and> c \<noteq> LocalChange.Membership (st_member_active s)
            \<and> \<not> in_i64 (st_membership_epoch s + 1)))"
  by (cases c) (auto simp: transition_def result_simps i64_simps Let_def)

theorem transition_refusals_witness:
  "transition (sample_account\<lparr>st_has_local_password := False\<rparr>) LocalChange.Password
    = Inl AccountRuleError.Rejected"
  unfolding transition_refusals by simp

text \<open>A change that succeeds has exactly the stated effect: it advances the epoch by one, sets
  only the field it names, advances the membership epoch exactly when the membership flips, and
  reports the action that matches the direction of the change.\<close>

theorem transition_effects:
  "transition s c = Inr (s', a) \<longleftrightarrow>
    (\<forall>e. transition s c \<noteq> Inl e)
    \<and> s' = s\<lparr>st_epoch := st_epoch s + 1,
         st_enabled := (case c of LocalChange.Enabled v \<Rightarrow> v | _ \<Rightarrow> st_enabled s),
         st_member_active := (case c of LocalChange.Membership v \<Rightarrow> v | _ \<Rightarrow> st_member_active s),
         st_membership_epoch := st_membership_epoch s +
           (if c = LocalChange.Membership (\<not> st_member_active s) then 1 else 0)\<rparr>
    \<and> a = (case c of
        LocalChange.Enabled v \<Rightarrow> (if v then AccountEnabled else AccountDisabled)
      | LocalChange.Membership v \<Rightarrow> (if v then MembershipEnabled else MembershipDisabled)
      | LocalChange.Password \<Rightarrow> PasswordChanged)"
  unfolding transition_Ok
  by (cases c; cases "st_member_active s") (auto simp: transition_def result_simps i64_simps Let_def)

end
