(* ===== verification/Federation.thy ===== *)
theory Federation
  imports Entra Group_Facts Department Profile Assurance Account_Policy
begin

section \<open>Federation values (identity-core/src/federation.rs, federation/credentials.rs)\<close>

text \<open>
  Provider settings and their single validation, the signed state of an authorization request, the
  transient credentials of a provider and the claims an upstream adapter hands over. URL parsing,
  UUID and tenant printing and parsing, HMAC-SHA-256 and URL-safe base64 belong to crates outside
  the repository and are parameters; random bytes are an argument (\<open>None\<close> when the system source
  fails).
\<close>

datatype ProviderId = ProviderId uuid

fun provider_uuid :: "ProviderId \<Rightarrow> uuid" where "provider_uuid (ProviderId u) = u"

definition ProviderId_parse :: "(ustr \<Rightarrow> uuid option) \<Rightarrow> ustr \<Rightarrow> FederationError + ProviderId" where
  "ProviderId_parse parse_str value =
    and_then (ok_or FederationError.Configuration (parse_str value)) (\<lambda>id.
    and_then (ensure (id \<noteq> uuid_nil) FederationError.Configuration) (\<lambda>_.
    Ok (ProviderId id)))"

record ClaimMapping =
  cm_subject :: SubjectMapping
  cm_profile :: ProfileSettings
  cm_groups :: "ustr option"
  cm_department_snapshot :: "DepartmentSnapshotClaim option"

record ProviderSettingsInput =
  psi_issuer :: ustr
  psi_client_id :: ustr
  psi_redirect_uri :: ustr
  psi_scopes :: "ustr list"
  psi_claims :: ClaimMapping
  psi_jit :: bool

subsection \<open>Validation of provider settings\<close>

definition is_scope_byte :: "byte \<Rightarrow> bool" where
  "is_scope_byte b \<longleftrightarrow> 0x21 \<le> b \<and> b \<le> 0x7E \<and> b \<noteq> 0x22 \<and> b \<noteq> 0x5C"

fun check_scopes :: "ustr list \<Rightarrow> ustr set \<Rightarrow> FederationError + unit" where
  "check_scopes [] seen = Ok ()"
| "check_scopes (s # rest) seen =
    (if byte_len s > 128 \<or> s = [] \<or> \<not> list_all is_scope_byte (utf8 s)
        \<or> s = lit ''offline_access'' \<or> s \<in> seen
     then Err FederationError.Configuration else check_scopes rest (insert s seen))"

fun check_texts :: "(ustr \<times> nat) list \<Rightarrow> FederationError + unit" where
  "check_texts [] = Ok ()"
| "check_texts ((s, most) # rest) =
    (if s = [] \<or> byte_len s > most \<or> trim s \<noteq> s \<or> list_ex is_control s
     then Err FederationError.Configuration else check_texts rest)"

fun check_urls :: "(ustr \<Rightarrow> url_parts option) \<Rightarrow> ustr list \<Rightarrow> FederationError + unit" where
  "check_urls url_parse [] = Ok ()"
| "check_urls url_parse (value # rest) =
    and_then (ok_or FederationError.Configuration (url_parse value)) (\<lambda>url.
    if \<not> (url_scheme url = lit ''http'' \<or> url_scheme url = lit ''https'') \<or> url_host url = None
       \<or> url_username url \<noteq> [] \<or> url_password url \<noteq> None \<or> url_query url \<noteq> None
       \<or> url_fragment url \<noteq> None
    then Err FederationError.Configuration else check_urls url_parse rest)"

definition claim_roots :: "ClaimMapping \<Rightarrow> ustr list" where
  "claim_roots c =
    concat (map (\<lambda>r. case r of None \<Rightarrow> [] | Some s \<Rightarrow> [s])
      [ps_extensions_claim (cm_profile c), cm_groups c])"

definition ROOT_RESERVED :: "ustr list" where
  "ROOT_RESERVED = map lit [''sub'', ''iss'', ''aud'', ''nonce'', ''azp'']"

fun check_roots :: "ustr list \<Rightarrow> FederationError + unit" where
  "check_roots [] = Ok ()"
| "check_roots (s # rest) =
    (if s = [] \<or> byte_len s > 64 \<or> \<not> list_all is_claim_byte (utf8 s) \<or> s \<in> set ROOT_RESERVED
     then Err FederationError.Configuration else check_roots rest)"

definition ProviderSettingsInput_validate ::
  "(uuid \<Rightarrow> ustr) \<Rightarrow> (ustr \<Rightarrow> url_parts option) \<Rightarrow> ProviderSettingsInput \<Rightarrow> FederationError + unit" where
  "ProviderSettingsInput_validate show_uuid url_parse i =
    and_then (case cm_subject (psi_claims i) of
        SubjectMapping.Entra tenant \<Rightarrow>
          ensure (\<not> (tenant = uuid_nil \<or> psi_issuer i \<noteq> entra_issuer show_uuid tenant
              \<or> \<not> list_ex (\<lambda>s. s = lit ''profile'') (psi_scopes i))) FederationError.Configuration
      | SubjectMapping.Oidc \<Rightarrow> Ok ()) (\<lambda>_.
    and_then (check_texts
      [(psi_issuer i, 2048), (psi_client_id i, 256), (psi_redirect_uri i, 2048)]) (\<lambda>_.
    and_then (check_urls url_parse [psi_issuer i, psi_redirect_uri i]) (\<lambda>_.
    and_then (ensure (\<not> (psi_scopes i = [] \<or> length (psi_scopes i) > 16
        \<or> \<not> list_ex (\<lambda>s. s = lit ''openid'') (psi_scopes i))) FederationError.Configuration) (\<lambda>_.
    and_then (map_err (\<lambda>_. FederationError.Configuration)
        (ProfileSettings_validate (cm_profile (psi_claims i)))) (\<lambda>_.
    and_then (check_scopes (psi_scopes i) {}) (\<lambda>_.
    and_then (case cm_department_snapshot (psi_claims i) of
        None \<Rightarrow> Ok ()
      | Some department \<Rightarrow>
          ensure (\<not> list_ex (\<lambda>claim. claim = dc_claim department) (claim_roots (psi_claims i)))
            FederationError.Configuration) (\<lambda>_.
    check_roots (claim_roots (psi_claims i)))))))))"

record ProviderSettings =
  pv_issuer :: IssuerId
  pv_client_id :: ClientId
  pv_redirect_uri :: ustr
  pv_scopes :: "ustr list"
  pv_claims :: ClaimMapping
  pv_jit :: bool

definition ProviderSettings_try_from ::
  "(uuid \<Rightarrow> ustr) \<Rightarrow> (ustr \<Rightarrow> url_parts option) \<Rightarrow> ProviderSettingsInput
    \<Rightarrow> FederationError + ProviderSettings" where
  "ProviderSettings_try_from show_uuid url_parse i =
    and_then (ProviderSettingsInput_validate show_uuid url_parse i) (\<lambda>_.
    and_then (map_err (\<lambda>_. FederationError.Configuration) (IssuerId_parse (psi_issuer i))) (\<lambda>issuer.
    and_then (map_err (\<lambda>_. FederationError.Configuration) (ClientId_parse (psi_client_id i))) (\<lambda>client.
    Ok \<lparr>pv_issuer = issuer, pv_client_id = client, pv_redirect_uri = psi_redirect_uri i,
        pv_scopes = psi_scopes i, pv_claims = psi_claims i, pv_jit = psi_jit i\<rparr>)))"

definition ProviderSettings_input :: "ProviderSettings \<Rightarrow> ProviderSettingsInput" where
  "ProviderSettings_input s =
    \<lparr>psi_issuer = issuer_str (pv_issuer s), psi_client_id = client_str (pv_client_id s),
     psi_redirect_uri = pv_redirect_uri s, psi_scopes = pv_scopes s, psi_claims = pv_claims s,
     psi_jit = pv_jit s\<rparr>"

record ProviderView =
  vw_id :: ProviderId
  vw_version :: int
  vw_enabled :: bool
  vw_revocation_epoch :: int
  vw_settings :: ProviderSettings
  vw_assurance_profile :: "byte list"
  vw_credential_version :: int

subsection \<open>The signed state\<close>

datatype Purpose = Login | Reauthenticate | Link

fun Purpose_code :: "Purpose \<Rightarrow> byte" where
  "Purpose_code Purpose.Login = 0"
| "Purpose_code Purpose.Reauthenticate = 1"
| "Purpose_code Link = 2"

definition Purpose_from_code :: "byte \<Rightarrow> FederationError + Purpose" where
  "Purpose_from_code code =
    (if code = 0 then Ok Purpose.Login else if code = 1 then Ok Purpose.Reauthenticate
     else if code = 2 then Ok Link else Err FederationError.Rejected)"

record StateSigner =
  sg_key :: "byte list"
  sg_origin :: ustr

record StateLocator =
  sl_tenant :: TenantId
  sl_id :: "byte list"
  sl_purpose :: Purpose

definition StateSigner_new :: "byte list \<Rightarrow> ustr \<Rightarrow> FederationError + StateSigner" where
  "StateSigner_new key origin =
    (if key = replicate 32 0 \<or> origin = [] \<or> byte_len origin > 2048
     then Err FederationError.Configuration else Ok \<lparr>sg_key = key, sg_origin = origin\<rparr>)"

text \<open>\<open>u32::to_be_bytes\<close> of a length, which the cast first takes modulo two to the 32.\<close>

definition be32 :: "nat \<Rightarrow> byte list" where
  "be32 n = [of_nat (n div 0x1000000), of_nat (n div 0x10000), of_nat (n div 0x100), of_nat n]"

definition STATE_DOMAIN :: "byte list" where
  "STATE_DOMAIN = utf8 (lit ''rss-identity.oidc.state.v1'') @ [0]"

definition state_message :: "ustr \<Rightarrow> byte list \<Rightarrow> byte list" where
  "state_message origin payload = STATE_DOMAIN @ be32 (byte_len origin) @ utf8 origin @ payload"

definition state_mac :: "(byte list \<Rightarrow> byte list \<Rightarrow> byte list) \<Rightarrow> StateSigner \<Rightarrow> byte list \<Rightarrow> byte list" where
  "state_mac hmac s payload = hmac (sg_key s) (state_message (sg_origin s) payload)"

definition state_issue ::
  "(byte list \<Rightarrow> byte list \<Rightarrow> byte list) \<Rightarrow> (byte list \<Rightarrow> ustr) \<Rightarrow> (ustr \<Rightarrow> uuid option)
    \<Rightarrow> (TenantId \<Rightarrow> ustr) \<Rightarrow> StateSigner \<Rightarrow> TenantId \<Rightarrow> Purpose \<Rightarrow> byte list option
    \<Rightarrow> FederationError + ustr" where
  "state_issue hmac encode parse_uuid show_tenant s tenant purpose random =
    and_then (ok_or FederationError.Rejected (parse_uuid (show_tenant tenant))) (\<lambda>t.
    and_then (ok_or FederationError.Unavailable random) (\<lambda>id.
    let payload = [1, Purpose_code purpose] @ uuid_bytes t @ id in
    Ok (encode (payload @ state_mac hmac s payload))))"

definition state_verify ::
  "(byte list \<Rightarrow> byte list \<Rightarrow> byte list) \<Rightarrow> (byte list \<Rightarrow> ustr) \<Rightarrow> (ustr \<Rightarrow> byte list option)
    \<Rightarrow> (uuid \<Rightarrow> ustr) \<Rightarrow> (ustr \<Rightarrow> TenantId option) \<Rightarrow> StateSigner \<Rightarrow> ustr
    \<Rightarrow> FederationError + StateLocator" where
  "state_verify hmac encode decode show_uuid parse_tenant s state =
    (if byte_len state \<noteq> 110 then Err FederationError.Rejected
     else and_then (ok_or FederationError.Rejected (decode state)) (\<lambda>bytes.
     if length bytes \<noteq> 82 \<or> encode bytes \<noteq> state \<or> bytes ! 0 \<noteq> 1 then Err FederationError.Rejected
     else
       and_then (ensure (state_mac hmac s (take 50 bytes) = drop 50 bytes) FederationError.Rejected) (\<lambda>_.
       and_then (Purpose_from_code (bytes ! 1)) (\<lambda>purpose.
       and_then (ok_or FederationError.Rejected (uuid_from_slice (take 16 (drop 2 bytes)))) (\<lambda>t.
       and_then (ok_or FederationError.Rejected (parse_tenant (show_uuid t))) (\<lambda>tenant.
       Ok \<lparr>sl_tenant = tenant, sl_id = take 32 (drop 18 bytes), sl_purpose = purpose\<rparr>))))))"

subsection \<open>Protocol material, credentials and claims\<close>

definition federation_digest :: "(byte list \<Rightarrow> byte list) \<Rightarrow> ustr \<Rightarrow> byte list" where
  "federation_digest sha256 value = sha256 (utf8 value)"

definition random_secret :: "(byte list \<Rightarrow> ustr) \<Rightarrow> byte list option \<Rightarrow> FederationError + ustr" where
  "random_secret encode random =
    and_then (ok_or FederationError.Unavailable random) (\<lambda>bytes. Ok (encode bytes))"

record ProtocolMaterial =
  pm_state :: ustr
  pm_nonce :: ustr
  pm_verifier :: ustr

definition ProtocolMaterial_new ::
  "(byte list \<Rightarrow> ustr) \<Rightarrow> ustr \<Rightarrow> byte list option \<Rightarrow> byte list option
    \<Rightarrow> FederationError + ProtocolMaterial" where
  "ProtocolMaterial_new encode state random1 random2 =
    and_then (random_secret encode random1) (\<lambda>nonce.
    and_then (random_secret encode random2) (\<lambda>verifier.
    Ok \<lparr>pm_state = state, pm_nonce = nonce, pm_verifier = verifier\<rparr>))"

record ProviderCredentials =
  cr_secret :: ustr
  cr_ca :: "ustr option"

definition ProviderCredentials_new :: "ustr \<Rightarrow> ustr option \<Rightarrow> FederationError + ProviderCredentials" where
  "ProviderCredentials_new secret ca =
    (if secret = [] \<or> byte_len secret > 4096 \<or> 0 \<in> set secret
        \<or> (case ca of None \<Rightarrow> False | Some v \<Rightarrow> v = [] \<or> byte_len v > 16384)
     then Err FederationError.Configuration else Ok \<lparr>cr_secret = secret, cr_ca = ca\<rparr>)"

record UpstreamClaims =
  uc_issuer :: ustr
  uc_subject :: ExternalSubject
  uc_profile :: Profile
  uc_groups :: UpstreamGroups
  uc_department_snapshot :: UpstreamDepartmentSnapshot
  uc_issued_at :: int
  uc_expires_at :: int
  uc_assurance :: Assurance

definition UpstreamClaims_validate :: "UpstreamClaims \<Rightarrow> FederationError + unit" where
  "UpstreamClaims_validate c =
    and_then (ExternalSubject_validate (uc_subject c)) (\<lambda>_.
    and_then (UpstreamGroups_validate (uc_groups c)) (\<lambda>_.
    and_then (ensure (\<not> (uc_issued_at c \<le> 0 \<or> uc_expires_at c \<le> uc_issued_at c))
      FederationError.Claims) (\<lambda>_.
    and_then (map_err (\<lambda>_. FederationError.Claims) (Profile_validate (uc_profile c))) (\<lambda>_.
    Ok ()))))"

record AssuranceProfile =
  ap_fingerprint :: "byte list"
  ap_supports_step_up :: bool

subsection \<open>Accepted settings\<close>

definition clean_url :: "(ustr \<Rightarrow> url_parts option) \<Rightarrow> ustr \<Rightarrow> bool" where
  "clean_url url_parse value \<longleftrightarrow>
    (case url_parse value of None \<Rightarrow> False
     | Some u \<Rightarrow> url_scheme u \<in> {lit ''http'', lit ''https''} \<and> url_host u \<noteq> None
         \<and> url_username u = [] \<and> url_password u = None \<and> url_query u = None
         \<and> url_fragment u = None)"

definition valid_scope :: "ustr \<Rightarrow> bool" where
  "valid_scope s \<longleftrightarrow> s \<noteq> [] \<and> byte_len s \<le> 128 \<and> list_all is_scope_byte (utf8 s)
    \<and> s \<noteq> lit ''offline_access''"

definition valid_root :: "ustr \<Rightarrow> bool" where
  "valid_root s \<longleftrightarrow> s \<noteq> [] \<and> byte_len s \<le> 64 \<and> list_all is_claim_byte (utf8 s)
    \<and> s \<notin> set ROOT_RESERVED"

definition subject_consistent :: "(uuid \<Rightarrow> ustr) \<Rightarrow> ProviderSettingsInput \<Rightarrow> bool" where
  "subject_consistent show_uuid i \<longleftrightarrow>
    (case cm_subject (psi_claims i) of SubjectMapping.Oidc \<Rightarrow> True
     | SubjectMapping.Entra t \<Rightarrow> t \<noteq> uuid_nil \<and> psi_issuer i = entra_issuer show_uuid t
         \<and> lit ''profile'' \<in> set (psi_scopes i))"

definition valid_input ::
  "(uuid \<Rightarrow> ustr) \<Rightarrow> (ustr \<Rightarrow> url_parts option) \<Rightarrow> ProviderSettingsInput \<Rightarrow> bool" where
  "valid_input show_uuid url_parse i \<longleftrightarrow>
    subject_consistent show_uuid i
    \<and> list_all (\<lambda>(s, most). valid_name s \<and> byte_len s \<le> most)
        [(psi_issuer i, 2048), (psi_client_id i, 256), (psi_redirect_uri i, 2048)]
    \<and> list_all (clean_url url_parse) [psi_issuer i, psi_redirect_uri i]
    \<and> length (psi_scopes i) \<le> 16 \<and> lit ''openid'' \<in> set (psi_scopes i)
    \<and> distinct (psi_scopes i) \<and> list_all valid_scope (psi_scopes i)
    \<and> is_ok (ProfileSettings_validate (cm_profile (psi_claims i)))
    \<and> list_all valid_root (claim_roots (psi_claims i))
    \<and> (case cm_department_snapshot (psi_claims i) of None \<Rightarrow> True
       | Some d \<Rightarrow> dc_claim d \<notin> set (claim_roots (psi_claims i)))"

lemma check_scopes_Ok:
  "check_scopes ss seen = Ok u \<longleftrightarrow> list_all valid_scope ss \<and> distinct ss \<and> set ss \<inter> seen = {}"
  by (induction ss arbitrary: seen) (auto simp: valid_scope_def)

lemma check_texts_Ok:
  "check_texts xs = Ok u \<longleftrightarrow> list_all (\<lambda>(s, most). valid_name s \<and> byte_len s \<le> most) xs"
  by (induction xs rule: check_texts.induct) (auto simp: valid_name_def)

lemma check_urls_Ok: "check_urls url_parse xs = Ok u \<longleftrightarrow> list_all (clean_url url_parse) xs"
  by (induction xs) (auto simp: clean_url_def and_then_Inr_iff split: option.split)

lemma check_roots_Ok: "check_roots xs = Ok u \<longleftrightarrow> list_all valid_root xs"
  by (induction xs) (auto simp: valid_root_def)

lemma unit_ok: "r = Ok (u :: unit) \<longleftrightarrow> is_ok r"
  by (cases r) auto

lemma ProviderSettingsInput_validate_Ok:
  "ProviderSettingsInput_validate su up i = Ok u \<longleftrightarrow> valid_input su up i"
proof -
  have subject: "(case cm_subject (psi_claims i) of
        SubjectMapping.Entra t \<Rightarrow> ensure (\<not> (t = uuid_nil \<or> psi_issuer i \<noteq> entra_issuer su t
          \<or> \<not> list_ex (\<lambda>s. s = lit ''profile'') (psi_scopes i))) FederationError.Configuration
      | SubjectMapping.Oidc \<Rightarrow> Ok ()) = Ok v \<longleftrightarrow> subject_consistent su i" for v
    by (auto simp: subject_consistent_def list_ex_iff split: SubjectMapping.split)
  have department: "(case cm_department_snapshot (psi_claims i) of None \<Rightarrow> Ok ()
      | Some d \<Rightarrow> ensure (\<not> list_ex (\<lambda>c. c = dc_claim d) (claim_roots (psi_claims i)))
          FederationError.Configuration) = Ok v \<longleftrightarrow>
      (case cm_department_snapshot (psi_claims i) of None \<Rightarrow> True
       | Some d \<Rightarrow> dc_claim d \<notin> set (claim_roots (psi_claims i)))" for v
    by (auto simp: list_ex_iff split: option.split)
  have scopes: "\<not> (ss = [] \<or> length ss > 16 \<or> \<not> list_ex (\<lambda>s. s = lit ''openid'') ss) \<longleftrightarrow>
      length ss \<le> 16 \<and> lit ''openid'' \<in> set ss" for ss :: "ustr list"
    by (auto simp: list_ex_iff)
  show ?thesis
    unfolding ProviderSettingsInput_validate_def and_then_Inr_iff map_err_Inr_iff subject department
      check_texts_Ok check_urls_Ok check_scopes_Ok check_roots_Ok ensure_Inr_iff scopes
      unit_ok [of "ProfileSettings_validate _"] valid_input_def
    by blast
qed

lemma ProviderSettings_try_from_Ok:
  "ProviderSettings_try_from su up i = Ok s \<longleftrightarrow>
    valid_input su up i \<and> ProviderSettings_input s = i"
proof -
  have "IssuerId_parse v = Ok j \<longleftrightarrow> j = IssuerId v" "ClientId_parse v = Ok k \<longleftrightarrow> k = ClientId v"
    if "valid_name v" for v j k
    using that by (auto simp: IssuerId_parse_def ClientId_parse_def valid_name_def)
  moreover have "ProviderSettings_input s = i \<longleftrightarrow>
      s = \<lparr>pv_issuer = IssuerId (psi_issuer i), pv_client_id = ClientId (psi_client_id i),
        pv_redirect_uri = psi_redirect_uri i, pv_scopes = psi_scopes i, pv_claims = psi_claims i,
        pv_jit = psi_jit i\<rparr>"
    by (cases "pv_issuer s"; cases "pv_client_id s"; cases s; cases i)
      (auto simp: ProviderSettings_input_def)
  moreover have "valid_name (psi_issuer i)" "valid_name (psi_client_id i)" if "valid_input su up i"
    using that by (auto simp: valid_input_def)
  ultimately show ?thesis
    unfolding ProviderSettings_try_from_def and_then_Inr_iff map_err_Inr_iff
      ProviderSettingsInput_validate_Ok
    by auto
qed

interpretation provider_settings: checked_value "ProviderSettings_try_from su up"
  ProviderSettings_input "\<lambda>s. valid_input su up (ProviderSettings_input s)" for su up
  by unfold_locales (auto simp: ProviderSettings_try_from_Ok)

text \<open>Provider settings exist only in validated form. Settings built from an input restore to the
  same settings through the same constructor, and they satisfy: issuer and client are exact
  names; the scopes are distinct, at most 16, contain \<open>openid\<close> and never \<open>offline_access\<close>; issuer
  and redirect are absolute URLs without user information, query or fragment; an Entra mapping
  is bound to the issuer of its own tenant; no configurable claim root is a protocol claim, and
  the department snapshot never shares a root with profile extensions or groups.\<close>

theorem provider_settings_valid:
  assumes "ProviderSettings_try_from show_uuid url_parse i = Ok s"
  shows "ProviderSettings_input s = i
    \<and> ProviderSettings_try_from show_uuid url_parse (ProviderSettings_input s) = Ok s
    \<and> valid_name (issuer_str (pv_issuer s)) \<and> valid_name (client_str (pv_client_id s))
    \<and> distinct (pv_scopes s) \<and> length (pv_scopes s) \<le> 16 \<and> lit ''openid'' \<in> set (pv_scopes s)
    \<and> lit ''offline_access'' \<notin> set (pv_scopes s)
    \<and> clean_url url_parse (issuer_str (pv_issuer s)) \<and> clean_url url_parse (pv_redirect_uri s)
    \<and> (\<forall>t. cm_subject (pv_claims s) = SubjectMapping.Entra t \<longrightarrow>
        t \<noteq> uuid_nil \<and> issuer_str (pv_issuer s) = entra_issuer show_uuid t)
    \<and> set (claim_roots (pv_claims s)) \<inter> set ROOT_RESERVED = {}
    \<and> (\<forall>d. cm_department_snapshot (pv_claims s) = Some d \<longrightarrow>
        dc_claim d \<notin> set (claim_roots (pv_claims s)))"
proof -
  from assms have input: "ProviderSettings_input s = i" and valid: "valid_input show_uuid url_parse i"
    by (simp_all add: ProviderSettings_try_from_Ok)
  from input have sel: "psi_issuer i = issuer_str (pv_issuer s)"
    "psi_client_id i = client_str (pv_client_id s)" "psi_scopes i = pv_scopes s"
    "psi_redirect_uri i = pv_redirect_uri s" "psi_claims i = pv_claims s"
    by (auto simp: ProviderSettings_input_def)
  from assms have "ProviderSettings_try_from show_uuid url_parse (ProviderSettings_input s) = Ok s"
    by (rule provider_settings.recheck)
  with input valid show ?thesis
    unfolding valid_input_def sel subject_consistent_def
    by (auto simp: list_all_iff valid_scope_def valid_root_def)
qed

definition sample_url :: "ustr \<Rightarrow> url_parts option" where
  "sample_url s = Some \<lparr>url_scheme = lit ''https'', url_host = Some (lit ''h''), url_username = [],
     url_password = None, url_query = None, url_fragment = None, url_path = lit ''/'', url_names = [], url_str = s\<rparr>"

definition sample_input :: ProviderSettingsInput where
  "sample_input = \<lparr>psi_issuer = lit ''https://h'', psi_client_id = lit ''c'',
     psi_redirect_uri = lit ''https://h/r'', psi_scopes = [lit ''openid''],
     psi_claims = \<lparr>cm_subject = SubjectMapping.Oidc, cm_profile = ProfileSettings_default,
       cm_groups = Some (lit ''groups''), cm_department_snapshot = None\<rparr>, psi_jit = True\<rparr>"

lemmas sample_text = lit_def is_control_def is_whitespace_def utf8_def utf8_char_def utf8_width_def
  is_ascii_alphanumeric_def is_ascii_digit_def

lemma sample_input_parts:
  "valid_name (lit ''https://h'')" "valid_name (lit ''https://h/r'')" "valid_name (lit ''c'')"
  "valid_scope (lit ''openid'')" "valid_root (lit ''groups'')"
  by (simp_all add: valid_name_def trim_eq_self_iff valid_scope_def is_scope_byte_def valid_root_def
      is_claim_byte_def ROOT_RESERVED_def sample_text)

lemma sample_input_valid: "valid_input hyphenated sample_url sample_input"
  using sample_input_parts
  by (simp add: valid_input_def sample_input_def subject_consistent_def clean_url_def sample_url_def
      ProfileSettings_validate_def ProfileSettings_default_def claim_roots_def)
    (simp add: sample_text)

definition sample_settings :: ProviderSettings where
  "sample_settings = \<lparr>pv_issuer = IssuerId (lit ''https://h''), pv_client_id = ClientId (lit ''c''),
      pv_redirect_uri = lit ''https://h/r'', pv_scopes = [lit ''openid''],
      pv_claims = psi_claims sample_input, pv_jit = True\<rparr>"

lemma sample_input_Ok: "ProviderSettings_try_from hyphenated sample_url sample_input = Ok sample_settings"
  using sample_input_valid
  by (simp add: ProviderSettings_try_from_Ok ProviderSettings_input_def sample_settings_def
      sample_input_def)

theorem provider_settings_valid_witness:
  "ProviderSettings_input sample_settings = sample_input
   \<and> lit ''openid'' \<in> set (pv_scopes sample_settings)"
  using provider_settings_valid [OF sample_input_Ok] by blast

subsection \<open>The signed state names its issuer\<close>

definition state_payload :: "uuid \<Rightarrow> Purpose \<Rightarrow> byte list \<Rightarrow> byte list" where
  "state_payload t purpose sid = [1, Purpose_code purpose] @ uuid_bytes t @ sid"

lemma Purpose_from_code_Ok: "Purpose_from_code c = Ok p \<longleftrightarrow> c = Purpose_code p"
  by (cases p) (auto simp: Purpose_from_code_def)

lemma length_state_payload: "length (state_payload t p sid) = 18 + length sid"
  by (simp add: state_payload_def)

lemma numeral_18_plus_32: "18 + 32 = (50 :: nat)"
  by simp

lemma state_verify_Ok:
  "state_verify hmac encode decode su pt s state = Ok loc \<longleftrightarrow>
    (\<exists>t. let p = state_payload t (sl_purpose loc) (sl_id loc); bytes = p @ state_mac hmac s p in
      byte_len state = 110 \<and> length (sl_id loc) = 32 \<and> length bytes = 82
      \<and> decode state = Some bytes \<and> encode bytes = state \<and> pt (su t) = Some (sl_tenant loc))"
  (is "?L \<longleftrightarrow> (\<exists>t. ?R t)")
proof
  assume ?L
  then obtain bytes t where b: "byte_len state = 110" "decode state = Some bytes" "length bytes = 82"
      "encode bytes = state" "bytes ! 0 = 1" "state_mac hmac s (take 50 bytes) = drop 50 bytes"
      "bytes ! 1 = Purpose_code (sl_purpose loc)" "uuid_from_slice (take 16 (drop 2 bytes)) = Some t"
      "pt (su t) = Some (sl_tenant loc)" "sl_id loc = take 32 (drop 18 bytes)"
    by (auto simp: state_verify_def and_then_Inr_iff Purpose_from_code_Ok split: if_splits)
  have "bytes = take 2 bytes @ take 16 (drop 2 bytes) @ take 32 (drop 18 bytes) @ drop 50 bytes"
    by (simp flip: take_add drop_drop append_assoc)
  moreover have "take 2 bytes = [1, Purpose_code (sl_purpose loc)]"
    using b by (cases bytes; cases "tl bytes") auto
  ultimately have split: "bytes = state_payload t (sl_purpose loc) (sl_id loc) @ drop 50 bytes"
    using b uuid_bytes_from_slice [of _ t] by (simp add: state_payload_def)
  have "length (sl_id loc) = 32" using b by simp
  then have "take 50 bytes = state_payload t (sl_purpose loc) (sl_id loc)"
    using split length_state_payload [of t "sl_purpose loc" "sl_id loc"]
    by (metis append_eq_conv_conj numeral_18_plus_32)
  with b split have eq: "state_payload t (sl_purpose loc) (sl_id loc) @
      state_mac hmac s (state_payload t (sl_purpose loc) (sl_id loc)) = bytes"
    by simp
  show "\<exists>t. ?R t"
    unfolding Let_def using b(1-4,9) \<open>length (sl_id loc) = 32\<close> eq by (intro exI [of _ t]) simp
next
  assume "\<exists>t. ?R t"
  then obtain t bytes where b: "byte_len state = 110" "length (sl_id loc) = 32" "length bytes = 82"
      "decode state = Some bytes" "encode bytes = state" "pt (su t) = Some (sl_tenant loc)"
      and bytes: "bytes = state_payload t (sl_purpose loc) (sl_id loc) @
        state_mac hmac s (state_payload t (sl_purpose loc) (sl_id loc))"
    by (auto simp: Let_def)
  have parts: "take 50 bytes = state_payload t (sl_purpose loc) (sl_id loc)"
      "drop 50 bytes = state_mac hmac s (state_payload t (sl_purpose loc) (sl_id loc))"
      "bytes ! 0 = 1" "bytes ! 1 = Purpose_code (sl_purpose loc)"
      "take 16 (drop 2 bytes) = uuid_bytes t" "take 32 (drop 18 bytes) = sl_id loc"
    using b(2) by (simp_all add: bytes state_payload_def)
  have "Purpose_from_code (bytes ! 1) = Ok (sl_purpose loc)"
    unfolding parts by (simp add: Purpose_from_code_Ok)
  with b show ?L
    by (simp add: state_verify_def parts)
qed

lemma byte_of_nat_inject: "(of_nat n :: byte) = of_nat m \<longleftrightarrow> n mod 256 = m mod 256"
  by (simp add: word_unat_eq_iff unat_of_nat)

lemma be32_inject: "n < 65536 \<Longrightarrow> m < 65536 \<Longrightarrow> be32 n = be32 m \<longleftrightarrow> n = m"
proof
  assume b: "n < 65536" "m < 65536" and eq: "be32 n = be32 m"
  then have "n div 256 mod 256 = m div 256 mod 256" "n mod 256 = m mod 256"
    by (simp_all add: be32_def byte_of_nat_inject)
  with b have "n div 256 = m div 256" "n mod 256 = m mod 256" by simp_all
  then show "n = m" by (metis div_mult_mod_eq)
qed simp

text \<open>The authenticated message separates the origin from the payload: no two pairs share one.\<close>

lemma state_message_inject:
  assumes "byte_len a \<le> 2048" "byte_len b \<le> 2048"
  shows "state_message a p = state_message b q \<longleftrightarrow> utf8 a = utf8 b \<and> p = q"
proof
  assume "state_message a p = state_message b q"
  then have eq: "be32 (byte_len a) @ utf8 a @ p = be32 (byte_len b) @ utf8 b @ q"
    by (simp add: state_message_def)
  then have "be32 (byte_len a) = be32 (byte_len b)" and rest: "utf8 a @ p = utf8 b @ q"
    by (simp_all add: be32_def)
  with assms have "byte_len a = byte_len b" by (simp add: be32_inject)
  with rest show "utf8 a = utf8 b \<and> p = q" by (simp add: append_eq_append_conv)
next
  assume "utf8 a = utf8 b \<and> p = q"
  moreover from this have "byte_len a = byte_len b" by (metis length_utf8)
  ultimately show "state_message a p = state_message b q" by (simp add: state_message_def)
qed

lemma StateSigner_new_Ok:
  "StateSigner_new key origin = Ok s \<Longrightarrow>
    sg_key s = key \<and> sg_origin s = origin \<and> key \<noteq> replicate 32 0 \<and> origin \<noteq> []
    \<and> byte_len (sg_origin s) \<le> 2048"
  by (auto simp: StateSigner_new_def split: if_splits)

text \<open>A state the signer issues verifies to exactly what was signed: the tenant, the 32-byte
  transaction identifier and the purpose. The reliance on the crates is their documented
  behaviour on the one value used: base64 decodes what it encodes and gives 110 characters for
  82 bytes, HMAC-SHA-256 tags have 32 bytes, and a tenant survives printing and parsing.\<close>

theorem state_roundtrip:
  assumes "\<forall>bs. length bs = 82 \<longrightarrow> decode (encode bs) = Some bs \<and> byte_len (encode bs) = 110"
    and "\<forall>k m. length (hmac k m) = 32"
    and "parse_uuid (show_tenant tenant) = Some t" "parse_tenant (show_uuid t) = Some tenant"
    and "length sid = 32"
  shows "\<exists>state. state_issue hmac encode parse_uuid show_tenant s tenant purpose (Some sid) = Ok state
    \<and> state_verify hmac encode decode show_uuid parse_tenant s state =
        Ok \<lparr>sl_tenant = tenant, sl_id = sid, sl_purpose = purpose\<rparr>"
proof -
  let ?p = "state_payload t purpose sid"
  let ?bytes = "?p @ state_mac hmac s ?p"
  have len: "length ?bytes = 82"
    using assms(2,5) by (simp add: length_state_payload state_mac_def)
  have "state_issue hmac encode parse_uuid show_tenant s tenant purpose (Some sid) = Ok (encode ?bytes)"
    using assms(3) by (simp add: state_issue_def state_payload_def Let_def)
  moreover have "state_verify hmac encode decode show_uuid parse_tenant s (encode ?bytes) =
      Ok \<lparr>sl_tenant = tenant, sl_id = sid, sl_purpose = purpose\<rparr>"
    unfolding state_verify_Ok Let_def using assms(1,4,5) len by (intro exI [of _ t]) simp
  ultimately show ?thesis by blast
qed

text \<open>A base-64 coder for 82 bytes, digits from the least significant one, to apply the theorem to.\<close>

fun digits64 :: "nat \<Rightarrow> nat \<Rightarrow> ustr" where
  "digits64 0 n = []"
| "digits64 (Suc k) n = (48 + n mod 64) # digits64 k (n div 64)"

fun value64 :: "ustr \<Rightarrow> nat" where
  "value64 [] = 0"
| "value64 (c # cs) = (c - 48) + 64 * value64 cs"

fun value256 :: "byte list \<Rightarrow> nat" where
  "value256 [] = 0"
| "value256 (b # bs) = unat b + 256 * value256 bs"

fun digits256 :: "nat \<Rightarrow> nat \<Rightarrow> byte list" where
  "digits256 0 n = []"
| "digits256 (Suc k) n = of_nat n # digits256 k (n div 256)"

definition encode82 :: "byte list \<Rightarrow> ustr" where "encode82 bs = digits64 110 (value256 bs)"
definition decode82 :: "ustr \<Rightarrow> byte list option" where
  "decode82 s = (if byte_len s = 110 then Some (digits256 82 (value64 s)) else None)"

lemma value64_digits: "n < 64 ^ k \<Longrightarrow> value64 (digits64 k n) = n"
proof (induction k arbitrary: n)
  case (Suc k)
  then have "n div 64 < 64 ^ k" by (simp add: less_mult_imp_div_less mult.commute)
  with Suc.IH show ?case by simp
qed simp

lemma byte_len_digits64: "byte_len (digits64 k n) = k"
proof (induction k arbitrary: n)
  case (Suc k)
  have "utf8_width (48 + n mod 64) = 1"
    using mod_less_divisor [of 64 n] by (simp add: utf8_width_def)
  with Suc show ?case by simp
qed simp

lemma digits256_value: "length bs = k \<Longrightarrow> digits256 k (value256 bs) = bs"
proof (induction bs arbitrary: k)
  case (Cons b bs)
  have "(unat b + 256 * value256 bs) div 256 = value256 bs"
    using unsigned_less [of b, where ?'a = nat] by simp
  moreover have "(of_nat (unat b + 256 * value256 bs) :: byte) = b"
    using unsigned_less [of b, where ?'a = nat] by (simp add: word_unat_eq_iff unat_of_nat del: of_nat_add of_nat_mult)
  ultimately show ?case using Cons by (cases k) (simp_all del: of_nat_add)
qed simp

lemma value256_less: "value256 bs < 256 ^ length bs"
proof (induction bs)
  case (Cons b bs)
  then have "unat b + 256 * value256 bs < 256 + 256 * (256 ^ length bs - 1)"
    using unsigned_less [of b, where ?'a = nat] by simp
  with Cons show ?case by (simp add: algebra_simps)
qed simp

lemma coder82: "\<forall>bs. length bs = 82 \<longrightarrow> decode82 (encode82 bs) = Some bs \<and> byte_len (encode82 bs) = 110"
proof (intro allI impI)
  fix bs :: "byte list" assume len: "length bs = 82"
  have "value256 bs < 64 ^ 110" using value256_less [of bs] len by simp
  then show "decode82 (encode82 bs) = Some bs \<and> byte_len (encode82 bs) = 110"
    by (simp add: decode82_def encode82_def byte_len_digits64 value64_digits digits256_value len)
qed

definition sample_signer :: StateSigner where
  "sample_signer = \<lparr>sg_key = replicate 32 7, sg_origin = lit ''https://h''\<rparr>"

definition sample_show_tenant :: "TenantId \<Rightarrow> ustr" where
  "sample_show_tenant t = (case t of TenantId u \<Rightarrow> hyphenated u)"
definition sample_parse_uuid :: "ustr \<Rightarrow> uuid option" where
  "sample_parse_uuid s = (if s = hyphenated 5 then Some 5 else None)"
definition sample_parse_tenant :: "ustr \<Rightarrow> TenantId option" where
  "sample_parse_tenant s = map_option TenantId (sample_parse_uuid s)"

theorem state_roundtrip_witness:
  "\<exists>state. state_issue (\<lambda>k m. replicate 32 1) encode82 sample_parse_uuid sample_show_tenant
      sample_signer (TenantId 5) Link (Some (replicate 32 9)) = Ok state
    \<and> state_verify (\<lambda>k m. replicate 32 1) encode82 decode82 hyphenated sample_parse_tenant
        sample_signer state =
        Ok \<lparr>sl_tenant = TenantId 5, sl_id = replicate 32 9, sl_purpose = Link\<rparr>"
  by (rule state_roundtrip [where t = 5, OF coder82])
    (simp_all add: sample_parse_uuid_def sample_show_tenant_def sample_parse_tenant_def)

lemma sample_state_verified:
  "state_verify (\<lambda>k m. replicate 32 1) encode82 decode82 hyphenated sample_parse_tenant sample_signer
    (encode82 (state_payload 5 Link (replicate 32 9) @ replicate 32 1)) =
    Ok \<lparr>sl_tenant = TenantId 5, sl_id = replicate 32 9, sl_purpose = Link\<rparr>"
  unfolding state_verify_Ok Let_def using coder82
  by (intro exI [of _ 5])
    (simp add: sample_parse_uuid_def sample_parse_tenant_def length_state_payload state_mac_def)

text \<open>C37: A state is accepted only if this signer made it. Whatever text the browser presents, an
  accepted state is the encoding of a payload for the returned tenant, transaction identifier
  and purpose followed by the tag of this signer over that payload; there is no second accepted
  spelling. The tagged message determines the origin too: the message a signer of another
  origin tags is a different byte sequence, even under the same key.\<close>

theorem state_authentic:
  assumes "state_verify hmac encode decode show_uuid parse_tenant s state = Ok loc"
    and "StateSigner_new key origin = Ok s" "StateSigner_new key' origin' = Ok s'"
  shows "\<exists>t p. parse_tenant (show_uuid t) = Some (sl_tenant loc)
    \<and> p = [1, Purpose_code (sl_purpose loc)] @ uuid_bytes t @ sl_id loc \<and> length p = 50
    \<and> state = encode (p @ hmac key (state_message origin p))
    \<and> (utf8 origin' \<noteq> utf8 origin \<longrightarrow> (\<forall>q. state_message origin' q \<noteq> state_message origin p))"
proof -
  from assms(1) obtain t where t: "parse_tenant (show_uuid t) = Some (sl_tenant loc)"
      "length (sl_id loc) = 32"
      "state = encode (state_payload t (sl_purpose loc) (sl_id loc) @
         state_mac hmac s (state_payload t (sl_purpose loc) (sl_id loc)))"
    unfolding state_verify_Ok Let_def by metis
  have "state_message origin' q = state_message origin p \<Longrightarrow> utf8 origin' = utf8 origin" for p q
    using state_message_inject StateSigner_new_Ok [OF assms(2)] StateSigner_new_Ok [OF assms(3)]
    by metis
  with t StateSigner_new_Ok [OF assms(2)] show ?thesis
    by (intro exI [of _ t] exI [of _ "state_payload t (sl_purpose loc) (sl_id loc)"])
      (auto simp: state_payload_def state_mac_def)
qed

theorem state_authentic_witness:
  "\<exists>t p. encode82 (state_payload 5 Link (replicate 32 9) @ replicate 32 1) =
      encode82 (p @ (\<lambda>k m. replicate 32 1) (replicate 32 7) (state_message (lit ''https://h'') p))
    \<and> p = [1, Purpose_code Link] @ uuid_bytes t @ replicate 32 9"
proof -
  have signer: "StateSigner_new (replicate 32 7) (lit ''https://h'') = Ok sample_signer"
    by (simp add: StateSigner_new_def sample_signer_def lit_def utf8_width_def)
  show ?thesis
    using state_authentic [OF sample_state_verified signer signer] by auto
qed

end
