(* ===== verification/Pg_Errors.thy ===== *)
theory Pg_Errors
  imports Federation
begin

section \<open>Errors of the PostgreSQL authority (identity-postgres/src/types.rs, transaction.rs)\<close>

text \<open>
  A storage error of the messaging crate is known to this repository by its kind only, so the model
  keeps the kind: \<open>reject\<close> is a conflict, \<open>corrupt\<close> an invariant violation. A mutation fails with
  a storage error or with a domain reason; the reason travels beside the transaction result in a
  write-once slot, and \<open>sql_failure\<close> fills the slot.
\<close>

datatype MessagingErrorKind =
  Transient | Permanent | Conflict | OwnershipLost | Invariant | DeadlineElapsed

type_synonym PgError = MessagingErrorKind

definition reject :: PgError where "reject = MessagingErrorKind.Conflict"
definition corrupt :: PgError where "corrupt = Invariant"

datatype StorageFailure =
  Transient | Permanent | Conflict | OwnershipLost | Invariant | DeadlineElapsed

fun StorageFailure_from :: "MessagingErrorKind \<Rightarrow> StorageFailure" where
  "StorageFailure_from MessagingErrorKind.Transient = StorageFailure.Transient"
| "StorageFailure_from MessagingErrorKind.Permanent = StorageFailure.Permanent"
| "StorageFailure_from MessagingErrorKind.Conflict = StorageFailure.Conflict"
| "StorageFailure_from MessagingErrorKind.OwnershipLost = StorageFailure.OwnershipLost"
| "StorageFailure_from MessagingErrorKind.Invariant = StorageFailure.Invariant"
| "StorageFailure_from MessagingErrorKind.DeadlineElapsed = StorageFailure.DeadlineElapsed"

datatype StorageMismatch = DeploymentIdentity | SchemaVersion | Role | Privileges | SchemaContract

datatype AuthorityError =
  CursorInvalidated | InteractionRequired | Cancelled | Configuration | RevisionConflict
| OperationConflict | InvalidInput | DeadlineElapsed | Federation FederationError | Rejected
| ReauthenticationFailed | RuleRejected AccountRuleError | RateLimited nat | Busy | Unavailable
| StorageIncompatible StorageMismatch | NotStarted StorageFailure | RolledBack StorageFailure
| RollbackFailed StorageFailure | CommitUnknown StorageFailure | Fenced

fun AuthorityError_from_password :: "PasswordError \<Rightarrow> AuthorityError" where
  "AuthorityError_from_password PasswordError.Invalid = InvalidInput"
| "AuthorityError_from_password PasswordError.Busy = AuthorityError.Busy"
| "AuthorityError_from_password PasswordError.Unavailable = AuthorityError.Unavailable"

datatype AttemptSource = AttemptSource ustr
fun attempt_source_value :: "AttemptSource \<Rightarrow> ustr" where
  "attempt_source_value (AttemptSource s) = s"

definition AttemptSource_parse :: "ustr \<Rightarrow> AuthorityError + AttemptSource" where
  "AttemptSource_parse value =
    (if value = [] \<or> byte_len value > 128 \<or> \<not> is_ascii value \<or> list_ex is_control value
     then Err InvalidInput else Ok (AttemptSource value))"

datatype AuthorityProfile = Runtime | Maintenance | Provisioning

subsection \<open>Domain reasons\<close>

datatype MutationError =
  InvalidInput | CursorInvalidated | Storage PgError | Rule AccountRuleError | RevisionConflict
| OperationConflict | Federation FederationError

text \<open>The storage error the transaction sees and the reason put into the slot, if any.\<close>

fun sql_failure :: "MutationError \<Rightarrow> PgError \<times> AuthorityError option" where
  "sql_failure MutationError.InvalidInput = (reject, Some AuthorityError.InvalidInput)"
| "sql_failure MutationError.CursorInvalidated = (reject, Some AuthorityError.CursorInvalidated)"
| "sql_failure MutationError.RevisionConflict = (reject, Some AuthorityError.RevisionConflict)"
| "sql_failure MutationError.OperationConflict = (reject, Some AuthorityError.OperationConflict)"
| "sql_failure (Storage e) = (e, None)"
| "sql_failure (Rule e) = (reject, Some (RuleRejected e))"
| "sql_failure (MutationError.Federation e) = (reject, Some (AuthorityError.Federation e))"

definition domain_result :: "AuthorityError + 'a \<Rightarrow> AuthorityError option \<Rightarrow> AuthorityError + 'a" where
  "domain_result result reason =
    (case (result, reason) of
       (Inl AuthorityError.Rejected, Some r) \<Rightarrow> Err r
     | _ \<Rightarrow> result)"

lemma domain_result_Ok [simp]: "domain_result (Inr x) reason = Inr x"
  by (simp add: domain_result_def)

lemma domain_result_None [simp]: "domain_result r None = r"
  by (cases r) (auto simp: domain_result_def split: AuthorityError.split)

lemma domain_result_Err:
  "domain_result (Inl e) reason =
    (case reason of Some r \<Rightarrow> if e = AuthorityError.Rejected then Err r else Err e | None \<Rightarrow> Err e)"
  by (cases e) (auto simp: domain_result_def split: option.split)

lemma domain_result_Inr_iff [simp]: "domain_result r reason = Inr x \<longleftrightarrow> r = Inr x"
  by (cases r) (auto simp: domain_result_Err split: option.split if_splits)

subsection \<open>The schema probe (lib.rs)\<close>

definition check_probe :: "AuthorityError + ustr option \<Rightarrow> AuthorityError + unit" where
  "check_probe result =
    and_then result (\<lambda>code.
    if code = Some (lit ''ok'') then Ok ()
    else Err (StorageIncompatible
      (if code = Some (lit ''schema-version'') then SchemaVersion
       else if code = Some (lit ''role'') then Role
       else if code = Some (lit ''deployment-identity'') then DeploymentIdentity
       else if code = Some (lit ''privileges'') then Privileges
       else SchemaContract)))"

end
