(* ===== verification/Time_Sample.thy ===== *)
theory Time_Sample
  imports Pg_Errors
begin

section \<open>Database time and host deadlines (identity-postgres/src/session_storage.rs, session_checks.rs)\<close>

text \<open>
  A host \<open>Instant\<close> is a count of nanoseconds of the monotonic clock, a database reading a count of
  microseconds since the epoch, floored. A sample pairs a reading with the host instant taken
  before the query was sent, so that all latency after it counts against a deadline. The limit of
  \<open>Instant\<close> is that of the platform's 64-bit seconds.
\<close>

type_synonym instant = int

definition instant_checked_add :: "instant \<Rightarrow> int \<Rightarrow> instant option" where
  "instant_checked_add t ns = (if t + ns < (i64_max + 1) * 1000000000 then Some (t + ns) else None)"

record TimeSample =
  ts_started :: instant
  ts_micros :: int

definition TimeSample_read :: "instant \<Rightarrow> int \<Rightarrow> PgError + TimeSample" where
  "TimeSample_read started micros =
    (if micros \<le> 0 then Err corrupt else Ok \<lparr>ts_started = started, ts_micros = micros\<rparr>)"

definition sample_seconds :: "TimeSample \<Rightarrow> int" where
  "sample_seconds s = ts_micros s div 1000000"

text \<open>\<open>SessionChecks::seconds\<close>: a controlled clock of the test feature may only move facts forward.\<close>

definition checks_seconds :: "int option \<Rightarrow> int \<Rightarrow> int" where
  "checks_seconds controlled database_now =
    (case controlled of None \<Rightarrow> database_now | Some floor \<Rightarrow> max database_now floor)"

definition advance_to :: "int \<Rightarrow> int \<Rightarrow> AuthorityError + int" where
  "advance_to clock seconds =
    (if seconds \<le> 0 \<or> seconds > i64_max div 1000000 then Err AuthorityError.Configuration
     else Ok (max clock seconds))"

definition sample_for_facts :: "int option \<Rightarrow> TimeSample \<Rightarrow> TimeSample" where
  "sample_for_facts controlled s =
    (let seconds = checks_seconds controlled (sample_seconds s) in
     \<lparr>ts_started = ts_started s, ts_micros = max (ts_micros s) (clamp_i64 (seconds * 1000000))\<rparr>)"

definition sample_deadline :: "TimeSample \<Rightarrow> int \<Rightarrow> PgError + instant" where
  "sample_deadline s seconds =
    (if seconds \<le> 0 then Err corrupt
     else let remaining = seconds * 1000000 - ts_micros s - 1 in
       if remaining \<le> 0 then Ok (ts_started s)
       else if remaining \<ge> 2 ^ 64 then Err corrupt
       else ok_or corrupt (instant_checked_add (ts_started s) (remaining * 1000)))"

definition within_age :: "TimeSample \<Rightarrow> int \<Rightarrow> int \<Rightarrow> instant \<Rightarrow> bool" where
  "within_age s authenticated max_age now \<longleftrightarrow>
    (if max_age = 0 then False
     else if max_age > i64_max then False
     else case checked_add authenticated max_age of
        None \<Rightarrow> False
      | Some end \<Rightarrow> (case sample_deadline s end of Inl _ \<Rightarrow> False | Inr deadline \<Rightarrow> now < deadline))"

lemma sample_deadline_Ok:
  "sample_deadline s seconds = Ok d \<Longrightarrow>
    0 < seconds \<and> (d = ts_started s \<and> seconds * 1000000 \<le> ts_micros s + 1
      \<or> d = ts_started s + (seconds * 1000000 - ts_micros s - 1) * 1000)"
  by (auto simp: sample_deadline_def Let_def instant_checked_add_def split: if_splits)

lemma within_age_iff:
  "within_age s auth age now \<longleftrightarrow> age \<noteq> 0 \<and> age \<le> i64_max \<and> in_i64 (auth + age)
    \<and> (\<exists>d. sample_deadline s (auth + age) = Ok d \<and> now < d)"
  by (auto simp: within_age_def checked_add_def split: sum.split if_splits)

text \<open>
  What the two clocks have in common: at the host instant \<open>r\<close> of the reading, not before the
  sample was started, the database clock stood at \<open>D\<close> nanoseconds, and both clocks then advance
  together.
\<close>

definition sampled :: "TimeSample \<Rightarrow> instant \<Rightarrow> int \<Rightarrow> bool" where
  "sampled s r D \<longleftrightarrow> ts_started s \<le> r \<and> ts_micros s = D div 1000"

lemma deadline_before_database_time:
  assumes "sample_deadline s seconds = Ok d" and "sampled s r D" and "ts_started s \<le> t" and "t < d"
  shows "D + (t - r) < seconds * 1000000000"
proof -
  from assms(1,3,4) have "d = ts_started s + (seconds * 1000000 - ts_micros s - 1) * 1000"
    by (auto dest: sample_deadline_Ok)
  with assms(4) have "t - ts_started s < seconds * 1000000000 - ts_micros s * 1000 - 1000"
    by simp
  moreover from assms(2) have "D < ts_micros s * 1000 + 1000" "t - r \<le> t - ts_started s"
    by (auto simp: sampled_def)
  ultimately show ?thesis by linarith
qed

text \<open>C36: A host deadline made from a database sample is never late. Whatever time passed between
  taking the host instant and the database answering, while the host still sees an instant
  before the deadline, the database clock is strictly before the second the deadline stands for;
  the same holds for the recent-authentication check: it accepts only while the database clock is
  before the authentication time plus the allowed age. A second that is already reached gives a
  deadline that is already over.\<close>

theorem deadline_never_late:
  assumes "sampled s r D" and "ts_started s \<le> t" and "sample_deadline s seconds = Ok d"
  shows "(t < d \<longrightarrow> D + (t - r) < seconds * 1000000000)
    \<and> (within_age s authenticated age t \<longrightarrow> D + (t - r) < (authenticated + age) * 1000000000)
    \<and> (seconds * 1000000 \<le> ts_micros s \<longrightarrow> d = ts_started s)"
proof (intro conjI impI)
  show "D + (t - r) < seconds * 1000000000" if "t < d"
    by (rule deadline_before_database_time [OF assms(3,1,2) that])
  show "D + (t - r) < (authenticated + age) * 1000000000" if "within_age s authenticated age t"
    using that deadline_before_database_time [OF _ assms(1,2)] unfolding within_age_iff by blast
  show "d = ts_started s" if "seconds * 1000000 \<le> ts_micros s"
    using that assms(3) by (auto simp: sample_deadline_def Let_def split: if_splits)
qed

theorem deadline_never_late_witness:
  "sample_deadline \<lparr>ts_started = 7, ts_micros = 100750000\<rparr> 101 = Ok 249999007
   \<and> 100750000999 + (249999006 - 9) < 101 * (1000000000::int)"
proof -
  have d: "sample_deadline \<lparr>ts_started = 7, ts_micros = 100750000\<rparr> 101 = Ok 249999007"
    by (simp add: sample_deadline_def instant_checked_add_def i64_max_def)
  have "sampled \<lparr>ts_started = 7, ts_micros = 100750000\<rparr> 9 100750000999"
    by (simp add: sampled_def)
  from deadline_never_late [OF this _ d, of 249999006] d show ?thesis by auto
qed

end
