(* ===== verification/Fact_Access.thy ===== *)
theory Fact_Access
  imports Time_Sample
begin

section \<open>Persisted authentication facts and their access (identity-postgres/src/auth_facts.rs, groups.rs, department.rs)\<close>

text \<open>
  The facts a login collects from verified claims, their codec (the JSON text itself is
  third-party; the model keeps the parsed structure, and its serialised length is a parameter),
  their projection at a later time, and the views a caller retains: a view carries two host
  deadlines, of the request proof and of the snapshot, and every access reads the clock again. The
  locale \<open>retained_view\<close> is the contract of such a view. Fresh UUIDs are arguments.
\<close>

datatype Snapshot = Unavailable FactUnavailableReason | Available uuid int int "ustr list"

datatype DepartmentObservation =
  Unavailable DepartmentUnavailableReason
| Available uuid int int DepartmentSnapshot

record AuthenticationFacts =
  af_format_version :: int
  af_provider_config_version :: int
  af_assurance :: Assurance
  af_groups :: Snapshot
  af_department_snapshot :: DepartmentObservation

definition DepartmentObservation_collect ::
  "uuid \<Rightarrow> UpstreamClaims \<Rightarrow> DepartmentSnapshotClaim option \<Rightarrow> int \<Rightarrow> FederationError + DepartmentObservation" where
  "DepartmentObservation_collect fresh claims mapping now =
    (case (uc_department_snapshot claims, mapping) of
       (UpstreamDepartmentSnapshot.NotConfigured, None) \<Rightarrow>
         Ok (DepartmentObservation.Unavailable DepartmentUnavailableReason.NotConfigured)
     | (UpstreamDepartmentSnapshot.Missing, Some _) \<Rightarrow>
         Ok (DepartmentObservation.Unavailable DepartmentUnavailableReason.ClaimMissing)
     | (UpstreamDepartmentSnapshot.Invalid, Some _) \<Rightarrow>
         Ok (DepartmentObservation.Unavailable InvalidClaim)
     | (UpstreamDepartmentSnapshot.Present snapshot, Some m) \<Rightarrow>
         and_then (department_expires_at m (uc_issued_at claims) (uc_expires_at claims) now) (\<lambda>e.
         Ok (DepartmentObservation.Available fresh (uc_issued_at claims) e snapshot))
     | _ \<Rightarrow> Err FederationError.Claims)"

definition DepartmentObservation_validate :: "DepartmentObservation \<Rightarrow> PgError + unit" where
  "DepartmentObservation_validate d =
    (case d of
       DepartmentObservation.Unavailable reason \<Rightarrow>
         ensure (reason \<in> {DepartmentUnavailableReason.NotConfigured,
           DepartmentUnavailableReason.ClaimMissing, InvalidClaim}) corrupt
     | DepartmentObservation.Available snapshot_id observed_at expires_at _ \<Rightarrow>
         ensure (snapshot_id \<noteq> uuid_nil \<and> valid_snapshot_window observed_at expires_at) corrupt)"

definition facts_collect ::
  "uuid \<Rightarrow> uuid \<Rightarrow> UpstreamClaims \<Rightarrow> int \<Rightarrow> GroupFactsMaxAge \<Rightarrow> DepartmentSnapshotClaim option \<Rightarrow> int
    \<Rightarrow> FederationError + AuthenticationFacts" where
  "facts_collect fresh1 fresh2 claims version policy department_snapshot now =
    and_then (UpstreamClaims_validate claims) (\<lambda>_.
    and_then (group_expires_at policy (uc_issued_at claims) (uc_expires_at claims) now) (\<lambda>expires_at.
    and_then (ensure (\<not> version < 1) FederationError.Claims) (\<lambda>_.
    let groups = (case uc_groups claims of
        UpstreamGroups.NotConfigured \<Rightarrow> Snapshot.Unavailable FactUnavailableReason.NotConfigured
      | UpstreamGroups.Missing \<Rightarrow> Snapshot.Unavailable FactUnavailableReason.ClaimMissing
      | UpstreamGroups.Present values \<Rightarrow>
          Snapshot.Available fresh1 (uc_issued_at claims) expires_at values) in
    and_then (DepartmentObservation_collect fresh2 claims department_snapshot now) (\<lambda>department.
    Ok \<lparr>af_format_version = 3, af_provider_config_version = version,
        af_assurance = uc_assurance claims, af_groups = groups,
        af_department_snapshot = department\<rparr>))))"

text \<open>
  Deserialising runs the validating constructors of the nested values (assurance, department
  snapshot) before the checks of \<open>decode\<close>.
\<close>

definition facts_from_value :: "AuthenticationFacts \<Rightarrow> PgError + AuthenticationFacts" where
  "facts_from_value v =
    and_then (map_err (\<lambda>_. corrupt) (Assurance_try_from (af_assurance v))) (\<lambda>a.
    and_then (case af_department_snapshot v of
        DepartmentObservation.Unavailable r \<Rightarrow> Ok (DepartmentObservation.Unavailable r)
      | DepartmentObservation.Available i at e s \<Rightarrow>
          and_then (map_err (\<lambda>_. corrupt) (DepartmentSnapshot_try_from s)) (\<lambda>s.
          Ok (DepartmentObservation.Available i at e s))) (\<lambda>d.
    Ok (v\<lparr>af_assurance := a, af_department_snapshot := d\<rparr>)))"

definition facts_decode :: "AuthenticationFacts \<Rightarrow> PgError + AuthenticationFacts" where
  "facts_decode v =
    and_then (facts_from_value v) (\<lambda>facts.
    and_then (ensure (\<not> (af_format_version facts \<noteq> 3 \<or> af_provider_config_version facts < 1)) corrupt) (\<lambda>_.
    and_then (DepartmentObservation_validate (af_department_snapshot facts)) (\<lambda>_.
    and_then (case af_groups facts of
        Snapshot.Unavailable reason \<Rightarrow>
          ensure (reason \<notin> {FactUnavailableReason.LocalIdentity, FactUnavailableReason.NotYetValid}) corrupt
      | Snapshot.Available snapshot_id observed_at expires_at values \<Rightarrow>
          ensure (\<not> (snapshot_id = uuid_nil \<or> \<not> valid_snapshot_window observed_at expires_at
            \<or> \<not> canonical_values values)) corrupt) (\<lambda>_.
    Ok facts))))"

definition facts_encode ::
  "(AuthenticationFacts \<Rightarrow> nat) \<Rightarrow> AuthenticationFacts \<Rightarrow> PgError + AuthenticationFacts" where
  "facts_encode json_size facts =
    (if json_size facts > 32768 then
       (case af_department_snapshot facts of
          DepartmentObservation.Unavailable _ \<Rightarrow> Err reject
        | DepartmentObservation.Available _ _ _ _ \<Rightarrow>
            let value = facts\<lparr>af_department_snapshot := DepartmentObservation.Unavailable InvalidClaim\<rparr> in
            if json_size value > 32768 then Err reject else Ok value)
     else Ok facts)"

definition facts_project :: "AuthenticationFacts \<Rightarrow> FactSource \<Rightarrow> int \<Rightarrow> PgError + Groups" where
  "facts_project facts source now =
    (case af_groups facts of
       Snapshot.Unavailable reason \<Rightarrow> Ok (groups_unavailable reason)
     | Snapshot.Available snapshot_id observed_at expires_at values \<Rightarrow>
         if \<not> acceptable_observation observed_at now then Err reject
         else if now < observed_at then Ok (groups_unavailable FactUnavailableReason.NotYetValid)
         else if now \<ge> expires_at then Ok (Groups.Expired VERSION)
         else Ok (Groups.Available VERSION source snapshot_id (af_provider_config_version facts)
           observed_at expires_at values))"

subsection \<open>Retained views\<close>

datatype AccessError = ProofExpired | SnapshotExpired

record GroupFacts =
  gf_facts :: Groups
  gf_expires :: instant

definition GroupFacts_new :: "Groups \<Rightarrow> TimeSample \<Rightarrow> PgError + GroupFacts" where
  "GroupFacts_new facts sample =
    (if \<not> structurally_valid_at facts (sample_seconds sample) then Err corrupt
     else and_then (case facts of
         Groups.Available _ _ _ _ _ expires_at _ \<Rightarrow> sample_deadline sample expires_at
       | _ \<Rightarrow> Ok (ts_started sample)) (\<lambda>expires.
       Ok \<lparr>gf_facts = facts, gf_expires = expires\<rparr>))"

record TrustedGroups =
  tg_source :: FactSource
  tg_snapshot_id :: uuid
  tg_provider_config_version :: int
  tg_observed_at :: int
  tg_expires_at :: int
  tg_values :: "ustr list"
  tg_proof :: instant
  tg_expires :: instant

datatype VerifiedGroups =
  Available TrustedGroups | Unavailable FactUnavailableReason | Expired

definition GroupFacts_view_at :: "GroupFacts \<Rightarrow> instant \<Rightarrow> instant \<Rightarrow> AccessError + VerifiedGroups" where
  "GroupFacts_view_at g proof_at now =
    (if now \<ge> proof_at then Err ProofExpired
     else Ok (case gf_facts g of
         Groups.Unavailable _ reason \<Rightarrow> VerifiedGroups.Unavailable reason
       | Groups.Expired _ \<Rightarrow> VerifiedGroups.Expired
       | Groups.Available _ source snapshot_id config_version observed_at expires_at values \<Rightarrow>
           if now \<ge> gf_expires g then VerifiedGroups.Expired
           else VerifiedGroups.Available \<lparr>tg_source = source, tg_snapshot_id = snapshot_id,
             tg_provider_config_version = config_version, tg_observed_at = observed_at,
             tg_expires_at = expires_at, tg_values = values, tg_proof = proof_at,
             tg_expires = gf_expires g\<rparr>))"

definition TrustedGroups_values_at :: "TrustedGroups \<Rightarrow> instant \<Rightarrow> AccessError + ustr list" where
  "TrustedGroups_values_at g now =
    (if now \<ge> tg_proof g then Err ProofExpired
     else if now \<ge> tg_expires g then Err SnapshotExpired
     else Ok (tg_values g))"

record DepartmentFact =
  df_source :: FactSource
  df_provider_config_version :: int
  df_snapshot_id :: uuid
  df_observed_at :: int
  df_expires_at :: int
  df_snapshot :: DepartmentSnapshot
  df_expires :: instant

datatype DepartmentFacts =
  Unavailable DepartmentUnavailableReason | Expired | Available DepartmentFact

definition DepartmentFacts_new ::
  "DepartmentObservation \<Rightarrow> FactSource \<Rightarrow> int \<Rightarrow> TimeSample \<Rightarrow> PgError + DepartmentFacts" where
  "DepartmentFacts_new snapshot source version sample =
    (case snapshot of
       DepartmentObservation.Unavailable reason \<Rightarrow> Ok (DepartmentFacts.Unavailable reason)
     | DepartmentObservation.Available snapshot_id observed_at expires_at s \<Rightarrow>
         if \<not> acceptable_observation observed_at (sample_seconds sample) then Err reject
         else if sample_seconds sample < observed_at
         then Ok (DepartmentFacts.Unavailable DepartmentUnavailableReason.NotYetValid)
         else if sample_seconds sample \<ge> expires_at then Ok DepartmentFacts.Expired
         else and_then (sample_deadline sample expires_at) (\<lambda>expires.
           Ok (DepartmentFacts.Available \<lparr>df_source = source, df_provider_config_version = version,
             df_snapshot_id = snapshot_id, df_observed_at = observed_at, df_expires_at = expires_at,
             df_snapshot = s, df_expires = expires\<rparr>)))"

record TrustedDepartmentSnapshot =
  td_instance :: InstanceId
  td_account :: AccountKey
  td_fact :: DepartmentFact
  td_proof :: instant

datatype VerifiedDepartmentSnapshot =
  Available TrustedDepartmentSnapshot | Unavailable DepartmentUnavailableReason | Expired

definition DepartmentFacts_view_at ::
  "DepartmentFacts \<Rightarrow> InstanceId \<Rightarrow> AccountKey \<Rightarrow> instant \<Rightarrow> instant
    \<Rightarrow> AccessError + VerifiedDepartmentSnapshot" where
  "DepartmentFacts_view_at d inst account proof_at now =
    (if now \<ge> proof_at then Err ProofExpired
     else Ok (case d of
         DepartmentFacts.Unavailable reason \<Rightarrow> VerifiedDepartmentSnapshot.Unavailable reason
       | DepartmentFacts.Expired \<Rightarrow> VerifiedDepartmentSnapshot.Expired
       | DepartmentFacts.Available f \<Rightarrow>
           if now \<ge> df_expires f then VerifiedDepartmentSnapshot.Expired
           else VerifiedDepartmentSnapshot.Available
             \<lparr>td_instance = inst, td_account = account, td_fact = f, td_proof = proof_at\<rparr>))"

definition TrustedDepartmentSnapshot_at ::
  "TrustedDepartmentSnapshot \<Rightarrow> instant \<Rightarrow> AccessError + DepartmentSnapshot" where
  "TrustedDepartmentSnapshot_at d now =
    (if now \<ge> td_proof d then Err ProofExpired
     else if now \<ge> df_expires (td_fact d) then Err SnapshotExpired
     else Ok (df_snapshot (td_fact d)))"

text \<open>
  The contract of a retained view: two deadlines, the proof's reported first, and a payload that
  an access never changes.
\<close>

locale retained_view =
  fixes access :: "'v \<Rightarrow> instant \<Rightarrow> AccessError + 'a"
    and proof_deadline :: "'v \<Rightarrow> instant"
    and snapshot_deadline :: "'v \<Rightarrow> instant"
    and payload :: "'v \<Rightarrow> 'a"
  assumes access_live: "now < proof_deadline v \<Longrightarrow> now < snapshot_deadline v \<Longrightarrow> access v now = Inr (payload v)"
    and access_proof: "proof_deadline v \<le> now \<Longrightarrow> access v now = Inl ProofExpired"
    and access_snapshot: "now < proof_deadline v \<Longrightarrow> snapshot_deadline v \<le> now \<Longrightarrow>
      access v now = Inl SnapshotExpired"
begin

lemma access_iff:
  "access v now = Inr x \<longleftrightarrow> now < proof_deadline v \<and> now < snapshot_deadline v \<and> x = payload v"
  using access_live [of now v] access_proof [of v now] access_snapshot [of now v]
  by (cases "now < proof_deadline v"; cases "now < snapshot_deadline v") auto

lemma never_revives: "is_ok (access v later) \<Longrightarrow> now \<le> later \<Longrightarrow> access v now = access v later"
  by (auto simp: is_ok_iff access_iff access_live)

lemma proof_first: "access v now = Inl SnapshotExpired \<Longrightarrow> now < proof_deadline v"
  using access_proof [of v now] by (cases "now < proof_deadline v") auto

end

interpretation group_view: retained_view TrustedGroups_values_at tg_proof tg_expires tg_values
  by unfold_locales (simp_all add: TrustedGroups_values_at_def)

interpretation department_view: retained_view TrustedDepartmentSnapshot_at td_proof
  "\<lambda>d. df_expires (td_fact d)" "\<lambda>d. df_snapshot (td_fact d)"
  by unfold_locales (simp_all add: TrustedDepartmentSnapshot_at_def)

subsection \<open>Collected facts decode and project safely\<close>

lemma facts_project_valid:
  assumes "facts_project f source now = Ok g" and "facts_decode v = Ok f"
  shows "structurally_valid_at g now"
  using assms
  by (auto simp: facts_project_def facts_decode_def groups_unavailable_def and_then_Inr_iff
      split: Snapshot.splits if_splits)

lemma facts_decode_Ok:
  "facts_decode v = Ok f \<Longrightarrow> f = v \<and> valid_assurance (af_assurance f) \<and> 0 < af_provider_config_version f
    \<and> DepartmentObservation_validate (af_department_snapshot f) = Ok ()
    \<and> (\<forall>i at e s. af_department_snapshot f = DepartmentObservation.Available i at e s \<longrightarrow> valid_snapshot s)"
proof -
  assume "facts_decode v = Ok f"
  then have parsed: "facts_from_value v = Ok f" and version: "\<not> af_provider_config_version f < 1"
    and department: "DepartmentObservation_validate (af_department_snapshot f) = Ok ()"
    by (auto simp: facts_decode_def and_then_Inr_iff)
  have same: "t = s \<and> valid_snapshot s" if "DepartmentSnapshot_try_from s = Ok t" for s t
  proof -
    have "t = s"
      using that by (cases s)
        (auto simp: DepartmentSnapshot_try_from_def DepartmentSnapshot_new_Ok split: if_splits)
    with snapshot.check_valid [OF that] show ?thesis by simp
  qed
  from parsed have "f = v \<and> valid_assurance (af_assurance f)
      \<and> (\<forall>i at e s. af_department_snapshot f = DepartmentObservation.Available i at e s \<longrightarrow> valid_snapshot s)"
    by (cases "af_department_snapshot v"; cases v)
      (auto simp: facts_from_value_def and_then_Inr_iff Assurance_try_from_Ok dest!: same)
  moreover from version have "0 < af_provider_config_version f" by simp
  ultimately show ?thesis using department by blast
qed

lemma valid_snapshot_try_from: "valid_snapshot s \<Longrightarrow> DepartmentSnapshot_try_from s = Ok s"
  by (rule snapshot.check_raw)

lemma facts_decode_intro:
  assumes "valid_assurance (af_assurance f)" "af_format_version f = 3" "0 < af_provider_config_version f"
    and "DepartmentObservation_validate (af_department_snapshot f) = Ok ()"
    and "\<And>i at e s. af_department_snapshot f = DepartmentObservation.Available i at e s \<Longrightarrow> valid_snapshot s"
    and "case af_groups f of
        Snapshot.Unavailable r \<Rightarrow> r \<notin> {FactUnavailableReason.LocalIdentity, FactUnavailableReason.NotYetValid}
      | Snapshot.Available i at e vs \<Rightarrow> i \<noteq> uuid_nil \<and> valid_snapshot_window at e \<and> canonical_values vs"
  shows "facts_decode f = Ok f"
proof -
  have "facts_from_value f = Ok f"
    using assms(1,5) by (cases "af_department_snapshot f"; cases f)
      (auto simp: facts_from_value_def assurance.check_raw valid_snapshot_try_from)
  with assms show ?thesis
    by (simp add: facts_decode_def split: Snapshot.split_asm)
qed

definition trusted_claims :: "UpstreamClaims \<Rightarrow> bool" where
  "trusted_claims c \<longleftrightarrow> valid_assurance (uc_assurance c)
    \<and> (case uc_department_snapshot c of UpstreamDepartmentSnapshot.Present s \<Rightarrow> valid_snapshot s | _ \<Rightarrow> True)"

definition valid_mapping :: "DepartmentSnapshotClaim option \<Rightarrow> bool" where
  "valid_mapping m \<longleftrightarrow> (case m of None \<Rightarrow> True
     | Some c \<Rightarrow> DepartmentSnapshotClaim_new (dc_claim c) (dc_max_age_seconds c) = Inr c)"

lemma DepartmentObservation_collect_valid:
  assumes "DepartmentObservation_collect u c m now = Ok d" "u \<noteq> uuid_nil" "valid_mapping m"
  shows "DepartmentObservation_validate d = Ok ()"
  using assms department_deadline.deadline_window
  by (auto simp: DepartmentObservation_collect_def DepartmentObservation_validate_def valid_mapping_def
      and_then_Inr_iff split: UpstreamDepartmentSnapshot.splits option.splits)

lemma DepartmentObservation_collect_snapshot:
  assumes "DepartmentObservation_collect u c m now = Ok (DepartmentObservation.Available i at e s)"
    "trusted_claims c"
  shows "valid_snapshot s"
  using assms
  by (auto simp: DepartmentObservation_collect_def trusted_claims_def and_then_Inr_iff
      split: UpstreamDepartmentSnapshot.splits option.splits)


text \<open>Group values are readable only while they are current. When a caller reads the values of a
  retained view, the proof of its request has not expired, the database clock is still before
  the signed deadline of the observation and not before the observation itself, and the values
  are exactly the stored ones of the session's provider configuration, however long the
  transaction, the host or the caller took in between.\<close>

theorem group_values_never_stale:
  assumes "facts_project f source (sample_seconds s) = Ok g" and "GroupFacts_new g s = Ok gf"
    and "GroupFacts_view_at gf proof_at t0 = Ok (VerifiedGroups.Available tg)"
    and "TrustedGroups_values_at tg t = Ok vs"
    and "sampled s r D" "ts_started s \<le> t"
  shows "\<exists>i at e. af_groups f = Snapshot.Available i at e vs
    \<and> tg_source tg = source \<and> tg_snapshot_id tg = i
    \<and> tg_provider_config_version tg = af_provider_config_version f
    \<and> t < proof_at \<and> at * 1000000000 \<le> D \<and> D + (t - r) < e * 1000000000"
proof -
  from assms(1-3) obtain i at e us where g: "af_groups f = Snapshot.Available i at e us"
      "at \<le> sample_seconds s" "sample_deadline s e = Ok (gf_expires gf)"
      and tg: "tg = \<lparr>tg_source = source, tg_snapshot_id = i,
        tg_provider_config_version = af_provider_config_version f, tg_observed_at = at,
        tg_expires_at = e, tg_values = us, tg_proof = proof_at, tg_expires = gf_expires gf\<rparr>"
    by (auto simp: facts_project_def GroupFacts_new_def GroupFacts_view_at_def groups_unavailable_def
        and_then_Inr_iff split: Snapshot.splits if_splits Groups.splits)
  from assms(4) have live: "t < proof_at" "t < gf_expires gf" "vs = us"
    by (simp_all add: group_view.access_iff tg)
  have "D + (t - r) < e * 1000000000"
    by (rule deadline_before_database_time [OF g(3) assms(5,6) live(2)])
  moreover have "at * 1000000000 \<le> D"
  proof -
    have "at * 1000000 \<le> D div 1000"
      using g(2) assms(5) by (simp add: sample_seconds_def sampled_def)
    then show ?thesis by linarith
  qed
  ultimately show ?thesis using g live tg by auto
qed

definition sample_claims :: UpstreamClaims where
  "sample_claims = \<lparr>uc_issuer = lit ''https://h'', uc_subject = ExternalSubject.Oidc (lit ''s''),
     uc_profile = Profile_missing, uc_groups = UpstreamGroups.Present [lit ''ops''],
     uc_department_snapshot = UpstreamDepartmentSnapshot.NotConfigured, uc_issued_at = 1000,
     uc_expires_at = 1600,
     uc_assurance = \<lparr>as_auth_time = Some 1000, as_acr = Unspecified, as_amr = [Pwd]\<rparr>\<rparr>"

definition sample_facts :: AuthenticationFacts where
  "sample_facts = \<lparr>af_format_version = 3, af_provider_config_version = 1,
     af_assurance = uc_assurance sample_claims,
     af_groups = Snapshot.Available 1 1000 1300 [lit ''ops''],
     af_department_snapshot = DepartmentObservation.Unavailable DepartmentUnavailableReason.NotConfigured\<rparr>"

lemma sample_facts_collected:
  "facts_collect 1 2 sample_claims 1 (GroupFactsMaxAge 300) None 1001 = Ok sample_facts"
  by (simp add: facts_collect_def sample_claims_def sample_facts_def UpstreamClaims_validate_def
      lit_def utf8_width_def is_control_def UpstreamGroups_validate_def canonical_values_def
      bounded_values_def Profile_validate_def Profile_missing_def group_expires_at_def
      facts_expires_at_def acceptable_observation_iff checked_add_def i64_unfold
      DepartmentObservation_collect_def)


definition sample_time :: TimeSample where
  "sample_time = \<lparr>ts_started = 0, ts_micros = 1001500000\<rparr>"

theorem group_values_never_stale_witness:
  "\<exists>gf tg g. facts_project sample_facts \<lparr>fs_provider_id = 7, fs_issuer = lit ''https://h''\<rparr>
       (sample_seconds sample_time) = Ok g
    \<and> GroupFacts_new g sample_time = Ok gf
    \<and> GroupFacts_view_at gf 60000000000 5 = Ok (VerifiedGroups.Available tg)
    \<and> TrustedGroups_values_at tg 10 = Ok [lit ''ops'']
    \<and> 1001500000000 + (10 - 2) < 1300 * (1000000000 :: int)"
proof -
  let ?src = "\<lparr>fs_provider_id = 7, fs_issuer = lit ''https://h''\<rparr>"
  let ?g = "Groups.Available 1 ?src 1 1 1000 1300 [lit ''ops'']"
  let ?gf = "\<lparr>gf_facts = ?g, gf_expires = 298499999000\<rparr>"
  let ?tg = "\<lparr>tg_source = ?src, tg_snapshot_id = 1, tg_provider_config_version = 1,
    tg_observed_at = 1000, tg_expires_at = 1300, tg_values = [lit ''ops''], tg_proof = 60000000000,
    tg_expires = 298499999000\<rparr>"
  have p: "facts_project sample_facts ?src (sample_seconds sample_time) = Ok ?g"
    by (simp add: facts_project_def sample_facts_def sample_seconds_def sample_time_def
        acceptable_observation_iff i64_unfold VERSION_def)
  have n: "GroupFacts_new ?g sample_time = Ok ?gf"
    by (simp add: GroupFacts_new_def sample_seconds_def sample_time_def VERSION_def uuid_nil_def
        acceptable_observation_iff valid_snapshot_window_iff i64_unfold canonical_values_def
        bounded_values_def lit_def utf8_width_def is_control_def sample_deadline_def
        instant_checked_add_def)
  have v: "GroupFacts_view_at ?gf 60000000000 5 = Ok (VerifiedGroups.Available ?tg)"
    by (simp add: GroupFacts_view_at_def)
  have a: "TrustedGroups_values_at ?tg 10 = Ok [lit ''ops'']"
    by (simp add: TrustedGroups_values_at_def)
  have s: "sampled sample_time 2 1001500000000" "ts_started sample_time \<le> 10"
    by (simp_all add: sampled_def sample_time_def)
  from group_values_never_stale [OF p n v a s] p n v a show ?thesis
    by (auto simp: sample_facts_def)
qed

end
