(* ===== verification/Operation.thy ===== *)
theory Operation
  imports Identifiers Facts
begin

section \<open>Operation contexts and enterprise targets (identity-core/src/step_up.rs, enterprise.rs)\<close>

text \<open>
  The context an operation-specific proof is bound to (a purpose token and a digest of the
  operation), and the configured target of an enterprise assertion.
\<close>

definition OPERATION_PROOF_SECONDS :: int where "OPERATION_PROOF_SECONDS = 300"

record StepUpContext =
  su_purpose :: ustr
  su_digest :: "byte list"

datatype StepUpContextError = InvalidOperationPurpose

definition is_purpose_byte :: "byte \<Rightarrow> bool" where
  "is_purpose_byte b \<longleftrightarrow> is_ascii_alphanumeric (unat b) \<or> unat b \<in> set (lit ''-_.:/'')"

definition StepUpContext_new :: "ustr \<Rightarrow> byte list \<Rightarrow> StepUpContextError + StepUpContext" where
  "StepUpContext_new purpose digest =
    (if purpose = [] \<or> byte_len purpose > 128 \<or> \<not> list_all is_purpose_byte (utf8 purpose)
     then Err InvalidOperationPurpose else Ok \<lparr>su_purpose = purpose, su_digest = digest\<rparr>)"

fun StepUpContext_try_from :: "ustr \<times> byte list \<Rightarrow> StepUpContextError + StepUpContext" where
  "StepUpContext_try_from (purpose, digest) = StepUpContext_new purpose digest"

definition step_up_columns :: "StepUpContext \<Rightarrow> ustr \<times> byte list" where
  "step_up_columns c = (su_purpose c, su_digest c)"

definition valid_purpose :: "ustr \<Rightarrow> bool" where
  "valid_purpose p \<longleftrightarrow> p \<noteq> [] \<and> byte_len p \<le> 128 \<and> list_all is_purpose_byte (utf8 p)"

lemma StepUpContext_new_Ok:
  "StepUpContext_new p d = Ok c \<longleftrightarrow> valid_purpose p \<and> c = \<lparr>su_purpose = p, su_digest = d\<rparr>"
  by (auto simp: StepUpContext_new_def valid_purpose_def)

interpretation step_up_context: checked_value StepUpContext_try_from step_up_columns
  "\<lambda>c. valid_purpose (su_purpose c)"
proof unfold_locales
  show "valid_purpose (su_purpose v)" if "StepUpContext_try_from r = Inr v" for r v
    using that by (cases r) (auto simp: StepUpContext_new_Ok)
  show "StepUpContext_try_from (step_up_columns v) = Inr v" if "valid_purpose (su_purpose v)" for v
    using that by (simp add: step_up_columns_def StepUpContext_new_Ok)
qed

subsection \<open>Enterprise targets\<close>

datatype EnterpriseError = InvalidEnterpriseTarget | InvalidEnterpriseUrl

record EnterpriseTarget =
  en_id :: ustr
  en_issuer :: ustr
  en_token_endpoint :: ustr
  en_client_id :: ustr
  en_scopes :: "ustr set"

definition is_target_byte :: "byte \<Rightarrow> bool" where
  "is_target_byte b \<longleftrightarrow> is_ascii_alphanumeric (unat b) \<or> unat b \<in> set (lit ''-_'')"

definition is_target_scope :: "ustr \<Rightarrow> bool" where
  "is_target_scope s \<longleftrightarrow>
    \<not> (s = [] \<or> byte_len s > 128
       \<or> \<not> list_all (\<lambda>b. 0x21 \<le> b \<and> b \<le> 0x7E \<and> b \<noteq> 0x22 \<and> b \<noteq> 0x5C) (utf8 s))"

fun check_enterprise_urls :: "(ustr \<Rightarrow> url_parts option) \<Rightarrow> ustr list \<Rightarrow> EnterpriseError + unit" where
  "check_enterprise_urls url_parse [] = Ok ()"
| "check_enterprise_urls url_parse (raw # rest) =
    and_then (ok_or InvalidEnterpriseUrl (url_parse raw)) (\<lambda>u.
    if byte_len raw > 2048 \<or> url_scheme u \<noteq> lit ''https'' \<or> url_host u = None
       \<or> url_username u \<noteq> [] \<or> url_password u \<noteq> None \<or> url_fragment u \<noteq> None \<or> url_query u \<noteq> None
    then Err InvalidEnterpriseUrl else check_enterprise_urls url_parse rest)"

definition EnterpriseTarget_validate ::
  "(ustr \<Rightarrow> url_parts option) \<Rightarrow> EnterpriseTarget \<Rightarrow> EnterpriseError + unit" where
  "EnterpriseTarget_validate url_parse t =
    (if en_id t = [] \<or> byte_len (en_id t) > 128 \<or> \<not> list_all is_target_byte (utf8 (en_id t))
        \<or> en_client_id t = [] \<or> byte_len (en_client_id t) > 256
        \<or> en_scopes t = {} \<or> card (en_scopes t) > 16 \<or> \<not> (\<forall>s\<in>en_scopes t. is_target_scope s)
     then Err InvalidEnterpriseTarget
     else check_enterprise_urls url_parse [en_issuer t, en_token_endpoint t])"

lemma EnterpriseTarget_validate_https:
  "EnterpriseTarget_validate url_parse t = Ok u \<Longrightarrow> r \<in> {en_issuer t, en_token_endpoint t} \<Longrightarrow>
    \<exists>p. url_parse r = Some p \<and> url_scheme p = lit ''https'' \<and> url_username p = []
      \<and> url_password p = None \<and> url_query p = None \<and> url_fragment p = None"
  by (auto simp: EnterpriseTarget_validate_def and_then_Inr_iff split: if_splits)

end
