(* ===== verification/Tables.thy ===== *)
theory Tables
  imports Fact_Access Operation "HOL-Library.Option_ord"
begin

section \<open>The authority's tables (identity-postgres/migrations/0001_authority.sql)\<close>

text \<open>
  The rows the authority stores and the documents it keeps in their JSON columns, with the types
  of the Rust structures they are read into. A timestamp column is a count of microseconds, the
  \<open>bigint\<close> time columns are seconds. A table is the list of its rows: a \<open>SELECT\<close> with a
  condition is \<open>find\<close> or \<open>filter\<close>, an \<open>UPDATE\<close> a \<open>map\<close>, a \<open>DELETE\<close> a \<open>filter\<close>, an \<open>INSERT\<close>
  is refused when a row with the same key exists. Row security and the foreign keys are not
  represented: every statement names its tenant and the code never deletes a referenced row.
\<close>

subsection \<open>Documents stored as JSON\<close>

text \<open>platform.rs: the binding of a device to an account, and what a platform login leaves behind.\<close>

record ExternalBinding =
  eb_identity_id :: uuid
  eb_provider :: ProviderId
  eb_config_version :: int
  eb_revocation_epoch :: int

record PlatformBinding =
  pb_instance :: InstanceId
  pb_account :: AccountKey
  pb_binding_id :: uuid
  pb_binding_epoch :: int
  pb_source_id :: uuid
  pb_source_version :: int
  pb_external_identity :: "ExternalBinding option"

record PlatformAuthentication =
  pa_binding :: PlatformBinding
  pa_audience :: ustr
  pa_authenticated_at :: "int option"
  pa_hardware_key :: bool
  pa_user_presence :: bool
  pa_user_verification :: bool

datatype PlatformPurpose = BrowserLogin | EnterpriseRp ustr

text \<open>step_up.rs: what a step-up proof rests on.\<close>

datatype GrantSource =
  Oidc (gs_identity: uuid) (gs_provider: uuid) (gs_version: int) (gs_epoch: int)
| Webauthn (gs_credential: uuid) (gs_credential_epoch: int) (gs_rp: ustr) (gs_configuration: int)

text \<open>credentials.rs: a sealed provider credential.\<close>

record Sealed =
  sd_version :: int
  sd_key_id :: ustr
  sd_nonce :: "byte list"
  sd_ciphertext :: "byte list"

text \<open>
  webauthn.rs: a ceremony in progress. The states and the passkeys of the WebAuthn library are its
  own documents; the context is stored as its two fields, as in a grant.
\<close>

type_synonym Passkey = Value

record CredentialSnapshot =
  cs_id :: uuid
  cs_version :: int
  cs_epoch :: int
  cs_passkey :: Passkey

datatype Ceremony =
  Register (cy_state: Value) (cy_label: ustr) (cy_recover: bool) (cy_authorization: "GrantSource option")
    (cy_host_recovery: bool) (cy_authorization_time: "int option")
| Authenticate (cy_state: Value) (cy_context: "ustr \<times> byte list") (cy_credentials: "CredentialSnapshot list")

text \<open>profiles.rs: where an observed profile comes from.\<close>

datatype ProfileSource = IdentityLocal | Idp ProviderId

subsection \<open>Rows\<close>

record guard_row =
  gd_tenant :: TenantId
  gd_profile_sequence :: int

record account_row =
  ac_tenant :: TenantId
  ac_principal :: uuid
  ac_enabled :: bool
  ac_epoch :: int

record local_credential_row =
  lc_tenant :: TenantId
  lc_principal :: uuid
  lc_login :: ustr
  lc_hash :: ustr

record membership_row =
  mb_tenant :: TenantId
  mb_principal :: uuid
  mb_active :: bool
  mb_epoch :: int

record attempt_row =
  at_tenant :: TenantId
  at_key :: ustr
  at_count :: int
  at_expires :: int

record password_row =
  pw_tenant :: TenantId
  pw_login :: "byte list"
  pw_failures :: int
  pw_window :: "int option"
  pw_token :: "uuid option"
  pw_claim_until :: "int option"

record provider_row =
  pv_tenant :: TenantId
  pv_provider :: uuid
  pv_version :: int
  pv_epoch :: int
  pv_enabled :: bool
  pv_settings :: ProviderSettingsInput
  pv_assurance :: "byte list"
  pv_credential_version :: int

record identity_row =
  ei_tenant :: TenantId
  ei_identity :: uuid
  ei_principal :: uuid
  ei_provider :: uuid
  ei_issuer :: ustr
  ei_subject :: ustr

record session_row =
  se_tenant :: TenantId
  se_principal :: uuid
  se_facts_sequence :: "int option"
  se_session :: uuid
  se_source :: ustr
  se_local_at :: "int option"
  se_platform :: "PlatformAuthentication option"
  se_kind :: ustr
  se_hash :: "byte list"
  se_auth_epoch :: int
  se_membership_epoch :: int
  se_issued_at :: int
  se_idle_timeout :: int
  se_absolute_timeout :: int
  se_idle_expires :: int
  se_absolute_expires :: int
  se_revoked :: "int option"
  se_profile_source :: "ProfileSource option"
  se_profile_snapshot :: "uuid option"
  se_identity :: "uuid option"
  se_provider_epoch :: "int option"
  se_facts :: "AuthenticationFacts option"

record oidc_row =
  ot_context :: "(ustr \<times> byte list) option"
  ot_tenant :: TenantId
  ot_attempt :: "byte list"
  ot_provider :: uuid
  ot_version :: int
  ot_state_hash :: "byte list"
  ot_browser_hash :: "byte list"
  ot_sequence :: int
  ot_purpose :: int
  ot_mode :: int
  ot_nonce :: "ustr option"
  ot_verifier :: "ustr option"
  ot_claimed :: bool
  ot_created :: int
  ot_expires :: int
  ot_return_url :: ustr
  ot_link :: "uuid option"
  ot_replacement :: "uuid option"

record link_row =
  li_tenant :: TenantId
  li_intent :: uuid
  li_principal :: uuid
  li_session :: uuid
  li_auth_epoch :: int
  li_membership_epoch :: int
  li_identity :: "uuid option"
  li_source_epoch :: "int option"
  li_facts :: "AuthenticationFacts option"
  li_facts_sequence :: "int option"
  li_local_at :: "int option"
  li_target :: uuid
  li_version :: int
  li_browser :: "byte list"
  li_stage :: int
  li_created :: int
  li_expires :: int

record local_profile_row =
  lo_tenant :: TenantId
  lo_principal :: uuid
  lo_revision :: int
  lo_value :: "LocalProfile option"

record observation_row =
  ob_tenant :: TenantId
  ob_principal :: uuid
  ob_source :: ProfileSource
  ob_config_version :: "int option"
  ob_source_epoch :: "int option"
  ob_source_revision :: "int option"
  ob_snapshot :: uuid
  ob_sequence :: int
  ob_observed :: int
  ob_collected :: int
  ob_expires :: int
  ob_value :: Profile

record profile_operation_row =
  po_tenant :: TenantId
  po_operation :: uuid
  po_principal :: uuid
  po_actor :: uuid
  po_digest :: "byte list"
  po_revision :: int

record webauthn_rp_row =
  wr_tenant :: TenantId
  wr_rp :: ustr
  wr_fingerprint :: "byte list"
  wr_generation :: int

record webauthn_credential_row =
  wc_tenant :: TenantId
  wc_principal :: uuid
  wc_id :: uuid
  wc_rp :: ustr
  wc_rp_config :: "byte list"
  wc_hash :: "byte list"
  wc_value :: Passkey
  wc_label :: ustr
  wc_epoch :: int
  wc_version :: int
  wc_revoked :: bool

record webauthn_account_row =
  wa_tenant :: TenantId
  wa_principal :: uuid
  wa_handle :: uuid
  wa_enrolled :: bool
  wa_epoch :: int

record ceremony_row =
  cm_tenant :: TenantId
  cm_id :: uuid
  cm_principal :: uuid
  cm_session :: uuid
  cm_auth_epoch :: int
  cm_membership_epoch :: int
  cm_credential_epoch :: int
  cm_rp_config :: "byte list"
  cm_state :: Ceremony
  cm_created :: int
  cm_expires :: int

record sealed_row =
  sr_tenant :: TenantId
  sr_provider :: uuid
  sr_version :: int
  sr_sealed :: Sealed

record grant_row =
  gr_tenant :: TenantId
  gr_hash :: "byte list"
  gr_principal :: uuid
  gr_session :: uuid
  gr_auth_epoch :: int
  gr_membership_epoch :: int
  gr_context :: "ustr \<times> byte list"
  gr_source :: GrantSource
  gr_authenticated_at :: int
  gr_expires :: int

text \<open>platform.rs: a challenge waiting for its device; the stored target is the enterprise target.\<close>

record challenge_row =
  ch_purpose :: PlatformPurpose
  ch_target :: "EnterpriseTarget option"
  ch_tenant :: TenantId
  ch_challenge :: uuid
  ch_principal :: uuid
  ch_binding :: PlatformBinding
  ch_audience :: ustr
  ch_nonce_hash :: "byte list"
  ch_browser_hash :: "byte list"
  ch_auth_epoch :: int
  ch_membership_epoch :: int
  ch_created :: int
  ch_expires :: int
  ch_sequence :: int

subsection \<open>Statements over a table\<close>

text \<open>
  \<open>update_where\<close> is \<open>UPDATE ... WHERE\<close>, \<open>delete_where\<close> is \<open>DELETE ... WHERE\<close>, \<open>count_where\<close> is
  \<open>SELECT count(*)\<close>. \<open>delete_first n\<close> deletes at most \<open>n\<close> of the rows a condition selects, in the
  order of a key, as \<open>DELETE ... WHERE k IN (SELECT k ... ORDER BY e LIMIT n)\<close> does: rows with
  equal keys are taken in table order, an order SQL leaves open.
\<close>

definition update_where :: "('r \<Rightarrow> bool) \<Rightarrow> ('r \<Rightarrow> 'r) \<Rightarrow> 'r list \<Rightarrow> 'r list" where
  "update_where p f t = map (\<lambda>r. if p r then f r else r) t"

definition delete_where :: "('r \<Rightarrow> bool) \<Rightarrow> 'r list \<Rightarrow> 'r list" where
  "delete_where p t = filter (\<lambda>r. \<not> p r) t"

definition count_where :: "('r \<Rightarrow> bool) \<Rightarrow> 'r list \<Rightarrow> int" where
  "count_where p t = int (length (filter p t))"

definition selected_first :: "('r \<Rightarrow> 'k::linorder) \<Rightarrow> nat \<Rightarrow> ('r \<Rightarrow> bool) \<Rightarrow> 'r list \<Rightarrow> 'r list" where
  "selected_first key n p t = take n (sort_key key (filter p t))"

definition delete_first :: "('r \<Rightarrow> 'k::linorder) \<Rightarrow> nat \<Rightarrow> ('r \<Rightarrow> bool) \<Rightarrow> 'r list \<Rightarrow> 'r list" where
  "delete_first key n p t = delete_where (\<lambda>r. r \<in> set (selected_first key n p t)) t"

text \<open>\<open>INSERT ... ON CONFLICT DO UPDATE\<close>: the row of the key is replaced, or a first one added.\<close>

definition upsert :: "('r \<Rightarrow> bool) \<Rightarrow> ('r option \<Rightarrow> 'r) \<Rightarrow> 'r list \<Rightarrow> 'r list" where
  "upsert p f t =
    (case find p t of None \<Rightarrow> f None # t | Some _ \<Rightarrow> update_where p (\<lambda>r. f (Some r)) t)"

text \<open>\<open>unique_on k t\<close>: no two rows of \<open>t\<close> agree on the key \<open>k\<close>.\<close>

definition unique_on :: "('r \<Rightarrow> 'k) \<Rightarrow> 'r list \<Rightarrow> bool" where
  "unique_on k t \<longleftrightarrow> distinct (map k t)"

named_theorems table_simps \<open>effects of statements on tables\<close>

lemma set_delete_where [simp, table_simps]: "set (delete_where p t) = {r \<in> set t. \<not> p r}"
  by (auto simp: delete_where_def)

lemma set_update_where [table_simps]:
  "set (update_where p f t) = (\<lambda>r. if p r then f r else r) ` set t"
  by (simp add: update_where_def)

lemma selected_first_set: "r \<in> set (selected_first key n p t) \<Longrightarrow> r \<in> set t \<and> p r"
  unfolding selected_first_def using set_take_subset [of n "sort_key key (filter p t)"] by auto

lemma set_delete_first_subset: "set (delete_first key n p t) \<subseteq> set t"
  by (auto simp: delete_first_def)

lemma delete_first_keeps: "r \<in> set t \<Longrightarrow> \<not> p r \<Longrightarrow> r \<in> set (delete_first key n p t)"
  by (auto simp: delete_first_def dest: selected_first_set)

lemma find_delete_where_other:
  "(\<And>r. q r \<Longrightarrow> \<not> p r) \<Longrightarrow> find q (delete_where p t) = find q t"
  by (induction t) (auto simp: delete_where_def)

lemma find_delete_where_same [simp]: "(\<And>r. q r \<Longrightarrow> p r) \<Longrightarrow> find q (delete_where p t) = None"
  by (induction t) (auto simp: delete_where_def)

lemma find_update_where:
  assumes "\<And>r. q (f r) = q r"
  shows "find q (update_where p f t) = map_option (\<lambda>r. if p r then f r else r) (find q t)"
  by (induction t) (auto simp: update_where_def assms)

lemma count_where_nonneg [simp]: "0 \<le> count_where p t"
  by (simp add: count_where_def)

lemma count_where_Cons [simp, table_simps]:
  "count_where p (r # t) = (if p r then 1 else 0) + count_where p t"
  by (simp add: count_where_def)

lemma count_where_append [simp, table_simps]:
  "count_where p (t @ u) = count_where p t + count_where p u"
  by (simp add: count_where_def)

lemma count_where_Nil [simp, table_simps]: "count_where p [] = 0"
  by (simp add: count_where_def)

lemma count_delete_where_le: "count_where p (delete_where q t) \<le> count_where p t"
  by (induction t) (auto simp: delete_where_def)

lemma count_delete_first_le: "count_where p (delete_first key n q t) \<le> count_where p t"
  by (simp add: delete_first_def count_delete_where_le)

lemma count_update_where:
  assumes "\<And>r. p (f r) = p r"
  shows "count_where p (update_where q f t) = count_where p t"
  by (induction t) (auto simp: update_where_def assms)

lemma unique_on_delete_where: "unique_on k t \<Longrightarrow> unique_on k (delete_where p t)"
  unfolding unique_on_def delete_where_def by (rule distinct_map_filter)

lemma unique_on_delete_first: "unique_on k t \<Longrightarrow> unique_on k (delete_first key n p t)"
  by (simp add: delete_first_def unique_on_delete_where)

lemma unique_on_update_where:
  assumes "\<And>r. k (f r) = k r"
  shows "unique_on k (update_where p f t) = unique_on k t"
proof -
  have "map k (update_where p f t) = map k t"
    by (simp add: update_where_def assms)
  then show ?thesis by (simp add: unique_on_def)
qed

lemma unique_on_insert: "unique_on k (r # t) \<longleftrightarrow> unique_on k t \<and> (\<forall>x\<in>set t. k x \<noteq> k r)"
  by (auto simp: unique_on_def image_iff)

lemma unique_onD: "unique_on k t \<Longrightarrow> r \<in> set t \<Longrightarrow> s \<in> set t \<Longrightarrow> k r = k s \<Longrightarrow> r = s"
  by (auto simp: unique_on_def distinct_map dest: inj_onD)

lemma find_unique:
  assumes "unique_on k t" and "r \<in> set t" and "\<And>s. q s \<longleftrightarrow> k s = k r"
  shows "find q t = Some r"
  using assms(1,2)
proof (induction t)
  case (Cons a t)
  then show ?case using assms(3) by (auto simp: unique_on_def image_iff)
qed simp

lemma find_SomeD: "find q t = Some r \<Longrightarrow> r \<in> set t \<and> q r"
  by (auto simp: find_Some_iff)

text \<open>The laws of an upsert on the rows that \<open>p\<close> selects, when the new row is one of them.\<close>

lemma find_upsert_same:
  assumes "\<And>r. p r \<Longrightarrow> p (f (Some r))" and "p (f None)"
  shows "find p (upsert p f t) = Some (f (find p t))"
proof (cases "find p t")
  case None
  then show ?thesis by (simp add: upsert_def assms)
next
  case (Some r)
  have "find p (update_where p (\<lambda>r. f (Some r)) t) = map_option (\<lambda>r. f (Some r)) (find p t)"
    by (induction t) (auto simp: update_where_def assms)
  with Some show ?thesis by (simp add: upsert_def)
qed

lemma find_upsert_other:
  assumes "\<And>r. p r \<Longrightarrow> \<not> q r \<and> \<not> q (f (Some r))" and "\<not> q (f None)"
  shows "find q (upsert p f t) = find q t"
proof -
  have "find q (update_where p (\<lambda>r. f (Some r)) t) = find q t"
    by (induction t) (auto simp: update_where_def assms)
  then show ?thesis by (simp add: upsert_def assms split: option.split)
qed

lemma count_upsert:
  assumes "\<And>r. p r \<Longrightarrow> q (f (Some r)) = q r"
  shows "count_where q (upsert p f t) =
    count_where q t + (if find p t = None \<and> q (f None) then 1 else 0)"
proof -
  have "count_where q (update_where p (\<lambda>r. f (Some r)) t) = count_where q t"
    by (induction t) (auto simp: update_where_def assms)
  then show ?thesis by (simp add: upsert_def split: option.split)
qed

lemma set_upsert:
  assumes "x \<in> set (upsert p f t)"
  shows "x \<in> set t \<and> \<not> p x \<or> (\<exists>r\<in>set t. p r \<and> x = f (Some r)) \<or> find p t = None \<and> (x = f None \<or> x \<in> set t)"
  using assms by (auto simp: upsert_def set_update_where split: option.splits if_splits)

lemma unique_on_upsert:
  assumes "unique_on k t" and "\<And>r. p r \<longleftrightarrow> k r = k0" and "\<And>v. k (f v) = k0"
  shows "unique_on k (upsert p f t)"
proof (cases "find p t")
  case None
  have "upsert p f t = f None # t" by (simp add: upsert_def None)
  moreover have "\<forall>x\<in>set t. k x \<noteq> k0" using None assms(2) by (auto simp: find_None_iff)
  ultimately show ?thesis using assms by (simp add: unique_on_insert)
next
  case (Some r)
  have "map k (update_where p (\<lambda>r. f (Some r)) t) = map k t"
    by (auto simp: update_where_def assms)
  with Some assms(1) show ?thesis by (simp add: upsert_def unique_on_def)
qed

lemma find_delete_first:
  assumes "\<And>r. q r \<Longrightarrow> r \<in> set t \<Longrightarrow> find q t = Some r \<Longrightarrow> \<not> p r" and "find q t = Some r"
  shows "find q (delete_first key n p t) = Some r"
proof -
  have "r \<in> set t" "q r" using assms(2) by (auto simp: find_Some_iff)
  with assms have "\<not> p r" by blast
  then have keep: "r \<notin> set (selected_first key n p t)" by (auto dest: selected_first_set)
  have "find q (filter (\<lambda>x. x \<notin> S) u) = Some r" if "find q u = Some r" "r \<notin> S" for u S
    using that by (induction u) (auto split: if_splits)
  with assms(2) keep show ?thesis by (simp add: delete_first_def delete_where_def)
qed

lemma find_delete_first_None:
  assumes "find q t = None" shows "find q (delete_first key n p t) = None"
  using assms set_delete_first_subset [of key n p t] by (auto simp: find_None_iff)

end
