(* ===== verification/Events.thy ===== *)
theory Events
  imports Tables
begin

section \<open>Security events and their audit records (identity-postgres/src/transaction.rs, audit/mapping.rs)\<close>

text \<open>
  The closed set of events a mutation may emit, and the mapping of an event to the audit record
  that is appended in the same transaction. Tenants, instances and other identifiers stay
  identifiers here; the code writes their canonical text, which determines them. The constructors
  of the audit crate that only check the syntax of such text are not represented.
\<close>

subsection \<open>Events\<close>

record AccountEvent =
  aev_action :: ustr
  aev_tenant :: TenantId
  aev_principal :: uuid
  aev_actor :: "uuid option"
  aev_epoch :: int
  aev_enabled :: bool
  aev_member_active :: bool
  aev_membership_epoch :: int

definition account_event :: "SecurityAction \<Rightarrow> AccountState \<Rightarrow> AccountKey option \<Rightarrow> AccountEvent" where
  "account_event action state actor =
    \<lparr>aev_action = SecurityAction_as_str action, aev_tenant = ak_tenant (st_key state),
     aev_principal = principal_uuid (ak_principal (st_key state)),
     aev_actor = map_option (\<lambda>a. principal_uuid (ak_principal a)) actor,
     aev_epoch = st_epoch state, aev_enabled = st_enabled state,
     aev_member_active = st_member_active state, aev_membership_epoch = st_membership_epoch state\<rparr>"

record ProvisioningEvent =
  vev_account :: AccountEvent
  vev_actor_tenant :: TenantId
  vev_actor_instance :: InstanceId

datatype AuthenticationAction = Registered | Removed | Recovered | Verified

record AuthenticationEvent =
  nev_tenant :: TenantId
  nev_principal :: uuid
  nev_action :: AuthenticationAction

record ProfileEvent =
  pev_tenant :: TenantId
  pev_principal :: uuid
  pev_actor :: "uuid option"
  pev_action :: ustr
  pev_source :: ProfileSource
  pev_snapshot_id :: "uuid option"
  pev_revision :: "int option"
  pev_changed_fields :: "ustr list"

datatype SessionAction = Created | Refreshed | Revoked | AllRevoked

record SessionEvent =
  sev_action :: SessionAction
  sev_tenant :: TenantId
  sev_principal :: uuid
  sev_source :: AuthenticationSource
  sev_session_id :: SessionId
  sev_replaced :: "SessionId option"
  sev_epoch :: int

datatype FederationAction =
  ProviderCreated | ProviderUpdated | ProviderEnabled | ProviderDisabled | ProviderTested
| ProviderTestFailed | JitCreated | LoggedIn | Linked | AlreadyLinked | Reauthenticated | SteppedUp

record FederationEvent =
  fev_tenant :: TenantId
  fev_action :: FederationAction
  fev_provider_id :: ProviderId
  fev_config_version :: int
  fev_principal :: "uuid option"
  fev_diagnostic :: "ProviderFailure option"

datatype SecurityEvent =
  Authentication AuthenticationEvent
| Profile ProfileEvent
| Account AccountEvent
| Provisioned ProvisioningEvent
| Session SessionEvent
| Federation FederationEvent

fun event_tenant :: "SecurityEvent \<Rightarrow> TenantId" where
  "event_tenant (SecurityEvent.Authentication v) = nev_tenant v"
| "event_tenant (SecurityEvent.Profile v) = pev_tenant v"
| "event_tenant (SecurityEvent.Account v) = aev_tenant v"
| "event_tenant (SecurityEvent.Provisioned v) = aev_tenant (vev_account v)"
| "event_tenant (SecurityEvent.Session v) = sev_tenant v"
| "event_tenant (SecurityEvent.Federation v) = fev_tenant v"

fun event_contract :: "SecurityEvent \<Rightarrow> ustr \<times> nat" where
  "event_contract (SecurityEvent.Authentication _) = (lit ''identity.authentication.security'', 1)"
| "event_contract (SecurityEvent.Profile _) = (lit ''identity.profile.security'', 1)"
| "event_contract (SecurityEvent.Provisioned _) = (lit ''identity.account.provisioning'', 1)"
| "event_contract (SecurityEvent.Account _) = (lit ''identity.account.security'', 3)"
| "event_contract (SecurityEvent.Federation _) = (lit ''identity.federation.security'', 2)"
| "event_contract (SecurityEvent.Session _) = (lit ''identity.session.security'', 1)"

definition account_security_event ::
  "SecurityAction \<Rightarrow> AccountState \<Rightarrow> AccountKey option \<Rightarrow> SecurityEvent" where
  "account_security_event action state actor =
    SecurityEvent.Account (account_event action state actor)"

definition provisioned_event :: "AccountState \<Rightarrow> AccountKey \<Rightarrow> InstanceId \<Rightarrow> SecurityEvent" where
  "provisioned_event state actor instance_id =
    SecurityEvent.Provisioned
      \<lparr>vev_account = account_event AccountCreated state (Some actor),
       vev_actor_tenant = ak_tenant actor, vev_actor_instance = instance_id\<rparr>"

subsection \<open>Audit records\<close>

datatype AuditId = Id uuid | Instance InstanceId | Scoped TenantId uuid

datatype AuditPayload =
  Empty
| ProfilePayload ProfileSource "uuid option" "int option" "ustr list"
| ProvisionedPayload int "bool \<times> bool \<times> int" InstanceId TenantId uuid
| AccountPayload int "bool \<times> bool \<times> int"
| SessionPayload int SessionId "SessionId option" AuthenticationSource
| FederationPayload ProviderId int "ProviderFailure option"

record AuditRecord =
  aud_tenant :: TenantId
  aud_instance :: InstanceId
  aud_event_id :: uuid
  aud_contract :: "ustr \<times> nat"
  aud_action :: ustr
  aud_actor :: "ustr \<times> AuditId"
  aud_resource :: "ustr \<times> AuditId"
  aud_succeeded :: bool
  aud_occurred :: int
  aud_payload :: AuditPayload

datatype InvalidEvent = InvalidEvent

fun authentication_action :: "AuthenticationAction \<Rightarrow> ustr" where
  "authentication_action Registered = lit ''registered''"
| "authentication_action Removed = lit ''removed''"
| "authentication_action Recovered = lit ''recovered''"
| "authentication_action Verified = lit ''verified''"

fun session_action :: "SessionAction \<Rightarrow> ustr" where
  "session_action Created = lit ''created''"
| "session_action Refreshed = lit ''refreshed''"
| "session_action Revoked = lit ''revoked''"
| "session_action AllRevoked = lit ''all_revoked''"

fun federation_action :: "FederationAction \<Rightarrow> ustr" where
  "federation_action ProviderCreated = lit ''provider_created''"
| "federation_action ProviderUpdated = lit ''provider_updated''"
| "federation_action ProviderEnabled = lit ''provider_enabled''"
| "federation_action ProviderDisabled = lit ''provider_disabled''"
| "federation_action ProviderTested = lit ''provider_tested''"
| "federation_action ProviderTestFailed = lit ''provider_test_failed''"
| "federation_action JitCreated = lit ''jit_created''"
| "federation_action LoggedIn = lit ''logged_in''"
| "federation_action FederationAction.Linked = lit ''linked''"
| "federation_action AlreadyLinked = lit ''already_linked''"
| "federation_action Reauthenticated = lit ''reauthenticated''"
| "federation_action SteppedUp = lit ''stepped_up''"

definition is_provider_action :: "FederationAction \<Rightarrow> bool" where
  "is_provider_action a \<longleftrightarrow>
    a \<in> {ProviderCreated, ProviderUpdated, ProviderEnabled, ProviderDisabled, ProviderTested,
         ProviderTestFailed}"

definition CHANGED_FIELDS :: "ustr list" where
  "CHANGED_FIELDS = [lit ''displayName'', lit ''username'', lit ''email'', lit ''emailVerified'',
     lit ''extensions'', lit ''maxAgeSeconds'']"

definition ACCOUNT_ACTIONS :: "ustr list" where
  "ACCOUNT_ACTIONS = [lit ''initialized'', lit ''account_created'', lit ''account_enabled'',
     lit ''account_disabled'', lit ''membership_enabled'', lit ''membership_disabled'',
     lit ''password_changed'', lit ''password_recovered'']"

definition MAINTENANCE_ACTIONS :: "ustr list" where
  "MAINTENANCE_ACTIONS = [lit ''initialized'', lit ''account_created'', lit ''password_recovered'']"

type_synonym event_facts =
  "ustr \<times> (ustr \<times> AuditId) \<times> (ustr \<times> AuditId) \<times> bool \<times> AuditPayload"

definition map_authentication :: "TenantId \<Rightarrow> AuthenticationEvent \<Rightarrow> InvalidEvent + event_facts" where
  "map_authentication tenant e =
    and_then (ensure (nev_tenant e = tenant \<and> nev_principal e \<noteq> uuid_nil) InvalidEvent) (\<lambda>_.
    Ok (lit ''identity.authentication.'' @ authentication_action (nev_action e),
        (lit ''principal'', Id (nev_principal e)), (lit ''authentication'', Id (nev_principal e)),
        True, Empty))"

definition map_profile :: "TenantId \<Rightarrow> ProfileEvent \<Rightarrow> InvalidEvent + event_facts" where
  "map_profile tenant e =
    and_then (ensure (length (pev_changed_fields e) \<le> 6
        \<and> list_all (\<lambda>v. v \<in> set CHANGED_FIELDS) (pev_changed_fields e)) InvalidEvent) (\<lambda>_.
    and_then (ensure (pev_tenant e = tenant \<and> pev_principal e \<noteq> uuid_nil
        \<and> (pev_action e = lit ''observed'' \<or> pev_action e = lit ''local_updated'')
        \<and> (case pev_revision e of None \<Rightarrow> True | Some v \<Rightarrow> v > 0)) InvalidEvent) (\<lambda>_.
    and_then (ensure ((pev_action e = lit ''observed'') = (pev_snapshot_id e \<noteq> None)
        \<and> (pev_action e = lit ''local_updated'') = (pev_actor e \<noteq> None)) InvalidEvent) (\<lambda>_.
    Ok (lit ''identity.profile.'' @ pev_action e,
        (lit ''principal'', Id (case pev_actor e of None \<Rightarrow> pev_principal e | Some a \<Rightarrow> a)),
        (lit ''profile'', Id (pev_principal e)), True,
        ProfilePayload (pev_source e) (pev_snapshot_id e) (pev_revision e) (pev_changed_fields e)))))"

definition map_provisioned ::
  "InstanceId \<Rightarrow> ProvisioningEvent \<Rightarrow> InvalidEvent + event_facts" where
  "map_provisioned instance_id v =
    (let e = vev_account v in
    and_then (ok_or InvalidEvent (aev_actor e)) (\<lambda>actor.
    and_then (ensure (aev_action e = lit ''account_created'' \<and> vev_actor_instance v = instance_id
        \<and> vev_actor_tenant v \<noteq> aev_tenant e \<and> actor \<noteq> uuid_nil \<and> aev_principal e \<noteq> uuid_nil
        \<and> aev_epoch e > 0 \<and> aev_membership_epoch e > 0) InvalidEvent) (\<lambda>_.
    Ok (lit ''identity.account.provisioned'',
        (lit ''principal'', Scoped (vev_actor_tenant v) actor),
        (lit ''account'', Id (aev_principal e)), True,
        ProvisionedPayload (aev_epoch e) (aev_enabled e, aev_member_active e, aev_membership_epoch e)
          (vev_actor_instance v) (vev_actor_tenant v) actor))))"

definition map_account :: "InstanceId \<Rightarrow> TenantId \<Rightarrow> AccountEvent \<Rightarrow> InvalidEvent + event_facts" where
  "map_account instance_id tenant e =
    and_then (ensure (aev_tenant e = tenant \<and> aev_epoch e > 0 \<and> aev_membership_epoch e > 0)
        InvalidEvent) (\<lambda>_.
    and_then (ensure (aev_action e \<in> set ACCOUNT_ACTIONS) InvalidEvent) (\<lambda>_.
    and_then (ensure (aev_actor e \<noteq> None \<or> aev_action e \<in> set MAINTENANCE_ACTIONS) InvalidEvent) (\<lambda>_.
    Ok (lit ''identity.account.'' @ aev_action e,
        (case aev_actor e of None \<Rightarrow> (lit ''maintenance'', Instance instance_id)
         | Some a \<Rightarrow> (lit ''principal'', Id a)),
        (lit ''account'', Id (aev_principal e)), True,
        AccountPayload (aev_epoch e)
          (aev_enabled e, aev_member_active e, aev_membership_epoch e)))))"

definition map_session :: "TenantId \<Rightarrow> SessionEvent \<Rightarrow> InvalidEvent + event_facts" where
  "map_session tenant e =
    and_then (ensure (sev_tenant e = tenant \<and> sev_epoch e > 0) InvalidEvent) (\<lambda>_.
    and_then (ensure (sev_action e = Created \<or> sev_replaced e = None) InvalidEvent) (\<lambda>_.
    Ok (lit ''identity.session.'' @ session_action (sev_action e),
        (lit ''principal'', Id (sev_principal e)),
        (if sev_action e = AllRevoked then (lit ''account_sessions'', Id (sev_principal e))
         else (lit ''session'', Id (session_uuid (sev_session_id e)))), True,
        SessionPayload (sev_epoch e) (sev_session_id e) (sev_replaced e) (sev_source e))))"

definition map_federation ::
  "InstanceId \<Rightarrow> TenantId \<Rightarrow> FederationEvent \<Rightarrow> InvalidEvent + event_facts" where
  "map_federation instance_id tenant e =
    and_then (ensure (fev_tenant e = tenant \<and> fev_config_version e > 0) InvalidEvent) (\<lambda>_.
    and_then (ensure (fev_principal e \<noteq> None \<or> fev_action e = ProviderUpdated) InvalidEvent) (\<lambda>_.
    and_then (ensure ((fev_diagnostic e \<noteq> None) = (fev_action e = ProviderTestFailed))
        InvalidEvent) (\<lambda>_.
    and_then
      (if is_provider_action (fev_action e)
       then Ok (lit ''provider'', Id (provider_uuid (fev_provider_id e)))
       else and_then (ok_or InvalidEvent (fev_principal e)) (\<lambda>p.
         Ok (lit ''federated_principal'', Id p))) (\<lambda>resource.
    Ok (lit ''identity.federation.'' @ federation_action (fev_action e),
        (case fev_principal e of None \<Rightarrow> (lit ''system'', Instance instance_id)
         | Some p \<Rightarrow> (lit ''principal'', Id p)),
        resource, fev_action e \<noteq> ProviderTestFailed,
        FederationPayload (fev_provider_id e) (fev_config_version e) (fev_diagnostic e))))))"

definition map_event ::
  "InstanceId \<Rightarrow> TenantId \<Rightarrow> uuid \<Rightarrow> int \<Rightarrow> SecurityEvent \<Rightarrow> InvalidEvent + AuditRecord" where
  "map_event instance_id tenant event_id occurred event =
    and_then (ensure (event_tenant event = tenant) InvalidEvent) (\<lambda>_.
    and_then
      (case event of
         SecurityEvent.Authentication e \<Rightarrow> map_authentication tenant e
       | SecurityEvent.Profile e \<Rightarrow> map_profile tenant e
       | SecurityEvent.Provisioned v \<Rightarrow> map_provisioned instance_id v
       | SecurityEvent.Account e \<Rightarrow> map_account instance_id tenant e
       | SecurityEvent.Session e \<Rightarrow> map_session tenant e
       | SecurityEvent.Federation e \<Rightarrow> map_federation instance_id tenant e)
      (\<lambda>(action, actor, resource, succeeded, payload).
    Ok \<lparr>aud_tenant = tenant, aud_instance = instance_id, aud_event_id = event_id,
        aud_contract = event_contract event, aud_action = action, aud_actor = actor,
        aud_resource = resource, aud_succeeded = succeeded, aud_occurred = occurred,
        aud_payload = payload\<rparr>))"

lemma map_event_Ok:
  "map_event i t n o' e = Ok r \<Longrightarrow>
    event_tenant e = t \<and> aud_tenant r = t \<and> aud_instance r = i \<and> aud_event_id r = n
    \<and> aud_contract r = event_contract e \<and> aud_occurred r = o'"
  unfolding map_event_def by (elim and_then_InrE) (auto simp: and_then_Inr_iff)

lemma SecurityAction_audited: "SecurityAction_as_str a \<in> set ACCOUNT_ACTIONS"
  by (cases a) (simp_all add: ACCOUNT_ACTIONS_def)

text \<open>An event of an account the policy accepts, caused by a principal, always has a record.\<close>

lemma account_event_recorded:
  "valid_account s \<Longrightarrow>
    is_ok (map_event i (ak_tenant (st_key s)) n t (account_security_event a s (Some actor)))"
  by (auto simp: map_event_def account_security_event_def account_event_def map_account_def
      SecurityAction_audited valid_account_def is_ok_and_then)

end
