(* ===== verification/Transactions.thy ===== *)
theory Transactions
  imports Events
begin

section \<open>Transactions (identity-postgres/src/transaction.rs, storage.rs)\<close>

text \<open>
  A transaction body is a function from a world to an error or a value and the next world. An
  error carries no world: the runtime rolls the transaction back, and the database it started from
  stays. The world holds the database, the two clocks as sequences of readings with the position
  of the next one, and the kind the driver reports for a violated constraint. Each statement that
  mentions \<open>clock_timestamp()\<close> takes one reading, and each \<open>Instant::now()\<close> takes one. The
  sequences are arbitrary: no theorem relies on a clock that never steps back unless it says so.
  \<open>FOR UPDATE\<close> is not represented; bodies of one tenant run one after the other, which the row
  lock on the tenant's guard enforces.
\<close>

record db =
  d_authority :: uuid
  d_guard :: "guard_row list"
  d_accounts :: "account_row list"
  d_credentials :: "local_credential_row list"
  d_memberships :: "membership_row list"
  d_attempts :: "attempt_row list"
  d_passwords :: "password_row list"
  d_providers :: "provider_row list"
  d_identities :: "identity_row list"
  d_sessions :: "session_row list"
  d_oidc :: "oidc_row list"
  d_links :: "link_row list"
  d_local_profiles :: "local_profile_row list"
  d_observations :: "observation_row list"
  d_profile_operations :: "profile_operation_row list"
  d_webauthn_rp :: "webauthn_rp_row list"
  d_webauthn_credentials :: "webauthn_credential_row list"
  d_webauthn_accounts :: "webauthn_account_row list"
  d_ceremonies :: "ceremony_row list"
  d_sealed :: "sealed_row list"
  d_grants :: "grant_row list"
  d_challenges :: "challenge_row list"
  d_audit :: "AuditRecord list"

record world =
  w_db :: db
  w_micros :: "nat \<Rightarrow> int"
  w_instants :: "nat \<Rightarrow> instant"
  w_tick :: nat
  w_violation :: PgError

type_synonym ('e, 'a) tx = "world \<Rightarrow> 'e + ('a \<times> world)"

definition ret :: "'a \<Rightarrow> ('e, 'a) tx" where "ret x w = Ok (x, w)"
definition fail :: "'e \<Rightarrow> ('e, 'a) tx" where "fail e w = Err e"

definition bind :: "('e, 'a) tx \<Rightarrow> ('a \<Rightarrow> ('e, 'b) tx) \<Rightarrow> ('e, 'b) tx" where
  "bind m k w = and_then (m w) (\<lambda>(x, w'). k x w')"

definition lift :: "'e + 'a \<Rightarrow> ('e, 'a) tx" where
  "lift r w = and_then r (\<lambda>x. Ok (x, w))"

definition require :: "bool \<Rightarrow> 'e \<Rightarrow> ('e, unit) tx" where
  "require ok e = lift (ensure ok e)"

definition when_tx :: "bool \<Rightarrow> ('e, unit) tx \<Rightarrow> ('e, unit) tx" where
  "when_tx b m = (if b then m else ret ())"

text \<open>Another error type around a body: \<open>?\<close> with a \<open>From\<close> conversion, \<open>map_err\<close>.\<close>

definition widen :: "('e \<Rightarrow> 'f) \<Rightarrow> ('e, 'a) tx \<Rightarrow> ('f, 'a) tx" where
  "widen g m w = map_err g (m w)"

definition query :: "(db \<Rightarrow> 'a) \<Rightarrow> ('e, 'a) tx" where
  "query f w = Ok (f (w_db w), w)"

definition exec :: "(db \<Rightarrow> db) \<Rightarrow> ('e, unit) tx" where
  "exec f w = Ok ((), w\<lparr>w_db := f (w_db w)\<rparr>)"

text \<open>An \<open>INSERT\<close> that a key of the table refuses fails with the driver's error.\<close>

definition insert_checked :: "(db \<Rightarrow> bool) \<Rightarrow> (db \<Rightarrow> db) \<Rightarrow> (PgError, unit) tx" where
  "insert_checked free f w = (if free (w_db w) then exec f w else Err (w_violation w))"

text \<open>A reading of the database clock, in microseconds, and of the host's clock.\<close>

definition clock_timestamp :: "('e, int) tx" where
  "clock_timestamp w = Ok (w_micros w (w_tick w), w\<lparr>w_tick := Suc (w_tick w)\<rparr>)"

definition instant_now :: "('e, instant) tx" where
  "instant_now w = Ok (w_instants w (w_tick w), w\<lparr>w_tick := Suc (w_tick w)\<rparr>)"

text \<open>session_storage.rs \<open>now\<close>, in whole seconds, and \<open>TimeSample::read\<close>.\<close>

definition now :: "('e, int) tx" where
  "now = bind clock_timestamp (\<lambda>m. ret (m div 1000000))"

definition read_sample :: "(PgError, TimeSample) tx" where
  "read_sample =
    bind instant_now (\<lambda>started.
    bind clock_timestamp (\<lambda>m.
    lift (TimeSample_read started m)))"

definition lock_guard :: "TenantId \<Rightarrow> (PgError, unit) tx" where
  "lock_guard tenant =
    bind (query (\<lambda>d. find (\<lambda>r. gd_tenant r = tenant) (d_guard d))) (\<lambda>r.
    require (r \<noteq> None) reject)"

definition authority_id :: "('e, uuid) tx" where
  "authority_id = query d_authority"

subsection \<open>Running and inverting bodies\<close>

named_theorems tx_simps \<open>one step of a transaction body\<close>

lemma bind_Inr [tx_simps]:
  "bind m k w = Inr r \<longleftrightarrow> (\<exists>x w'. m w = Inr (x, w') \<and> k x w' = Inr r)"
  by (auto simp: bind_def and_then_Inr_iff)

lemma bind_Inl [tx_simps]:
  "bind m k w = Inl e \<longleftrightarrow> m w = Inl e \<or> (\<exists>x w'. m w = Inr (x, w') \<and> k x w' = Inl e)"
  by (auto simp: bind_def and_then_Inl_iff)

lemma bind_run [simp]:
  "m w = Inr (x, w') \<Longrightarrow> bind m k w = k x w'"
  "m w = Inl e \<Longrightarrow> bind m k w = Inl e"
  by (simp_all add: bind_def)

lemma bindE:
  assumes "bind m k w = Inr r"
  obtains x w' where "m w = Inr (x, w')" "k x w' = Inr r"
  using assms by (auto simp: bind_Inr)

lemma ret_simps [simp, tx_simps]: "ret x w = Inr r \<longleftrightarrow> r = (x, w)" "ret x w = Inl e \<longleftrightarrow> False"
  by (auto simp: ret_def)

lemma fail_simps [simp, tx_simps]: "fail e w = Inr r \<longleftrightarrow> False" "fail e w = Inl f \<longleftrightarrow> f = e"
  by (auto simp: fail_def)

lemma lift_Inr [simp, tx_simps]: "lift r w = Inr (x, w') \<longleftrightarrow> r = Inr x \<and> w' = w"
  by (cases r) (auto simp: lift_def)

lemma lift_Inl [simp, tx_simps]: "lift r w = Inl e \<longleftrightarrow> r = Inl e"
  by (cases r) (auto simp: lift_def)

lemma require_Inr [simp, tx_simps]: "require b e w = Inr (u, w') \<longleftrightarrow> b \<and> w' = w"
  by (auto simp: require_def)

lemma require_Inl [simp, tx_simps]: "require b e w = Inl f \<longleftrightarrow> \<not> b \<and> f = e"
  by (auto simp: require_def)

lemma widen_Inr [simp, tx_simps]: "widen g m w = Inr r \<longleftrightarrow> m w = Inr r"
  by (simp add: widen_def)

lemma widen_Inl [tx_simps]: "widen g m w = Inl f \<longleftrightarrow> (\<exists>e. m w = Inl e \<and> f = g e)"
  by (cases "m w") (auto simp: widen_def)

lemma query_simps [simp, tx_simps]:
  "query f w = Inr (x, w') \<longleftrightarrow> x = f (w_db w) \<and> w' = w" "query f w = Inl e \<longleftrightarrow> False"
  by (auto simp: query_def)

lemma exec_simps [simp, tx_simps]:
  "exec f w = Inr (u, w') \<longleftrightarrow> w' = w\<lparr>w_db := f (w_db w)\<rparr>" "exec f w = Inl e \<longleftrightarrow> False"
  by (auto simp: exec_def)

lemma insert_checked_Inr [tx_simps]:
  "insert_checked p f w = Inr (u, w') \<longleftrightarrow> p (w_db w) \<and> w' = w\<lparr>w_db := f (w_db w)\<rparr>"
  by (simp add: insert_checked_def)

lemma when_tx_Inr [tx_simps]:
  "when_tx b m w = Inr (u, w') \<longleftrightarrow> (if b then m w = Inr ((), w') else w' = w)"
  by (auto simp: when_tx_def)

lemma clock_timestamp_simps [simp, tx_simps]:
  "clock_timestamp w = Inr (m, w') \<longleftrightarrow>
    m = w_micros w (w_tick w) \<and> w' = w\<lparr>w_tick := Suc (w_tick w)\<rparr>"
  "clock_timestamp w = Inl e \<longleftrightarrow> False"
  by (auto simp: clock_timestamp_def)

lemma instant_now_simps [simp, tx_simps]:
  "instant_now w = Inr (m, w') \<longleftrightarrow>
    m = w_instants w (w_tick w) \<and> w' = w\<lparr>w_tick := Suc (w_tick w)\<rparr>"
  "instant_now w = Inl e \<longleftrightarrow> False"
  by (auto simp: instant_now_def)

lemma now_Inr [simp, tx_simps]:
  "now w = Inr (t, w') \<longleftrightarrow>
    t = w_micros w (w_tick w) div 1000000 \<and> w' = w\<lparr>w_tick := Suc (w_tick w)\<rparr>"
  by (auto simp: now_def tx_simps)

lemma lock_guard_Inr [simp, tx_simps]:
  "lock_guard t w = Inr (u, w') \<longleftrightarrow> w' = w \<and> (\<exists>r\<in>set (d_guard (w_db w)). gd_tenant r = t)"
  by (auto simp: lock_guard_def tx_simps find_None_iff simp del: not_None_eq)

lemma authority_id_simps [simp, tx_simps]:
  "authority_id w = Inr (a, w') \<longleftrightarrow> a = d_authority (w_db w) \<and> w' = w"
  "authority_id w = Inl e \<longleftrightarrow> False"
  by (auto simp: authority_id_def)

text \<open>Running a body forward: the first statement is executed, the rest runs on its result.\<close>

named_theorems run_simps \<open>forward execution of a transaction body\<close>

lemma run_basic [run_simps]:
  "bind (ret x) k1 w = k1 x w"
  "bind (fail e) k2 w = Inl e"
  "bind (query f) k3 w = k3 (f (w_db w)) w"
  "bind (exec g) k4 w = k4 () (w\<lparr>w_db := g (w_db w)\<rparr>)"
  "bind clock_timestamp k5 w = k5 (w_micros w (w_tick w)) (w\<lparr>w_tick := Suc (w_tick w)\<rparr>)"
  "bind instant_now k6 w = k6 (w_instants w (w_tick w)) (w\<lparr>w_tick := Suc (w_tick w)\<rparr>)"
  "bind authority_id k7 w = k7 (d_authority (w_db w)) w"
  "bind (require b e) k8 w = (if b then k8 () w else Inl e)"
  "bind (lift r) k9 w = (case r of Inl e2 \<Rightarrow> Inl e2 | Inr y \<Rightarrow> k9 y w)"
  "bind (when_tx b m) k10 w = (if b then bind m k10 w else k10 () w)"
  "bind (insert_checked p g) k11 w =
    (if p (w_db w) then k11 () (w\<lparr>w_db := g (w_db w)\<rparr>) else Inl (w_violation w))"
  by (auto simp: bind_def ret_def fail_def query_def exec_def clock_timestamp_def instant_now_def
      authority_id_def require_def lift_def ensure_def when_tx_def insert_checked_def and_then_def
      split: sum.split)

lemma run_bind [run_simps]: "bind (bind m k) l w = bind m (\<lambda>x. bind (k x) l) w"
  by (simp add: bind_def and_then_def split: sum.split prod.split)

lemma run_now [run_simps]:
  "bind now k w = k (w_micros w (w_tick w) div 1000000) (w\<lparr>w_tick := Suc (w_tick w)\<rparr>)"
  by (simp add: now_def run_simps)

lemma run_lock_guard [run_simps]:
  "bind (lock_guard t) k w = (if \<exists>r\<in>set (d_guard (w_db w)). gd_tenant r = t then k () w else Inl reject)"
  by (auto simp: lock_guard_def run_simps find_None_iff simp del: not_None_eq)

lemma run_if [run_simps]: "bind (if b then m else n) k w = (if b then bind m k w else bind n k w)"
  by simp

lemma run_widen [run_simps]:
  "bind (widen g m) k w = (case m w of Inl e \<Rightarrow> Inl (g e) | Inr (x, w') \<Rightarrow> k x w')"
  by (simp add: bind_def widen_def and_then_def map_err_def split: sum.split)

lemma run_last [run_simps]:
  "ret x w = Inr (x, w)" "fail e w = Inl e" "exec f w = Inr ((), w\<lparr>w_db := f (w_db w)\<rparr>)"
  by (simp_all add: ret_def fail_def exec_def)

subsection \<open>What a body leaves of the database\<close>

text \<open>
  \<open>keeps R m\<close>: whenever the body succeeds, the databases before and after are related by \<open>R\<close>.
  The locale \<open>kept\<close> asks of the relation what makes it compose; its instances are the frame
  conditions of the components: nothing changed at all, one table unchanged, an invariant kept.
\<close>

definition keeps :: "(db \<Rightarrow> db \<Rightarrow> bool) \<Rightarrow> ('e, 'a) tx \<Rightarrow> bool" where
  "keeps R m \<longleftrightarrow> (\<forall>w x w'. m w = Inr (x, w') \<longrightarrow> R (w_db w) (w_db w'))"

lemma keepsD: "keeps R m \<Longrightarrow> m w = Inr (x, w') \<Longrightarrow> R (w_db w) (w_db w')"
  by (auto simp: keeps_def)

lemma keepsI: "(\<And>w x w'. m w = Inr (x, w') \<Longrightarrow> R (w_db w) (w_db w')) \<Longrightarrow> keeps R m"
  by (auto simp: keeps_def)

named_theorems keeps_intros \<open>composition of kept relations\<close>

lemma keeps_exec: "(\<And>d. R d (f d)) \<Longrightarrow> keeps R (exec f)"
  by (auto simp: keeps_def)

lemma keeps_insert_checked: "(\<And>d. p d \<Longrightarrow> R d (f d)) \<Longrightarrow> keeps R (insert_checked p f)"
  by (auto simp: keeps_def insert_checked_Inr)

locale kept =
  fixes R :: "db \<Rightarrow> db \<Rightarrow> bool"
  assumes kept_refl: "R d d"
    and kept_trans: "R d e \<Longrightarrow> R e f \<Longrightarrow> R d f"
begin

lemma reading: "(\<And>w x w'. m w = Inr (x, w') \<Longrightarrow> w_db w' = w_db w) \<Longrightarrow> keeps R m"
  by (auto simp: keeps_def kept_refl)

lemma ret: "keeps R (ret x)"
  and fail: "keeps R (fail e)"
  and lift: "keeps R (lift r)"
  and require: "keeps R (require b e)"
  and query: "keeps R (query f)"
  and clock_timestamp: "keeps R clock_timestamp"
  and instant_now: "keeps R instant_now"
  and now: "keeps R now"
  and lock_guard: "keeps R (lock_guard t)"
  and authority_id: "keeps R authority_id"
  by (auto intro!: reading)

lemma read_sample: "keeps R read_sample"
  by (rule reading) (auto simp: read_sample_def tx_simps)

lemma widen: "keeps R m \<Longrightarrow> keeps R (widen g m)"
  by (auto simp: keeps_def)

lemma when_tx: "(b \<Longrightarrow> keeps R m) \<Longrightarrow> keeps R (when_tx b m)"
  by (simp add: when_tx_def ret)

lemma bind: "keeps R m \<Longrightarrow> (\<And>x. keeps R (k x)) \<Longrightarrow> keeps R (bind m k)"
  unfolding keeps_def bind_Inr by (blast intro: kept_trans)

lemma if_tx: "(b \<Longrightarrow> keeps R m) \<Longrightarrow> (\<not> b \<Longrightarrow> keeps R n) \<Longrightarrow> keeps R (if b then m else n)"
  by simp

lemma option_tx: "keeps R m \<Longrightarrow> (\<And>x. keeps R (k x)) \<Longrightarrow> keeps R (case v of None \<Rightarrow> m | Some x \<Rightarrow> k x)"
  by (cases v) auto

lemma sum_tx: "(\<And>e. keeps R (m e)) \<Longrightarrow> (\<And>x. keeps R (k x)) \<Longrightarrow> keeps R (case r of Inl e \<Rightarrow> m e | Inr x \<Rightarrow> k x)"
  by (cases r) auto

lemma pair_tx: "(\<And>a b. keeps R (k a b)) \<Longrightarrow> keeps R (case p of (a, b) \<Rightarrow> k a b)"
  by (cases p) auto

lemma let_tx: "keeps R (k x) \<Longrightarrow> keeps R (let y = x in k y)"
  by simp

lemmas steps [keeps_intros] = ret fail lift require query clock_timestamp instant_now now lock_guard
  authority_id read_sample widen when_tx bind if_tx option_tx sum_tx pair_tx let_tx

end

text \<open>The relation every read-only body keeps.\<close>

definition unchanged :: "db \<Rightarrow> db \<Rightarrow> bool" where "unchanged d e \<longleftrightarrow> e = d"

interpretation pure: kept unchanged
  by unfold_locales (simp_all add: unchanged_def)

abbreviation reads_only :: "('e, 'a) tx \<Rightarrow> bool" where "reads_only \<equiv> keeps unchanged"

lemma reads_onlyD: "reads_only m \<Longrightarrow> m w = Inr (x, w') \<Longrightarrow> w_db w' = w_db w"
  by (auto simp: keeps_def unchanged_def)

text \<open>The relation that keeps one projection of the database, such as a table.\<close>

definition same :: "(db \<Rightarrow> 'a) \<Rightarrow> db \<Rightarrow> db \<Rightarrow> bool" where "same f d e \<longleftrightarrow> f e = f d"

interpretation frame: kept "same f" for f
  by unfold_locales (simp_all add: same_def)

text \<open>The relation that keeps an invariant.\<close>

definition maintains :: "(db \<Rightarrow> bool) \<Rightarrow> db \<Rightarrow> db \<Rightarrow> bool" where
  "maintains I d e \<longleftrightarrow> (I d \<longrightarrow> I e)"

interpretation invariant: kept "maintains I" for I
  by unfold_locales (simp_all add: maintains_def)

lemma reads_only_keeps: "reads_only m \<Longrightarrow> (\<And>d. R d d) \<Longrightarrow> keeps R m"
  by (auto simp: keeps_def unchanged_def)

end
