(* ===== verification/Settlement.thy ===== *)
theory Settlement
  imports Transactions
begin

section \<open>Settlement (identity-postgres/src/transaction.rs, audit/mod.rs, types.rs)\<close>

text \<open>
  How a transaction body becomes an operation of the authority. The messaging runtime that opens,
  commits and rolls back is a parameter: it may refuse to start, it commits only a body that
  succeeded, and it reports what it knows of the end; the database is the one the body left after
  a commit and the one before it after a rollback, and either of the two when the commit is
  unknown or fenced. An operation keeps the world on an error, since earlier transactions of the
  same operation stay committed.
\<close>

subsection \<open>The runtime\<close>

datatype 'a Outcome =
  Committed 'a | NotStarted PgError | RolledBack PgError | RollbackFailed PgError
| CommitUnknown PgError | Fenced

datatype SuccessFate =
  Commits | Aborts PgError | AbortLost PgError | CommitLost PgError bool | CommitFenced bool

datatype FailureFate = AbortsWith PgError | FailureLost PgError | FailureFenced

record Runtime =
  rt_start :: "world \<Rightarrow> PgError option"
  rt_success :: "world \<Rightarrow> SuccessFate"
  rt_failure :: "PgError \<Rightarrow> world \<Rightarrow> FailureFate"
  rt_resume :: "world \<Rightarrow> nat"

definition resumed :: "Runtime \<Rightarrow> world \<Rightarrow> world" where
  "resumed rt w = w\<lparr>w_tick := rt_resume rt w\<rparr>"

text \<open>\<open>local_tx\<close>; the error of a body carries the write-once slot beside the storage error.\<close>

definition local_tx ::
  "Runtime \<Rightarrow> (PgError \<times> 'r, 'a) tx \<Rightarrow> world \<Rightarrow> 'a Outcome \<times> world" where
  "local_tx rt body w =
    (case rt_start rt w of
       Some e \<Rightarrow> (NotStarted e, resumed rt w)
     | None \<Rightarrow>
       (case body w of
          Inr (x, w1) \<Rightarrow>
            (case rt_success rt w1 of
               Commits \<Rightarrow> (Committed x, w1)
             | Aborts e \<Rightarrow> (RolledBack e, resumed rt w)
             | AbortLost e \<Rightarrow> (RollbackFailed e, resumed rt w)
             | CommitLost e applied \<Rightarrow> (CommitUnknown e, if applied then w1 else resumed rt w)
             | CommitFenced applied \<Rightarrow> (Fenced, if applied then w1 else resumed rt w))
        | Inl (e, _) \<Rightarrow>
            (case rt_failure rt e w of
               AbortsWith e' \<Rightarrow> (RolledBack e', resumed rt w)
             | FailureLost e' \<Rightarrow> (RollbackFailed e', resumed rt w)
             | FailureFenced \<Rightarrow> (Fenced, resumed rt w))))"

fun fold_outcome :: "'a Outcome \<Rightarrow> AuthorityError + 'a" where
  "fold_outcome (Committed x) = Ok x"
| "fold_outcome (NotStarted e) = Err (AuthorityError.NotStarted (StorageFailure_from e))"
| "fold_outcome (RolledBack e) =
    Err (if e = MessagingErrorKind.Conflict then AuthorityError.Rejected
         else AuthorityError.RolledBack (StorageFailure_from e))"
| "fold_outcome (RollbackFailed e) = Err (AuthorityError.RollbackFailed (StorageFailure_from e))"
| "fold_outcome (CommitUnknown e) = Err (AuthorityError.CommitUnknown (StorageFailure_from e))"
| "fold_outcome Fenced = Err AuthorityError.Fenced"

subsection \<open>Operations\<close>

type_synonym 'a op = "world \<Rightarrow> (AuthorityError + 'a) \<times> world"

definition op_ret :: "'a \<Rightarrow> 'a op" where "op_ret x w = (Ok x, w)"

definition op_bind :: "'a op \<Rightarrow> ('a \<Rightarrow> 'b op) \<Rightarrow> 'b op" where
  "op_bind m k w = (case m w of (Inl e, w') \<Rightarrow> (Err e, w') | (Inr x, w') \<Rightarrow> k x w')"

definition op_lift :: "AuthorityError + 'a \<Rightarrow> 'a op" where "op_lift r w = (r, w)"

definition op_require :: "bool \<Rightarrow> AuthorityError \<Rightarrow> unit op" where
  "op_require ok e = op_lift (ensure ok e)"

definition op_map_err :: "(AuthorityError \<Rightarrow> AuthorityError) \<Rightarrow> 'a op \<Rightarrow> 'a op" where
  "op_map_err g m w = (case m w of (r, w') \<Rightarrow> (map_err g r, w'))"

text \<open>The result of an operation as a value, for a caller that goes on after an error.\<close>

definition op_try :: "'a op \<Rightarrow> (AuthorityError + 'a) op" where
  "op_try m w = (case m w of (r, w') \<Rightarrow> (Ok r, w'))"

definition op_instant :: "instant op" where
  "op_instant w = (Ok (w_instants w (w_tick w)), w\<lparr>w_tick := Suc (w_tick w)\<rparr>)"

text \<open>\<open>Budget\<close>: the instant an operation ends at. Timeouts are in nanoseconds.\<close>

definition Budget_new :: "int \<Rightarrow> instant op" where
  "Budget_new timeout =
    op_bind (op_require (timeout \<noteq> 0) AuthorityError.DeadlineElapsed) (\<lambda>_.
    op_bind op_instant (\<lambda>t.
    op_lift (ok_or AuthorityError.InvalidInput (instant_checked_add t timeout))))"

definition Budget_remaining :: "instant \<Rightarrow> int op" where
  "Budget_remaining b = op_bind op_instant (\<lambda>t. op_ret (max 0 (b - t)))"

text \<open>\<open>Budget::password\<close>: a computation that timed out is \<open>None\<close>.\<close>

definition budget_password :: "(PasswordError + 'a) option \<Rightarrow> AuthorityError + 'a" where
  "budget_password r =
    (case r of None \<Rightarrow> Err AuthorityError.DeadlineElapsed
     | Some v \<Rightarrow> map_err AuthorityError_from_password v)"

subsection \<open>Reading and writing through the runtime\<close>

text \<open>
  What \<open>RuntimeBundle\<close> holds. The audit library is a parameter: \<open>bu_lock_head\<close> is present for
  an integrity mode other than \<open>Plain\<close>, \<open>bu_prepare\<close> is its check of a record and
  \<open>bu_append\<close> its append inside the transaction.
\<close>

datatype AuditError = Conflict | ScopeMismatch | Protocol | Other PgError

fun audit_error :: "AuditError \<Rightarrow> PgError" where
  "audit_error AuditError.Conflict = corrupt"
| "audit_error ScopeMismatch = corrupt"
| "audit_error Protocol = corrupt"
| "audit_error (Other e) = e"

record RuntimeBundle =
  bu_runtime :: Runtime
  bu_tenants :: "TenantId list"
  bu_instance :: InstanceId
  bu_lock_head :: "(PgError, unit) tx option"
  bu_prepare :: "AuditRecord \<Rightarrow> bool"
  bu_append :: "AuditRecord list \<Rightarrow> (AuditError, unit) tx"

type_synonym slot = "AuthorityError option"

definition checked_body ::
  "RuntimeBundle \<Rightarrow> bool \<Rightarrow> (PgError \<times> slot, 'a) tx \<Rightarrow> (PgError \<times> slot, 'a) tx" where
  "checked_body b verify_instance operation =
    bind (when_tx verify_instance
       (bind authority_id (\<lambda>actual.
        require (actual = instance_uuid (bu_instance b)) (reject, None)))) (\<lambda>_.
    operation)"

text \<open>The second component is the content of the slot after the call.\<close>

definition read_bundle ::
  "RuntimeBundle \<Rightarrow> TenantId \<Rightarrow> int \<Rightarrow> bool \<Rightarrow> (PgError \<times> slot, 'a) tx
    \<Rightarrow> world \<Rightarrow> (AuthorityError + 'a) \<times> slot \<times> world" where
  "read_bundle b tenant timeout verify_instance operation w =
    (if tenant \<notin> set (bu_tenants b) then (Err AuthorityError.Rejected, None, w)
     else if timeout = 0
       then (Err (AuthorityError.NotStarted StorageFailure.DeadlineElapsed), None, w)
     else
       let body = checked_body b verify_instance operation in
       case local_tx (bu_runtime b) body w of (out, w') \<Rightarrow>
         (fold_outcome out, (case body w of Inl (_, reason) \<Rightarrow> reason | Inr _ \<Rightarrow> None), w'))"

definition no_slot :: "PgError \<Rightarrow> PgError \<times> slot" where "no_slot e = (e, None)"

definition read :: "RuntimeBundle \<Rightarrow> TenantId \<Rightarrow> int \<Rightarrow> (PgError, 'a) tx \<Rightarrow> 'a op" where
  "read b tenant timeout operation w =
    (case read_bundle b tenant timeout True (widen no_slot operation) w of (r, _, w') \<Rightarrow> (r, w'))"

definition with_reason :: "(AuthorityError + 'a) \<times> slot \<times> world \<Rightarrow> (AuthorityError + 'a) \<times> world" where
  "with_reason = (\<lambda>(r, reason, w). (domain_result r reason, w))"

definition read_sql :: "RuntimeBundle \<Rightarrow> TenantId \<Rightarrow> int \<Rightarrow> (MutationError, 'a) tx \<Rightarrow> 'a op" where
  "read_sql b tenant timeout work w =
    with_reason (read_bundle b tenant timeout True (widen sql_failure work) w)"

definition MAX_MUTATION_EVENTS :: nat where "MAX_MUTATION_EVENTS = 8"

text \<open>\<open>audit::append_events\<close>: the records of all events, prepared first, then appended at once.\<close>

definition prepare_events ::
  "RuntimeBundle \<Rightarrow> TenantId \<Rightarrow> (nat \<Rightarrow> uuid) \<Rightarrow> int \<Rightarrow> SecurityEvent list \<Rightarrow> PgError + AuditRecord list" where
  "prepare_events b tenant fresh at events =
    (let mapped = map (\<lambda>(n, e). map_event (bu_instance b) tenant (fresh n) at e)
           (enumerate 0 events) in
     if list_all (\<lambda>r. case r of Inl _ \<Rightarrow> False | Inr a \<Rightarrow> bu_prepare b a) mapped
     then Ok (map projr mapped) else Err corrupt)"

definition append_events ::
  "RuntimeBundle \<Rightarrow> TenantId \<Rightarrow> TenantId \<Rightarrow> (nat \<Rightarrow> uuid) \<Rightarrow> SecurityEvent list \<Rightarrow> (PgError, unit) tx" where
  "append_events b tx_tenant tenant fresh events =
    bind (require (tx_tenant = tenant \<and> length events \<le> MAX_MUTATION_EVENTS) corrupt) (\<lambda>_.
    if events = [] then ret ()
    else
      bind now (\<lambda>t.
      bind (lift (prepare_events b tenant fresh t events)) (\<lambda>records.
      widen audit_error (bu_append b records))))"

definition settled_body ::
  "RuntimeBundle \<Rightarrow> TenantId \<Rightarrow> (nat \<Rightarrow> uuid) \<Rightarrow> (MutationError, 'a \<times> SecurityEvent list) tx \<Rightarrow> bool
    \<Rightarrow> (PgError \<times> slot, 'a) tx" where
  "settled_body b tenant fresh operation require_event =
    bind (case bu_lock_head b of None \<Rightarrow> ret () | Some lock \<Rightarrow> widen no_slot lock) (\<lambda>_.
    bind (widen sql_failure operation) (\<lambda>(result, events).
    bind (require (\<not> (require_event \<and> events = []) \<and> length events \<le> MAX_MUTATION_EVENTS)
            (corrupt, None)) (\<lambda>_.
    bind (widen no_slot (append_events b tenant tenant fresh events)) (\<lambda>_.
    ret result))))"

definition settle_events ::
  "RuntimeBundle \<Rightarrow> TenantId \<Rightarrow> int \<Rightarrow> (nat \<Rightarrow> uuid) \<Rightarrow> (MutationError, 'a \<times> SecurityEvent list) tx
    \<Rightarrow> bool \<Rightarrow> 'a op" where
  "settle_events b tenant timeout fresh operation require_event w =
    with_reason (read_bundle b tenant timeout True
      (settled_body b tenant fresh operation require_event) w)"

text \<open>\<open>mutate_events\<close> and \<open>write_sql\<close>; \<open>mutate\<close> for one event; \<open>conditional_write_sql\<close>.\<close>

definition write_sql ::
  "RuntimeBundle \<Rightarrow> TenantId \<Rightarrow> int \<Rightarrow> (nat \<Rightarrow> uuid) \<Rightarrow> (MutationError, 'a \<times> SecurityEvent list) tx
    \<Rightarrow> 'a op" where
  "write_sql b tenant timeout fresh operation = settle_events b tenant timeout fresh operation True"

definition mutate ::
  "RuntimeBundle \<Rightarrow> TenantId \<Rightarrow> int \<Rightarrow> (nat \<Rightarrow> uuid) \<Rightarrow> (MutationError, 'a \<times> SecurityEvent) tx
    \<Rightarrow> 'a op" where
  "mutate b tenant timeout fresh operation =
    write_sql b tenant timeout fresh
      (bind operation (\<lambda>(value, event). ret (value, [event])))"

definition conditional_write_sql ::
  "RuntimeBundle \<Rightarrow> TenantId \<Rightarrow> int \<Rightarrow> (nat \<Rightarrow> uuid) \<Rightarrow> (MutationError, 'a \<times> SecurityEvent list) tx
    \<Rightarrow> 'a op" where
  "conditional_write_sql b tenant timeout fresh operation =
    settle_events b tenant timeout fresh operation False"

subsection \<open>What settlement guarantees\<close>

lemma op_bind_Ok: "op_bind m k w = (Inr y, w') \<longleftrightarrow> (\<exists>x w1. m w = (Inr x, w1) \<and> k x w1 = (Inr y, w'))"
  by (auto simp: op_bind_def split: prod.splits sum.splits)

lemma op_bindE:
  assumes "op_bind m k w = (Inr y, w')"
  obtains x w1 where "m w = (Inr x, w1)" "k x w1 = (Inr y, w')"
  using assms by (auto simp: op_bind_Ok)

lemma op_simps [simp]:
  "op_ret x w = (r, w') \<longleftrightarrow> r = Inr x \<and> w' = w"
  "op_lift q w = (r, w') \<longleftrightarrow> r = q \<and> w' = w"
  "op_require b e w = (Inr u, w') \<longleftrightarrow> b \<and> w' = w"
  by (auto simp: op_ret_def op_lift_def op_require_def eq_commute [of _ r])

text \<open>What the code relies on of the audit library: the head is locked without a change, and an
  append adds the records to the log and touches nothing else.\<close>

definition audit_contract :: "RuntimeBundle \<Rightarrow> bool" where
  "audit_contract b \<longleftrightarrow>
    (\<forall>lock. bu_lock_head b = Some lock \<longrightarrow> reads_only lock)
    \<and> (\<forall>records w w'. bu_append b records w = Ok ((), w') \<longrightarrow>
         w_db w' = (w_db w)\<lparr>d_audit := d_audit (w_db w) @ records\<rparr>)"

definition uncertain :: "AuthorityError \<Rightarrow> bool" where
  "uncertain e \<longleftrightarrow> e = AuthorityError.Fenced \<or> (\<exists>f. e = AuthorityError.CommitUnknown f)"

lemma local_tx_cases:
  assumes "local_tx rt body w = (out, w')"
  shows "(case out of Committed x \<Rightarrow> body w = Ok (x, w')
      | CommitUnknown _ \<Rightarrow> True | Outcome.Fenced \<Rightarrow> True | _ \<Rightarrow> w_db w' = w_db w)"
  using assms
  by (auto simp: local_tx_def resumed_def split: option.splits sum.splits prod.splits
      SuccessFate.splits FailureFate.splits Outcome.splits)

lemma fold_outcome_Ok [simp]: "fold_outcome out = Inr x \<longleftrightarrow> out = Committed x"
  by (cases out) auto

lemma read_bundle_Ok:
  assumes "read_bundle b t timeout v operation w = (Ok x, reason, w')"
  shows "t \<in> set (bu_tenants b) \<and> timeout \<noteq> 0 \<and> (v \<longrightarrow> d_authority (w_db w) = instance_uuid (bu_instance b))
    \<and> operation w = Ok (x, w')"
proof -
  from assms have t: "t \<in> set (bu_tenants b)" "timeout \<noteq> 0"
    and "local_tx (bu_runtime b) (checked_body b v operation) w = (Committed x, w')"
    by (auto simp: read_bundle_def Let_def split: if_splits prod.splits)
  then have "checked_body b v operation w = Ok (x, w')" by (auto dest: local_tx_cases)
  with t show ?thesis by (auto simp: checked_body_def tx_simps split: if_splits)
qed

lemma read_bundle_Err:
  assumes "read_bundle b t timeout v operation w = (Err e, reason, w')"
  shows "(\<not> uncertain e \<longrightarrow> w_db w' = w_db w)
    \<and> (\<forall>r. reason = Some r \<longrightarrow> (\<exists>s. operation w = Err (s, Some r)))
    \<and> ((\<exists>f. e = AuthorityError.NotStarted f) \<or> (\<exists>f. e = AuthorityError.RolledBack f)
       \<or> (\<exists>f. e = AuthorityError.RollbackFailed f) \<or> e = AuthorityError.Rejected \<or> uncertain e)"
proof -
  have "\<exists>s. operation w = Err (s, Some r)" if "reason = Some r" for r
    using assms that
    by (auto simp: read_bundle_def Let_def checked_body_def bind_def when_tx_def authority_id_def
        query_def require_def lift_def ensure_def ret_def split: if_splits prod.splits sum.splits)
  moreover have "\<not> uncertain e \<longrightarrow> w_db w' = w_db w"
    and "(\<exists>f. e = AuthorityError.NotStarted f) \<or> (\<exists>f. e = AuthorityError.RolledBack f)
       \<or> (\<exists>f. e = AuthorityError.RollbackFailed f) \<or> e = AuthorityError.Rejected \<or> uncertain e"
    using assms local_tx_cases [of "bu_runtime b" "checked_body b v operation" w]
    by (auto simp: read_bundle_def Let_def uncertain_def split: if_splits prod.splits Outcome.splits
        elim!: fold_outcome.elims)
  ultimately show ?thesis by blast
qed

text \<open>What a domain error of an operation tells, whatever the runtime did.\<close>

definition settlement_error :: "AuthorityError \<Rightarrow> bool" where
  "settlement_error e \<longleftrightarrow>
    (\<exists>f. e = AuthorityError.NotStarted f) \<or> (\<exists>f. e = AuthorityError.RolledBack f)
    \<or> (\<exists>f. e = AuthorityError.RollbackFailed f) \<or> e = AuthorityError.Rejected \<or> uncertain e"

lemma sql_failure_reason: "snd (sql_failure m) = Some r \<Longrightarrow> \<not> settlement_error r"
  by (cases m) (auto simp: settlement_error_def uncertain_def)

lemma widen_sql_failure_Err:
  "widen sql_failure work w = Inl (s, Some r) \<Longrightarrow> \<exists>m. work w = Inl m \<and> sql_failure m = (s, Some r)"
  by (auto simp: widen_Inl)

lemma read_Ok:
  assumes "read b t timeout operation w = (Ok x, w')"
  shows "operation w = Ok (x, w') \<and> t \<in> set (bu_tenants b) \<and> d_authority (w_db w) = instance_uuid (bu_instance b)"
  using assms by (auto simp: read_def split: prod.splits dest!: read_bundle_Ok)

lemma read_Err:
  assumes "read b t timeout operation w = (Err e, w')" and "\<not> uncertain e"
  shows "w_db w' = w_db w"
  using assms by (auto simp: read_def split: prod.splits dest!: read_bundle_Err)

lemma read_sql_Ok:
  assumes "read_sql b t timeout work w = (Ok x, w')"
  shows "work w = Ok (x, w') \<and> t \<in> set (bu_tenants b) \<and> d_authority (w_db w) = instance_uuid (bu_instance b)"
  using assms by (auto simp: read_sql_def with_reason_def split: prod.splits dest!: read_bundle_Ok)

lemma domain_result_cases:
  "domain_result r reason = Inl e \<longleftrightarrow>
    (r = Inl AuthorityError.Rejected \<and> reason = Some e)
    \<or> r = Inl e \<and> (e = AuthorityError.Rejected \<longrightarrow> reason = None)"
  by (cases r) (auto simp: domain_result_Err split: option.splits if_splits)

lemma settled_body_Ok:
  assumes "audit_contract b" and "settled_body b t fresh operation require_event w = Ok (x, w')"
  obtains w0 events w1 t1 records and w2 :: world where "w_db w0 = w_db w" "operation w0 = Ok ((x, events), w1)"
    "require_event \<longrightarrow> events \<noteq> []" "length events \<le> MAX_MUTATION_EVENTS"
    "w_db w2 = w_db w1" "prepare_events b t fresh t1 events = Ok records"
    "w_db w' = (w_db w1)\<lparr>d_audit := d_audit (w_db w1) @ records\<rparr>"
proof -
  from assms(2) obtain w0 events w1 where "w_db w0 = w_db w" and op': "operation w0 = Ok ((x, events), w1)"
    and ev: "require_event \<longrightarrow> events \<noteq> []" "length events \<le> MAX_MUTATION_EVENTS"
    and app: "append_events b t t fresh events w1 = Ok ((), w')"
    using assms(1)
    by (fastforce simp: settled_body_def tx_simps audit_contract_def split: option.splits prod.splits
        dest: reads_onlyD)
  show ?thesis
  proof (cases "events = []")
    case True
    with app have "w' = w1" by (simp add: append_events_def tx_simps)
    moreover have "prepare_events b t fresh 0 events = Ok []"
      using True by (simp add: prepare_events_def)
    ultimately show ?thesis using \<open>w_db w0 = w_db w\<close> op' ev
      by (intro that [of w0 events w1 w1 0 "[]"]) simp_all
  next
    case False
    let ?w2 = "w1\<lparr>w_tick := Suc (w_tick w1)\<rparr>" and ?t1 = "w_micros w1 (w_tick w1) div 1000000"
    from False app obtain records where
      r: "prepare_events b t fresh ?t1 events = Ok records" "bu_append b records ?w2 = Ok ((), w')"
      by (auto simp: append_events_def tx_simps)
    with assms(1) have "w_db w' = (w_db w1)\<lparr>d_audit := d_audit (w_db w1) @ records\<rparr>"
      by (auto simp: audit_contract_def)
    with r(1) show ?thesis using \<open>w_db w0 = w_db w\<close> op' ev
      by (intro that [of w0 events w1 ?w2 ?t1 records]) simp_all
  qed
qed

lemma prepare_events_Ok:
  assumes "prepare_events b t fresh at events = Ok records"
  shows "length records = length events
    \<and> (\<forall>i<length events. map_event (bu_instance b) t (fresh i) at (events ! i) = Ok (records ! i))"
proof -
  have "map_event (bu_instance b) t (fresh i) at (events ! i) = Ok (records ! i)" if "i < length events" for i
    using assms that
    by (cases "map_event (bu_instance b) t (fresh i) at (events ! i)")
       (auto simp: prepare_events_def Let_def list_all_length nth_enumerate_eq split: if_splits sum.splits)
  with assms show ?thesis by (auto simp: prepare_events_def Let_def split: if_splits)
qed

lemma settle_events_Ok:
  assumes "settle_events b t timeout fresh operation require_event w = (Ok x, w')"
  shows "t \<in> set (bu_tenants b) \<and> d_authority (w_db w) = instance_uuid (bu_instance b)
    \<and> settled_body b t fresh operation require_event w = Ok (x, w')"
  using assms by (auto simp: settle_events_def with_reason_def split: prod.splits dest!: read_bundle_Ok)

lemma settled_body_reason:
  "settled_body b t fresh operation require_event w = Err (s, Some r) \<Longrightarrow>
    \<exists>w0 m. operation w0 = Err m \<and> snd (sql_failure m) = Some r"
  by (auto simp: settled_body_def tx_simps no_slot_def split: option.splits prod.splits)
     (metis snd_conv)+

text \<open>C1: A mutation that reports success was admitted for its tenant, ran against the deployment the
  authority was configured for, and left exactly what its body left plus the audit trail: at
  least one event where one is required, never more than eight, every event of the same tenant,
  and one audit record for each event, in order, appended to the log. A success without the
  record of its events does not exist.\<close>

theorem settlement_commits:
  assumes "audit_contract b"
    and "settle_events b t timeout fresh operation require_event w = (Ok x, w')"
  shows "t \<in> set (bu_tenants b) \<and> d_authority (w_db w) = instance_uuid (bu_instance b)
    \<and> (\<exists>w0 w1 events at records. w_db w0 = w_db w \<and> operation w0 = Ok ((x, events), w1)
        \<and> (require_event \<longrightarrow> events \<noteq> []) \<and> length events \<le> 8
        \<and> (\<forall>e\<in>set events. event_tenant e = t)
        \<and> length records = length events
        \<and> (\<forall>i<length events. map_event (bu_instance b) t (fresh i) at (events ! i) = Ok (records ! i))
        \<and> w_db w' = (w_db w1)\<lparr>d_audit := d_audit (w_db w1) @ records\<rparr>)"
proof -
  note settled = settle_events_Ok [OF assms(2)]
  then have body: "settled_body b t fresh operation require_event w = Ok (x, w')" by blast
  from settled_body_Ok [OF assms(1) body]
  obtain w0 events w1 t1 records where run: "w_db w0 = w_db w" "operation w0 = Ok ((x, events), w1)"
    "require_event \<longrightarrow> events \<noteq> []" "length events \<le> MAX_MUTATION_EVENTS"
    and p: "prepare_events b t fresh t1 events = Ok records"
    and after: "w_db w' = (w_db w1)\<lparr>d_audit := d_audit (w_db w1) @ records\<rparr>" .
  note mapped = prepare_events_Ok [OF p]
  then have "event_tenant e = t" if "e \<in> set events" for e
    using that by (auto simp: in_set_conv_nth dest: map_event_Ok)
  with settled run mapped after show ?thesis
    unfolding MAX_MUTATION_EVENTS_def by blast
qed


text \<open>A bundle whose runtime commits every body that succeeds, with a plain audit log, and a first
  world, both used by the examples of the development.\<close>

definition honest_runtime :: Runtime where
  "honest_runtime = \<lparr>rt_start = \<lambda>_. None, rt_success = \<lambda>_. Commits, rt_failure = \<lambda>e _. AbortsWith e,
     rt_resume = w_tick\<rparr>"

definition sample_tenant :: TenantId where "sample_tenant = TenantId 1"

definition sample_bundle :: RuntimeBundle where
  "sample_bundle = \<lparr>bu_runtime = honest_runtime, bu_tenants = [sample_tenant], bu_instance = InstanceId 5,
     bu_lock_head = None, bu_prepare = \<lambda>_. True,
     bu_append = \<lambda>records. exec (\<lambda>d. d\<lparr>d_audit := d_audit d @ records\<rparr>)\<rparr>"

definition sample_db :: db where
  "sample_db = \<lparr>d_authority = 5, d_guard = [\<lparr>gd_tenant = sample_tenant, gd_profile_sequence = 0\<rparr>],
     d_accounts = [\<lparr>ac_tenant = sample_tenant, ac_principal = 2, ac_enabled = True, ac_epoch = 1\<rparr>],
     d_credentials = [\<lparr>lc_tenant = sample_tenant, lc_principal = 2, lc_login = [97], lc_hash = [98]\<rparr>],
     d_memberships = [\<lparr>mb_tenant = sample_tenant, mb_principal = 2, mb_active = True, mb_epoch = 1\<rparr>],
     d_attempts = [], d_passwords = [], d_providers = [], d_identities = [], d_sessions = [],
     d_oidc = [], d_links = [], d_local_profiles = [], d_observations = [],
     d_profile_operations = [], d_webauthn_rp = [], d_webauthn_credentials = [],
     d_webauthn_accounts = [], d_ceremonies = [], d_sealed = [], d_grants = [],
     d_challenges = [], d_audit = []\<rparr>"

definition sample_world :: world where
  "sample_world = \<lparr>w_db = sample_db, w_micros = \<lambda>_. 1000000000, w_instants = \<lambda>n. int n, w_tick = 0,
     w_violation = MessagingErrorKind.Permanent\<rparr>"

lemma sample_contract: "audit_contract sample_bundle"
  by (simp add: audit_contract_def sample_bundle_def)

definition sample_event :: SecurityEvent where
  "sample_event = SecurityEvent.Authentication
     \<lparr>nev_tenant = sample_tenant, nev_principal = 2, nev_action = Verified\<rparr>"

lemma settle_sample:
  "settle_events sample_bundle sample_tenant 1 (\<lambda>_. 9) (ret ((), [sample_event])) True sample_world =
    (Ok (), sample_world\<lparr>w_tick := 1, w_db := sample_db\<lparr>d_audit :=
      [projr (map_event (InstanceId 5) sample_tenant 9 1000 sample_event)]\<rparr>\<rparr>)"
  by (simp add: settle_events_def read_bundle_def sample_bundle_def sample_world_def sample_db_def
      local_tx_def honest_runtime_def checked_body_def settled_body_def append_events_def
      prepare_events_def bind_def widen_def ret_def lift_def require_def ensure_def query_def
      exec_def authority_id_def when_tx_def with_reason_def map_event_def map_authentication_def
      sample_event_def MAX_MUTATION_EVENTS_def now_def clock_timestamp_def uuid_nil_def
      and_then_def map_err_def)

theorem settlement_commits_witness:
  "\<exists>records. length records = 1 \<and> d_audit (w_db (snd (settle_events sample_bundle sample_tenant 1
     (\<lambda>_. 9) (ret ((), [sample_event])) True sample_world))) = records"
  using settlement_commits [OF sample_contract settle_sample]
  unfolding settle_sample by auto

definition sample_refusal :: "(MutationError, unit \<times> SecurityEvent list) tx" where
  "sample_refusal = fail (Rule AccountRuleError.AlreadyExists)"

lemma settle_refusal:
  "settle_events sample_bundle sample_tenant 1 (\<lambda>_. 9) sample_refusal True sample_world
     = (Err (RuleRejected AccountRuleError.AlreadyExists), resumed honest_runtime sample_world)"
  by (simp add: settle_events_def read_bundle_def sample_bundle_def sample_world_def sample_db_def
      local_tx_def honest_runtime_def checked_body_def settled_body_def bind_def widen_def fail_def
      require_def lift_def ensure_def query_def authority_id_def when_tx_def with_reason_def
      reject_def domain_result_def ret_def and_then_def map_err_def sample_refusal_def)


end
