(* ===== verification/Attempts.thy ===== *)
theory Attempts
  imports Settlement
begin

section \<open>Source and scope admission (identity-postgres/src/attempts.rs)\<close>

text \<open>
  Attempts are counted in fixed windows: a row of the table holds the count of a key and the end
  of its window. A request first cleans up a bounded number of expired rows, then reads the rows
  of its source and its scope, is refused while one of them is exhausted or the tenant has too
  many rows, and otherwise advances both. The refusal is a value of the transaction, which
  commits; the reservation is never refunded. The locale \<open>fixed_window\<close> is what the counting of
  attempts here and of password failures there have in common.
\<close>

definition ATTEMPT_SOURCE_LIMIT :: int where "ATTEMPT_SOURCE_LIMIT = 30"
definition ATTEMPT_SOURCE_SECONDS :: int where "ATTEMPT_SOURCE_SECONDS = 300"
definition ATTEMPT_SCOPE_LIMIT :: int where "ATTEMPT_SCOPE_LIMIT = 5"
definition ATTEMPT_SCOPE_SECONDS :: int where "ATTEMPT_SCOPE_SECONDS = 900"
definition MAX_ATTEMPT_ROWS :: int where "MAX_ATTEMPT_ROWS = 10000"

text \<open>\<open>make_interval(secs => s)\<close> and \<open>greatest(1, ceil(extract(epoch FROM d)))\<close> in microseconds.\<close>

definition make_interval :: "int \<Rightarrow> int" where "make_interval secs = secs * 1000000"

definition retry_seconds :: "int \<Rightarrow> int" where
  "retry_seconds micros = max 1 ((micros + 999999) div 1000000)"

record Attempt =
  ta_key :: ustr
  ta_count :: int
  ta_seconds :: int
  ta_exists :: bool
  ta_retry :: int

definition at_key_is :: "TenantId \<Rightarrow> ustr \<Rightarrow> attempt_row \<Rightarrow> bool" where
  "at_key_is tenant key r \<longleftrightarrow> at_tenant r = tenant \<and> at_key r = key"

definition live_attempts :: "attempt_row option \<Rightarrow> int \<Rightarrow> int" where
  "live_attempts row t =
    (case row of None \<Rightarrow> 0 | Some r \<Rightarrow> if at_expires r > t then at_count r else 0)"

definition attempt :: "TenantId \<Rightarrow> ustr \<Rightarrow> int \<Rightarrow> int \<Rightarrow> (PgError, Attempt) tx" where
  "attempt tenant key limit seconds =
    bind (query (\<lambda>d. find (at_key_is tenant key) (d_attempts d))) (\<lambda>row.
    bind clock_timestamp (\<lambda>t.
    ret \<lparr>ta_key = key, ta_count = live_attempts row t, ta_seconds = seconds,
         ta_exists = (row \<noteq> None),
         ta_retry = (case row of None \<Rightarrow> 0
           | Some r \<Rightarrow> if at_count r \<ge> limit \<and> at_expires r > t
                       then retry_seconds (at_expires r - t) else 0)\<rparr>))"

definition consumed_row :: "TenantId \<Rightarrow> Attempt \<Rightarrow> int \<Rightarrow> attempt_row option \<Rightarrow> attempt_row" where
  "consumed_row tenant a t row =
    (case row of
       None \<Rightarrow> \<lparr>at_tenant = tenant, at_key = ta_key a, at_count = 1,
                at_expires = t + make_interval (ta_seconds a)\<rparr>
     | Some r \<Rightarrow> r\<lparr>at_count := ta_count a + 1,
                   at_expires := (if ta_count a + 1 = 1 then t + make_interval (ta_seconds a)
                                  else at_expires r)\<rparr>)"

definition consume_attempt :: "TenantId \<Rightarrow> Attempt \<Rightarrow> (PgError, unit) tx" where
  "consume_attempt tenant a =
    bind clock_timestamp (\<lambda>t.
    exec (\<lambda>d. d\<lparr>d_attempts :=
      upsert (at_key_is tenant (ta_key a)) (consumed_row tenant a t) (d_attempts d)\<rparr>))"

definition rate_limited :: "int \<Rightarrow> PgError + AuthorityError" where
  "rate_limited seconds =
    (if 0 < seconds \<and> seconds < 2 ^ 32 then Ok (RateLimited (nat seconds)) else Err corrupt)"

definition attempt_rows :: "TenantId \<Rightarrow> db \<Rightarrow> int" where
  "attempt_rows tenant d =
    count_where (\<lambda>r. at_tenant r = tenant) (d_attempts d)
    + count_where (\<lambda>r. pw_tenant r = tenant) (d_passwords d)"

definition total :: "TenantId \<Rightarrow> (PgError, int) tx" where
  "total tenant = query (attempt_rows tenant)"

definition expired_attempt :: "TenantId \<Rightarrow> int \<Rightarrow> attempt_row \<Rightarrow> bool" where
  "expired_attempt tenant t r \<longleftrightarrow> at_tenant r = tenant \<and> at_expires r \<le> t"

definition past :: "int option \<Rightarrow> int \<Rightarrow> bool" where
  "past until t \<longleftrightarrow> (case until of None \<Rightarrow> True | Some u \<Rightarrow> u \<le> t)"

definition expired_password :: "TenantId \<Rightarrow> int \<Rightarrow> password_row \<Rightarrow> bool" where
  "expired_password tenant t r \<longleftrightarrow>
    pw_tenant r = tenant \<and> past (pw_window r) t \<and> past (pw_claim_until r) t"

definition cleanup :: "TenantId \<Rightarrow> (PgError, unit) tx" where
  "cleanup tenant =
    bind clock_timestamp (\<lambda>t.
    bind (query (\<lambda>d. length (selected_first at_expires 128 (expired_attempt tenant t) (d_attempts d)))) (\<lambda>removed.
    bind (exec (\<lambda>d. d\<lparr>d_attempts :=
      delete_first at_expires 128 (expired_attempt tenant t) (d_attempts d)\<rparr>)) (\<lambda>_.
    bind clock_timestamp (\<lambda>t.
    exec (\<lambda>d. d\<lparr>d_passwords :=
      delete_first pw_window (128 - removed) (expired_password tenant t) (d_passwords d)\<rparr>)))))"

definition source_key :: "AttemptSource \<Rightarrow> ustr" where
  "source_key source = lit ''s:'' @ attempt_source_value source"

definition missing_row :: "bool \<Rightarrow> int" where
  "missing_row exists_row = (if exists_row then 0 else 1)"

text \<open>The body of \<open>reserve\<close>; an error that is only reported, not rolled back, is a value.\<close>

definition reserve_body ::
  "TenantId \<Rightarrow> ustr \<Rightarrow> AttemptSource \<Rightarrow> (PgError, AuthorityError + unit) tx" where
  "reserve_body tenant scope source =
    bind (lock_guard tenant) (\<lambda>_.
    bind (cleanup tenant) (\<lambda>_.
    bind (attempt tenant (source_key source) ATTEMPT_SOURCE_LIMIT ATTEMPT_SOURCE_SECONDS) (\<lambda>so.
    bind (attempt tenant scope ATTEMPT_SCOPE_LIMIT ATTEMPT_SCOPE_SECONDS) (\<lambda>sc.
    let retry = max (ta_retry so) (ta_retry sc) in
    if retry > 0 then bind (lift (rate_limited retry)) (\<lambda>e. ret (Err e))
    else
      bind (total tenant) (\<lambda>n.
      if n + missing_row (ta_exists so) + missing_row (ta_exists sc) > MAX_ATTEMPT_ROWS
      then ret (Err AuthorityError.Busy)
      else
        bind (consume_attempt tenant so) (\<lambda>_.
        bind (consume_attempt tenant sc) (\<lambda>_.
        ret (Ok ()))))))))"

definition reserve ::
  "RuntimeBundle \<Rightarrow> TenantId \<Rightarrow> ustr \<Rightarrow> AttemptSource \<Rightarrow> int \<Rightarrow> unit op" where
  "reserve b tenant scope source timeout =
    op_bind (read b tenant timeout (reserve_body tenant scope source)) op_lift"

subsection \<open>The contract of a fixed window\<close>

locale fixed_window =
  fixes live :: "'s option \<Rightarrow> int \<Rightarrow> int"
    and amount :: "'s \<Rightarrow> int"
    and is_open :: "'s \<Rightarrow> int \<Rightarrow> bool"
    and bump :: "'s option \<Rightarrow> int \<Rightarrow> int \<Rightarrow> 's"
    and limit :: int
  assumes live_open: "is_open s t \<Longrightarrow> live (Some s) t = amount s"
    and bump_amount: "amount (bump v t u) = live v t + 1"
    and bump_open: "1 \<le> live (Some s) t \<Longrightarrow> is_open (bump (Some s) t u) = is_open s"
begin

fun admit_all :: "'s option \<Rightarrow> (int \<times> int) list \<Rightarrow> 's option option" where
  "admit_all s [] = Some s"
| "admit_all s ((t, u) # ts) =
    (if live s t < limit then admit_all (Some (bump s t u)) ts else None)"

text \<open>As long as the window of a state lasts, each admission counts and none exceeds the limit.\<close>

lemma one_window:
  assumes "admit_all (Some s) ts = Some (Some s')" and "1 \<le> amount s" and "\<forall>(t, u)\<in>set ts. is_open s t"
  shows "amount s' = amount s + int (length ts) \<and> is_open s' = is_open s
    \<and> (amount s \<le> limit \<longrightarrow> amount s' \<le> limit)"
  using assms
proof (induction ts arbitrary: s)
  case (Cons tu ts)
  obtain t u where tu: "tu = (t, u)" by (cases tu)
  let ?s = "bump (Some s) t u"
  from Cons.prems tu have "is_open s t" by simp
  then have live: "live (Some s) t = amount s" by (rule live_open)
  from Cons.prems tu live have "amount s < limit" and rest: "admit_all (Some ?s) ts = Some (Some s')"
    by (simp_all split: if_splits)
  moreover have s: "amount ?s = amount s + 1" "is_open ?s = is_open s"
    using bump_amount [of "Some s" t u] bump_open [of s t u] live Cons.prems(2) by simp_all
  moreover have "1 \<le> amount ?s" "\<forall>(t, u)\<in>set ts. is_open ?s t"
    using Cons.prems s by auto
  ultimately show ?case using Cons.IH [OF rest] tu by auto
qed simp

corollary window_budget:
  assumes "admit_all (Some s) ts = Some (Some s')" and "1 \<le> amount s" and "amount s \<le> limit"
    and "\<forall>(t, u)\<in>set ts. is_open s t"
  shows "int (length ts) \<le> limit - amount s"
  using one_window [OF assms(1,2,4)] assms(3) by simp

end

text \<open>The row of a key is a fixed window: read at one instant, written at a later one.\<close>

definition bump_attempt :: "TenantId \<Rightarrow> ustr \<Rightarrow> int \<Rightarrow> attempt_row option \<Rightarrow> int \<Rightarrow> int \<Rightarrow> attempt_row" where
  "bump_attempt tenant key seconds row t u =
    consumed_row tenant \<lparr>ta_key = key, ta_count = live_attempts row t, ta_seconds = seconds,
      ta_exists = (row \<noteq> None), ta_retry = 0\<rparr> u row"

interpretation attempt_window:
  fixed_window live_attempts at_count "\<lambda>r t. at_expires r > t" "bump_attempt tenant key seconds" limit
  for tenant key seconds limit
  by unfold_locales (auto simp: live_attempts_def bump_attempt_def consumed_row_def split: option.split)

subsection \<open>What each statement does\<close>

definition attempt_row_of :: "TenantId \<Rightarrow> ustr \<Rightarrow> db \<Rightarrow> attempt_row option" where
  "attempt_row_of tenant key d = find (at_key_is tenant key) (d_attempts d)"

definition attempt_at :: "TenantId \<Rightarrow> ustr \<Rightarrow> int \<Rightarrow> int \<Rightarrow> int \<Rightarrow> db \<Rightarrow> Attempt" where
  "attempt_at tenant key limit seconds t d =
    (let row = attempt_row_of tenant key d in
     \<lparr>ta_key = key, ta_count = live_attempts row t, ta_seconds = seconds, ta_exists = (row \<noteq> None),
      ta_retry = (case row of None \<Rightarrow> 0
        | Some r \<Rightarrow> if at_count r \<ge> limit \<and> at_expires r > t then retry_seconds (at_expires r - t)
                    else 0)\<rparr>)"

definition consume_at :: "TenantId \<Rightarrow> Attempt \<Rightarrow> int \<Rightarrow> db \<Rightarrow> db" where
  "consume_at tenant a t d =
    d\<lparr>d_attempts := upsert (at_key_is tenant (ta_key a)) (consumed_row tenant a t) (d_attempts d)\<rparr>"

definition cleaned :: "TenantId \<Rightarrow> int \<Rightarrow> int \<Rightarrow> db \<Rightarrow> db" where
  "cleaned tenant t u d =
    d\<lparr>d_attempts := delete_first at_expires 128 (expired_attempt tenant t) (d_attempts d),
      d_passwords := delete_first pw_window
        (128 - length (selected_first at_expires 128 (expired_attempt tenant t) (d_attempts d)))
        (expired_password tenant u) (d_passwords d)\<rparr>"

text \<open>\<open>micros w i\<close> is the \<open>i\<close>-th reading of the database clock from a world on.\<close>

definition micros :: "world \<Rightarrow> nat \<Rightarrow> int" where "micros w i = w_micros w (w_tick w + i)"

lemma run_attempt [run_simps]:
  "bind (attempt tenant key limit seconds) k w =
    k (attempt_at tenant key limit seconds (micros w 0) (w_db w)) (w\<lparr>w_tick := Suc (w_tick w)\<rparr>)"
  by (simp add: attempt_def attempt_at_def attempt_row_of_def micros_def run_simps Let_def)

lemma run_consume_attempt [run_simps]:
  "bind (consume_attempt tenant a) k w =
    k () (w\<lparr>w_tick := Suc (w_tick w), w_db := consume_at tenant a (micros w 0) (w_db w)\<rparr>)"
  by (simp add: consume_attempt_def consume_at_def micros_def run_simps)

lemma run_total [run_simps]: "bind (total tenant) k w = k (attempt_rows tenant (w_db w)) w"
  by (simp add: total_def run_simps)

lemma run_cleanup [run_simps]:
  "bind (cleanup tenant) k w =
    k () (w\<lparr>w_tick := w_tick w + 2, w_db := cleaned tenant (micros w 0) (micros w 1) (w_db w)\<rparr>)"
  by (simp add: cleanup_def cleaned_def micros_def run_simps)

lemma micros_simps [simp]:
  "micros (w\<lparr>w_tick := n\<rparr>) i = w_micros w (n + i)"
  "micros (w\<lparr>w_db := d\<rparr>) i = micros w i"
  "micros (w\<lparr>w_tick := n, w_db := d\<rparr>) i = w_micros w (n + i)"
  by (simp_all add: micros_def)

lemma rate_limited_Ok: "rate_limited n = Inr e \<longleftrightarrow> 0 < n \<and> n < 2 ^ 32 \<and> e = RateLimited (nat n)"
  by (auto simp: rate_limited_def)

lemma tick_numerals:
  "(n::nat) + 1 = Suc n" "n + 2 = Suc (Suc n)" "n + 3 = Suc (Suc (Suc n))"
  "n + 4 = Suc (Suc (Suc (Suc n)))" "n + 5 = Suc (Suc (Suc (Suc (Suc n))))"
  "n + 6 = Suc (Suc (Suc (Suc (Suc (Suc n)))))"
  by simp_all

lemmas limits = ATTEMPT_SOURCE_LIMIT_def ATTEMPT_SOURCE_SECONDS_def ATTEMPT_SCOPE_LIMIT_def
  ATTEMPT_SCOPE_SECONDS_def MAX_ATTEMPT_ROWS_def

text \<open>A reservation after the cleanup: the database it leaves and the value it reports.\<close>

lemma reserve_body_Inr:
  assumes "reserve_body tenant scope source w = Inr (r, w')"
  defines "d \<equiv> cleaned tenant (micros w 0) (micros w 1) (w_db w)"
  defines "so \<equiv> attempt_at tenant (source_key source) 30 300 (micros w 2) d"
    and "sc \<equiv> attempt_at tenant scope 5 900 (micros w 3) d"
  defines "retry \<equiv> max (ta_retry so) (ta_retry sc)"
  shows "w_micros w' = w_micros w \<and>
    (if retry > 0 then r = Err (RateLimited (nat retry)) \<and> w_db w' = d \<and> w_tick w' = w_tick w + 4
     else if attempt_rows tenant d + missing_row (ta_exists so) + missing_row (ta_exists sc) > 10000
     then r = Err AuthorityError.Busy \<and> w_db w' = d \<and> w_tick w' = w_tick w + 4
     else r = Ok () \<and> w_tick w' = w_tick w + 6
       \<and> w_db w' = consume_at tenant sc (micros w 5) (consume_at tenant so (micros w 4) d))"
proof -
  let ?w3 = "w\<lparr>w_db := d, w_tick := w_tick w + 4\<rparr>"
  have "reserve_body tenant scope source w =
    (if \<exists>g\<in>set (d_guard (w_db w)). gd_tenant g = tenant
     then if retry > 0
       then (case rate_limited retry of Inl e \<Rightarrow> Inl e | Inr e \<Rightarrow> Inr (Err e, ?w3))
       else if attempt_rows tenant d + missing_row (ta_exists so) + missing_row (ta_exists sc) > 10000
       then Inr (Err AuthorityError.Busy, ?w3)
       else Inr (Ok (), w\<lparr>w_db := consume_at tenant sc (micros w 5) (consume_at tenant so (micros w 4) d),
         w_tick := w_tick w + 6\<rparr>)
     else Inl reject)"
    unfolding reserve_body_def d_def so_def sc_def retry_def
    by (simp add: run_simps Let_def limits micros_def tick_numerals del: less_max_iff_disj cong: sum.case_cong)
  with assms(1) show ?thesis
    by (auto simp: rate_limited_def simp del: less_max_iff_disj split: if_splits)
qed

subsection \<open>The rows of a key\<close>

lemma attempt_row_consume_same:
  assumes "ta_key a = key"
  shows "attempt_row_of tenant key (consume_at tenant a t d) =
    Some (consumed_row tenant a t (attempt_row_of tenant key d))"
proof -
  have "find (at_key_is tenant key) (upsert (at_key_is tenant key) (consumed_row tenant a t) (d_attempts d))
      = Some (consumed_row tenant a t (find (at_key_is tenant key) (d_attempts d)))"
    by (rule find_upsert_same) (auto simp: assms at_key_is_def consumed_row_def)
  then show ?thesis by (simp add: attempt_row_of_def consume_at_def assms)
qed

lemma attempt_row_consume_other:
  assumes "t' \<noteq> tenant \<or> ta_key a \<noteq> key"
  shows "attempt_row_of t' key (consume_at tenant a t d) = attempt_row_of t' key d"
proof -
  have "find (at_key_is t' key) (upsert (at_key_is tenant (ta_key a)) (consumed_row tenant a t) (d_attempts d))
      = find (at_key_is t' key) (d_attempts d)"
    using assms by (intro find_upsert_other) (auto simp: at_key_is_def consumed_row_def)
  then show ?thesis by (simp add: attempt_row_of_def consume_at_def)
qed

lemma attempt_row_cleaned:
  assumes "attempt_row_of t' key d = Some r" and "t < at_expires r"
  shows "attempt_row_of t' key (cleaned tenant t u d) = Some r"
  using assms
  by (auto simp: attempt_row_of_def cleaned_def expired_attempt_def intro!: find_delete_first)

lemma attempt_row_cleaned_None:
  "attempt_row_of t' key d = None \<Longrightarrow> attempt_row_of t' key (cleaned tenant t u d) = None"
  by (simp add: attempt_row_of_def cleaned_def find_delete_first_None)

lemma attempt_row_keyD: "attempt_row_of tenant key d = Some r \<Longrightarrow> at_tenant r = tenant \<and> at_key r = key"
  by (auto simp: attempt_row_of_def at_key_is_def find_Some_iff)

subsection \<open>The limits of the tables\<close>

definition is_source_key :: "ustr \<Rightarrow> bool" where
  "is_source_key key \<longleftrightarrow> take 2 key = lit ''s:''"

definition key_limit :: "ustr \<Rightarrow> int" where
  "key_limit key = (if is_source_key key then 30 else 5)"

definition attempts_ok :: "db \<Rightarrow> bool" where
  "attempts_ok d \<longleftrightarrow>
    unique_on (\<lambda>r. (at_tenant r, at_key r)) (d_attempts d)
    \<and> unique_on (\<lambda>r. (pw_tenant r, pw_login r)) (d_passwords d)
    \<and> (\<forall>r\<in>set (d_attempts d). 1 \<le> at_count r \<and> at_count r \<le> key_limit (at_key r))
    \<and> (\<forall>tenant. attempt_rows tenant d \<le> 10000)"

lemma is_source_key_source [simp]: "is_source_key (source_key source)"
  by (simp add: is_source_key_def source_key_def lit_def)

lemma attempts_ok_cleaned: "attempts_ok d \<Longrightarrow> attempts_ok (cleaned tenant t u d)"
proof -
  assume ok: "attempts_ok d"
  have "attempt_rows t' (cleaned tenant t u d) \<le> attempt_rows t' d" for t'
    unfolding attempt_rows_def cleaned_def by (simp add: add_mono count_delete_first_le)
  then have rows: "attempt_rows t' (cleaned tenant t u d) \<le> 10000" for t'
    using ok by (meson attempts_ok_def order_trans)
  show ?thesis
    using set_delete_first_subset [of at_expires 128 "expired_attempt tenant t" "d_attempts d"] ok rows
    unfolding attempts_ok_def by (simp add: cleaned_def unique_on_delete_first subset_iff)
qed

lemma attempt_rows_consume:
  "attempt_rows t' (consume_at tenant a u d) =
    attempt_rows t' d + (if t' = tenant \<and> attempt_row_of tenant (ta_key a) d = None then 1 else 0)"
proof -
  have "count_where (\<lambda>r. at_tenant r = t')
      (upsert (at_key_is tenant (ta_key a)) (consumed_row tenant a u) (d_attempts d)) =
    count_where (\<lambda>r. at_tenant r = t') (d_attempts d)
      + (if find (at_key_is tenant (ta_key a)) (d_attempts d) = None \<and> tenant = t' then 1 else 0)"
    by (subst count_upsert) (auto simp: at_key_is_def consumed_row_def)
  then show ?thesis by (auto simp: attempt_rows_def consume_at_def attempt_row_of_def)
qed

lemma attempt_at_admitted:
  assumes "ta_retry (attempt_at tenant key limit seconds t d) \<le> 0" and "0 < limit"
    and "\<forall>r\<in>set (d_attempts d). 1 \<le> at_count r"
  shows "0 \<le> ta_count (attempt_at tenant key limit seconds t d)
    \<and> ta_count (attempt_at tenant key limit seconds t d) < limit"
proof (cases "attempt_row_of tenant key d")
  case (Some r)
  then have "1 \<le> at_count r" using assms(3) by (auto simp: attempt_row_of_def dest: find_SomeD)
  with Some assms show ?thesis
    by (auto simp: attempt_at_def Let_def live_attempts_def retry_seconds_def split: if_splits)
qed (use assms in \<open>simp_all add: attempt_at_def Let_def live_attempts_def\<close>)

lemma attempt_at_fields [simp]:
  "ta_key (attempt_at tenant key limit seconds t d) = key"
  "ta_seconds (attempt_at tenant key limit seconds t d) = seconds"
  "ta_exists (attempt_at tenant key limit seconds t d) = (attempt_row_of tenant key d \<noteq> None)"
  "ta_count (attempt_at tenant key limit seconds t d) = live_attempts (attempt_row_of tenant key d) t"
  by (simp_all add: attempt_at_def Let_def)

text \<open>All but the bound on the rows of a tenant survives an admitted consumption.\<close>

lemma consume_limits:
  assumes "unique_on (\<lambda>r. (at_tenant r, at_key r)) (d_attempts d)"
    and "\<forall>r\<in>set (d_attempts d). 1 \<le> at_count r \<and> at_count r \<le> key_limit (at_key r)"
    and "0 \<le> ta_count a" and "ta_count a < key_limit (ta_key a)"
  shows "unique_on (\<lambda>r. (at_tenant r, at_key r)) (d_attempts (consume_at tenant a u d))
    \<and> (\<forall>r\<in>set (d_attempts (consume_at tenant a u d)). 1 \<le> at_count r \<and> at_count r \<le> key_limit (at_key r))"
proof
  show "unique_on (\<lambda>r. (at_tenant r, at_key r)) (d_attempts (consume_at tenant a u d))"
  proof -
    let ?f = "\<lambda>v. case v of None \<Rightarrow> consumed_row tenant a u None
      | Some r \<Rightarrow> (consumed_row tenant a u (Some r))\<lparr>at_tenant := tenant, at_key := ta_key a\<rparr>"
    have "upsert (at_key_is tenant (ta_key a)) (consumed_row tenant a u) (d_attempts d)
      = upsert (at_key_is tenant (ta_key a)) ?f (d_attempts d)"
      by (auto simp: upsert_def update_where_def at_key_is_def consumed_row_def split: option.split)
    moreover have "unique_on (\<lambda>r. (at_tenant r, at_key r)) \<dots>"
      using assms(1) by (rule unique_on_upsert [where ?k0.0 = "(tenant, ta_key a)"])
        (auto simp: at_key_is_def consumed_row_def split: option.split)
    ultimately show ?thesis by (simp add: consume_at_def)
  qed
  show "\<forall>r\<in>set (d_attempts (consume_at tenant a u d)). 1 \<le> at_count r \<and> at_count r \<le> key_limit (at_key r)"
  proof
    fix r assume "r \<in> set (d_attempts (consume_at tenant a u d))"
    then have "r \<in> set (d_attempts d) \<or> (\<exists>q. r = consumed_row tenant a u (Some q) \<and> at_key_is tenant (ta_key a) q)
      \<or> r = consumed_row tenant a u None \<and> attempt_row_of tenant (ta_key a) d = None"
      unfolding consume_at_def attempt_row_of_def by (auto dest!: set_upsert)
    with assms show "1 \<le> at_count r \<and> at_count r \<le> key_limit (at_key r)"
      by (auto simp: consumed_row_def at_key_is_def)
  qed
qed

lemma reserve_body_keeps_limits:
  assumes "reserve_body tenant scope source w = Inr (r, w')" and "attempts_ok (w_db w)"
    and "\<not> is_source_key scope"
  shows "attempts_ok (w_db w')"
proof -
  define d where "d = cleaned tenant (micros w 0) (micros w 1) (w_db w)"
  define so where "so = attempt_at tenant (source_key source) 30 300 (micros w 2) d"
  define sc where "sc = attempt_at tenant scope 5 900 (micros w 3) d"
  have ok: "attempts_ok d" using assms(2) by (simp add: d_def attempts_ok_cleaned)
  note cases = reserve_body_Inr [OF assms(1), folded d_def, folded so_def sc_def]
  show ?thesis
  proof (cases "w_db w' = d")
    case False
    with cases have adm: "ta_retry so \<le> 0" "ta_retry sc \<le> 0"
      and room: "attempt_rows tenant d + missing_row (ta_exists so) + missing_row (ta_exists sc) \<le> 10000"
      and db: "w_db w' = consume_at tenant sc (micros w 5) (consume_at tenant so (micros w 4) d)"
      by (auto split: if_splits)
    let ?e = "consume_at tenant so (micros w 4) d"
    have key: "source_key source \<noteq> scope" using assms(3) is_source_key_source by metis
    have pos: "\<forall>r\<in>set (d_attempts d). 1 \<le> at_count r" using ok by (simp add: attempts_ok_def)
    have lim: "0 \<le> ta_count so" "ta_count so < key_limit (ta_key so)"
      "0 \<le> ta_count sc" "ta_count sc < key_limit (ta_key sc)"
      using attempt_at_admitted [OF adm(1) [unfolded so_def] _ pos]
        attempt_at_admitted [OF adm(2) [unfolded sc_def] _ pos] assms(3)
      by (simp_all add: so_def sc_def key_limit_def)
    have e: "unique_on (\<lambda>r. (at_tenant r, at_key r)) (d_attempts ?e)
      \<and> (\<forall>r\<in>set (d_attempts ?e). 1 \<le> at_count r \<and> at_count r \<le> key_limit (at_key r))"
      using ok lim by (intro consume_limits) (auto simp: attempts_ok_def)
    have "attempt_row_of tenant scope ?e = attempt_row_of tenant scope d"
      using key by (intro attempt_row_consume_other) (simp add: so_def)
    then have "attempt_rows t' (w_db w') \<le> 10000" for t'
      using ok room by (auto simp: db attempt_rows_consume attempts_ok_def so_def sc_def missing_row_def)
    moreover have "d_passwords (w_db w') = d_passwords d" by (simp add: db consume_at_def)
    moreover have "unique_on (\<lambda>r. (at_tenant r, at_key r)) (d_attempts (w_db w'))
      \<and> (\<forall>r\<in>set (d_attempts (w_db w')). 1 \<le> at_count r \<and> at_count r \<le> key_limit (at_key r))"
      unfolding db using e lim by (intro consume_limits) auto
    ultimately show ?thesis using ok by (simp add: attempts_ok_def)
  qed (simp add: ok)
qed

end
