(* ===== verification/Account_Store.thy ===== *)
theory Account_Store
  imports Settlement
begin

section \<open>Account rows (identity-postgres/src/storage.rs, types.rs)\<close>

text \<open>
  An account is stored in three tables: the account, its membership in the tenant, and its local
  credential when it has one. \<open>load\<close> joins them under the tenant's guard and restores the policy
  state from the row; \<open>current\<close> checks a verified candidate against the account as it is now.
  The \<open>CHECK\<close> constraints on the text of a login key and of a password hash are not represented;
  the parsers of both types enforce them before.
\<close>

record Stored =
  so_state :: AccountState
  so_hash :: "PasswordEncoding option"

record AuthenticationCandidate =
  cn_state :: AccountState
  cn_authority :: uuid
  cn_expires :: instant
  cn_authenticated_at :: int

definition candidate_account :: "AuthenticationCandidate \<Rightarrow> AccountKey" where
  "candidate_account c = st_key (cn_state c)"

abbreviation key_uuid :: "AccountKey \<Rightarrow> uuid" where
  "key_uuid key \<equiv> principal_uuid (ak_principal key)"

definition is_account :: "AccountKey \<Rightarrow> account_row \<Rightarrow> bool" where
  "is_account key r \<longleftrightarrow> ac_tenant r = ak_tenant key \<and> ac_principal r = key_uuid key"

definition is_membership :: "AccountKey \<Rightarrow> membership_row \<Rightarrow> bool" where
  "is_membership key r \<longleftrightarrow> mb_tenant r = ak_tenant key \<and> mb_principal r = key_uuid key"

definition is_credential :: "AccountKey \<Rightarrow> local_credential_row \<Rightarrow> bool" where
  "is_credential key r \<longleftrightarrow> lc_tenant r = ak_tenant key \<and> lc_principal r = key_uuid key"

text \<open>The joined row: the account and the membership must exist, the credential may be missing.\<close>

type_synonym joined_row = "account_row \<times> membership_row \<times> local_credential_row option"

definition join_account :: "AccountKey \<Rightarrow> db \<Rightarrow> joined_row option" where
  "join_account key d =
    (case (find (is_account key) (d_accounts d), find (is_membership key) (d_memberships d)) of
       (Some a, Some m) \<Rightarrow> Some (a, m, find (is_credential key) (d_credentials d))
     | _ \<Rightarrow> None)"

fun decode_account :: "AccountKey \<Rightarrow> joined_row \<Rightarrow> PgError + Stored" where
  "decode_account key (a, m, l) =
    and_then (map_err (\<lambda>_. corrupt)
      (AccountState_restore key (ac_enabled a) (mb_active m) (ac_epoch a) (l \<noteq> None) (mb_epoch m)))
      (\<lambda>state.
    and_then (case l of None \<Rightarrow> Ok None
        | Some c \<Rightarrow> and_then (map_err (\<lambda>_. corrupt) (PasswordEncoding_from_storage (lc_hash c)))
            (\<lambda>h. Ok (Some h)))
      (\<lambda>hash.
    Ok \<lparr>so_state = state, so_hash = hash\<rparr>))"

declare decode_account.simps [simp del]

definition load_for_maintenance :: "AccountKey \<Rightarrow> (PgError, Stored) tx" where
  "load_for_maintenance key =
    bind (query (join_account key)) (\<lambda>row.
    bind (lift (ok_or reject row)) (\<lambda>r.
    lift (decode_account key r)))"

definition load :: "AccountKey \<Rightarrow> (PgError, Stored) tx" where
  "load key = bind (lock_guard (ak_tenant key)) (\<lambda>_. load_for_maintenance key)"

definition current :: "AuthenticationCandidate \<Rightarrow> (PgError, AccountState) tx" where
  "current candidate =
    bind instant_now (\<lambda>t.
    bind authority_id (\<lambda>authority.
    bind (require (\<not> (cn_expires candidate \<le> t \<or> authority \<noteq> cn_authority candidate)) reject) (\<lambda>_.
    bind (load (st_key (cn_state candidate))) (\<lambda>stored.
    bind (require (matches_verification (so_state stored) (cn_state candidate)) reject) (\<lambda>_.
    ret (so_state stored))))))"

definition insert_account_row :: "AccountKey \<Rightarrow> bool \<Rightarrow> int \<Rightarrow> (PgError, unit) tx" where
  "insert_account_row key enabled epoch =
    insert_checked
      (\<lambda>d. find (is_account key) (d_accounts d) = None \<and> key_uuid key \<noteq> uuid_nil \<and> epoch > 0)
      (\<lambda>d. d\<lparr>d_accounts := \<lparr>ac_tenant = ak_tenant key, ac_principal = key_uuid key,
         ac_enabled = enabled, ac_epoch = epoch\<rparr> # d_accounts d\<rparr>)"

definition insert_membership_row :: "AccountKey \<Rightarrow> bool \<Rightarrow> int \<Rightarrow> (PgError, unit) tx" where
  "insert_membership_row key member epoch =
    insert_checked
      (\<lambda>d. find (is_membership key) (d_memberships d) = None \<and> epoch > 0)
      (\<lambda>d. d\<lparr>d_memberships := \<lparr>mb_tenant = ak_tenant key, mb_principal = key_uuid key,
         mb_active = member, mb_epoch = epoch\<rparr> # d_memberships d\<rparr>)"

definition login_taken :: "AccountKey \<Rightarrow> ustr \<Rightarrow> db \<Rightarrow> bool" where
  "login_taken key login d \<longleftrightarrow>
    list_ex (\<lambda>r. lc_tenant r = ak_tenant key \<and> lc_login r = login) (d_credentials d)"

text \<open>A second login of the same name is the rule \<open>AlreadyExists\<close>, another violation an error.\<close>

definition insert_credential :: "AccountKey \<Rightarrow> ustr \<Rightarrow> ustr \<Rightarrow> (MutationError, unit) tx" where
  "insert_credential key login hash =
    bind (query (\<lambda>d. find (is_credential key) (d_credentials d) \<noteq> None)) (\<lambda>taken.
    bind (query (login_taken key login)) (\<lambda>used.
    if \<not> taken \<and> used then fail (Rule AccountRuleError.AlreadyExists)
    else widen Storage (insert_checked (\<lambda>_. \<not> taken)
      (\<lambda>d. d\<lparr>d_credentials := \<lparr>lc_tenant = ak_tenant key, lc_principal = key_uuid key,
         lc_login = login, lc_hash = hash\<rparr> # d_credentials d\<rparr>))))"

definition insert_account :: "AccountKey \<Rightarrow> ustr \<Rightarrow> ustr \<Rightarrow> (MutationError, unit) tx" where
  "insert_account key login hash =
    bind (lift (map_err (\<lambda>_. Storage reject) (new_local key))) (\<lambda>_.
    bind (widen Storage (insert_account_row key True 1)) (\<lambda>_.
    bind (insert_credential key login hash) (\<lambda>_.
    widen Storage (insert_membership_row key True 1))))"

definition insert_federated_account :: "AccountKey \<Rightarrow> (PgError, unit) tx" where
  "insert_federated_account key =
    bind (lift (map_err (\<lambda>_. corrupt) (new_federated key))) (\<lambda>state.
    bind (insert_account_row key (st_enabled state) (st_epoch state)) (\<lambda>_.
    insert_membership_row key (st_member_active state) (st_membership_epoch state)))"

subsection \<open>The stored account as a value\<close>

text \<open>\<open>account_of d key\<close> is the account that the rows of \<open>d\<close> stand for.\<close>

definition stored_of :: "db \<Rightarrow> AccountKey \<Rightarrow> Stored option" where
  "stored_of d key =
    (case join_account key d of None \<Rightarrow> None
     | Some r \<Rightarrow> (case decode_account key r of Inl _ \<Rightarrow> None | Inr s \<Rightarrow> Some s))"

definition account_of :: "db \<Rightarrow> AccountKey \<Rightarrow> AccountState option" where
  "account_of d key = map_option so_state (stored_of d key)"

lemma decode_account_Ok:
  "decode_account key (a, m, l) = Inr s \<longleftrightarrow>
    1 \<le> ac_epoch a \<and> 1 \<le> mb_epoch m
    \<and> so_state s = \<lparr>st_key = key, st_enabled = ac_enabled a, st_member_active = mb_active m,
        st_epoch = ac_epoch a, st_has_local_password = (l \<noteq> None), st_membership_epoch = mb_epoch m\<rparr>
    \<and> (case l of None \<Rightarrow> so_hash s = None
       | Some c \<Rightarrow> byte_len (lc_hash c) \<le> 256 \<and> so_hash s = Some (PasswordEncoding (lc_hash c)))"
  by (cases s) (auto simp: decode_account.simps AccountState_restore_def PasswordEncoding_from_storage_def and_then_Inr_iff
      split: option.split if_splits)

lemma load_for_maintenance_Inr [tx_simps]:
  "load_for_maintenance key w = Inr (s, w') \<longleftrightarrow> stored_of (w_db w) key = Some s \<and> w' = w"
  by (auto simp: load_for_maintenance_def stored_of_def tx_simps split: option.splits sum.splits)

definition guarded :: "db \<Rightarrow> TenantId \<Rightarrow> bool" where
  "guarded d tenant \<longleftrightarrow> (\<exists>r\<in>set (d_guard d). gd_tenant r = tenant)"

lemma load_Inr [tx_simps]:
  "load key w = Inr (s, w') \<longleftrightarrow>
    guarded (w_db w) (ak_tenant key) \<and> stored_of (w_db w) key = Some s \<and> w' = w"
  by (auto simp: load_def tx_simps guarded_def)

lemma load_state:
  "load key w = Inr (s, w') \<Longrightarrow> account_of (w_db w) key = Some (so_state s) \<and> st_key (so_state s) = key \<and> w' = w"
  by (auto simp: load_Inr account_of_def stored_of_def decode_account_Ok split: option.splits sum.splits)

lemma account_of_key: "account_of d key = Some s \<Longrightarrow> st_key s = key"
  by (auto simp: account_of_def stored_of_def decode_account_Ok split: option.splits sum.splits)

lemma load_reads [keeps_intros]: "(\<And>d. R d d) \<Longrightarrow> keeps R (load key)"
  by (auto simp: keeps_def load_Inr)

lemma current_Inr:
  "current c w = Inr (s, w') \<Longrightarrow>
    w_instants w (w_tick w) < cn_expires c \<and> d_authority (w_db w) = cn_authority c
    \<and> account_of (w_db w) (candidate_account c) = Some s \<and> matches_verification s (cn_state c)
    \<and> guarded (w_db w) (ak_tenant (candidate_account c)) \<and> w' = w\<lparr>w_tick := Suc (w_tick w)\<rparr>"
  unfolding current_def
  by (auto simp: run_simps tx_simps account_of_def candidate_account_def elim!: bindE split: if_splits)

lemma current_reads: "reads_only (current c)"
  by (rule keepsI) (auto simp: unchanged_def dest: current_Inr)

lemma same_account_key:
  "(ak_tenant k = ak_tenant l \<and> key_uuid k = key_uuid l) = (k = (l :: AccountKey))"
  by (cases k; cases l; cases "ak_principal k"; cases "ak_principal l") auto

text \<open>An insertion that succeeds makes exactly the account it names, new and enabled.\<close>

lemma insert_account_Inr:
  assumes "insert_account key login hash w = Inr (u, w')"
  defines "d \<equiv> w_db w"
  shows "find (is_account key) (d_accounts d) = None \<and> find (is_membership key) (d_memberships d) = None
    \<and> find (is_credential key) (d_credentials d) = None \<and> \<not> login_taken key login d
    \<and> key_uuid key \<noteq> uuid_nil
    \<and> w' = w\<lparr>w_db := d\<lparr>d_accounts := \<lparr>ac_tenant = ak_tenant key, ac_principal = key_uuid key,
           ac_enabled = True, ac_epoch = 1\<rparr> # d_accounts d,
         d_credentials := \<lparr>lc_tenant = ak_tenant key, lc_principal = key_uuid key,
           lc_login = login, lc_hash = hash\<rparr> # d_credentials d,
         d_memberships := \<lparr>mb_tenant = ak_tenant key, mb_principal = key_uuid key,
           mb_active = True, mb_epoch = 1\<rparr> # d_memberships d\<rparr>\<rparr>"
  using assms(1)
  by (auto simp: insert_account_def insert_credential_def insert_account_row_def d_def
      insert_membership_row_def login_taken_def run_simps new_local_def AccountState_restore_def
      insert_checked_def widen_def split: if_splits)

definition accounts_ok :: "db \<Rightarrow> bool" where
  "accounts_ok d \<longleftrightarrow>
    unique_on (\<lambda>r. (ac_tenant r, ac_principal r)) (d_accounts d)
    \<and> unique_on (\<lambda>r. (mb_tenant r, mb_principal r)) (d_memberships d)
    \<and> unique_on (\<lambda>r. (lc_tenant r, lc_principal r)) (d_credentials d)
    \<and> unique_on (\<lambda>r. (lc_tenant r, lc_login r)) (d_credentials d)
    \<and> (\<forall>r\<in>set (d_accounts d). 1 \<le> ac_epoch r) \<and> (\<forall>r\<in>set (d_memberships d). 1 \<le> mb_epoch r)"

lemma insert_account_ok:
  assumes "insert_account key login hash w = Inr (u, w')" and "accounts_ok (w_db w)"
  shows "accounts_ok (w_db w')"
  using insert_account_Inr [OF assms(1)] assms(2)
  by (auto simp: accounts_ok_def unique_on_insert find_None_iff is_account_def is_membership_def
      is_credential_def login_taken_def list_ex_iff)

lemma insert_account_loads:
  assumes "insert_account key login hash w = Inr (u, w')" and "byte_len hash \<le> 256"
  shows "account_of (w_db w') key = Some \<lparr>st_key = key, st_enabled = True, st_member_active = True,
      st_epoch = 1, st_has_local_password = True, st_membership_epoch = 1\<rparr>
    \<and> (\<forall>other. other \<noteq> key \<longrightarrow> account_of (w_db w') other = account_of (w_db w) other)"
proof -
  note new = insert_account_Inr [OF assms(1)]
  have "join_account other (w_db w') = join_account other (w_db w)" if "other \<noteq> key" for other
  proof -
    have no: "\<not> (ak_tenant key = ak_tenant other \<and> key_uuid key = key_uuid other)"
      using that by (simp only: same_account_key) blast
    have "find (is_account other) (d_accounts (w_db w')) = find (is_account other) (d_accounts (w_db w))"
      "find (is_membership other) (d_memberships (w_db w')) = find (is_membership other) (d_memberships (w_db w))"
      "find (is_credential other) (d_credentials (w_db w')) = find (is_credential other) (d_credentials (w_db w))"
      using new no by (auto simp: is_account_def is_membership_def is_credential_def)
    then show ?thesis by (simp add: join_account_def cong: option.case_cong)
  qed
  then have "\<forall>other. other \<noteq> key \<longrightarrow> account_of (w_db w') other = account_of (w_db w) other"
    by (simp add: account_of_def stored_of_def)
  moreover have "account_of (w_db w') key = Some \<lparr>st_key = key, st_enabled = True, st_member_active = True,
      st_epoch = 1, st_has_local_password = True, st_membership_epoch = 1\<rparr>"
    using new assms(2)
    by (auto simp: account_of_def stored_of_def join_account_def is_account_def is_membership_def
        is_credential_def decode_account.simps AccountState_restore_def PasswordEncoding_from_storage_def)
  ultimately show ?thesis by blast
qed

end
