(* ===== verification/Histories.thy ===== *)
theory Histories
  imports Transactions
begin

section \<open>Histories of requests\<close>

text \<open>
  What clients may do over time is a list of requests, each served by one transaction, one after
  the other. A request that fails leaves the world as it was, since its transaction is rolled
  back. The locale \<open>one_use\<close> is the contract of everything the authority hands out to be used
  once: the step-up grants, the OIDC attempts, the platform challenges.
\<close>

fun serve :: "('q \<Rightarrow> ('e, bool) tx) \<Rightarrow> 'q list \<Rightarrow> world \<Rightarrow> ('q \<times> bool) list \<times> world" where
  "serve body [] w = ([], w)"
| "serve body (q # qs) w =
    (case body q w of
       Inl _ \<Rightarrow> (case serve body qs w of (rs, w') \<Rightarrow> ((q, False) # rs, w'))
     | Inr (ok, w1) \<Rightarrow> (case serve body qs w1 of (rs, w') \<Rightarrow> ((q, ok) # rs, w')))"

text \<open>An invariant of every request is an invariant of every history.\<close>

lemma serve_invariant:
  assumes "\<And>q w ok w'. q \<in> set qs \<Longrightarrow> body q w = Inr (ok, w') \<Longrightarrow> I w \<Longrightarrow> I w'" and "I w"
  shows "I (snd (serve body qs w))"
  using assms
proof (induction qs arbitrary: w)
  case (Cons q qs)
  have step: "I w1 \<Longrightarrow> I (snd (serve body qs w1))" for w1 using Cons.prems(1) by (intro Cons.IH) auto
  show ?case
  proof (cases "body q w")
    case (Inl e)
    then show ?thesis using step [OF Cons.prems(2)] by (simp split: prod.split) (metis snd_conv)
  next
    case (Inr r)
    obtain ok w1 where r: "r = (ok, w1)" by (cases r) auto
    with Inr Cons.prems have "I w1" by (auto intro: Cons.prems(1) [of q])
    from step [OF this] Inr r show ?thesis by (simp split: prod.split) (metis snd_conv)
  qed
qed simp

text \<open>
  \<open>available d\<close>: the token can still be used. \<open>uses q\<close>: the request is a use of the token;
  \<open>mints q\<close>: the request hands out the token anew, which needs its secret to be drawn again;
  \<open>admits q\<close>: what the host installed for the request keeps its contract.
\<close>

locale one_use =
  fixes body :: "'q \<Rightarrow> ('e, bool) tx"
    and available :: "db \<Rightarrow> bool"
    and uses :: "'q \<Rightarrow> bool"
    and mints :: "'q \<Rightarrow> bool"
    and admits :: "'q \<Rightarrow> bool"
  assumes use_takes: "admits q \<Longrightarrow> uses q \<Longrightarrow> body q w = Inr (True, w') \<Longrightarrow> available (w_db w) \<and> \<not> available (w_db w')"
    and gone_stays: "admits q \<Longrightarrow> \<not> mints q \<Longrightarrow> body q w = Inr (ok, w') \<Longrightarrow> \<not> available (w_db w) \<Longrightarrow> \<not> available (w_db w')"
begin

abbreviation used :: "('q \<times> bool) list \<Rightarrow> nat" where
  "used rs \<equiv> length (filter (\<lambda>(q, ok). uses q \<and> ok) rs)"

lemma never_after:
  assumes "\<not> available (w_db w)" and "list_all (\<lambda>q. admits q \<and> \<not> mints q) qs"
  shows "used (fst (serve body qs w)) = 0 \<and> \<not> available (w_db (snd (serve body qs w)))"
  using assms
proof (induction qs arbitrary: w)
  case (Cons q qs)
  show ?case
  proof (cases "body q w")
    case (Inl e)
    then show ?thesis using Cons.IH [OF Cons.prems(1)] Cons.prems(2) by (auto split: prod.split)
  next
    case (Inr r)
    obtain ok w1 where r: "body q w = Inr (ok, w1)" using Inr by (cases r) auto
    with Cons.prems have "\<not> available (w_db w1)" by (auto dest: gone_stays)
    moreover have "\<not> (uses q \<and> ok)" using use_takes [of q w w1] r Cons.prems by auto
    ultimately show ?thesis using Cons.IH [of w1] Cons.prems(2) r by (auto split: prod.split)
  qed
qed simp

theorem at_most_once:
  assumes "list_all (\<lambda>q. admits q \<and> \<not> mints q) qs"
  shows "used (fst (serve body qs w)) \<le> 1"
  using assms
proof (induction qs arbitrary: w)
  case (Cons q qs)
  show ?case
  proof (cases "body q w")
    case (Inl e)
    then show ?thesis using Cons.IH [of w] Cons.prems by (auto split: prod.split)
  next
    case (Inr r)
    obtain ok w1 where r: "body q w = Inr (ok, w1)" using Inr by (cases r) auto
    show ?thesis
    proof (cases "uses q \<and> ok")
      case True
      with use_takes [of q w w1] r Cons.prems have "\<not> available (w_db w1)" by simp
      from never_after [OF this, of qs] True r Cons.prems show ?thesis by (auto split: prod.split)
    next
      case False
      then show ?thesis using Cons.IH [of w1] Cons.prems r by (auto split: prod.split)
    qed
  qed
qed simp

end

end
