(* ===== verification/Password_Attempts.thy ===== *)
theory Password_Attempts
  imports Attempts Account_Store Histories
begin

section \<open>Password attempts (identity-postgres/src/password_attempts.rs)\<close>

text \<open>
  A password verification needs a claim on its login: a token with an end, stored in the login's
  row, so that at most one verification of a login runs and a verification that outlived its claim
  cannot settle. Settling a confirmed rejection counts a failure in a fixed window; a login with
  five failures in the window is refused until the window ends. SHA-256 and the conversion of a
  float of seconds into an interval are parameters.
\<close>

definition PASSWORD_FAILURE_LIMIT :: int where "PASSWORD_FAILURE_LIMIT = 5"
definition PASSWORD_FAILURE_SECONDS :: int where "PASSWORD_FAILURE_SECONDS = 600"

record PasswordClaim =
  pc_tenant :: TenantId
  pc_login :: "byte list"
  pc_token :: uuid

definition is_login :: "TenantId \<Rightarrow> byte list \<Rightarrow> password_row \<Rightarrow> bool" where
  "is_login tenant login r \<longleftrightarrow> pw_tenant r = tenant \<and> pw_login r = login"

text \<open>The \<open>CHECK\<close> constraints of the table, and a write to it that they refuse.\<close>

definition password_check :: "password_row \<Rightarrow> bool" where
  "password_check r \<longleftrightarrow>
    0 \<le> pw_failures r \<and> pw_failures r \<le> 5 \<and> (pw_failures r = 0) = (pw_window r = None)
    \<and> (pw_token r = None) = (pw_claim_until r = None) \<and> pw_token r \<noteq> Some uuid_nil"

definition write_passwords :: "(password_row list \<Rightarrow> password_row list) \<Rightarrow> (PgError, unit) tx" where
  "write_passwords f =
    insert_checked (\<lambda>d. list_all password_check (f (d_passwords d)))
      (\<lambda>d. d\<lparr>d_passwords := f (d_passwords d)\<rparr>)"

definition open_at :: "int option \<Rightarrow> int \<Rightarrow> bool" where
  "open_at until t \<longleftrightarrow> (case until of None \<Rightarrow> False | Some u \<Rightarrow> u > t)"

definition login_retry :: "password_row option \<Rightarrow> int \<Rightarrow> int" where
  "login_retry row t =
    (case row of None \<Rightarrow> 0
     | Some r \<Rightarrow> if pw_failures r = PASSWORD_FAILURE_LIMIT \<and> open_at (pw_window r) t
                 then retry_seconds (the (pw_window r) - t) else 0)"

definition login_busy :: "password_row option \<Rightarrow> int \<Rightarrow> bool" where
  "login_busy row t \<longleftrightarrow> (case row of None \<Rightarrow> False | Some r \<Rightarrow> open_at (pw_claim_until r) t)"

definition claimed_row ::
  "TenantId \<Rightarrow> byte list \<Rightarrow> uuid \<Rightarrow> int \<Rightarrow> int \<Rightarrow> password_row option \<Rightarrow> password_row" where
  "claimed_row tenant login token interval t row =
    (case row of
       None \<Rightarrow> \<lparr>pw_tenant = tenant, pw_login = login, pw_failures = 0, pw_window = None,
                pw_token = Some token, pw_claim_until = Some (t + interval)\<rparr>
     | Some r \<Rightarrow> r\<lparr>pw_failures := (if open_at (pw_window r) t then pw_failures r else 0),
                   pw_window := (if open_at (pw_window r) t then pw_window r else None),
                   pw_token := Some token, pw_claim_until := Some (t + interval)\<rparr>)"

definition claim_body ::
  "TenantId \<Rightarrow> byte list \<Rightarrow> AttemptSource \<Rightarrow> uuid \<Rightarrow> int
    \<Rightarrow> (PgError, AuthorityError + PasswordClaim) tx" where
  "claim_body tenant digest source token interval =
    bind (lock_guard tenant) (\<lambda>_.
    bind (cleanup tenant) (\<lambda>_.
    bind (attempt tenant (source_key source) ATTEMPT_SOURCE_LIMIT ATTEMPT_SOURCE_SECONDS) (\<lambda>so.
    bind (query (\<lambda>d. find (is_login tenant digest) (d_passwords d))) (\<lambda>row.
    bind clock_timestamp (\<lambda>t.
    let retry = max (login_retry row t) (ta_retry so) in
    if retry > 0 then bind (lift (rate_limited retry)) (\<lambda>e. ret (Err e))
    else if login_busy row t then ret (Err AuthorityError.Busy)
    else
      bind (total tenant) (\<lambda>n.
      if n + missing_row (ta_exists so) + missing_row (row \<noteq> None) > MAX_ATTEMPT_ROWS
      then ret (Err AuthorityError.Busy)
      else
        bind (consume_attempt tenant so) (\<lambda>_.
        bind clock_timestamp (\<lambda>t.
        bind (write_passwords (upsert (is_login tenant digest)
                (claimed_row tenant digest token interval t))) (\<lambda>_.
        ret (Ok \<lparr>pc_tenant = tenant, pc_login = digest, pc_token = token\<rparr>))))))))))"

text \<open>\<open>deadline.timeout().as_secs_f64().min(60.0)\<close> as an interval.\<close>

definition claim_password ::
  "RuntimeBundle \<Rightarrow> (byte list \<Rightarrow> byte list) \<Rightarrow> (int \<Rightarrow> int) \<Rightarrow> uuid \<Rightarrow> TenantId \<Rightarrow> LoginKey
    \<Rightarrow> AttemptSource \<Rightarrow> int \<Rightarrow> PasswordClaim op" where
  "claim_password b sha256 float_interval token tenant login source timeout =
    op_bind (read b tenant timeout
      (claim_body tenant (sha256 (utf8 (login_str login))) source token
        (float_interval (min timeout 60000000000)))) op_lift"

definition owns :: "PasswordClaim \<Rightarrow> password_row \<Rightarrow> bool" where
  "owns claim r \<longleftrightarrow> is_login (pc_tenant claim) (pc_login claim) r \<and> pw_token r = Some (pc_token claim)"

definition failed_row :: "int \<Rightarrow> password_row \<Rightarrow> password_row" where
  "failed_row t r = r\<lparr>pw_failures := (if open_at (pw_window r) t then pw_failures r + 1 else 1),
     pw_window := (if open_at (pw_window r) t then pw_window r
                   else Some (t + make_interval PASSWORD_FAILURE_SECONDS)),
     pw_token := None, pw_claim_until := None\<rparr>"

definition released_row :: "password_row \<Rightarrow> password_row" where
  "released_row r = r\<lparr>pw_token := None, pw_claim_until := None\<rparr>"

definition settle_body ::
  "PasswordClaim \<Rightarrow> AuthorityError + AuthenticationCandidate
    \<Rightarrow> (PgError, AuthorityError + AuthenticationCandidate) tx" where
  "settle_body claim outcome =
    bind (lock_guard (pc_tenant claim)) (\<lambda>_.
    bind clock_timestamp (\<lambda>t.
    bind (query (\<lambda>d. list_ex (\<lambda>r. owns claim r \<and> open_at (pw_claim_until r) t) (d_passwords d))) (\<lambda>owned.
    if \<not> owned then ret (Err AuthorityError.Rejected)
    else case outcome of
      Inr candidate \<Rightarrow>
        bind (current candidate) (\<lambda>_.
        bind (write_passwords (delete_where (owns claim))) (\<lambda>_.
        ret (Ok candidate)))
    | Inl error \<Rightarrow>
        if error = AuthorityError.Rejected
        then
          bind clock_timestamp (\<lambda>t.
          bind (write_passwords (update_where (owns claim) (failed_row t))) (\<lambda>_.
          ret (Err error)))
        else
          bind (write_passwords (update_where (owns claim) released_row)) (\<lambda>_.
          ret (Err error)))))"

definition settle_password ::
  "RuntimeBundle \<Rightarrow> PasswordClaim \<Rightarrow> AuthorityError + AuthenticationCandidate \<Rightarrow> int
    \<Rightarrow> AuthenticationCandidate op" where
  "settle_password b claim outcome timeout =
    op_bind (read b (pc_tenant claim) timeout (settle_body claim outcome)) op_lift"

definition clear_passwords :: "(byte list \<Rightarrow> byte list) \<Rightarrow> AccountKey \<Rightarrow> (PgError, unit) tx" where
  "clear_passwords sha256 key =
    bind (query d_credentials) (\<lambda>credentials.
    exec (\<lambda>d. d\<lparr>d_passwords := delete_where
      (\<lambda>p. pw_tenant p = ak_tenant key
        \<and> list_ex (\<lambda>l. is_credential key l \<and> pw_login p = sha256 (utf8 (lc_login l))) credentials)
      (d_passwords d)\<rparr>))"

subsection \<open>The window of failures\<close>

text \<open>The failures of a login are counted in a fixed window of the kind that counts attempts; a
  row without failures has no window.\<close>

definition live_failures :: "password_row option \<Rightarrow> int \<Rightarrow> int" where
  "live_failures row t =
    (case row of None \<Rightarrow> 0 | Some r \<Rightarrow> if open_at (pw_window r) t then pw_failures r else 0)"

definition fail_login ::
  "TenantId \<Rightarrow> byte list \<Rightarrow> uuid \<Rightarrow> int \<Rightarrow> password_row option \<Rightarrow> int \<Rightarrow> int \<Rightarrow> password_row" where
  "fail_login tenant login token interval row t u =
    failed_row t (case row of None \<Rightarrow> claimed_row tenant login token interval t None | Some r \<Rightarrow> r)"

interpretation failure_window:
  fixed_window live_failures pw_failures "\<lambda>r. open_at (pw_window r)"
    "fail_login tenant login token interval" limit
  for tenant login token interval limit
  by unfold_locales
     (auto simp: fail_login_def live_failures_def failed_row_def claimed_row_def open_at_def
       split: option.splits if_splits)

subsection \<open>What the bodies do\<close>

definition login_row :: "TenantId \<Rightarrow> byte list \<Rightarrow> db \<Rightarrow> password_row option" where
  "login_row tenant login d = find (is_login tenant login) (d_passwords d)"

definition claim_at :: "TenantId \<Rightarrow> byte list \<Rightarrow> uuid \<Rightarrow> int \<Rightarrow> int \<Rightarrow> password_row list \<Rightarrow> password_row list" where
  "claim_at tenant login token interval t =
    upsert (is_login tenant login) (claimed_row tenant login token interval t)"

lemma claim_body_Inr:
  assumes "claim_body tenant login source token interval w = Inr (r, w')"
  defines "d \<equiv> cleaned tenant (micros w 0) (micros w 1) (w_db w)"
  defines "so \<equiv> attempt_at tenant (source_key source) 30 300 (micros w 2) d"
    and "row \<equiv> login_row tenant login d"
  defines "retry \<equiv> max (login_retry row (micros w 3)) (ta_retry so)"
    and "e \<equiv> consume_at tenant so (micros w 4) d"
  shows "w_micros w' = w_micros w \<and> guarded (w_db w) tenant \<and>
    (if retry > 0 then r = Err (RateLimited (nat retry)) \<and> w_db w' = d
     else if login_busy row (micros w 3)
       \<or> attempt_rows tenant d + missing_row (ta_exists so) + missing_row (row \<noteq> None) > 10000
     then r = Err AuthorityError.Busy \<and> w_db w' = d
     else r = Ok \<lparr>pc_tenant = tenant, pc_login = login, pc_token = token\<rparr>
       \<and> list_all password_check (claim_at tenant login token interval (micros w 5) (d_passwords e))
       \<and> w_db w' = e\<lparr>d_passwords := claim_at tenant login token interval (micros w 5) (d_passwords e)\<rparr>)"
proof -
  let ?w4 = "w\<lparr>w_db := d, w_tick := w_tick w + 4\<rparr>"
  let ?p = "claim_at tenant login token interval (micros w 5) (d_passwords e)"
  have "claim_body tenant login source token interval w =
    (if guarded (w_db w) tenant
     then if retry > 0
       then (case rate_limited retry of Inl e \<Rightarrow> Inl e | Inr e \<Rightarrow> Inr (Err e, ?w4))
       else if login_busy row (micros w 3) then Inr (Err AuthorityError.Busy, ?w4)
       else if attempt_rows tenant d + missing_row (ta_exists so) + missing_row (row \<noteq> None) > 10000
       then Inr (Err AuthorityError.Busy, ?w4)
       else if list_all password_check ?p
       then Inr (Ok \<lparr>pc_tenant = tenant, pc_login = login, pc_token = token\<rparr>,
         w\<lparr>w_db := e\<lparr>d_passwords := ?p\<rparr>, w_tick := w_tick w + 6\<rparr>)
       else Inl (w_violation w)
     else Inl reject)"
    unfolding claim_body_def d_def so_def row_def retry_def e_def guarded_def claim_at_def
    by (simp add: run_simps Let_def limits micros_def tick_numerals write_passwords_def login_row_def
        del: less_max_iff_disj cong: sum.case_cong)
  with assms(1) show ?thesis
    by (auto simp: rate_limited_def simp del: less_max_iff_disj split: if_splits)
qed

lemma settle_body_Inr:
  assumes "settle_body claim outcome w = Inr (r, w')"
  shows "w_micros w' = w_micros w \<and> (case r of
      Inr c \<Rightarrow> outcome = Inr c
        \<and> w_db w' = (w_db w)\<lparr>d_passwords := delete_where (owns claim) (d_passwords (w_db w))\<rparr>
        \<and> list_ex (\<lambda>q. owns claim q \<and> open_at (pw_claim_until q) (micros w 0)) (d_passwords (w_db w))
        \<and> (\<exists>s. account_of (w_db w) (candidate_account c) = Some s \<and> matches_verification s (cn_state c))
    | Inl e \<Rightarrow> w_db w' = w_db w \<and> e = AuthorityError.Rejected
          \<and> \<not> list_ex (\<lambda>q. owns claim q \<and> open_at (pw_claim_until q) (micros w 0)) (d_passwords (w_db w))
        \<or> outcome = Inl e
          \<and> list_ex (\<lambda>q. owns claim q \<and> open_at (pw_claim_until q) (micros w 0)) (d_passwords (w_db w))
          \<and> w_db w' = (w_db w)\<lparr>d_passwords := update_where (owns claim)
               (if e = AuthorityError.Rejected then failed_row (micros w 1) else released_row)
               (d_passwords (w_db w))\<rparr>
          \<and> list_all password_check (d_passwords (w_db w')))"
proof (cases outcome)
  case (Inl e)
  with assms show ?thesis
    by (auto simp: settle_body_def write_passwords_def micros_def run_simps split: if_splits)
next
  case (Inr c)
  with assms show ?thesis
    by (auto simp: settle_body_def write_passwords_def micros_def run_simps split: if_splits
        elim!: bindE dest!: current_Inr simp: insert_checked_Inr)
qed

lemma login_row_find: "find (is_login tenant login) (d_passwords d) = login_row tenant login d"
  by (simp add: login_row_def)

lemma login_row_claimed:
  "find (is_login tenant login) (claim_at tenant login token interval t ps) =
    Some (claimed_row tenant login token interval t (find (is_login tenant login) ps))"
  unfolding claim_at_def
  by (rule find_upsert_same) (auto simp: is_login_def claimed_row_def)

lemma login_row_cleaned:
  assumes "login_row t' login d = Some r" and "\<not> (past (pw_window r) u \<and> past (pw_claim_until r) u)"
  shows "login_row t' login (cleaned tenant t u d) = Some r"
  using assms
  by (auto simp: login_row_def cleaned_def expired_password_def intro!: find_delete_first)

lemma past_open: "past until t \<longleftrightarrow> \<not> open_at until t"
  by (auto simp: past_def open_at_def split: option.split)

lemma retry_seconds_pos [simp]: "0 < retry_seconds m"
  by (simp add: retry_seconds_def)

lemma retry_seconds_ceil: "m \<le> retry_seconds m * 1000000"
proof -
  have "m + 999999 = (m + 999999) div 1000000 * 1000000 + (m + 999999) mod 1000000"
    by (rule div_mult_mod_eq [symmetric])
  moreover have "(m + 999999) mod 1000000 \<le> 999999"
    using pos_mod_bound [of 1000000 "m + 999999"] by linarith
  ultimately show ?thesis unfolding retry_seconds_def by linarith
qed

lemma retry_seconds_not_le [simp]: "\<not> retry_seconds m \<le> 0"
  using retry_seconds_pos [of m] by linarith

subsection \<open>The limits hold throughout\<close>

definition limits_ok :: "db \<Rightarrow> bool" where
  "limits_ok d \<longleftrightarrow> attempts_ok d \<and> list_all password_check (d_passwords d)"

lemma attempts_ok_passwords:
  assumes "attempts_ok d" and "unique_on (\<lambda>r. (pw_tenant r, pw_login r)) ps"
    and "\<And>t. count_where (\<lambda>r. pw_tenant r = t) ps \<le> count_where (\<lambda>r. pw_tenant r = t) (d_passwords d)"
  shows "attempts_ok (d\<lparr>d_passwords := ps\<rparr>)"
proof -
  have "attempt_rows t (d\<lparr>d_passwords := ps\<rparr>) \<le> attempt_rows t d" for t
    using assms(3) [of t] by (simp add: attempt_rows_def)
  moreover have "attempt_rows t d \<le> 10000" for t
    using assms(1) by (simp add: attempts_ok_def)
  ultimately have "attempt_rows t (d\<lparr>d_passwords := ps\<rparr>) \<le> 10000" for t
    using order_trans by blast
  with assms(1,2) show ?thesis by (simp add: attempts_ok_def)
qed

lemma limits_ok_delete:
  assumes "limits_ok d"
  shows "limits_ok (d\<lparr>d_passwords := delete_where p (d_passwords d)\<rparr>)"
proof -
  have "attempts_ok (d\<lparr>d_passwords := delete_where p (d_passwords d)\<rparr>)"
    using assms by (intro attempts_ok_passwords)
      (auto simp: limits_ok_def attempts_ok_def unique_on_delete_where count_delete_where_le)
  with assms show ?thesis by (auto simp: limits_ok_def list_all_iff)
qed

lemma limits_ok_cleaned:
  assumes "limits_ok d" shows "limits_ok (cleaned tenant t u d)"
proof -
  have "set (d_passwords (cleaned tenant t u d)) \<subseteq> set (d_passwords d)"
    by (simp add: cleaned_def set_delete_first_subset)
  with assms attempts_ok_cleaned [of d tenant t u] show ?thesis
    by (auto simp: limits_ok_def list_all_iff)
qed

lemma limits_ok_update:
  assumes "limits_ok d" and "\<And>r. pw_tenant (f r) = pw_tenant r \<and> pw_login (f r) = pw_login r"
    and "list_all password_check (update_where p f (d_passwords d))"
  shows "limits_ok (d\<lparr>d_passwords := update_where p f (d_passwords d)\<rparr>)"
proof -
  have "attempts_ok (d\<lparr>d_passwords := update_where p f (d_passwords d)\<rparr>)"
    using assms(1,2) by (intro attempts_ok_passwords)
      (auto simp: limits_ok_def attempts_ok_def unique_on_update_where count_update_where)
  with assms(3) show ?thesis by (simp add: limits_ok_def)
qed

lemma reserve_body_keeps_passwords:
  assumes "reserve_body tenant scope source w = Inr (r, w')" and "list_all password_check (d_passwords (w_db w))"
  shows "list_all password_check (d_passwords (w_db w'))"
proof -
  have "list_all password_check (d_passwords (cleaned tenant (micros w 0) (micros w 1) (w_db w)))"
    using assms(2) set_delete_first_subset [of pw_window _ "expired_password tenant (micros w 1)" "d_passwords (w_db w)"]
    by (auto simp: cleaned_def list_all_iff)
  with reserve_body_Inr [OF assms(1)] show ?thesis
    by (auto simp: consume_at_def split: if_splits)
qed

lemma claim_body_keeps_limits:
  assumes "claim_body tenant login source token interval w = Inr (r, w')" and "limits_ok (w_db w)"
  shows "limits_ok (w_db w')"
proof -
  define d where "d = cleaned tenant (micros w 0) (micros w 1) (w_db w)"
  define so where "so = attempt_at tenant (source_key source) 30 300 (micros w 2) d"
  define row where "row = login_row tenant login d"
  define e where "e = consume_at tenant so (micros w 4) d"
  define ps where "ps = claim_at tenant login token interval (micros w 5) (d_passwords e)"
  have ok: "limits_ok d" using assms(2) by (simp add: d_def limits_ok_cleaned)
  note cases = claim_body_Inr [OF assms(1), folded d_def, folded so_def row_def, folded e_def, folded ps_def]
  show ?thesis
  proof (cases "w_db w' = d")
    case False
    with cases have adm: "ta_retry so \<le> 0"
      and room: "attempt_rows tenant d + missing_row (ta_exists so) + missing_row (row \<noteq> None) \<le> 10000"
      and check: "list_all password_check ps" and db: "w_db w' = e\<lparr>d_passwords := ps\<rparr>"
      by (auto split: if_splits)
    have same: "d_passwords e = d_passwords d" by (simp add: e_def consume_at_def)
    have att: "attempts_ok d" using ok by (simp add: limits_ok_def)
    then have pos: "\<forall>r\<in>set (d_attempts d). 1 \<le> at_count r" by (simp add: attempts_ok_def)
    have lim: "0 \<le> ta_count so" "ta_count so < key_limit (ta_key so)"
      using attempt_at_admitted [OF adm [unfolded so_def] _ pos] by (simp_all add: so_def key_limit_def)
    have e: "unique_on (\<lambda>r. (at_tenant r, at_key r)) (d_attempts e)
      \<and> (\<forall>r\<in>set (d_attempts e). 1 \<le> at_count r \<and> at_count r \<le> key_limit (at_key r))"
      unfolding e_def using att lim by (intro consume_limits) (auto simp: attempts_ok_def)
    have u: "unique_on (\<lambda>r. (pw_tenant r, pw_login r)) ps"
    proof -
      let ?f = "\<lambda>v. (claimed_row tenant login token interval (micros w 5) v)\<lparr>pw_tenant := tenant, pw_login := login\<rparr>"
      have "ps = upsert (is_login tenant login) ?f (d_passwords d)"
        unfolding ps_def claim_at_def same
        by (auto simp: upsert_def update_where_def is_login_def claimed_row_def split: option.split)
      moreover have "unique_on (\<lambda>r. (pw_tenant r, pw_login r)) (d_passwords d)"
        using att by (simp add: attempts_ok_def)
      ultimately show ?thesis
        by (auto intro!: unique_on_upsert [where ?k0.0 = "(tenant, login)"] simp: is_login_def)
    qed
    have "count_where (\<lambda>r. pw_tenant r = t') ps =
        count_where (\<lambda>r. pw_tenant r = t') (d_passwords d) + (if row = None \<and> tenant = t' then 1 else 0)" for t'
      unfolding ps_def claim_at_def same row_def login_row_def
      by (subst count_upsert) (auto simp: is_login_def claimed_row_def)
    moreover have "count_where (\<lambda>r. at_tenant r = t') (d_attempts e) =
        count_where (\<lambda>r. at_tenant r = t') (d_attempts d) + (if t' = tenant \<and> \<not> ta_exists so then 1 else 0)" for t'
      using attempt_rows_consume [of t' tenant so "micros w 4" d]
      by (auto simp: attempt_rows_def so_def e_def consume_at_def split: if_splits)
    moreover have "attempt_rows t' d \<le> 10000" for t' using att by (simp add: attempts_ok_def)
    ultimately have "attempt_rows t' (w_db w') \<le> 10000" for t'
      using room by (cases "t' = tenant") (auto simp: db attempt_rows_def missing_row_def split: if_splits)
    with e u check show ?thesis by (simp add: limits_ok_def attempts_ok_def db)
  qed (simp add: ok)
qed

lemma settle_body_keeps_limits:
  assumes "settle_body claim outcome w = Inr (r, w')" and "limits_ok (w_db w)"
  shows "limits_ok (w_db w')"
proof (cases r)
  case (Inl e)
  with settle_body_Inr [OF assms(1)] assms(2) show ?thesis
    by (auto simp: failed_row_def released_row_def intro!: limits_ok_update split: if_splits)
next
  case (Inr c)
  with settle_body_Inr [OF assms(1)] assms(2) show ?thesis by (auto intro!: limits_ok_delete)
qed

lemma clear_passwords_Inr:
  "clear_passwords sha256 key w = Inr (u, w') \<Longrightarrow>
    (\<exists>p. w' = w\<lparr>w_db := (w_db w)\<lparr>d_passwords := delete_where p (d_passwords (w_db w))\<rparr>\<rparr>)"
  by (auto simp: clear_passwords_def run_simps)

subsection \<open>Sequences of requests\<close>

text \<open>What a tenant's clients may ask for.\<close>

datatype request =
  Reserve ustr AttemptSource
| Claim "byte list" AttemptSource uuid int
| Settle PasswordClaim "AuthorityError + AuthenticationCandidate"
| Clear AccountKey

fun request_body :: "(byte list \<Rightarrow> byte list) \<Rightarrow> TenantId \<Rightarrow> request \<Rightarrow> (PgError, bool) tx" where
  "request_body sha256 tenant (Reserve scope source) =
    bind (reserve_body tenant scope source) (\<lambda>r. ret (is_ok r))"
| "request_body sha256 tenant (Claim login source token interval) =
    bind (claim_body tenant login source token interval) (\<lambda>r. ret (is_ok r))"
| "request_body sha256 tenant (Settle claim outcome) =
    bind (settle_body claim outcome) (\<lambda>r. ret (is_ok r))"
| "request_body sha256 tenant (Clear key) = bind (clear_passwords sha256 key) (\<lambda>_. ret True)"

fun admits_source :: "AttemptSource \<Rightarrow> request \<times> bool \<Rightarrow> bool" where
  "admits_source source (Reserve _ s, ok) = (ok \<and> s = source)"
| "admits_source source (Claim _ s _ _, ok) = (ok \<and> s = source)"
| "admits_source source _ = False"

definition plain_scope :: "request \<Rightarrow> bool" where
  "plain_scope q \<longleftrightarrow> (case q of Reserve scope _ \<Rightarrow> \<not> is_source_key scope | _ \<Rightarrow> True)"

lemma request_keeps_limits:
  assumes "request_body sha256 tenant q w = Inr (ok, w')" and "plain_scope q" and "limits_ok (w_db w)"
  shows "limits_ok (w_db w')"
proof (cases q)
  case (Reserve scope source)
  with assms show ?thesis
    by (auto simp: bind_Inr plain_scope_def limits_ok_def
        dest: reserve_body_keeps_limits reserve_body_keeps_passwords)
next
  case Claim
  with assms show ?thesis by (auto simp: bind_Inr dest: claim_body_keeps_limits)
next
  case Settle
  with assms show ?thesis by (auto simp: bind_Inr dest: settle_body_keeps_limits)
next
  case Clear
  with assms show ?thesis
    by (auto simp: bind_Inr dest!: clear_passwords_Inr intro!: limits_ok_delete)
qed


subsection \<open>The budget of a source\<close>

lemma source_key_inject [simp]: "source_key s = source_key s' \<longleftrightarrow> s = s'"
  by (cases s; cases s') (simp add: source_key_def)

text \<open>Consuming the live row of a key counts it and leaves its window.\<close>

lemma consume_live:
  assumes "attempt_row_of tenant key d = Some r" and "t < at_expires r" and "1 \<le> at_count r"
  shows "attempt_row_of tenant key
      (consume_at tenant (attempt_at tenant key limit seconds t d) u d) = Some (r\<lparr>at_count := at_count r + 1\<rparr>)"
  using attempt_row_consume_same [of "attempt_at tenant key limit seconds t d" key tenant u d] assms
  by (simp add: consumed_row_def live_attempts_def)

lemma admitted_live:
  assumes "ta_retry (attempt_at tenant key limit seconds t d) \<le> 0"
    and "attempt_row_of tenant key d = Some r" and "t < at_expires r"
  shows "at_count r < limit"
  using assms by (auto simp: attempt_at_def Let_def split: if_splits)

lemma request_source_step:
  assumes run: "request_body sha256 tenant q w = Inr (ok, w')"
    and row: "attempt_row_of tenant (source_key s) (w_db w) = Some r" and one: "1 \<le> at_count r"
    and live: "\<forall>i. w_micros w i < at_expires r" and scope: "plain_scope q"
  shows "w_micros w' = w_micros w
    \<and> (if admits_source s (q, ok)
       then at_count r < 30
         \<and> attempt_row_of tenant (source_key s) (w_db w') = Some (r\<lparr>at_count := at_count r + 1\<rparr>)
       else attempt_row_of tenant (source_key s) (w_db w') = Some r)"
proof -
  define d where "d = cleaned tenant (micros w 0) (micros w 1) (w_db w)"
  have row_d: "attempt_row_of tenant (source_key s) d = Some r"
    unfolding d_def using row live by (intro attempt_row_cleaned) (simp_all add: micros_def)
  have live_at: "micros w i < at_expires r" for i using live by (simp add: micros_def)
  show ?thesis
  proof (cases q)
    case (Reserve scope source)
    define so where "so = attempt_at tenant (source_key source) 30 300 (micros w 2) d"
    define sc where "sc = attempt_at tenant scope 5 900 (micros w 3) d"
    from run Reserve obtain v where v: "reserve_body tenant scope source w = Inr (v, w')" "ok = is_ok v"
      by (auto simp: bind_Inr)
    note step = reserve_body_Inr [OF v(1), folded d_def, folded so_def sc_def]
    have other: "scope \<noteq> source_key s" using scope Reserve is_source_key_source [of s]
      by (auto simp: plain_scope_def)
    have sc_other: "attempt_row_of tenant (source_key s) (consume_at tenant sc u e) =
        attempt_row_of tenant (source_key s) e" for u e
      using other by (intro attempt_row_consume_other) (simp add: sc_def)
    show ?thesis
    proof (cases "source = s")
      case True
      then show ?thesis
        using step Reserve v(2) row_d sc_other consume_live [OF row_d live_at one]
          admitted_live [OF _ row_d live_at]
        by (auto simp: so_def less_max_iff_disj not_less split: if_splits)
    next
      case False
      then have "attempt_row_of tenant (source_key s) (consume_at tenant so u d) =
          attempt_row_of tenant (source_key s) d" for u
        by (intro attempt_row_consume_other) (simp add: so_def)
      then show ?thesis using False step Reserve v(2) row_d sc_other by (auto split: if_splits)
    qed
  next
    case (Claim login source token interval)
    define so where "so = attempt_at tenant (source_key source) 30 300 (micros w 2) d"
    from run Claim obtain v where v: "claim_body tenant login source token interval w = Inr (v, w')" "ok = is_ok v"
      by (auto simp: bind_Inr)
    note step = claim_body_Inr [OF v(1), folded d_def, folded so_def]
    have pw: "attempt_row_of tenant key (e\<lparr>d_passwords := ps\<rparr>) = attempt_row_of tenant key e" for key e ps
      by (simp add: attempt_row_of_def)
    show ?thesis
    proof (cases "source = s")
      case True
      then show ?thesis
        using step Claim v(2) row_d consume_live [OF row_d live_at one] admitted_live [OF _ row_d live_at]
        by (auto simp: so_def pw less_max_iff_disj not_less split: if_splits)
    next
      case False
      then have "attempt_row_of tenant (source_key s) (consume_at tenant so u d) =
          attempt_row_of tenant (source_key s) d" for u
        by (intro attempt_row_consume_other) (simp add: so_def)
      then show ?thesis using False step Claim v(2) row_d by (auto simp: pw split: if_splits)
    qed
  next
    case (Settle claim outcome)
    with run obtain v where "settle_body claim outcome w = Inr (v, w')" by (auto simp: bind_Inr)
    from settle_body_Inr [OF this] row Settle show ?thesis
      by (auto simp: attempt_row_of_def split: sum.splits)
  next
    case (Clear key)
    with run row show ?thesis by (auto simp: bind_Inr attempt_row_of_def dest!: clear_passwords_Inr)
  qed
qed

text \<open>C4: Within one window a source is admitted at most 30 times. Starting from any state in which the
  source's row has a count, as long as the database clock stays before the end of that row's
  window, the number of requests admitted from the source, over both reservations and password
  claims and interleaved with any other requests of the tenant, is at most 30 less the count.\<close>

theorem source_budget:
  assumes "attempt_row_of tenant (source_key s) (w_db w) = Some r"
    and "1 \<le> at_count r" and "at_count r \<le> 30" and "\<forall>i. w_micros w i < at_expires r"
    and "list_all plain_scope qs"
  shows "int (length (filter (admits_source s) (fst (serve (request_body sha256 tenant) qs w)))) \<le> 30 - at_count r"
  using assms
proof (induction qs arbitrary: w r)
  case (Cons q qs)
  show ?case
  proof (cases "request_body sha256 tenant q w")
    case (Inl e)
    moreover have "\<not> admits_source s (q, False)" by (cases q) auto
    ultimately show ?thesis using Cons.IH [OF Cons.prems(1-4)] Cons.prems(5) by (simp split: prod.split) (metis fst_conv)
  next
    case (Inr v)
    then obtain ok w1 where run: "request_body sha256 tenant q w = Inr (ok, w1)" by (cases v) auto
    note step = request_source_step [OF run Cons.prems(1,2,4)]
    show ?thesis
    proof (cases "admits_source s (q, ok)")
      case True
      let ?r = "r\<lparr>at_count := at_count r + 1\<rparr>"
      have "int (length (filter (admits_source s) (fst (serve (request_body sha256 tenant) qs w1)))) \<le> 30 - at_count ?r"
        using step Cons.prems True by (intro Cons.IH) auto
      then show ?thesis using run True by (simp split: prod.split) (metis fst_conv)
    next
      case False
      have "int (length (filter (admits_source s) (fst (serve (request_body sha256 tenant) qs w1)))) \<le> 30 - at_count r"
        using step Cons.prems False by (intro Cons.IH) auto
      then show ?thesis using run False by (simp split: prod.split) (metis fst_conv)
    qed
  qed
qed simp

subsection \<open>A login that is claimed or exhausted\<close>

definition blocked :: "password_row \<Rightarrow> int \<Rightarrow> bool" where
  "blocked r t \<longleftrightarrow>
    open_at (pw_claim_until r) t \<or> pw_failures r = PASSWORD_FAILURE_LIMIT \<and> open_at (pw_window r) t"

text \<open>Requests that may release the login's row: the account's clearing, and the settlement of the
  claim that the row carries.\<close>

definition releases :: "password_row \<Rightarrow> request \<Rightarrow> bool" where
  "releases r q \<longleftrightarrow> (case q of Clear _ \<Rightarrow> True | Settle claim _ \<Rightarrow> owns claim r | _ \<Rightarrow> False)"

fun grants_login :: "byte list \<Rightarrow> request \<times> bool \<Rightarrow> bool" where
  "grants_login login (Claim l _ _ _, ok) = (ok \<and> l = login)"
| "grants_login login _ = False"

lemma blocked_refused:
  "blocked r t \<Longrightarrow> login_retry (Some r) t > 0 \<or> login_busy (Some r) t"
  by (auto simp: blocked_def login_retry_def login_busy_def)

lemma find_update_where_other:
  "find p t = Some r \<Longrightarrow> \<not> q r \<Longrightarrow> (\<And>x. p (f x) = p x) \<Longrightarrow> find p (update_where q f t) = Some r"
  by (simp add: find_update_where)

lemma find_delete_where_Some:
  "find p t = Some r \<Longrightarrow> \<not> q r \<Longrightarrow> find p (delete_where q t) = Some r"
  by (induction t) (auto simp: delete_where_def split: if_splits)

lemma blocked_step:
  assumes run: "request_body sha256 tenant q w = Inr (ok, w')"
    and row: "login_row tenant login (w_db w) = Some r"
    and block: "\<forall>i. blocked r (w_micros w i)" and keep: "\<not> releases r q"
  shows "w_micros w' = w_micros w \<and> login_row tenant login (w_db w') = Some r
    \<and> \<not> grants_login login (q, ok)"
proof -
  define d where "d = cleaned tenant (micros w 0) (micros w 1) (w_db w)"
  have at: "blocked r (micros w i)" for i using block by (simp add: micros_def)
  have row_d: "login_row tenant login d = Some r"
    unfolding d_def using row at [of 1] by (intro login_row_cleaned) (auto simp: past_open blocked_def)
  have same_row: "login_row tenant login (consume_at t so u e) = login_row tenant login e" for t so u e
    by (simp add: consume_at_def login_row_def)
  show ?thesis
  proof (cases q)
    case (Reserve scope source)
    from run Reserve obtain v where v: "reserve_body tenant scope source w = Inr (v, w')"
      by (auto simp: bind_Inr)
    show ?thesis using reserve_body_Inr [OF v, folded d_def] Reserve row_d by (auto simp: same_row split: if_splits)
  next
    case (Claim l source token interval)
    from run Claim obtain v where v: "claim_body tenant l source token interval w = Inr (v, w')" "ok = is_ok v"
      by (auto simp: bind_Inr)
    note step = claim_body_Inr [OF v(1), folded d_def]
    show ?thesis
    proof (cases "l = login")
      case True
      then show ?thesis
        using step Claim v(2) row_d blocked_refused [OF at [of 3]] by (auto simp: less_max_iff_disj split: if_splits)
    next
      case False
      then have other: "login_row tenant login (e\<lparr>d_passwords := claim_at tenant l token interval t ps\<rparr>) = find (is_login tenant login) ps"
        for e t ps
        by (auto simp: login_row_def claim_at_def is_login_def claimed_row_def intro!: find_upsert_other)
      have "find (is_login tenant login) (d_passwords (consume_at t so u e)) = login_row tenant login e" for t so u e
        by (simp add: consume_at_def login_row_def)
      with step Claim v(2) row_d False other show ?thesis by (auto split: if_splits)
    qed
  next
    case (Settle claim outcome)
    with run obtain v where "settle_body claim outcome w = Inr (v, w')" by (auto simp: bind_Inr)
    from settle_body_Inr [OF this] row Settle keep show ?thesis
      by (auto simp: login_row_def releases_def is_login_def failed_row_def released_row_def
          intro!: find_update_where_other find_delete_where_Some split: sum.splits if_splits)
  next
    case (Clear key)
    with keep show ?thesis by (simp add: releases_def)
  qed
qed

lemma blocked_login:
  assumes "login_row tenant login (w_db w) = Some r" and "\<forall>i. blocked r (w_micros w i)"
    and "list_all (\<lambda>q. \<not> releases r q) qs"
  shows "filter (grants_login login) (fst (serve (request_body sha256 tenant) qs w)) = []
    \<and> login_row tenant login (w_db (snd (serve (request_body sha256 tenant) qs w))) = Some r"
  using assms
proof (induction qs arbitrary: w)
  case (Cons q qs)
  show ?case
  proof (cases "request_body sha256 tenant q w")
    case (Inl e)
    moreover have "\<not> grants_login login (q, False)" by (cases q) auto
    ultimately show ?thesis using Cons.IH [OF Cons.prems(1,2)] Cons.prems(3) by (auto split: prod.split)
  next
    case (Inr v)
    then obtain ok w1 where run: "request_body sha256 tenant q w = Inr (ok, w1)" by (cases v) auto
    have "\<not> releases r q" using Cons.prems(3) by simp
    note step = blocked_step [OF run Cons.prems(1,2) this]
    then show ?thesis using Cons.IH [of w1] Cons.prems(2,3) run by (auto split: prod.split)
  qed
qed simp


text \<open>A login with five failures in its window is refused for the rest of the window: whatever
  requests arrive while the clock stays before the window's end, no claim on it is granted and its
  row does not change, until the account is cleared by a password change. A refused claim on it
  tells the caller to wait a number of whole seconds that reaches the window's end.\<close>

theorem exhausted_login_refused:
  assumes "login_row tenant login (w_db w) = Some r" and "pw_failures r = 5"
    and "pw_window r = Some u" and "pw_token r = None" and "\<forall>i. w_micros w i < u"
    and "list_all (\<lambda>q. case q of Clear _ \<Rightarrow> False | _ \<Rightarrow> True) qs"
  shows "filter (grants_login login) (fst (serve (request_body sha256 tenant) qs w)) = []
    \<and> login_row tenant login (w_db (snd (serve (request_body sha256 tenant) qs w))) = Some r
    \<and> (\<forall>source token interval v w'. claim_body tenant login source token interval w = Ok (v, w') \<longrightarrow>
         (\<exists>n. v = Err (RateLimited n) \<and> u - micros w 3 \<le> int n * 1000000))"
proof -
  have block: "\<forall>i. blocked r (w_micros w i)"
    using assms(2,3,5) by (simp add: blocked_def open_at_def PASSWORD_FAILURE_LIMIT_def)
  have "list_all (\<lambda>q. \<not> releases r q) qs"
    using assms(4,6) by (auto simp: list_all_iff releases_def owns_def split: request.splits)
  note served = blocked_login [OF assms(1) block this]
  have "\<exists>n. v = Err (RateLimited n) \<and> u - micros w 3 \<le> int n * 1000000"
    if run: "claim_body tenant login source token interval w = Ok (v, w')" for source token interval v w'
  proof -
    define d where "d = cleaned tenant (micros w 0) (micros w 1) (w_db w)"
    have row: "login_row tenant login d = Some r"
      unfolding d_def using assms block by (intro login_row_cleaned) (auto simp: past_open open_at_def micros_def)
    have retry: "login_retry (Some r) (micros w 3) = retry_seconds (u - micros w 3)"
      using assms by (simp add: login_retry_def PASSWORD_FAILURE_LIMIT_def open_at_def micros_def)
    have ceil: "u - micros w 3 \<le> retry_seconds (u - micros w 3) * 1000000"
      by (rule retry_seconds_ceil)
    show ?thesis
      using claim_body_Inr [OF run, folded d_def] row retry ceil
      by (auto simp: less_max_iff_disj split: if_splits)
  qed
  with served show ?thesis by blast
qed

subsection \<open>Examples\<close>

definition sample_source :: AttemptSource where "sample_source = AttemptSource [99]"

definition sample_login :: "byte list" where "sample_login = [1]"

definition sample_requests :: "request list" where
  "sample_requests = [Claim sample_login sample_source 7 60000000, Reserve [104] sample_source]"

definition counted_world :: world where
  "counted_world = sample_world\<lparr>w_db := sample_db\<lparr>d_attempts := [\<lparr>at_tenant = sample_tenant,
     at_key = source_key sample_source, at_count = 29, at_expires = 2000000000\<rparr>]\<rparr>\<rparr>"

definition exhausted_world :: world where
  "exhausted_world = sample_world\<lparr>w_db := sample_db\<lparr>d_passwords := [\<lparr>pw_tenant = sample_tenant,
     pw_login = sample_login, pw_failures = 5, pw_window = Some 1060000001, pw_token = None,
     pw_claim_until = None\<rparr>]\<rparr>\<rparr>"

lemmas sample_defs = sample_world_def sample_db_def sample_tenant_def sample_source_def sample_login_def
  sample_requests_def


theorem source_budget_witness:
  "int (length (filter (admits_source sample_source)
     (fst (serve (request_body (\<lambda>x. x) sample_tenant) sample_requests counted_world)))) \<le> 1"
  using source_budget [of sample_tenant sample_source counted_world
      "\<lparr>at_tenant = sample_tenant, at_key = source_key sample_source, at_count = 29, at_expires = 2000000000\<rparr>"
      sample_requests "\<lambda>x. x"]
  by (simp add: counted_world_def sample_defs attempt_row_of_def at_key_is_def plain_scope_def
      is_source_key_def lit_def)

lemma sample_claim:
  "claim_body sample_tenant sample_login sample_source 7 60000000 sample_world =
    Ok (Ok \<lparr>pc_tenant = sample_tenant, pc_login = sample_login, pc_token = 7\<rparr>,
      sample_world\<lparr>w_tick := 6, w_db := sample_db\<lparr>
        d_attempts := [\<lparr>at_tenant = sample_tenant, at_key = source_key sample_source, at_count = 1, at_expires = 1300000000\<rparr>],
        d_passwords := [\<lparr>pw_tenant = sample_tenant, pw_login = sample_login, pw_failures = 0,
          pw_window = None, pw_token = Some 7, pw_claim_until = Some 1060000000\<rparr>]\<rparr>\<rparr>)"
  by (simp add: claim_body_def run_simps cleanup_def attempt_def total_def attempt_rows_def consume_attempt_def
      write_passwords_def limits sample_defs delete_first_def selected_first_def delete_where_def
      live_attempts_def login_retry_def login_busy_def missing_row_def upsert_def consumed_row_def
      claimed_row_def password_check_def make_interval_def uuid_nil_def)


theorem exhausted_login_refused_witness:
  "filter (grants_login sample_login) (fst (serve (request_body (\<lambda>x. x) sample_tenant) sample_requests exhausted_world)) = []"
  using exhausted_login_refused [of sample_tenant sample_login exhausted_world
      "\<lparr>pw_tenant = sample_tenant, pw_login = sample_login, pw_failures = 5, pw_window = Some 1060000001,
        pw_token = None, pw_claim_until = None\<rparr>" 1060000001 sample_requests "\<lambda>x. x"]
  by (simp add: exhausted_world_def sample_defs login_row_def is_login_def)

end
