(* ===== verification/Federation_Store.thy ===== *)
theory Federation_Store
  imports Account_Store
begin

section \<open>Providers, identities and OIDC attempts (identity-postgres/src/federation_storage.rs)\<close>

text \<open>
  The rows of the federation: the configured providers, the external identities linked to
  accounts, the origin of a federated session, and the one-use OIDC attempts. An attempt is
  inserted when a login begins, its secrets are taken exactly once when the browser returns, and
  it is deleted when the login settles. \<open>sequence\<close> (profiles.rs) numbers the observations of a
  tenant. The functions of libraries that the authority calls are the fields of \<open>Libraries\<close>;
  the sizes are those of the text that Postgres keeps of a JSON document.
\<close>

record Libraries =
  xl_show_uuid :: "uuid \<Rightarrow> ustr"
  xl_url_parse :: "ustr \<Rightarrow> url_parts option"
  xl_sha256 :: "byte list \<Rightarrow> byte list"
  xl_json_size :: "AuthenticationFacts \<Rightarrow> nat"
  xl_json_len :: "Value \<Rightarrow> nat option"
  xl_platform_size :: "PlatformAuthentication \<Rightarrow> nat"
  xl_context_size :: "ustr \<times> byte list \<Rightarrow> nat"
  xl_source_size :: "GrantSource \<Rightarrow> nat"
  xl_settings_size :: "ProviderSettingsInput \<Rightarrow> nat"
  xl_binding_size :: "PlatformBinding \<Rightarrow> nat"
  xl_purpose_size :: "PlatformPurpose \<Rightarrow> nat"
  xl_target_size :: "EnterpriseTarget \<Rightarrow> nat"
  xl_sealed_size :: "Sealed \<Rightarrow> nat"
  xl_ceremony_size :: "Ceremony \<Rightarrow> nat"
  xl_value_size :: "Value \<Rightarrow> nat"
  xl_encode :: "byte list \<Rightarrow> ustr"
  xl_decode :: "ustr \<Rightarrow> byte list option"
  xl_hmac :: "byte list \<Rightarrow> byte list \<Rightarrow> byte list"
  xl_parse_uuid :: "ustr \<Rightarrow> uuid option"
  xl_parse_tenant :: "ustr \<Rightarrow> TenantId option"
  xl_show_tenant :: "TenantId \<Rightarrow> ustr"

definition digest :: "Libraries \<Rightarrow> ustr \<Rightarrow> byte list" where
  "digest L = federation_digest (xl_sha256 L)"

text \<open>\<open>fetch_one\<close>: a missing row is the driver's error.\<close>

definition fetch_one :: "(db \<Rightarrow> 'a option) \<Rightarrow> (PgError, 'a) tx" where
  "fetch_one f w = (case f (w_db w) of None \<Rightarrow> Err (w_violation w) | Some x \<Rightarrow> Ok (x, w))"

definition driver_error :: "('e, PgError) tx" where
  "driver_error w = Ok (w_violation w, w)"

subsection \<open>Providers\<close>

definition is_provider :: "TenantId \<Rightarrow> ProviderId \<Rightarrow> provider_row \<Rightarrow> bool" where
  "is_provider tenant p r \<longleftrightarrow> pv_tenant r = tenant \<and> pv_provider r = provider_uuid p"

definition decode_provider :: "Libraries \<Rightarrow> ProviderId \<Rightarrow> provider_row \<Rightarrow> PgError + ProviderView" where
  "decode_provider L p r =
    and_then (map_err (\<lambda>_. corrupt)
      (ProviderSettings_try_from (xl_show_uuid L) (xl_url_parse L) (pv_settings r))) (\<lambda>settings.
    and_then (ensure (\<not> (pv_version r < 1 \<or> pv_epoch r < 1)) corrupt) (\<lambda>_.
    and_then (ensure (length (pv_assurance r) = 32) corrupt) (\<lambda>_.
    Ok \<lparr>vw_id = p, vw_version = pv_version r, vw_enabled = pv_enabled r,
        vw_revocation_epoch = pv_epoch r, vw_settings = settings,
        vw_assurance_profile = pv_assurance r, vw_credential_version = pv_credential_version r\<rparr>)))"

definition provider :: "Libraries \<Rightarrow> TenantId \<Rightarrow> ProviderId \<Rightarrow> (PgError, ProviderView) tx" where
  "provider L tenant p =
    bind (query (\<lambda>d. find (is_provider tenant p) (d_providers d))) (\<lambda>row.
    bind (lift (ok_or reject row)) (\<lambda>r.
    lift (decode_provider L p r)))"

definition exact :: "ProviderView \<Rightarrow> int \<Rightarrow> FederationError + unit" where
  "exact view version =
    (if \<not> vw_enabled view then Err FederationError.Rejected
     else if vw_version view \<noteq> version then Err StaleConfiguration
     else Ok ())"

definition read_provider ::
  "RuntimeBundle \<Rightarrow> Libraries \<Rightarrow> TenantId \<Rightarrow> ProviderId \<Rightarrow> int \<Rightarrow> ProviderView op" where
  "read_provider b L tenant p timeout =
    read_sql b tenant timeout
      (bind (widen Storage (lock_guard tenant)) (\<lambda>_. widen Storage (provider L tenant p)))"

subsection \<open>The origin of a federated session\<close>

record Origin =
  or_identity :: uuid
  or_epoch :: int
  or_facts :: AuthenticationFacts
  or_facts_sequence :: int

definition is_session :: "TenantId \<Rightarrow> SessionId \<Rightarrow> session_row \<Rightarrow> bool" where
  "is_session tenant sid r \<longleftrightarrow> se_tenant r = tenant \<and> se_session r = session_uuid sid"

text \<open>A null in a column that is read as a value is the driver's error \<open>e\<close>.\<close>

definition decode_origin :: "PgError \<Rightarrow> session_row \<Rightarrow> PgError + Origin option" where
  "decode_origin e r =
    (case se_identity r of
       Some i \<Rightarrow>
         and_then (ok_or e (se_provider_epoch r)) (\<lambda>epoch.
         and_then (ok_or e (se_facts_sequence r)) (\<lambda>facts_sequence.
         and_then (ok_or e (se_facts r)) (\<lambda>raw.
         and_then (facts_decode raw) (\<lambda>facts.
         Ok (Some \<lparr>or_identity = i, or_epoch = epoch, or_facts = facts,
                   or_facts_sequence = facts_sequence\<rparr>)))))
     | None \<Rightarrow>
         if se_provider_epoch r \<noteq> None \<or> se_facts r \<noteq> None then Err corrupt else Ok None)"

definition origin :: "TenantId \<Rightarrow> SessionId \<Rightarrow> (PgError, Origin option) tx" where
  "origin tenant session =
    bind (fetch_one (\<lambda>d. find (is_session tenant session) (d_sessions d))) (\<lambda>r.
    bind driver_error (\<lambda>e.
    lift (decode_origin e r)))"

text \<open>The join of an identity with its provider: a provider of the same tenant that is enabled, in
  the given version and revocation epoch.\<close>

definition live_provider :: "TenantId \<Rightarrow> uuid \<Rightarrow> int \<Rightarrow> int \<Rightarrow> db \<Rightarrow> bool" where
  "live_provider tenant p version epoch d \<longleftrightarrow>
    list_ex (\<lambda>r. pv_tenant r = tenant \<and> pv_provider r = p \<and> pv_enabled r
      \<and> pv_epoch r = epoch \<and> pv_version r = version) (d_providers d)"

definition check_origin :: "Libraries \<Rightarrow> AccountKey \<Rightarrow> Origin \<Rightarrow> (PgError, FactSource) tx" where
  "check_origin L key og =
    bind (query (\<lambda>d. find (\<lambda>e. ei_tenant e = ak_tenant key \<and> ei_identity e = or_identity og
        \<and> ei_principal e = key_uuid key
        \<and> live_provider (ak_tenant key) (ei_provider e) (af_provider_config_version (or_facts og)) (or_epoch og) d)
        (d_identities d))) (\<lambda>row.
    bind (lift (ok_or reject row)) (\<lambda>e.
    lift (map_err (\<lambda>_. corrupt) (FactSource_new (xl_url_parse L) (ei_provider e) (ei_issuer e)))))"

definition identity :: "TenantId \<Rightarrow> uuid \<Rightarrow> (PgError, ProviderId \<times> ustr \<times> ustr) tx" where
  "identity tenant i =
    bind (fetch_one (\<lambda>d. find (\<lambda>e. ei_tenant e = tenant \<and> ei_identity e = i) (d_identities d))) (\<lambda>e.
    bind (require (ei_provider e \<noteq> uuid_nil) corrupt) (\<lambda>_.
    ret (ProviderId (ei_provider e), ei_issuer e, ei_subject e)))"

subsection \<open>Attempts\<close>

record OidcAttempt =
  oa_context :: "StepUpContext option"
  oa_profile_sequence :: int
  oa_mode :: AuthenticationMode
  oa_browser :: "byte list"
  oa_provider :: ProviderId
  oa_version :: int
  oa_purpose :: Purpose
  oa_expiry :: int
  oa_created :: int
  oa_return_url :: ustr
  oa_link :: "uuid option"
  oa_replacement :: "SessionId option"

definition is_attempt :: "StateLocator \<Rightarrow> oidc_row \<Rightarrow> bool" where
  "is_attempt l r \<longleftrightarrow> ot_tenant r = sl_tenant l \<and> ot_attempt r = sl_id l"

text \<open>What \<open>attempt\<close> compares before it returns a row.\<close>

definition attempt_matches :: "Libraries \<Rightarrow> StateLocator \<Rightarrow> ustr \<Rightarrow> ustr \<Rightarrow> bool \<Rightarrow> oidc_row \<Rightarrow> int \<Rightarrow> bool" where
  "attempt_matches L l state browser claimed r t \<longleftrightarrow>
    \<not> (ot_state_hash r \<noteq> digest L state \<or> ot_browser_hash r \<noteq> digest L browser
       \<or> ot_claimed r \<noteq> claimed \<or> ot_purpose r \<noteq> uint (Purpose_code (sl_purpose l))
       \<or> t < ot_created r \<or> t \<ge> ot_expires r)"

definition stored_context :: "(ustr \<times> byte list) option \<Rightarrow> PgError + StepUpContext option" where
  "stored_context v =
    (case v of None \<Rightarrow> Ok None
     | Some c \<Rightarrow> and_then (map_err (\<lambda>_. corrupt) (StepUpContext_try_from c)) (\<lambda>x. Ok (Some x)))"

definition stored_session :: "uuid option \<Rightarrow> PgError + SessionId option" where
  "stored_session v =
    (case v of None \<Rightarrow> Ok None
     | Some u \<Rightarrow> if u = uuid_nil then Err corrupt else Ok (Some (SessionId u)))"

definition decode_attempt ::
  "Libraries \<Rightarrow> StateLocator \<Rightarrow> ustr \<Rightarrow> oidc_row \<Rightarrow> PgError + OidcAttempt" where
  "decode_attempt L l browser r =
    and_then (stored_context (ot_context r)) (\<lambda>context.
    and_then (map_err (\<lambda>_. corrupt) (AuthenticationMode_from_storage (ot_mode r))) (\<lambda>mode.
    and_then (ensure (ot_provider r \<noteq> uuid_nil) corrupt) (\<lambda>_.
    and_then (stored_session (ot_replacement r)) (\<lambda>replacement.
    Ok \<lparr>oa_context = context, oa_profile_sequence = ot_sequence r, oa_mode = mode,
        oa_browser = digest L browser, oa_provider = ProviderId (ot_provider r),
        oa_version = ot_version r, oa_purpose = sl_purpose l, oa_expiry = ot_expires r,
        oa_created = ot_created r, oa_return_url = ot_return_url r, oa_link = ot_link r,
        oa_replacement = replacement\<rparr>))))"

text \<open>The secrets of an unclaimed attempt; its columns are not null (a \<open>CHECK\<close> of the table).\<close>

definition attempt_secrets :: "PgError \<Rightarrow> bool \<Rightarrow> oidc_row \<Rightarrow> PgError + (ustr \<times> ustr) option" where
  "attempt_secrets e claimed r =
    (if claimed then Ok None
     else and_then (ok_or e (ot_nonce r)) (\<lambda>nonce.
       and_then (ok_or e (ot_verifier r)) (\<lambda>verifier. Ok (Some (nonce, verifier)))))"

definition oidc_attempt ::
  "Libraries \<Rightarrow> StateLocator \<Rightarrow> ustr \<Rightarrow> ustr \<Rightarrow> bool
    \<Rightarrow> (PgError, OidcAttempt \<times> (ustr \<times> ustr) option) tx" where
  "oidc_attempt L l state browser claimed =
    bind (query (\<lambda>d. find (is_attempt l) (d_oidc d))) (\<lambda>row.
    bind (lift (ok_or reject row)) (\<lambda>r.
    bind now (\<lambda>t.
    bind (require (attempt_matches L l state browser claimed r t) reject) (\<lambda>_.
    bind driver_error (\<lambda>e.
    bind (lift (attempt_secrets e claimed r)) (\<lambda>secrets.
    bind (lift (decode_attempt L l browser r)) (\<lambda>a.
    ret (a, secrets))))))))"

record NewAttempt =
  na_context :: "StepUpContext option"
  na_mode :: AuthenticationMode
  na_locator :: StateLocator
  na_material :: ProtocolMaterial
  na_provider :: ProviderView
  na_browser :: ustr
  na_return_url :: ustr
  na_link :: "uuid option"
  na_replacement :: "SessionId option"
  na_expiry :: "int option"

text \<open>profiles.rs \<open>sequence\<close>: the next number of the tenant's guard row.\<close>

definition sequence :: "TenantId \<Rightarrow> (PgError, int) tx" where
  "sequence tenant =
    bind (fetch_one (\<lambda>d. find (\<lambda>r. gd_tenant r = tenant) (d_guard d))) (\<lambda>g.
    let n = gd_profile_sequence g + 1 in
    bind (insert_checked (\<lambda>_. in_i64 n)
      (\<lambda>d. d\<lparr>d_guard := update_where (\<lambda>r. gd_tenant r = tenant)
         (\<lambda>r. r\<lparr>gd_profile_sequence := n\<rparr>) (d_guard d)\<rparr>)) (\<lambda>_.
    ret n))"

text \<open>The keys and the \<open>CHECK\<close> constraints of the table that an insert has to satisfy.\<close>

definition oidc_check :: "oidc_row \<Rightarrow> bool" where
  "oidc_check r \<longleftrightarrow>
    length (ot_attempt r) = 32 \<and> length (ot_state_hash r) = 32 \<and> length (ot_browser_hash r) = 32
    \<and> ot_version r > 0 \<and> ot_sequence r > 0 \<and> ot_expires r > ot_created r
    \<and> 1 \<le> byte_len (ot_return_url r) \<and> byte_len (ot_return_url r) \<le> 2048
    \<and> (ot_purpose r = 1 \<and> ot_mode r = 1 \<or> ot_purpose r = 2 \<and> ot_mode r = 0
       \<or> ot_purpose r = 0 \<and> (ot_mode r = 0 \<or> ot_mode r = 2 \<and> ot_replacement r \<noteq> None))
    \<and> (if ot_purpose r = 0 then ot_link r = None else ot_link r \<noteq> None)
    \<and> (if ot_claimed r then ot_nonce r = None \<and> ot_verifier r = None
       else map_option byte_len (ot_nonce r) = Some 43 \<and> map_option byte_len (ot_verifier r) = Some 43)"

definition new_oidc_row :: "Libraries \<Rightarrow> NewAttempt \<Rightarrow> int \<Rightarrow> int \<Rightarrow> int \<Rightarrow> oidc_row" where
  "new_oidc_row L input t expiry seq =
    \<lparr>ot_context = map_option step_up_columns (na_context input),
     ot_tenant = sl_tenant (na_locator input), ot_attempt = sl_id (na_locator input),
     ot_provider = provider_uuid (vw_id (na_provider input)), ot_version = vw_version (na_provider input),
     ot_state_hash = digest L (pm_state (na_material input)), ot_browser_hash = digest L (na_browser input),
     ot_sequence = seq, ot_purpose = uint (Purpose_code (sl_purpose (na_locator input))),
     ot_mode = AuthenticationMode_code (na_mode input), ot_nonce = Some (pm_nonce (na_material input)),
     ot_verifier = Some (pm_verifier (na_material input)), ot_claimed = False, ot_created = t,
     ot_expires = expiry, ot_return_url = na_return_url input, ot_link = na_link input,
     ot_replacement = map_option session_uuid (na_replacement input)\<rparr>"

definition expired_oidc :: "TenantId \<Rightarrow> int \<Rightarrow> oidc_row \<Rightarrow> bool" where
  "expired_oidc tenant t r \<longleftrightarrow> ot_tenant r = tenant \<and> ot_expires r \<le> t"

definition idle_link :: "TenantId \<Rightarrow> int \<Rightarrow> db \<Rightarrow> link_row \<Rightarrow> bool" where
  "idle_link tenant t d i \<longleftrightarrow> li_tenant i = tenant \<and> li_expires i \<le> t
    \<and> \<not> list_ex (\<lambda>r. ot_tenant r = li_tenant i \<and> ot_link r = Some (li_intent i)) (d_oidc d)"

definition insert_attempt :: "Libraries \<Rightarrow> NewAttempt \<Rightarrow> (MutationError, unit) tx" where
  "insert_attempt L input =
    (let tenant = sl_tenant (na_locator input) in
    bind (widen Storage (provider L tenant (vw_id (na_provider input)))) (\<lambda>view.
    bind (lift (map_err MutationError.Federation (exact view (vw_version (na_provider input))))) (\<lambda>_.
    bind now (\<lambda>t.
    let expiry = (case na_expiry input of None \<Rightarrow> t + 120 | Some e \<Rightarrow> min e (t + 120)) in
    bind (require ((na_mode input = AuthenticationMode.StepUp) = (na_context input \<noteq> None)) (Storage reject)) (\<lambda>_.
    bind (require (t < expiry) (Storage reject)) (\<lambda>_.
    bind (exec (\<lambda>d. d\<lparr>d_oidc := delete_first ot_expires 128 (expired_oidc tenant t) (d_oidc d)\<rparr>)) (\<lambda>_.
    bind (exec (\<lambda>d. d\<lparr>d_links := delete_first (\<lambda>_. 0::nat) 128 (idle_link tenant t d) (d_links d)\<rparr>)) (\<lambda>_.
    bind (query (\<lambda>d. count_where (\<lambda>r. ot_tenant r = tenant) (d_oidc d))) (\<lambda>n.
    bind (require (n < 10000) (Storage reject)) (\<lambda>_.
    bind (widen Storage (sequence tenant)) (\<lambda>seq.
    let row = new_oidc_row L input t expiry seq in
    widen Storage (insert_checked
      (\<lambda>d. oidc_check row \<and> \<not> list_ex (\<lambda>r. ot_tenant r = tenant
         \<and> (ot_attempt r = ot_attempt row \<or> ot_state_hash r = ot_state_hash row)) (d_oidc d))
      (\<lambda>d. d\<lparr>d_oidc := row # d_oidc d\<rparr>)))))))))))))"

text \<open>The statement of \<open>complete\<close> (federation_login.rs) that takes the secrets, and the deletion.\<close>

definition claim_attempt :: "StateLocator \<Rightarrow> ('e, unit) tx" where
  "claim_attempt l =
    exec (\<lambda>d. d\<lparr>d_oidc := update_where (is_attempt l)
      (\<lambda>r. r\<lparr>ot_claimed := True, ot_nonce := None, ot_verifier := None\<rparr>) (d_oidc d)\<rparr>)"

definition consume_oidc :: "StateLocator \<Rightarrow> ('e, unit) tx" where
  "consume_oidc l = exec (\<lambda>d. d\<lparr>d_oidc := delete_where (is_attempt l) (d_oidc d)\<rparr>)"

subsection \<open>What the statements do\<close>

lemma fetch_one_Inr [simp, tx_simps]:
  "fetch_one f w = Inr (x, w') \<longleftrightarrow> f (w_db w) = Some x \<and> w' = w"
  by (auto simp: fetch_one_def split: option.splits)

lemma run_fetch_one [run_simps]:
  "bind (fetch_one f) k w = (case f (w_db w) of None \<Rightarrow> Inl (w_violation w) | Some x \<Rightarrow> k x w)"
  by (simp add: bind_def fetch_one_def split: option.split)

lemma driver_error_simps [simp, tx_simps]:
  "driver_error w = Inr (e, w') \<longleftrightarrow> e = w_violation w \<and> w' = w" "driver_error w = Inl f \<longleftrightarrow> False"
  by (auto simp: driver_error_def)

lemma run_driver_error [run_simps]: "bind driver_error k w = k (w_violation w) w"
  by (simp add: bind_def driver_error_def)

text \<open>The provider a row of \<open>d\<close> stands for.\<close>

definition provider_of :: "Libraries \<Rightarrow> db \<Rightarrow> TenantId \<Rightarrow> ProviderId \<Rightarrow> ProviderView option" where
  "provider_of L d tenant p =
    (case find (is_provider tenant p) (d_providers d) of None \<Rightarrow> None
     | Some r \<Rightarrow> (case decode_provider L p r of Inl _ \<Rightarrow> None | Inr v \<Rightarrow> Some v))"

lemma provider_Inr [tx_simps]:
  "provider L tenant p w = Inr (v, w') \<longleftrightarrow> provider_of L (w_db w) tenant p = Some v \<and> w' = w"
  by (auto simp: provider_def provider_of_def tx_simps split: option.splits sum.splits)

lemma provider_of_row:
  assumes "provider_of L d tenant p = Some v"
  obtains r where "find (is_provider tenant p) (d_providers d) = Some r" "vw_id v = p"
    "vw_version v = pv_version r" "vw_enabled v = pv_enabled r" "vw_revocation_epoch v = pv_epoch r"
    "vw_assurance_profile v = pv_assurance r" "vw_credential_version v = pv_credential_version r"
    "ProviderSettings_input (vw_settings v) = pv_settings r" "1 \<le> vw_version v" "1 \<le> vw_revocation_epoch v"
  using assms
  by (auto simp: provider_of_def decode_provider_def and_then_Inr_iff ProviderSettings_try_from_Ok
      split: option.splits sum.splits)

lemma exact_Inr [simp]: "exact v n = Inr u \<longleftrightarrow> vw_enabled v \<and> vw_version v = n"
  by (auto simp: exact_def)

lemma sequence_Inr:
  "sequence tenant w = Inr (n, w') \<Longrightarrow>
    (\<exists>g. find (\<lambda>r. gd_tenant r = tenant) (d_guard (w_db w)) = Some g \<and> n = gd_profile_sequence g + 1)
    \<and> w' = w\<lparr>w_db := (w_db w)\<lparr>d_guard := update_where (\<lambda>r. gd_tenant r = tenant)
         (\<lambda>r. r\<lparr>gd_profile_sequence := n\<rparr>) (d_guard (w_db w))\<rparr>\<rparr>"
  by (auto simp: sequence_def tx_simps Let_def)

lemma origin_Inr [tx_simps]:
  "origin tenant sid w = Inr (og, w') \<longleftrightarrow>
    (\<exists>r. find (is_session tenant sid) (d_sessions (w_db w)) = Some r
      \<and> decode_origin (w_violation w) r = Ok og) \<and> w' = w"
  by (auto simp: origin_def tx_simps)

lemma decode_origin_Some:
  "decode_origin e r = Ok (Some og) \<Longrightarrow>
    se_identity r = Some (or_identity og) \<and> se_provider_epoch r = Some (or_epoch og)
    \<and> se_facts r = Some (or_facts og) \<and> facts_decode (or_facts og) = Ok (or_facts og)
    \<and> se_facts_sequence r = Some (or_facts_sequence og)"
  by (auto simp: decode_origin_def and_then_Inr_iff split: option.splits if_splits)
    (auto dest: facts_decode_Ok)

lemma decode_origin_None:
  "decode_origin e r = Ok None \<Longrightarrow> se_identity r = None \<and> se_provider_epoch r = None \<and> se_facts r = None"
  by (auto simp: decode_origin_def and_then_Inr_iff split: option.splits if_splits)

lemma live_provider_iff:
  "live_provider tenant p version epoch d \<longleftrightarrow>
    (\<exists>r\<in>set (d_providers d). pv_tenant r = tenant \<and> pv_provider r = p \<and> pv_enabled r
      \<and> pv_epoch r = epoch \<and> pv_version r = version)"
  by (auto simp: live_provider_def list_ex_iff)

lemma check_origin_Inr:
  assumes "check_origin L key og w = Inr (s, w')"
  shows "w' = w \<and> (\<exists>e\<in>set (d_identities (w_db w)). ei_tenant e = ak_tenant key
      \<and> ei_identity e = or_identity og \<and> ei_principal e = key_uuid key
      \<and> fs_provider_id s = ei_provider e \<and> fs_issuer s = ei_issuer e
      \<and> live_provider (ak_tenant key) (ei_provider e) (af_provider_config_version (or_facts og)) (or_epoch og) (w_db w))
    \<and> valid_source (xl_url_parse L) s"
proof -
  from assms obtain e where e: "find (\<lambda>e. ei_tenant e = ak_tenant key \<and> ei_identity e = or_identity og
        \<and> ei_principal e = key_uuid key
        \<and> live_provider (ak_tenant key) (ei_provider e) (af_provider_config_version (or_facts og)) (or_epoch og) (w_db w))
        (d_identities (w_db w)) = Some e"
    and s: "FactSource_new (xl_url_parse L) (ei_provider e) (ei_issuer e) = Ok s" and w: "w' = w"
    by (auto simp: check_origin_def tx_simps)
  from s have "fs_provider_id s = ei_provider e \<and> fs_issuer s = ei_issuer e \<and> valid_source (xl_url_parse L) s"
    by (auto simp: FactSource_new_def valid_source_def split: if_splits)
  with find_SomeD [OF e] w show ?thesis by blast
qed

lemma identity_Inr [tx_simps]:
  "identity tenant i w = Inr (x, w') \<longleftrightarrow>
    (\<exists>e. find (\<lambda>e. ei_tenant e = tenant \<and> ei_identity e = i) (d_identities (w_db w)) = Some e
      \<and> ei_provider e \<noteq> uuid_nil \<and> x = (ProviderId (ei_provider e), ei_issuer e, ei_subject e)) \<and> w' = w"
  by (auto simp: identity_def tx_simps)

text \<open>An attempt is read only in its state, by its browser, in its time.\<close>

lemma oidc_attempt_Inr:
  assumes "oidc_attempt L l state browser claimed w = Inr ((a, secrets), w')"
  obtains r where "find (is_attempt l) (d_oidc (w_db w)) = Some r"
    "ot_state_hash r = digest L state" "ot_browser_hash r = digest L browser" "ot_claimed r = claimed"
    "ot_created r \<le> w_micros w (w_tick w) div 1000000" "w_micros w (w_tick w) div 1000000 < ot_expires r"
    "decode_attempt L l browser r = Ok a" "w' = w\<lparr>w_tick := Suc (w_tick w)\<rparr>"
    "secrets = (if claimed then None else Some (the (ot_nonce r), the (ot_verifier r)))"
  using assms
  by (auto simp: oidc_attempt_def tx_simps attempt_matches_def attempt_secrets_def and_then_Inr_iff
      split: if_splits)

lemma decode_attempt_Inr:
  "decode_attempt L l browser r = Ok a \<Longrightarrow>
    oa_version a = ot_version r \<and> oa_provider a = ProviderId (ot_provider r) \<and> oa_expiry a = ot_expires r
    \<and> oa_created a = ot_created r \<and> oa_purpose a = sl_purpose l \<and> oa_link a = ot_link r
    \<and> oa_return_url a = ot_return_url r \<and> map_option session_uuid (oa_replacement a) = ot_replacement r
    \<and> AuthenticationMode_code (oa_mode a) = ot_mode r \<and> oa_browser a = digest L browser"
  by (auto simp: decode_attempt_def and_then_Inr_iff stored_session_def AuthenticationMode_from_storage_def
      split: option.splits if_splits)

lemma store_reads [keeps_intros]:
  assumes "\<And>d. R d d"
  shows "keeps R (provider L tenant p)" "keeps R (origin tenant sid)" "keeps R (check_origin L key og)"
    "keeps R (identity tenant i)" "keeps R (oidc_attempt L l state browser claimed)"
    "keeps R driver_error" "keeps R (fetch_one f)"
  using assms
  by (auto simp: keeps_def tx_simps dest!: check_origin_Inr elim!: oidc_attempt_Inr)

end
