(* ===== verification/Platform_Check.thy ===== *)
theory Platform_Check
  imports Federation_Store
begin

section \<open>Platform bindings and their recheck (identity-postgres/src/platform.rs, session_checks.rs)\<close>

text \<open>
  A host may install a verifier of devices. Its methods that borrow the transaction are
  transaction bodies, parameters of the model; what the code documents of them is
  \<open>verifier_contract\<close>: they do not change the authority's tables. \<open>SessionChecks\<close> carries the
  verifier and the controlled fact clock to every place where a session is loaded.
\<close>

datatype PlatformError = Rejected | Unavailable | InteractionRequired | Cancelled

record PlatformChallengeContext =
  pc_purpose :: PlatformPurpose
  pc_binding :: PlatformBinding
  pc_audience :: ustr
  pc_nonce :: ustr
  pc_created_at :: int
  pc_expires_at :: int

datatype PlatformProfile = Unavailable | IdentityLocal | Idp ProviderId UpstreamClaims

record PlatformEvidence =
  ev_key_possession :: bool
  ev_hardware_key :: bool
  ev_user_presence :: bool
  ev_user_verification :: bool
  ev_authenticated_at :: "int option"
  ev_profile :: PlatformProfile

record PlatformVerifier =
  vf_audience :: ustr
  vf_challenge_seconds :: int
  vf_authorize_purpose :: "PlatformBinding \<Rightarrow> PlatformPurpose \<Rightarrow> (PlatformError, unit) tx"
  vf_resolve :: "InstanceId \<Rightarrow> TenantId \<Rightarrow> uuid \<Rightarrow> (PlatformError, PlatformBinding) tx"
  vf_recheck :: "PlatformBinding \<Rightarrow> (PlatformError, unit) tx"
  vf_verify :: "PlatformChallengeContext \<Rightarrow> byte list \<Rightarrow> instant \<Rightarrow> world \<Rightarrow> (PlatformError + PlatformEvidence) option"

record SessionChecks =
  sc_platform :: "PlatformVerifier option"
  sc_controlled :: "int option"

text \<open>\<open>SessionChecks::default()\<close>.\<close>

definition no_checks :: SessionChecks where
  "no_checks = \<lparr>sc_platform = None, sc_controlled = None\<rparr>"

definition verifier_contract :: "PlatformVerifier \<Rightarrow> bool" where
  "verifier_contract v \<longleftrightarrow> (\<forall>b. reads_only (vf_recheck v b))
    \<and> (\<forall>b p. reads_only (vf_authorize_purpose v b p)) \<and> (\<forall>i t u. reads_only (vf_resolve v i t u))"

definition checks_contract :: "SessionChecks \<Rightarrow> bool" where
  "checks_contract c \<longleftrightarrow> (\<forall>v. sc_platform c = Some v \<longrightarrow> verifier_contract v)"

definition binding_valid :: "PlatformBinding \<Rightarrow> bool" where
  "binding_valid b \<longleftrightarrow> pb_binding_id b \<noteq> uuid_nil \<and> pb_binding_epoch b > 0
    \<and> pb_source_id b \<noteq> uuid_nil \<and> pb_source_version b > 0
    \<and> (case pb_external_identity b of None \<Rightarrow> True
       | Some v \<Rightarrow> eb_identity_id v \<noteq> uuid_nil \<and> eb_config_version v > 0 \<and> eb_revocation_epoch v > 0)"

definition platform_assurance :: "PlatformAuthentication \<Rightarrow> PgError + Assurance" where
  "platform_assurance p =
    (if \<not> binding_valid (pa_binding p) \<or> (pa_authenticated_at p \<noteq> None \<and> \<not> pa_user_verification p)
     then Err corrupt
     else map_err (\<lambda>_. corrupt) (Assurance_new (pa_authenticated_at p) Acr.Unspecified []))"

fun platform_failure :: "PlatformError \<Rightarrow> PgError" where
  "platform_failure PlatformError.Unavailable = MessagingErrorKind.Transient"
| "platform_failure PlatformError.Rejected = reject"
| "platform_failure Cancelled = reject"
| "platform_failure InteractionRequired = reject"

definition external_valid :: "PlatformBinding \<Rightarrow> (PgError, bool) tx" where
  "external_valid b =
    (case pb_external_identity b of
       None \<Rightarrow> ret True
     | Some x \<Rightarrow> query (\<lambda>d. list_ex (\<lambda>e. ei_tenant e = ak_tenant (pb_account b)
          \<and> ei_principal e = key_uuid (pb_account b) \<and> ei_identity e = eb_identity_id x
          \<and> ei_provider e = provider_uuid (eb_provider x)
          \<and> live_provider (ak_tenant (pb_account b)) (ei_provider e) (eb_config_version x)
              (eb_revocation_epoch x) d) (d_identities d)))"

definition external :: "PlatformBinding \<Rightarrow> (PgError, unit) tx" where
  "external b = bind (external_valid b) (\<lambda>ok. require ok reject)"

definition platform_recheck ::
  "AccountKey \<Rightarrow> PlatformAuthentication \<Rightarrow> SessionChecks \<Rightarrow> (PgError, unit) tx" where
  "platform_recheck key stored checks =
    bind (lift (ok_or reject (sc_platform checks))) (\<lambda>verifier.
    bind authority_id (\<lambda>authority.
    bind (require (\<not> (\<not> binding_valid (pa_binding stored) \<or> pb_account (pa_binding stored) \<noteq> key
        \<or> instance_uuid (pb_instance (pa_binding stored)) \<noteq> authority
        \<or> vf_audience verifier \<noteq> pa_audience stored)) reject) (\<lambda>_.
    bind (widen platform_failure (vf_recheck verifier (pa_binding stored))) (\<lambda>_.
    bind (external (pa_binding stored)) (\<lambda>_.
    bind (lift (platform_assurance stored)) (\<lambda>_.
    ret ()))))))"

lemma platform_recheck_needs_verifier [simp]:
  "platform_recheck key stored no_checks w \<noteq> Inr r"
  by (auto simp: platform_recheck_def no_checks_def bind_Inr)

lemma external_valid_reads: "w' = w" if "external_valid b w = Inr (ok, w')"
  using that by (auto simp: external_valid_def split: option.splits)

lemma external_Inr [simp, tx_simps]:
  "external b w = Inr (u, w') \<longleftrightarrow> external_valid b w = Inr (True, w) \<and> w' = w"
proof
  assume "external b w = Inr (u, w')"
  then have "external_valid b w = Inr (True, w')" by (auto simp: external_def bind_Inr)
  then show "external_valid b w = Inr (True, w) \<and> w' = w" using external_valid_reads [of b w True w'] by simp
next
  assume "external_valid b w = Inr (True, w) \<and> w' = w"
  then show "external b w = Inr (u, w')" by (simp add: external_def)
qed

lemma platform_recheck_Inr:
  assumes "platform_recheck key stored checks w = Inr (u, w')"
  obtains v where "sc_platform checks = Some v" "binding_valid (pa_binding stored)"
    "pb_account (pa_binding stored) = key"
    "instance_uuid (pb_instance (pa_binding stored)) = d_authority (w_db w)"
    "vf_audience v = pa_audience stored" "is_ok (platform_assurance stored)"
    "vf_recheck v (pa_binding stored) w = Inr ((), w')"
    "external_valid (pa_binding stored) w' = Inr (True, w')"
proof -
  from assms show ?thesis
    unfolding platform_recheck_def
    by (elim bindE) (auto simp: is_ok_iff intro!: that)
qed

lemma platform_recheck_reads:
  assumes "checks_contract checks" shows "reads_only (platform_recheck key stored checks)"
proof (rule keepsI)
  fix w x w' assume "platform_recheck key stored checks w = Inr (x, w')"
  then obtain v where "sc_platform checks = Some v" "vf_recheck v (pa_binding stored) w = Inr ((), w')"
    by (rule platform_recheck_Inr)
  with assms show "unchanged (w_db w) (w_db w')"
    by (auto simp: checks_contract_def verifier_contract_def dest: keepsD)
qed

end
