(* ===== verification/Session_Store.thy ===== *)
theory Session_Store
  imports Platform_Check
begin

section \<open>Loading sessions (identity-postgres/src/session_storage.rs, sessions.rs)\<close>

text \<open>
  Every path that uses a session loads it the same way: under the tenant's guard it joins the
  account, compares the epochs the session was issued under with the account's present ones,
  rechecks the origin of a federated session and the binding of a platform session, and reads the
  clock after all locks. \<open>by_id\<close> is that load; \<open>lookup\<close> finds the session by the digest of its
  secret; \<open>recheck\<close> repeats the load for a proof that a request holds.
\<close>

record SessionView =
  sv_kind :: CredentialKind
  sv_id :: SessionId
  sv_issued_at :: int
  sv_idle_expires_at :: int
  sv_absolute_expires_at :: int

definition SessionView_new :: "SessionId \<Rightarrow> SessionLifetime \<Rightarrow> CredentialKind \<Rightarrow> SessionView" where
  "SessionView_new i lifetime kind =
    \<lparr>sv_kind = kind, sv_id = i, sv_issued_at = lt_issued_at lifetime,
     sv_idle_expires_at = lt_idle_expires_at lifetime,
     sv_absolute_expires_at = lt_absolute_expires_at lifetime\<rparr>"

record SessionIdentity =
  si_principal :: PrincipalId
  si_has_local_password :: bool

definition SessionIdentity_from_state :: "AccountState \<Rightarrow> SessionIdentity" where
  "SessionIdentity_from_state s =
    \<lparr>si_principal = ak_principal (st_key s), si_has_local_password = st_has_local_password s\<rparr>"

record Loaded =
  ld_source :: AuthenticationSource
  ld_assurance :: Assurance
  ld_groups :: GroupFacts
  ld_department :: DepartmentFacts
  ld_sample :: TimeSample
  ld_expires :: instant
  ld_state :: AccountState
  ld_view :: SessionView
  ld_lifetime :: SessionLifetime
  ld_now :: int

record AuthenticatedSession =
  px_checks :: SessionChecks
  px_key :: AccountKey
  px_digest :: "byte list"
  px_authority :: uuid
  px_expires :: instant
  px_view :: SessionView
  px_identity :: SessionIdentity
  px_assurance :: Assurance
  px_source :: AuthenticationSource
  px_groups :: GroupFacts
  px_department :: DepartmentFacts

definition recently_authenticated :: "Loaded \<Rightarrow> int \<Rightarrow> instant \<Rightarrow> bool" where
  "recently_authenticated l max_age t \<longleftrightarrow>
    (case as_auth_time (ld_assurance l) of None \<Rightarrow> False
     | Some a \<Rightarrow> a \<le> ld_now l \<and> within_age (ld_sample l) a max_age t)"

definition lifetime_policy :: "session_row \<Rightarrow> PgError + SessionPolicy" where
  "lifetime_policy r = map_err (\<lambda>_. corrupt) (SessionPolicy_new (se_idle_timeout r) (se_absolute_timeout r))"

definition credential_kind :: "session_row \<Rightarrow> PgError + CredentialKind" where
  "credential_kind r =
    (if se_kind r = lit ''cookie'' then Ok Cookie
     else if se_kind r = lit ''bearer'' then Ok Bearer else Err corrupt)"

definition row_lifetime :: "session_row \<Rightarrow> PgError + SessionLifetime" where
  "row_lifetime r =
    and_then (lifetime_policy r) (\<lambda>policy.
    map_err (\<lambda>_. corrupt)
      (SessionLifetime_restore (se_issued_at r) (se_idle_expires r) (se_absolute_expires r) policy))"

text \<open>The row is the account's own, issued under its present epochs, and not revoked.\<close>

definition row_current :: "AccountKey \<Rightarrow> AccountState \<Rightarrow> session_row \<Rightarrow> bool" where
  "row_current key state r \<longleftrightarrow> \<not> (se_principal r \<noteq> key_uuid key \<or> \<not> active state
    \<or> se_auth_epoch r \<noteq> st_epoch state \<or> se_membership_epoch r \<noteq> st_membership_epoch state
    \<or> se_revoked r \<noteq> None)"

definition load_department ::
  "session_row \<Rightarrow> Origin option \<Rightarrow> FactSource option \<Rightarrow> TimeSample \<Rightarrow> PgError + DepartmentFacts" where
  "load_department r og source fact_sample =
    (case (og, source) of
       (Some o1, Some s) \<Rightarrow>
         DepartmentFacts_new (af_department_snapshot (or_facts o1)) s
           (af_provider_config_version (or_facts o1)) fact_sample
     | (None, None) \<Rightarrow>
         Ok (DepartmentFacts.Unavailable
           (if se_source r = lit ''platform'' then DepartmentUnavailableReason.NotConfigured
            else DepartmentUnavailableReason.LocalIdentity))
     | _ \<Rightarrow> Err corrupt)"

text \<open>A platform session has a document, by a \<open>CHECK\<close> of the table; a null one does not decode.\<close>

definition load_facts ::
  "AccountKey \<Rightarrow> SessionChecks \<Rightarrow> session_row \<Rightarrow> Origin option \<Rightarrow> FactSource option \<Rightarrow> TimeSample
    \<Rightarrow> (PgError, AuthenticationSource \<times> Assurance \<times> Groups) tx" where
  "load_facts key checks r og source fact_sample =
    (case (og, source) of
       (Some o1, Some s) \<Rightarrow>
         if se_source r = lit ''oidc''
         then bind (lift (facts_project (or_facts o1) s (sample_seconds fact_sample))) (\<lambda>groups.
           ret (AuthenticationSource.Oidc, af_assurance (or_facts o1), groups))
         else fail corrupt
     | (None, None) \<Rightarrow>
         if se_source r = lit ''local_password''
         then
           bind driver_error (\<lambda>e.
           bind (lift (ok_or e (se_local_at r))) (\<lambda>t.
           bind (lift (map_err (\<lambda>_. corrupt) (Assurance_password t))) (\<lambda>a.
           ret (LocalPassword, a, groups_unavailable FactUnavailableReason.LocalIdentity))))
         else if se_source r = lit ''platform''
         then
           bind (lift (ok_or corrupt (se_platform r))) (\<lambda>p.
           bind (platform_recheck key p checks) (\<lambda>_.
           bind (lift (platform_assurance p)) (\<lambda>a.
           ret (AuthenticationSource.Platform, a, groups_unavailable FactUnavailableReason.NotConfigured))))
         else fail corrupt
     | _ \<Rightarrow> fail corrupt)"

definition check_source :: "Libraries \<Rightarrow> AccountKey \<Rightarrow> Origin option \<Rightarrow> (PgError, FactSource option) tx" where
  "check_source L key og =
    (case og of None \<Rightarrow> ret None
     | Some o1 \<Rightarrow> bind (check_origin L key o1) (\<lambda>s. ret (Some s)))"

definition by_id :: "Libraries \<Rightarrow> AccountKey \<Rightarrow> SessionId \<Rightarrow> SessionChecks \<Rightarrow> (PgError, Loaded) tx" where
  "by_id L key sid checks =
    bind (load key) (\<lambda>stored.
    let state = so_state stored in
    bind (query (\<lambda>d. find (is_session (ak_tenant key) sid) (d_sessions d))) (\<lambda>row.
    bind (lift (ok_or reject row)) (\<lambda>r.
    bind (require (row_current key state r) reject) (\<lambda>_.
    bind (origin (ak_tenant key) sid) (\<lambda>og.
    bind (check_source L key og) (\<lambda>source.
    bind (lift (row_lifetime r)) (\<lambda>lifetime.
    bind read_sample (\<lambda>sample.
    let t = sample_seconds sample in
    bind (require (valid_at lifetime t) reject) (\<lambda>_.
    let fact_sample = sample_for_facts (sc_controlled checks) sample in
    bind (lift (load_department r og source fact_sample)) (\<lambda>department.
    bind (load_facts key checks r og source fact_sample) (\<lambda>(kind, assurance, groups).
    bind (lift (map_err (\<lambda>_. reject)
      (Assurance_check assurance AuthenticationMode.Login (lt_issued_at lifetime) t))) (\<lambda>_.
    bind (lift (GroupFacts_new groups fact_sample)) (\<lambda>group_facts.
    bind (lift (sample_deadline sample (lt_idle_expires_at lifetime))) (\<lambda>expires.
    bind (lift (credential_kind r)) (\<lambda>credential.
    ret \<lparr>ld_source = kind, ld_assurance = assurance, ld_groups = group_facts,
         ld_department = department, ld_sample = sample, ld_expires = expires, ld_state = state,
         ld_view = SessionView_new sid lifetime credential, ld_lifetime = lifetime, ld_now = t\<rparr>)))))))))))))))"

definition has_token :: "TenantId \<Rightarrow> byte list \<Rightarrow> session_row \<Rightarrow> bool" where
  "has_token tenant token r \<longleftrightarrow> se_tenant r = tenant \<and> se_hash r = token"

definition lookup ::
  "Libraries \<Rightarrow> TenantId \<Rightarrow> byte list \<Rightarrow> CredentialKind \<Rightarrow> SessionChecks \<Rightarrow> (PgError, Loaded) tx" where
  "lookup L tenant token kind checks =
    bind (lock_guard tenant) (\<lambda>_.
    bind (query (\<lambda>d. find (has_token tenant token) (d_sessions d))) (\<lambda>locator.
    bind (lift (ok_or reject locator)) (\<lambda>r.
    bind (require (se_principal r \<noteq> uuid_nil \<and> se_session r \<noteq> uuid_nil) corrupt) (\<lambda>_.
    let key = \<lparr>ak_tenant = tenant, ak_principal = PrincipalId (se_principal r)\<rparr>;
        sid = SessionId (se_session r) in
    bind (by_id L key sid checks) (\<lambda>loaded.
    bind (fetch_one (\<lambda>d. find (is_session tenant sid) (d_sessions d))) (\<lambda>again.
    bind (require (\<not> (se_hash again \<noteq> token \<or> sv_kind (ld_view loaded) \<noteq> kind)) reject) (\<lambda>_.
    ret loaded)))))))"

definition recheck :: "Libraries \<Rightarrow> AuthenticatedSession \<Rightarrow> (PgError, Loaded) tx" where
  "recheck L proof_held =
    bind instant_now (\<lambda>t.
    bind authority_id (\<lambda>authority.
    bind (require (\<not> (t \<ge> px_expires proof_held \<or> authority \<noteq> px_authority proof_held)) reject) (\<lambda>_.
    bind (lookup L (ak_tenant (px_key proof_held)) (px_digest proof_held) (sv_kind (px_view proof_held))
            (px_checks proof_held)) (\<lambda>found.
    let loaded = found\<lparr>ld_expires := min (ld_expires found) (px_expires proof_held)\<rparr> in
    bind instant_now (\<lambda>t.
    bind (require (\<not> (st_key (ld_state loaded) \<noteq> px_key proof_held
        \<or> sv_id (ld_view loaded) \<noteq> sv_id (px_view proof_held) \<or> t \<ge> ld_expires loaded)) reject) (\<lambda>_.
    ret loaded))))))"

text \<open>The settings of a connection a host lends: whether a transaction is open, the tenant it is
  scoped to and its isolation level.\<close>

record HostConnection =
  hc_in_transaction :: bool
  hc_scope :: "TenantId option"
  hc_isolation :: ustr

definition recheck_on :: "Libraries \<Rightarrow> HostConnection \<Rightarrow> AuthenticatedSession \<Rightarrow> (PgError, Loaded) tx" where
  "recheck_on L c actor =
    bind (require (hc_in_transaction c) reject) (\<lambda>_.
    bind (require (\<not> (hc_scope c \<noteq> Some (ak_tenant (px_key actor))
        \<or> hc_isolation c \<noteq> lit ''read committed'')) reject) (\<lambda>_.
    bind (lock_guard (ak_tenant (px_key actor))) (\<lambda>_.
    recheck L actor)))"

text \<open>The \<open>CHECK\<close> constraints on the columns that \<open>touch\<close> and \<open>close\<close> write.\<close>

definition session_check :: "session_row \<Rightarrow> bool" where
  "session_check r \<longleftrightarrow> se_issued_at r < se_idle_expires r \<and> se_idle_expires r \<le> se_absolute_expires r
    \<and> (case se_revoked r of None \<Rightarrow> True | Some t \<Rightarrow> t \<ge> se_issued_at r)"

definition write_session :: "TenantId \<Rightarrow> SessionId \<Rightarrow> (session_row \<Rightarrow> session_row) \<Rightarrow> (PgError, unit) tx" where
  "write_session tenant sid f =
    insert_checked (\<lambda>d. list_all (\<lambda>r. is_session tenant sid r \<longrightarrow> session_check (f r)) (d_sessions d))
      (\<lambda>d. d\<lparr>d_sessions := update_where (is_session tenant sid) f (d_sessions d)\<rparr>)"

definition touch :: "Loaded \<Rightarrow> (PgError, Loaded) tx" where
  "touch loaded =
    bind (lift (map_err (\<lambda>_. reject) (renew (ld_lifetime loaded) (ld_now loaded)))) (\<lambda>lifetime.
    bind (lift (sample_deadline (ld_sample loaded) (lt_idle_expires_at lifetime))) (\<lambda>expires.
    bind (write_session (ak_tenant (st_key (ld_state loaded))) (sv_id (ld_view loaded))
      (\<lambda>r. r\<lparr>se_idle_expires := lt_idle_expires_at lifetime\<rparr>)) (\<lambda>_.
    ret (loaded\<lparr>ld_lifetime := lifetime, ld_expires := expires,
      ld_view := SessionView_new (sv_id (ld_view loaded)) lifetime (sv_kind (ld_view loaded))\<rparr>))))"

definition close :: "AccountKey \<Rightarrow> SessionId \<Rightarrow> int \<Rightarrow> (PgError, unit) tx" where
  "close key sid t = write_session (ak_tenant key) sid (\<lambda>r. r\<lparr>se_revoked := Some t\<rparr>)"

subsection \<open>What a load establishes\<close>

lemma unchanged_refl [simp]: "unchanged d d"
  by (simp add: unchanged_def)

lemma check_source_Inr:
  "check_source L key og w = Inr (s, w') \<Longrightarrow> w' = w \<and> (case og of None \<Rightarrow> s = None
    | Some o1 \<Rightarrow> \<exists>f. s = Some f \<and> check_origin L key o1 w = Inr (f, w))"
  by (auto simp: check_source_def tx_simps split: option.splits dest: check_origin_Inr)

lemma load_facts_reads:
  assumes "checks_contract checks"
  shows "reads_only (load_facts key checks r og source fact_sample)"
  unfolding load_facts_def
  by (intro pure.steps store_reads platform_recheck_reads [OF assms] unchanged_refl)

lemma by_id_reads:
  assumes "checks_contract checks" shows "reads_only (by_id L key sid checks)"
  unfolding by_id_def check_source_def
  by (intro pure.steps store_reads load_reads load_facts_reads assms unchanged_refl)

lemma lookup_reads:
  assumes "checks_contract checks" shows "reads_only (lookup L tenant token kind checks)"
  unfolding lookup_def
  by (intro pure.steps store_reads by_id_reads assms unchanged_refl)

lemma recheck_reads:
  assumes "checks_contract (px_checks p)" shows "reads_only (recheck L p)"
  unfolding recheck_def
  by (intro pure.steps lookup_reads assms)

text \<open>The row a loaded session came from, and everything that held of it and of its account.\<close>

definition loaded_from :: "Libraries \<Rightarrow> SessionChecks \<Rightarrow> db \<Rightarrow> session_row \<Rightarrow> AccountKey \<Rightarrow> Loaded \<Rightarrow> bool" where
  "loaded_from L checks d r key l \<longleftrightarrow>
    find (is_session (ak_tenant key) (sv_id (ld_view l))) (d_sessions d) = Some r
    \<and> guarded d (ak_tenant key) \<and> account_of d key = Some (ld_state l) \<and> st_key (ld_state l) = key
    \<and> row_current key (ld_state l) r
    \<and> row_lifetime r = Ok (ld_lifetime l) \<and> valid_at (ld_lifetime l) (ld_now l)
    \<and> ld_now l = sample_seconds (ld_sample l)
    \<and> (\<exists>kind. credential_kind r = Ok kind \<and> ld_view l = SessionView_new (sv_id (ld_view l)) (ld_lifetime l) kind)
    \<and> (ld_source l = AuthenticationSource.Platform \<longrightarrow> sc_platform checks \<noteq> None)
    \<and> (case se_identity r of None \<Rightarrow> ld_source l \<noteq> AuthenticationSource.Oidc
       | Some i \<Rightarrow> ld_source l = AuthenticationSource.Oidc \<and>
           (\<exists>e\<in>set (d_identities d). \<exists>facts epoch. ei_tenant e = ak_tenant key \<and> ei_identity e = i
              \<and> ei_principal e = key_uuid key \<and> se_provider_epoch r = Some epoch \<and> se_facts r = Some facts
              \<and> live_provider (ak_tenant key) (ei_provider e) (af_provider_config_version facts) epoch d))"

lemma loaded_from_expires [simp]:
  "loaded_from L checks d r key (l\<lparr>ld_expires := e\<rparr>) = loaded_from L checks d r key l"
  by (simp add: loaded_from_def cong: option.case_cong)

lemma loaded_from_key: "loaded_from L checks d r key l \<Longrightarrow> st_key (ld_state l) = key"
  by (simp add: loaded_from_def)

lemma load_facts_source:
  assumes "load_facts key checks r og source fs w = Inr ((kind, a, g), w')"
  shows "(kind = AuthenticationSource.Oidc \<longleftrightarrow> og \<noteq> None)
    \<and> (kind = AuthenticationSource.Platform \<longrightarrow> sc_platform checks \<noteq> None)"
  using assms
  by (auto simp: load_facts_def tx_simps split: option.splits if_splits elim!: platform_recheck_Inr)

lemma read_sample_Inr:
  "read_sample w = Inr (s, w') \<Longrightarrow>
    s = \<lparr>ts_started = w_instants w (w_tick w), ts_micros = w_micros w (Suc (w_tick w))\<rparr>
    \<and> 0 < ts_micros s \<and> w' = w\<lparr>w_tick := Suc (Suc (w_tick w))\<rparr>"
  by (auto simp: read_sample_def tx_simps TimeSample_read_def split: if_splits)

lemma by_id_Inr:
  assumes "by_id L key sid checks w = Inr (l, w')"
  shows "sv_id (ld_view l) = sid \<and> (\<exists>r. loaded_from L checks (w_db w) r key l)
    \<and> ld_sample l = \<lparr>ts_started = w_instants w (w_tick w), ts_micros = w_micros w (Suc (w_tick w))\<rparr>
    \<and> sample_deadline (ld_sample l) (sv_idle_expires_at (ld_view l)) = Ok (ld_expires l)"
proof -
  from assms obtain stored r og source lifetime sample department kind assurance groups credential w1 w2 w3 w4 group_facts
    where s: "load key w = Inr (stored, w1)"
    and r: "find (is_session (ak_tenant key) sid) (d_sessions (w_db w1)) = Some r"
    and cur: "row_current key (so_state stored) r"
    and og: "origin (ak_tenant key) sid w1 = Inr (og, w2)"
    and src: "check_source L key og w2 = Inr (source, w3)"
    and lt: "row_lifetime r = Ok lifetime"
    and smp: "read_sample w3 = Inr (sample, w4)"
    and valid: "valid_at lifetime (sample_seconds sample)"
    and facts: "load_facts key checks r og source (sample_for_facts (sc_controlled checks) sample) w4 = Inr ((kind, assurance, groups), w')"
    and expires: "sample_deadline sample (lt_idle_expires_at lifetime) = Ok (ld_expires l)"
    and cred: "credential_kind r = Ok credential"
    and l: "ld_source l = kind" "ld_sample l = sample" "ld_state l = so_state stored" "ld_lifetime l = lifetime"
      "ld_view l = SessionView_new sid lifetime credential" "ld_now l = sample_seconds sample"
    unfolding by_id_def Let_def
    by (elim bindE) (auto elim!: bindE split: prod.splits)
  note st = load_Inr [THEN iffD1, OF s] load_state [OF s]
  then have w1: "w1 = w" by simp
  from og w1 have og': "decode_origin (w_violation w) r = Ok og" and w2: "w2 = w" using r by (auto simp: origin_Inr)
  from check_source_Inr [OF src] w2 have w3: "w3 = w" by simp
  note sample = read_sample_Inr [OF smp, unfolded w3]
  have id: "sv_id (ld_view l) = sid" using l by (simp add: SessionView_new_def)
  have fed: "case se_identity r of None \<Rightarrow> ld_source l \<noteq> AuthenticationSource.Oidc
       | Some i \<Rightarrow> ld_source l = AuthenticationSource.Oidc \<and>
           (\<exists>e\<in>set (d_identities (w_db w)). \<exists>facts epoch. ei_tenant e = ak_tenant key \<and> ei_identity e = i
              \<and> ei_principal e = key_uuid key \<and> se_provider_epoch r = Some epoch \<and> se_facts r = Some facts
              \<and> live_provider (ak_tenant key) (ei_provider e) (af_provider_config_version facts) epoch (w_db w))"
  proof (cases og)
    case None
    with decode_origin_None og' load_facts_source [OF facts] l show ?thesis by auto
  next
    case (Some o1)
    with check_source_Inr [OF src] w2 obtain f where "check_origin L key o1 w = Inr (f, w)" by auto
    from check_origin_Inr [OF this] decode_origin_Some [OF og' [unfolded Some]] load_facts_source [OF facts] l Some
    show ?thesis by auto
  qed
  have "loaded_from L checks (w_db w) r key l"
    unfolding loaded_from_def id
    using st w1 r cur lt valid l fed cred load_facts_source [OF facts] by auto
  with id sample expires l show ?thesis by (auto simp: SessionView_new_def)
qed

text \<open>A lookup that succeeds found a row with the digest it was asked for.\<close>

lemma lookup_Inr:
  assumes "lookup L tenant token kind checks w = Inr (l, w')"
  shows "\<exists>r. loaded_from L checks (w_db w) r (st_key (ld_state l)) l \<and> ak_tenant (st_key (ld_state l)) = tenant
    \<and> sv_kind (ld_view l) = kind
    \<and> (\<exists>r'. find (has_token tenant token) (d_sessions (w_db w)) = Some r'
        \<and> sv_id (ld_view l) = SessionId (se_session r'))"
proof -
  from assms obtain r' w1 again where
    r': "find (has_token tenant token) (d_sessions (w_db w)) = Some r'"
    and load: "by_id L \<lparr>ak_tenant = tenant, ak_principal = PrincipalId (se_principal r')\<rparr> (SessionId (se_session r')) checks w = Inr (l, w1)"
    and kind: "sv_kind (ld_view l) = kind"
    unfolding lookup_def Let_def by (elim bindE) auto
  from by_id_Inr [OF load] obtain r where
    r: "loaded_from L checks (w_db w) r \<lparr>ak_tenant = tenant, ak_principal = PrincipalId (se_principal r')\<rparr> l"
    and sid: "sv_id (ld_view l) = SessionId (se_session r')" by blast
  then have "st_key (ld_state l) = \<lparr>ak_tenant = tenant, ak_principal = PrincipalId (se_principal r')\<rparr>"
    by (simp add: loaded_from_def)
  with r r' sid kind show ?thesis by auto
qed

lemma recheck_Inr:
  assumes "recheck L p w = Inr (l, w')"
  shows "\<exists>r. loaded_from L (px_checks p) (w_db w) r (px_key p) l \<and> st_key (ld_state l) = px_key p
    \<and> sv_id (ld_view l) = sv_id (px_view p) \<and> sv_kind (ld_view l) = sv_kind (px_view p)
    \<and> d_authority (w_db w) = px_authority p \<and> ld_expires l \<le> px_expires p
    \<and> w_instants w (w_tick w) < px_expires p"
proof -
  from assms obtain w1 w2 found where found:
    "lookup L (ak_tenant (px_key p)) (px_digest p) (sv_kind (px_view p)) (px_checks p) w1 = Inr (found, w2)"
    and w1: "w_db w1 = w_db w"
    and l: "l = found\<lparr>ld_expires := min (ld_expires found) (px_expires p)\<rparr>"
    and ok: "st_key (ld_state l) = px_key p" "sv_id (ld_view l) = sv_id (px_view p)"
      "d_authority (w_db w) = px_authority p" "w_instants w (w_tick w) < px_expires p"
    unfolding recheck_def Let_def by (elim bindE) auto
  from lookup_Inr [OF found] w1 obtain r where
    "loaded_from L (px_checks p) (w_db w) r (st_key (ld_state found)) found" "sv_kind (ld_view found) = sv_kind (px_view p)"
    by auto
  with l ok have "loaded_from L (px_checks p) (w_db w) r (px_key p) l" "sv_kind (ld_view l) = sv_kind (px_view p)"
    by auto
  with l ok show ?thesis by auto
qed

lemma touch_Inr:
  assumes "touch l w = Inr (l', w')"
  shows "renew (ld_lifetime l) (ld_now l) = Ok (ld_lifetime l')
    \<and> l' = l\<lparr>ld_lifetime := ld_lifetime l', ld_expires := ld_expires l',
        ld_view := SessionView_new (sv_id (ld_view l)) (ld_lifetime l') (sv_kind (ld_view l))\<rparr>
    \<and> sample_deadline (ld_sample l) (lt_idle_expires_at (ld_lifetime l')) = Ok (ld_expires l')
    \<and> w' = w\<lparr>w_db := (w_db w)\<lparr>d_sessions := update_where
        (is_session (ak_tenant (st_key (ld_state l))) (sv_id (ld_view l)))
        (\<lambda>r. r\<lparr>se_idle_expires := lt_idle_expires_at (ld_lifetime l')\<rparr>) (d_sessions (w_db w))\<rparr>\<rparr>"
  using assms by (auto simp: touch_def write_session_def tx_simps)

lemma close_Inr:
  assumes "close key sid t w = Inr (u, w')"
  shows "w' = w\<lparr>w_db := (w_db w)\<lparr>d_sessions := update_where (is_session (ak_tenant key) sid)
        (\<lambda>r. r\<lparr>se_revoked := Some t\<rparr>) (d_sessions (w_db w))\<rparr>\<rparr>"
  using assms by (auto simp: close_def write_session_def tx_simps)

end
