(* ===== verification/Management.thy ===== *)
theory Management
  imports Session_Store
begin

section \<open>The authority and host authorization (identity-postgres/src/lib.rs, management.rs)\<close>

text \<open>
  \<open>Authority\<close> is what every operation runs on. Management operations are authorized by a policy
  of the host, which borrows the transaction: it is a transaction body and a parameter, with
  \<open>policy_contract\<close> (it does not change the authority's tables) for what the code documents of
  it. \<open>authorize\<close> hands it the context of a freshly loaded session and enforces the recency of
  the authentication that the policy asks for.
\<close>

datatype ManagementOperation =
  RegisterWebauthn | RemoveWebauthn | RecoverWebauthn | AuthorizeWebauthnRecovery
| ReadProfileSources | ReadLocalProfile | UpdateLocalProfile | ReadLatestProfile
| ListAccounts | ReadAccount | ReadLatestDepartments | CreateAccount
| ProvisionAccount TenantId | SetAccountEnabled bool | SetMembership bool
| ResetPassword | ChangeOwnPassword | ListProviders | CreateProvider
| UpdateProvider ProviderId | SetProviderEnabled ProviderId bool | TestProvider ProviderId

datatype ReauthenticationRequirement = NoRequirement | Recent int | RecentMfa int

datatype ManagementDenied = ManagementDenied

record ManagementContext =
  mc_instance :: InstanceId
  mc_actor :: AccountKey
  mc_target :: "AccountKey option"
  mc_operation :: ManagementOperation
  mc_assurance :: Assurance
  mc_groups :: GroupFacts
  mc_department :: DepartmentFacts
  mc_expires :: instant

type_synonym ManagementPolicy =
  "ManagementContext \<Rightarrow> (ManagementDenied, ReauthenticationRequirement) tx"

definition deny_management :: ManagementPolicy where
  "deny_management cx = fail ManagementDenied"

definition policy_contract :: "ManagementPolicy \<Rightarrow> bool" where
  "policy_contract policy \<longleftrightarrow> (\<forall>cx. reads_only (policy cx))"

definition is_provision :: "ManagementOperation \<Rightarrow> bool" where
  "is_provision operation \<longleftrightarrow> (case operation of ProvisionAccount _ \<Rightarrow> True | _ \<Rightarrow> False)"

definition requirement_age :: "ReauthenticationRequirement \<Rightarrow> (int \<times> bool) option" where
  "requirement_age r =
    (case r of NoRequirement \<Rightarrow> None | Recent age \<Rightarrow> Some (age, False) | RecentMfa age \<Rightarrow> Some (age, True))"

definition check_recency :: "Loaded \<Rightarrow> ReauthenticationRequirement \<Rightarrow> (AccountRuleError, unit) tx" where
  "check_recency loaded requirement =
    (case requirement_age requirement of
      None \<Rightarrow> ret ()
    | Some (max_age, mfa) \<Rightarrow>
        bind instant_now (\<lambda>t.
        require (\<not> (\<not> recently_authenticated loaded max_age t
            \<or> mfa \<and> as_acr (ld_assurance loaded) \<noteq> Acr.Mfa)) ReauthenticationRequired))"

definition authorize ::
  "ManagementPolicy \<Rightarrow> InstanceId \<Rightarrow> Loaded \<Rightarrow> ManagementOperation \<Rightarrow> AccountKey option
    \<Rightarrow> (AccountRuleError, unit) tx" where
  "authorize policy instance_id loaded operation target =
    bind instant_now (\<lambda>t.
    bind (require (\<not> t \<ge> ld_expires loaded) InsufficientPrivilege) (\<lambda>_.
    bind (require (\<not> ((case target of None \<Rightarrow> False
            | Some k \<Rightarrow> ak_tenant k \<noteq> ak_tenant (st_key (ld_state loaded))) \<and> \<not> is_provision operation))
          InsufficientPrivilege) (\<lambda>_.
    bind (widen (\<lambda>_. InsufficientPrivilege) (policy
      \<lparr>mc_instance = instance_id, mc_actor = st_key (ld_state loaded), mc_target = target,
       mc_operation = operation, mc_assurance = ld_assurance loaded, mc_groups = ld_groups loaded,
       mc_department = ld_department loaded, mc_expires = ld_expires loaded\<rparr>)) (\<lambda>requirement.
    bind instant_now (\<lambda>t.
    bind (require (\<not> t \<ge> ld_expires loaded) InsufficientPrivilege) (\<lambda>_.
    check_recency loaded requirement))))))"

record PasswordKdf =
  kd_hash :: "Password \<Rightarrow> world \<Rightarrow> (PasswordError + PasswordEncoding) option"
  kd_verify :: "Password \<Rightarrow> PasswordEncoding \<Rightarrow> world \<Rightarrow> (PasswordError + bool) option"
  kd_dummy :: "Password \<Rightarrow> world \<Rightarrow> (PasswordError + unit) option"

record Authority =
  au_libs :: Libraries
  au_bundle :: RuntimeBundle
  au_profile :: AuthorityProfile
  au_instance :: InstanceId
  au_checks :: SessionChecks
  au_session_policy :: SessionPolicy
  au_policy :: ManagementPolicy
  au_limits :: ProfileLimits
  au_kdf :: PasswordKdf

definition require_maintenance :: "Authority \<Rightarrow> AuthorityError + unit" where
  "require_maintenance a = ensure (\<not> au_profile a \<noteq> Maintenance) AuthorityError.Rejected"

definition require_runtime :: "Authority \<Rightarrow> AuthorityError + unit" where
  "require_runtime a = ensure (\<not> au_profile a \<noteq> Runtime) AuthorityError.Rejected"

definition tenant_active :: "Authority \<Rightarrow> TenantId \<Rightarrow> bool" where
  "tenant_active a tenant \<longleftrightarrow> tenant \<in> set (bu_tenants (au_bundle a))"

definition authority_contract :: "Authority \<Rightarrow> bool" where
  "authority_contract a \<longleftrightarrow> audit_contract (au_bundle a) \<and> checks_contract (au_checks a)
    \<and> policy_contract (au_policy a)"

text \<open>\<open>AuthorityConfig::new\<close>: between 1 and 128 distinct tenants, in the order of their text.\<close>

definition AuthorityConfig_tenants :: "(TenantId \<Rightarrow> ustr) \<Rightarrow> TenantId list \<Rightarrow> AuthorityError + TenantId list" where
  "AuthorityConfig_tenants show_tenant tenants =
    (let sorted_tenants = sort_key (\<lambda>t. map int (show_tenant t)) tenants in
     if sorted_tenants = [] \<or> length sorted_tenants > 128
        \<or> list_ex (\<lambda>i. sorted_tenants ! i = sorted_tenants ! Suc i) [0..<length sorted_tenants - 1]
     then Err AuthorityError.Configuration else Ok sorted_tenants)"

text \<open>\<open>connect\<close>: one transaction that validates the audit schema and probes the database, one for
  each further tenant. The probe and the validation are bodies supplied by their owners.\<close>

fun fence_tenants :: "RuntimeBundle \<Rightarrow> instant \<Rightarrow> TenantId list \<Rightarrow> unit op" where
  "fence_tenants b budget [] = op_ret ()"
| "fence_tenants b budget (t # ts) =
    op_bind (Budget_remaining budget) (\<lambda>timeout.
    op_bind (read b t timeout (ret ())) (\<lambda>_.
    fence_tenants b budget ts))"

definition connect ::
  "Authority \<Rightarrow> (PgError, unit) tx \<Rightarrow> (PgError, ustr option) tx \<Rightarrow> int \<Rightarrow> Authority op" where
  "connect a validate_audit probe deadline =
    op_bind (Budget_new deadline) (\<lambda>budget.
    op_bind (Budget_remaining budget) (\<lambda>timeout.
    op_bind (op_try (\<lambda>w. case read_bundle (au_bundle a) (hd (bu_tenants (au_bundle a))) timeout False
        (widen no_slot (bind validate_audit (\<lambda>_. probe))) w of (r, _, w') \<Rightarrow> (r, w'))) (\<lambda>valid.
    op_bind (op_lift (check_probe valid)) (\<lambda>_.
    op_bind (fence_tenants (au_bundle a) budget (tl (bu_tenants (au_bundle a)))) (\<lambda>_.
    op_ret a)))))"

subsection \<open>What an authorization establishes\<close>

lemma authorize_reads:
  assumes "policy_contract policy" shows "reads_only (authorize policy i l operation target)"
proof -
  have "reads_only (policy cx)" for cx using assms by (simp add: policy_contract_def)
  then show ?thesis
    unfolding authorize_def check_recency_def by (intro pure.steps)
qed

lemma authorize_Inr:
  assumes "authorize policy i l operation target w = Inr (u, w')"
  shows "w_instants w (w_tick w) < ld_expires l
    \<and> (\<forall>k. target = Some k \<longrightarrow> is_provision operation \<or> ak_tenant k = ak_tenant (st_key (ld_state l)))
    \<and> (\<exists>w1 requirement w2. w_db w1 = w_db w \<and> policy
        \<lparr>mc_instance = i, mc_actor = st_key (ld_state l), mc_target = target,
         mc_operation = operation, mc_assurance = ld_assurance l, mc_groups = ld_groups l,
         mc_department = ld_department l, mc_expires = ld_expires l\<rparr> w1 = Inr (requirement, w2)
      \<and> w_db w' = w_db w2
      \<and> (\<forall>age mfa. requirement_age requirement = Some (age, mfa) \<longrightarrow>
           (\<exists>t. recently_authenticated l age t) \<and> (mfa \<longrightarrow> as_acr (ld_assurance l) = Acr.Mfa)))"
proof -
  let ?cx = "\<lparr>mc_instance = i, mc_actor = st_key (ld_state l), mc_target = target,
         mc_operation = operation, mc_assurance = ld_assurance l, mc_groups = ld_groups l,
         mc_department = ld_department l, mc_expires = ld_expires l\<rparr>"
  let ?w1 = "w\<lparr>w_tick := Suc (w_tick w)\<rparr>"
  from assms obtain requirement w2 where p: "policy ?cx ?w1 = Inr (requirement, w2)"
    and pre: "w_instants w (w_tick w) < ld_expires l"
      "\<forall>k. target = Some k \<longrightarrow> is_provision operation \<or> ak_tenant k = ak_tenant (st_key (ld_state l))"
    and rest: "check_recency l requirement (w2\<lparr>w_tick := Suc (w_tick w2)\<rparr>) = Inr ((), w')"
    unfolding authorize_def by (elim bindE) (auto split: option.splits)
  have "w_db w' = w_db w2 \<and> (\<forall>age mfa. requirement_age requirement = Some (age, mfa) \<longrightarrow>
           (\<exists>t. recently_authenticated l age t) \<and> (mfa \<longrightarrow> as_acr (ld_assurance l) = Acr.Mfa))"
    using rest by (auto simp: check_recency_def bind_Inr split: option.splits prod.splits)
  with p pre show ?thesis by (intro conjI exI [of _ ?w1] exI [of _ requirement] exI [of _ w2]) simp_all
qed

end
