(* ===== verification/Profile_Store.thy ===== *)
theory Profile_Store
  imports Management
begin

section \<open>Stored profiles (identity-postgres/src/profiles.rs, profile_admission.rs)\<close>

text \<open>
  Two kinds of profile are stored for an account: the local profile that a manager writes, with a
  revision and a receipt for every operation, and the latest observation of each source, taken at
  a login and numbered by the tenant's sequence. A session refers to the snapshot that its own
  login observed, and a later snapshot of the source never takes its place.
\<close>

subsection \<open>Observations\<close>

definition profile_event ::
  "AccountKey \<Rightarrow> AccountKey option \<Rightarrow> ustr \<Rightarrow> ProfileSource \<Rightarrow> uuid option \<Rightarrow> int option \<Rightarrow> ustr list
    \<Rightarrow> SecurityEvent" where
  "profile_event key actor action source snapshot revision changed =
    SecurityEvent.Profile \<lparr>pev_tenant = ak_tenant key, pev_principal = key_uuid key,
      pev_actor = map_option (\<lambda>a. key_uuid a) actor, pev_action = action, pev_source = source,
      pev_snapshot_id = snapshot, pev_revision = revision, pev_changed_fields = changed\<rparr>"

definition changes :: "Profile option \<Rightarrow> Profile \<Rightarrow> ustr list" where
  "changes previous next =
    map fst (filter snd
      [(lit ''displayName'', map_option pr_display_name previous \<noteq> Some (pr_display_name next)),
       (lit ''username'', map_option pr_username previous \<noteq> Some (pr_username next)),
       (lit ''email'', map_option pr_email previous \<noteq> Some (pr_email next)),
       (lit ''emailVerified'', map_option pr_email_verified previous \<noteq> Some (pr_email_verified next)),
       (lit ''extensions'', map_option pr_extensions previous \<noteq> Some (pr_extensions next))])"

record Observation =
  on_source :: ProfileSource
  on_profile :: Profile
  on_source_time :: int
  on_source_expiry :: int
  on_max_age :: nat
  on_sequence :: int
  on_config_version :: "int option"
  on_source_epoch :: "int option"
  on_revision :: "int option"

text \<open>Reading a stored document runs the constructor of its extensions.\<close>

definition profile_from_value :: "Libraries \<Rightarrow> Profile \<Rightarrow> PgError + Profile" where
  "profile_from_value L p =
    (case pr_extensions p of
       Attribute.Available e \<Rightarrow>
         and_then (map_err (\<lambda>_. corrupt) (Extensions_try_from (xl_json_len L) (Object (ext_object e)))) (\<lambda>x.
         Ok (p\<lparr>pr_extensions := Attribute.Available x\<rparr>))
     | _ \<Rightarrow> Ok p)"

definition local_from_value :: "Libraries \<Rightarrow> LocalProfile \<Rightarrow> PgError + LocalProfile" where
  "local_from_value L p =
    and_then (map_err (\<lambda>_. corrupt)
      (Extensions_try_from (xl_json_len L) (Object (ext_object (lp_extensions p))))) (\<lambda>x.
    Ok (p\<lparr>lp_extensions := x\<rparr>))"

definition is_local_profile :: "AccountKey \<Rightarrow> local_profile_row \<Rightarrow> bool" where
  "is_local_profile key r \<longleftrightarrow> lo_tenant r = ak_tenant key \<and> lo_principal r = key_uuid key"

definition decode_local :: "Libraries \<Rightarrow> local_profile_row option \<Rightarrow> PgError + (Profile \<times> nat \<times> int option)" where
  "decode_local L row =
    (case row of
       None \<Rightarrow> Ok (Profile_missing, 14400, None)
     | Some r \<Rightarrow>
         (case lo_value r of
            None \<Rightarrow> Ok (Profile_missing, 14400, Some (lo_revision r))
          | Some v \<Rightarrow>
              and_then (local_from_value L v) (\<lambda>lp.
              and_then (map_err (\<lambda>_. corrupt) (observation lp)) (\<lambda>p.
              Ok (p, lp_max_age_seconds lp, Some (lo_revision r))))))"

definition local_observation :: "Libraries \<Rightarrow> AccountKey \<Rightarrow> int \<Rightarrow> (PgError, Observation) tx" where
  "local_observation L key t =
    bind (query (\<lambda>d. find (is_local_profile key) (d_local_profiles d))) (\<lambda>row.
    bind (lift (decode_local L row)) (\<lambda>(profile, max_age, revision).
    bind (sequence (ak_tenant key)) (\<lambda>n.
    ret \<lparr>on_source = ProfileSource.IdentityLocal, on_profile = profile, on_source_time = t,
         on_source_expiry = i64_max, on_max_age = max_age, on_sequence = n,
         on_config_version = None, on_source_epoch = None, on_revision = revision\<rparr>)))"

definition oidc_observation :: "UpstreamClaims \<Rightarrow> ProviderView \<Rightarrow> int \<Rightarrow> Observation" where
  "oidc_observation claims view n =
    \<lparr>on_source = ProfileSource.Idp (vw_id view), on_profile = uc_profile claims, on_source_time = uc_issued_at claims,
     on_source_expiry = uc_expires_at claims,
     on_max_age = ps_max_age_seconds (cm_profile (pv_claims (vw_settings view))), on_sequence = n,
     on_config_version = Some (vw_version view), on_source_epoch = Some (vw_revocation_epoch view),
     on_revision = None\<rparr>"

definition is_observation :: "AccountKey \<Rightarrow> ProfileSource \<Rightarrow> observation_row \<Rightarrow> bool" where
  "is_observation key source r \<longleftrightarrow>
    ob_tenant r = ak_tenant key \<and> ob_principal r = key_uuid key \<and> ob_source r = source"

definition observation_check :: "observation_row \<Rightarrow> bool" where
  "observation_check r \<longleftrightarrow> ob_sequence r > 0 \<and> ob_observed r > 0 \<and> ob_collected r > 0
    \<and> ob_expires r > ob_observed r \<and> ob_expires r - ob_observed r \<le> 86400
    \<and> (case ob_source r of
         ProfileSource.IdentityLocal \<Rightarrow> ob_config_version r = None \<and> ob_source_epoch r = None
       | ProfileSource.Idp _ \<Rightarrow> ob_source_revision r = None
           \<and> (case ob_config_version r of None \<Rightarrow> False | Some v \<Rightarrow> v > 0)
           \<and> (case ob_source_epoch r of None \<Rightarrow> False | Some v \<Rightarrow> v > 0))"

text \<open>The condition of the \<open>DO UPDATE\<close>: a newer number, and a source time that does not go back
  within one configuration.\<close>

definition supersedes :: "observation_row \<Rightarrow> observation_row \<Rightarrow> bool" where
  "supersedes new old \<longleftrightarrow> ob_sequence old < ob_sequence new
    \<and> (ob_config_version old \<noteq> ob_config_version new \<or> ob_observed old \<le> ob_observed new)"

definition admits_observation :: "AccountKey \<Rightarrow> observation_row \<Rightarrow> db \<Rightarrow> bool" where
  "admits_observation key row d \<longleftrightarrow>
    (case find (is_observation key (ob_source row)) (d_observations d) of
       None \<Rightarrow> True | Some old \<Rightarrow> supersedes row old)"

definition bind_profile :: "TenantId \<Rightarrow> SessionId \<Rightarrow> ProfileSource \<Rightarrow> uuid \<Rightarrow> db \<Rightarrow> db" where
  "bind_profile tenant session source snapshot d =
    d\<lparr>d_sessions := update_where (is_session tenant session)
       (\<lambda>r. r\<lparr>se_profile_source := Some source, se_profile_snapshot := Some snapshot\<rparr>) (d_sessions d)\<rparr>"

definition observed_row ::
  "AccountKey \<Rightarrow> Observation \<Rightarrow> Profile \<Rightarrow> uuid \<Rightarrow> int \<Rightarrow> int \<Rightarrow> observation_row" where
  "observed_row key v profile snapshot collected expiry =
    \<lparr>ob_tenant = ak_tenant key, ob_principal = key_uuid key, ob_source = on_source v,
     ob_config_version = on_config_version v, ob_source_epoch = on_source_epoch v,
     ob_source_revision = on_revision v, ob_snapshot = snapshot, ob_sequence = on_sequence v,
     ob_observed = on_source_time v, ob_collected = collected, ob_expires = expiry, ob_value = profile\<rparr>"

text \<open>\<open>accept\<close>: the previous value is read, the row written if it supersedes what is stored, and the
  session bound to it. The snapshot's identifier is fresh.\<close>

definition previous_profile :: "Libraries \<Rightarrow> observation_row option \<Rightarrow> PgError + Profile option" where
  "previous_profile L row =
    (case row of None \<Rightarrow> Ok None
     | Some r \<Rightarrow> and_then (profile_from_value L (ob_value r)) (\<lambda>p. Ok (Some p)))"

definition put_observation :: "AccountKey \<Rightarrow> observation_row \<Rightarrow> (PgError, bool) tx" where
  "put_observation key row =
    bind (query (admits_observation key row)) (\<lambda>accepted.
    bind (insert_checked (\<lambda>_. observation_check row)
      (\<lambda>d. if accepted then d\<lparr>d_observations :=
         upsert (is_observation key (ob_source row)) (\<lambda>_. row) (d_observations d)\<rparr> else d)) (\<lambda>_.
    ret accepted))"

definition store_observation ::
  "Libraries \<Rightarrow> uuid \<Rightarrow> AccountKey \<Rightarrow> SessionId \<Rightarrow> Observation \<Rightarrow> Profile \<Rightarrow> int
    \<Rightarrow> (PgError, SecurityEvent option) tx" where
  "store_observation L snapshot key session v profile expiry =
    bind (query (\<lambda>d. find (is_observation key (on_source v)) (d_observations d))) (\<lambda>row.
    bind (lift (previous_profile L row)) (\<lambda>previous.
    bind clock_timestamp (\<lambda>collected.
    bind (put_observation key (observed_row key v profile snapshot collected expiry)) (\<lambda>accepted.
    if \<not> accepted then ret None
    else
      bind (exec (bind_profile (ak_tenant key) session (on_source v) snapshot)) (\<lambda>_.
      ret (Some (profile_event key None (lit ''observed'') (on_source v) (Some snapshot)
        (on_revision v) (changes previous profile))))))))"

definition accept ::
  "Libraries \<Rightarrow> uuid \<Rightarrow> AccountKey \<Rightarrow> SessionId \<Rightarrow> int \<Rightarrow> Observation \<Rightarrow> ProfileLimits
    \<Rightarrow> (PgError, SecurityEvent option) tx" where
  "accept L snapshot key session absolute v limits =
    bind (lift (map_err (\<lambda>_. corrupt) (Profile_validate (on_profile v)))) (\<lambda>_.
    let profile = apply_limits (xl_json_len L) limits (on_profile v);
        max_age = min (on_max_age v) (pl_max_age limits) in
    bind now (\<lambda>t.
    bind (lift (ok_or corrupt (checked_add (on_source_time v) (int max_age)))) (\<lambda>end_of_age.
    let expiry = min (min end_of_age (on_source_expiry v)) absolute in
    if on_source_time v > t \<or> expiry \<le> t then ret None
    else store_observation L snapshot key session v profile expiry)))"

definition retain_binding :: "AccountKey \<Rightarrow> SessionId \<Rightarrow> SessionId \<Rightarrow> (PgError, unit) tx" where
  "retain_binding key old new =
    bind (query (\<lambda>d. find (\<lambda>r. is_session (ak_tenant key) old r \<and> se_principal r = key_uuid key) (d_sessions d))) (\<lambda>o'.
    bind (query (\<lambda>d. find (\<lambda>r. is_session (ak_tenant key) new r \<and> se_principal r = key_uuid key) (d_sessions d))) (\<lambda>n.
    bind (require (o' \<noteq> None \<and> n \<noteq> None) corrupt) (\<lambda>_.
    exec (\<lambda>d. d\<lparr>d_sessions := update_where
      (\<lambda>r. is_session (ak_tenant key) new r \<and> se_principal r = key_uuid key)
      (\<lambda>r. r\<lparr>se_profile_source := se_profile_source (the o'),
             se_profile_snapshot := se_profile_snapshot (the o')\<rparr>) (d_sessions d)\<rparr>))))"

subsection \<open>Readers\<close>

record Reader =
  rd_key :: AccountKey
  rd_digest :: "byte list"
  rd_session :: SessionId
  rd_kind :: CredentialKind
  rd_instance :: uuid
  rd_expires :: instant
  rd_checks :: SessionChecks

text \<open>\<open>AuthenticatedSession::check_live\<close>, which every access to a proof starts with.\<close>

definition check_live :: "AuthenticatedSession \<Rightarrow> unit op" where
  "check_live actor = op_bind op_instant (\<lambda>t. op_require (\<not> t \<ge> px_expires actor) AuthorityError.Rejected)"

definition Reader_new :: "AuthenticatedSession \<Rightarrow> Reader op" where
  "Reader_new actor =
    op_bind (check_live actor) (\<lambda>_.
    op_ret \<lparr>rd_key = px_key actor, rd_digest = px_digest actor, rd_session = sv_id (px_view actor),
      rd_kind = sv_kind (px_view actor), rd_instance = px_authority actor, rd_expires = px_expires actor,
      rd_checks = px_checks actor\<rparr>)"

definition Reader_recheck :: "Libraries \<Rightarrow> Reader \<Rightarrow> (PgError, Loaded) tx" where
  "Reader_recheck L reader =
    bind instant_now (\<lambda>t.
    bind authority_id (\<lambda>authority.
    bind (require (\<not> (t \<ge> rd_expires reader \<or> authority \<noteq> rd_instance reader)) reject) (\<lambda>_.
    bind (lookup L (ak_tenant (rd_key reader)) (rd_digest reader) (rd_kind reader) (rd_checks reader)) (\<lambda>loaded.
    bind (require (\<not> (sv_id (ld_view loaded) \<noteq> rd_session reader \<or> st_key (ld_state loaded) \<noteq> rd_key reader))
      reject) (\<lambda>_.
    ret loaded)))))"

text \<open>sessions.rs \<open>checked_expiry\<close>: all waiting so far counts before the success is reported.\<close>

definition checked_expiry :: "Loaded \<Rightarrow> instant \<Rightarrow> (PgError, instant) tx" where
  "checked_expiry loaded budget =
    (let expires = min budget (ld_expires loaded) in
     bind instant_now (\<lambda>t.
     bind (require (\<not> t \<ge> expires) reject) (\<lambda>_.
     ret expires)))"

definition load_active :: "AccountKey \<Rightarrow> (MutationError, unit) tx" where
  "load_active target =
    bind (widen Storage (load target)) (\<lambda>stored.
    require (active (so_state stored)) (Storage reject))"

end
