(* ===== verification/Samples.thy ===== *)
theory Samples
  imports Management
begin

section \<open>A deployment for the examples\<close>

text \<open>
  One tenant with one account that is signed in by password, an authority whose policy allows
  everything and whose runtime commits, and the proof a request of that session holds. The
  witnesses of the later theories run on it.
\<close>

definition sample_libs :: Libraries where
  "sample_libs = \<lparr>xl_show_uuid = hyphenated, xl_url_parse = sample_url, xl_sha256 = (\<lambda>bs. take 32 (bs @ replicate 32 0)),
     xl_json_size = (\<lambda>_. 100), xl_json_len = (\<lambda>_. Some 10),
     xl_platform_size = (\<lambda>_. 100), xl_context_size = (\<lambda>_. 100), xl_source_size = (\<lambda>_. 100),
     xl_settings_size = (\<lambda>_. 100), xl_binding_size = (\<lambda>_. 100), xl_purpose_size = (\<lambda>_. 100), xl_target_size = (\<lambda>_. 100),
     xl_sealed_size = (\<lambda>_. 100), xl_ceremony_size = (\<lambda>_. 100), xl_value_size = (\<lambda>_. 100),
     xl_encode = encode82, xl_decode = decode82, xl_hmac = (\<lambda>_ _. replicate 32 1),
     xl_parse_uuid = sample_parse_uuid, xl_parse_tenant = sample_parse_tenant, xl_show_tenant = sample_show_tenant\<rparr>"

definition allow_all :: ManagementPolicy where "allow_all cx = ret NoRequirement"

definition sample_kdf :: PasswordKdf where
  "sample_kdf = \<lparr>kd_hash = (\<lambda>_ _. Some (Ok (PasswordEncoding [98]))), kd_verify = (\<lambda>_ _ _. Some (Ok True)),
     kd_dummy = (\<lambda>_ _. Some (Ok ()))\<rparr>"

definition sample_authority :: Authority where
  "sample_authority = \<lparr>au_libs = sample_libs, au_bundle = sample_bundle, au_profile = Runtime,
     au_instance = InstanceId 5, au_checks = no_checks,
     au_session_policy = \<lparr>pol_idle = 900, pol_absolute = 10000\<rparr>, au_policy = allow_all,
     au_limits = ProfileLimits_default, au_kdf = sample_kdf\<rparr>"

definition user_key :: AccountKey where
  "user_key = \<lparr>ak_tenant = sample_tenant, ak_principal = PrincipalId 2\<rparr>"

definition user_token :: "byte list" where "user_token = replicate 32 7"

definition user_session :: session_row where
  "user_session = \<lparr>se_tenant = sample_tenant, se_principal = 2, se_facts_sequence = None, se_session = 3,
     se_source = lit ''local_password'', se_local_at = Some 900, se_platform = None, se_kind = lit ''cookie'',
     se_hash = user_token, se_auth_epoch = 1, se_membership_epoch = 1, se_issued_at = 900,
     se_idle_timeout = 900, se_absolute_timeout = 10000, se_idle_expires = 1800,
     se_absolute_expires = 10900, se_revoked = None, se_profile_source = None,
     se_profile_snapshot = None, se_identity = None, se_provider_epoch = None, se_facts = None\<rparr>"

definition session_db :: db where "session_db = sample_db\<lparr>d_sessions := [user_session]\<rparr>"

definition session_world :: world where "session_world = sample_world\<lparr>w_db := session_db\<rparr>"

definition user_lifetime :: SessionLifetime where
  "user_lifetime = \<lparr>lt_policy = \<lparr>pol_idle = 900, pol_absolute = 10000\<rparr>, lt_issued_at = 900,
     lt_idle_expires_at = 1800, lt_absolute_expires_at = 10900\<rparr>"

definition user_view :: SessionView where "user_view = SessionView_new (SessionId 3) user_lifetime Cookie"

definition user_state :: AccountState where
  "user_state = \<lparr>st_key = user_key, st_enabled = True, st_member_active = True, st_epoch = 1,
     st_has_local_password = True, st_membership_epoch = 1\<rparr>"

definition user_proof :: AuthenticatedSession where
  "user_proof = \<lparr>px_checks = no_checks, px_key = user_key, px_digest = user_token, px_authority = 5,
     px_expires = 500000000, px_view = user_view, px_identity = SessionIdentity_from_state user_state,
     px_assurance = \<lparr>as_auth_time = Some 900, as_acr = Acr.Unspecified, as_amr = [Pwd]\<rparr>, px_source = LocalPassword,
     px_groups = \<lparr>gf_facts = groups_unavailable FactUnavailableReason.LocalIdentity, gf_expires = 0\<rparr>,
     px_department = DepartmentFacts.Unavailable DepartmentUnavailableReason.LocalIdentity\<rparr>"

text \<open>What a load of the session at tick \<open>n\<close> gives.\<close>

definition user_loaded :: "nat \<Rightarrow> Loaded" where
  "user_loaded n = \<lparr>ld_source = LocalPassword,
     ld_assurance = \<lparr>as_auth_time = Some 900, as_acr = Acr.Unspecified, as_amr = [Pwd]\<rparr>,
     ld_groups = \<lparr>gf_facts = groups_unavailable FactUnavailableReason.LocalIdentity, gf_expires = int n\<rparr>,
     ld_department = DepartmentFacts.Unavailable DepartmentUnavailableReason.LocalIdentity,
     ld_sample = \<lparr>ts_started = int n, ts_micros = 1000000000\<rparr>, ld_expires = int n + 799999999000,
     ld_state = user_state, ld_view = user_view, ld_lifetime = user_lifetime, ld_now = 1000\<rparr>"

lemma sample_contracts:
  "policy_contract (au_policy sample_authority)" "checks_contract no_checks"
  "checks_contract (au_checks sample_authority)" "checks_contract (px_checks user_proof)"
  "audit_contract (au_bundle sample_authority)"
  by (simp_all add: policy_contract_def sample_authority_def allow_all_def checks_contract_def no_checks_def
      user_proof_def sample_contract pure.ret)

lemma load_sample:
  assumes "\<exists>xs. d_accounts (w_db w) = d_accounts sample_db @ xs" "\<exists>xs. d_memberships (w_db w) = d_memberships sample_db @ xs"
    "d_credentials (w_db w) = d_credentials sample_db" "guarded (w_db w) sample_tenant"
  shows "load user_key w = Inr (\<lparr>so_state = user_state, so_hash = Some (PasswordEncoding [98])\<rparr>, w)"
  using assms
  by (auto simp: load_Inr guarded_def stored_of_def join_account_def decode_account.simps is_account_def
      is_membership_def is_credential_def sample_db_def user_key_def sample_tenant_def user_state_def
      AccountState_restore_def PasswordEncoding_from_storage_def utf8_width_def)

definition user_signed_in :: "world \<Rightarrow> bool" where
  "user_signed_in w \<longleftrightarrow> (\<exists>xs. d_accounts (w_db w) = d_accounts sample_db @ xs)
    \<and> (\<exists>xs. d_memberships (w_db w) = d_memberships sample_db @ xs)
    \<and> d_credentials (w_db w) = d_credentials sample_db \<and> guarded (w_db w) sample_tenant
    \<and> d_authority (w_db w) = 5
    \<and> (\<exists>r. d_sessions (w_db w) = [user_session\<lparr>se_profile_source := fst r, se_profile_snapshot := snd r\<rparr>])
    \<and> w_micros w = (\<lambda>_. 1000000000) \<and> w_instants w = int \<and> w_tick w < 1000"

lemma user_key_simps [simp]: "ak_tenant user_key = sample_tenant" "ak_principal user_key = PrincipalId 2"
  by (simp_all add: user_key_def)

lemma by_id_sample:
  assumes "user_signed_in w"
  shows "by_id L user_key (SessionId 3) no_checks w = Inr (user_loaded (w_tick w), w\<lparr>w_tick := w_tick w + 2\<rparr>)"
proof -
  from assms obtain src snap where s: "d_sessions (w_db w) = [user_session\<lparr>se_profile_source := src, se_profile_snapshot := snap\<rparr>]"
    by (auto simp: user_signed_in_def)
  have l: "load user_key w = Inr (\<lparr>so_state = user_state, so_hash = Some (PasswordEncoding [98])\<rparr>, w)"
    using assms by (intro load_sample) (simp_all add: user_signed_in_def)
  show ?thesis
    using assms s
    by (simp add: by_id_def run_simps bind_run(1) [where m = "load user_key" and w = w, OF l] Let_def is_session_def,
        simp add: user_session_def row_current_def valid_at_def
        user_state_def active_def origin_def decode_origin_def check_source_def row_lifetime_def run_simps
        lifetime_policy_def SessionPolicy_new_def SessionLifetime_restore_def checked_sub_def user_signed_in_def
        read_sample_def TimeSample_read_def sample_seconds_def in_i64_def i64_min_def i64_max_def
        sample_for_facts_def checks_seconds_def no_checks_def clamp_i64_def load_department_def lit_def,
        simp add: load_facts_def run_simps lit_def Assurance_password_def Assurance_try_from_def canonical_methods_def
       Assurance_check_def saturating_add_def clamp_i64_def i64_max_def i64_min_def GroupFacts_new_def groups_unavailable_def
       sample_deadline_def credential_kind_def user_loaded_def user_view_def instant_checked_add_def
       user_lifetime_def SessionView_new_def user_state_def is_session_def)
qed

lemma lookup_sample:
  assumes "user_signed_in w"
  shows "lookup L sample_tenant user_token Cookie no_checks w = Inr (user_loaded (w_tick w), w\<lparr>w_tick := w_tick w + 2\<rparr>)"
proof -
  from assms obtain src snap where s: "d_sessions (w_db w) = [user_session\<lparr>se_profile_source := src, se_profile_snapshot := snap\<rparr>]"
    and g: "guarded (w_db w) sample_tenant"
    by (auto simp: user_signed_in_def)
  have k: "\<lparr>ak_tenant = sample_tenant, ak_principal = PrincipalId 2\<rparr> = user_key" by (simp add: user_key_def)
  show ?thesis
    using s g
    by (simp add: lookup_def run_simps guarded_def has_token_def Let_def is_session_def user_session_def k uuid_nil_def
        bind_run(1) [where m = "by_id L user_key (SessionId 3) no_checks", OF by_id_sample [OF assms]]
        user_loaded_def user_view_def SessionView_new_def)
qed

lemma recheck_sample:
  assumes "user_signed_in w" "w_tick w < 900"
  shows "recheck L user_proof w = Inr ((user_loaded (w_tick w + 1))\<lparr>ld_expires := 500000000\<rparr>, w\<lparr>w_tick := w_tick w + 4\<rparr>)"
proof -
  let ?w = "w\<lparr>w_tick := Suc (w_tick w)\<rparr>"
  have "user_signed_in ?w" using assms by (simp add: user_signed_in_def)
  note l = lookup_sample [OF this, of L]
  show ?thesis
    using assms
    by (simp add: recheck_def run_simps user_proof_def user_signed_in_def Let_def
        bind_run(1) [where m = "lookup L sample_tenant user_token Cookie no_checks" and w = ?w, OF l]
        user_view_def SessionView_new_def user_loaded_def user_state_def)
qed

lemma session_world_signed_in [simp]: "user_signed_in session_world"
  by (simp add: user_signed_in_def session_world_def session_db_def sample_world_def sample_db_def guarded_def
      user_session_def)

lemma authorize_sample:
  assumes "w_instants w = int" "int (w_tick w) + 1 < ld_expires x" "st_key (ld_state x) = user_key"
    "ak_tenant target = sample_tenant"
  shows "authorize (au_policy sample_authority) i x operation (Some target) w
    = Inr ((), w\<lparr>w_tick := w_tick w + 2\<rparr>)"
  using assms
  by (simp add: authorize_def run_simps sample_authority_def allow_all_def check_recency_def requirement_age_def)

end
