(* ===== verification/Sessions.thy ===== *)
theory Sessions
  imports Profile_Store Samples
begin

section \<open>Sessions of the authority (identity-postgres/src/sessions.rs, bearer.rs)\<close>

text \<open>
  Sessions are issued, proved, renewed, rotated, revoked and listed here. What an operation draws
  at random is an argument (\<open>Draws\<close>). The properties say what a proof stands for, that a rotation
  retires the old secret, and that a change of the account ends its sessions at once.
\<close>

record Draws =
  dr_secret :: "byte list option"
  dr_session :: uuid
  dr_snapshot :: uuid
  dr_principal :: uuid
  dr_identity :: uuid
  dr_token :: uuid
  dr_events :: "nat \<Rightarrow> uuid"

record IssuedSession =
  is_identity :: SessionIdentity
  is_secret :: SessionSecret
  is_view :: SessionView
  is_remaining :: int
  is_observed :: instant

definition cookie_max_age :: "IssuedSession \<Rightarrow> int op" where
  "cookie_max_age s =
    op_bind op_instant (\<lambda>t. op_ret (max 0 (is_remaining s - max 0 (t - is_observed s)) div 1000000000))"

definition IssuedSession_new ::
  "SessionSecret \<Rightarrow> SessionView \<Rightarrow> int \<Rightarrow> AccountState \<Rightarrow> ('e, IssuedSession) tx" where
  "IssuedSession_new secret view t state =
    bind instant_now (\<lambda>observed.
    ret \<lparr>is_identity = SessionIdentity_from_state state, is_secret = secret, is_view = view,
         is_remaining = max 0 (saturating_sub (sv_absolute_expires_at view) t) * 1000000000,
         is_observed = observed\<rparr>)"

definition session_event ::
  "SessionAction \<Rightarrow> AccountState \<Rightarrow> SessionId \<Rightarrow> SessionId option \<Rightarrow> AuthenticationSource \<Rightarrow> SecurityEvent" where
  "session_event action state sid replaced source =
    SecurityEvent.Session \<lparr>sev_action = action, sev_tenant = ak_tenant (st_key state),
      sev_principal = key_uuid (st_key state), sev_source = source, sev_session_id = sid,
      sev_replaced = replaced, sev_epoch = st_epoch state\<rparr>"

subsection \<open>Issuing\<close>

datatype SessionAuthentication =
  LocalPassword int
| Oidc Origin
| Platform PlatformAuthentication

record presentation =
  pr_source :: AuthenticationSource
  pr_local_at :: "int option"
  pr_origin :: "Origin option"
  pr_platform :: "PlatformAuthentication option"

text \<open>The first \<open>match\<close> of \<open>insert\<close>: which ways of signing in may have which credential.\<close>

definition present :: "SessionAuthentication \<Rightarrow> int \<Rightarrow> CredentialKind \<Rightarrow> PgError + presentation" where
  "present authentication t kind =
    (case authentication of
       SessionAuthentication.LocalPassword at \<Rightarrow>
         if at > 0 \<and> at \<le> t
         then Ok \<lparr>pr_source = AuthenticationSource.LocalPassword, pr_local_at = Some at, pr_origin = None, pr_platform = None\<rparr>
         else Err reject
     | SessionAuthentication.Oidc og \<Rightarrow>
         if kind = Cookie
         then Ok \<lparr>pr_source = AuthenticationSource.Oidc, pr_local_at = None, pr_origin = Some og, pr_platform = None\<rparr>
         else Err reject
     | SessionAuthentication.Platform platform \<Rightarrow>
         if kind = Cookie
         then and_then (platform_assurance platform) (\<lambda>_.
           Ok \<lparr>pr_source = AuthenticationSource.Platform, pr_local_at = None, pr_origin = None, pr_platform = Some platform\<rparr>)
         else Err reject)"

fun source_column :: "AuthenticationSource \<Rightarrow> ustr" where
  "source_column AuthenticationSource.LocalPassword = lit ''local_password''"
| "source_column AuthenticationSource.Oidc = lit ''oidc''"
| "source_column AuthenticationSource.Platform = lit ''platform''"

definition issued_row ::
  "Libraries \<Rightarrow> Draws \<Rightarrow> AccountState \<Rightarrow> presentation \<Rightarrow> AuthenticationFacts option \<Rightarrow> SessionLifetime
    \<Rightarrow> CredentialKind \<Rightarrow> SessionSecret \<Rightarrow> session_row" where
  "issued_row L draws state p facts lifetime kind secret =
    \<lparr>se_tenant = ak_tenant (st_key state), se_principal = key_uuid (st_key state),
     se_facts_sequence = map_option or_facts_sequence (pr_origin p), se_session = dr_session draws,
     se_source = source_column (pr_source p), se_local_at = pr_local_at p, se_platform = pr_platform p,
     se_kind = CredentialKind_as_str kind, se_hash = SessionSecret_digest (xl_sha256 L) secret,
     se_auth_epoch = st_epoch state, se_membership_epoch = st_membership_epoch state,
     se_issued_at = lt_issued_at lifetime, se_idle_timeout = pol_idle (lt_policy lifetime),
     se_absolute_timeout = pol_absolute (lt_policy lifetime),
     se_idle_expires = lt_idle_expires_at lifetime, se_absolute_expires = lt_absolute_expires_at lifetime,
     se_revoked = None, se_profile_source = None, se_profile_snapshot = None,
     se_identity = map_option or_identity (pr_origin p), se_provider_epoch = map_option or_epoch (pr_origin p),
     se_facts = facts\<rparr>"

text \<open>The keys and the \<open>CHECK\<close> constraints of the table.\<close>

definition session_admissible :: "Libraries \<Rightarrow> session_row \<Rightarrow> db \<Rightarrow> bool" where
  "session_admissible L r d \<longleftrightarrow>
    \<not> list_ex (\<lambda>o'. se_tenant o' = se_tenant r \<and> (se_session o' = se_session r \<or> se_hash o' = se_hash r)) (d_sessions d)
    \<and> (case se_facts_sequence r of None \<Rightarrow> True | Some n \<Rightarrow> n > 0)
    \<and> se_session r \<noteq> uuid_nil \<and> length (se_hash r) = 32
    \<and> se_auth_epoch r > 0 \<and> se_membership_epoch r > 0 \<and> se_issued_at r > 0
    \<and> se_idle_timeout r > 0 \<and> se_absolute_timeout r \<ge> se_idle_timeout r
    \<and> (se_kind r = lit ''cookie'' \<or> se_source r = lit ''local_password'')
    \<and> (case se_platform r of None \<Rightarrow> True | Some p \<Rightarrow> xl_platform_size L p \<le> 4096)
    \<and> (case se_provider_epoch r of None \<Rightarrow> True | Some n \<Rightarrow> n > 0)
    \<and> (case se_facts r of None \<Rightarrow> True | Some f \<Rightarrow> xl_json_size L f \<le> 32768)
    \<and> session_check r \<and> se_absolute_expires r - se_issued_at r = se_absolute_timeout r"

definition encoded_facts :: "Libraries \<Rightarrow> Origin option \<Rightarrow> PgError + AuthenticationFacts option" where
  "encoded_facts L pres_origin =
    (case pres_origin of None \<Rightarrow> Ok None
     | Some og \<Rightarrow> and_then (facts_encode (xl_json_size L) (or_facts og)) (\<lambda>f. Ok (Some f)))"

definition insert_session ::
  "Libraries \<Rightarrow> Draws \<Rightarrow> AccountState \<Rightarrow> SessionId option \<Rightarrow> SessionAuthentication \<Rightarrow> int \<Rightarrow> SessionPolicy
    \<Rightarrow> CredentialKind \<Rightarrow> (PgError, IssuedSession \<times> SecurityEvent) tx" where
  "insert_session L draws state replaced authentication t policy kind =
    bind (lift (present authentication t kind)) (\<lambda>p.
    bind (lift (map_err (\<lambda>_. corrupt) (SessionSecret_generate (dr_secret draws)))) (\<lambda>secret.
    bind (lift (map_err (\<lambda>_. corrupt) (SessionLifetime_new t policy))) (\<lambda>lifetime.
    bind (case replaced of None \<Rightarrow> ret () | Some sid \<Rightarrow> close (st_key state) sid t) (\<lambda>_.
    bind (lift (encoded_facts L (pr_origin p))) (\<lambda>facts.
    let row = issued_row L draws state p facts lifetime kind secret; sid = SessionId (dr_session draws) in
    bind (insert_checked (session_admissible L row) (\<lambda>d. d\<lparr>d_sessions := row # d_sessions d\<rparr>)) (\<lambda>_.
    bind (IssuedSession_new secret (SessionView_new sid lifetime kind) t state) (\<lambda>issued.
    ret (issued, session_event SessionAction.Created state sid replaced (pr_source p)))))))))"

definition create_session_body ::
  "Authority \<Rightarrow> Draws \<Rightarrow> AuthenticationCandidate \<Rightarrow> AuthenticatedSession option \<Rightarrow> CredentialKind
    \<Rightarrow> (PgError, IssuedSession \<times> SecurityEvent list) tx" where
  "create_session_body a draws candidate replacement kind =
    (let L = au_libs a; key = st_key (cn_state candidate) in
    bind (lock_guard (ak_tenant key)) (\<lambda>_.
    bind (current candidate) (\<lambda>state.
    bind (case replacement of None \<Rightarrow> ret None
        | Some held \<Rightarrow> bind (recheck L held) (\<lambda>l. ret (Some (sv_id (ld_view l))))) (\<lambda>replaced.
    bind now (\<lambda>t.
    bind instant_now (\<lambda>instant.
    bind (require (\<not> instant \<ge> cn_expires candidate) reject) (\<lambda>_.
    bind (insert_session L draws state replaced
        (SessionAuthentication.LocalPassword (cn_authenticated_at candidate)) t (au_session_policy a) kind) (\<lambda>(issued, fact).
    bind (local_observation L key t) (\<lambda>v.
    bind (accept L (dr_snapshot draws) key (sv_id (is_view issued)) (sv_absolute_expires_at (is_view issued)) v
        (au_limits a)) (\<lambda>profile.
    ret (issued, fact # (case profile of None \<Rightarrow> [] | Some e \<Rightarrow> [e]))))))))))))"

definition create_session_for ::
  "Authority \<Rightarrow> Draws \<Rightarrow> AuthenticationCandidate \<Rightarrow> AuthenticatedSession option \<Rightarrow> CredentialKind \<Rightarrow> int
    \<Rightarrow> IssuedSession op" where
  "create_session_for a draws candidate replacement kind deadline =
    op_bind (op_lift (require_runtime a)) (\<lambda>_.
    op_bind (Budget_new deadline) (\<lambda>b0.
    let key = st_key (cn_state candidate); b1 = min b0 (cn_expires candidate) in
    op_bind (op_require (\<not> (case replacement of None \<Rightarrow> False
        | Some old \<Rightarrow> px_key old \<noteq> key \<or> sv_kind (px_view old) \<noteq> kind)) AuthorityError.Rejected) (\<lambda>_.
    op_bind (Budget_remaining (case replacement of None \<Rightarrow> b1 | Some old \<Rightarrow> min b1 (px_expires old))) (\<lambda>timeout.
    write_sql (au_bundle a) (ak_tenant key) timeout (dr_events draws)
      (widen Storage (create_session_body a draws candidate replacement kind))))))"

definition create_session ::
  "Authority \<Rightarrow> Draws \<Rightarrow> AuthenticationCandidate \<Rightarrow> AuthenticatedSession option \<Rightarrow> int \<Rightarrow> IssuedSession op" where
  "create_session a draws candidate replacement deadline =
    create_session_for a draws candidate replacement Cookie deadline"

subsection \<open>Proving\<close>

definition proof_body ::
  "Libraries \<Rightarrow> SessionChecks \<Rightarrow> TenantId \<Rightarrow> byte list \<Rightarrow> CredentialKind \<Rightarrow> instant \<Rightarrow> bool
    \<Rightarrow> (PgError, AuthenticatedSession) tx" where
  "proof_body L checks tenant token kind budget renewing =
    bind (lookup L tenant token kind checks) (\<lambda>found.
    bind (if renewing then touch found else ret found) (\<lambda>loaded.
    bind authority_id (\<lambda>authority.
    bind (checked_expiry loaded budget) (\<lambda>expires.
    ret \<lparr>px_checks = checks, px_key = st_key (ld_state loaded), px_digest = token, px_authority = authority,
         px_expires = expires, px_view = ld_view loaded,
         px_identity = SessionIdentity_from_state (ld_state loaded), px_assurance = ld_assurance loaded,
         px_source = ld_source loaded, px_groups = ld_groups loaded, px_department = ld_department loaded\<rparr>))))"

definition session_proof ::
  "Authority \<Rightarrow> TenantId \<Rightarrow> byte list \<Rightarrow> CredentialKind \<Rightarrow> int \<Rightarrow> bool \<Rightarrow> AuthenticatedSession op" where
  "session_proof a tenant token kind deadline renewing =
    op_bind (op_lift (require_runtime a)) (\<lambda>_.
    op_bind (Budget_new deadline) (\<lambda>budget.
    op_bind (Budget_remaining budget) (\<lambda>timeout.
    read (au_bundle a) tenant timeout (proof_body (au_libs a) (au_checks a) tenant token kind budget renewing))))"

definition inspect_session :: "Authority \<Rightarrow> TenantId \<Rightarrow> SessionSecret \<Rightarrow> int \<Rightarrow> AuthenticatedSession op" where
  "inspect_session a tenant secret deadline =
    session_proof a tenant (SessionSecret_digest (xl_sha256 (au_libs a)) secret) Cookie deadline False"

definition authenticate_session :: "Authority \<Rightarrow> TenantId \<Rightarrow> SessionSecret \<Rightarrow> int \<Rightarrow> AuthenticatedSession op" where
  "authenticate_session a tenant secret deadline =
    session_proof a tenant (SessionSecret_digest (xl_sha256 (au_libs a)) secret) Cookie deadline True"

definition inspect_bearer :: "Authority \<Rightarrow> TenantId \<Rightarrow> BearerSecret \<Rightarrow> int \<Rightarrow> AuthenticatedSession op" where
  "inspect_bearer a tenant secret deadline =
    session_proof a tenant (BearerSecret_digest (xl_sha256 (au_libs a)) secret) Bearer deadline False"

definition authenticate_bearer :: "Authority \<Rightarrow> TenantId \<Rightarrow> BearerSecret \<Rightarrow> int \<Rightarrow> AuthenticatedSession op" where
  "authenticate_bearer a tenant secret deadline =
    session_proof a tenant (BearerSecret_digest (xl_sha256 (au_libs a)) secret) Bearer deadline True"

subsection \<open>Rotating, revoking and listing\<close>

definition rotate_token :: "TenantId \<Rightarrow> SessionId \<Rightarrow> byte list \<Rightarrow> (PgError, unit) tx" where
  "rotate_token tenant sid token =
    insert_checked (\<lambda>d. length token = 32 \<and> \<not> list_ex (\<lambda>r. se_tenant r = tenant \<and> se_hash r = token
        \<and> \<not> is_session tenant sid r) (d_sessions d))
      (\<lambda>d. d\<lparr>d_sessions := update_where (is_session tenant sid) (\<lambda>r. r\<lparr>se_hash := token\<rparr>) (d_sessions d)\<rparr>)"

definition refresh_body ::
  "Libraries \<Rightarrow> SessionChecks \<Rightarrow> TenantId \<Rightarrow> byte list \<Rightarrow> SessionSecret \<Rightarrow> instant
    \<Rightarrow> (PgError, IssuedSession \<times> SecurityEvent) tx" where
  "refresh_body L checks tenant old secret budget =
    bind (lookup L tenant old Cookie checks) (\<lambda>found.
    bind (touch found) (\<lambda>loaded.
    bind (rotate_token tenant (sv_id (ld_view loaded)) (SessionSecret_digest (xl_sha256 L) secret)) (\<lambda>_.
    bind (checked_expiry loaded budget) (\<lambda>_.
    bind (IssuedSession_new secret (ld_view loaded) (ld_now loaded) (ld_state loaded)) (\<lambda>issued.
    ret (issued, session_event Refreshed (ld_state loaded) (sv_id (ld_view loaded)) None (ld_source loaded)))))))"

definition refresh_session ::
  "Authority \<Rightarrow> Draws \<Rightarrow> TenantId \<Rightarrow> SessionSecret \<Rightarrow> int \<Rightarrow> IssuedSession op" where
  "refresh_session a draws tenant old deadline =
    op_bind (op_lift (require_runtime a)) (\<lambda>_.
    op_bind (Budget_new deadline) (\<lambda>budget.
    op_bind (op_lift (map_err (\<lambda>_. AuthorityError.Unavailable) (SessionSecret_generate (dr_secret draws)))) (\<lambda>secret.
    op_bind (Budget_remaining budget) (\<lambda>timeout.
    mutate (au_bundle a) tenant timeout (dr_events draws)
      (widen Storage (refresh_body (au_libs a) (au_checks a) tenant
        (SessionSecret_digest (xl_sha256 (au_libs a)) old) secret budget))))))"

definition write_epoch :: "AccountKey \<Rightarrow> int \<Rightarrow> ('e, unit) tx" where
  "write_epoch key epoch =
    exec (\<lambda>d. d\<lparr>d_accounts := update_where (is_account key) (\<lambda>r. r\<lparr>ac_epoch := epoch\<rparr>) (d_accounts d)\<rparr>)"

definition revoke_body ::
  "Libraries \<Rightarrow> AuthenticatedSession \<Rightarrow> bool \<Rightarrow> (MutationError, unit \<times> SecurityEvent) tx" where
  "revoke_body L actor all_sessions =
    bind (widen Storage (recheck L actor)) (\<lambda>loaded.
    bind (if all_sessions
        then
          bind (lift (map_err Rule (revoke_sessions (ld_state loaded)))) (\<lambda>next_state.
          bind (write_epoch (px_key actor) (st_epoch next_state)) (\<lambda>_.
          ret next_state))
        else
          bind (widen Storage (close (px_key actor) (sv_id (px_view actor)) (ld_now loaded))) (\<lambda>_.
          ret (ld_state loaded))) (\<lambda>state.
    ret ((), session_event (if all_sessions then AllRevoked else Revoked) state (sv_id (px_view actor)) None
      (ld_source loaded))))"

definition revoke_session ::
  "Authority \<Rightarrow> (nat \<Rightarrow> uuid) \<Rightarrow> AuthenticatedSession \<Rightarrow> int \<Rightarrow> bool \<Rightarrow> unit op" where
  "revoke_session a fresh actor deadline all_sessions =
    op_bind (op_lift (require_runtime a)) (\<lambda>_.
    op_bind (Budget_new deadline) (\<lambda>budget.
    op_bind (Budget_remaining (min budget (px_expires actor))) (\<lambda>timeout.
    mutate (au_bundle a) (ak_tenant (px_key actor)) timeout fresh (revoke_body (au_libs a) actor all_sessions))))"

definition revoke_current_session :: "Authority \<Rightarrow> (nat \<Rightarrow> uuid) \<Rightarrow> AuthenticatedSession \<Rightarrow> int \<Rightarrow> unit op" where
  "revoke_current_session a fresh actor deadline = revoke_session a fresh actor deadline False"

definition revoke_all_sessions :: "Authority \<Rightarrow> (nat \<Rightarrow> uuid) \<Rightarrow> AuthenticatedSession \<Rightarrow> int \<Rightarrow> unit op" where
  "revoke_all_sessions a fresh actor deadline = revoke_session a fresh actor deadline True"

text \<open>The statement of \<open>list_sessions\<close>, and its loop: a session that does not load any more is left
  out. The two clock readings a load makes are spent when it fails too.\<close>

definition session_ids :: "Loaded \<Rightarrow> AccountKey \<Rightarrow> SessionId option \<Rightarrow> nat \<Rightarrow> db \<Rightarrow> uuid list" where
  "session_ids loaded key cursor limit d =
    take (limit + 1) (sort (map se_session (filter (\<lambda>r. se_tenant r = ak_tenant key \<and> se_principal r = key_uuid key
      \<and> se_auth_epoch r = st_epoch (ld_state loaded) \<and> se_membership_epoch r = st_membership_epoch (ld_state loaded)
      \<and> se_revoked r = None \<and> se_issued_at r \<le> ld_now loaded
      \<and> se_idle_expires r > ld_now loaded \<and> se_absolute_expires r > ld_now loaded
      \<and> (case cursor of None \<Rightarrow> True | Some c \<Rightarrow> se_session r > session_uuid c)) (d_sessions d))))"

fun page_views :: "Libraries \<Rightarrow> AccountKey \<Rightarrow> SessionChecks \<Rightarrow> uuid list \<Rightarrow> (PgError, SessionView list) tx" where
  "page_views L key checks [] w = ret [] w"
| "page_views L key checks (u # us) w =
    (if u = uuid_nil then Inl corrupt
     else case by_id L key (SessionId u) checks w of
       Inl e \<Rightarrow>
         if e = MessagingErrorKind.Conflict then page_views L key checks us (w\<lparr>w_tick := w_tick w + 2\<rparr>) else Inl e
     | Inr (l, w') \<Rightarrow> bind (page_views L key checks us) (\<lambda>views. ret (ld_view l # views)) w')"

definition list_body ::
  "Libraries \<Rightarrow> AuthenticatedSession \<Rightarrow> SessionId option \<Rightarrow> nat \<Rightarrow> (PgError, SessionView list \<times> SessionId option) tx" where
  "list_body L actor cursor limit =
    bind (recheck L actor) (\<lambda>loaded.
    bind (query (session_ids loaded (px_key actor) cursor limit)) (\<lambda>ids.
    bind (page_views L (px_key actor) (px_checks actor) (take limit ids)) (\<lambda>views.
    ret (views, if length ids > limit then Some (SessionId (last (take limit ids))) else None))))"

definition list_sessions ::
  "Authority \<Rightarrow> AuthenticatedSession \<Rightarrow> SessionId option \<Rightarrow> nat \<Rightarrow> int \<Rightarrow> (SessionView list \<times> SessionId option) op" where
  "list_sessions a actor cursor limit deadline =
    op_bind (op_lift (require_runtime a)) (\<lambda>_.
    op_bind (op_require (1 \<le> limit \<and> limit \<le> 100) AuthorityError.InvalidInput) (\<lambda>_.
    op_bind (Budget_new deadline) (\<lambda>budget.
    op_bind (Budget_remaining (min budget (px_expires actor))) (\<lambda>timeout.
    read (au_bundle a) (ak_tenant (px_key actor)) timeout (list_body (au_libs a) actor cursor limit)))))"

end
