(* ===== verification/Operations.thy ===== *)
theory Operations
  imports Password_Attempts Sessions
begin

section \<open>Local accounts (identity-postgres/src/operations.rs, maintenance.rs, bearer.rs)\<close>

text \<open>
  The operations on local accounts: signing in with a password, which claims the login, verifies
  outside every transaction and settles the claim with the outcome; the creation of an account; the
  changes of its state, of its membership and of its password; and what the maintenance profile may
  do. The password computations are those of the \<open>kdf\<close>, a parameter; the budget of an operation
  bounds them.
\<close>

definition op_password :: "(world \<Rightarrow> (PasswordError + 'a) option) \<Rightarrow> 'a op" where
  "op_password computation w = (budget_password (computation w), w)"

subsection \<open>Verifying a password\<close>

definition has_login :: "TenantId \<Rightarrow> LoginKey \<Rightarrow> local_credential_row \<Rightarrow> bool" where
  "has_login tenant login r \<longleftrightarrow> lc_tenant r = tenant \<and> lc_login r = login_str login"

definition snapshot_body :: "TenantId \<Rightarrow> LoginKey \<Rightarrow> (PgError, (Stored \<times> uuid \<times> int) option) tx" where
  "snapshot_body tenant login =
    bind (query (\<lambda>d. find (has_login tenant login) (d_credentials d))) (\<lambda>row.
    case row of
      None \<Rightarrow> ret None
    | Some r \<Rightarrow>
        bind (require (lc_principal r \<noteq> uuid_nil) corrupt) (\<lambda>_.
        bind (load \<lparr>ak_tenant = tenant, ak_principal = PrincipalId (lc_principal r)\<rparr>) (\<lambda>stored.
        bind authority_id (\<lambda>authority.
        bind now (\<lambda>t.
        ret (Some (stored, authority, t)))))))"

definition candidate_body :: "AuthenticationCandidate \<Rightarrow> (PgError, AuthenticationCandidate) tx" where
  "candidate_body candidate = bind (current candidate) (\<lambda>_. ret candidate)"

definition check_password ::
  "Authority \<Rightarrow> TenantId \<Rightarrow> LoginKey \<Rightarrow> Password \<Rightarrow> int \<Rightarrow> AuthenticationCandidate op" where
  "check_password a tenant login password deadline =
    op_bind (Budget_new deadline) (\<lambda>budget.
    op_bind (Budget_remaining budget) (\<lambda>timeout.
    op_bind (read (au_bundle a) tenant timeout (snapshot_body tenant login)) (\<lambda>snapshot.
    case snapshot of
      None \<Rightarrow>
        op_bind (op_password (kd_dummy (au_kdf a) password)) (\<lambda>_.
        op_lift (Err AuthorityError.Rejected))
    | Some (stored, authority, authenticated_at) \<Rightarrow>
        op_bind (op_lift (ok_or AuthorityError.Rejected (so_hash stored))) (\<lambda>hash.
        op_bind (op_password (kd_verify (au_kdf a) password hash)) (\<lambda>valid.
        op_bind (op_require (\<not> (\<not> valid \<or> \<not> st_enabled (so_state stored) \<or> \<not> st_member_active (so_state stored)))
          AuthorityError.Rejected) (\<lambda>_.
        op_bind (Budget_remaining budget) (\<lambda>timeout.
        read (au_bundle a) tenant timeout (candidate_body
          \<lparr>cn_state = so_state stored, cn_authority = authority, cn_expires = budget,
           cn_authenticated_at = authenticated_at\<rparr>))))))))"

definition verify_password ::
  "Authority \<Rightarrow> (int \<Rightarrow> int) \<Rightarrow> uuid \<Rightarrow> TenantId \<Rightarrow> LoginKey \<Rightarrow> Password \<Rightarrow> AttemptSource \<Rightarrow> int
    \<Rightarrow> AuthenticationCandidate op" where
  "verify_password a float_interval token tenant login password source deadline =
    op_bind (op_lift (require_runtime a)) (\<lambda>_.
    op_bind (Budget_new deadline) (\<lambda>budget.
    op_bind (Budget_remaining budget) (\<lambda>timeout.
    op_bind (claim_password (au_bundle a) (xl_sha256 (au_libs a)) float_interval token tenant login source timeout) (\<lambda>claim.
    op_bind (Budget_remaining budget) (\<lambda>timeout.
    op_bind (op_try (check_password a tenant login password timeout)) (\<lambda>outcome.
    op_bind (Budget_remaining budget) (\<lambda>timeout.
    settle_password (au_bundle a) claim outcome timeout)))))))"

subsection \<open>Signing in\<close>

definition login_local ::
  "Authority \<Rightarrow> (int \<Rightarrow> int) \<Rightarrow> Draws \<Rightarrow> TenantId \<Rightarrow> LoginKey \<Rightarrow> Password \<Rightarrow> AttemptSource
    \<Rightarrow> AuthenticatedSession option \<Rightarrow> int \<Rightarrow> IssuedSession op" where
  "login_local a float_interval draws tenant login password source replacement deadline =
    op_bind (Budget_new deadline) (\<lambda>budget.
    op_bind (Budget_remaining budget) (\<lambda>timeout.
    op_bind (verify_password a float_interval (dr_token draws) tenant login password source timeout) (\<lambda>candidate.
    op_bind (Budget_remaining budget) (\<lambda>timeout.
    create_session a draws candidate replacement timeout))))"

record IssuedBearer =
  ib_secret :: BearerSecret
  ib_identity :: SessionIdentity
  ib_view :: SessionView

definition login_local_bearer ::
  "Authority \<Rightarrow> (int \<Rightarrow> int) \<Rightarrow> Draws \<Rightarrow> TenantId \<Rightarrow> LoginKey \<Rightarrow> Password \<Rightarrow> AttemptSource \<Rightarrow> int
    \<Rightarrow> IssuedBearer op" where
  "login_local_bearer a float_interval draws tenant login password source deadline =
    op_bind (Budget_new deadline) (\<lambda>budget.
    op_bind (Budget_remaining budget) (\<lambda>timeout.
    op_bind (verify_password a float_interval (dr_token draws) tenant login password source timeout) (\<lambda>candidate.
    op_bind (Budget_remaining budget) (\<lambda>timeout.
    op_bind (create_session_for a draws candidate None Bearer timeout) (\<lambda>issued.
    op_bind (op_lift (map_err (\<lambda>_. AuthorityError.Unavailable) (BearerSecret_parse (expose (is_secret issued))))) (\<lambda>secret.
    op_ret \<lparr>ib_secret = secret, ib_identity = is_identity issued, ib_view = is_view issued\<rparr>))))))"

definition login_key_body :: "Libraries \<Rightarrow> AuthenticatedSession \<Rightarrow> (MutationError, ustr option) tx" where
  "login_key_body L actor =
    bind (widen Storage (recheck L actor)) (\<lambda>_.
    query (\<lambda>d. map_option lc_login (find (is_credential (px_key actor)) (d_credentials d))))"

definition local_login_key :: "Authority \<Rightarrow> AuthenticatedSession \<Rightarrow> int \<Rightarrow> LoginKey op" where
  "local_login_key a actor deadline =
    op_bind (read_sql (au_bundle a) (ak_tenant (px_key actor)) deadline (login_key_body (au_libs a) actor)) (\<lambda>name.
    op_bind (op_lift (ok_or AuthorityError.ReauthenticationFailed name)) (\<lambda>value.
    op_lift (map_err AuthorityError_from_password (LoginKey_parse value))))"

definition reauthenticate_local ::
  "Authority \<Rightarrow> (int \<Rightarrow> int) \<Rightarrow> Draws \<Rightarrow> AuthenticatedSession \<Rightarrow> Password \<Rightarrow> AttemptSource \<Rightarrow> int
    \<Rightarrow> IssuedSession op" where
  "reauthenticate_local a float_interval draws actor password source deadline =
    op_bind (Budget_new deadline) (\<lambda>b0.
    let budget = min b0 (px_expires actor) in
    op_bind (Budget_remaining budget) (\<lambda>timeout.
    op_bind (local_login_key a actor timeout) (\<lambda>login.
    op_bind (Budget_remaining budget) (\<lambda>timeout.
    login_local a float_interval draws (ak_tenant (px_key actor)) login password source (Some actor) timeout))))"

subsection \<open>Creating an account\<close>

definition create_account_body ::
  "Authority \<Rightarrow> AuthenticatedSession \<Rightarrow> AccountKey \<Rightarrow> LoginKey \<Rightarrow> PasswordEncoding
    \<Rightarrow> (MutationError, AccountState \<times> SecurityEvent list) tx" where
  "create_account_body a actor key login hash =
    bind (widen Storage (recheck (au_libs a) actor)) (\<lambda>loaded.
    bind (widen Rule (authorize (au_policy a) (au_instance a) loaded CreateAccount (Some key))) (\<lambda>_.
    bind (insert_account key (login_str login) (encoding_str hash)) (\<lambda>_.
    bind (widen Storage (load key)) (\<lambda>stored.
    ret (so_state stored,
      [SecurityEvent.Account (account_event AccountCreated (so_state stored) (Some (px_key actor)))])))))"

definition create_local_account ::
  "Authority \<Rightarrow> Draws \<Rightarrow> AuthenticatedSession \<Rightarrow> LoginKey \<Rightarrow> Password \<Rightarrow> int \<Rightarrow> AccountState op" where
  "create_local_account a draws actor login password deadline =
    op_bind (op_lift (require_runtime a)) (\<lambda>_.
    op_bind (Budget_new deadline) (\<lambda>b0.
    let budget = min b0 (px_expires actor) in
    op_bind (op_password (kd_hash (au_kdf a) password)) (\<lambda>hash.
    let key = \<lparr>ak_tenant = ak_tenant (px_key actor), ak_principal = PrincipalId (dr_principal draws)\<rparr> in
    op_bind (Budget_remaining budget) (\<lambda>timeout.
    write_sql (au_bundle a) (ak_tenant key) timeout (dr_events draws)
      (create_account_body a actor key login hash)))))"

subsection \<open>Changing an account\<close>

fun local_change :: "AccountChange \<Rightarrow> LocalChange" where
  "local_change (AccountChange.Password _) = LocalChange.Password"
| "local_change (AccountChange.Enabled v) = LocalChange.Enabled v"
| "local_change (AccountChange.Membership v) = LocalChange.Membership v"

fun new_password :: "AccountChange \<Rightarrow> Password option" where
  "new_password (AccountChange.Password password) = Some password"
| "new_password (AccountChange.Enabled _) = None"
| "new_password (AccountChange.Membership _) = None"

fun change_operation :: "LocalChange \<Rightarrow> bool \<Rightarrow> ManagementOperation" where
  "change_operation LocalChange.Password reauthenticated =
    (if reauthenticated then ChangeOwnPassword else ResetPassword)"
| "change_operation (LocalChange.Enabled v) _ = SetAccountEnabled v"
| "change_operation (LocalChange.Membership v) _ = SetMembership v"

definition write_account :: "AccountKey \<Rightarrow> bool \<Rightarrow> int \<Rightarrow> ('e, unit) tx" where
  "write_account key enabled epoch =
    exec (\<lambda>d. d\<lparr>d_accounts := update_where (is_account key)
      (\<lambda>r. r\<lparr>ac_enabled := enabled, ac_epoch := epoch\<rparr>) (d_accounts d)\<rparr>)"

definition write_hash :: "AccountKey \<Rightarrow> PasswordEncoding \<Rightarrow> ('e, unit) tx" where
  "write_hash key hash =
    exec (\<lambda>d. d\<lparr>d_credentials := update_where (is_credential key)
      (\<lambda>r. r\<lparr>lc_hash := encoding_str hash\<rparr>) (d_credentials d)\<rparr>)"

definition write_membership :: "AccountKey \<Rightarrow> bool \<Rightarrow> int \<Rightarrow> ('e, unit) tx" where
  "write_membership key member epoch =
    exec (\<lambda>d. d\<lparr>d_memberships := update_where (is_membership key)
      (\<lambda>r. r\<lparr>mb_active := member, mb_epoch := epoch\<rparr>) (d_memberships d)\<rparr>)"

definition replace_password :: "Libraries \<Rightarrow> AccountKey \<Rightarrow> PasswordEncoding \<Rightarrow> (PgError, unit) tx" where
  "replace_password L key hash =
    bind (write_hash key hash) (\<lambda>_. clear_passwords (xl_sha256 L) key)"

definition check_reauthentication ::
  "AuthenticatedSession \<Rightarrow> AccountKey \<Rightarrow> AuthenticationCandidate option \<Rightarrow> (PgError, unit) tx" where
  "check_reauthentication actor target reauthentication =
    (case reauthentication of
       None \<Rightarrow> ret ()
     | Some candidate \<Rightarrow>
         bind (require (\<not> (candidate_account candidate \<noteq> px_key actor \<or> target \<noteq> px_key actor)) reject) (\<lambda>_.
         bind (current candidate) (\<lambda>_. ret ())))"

definition change_body ::
  "Authority \<Rightarrow> AuthenticatedSession \<Rightarrow> AccountKey \<Rightarrow> LocalChange \<Rightarrow> PasswordEncoding option
    \<Rightarrow> AuthenticationCandidate option \<Rightarrow> (MutationError, AccountState \<times> SecurityEvent list) tx" where
  "change_body a actor target change hash reauthentication =
    (let L = au_libs a; operation = change_operation change (reauthentication \<noteq> None) in
    bind (widen Storage (recheck L actor)) (\<lambda>loaded.
    bind (widen Storage (check_reauthentication actor target reauthentication)) (\<lambda>_.
    bind (widen Rule (authorize (au_policy a) (au_instance a) loaded operation (Some target))) (\<lambda>_.
    bind (widen Storage (load target)) (\<lambda>stored.
    bind (lift (map_err Rule (transition (so_state stored) change))) (\<lambda>(next_state, action).
    bind (write_account target (st_enabled next_state) (st_epoch next_state)) (\<lambda>_.
    bind (case hash of None \<Rightarrow> ret () | Some h \<Rightarrow> widen Storage (replace_password L target h)) (\<lambda>_.
    bind (write_membership target (st_member_active next_state) (st_membership_epoch next_state)) (\<lambda>_.
    ret (next_state, [SecurityEvent.Account (account_event action next_state (Some (px_key actor)))]))))))))))"

definition hash_new :: "Authority \<Rightarrow> AccountChange \<Rightarrow> PasswordEncoding option op" where
  "hash_new a change =
    (case new_password change of
       None \<Rightarrow> op_ret None
     | Some password \<Rightarrow> op_bind (op_password (kd_hash (au_kdf a) password)) (\<lambda>h. op_ret (Some h)))"

definition apply_account_change ::
  "Authority \<Rightarrow> (nat \<Rightarrow> uuid) \<Rightarrow> AuthenticatedSession \<Rightarrow> AccountKey \<Rightarrow> AccountChange
    \<Rightarrow> AuthenticationCandidate option \<Rightarrow> int \<Rightarrow> AccountState op" where
  "apply_account_change a fresh actor target change reauthentication deadline =
    op_bind (op_lift (require_runtime a)) (\<lambda>_.
    op_bind (op_require (\<not> ak_tenant (px_key actor) \<noteq> ak_tenant target) AuthorityError.Rejected) (\<lambda>_.
    op_bind (Budget_new deadline) (\<lambda>b0.
    let b1 = min b0 (px_expires actor);
        budget = (case reauthentication of None \<Rightarrow> b1 | Some candidate \<Rightarrow> min b1 (cn_expires candidate)) in
    op_bind (hash_new a change) (\<lambda>hash.
    op_bind (Budget_remaining budget) (\<lambda>timeout.
    write_sql (au_bundle a) (ak_tenant target) timeout fresh
      (change_body a actor target (local_change change) hash reauthentication))))))"

definition set_account_enabled ::
  "Authority \<Rightarrow> (nat \<Rightarrow> uuid) \<Rightarrow> AuthenticatedSession \<Rightarrow> AccountKey \<Rightarrow> bool \<Rightarrow> int \<Rightarrow> AccountState op" where
  "set_account_enabled a fresh actor target enabled deadline =
    apply_account_change a fresh actor target (AccountChange.Enabled enabled) None deadline"

definition set_account_membership ::
  "Authority \<Rightarrow> (nat \<Rightarrow> uuid) \<Rightarrow> AuthenticatedSession \<Rightarrow> AccountKey \<Rightarrow> bool \<Rightarrow> int \<Rightarrow> AccountState op" where
  "set_account_membership a fresh actor target member deadline =
    apply_account_change a fresh actor target (AccountChange.Membership member) None deadline"

definition reset_local_password ::
  "Authority \<Rightarrow> (nat \<Rightarrow> uuid) \<Rightarrow> AuthenticatedSession \<Rightarrow> AccountKey \<Rightarrow> Password \<Rightarrow> int \<Rightarrow> AccountState op" where
  "reset_local_password a fresh actor target password deadline =
    op_bind (op_require (\<not> px_key actor = target) AuthorityError.InvalidInput) (\<lambda>_.
    apply_account_change a fresh actor target (AccountChange.Password password) None deadline)"

definition change_own_password ::
  "Authority \<Rightarrow> (int \<Rightarrow> int) \<Rightarrow> Draws \<Rightarrow> AuthenticatedSession \<Rightarrow> Password \<Rightarrow> Password \<Rightarrow> AttemptSource \<Rightarrow> int
    \<Rightarrow> AccountState op" where
  "change_own_password a float_interval draws actor current_password new source deadline =
    op_bind (Budget_new deadline) (\<lambda>b0.
    let budget = min b0 (px_expires actor); key = px_key actor in
    op_bind (Budget_remaining budget) (\<lambda>timeout.
    op_bind (local_login_key a actor timeout) (\<lambda>login.
    op_bind (Budget_remaining budget) (\<lambda>timeout.
    op_bind (op_map_err (\<lambda>e. if e = AuthorityError.Rejected then AuthorityError.ReauthenticationFailed else e)
      (verify_password a float_interval (dr_token draws) (ak_tenant key) login current_password source timeout)) (\<lambda>candidate.
    op_bind (op_require (\<not> candidate_account candidate \<noteq> key) AuthorityError.ReauthenticationFailed) (\<lambda>_.
    op_bind (Budget_remaining budget) (\<lambda>timeout.
    apply_account_change a (dr_events draws) actor key (AccountChange.Password new) (Some candidate) timeout)))))))"

record AccountView =
  av_principal :: PrincipalId
  av_login :: "ustr option"
  av_enabled :: bool
  av_member_active :: bool
  av_has_local_password :: bool

definition AccountView_new :: "AccountState \<Rightarrow> ustr option \<Rightarrow> AccountView" where
  "AccountView_new state login =
    \<lparr>av_principal = ak_principal (st_key state), av_login = login, av_enabled = st_enabled state,
     av_member_active = st_member_active state, av_has_local_password = st_has_local_password state\<rparr>"

subsection \<open>Maintenance\<close>

definition initialize_body ::
  "AccountKey \<Rightarrow> LoginKey \<Rightarrow> PasswordEncoding \<Rightarrow> (MutationError, AccountState \<times> SecurityEvent) tx" where
  "initialize_body key login hash =
    bind (query (\<lambda>d. list_ex (\<lambda>r. gd_tenant r = ak_tenant key) (d_guard d))) (\<lambda>initialized.
    bind (require (\<not> initialized) (Storage reject)) (\<lambda>_.
    bind (exec (\<lambda>d. d\<lparr>d_guard := \<lparr>gd_tenant = ak_tenant key, gd_profile_sequence = 0\<rparr> # d_guard d\<rparr>)) (\<lambda>_.
    bind (insert_account key (login_str login) (encoding_str hash)) (\<lambda>_.
    bind (widen Storage (load_for_maintenance key)) (\<lambda>stored.
    ret (so_state stored, SecurityEvent.Account (account_event AccountCreated (so_state stored) None)))))))"

definition initialize ::
  "Authority \<Rightarrow> (nat \<Rightarrow> uuid) \<Rightarrow> AccountKey \<Rightarrow> LoginKey \<Rightarrow> Password \<Rightarrow> int \<Rightarrow> AccountState op" where
  "initialize a fresh key login password deadline =
    op_bind (op_lift (require_maintenance a)) (\<lambda>_.
    op_bind (Budget_new deadline) (\<lambda>budget.
    op_bind (op_password (kd_hash (au_kdf a) password)) (\<lambda>hash.
    op_bind (Budget_remaining budget) (\<lambda>timeout.
    mutate (au_bundle a) (ak_tenant key) timeout fresh (initialize_body key login hash)))))"

definition recover_body ::
  "Libraries \<Rightarrow> AccountKey \<Rightarrow> PasswordEncoding \<Rightarrow> (MutationError, AccountState \<times> SecurityEvent) tx" where
  "recover_body L key hash =
    bind (widen Storage (lock_guard (ak_tenant key))) (\<lambda>_.
    bind (widen Storage (load_for_maintenance key)) (\<lambda>stored.
    bind (lift (map_err Rule (recover (so_state stored)))) (\<lambda>(next_state, action).
    bind (write_epoch key (st_epoch next_state)) (\<lambda>_.
    bind (widen Storage (replace_password L key hash)) (\<lambda>_.
    ret (next_state, SecurityEvent.Account (account_event action next_state None)))))))"

definition recover_local_password ::
  "Authority \<Rightarrow> (nat \<Rightarrow> uuid) \<Rightarrow> AccountKey \<Rightarrow> Password \<Rightarrow> int \<Rightarrow> AccountState op" where
  "recover_local_password a fresh key password deadline =
    op_bind (op_lift (require_maintenance a)) (\<lambda>_.
    op_bind (Budget_new deadline) (\<lambda>budget.
    op_bind (op_password (kd_hash (au_kdf a) password)) (\<lambda>hash.
    op_bind (Budget_remaining budget) (\<lambda>timeout.
    mutate (au_bundle a) (ak_tenant key) timeout fresh (recover_body (au_libs a) key hash)))))"

end
