(* ===== verification/Profiles.thy ===== *)
theory Profiles
  imports Profile_Store Samples
begin

section \<open>Profile operations (identity-postgres/src/profiles.rs, profile_admission.rs)\<close>

text \<open>
  The operations that read and write profiles for a session's holder or, when the host's policy
  allows it, for another account of the tenant. A profile view carries a host deadline, like every
  view of a fact. Updates of the local profile are conditional on a revision and idempotent under
  the operation's identifier. The JSON text of a change, whose digest identifies it, is a parameter.
\<close>

datatype ProfileStatus = Available | Missing | Expired | Unavailable

record ProfileView =
  fv_instance :: InstanceId
  fv_target :: AccountKey
  fv_source :: "ProfileSource option"
  fv_status :: ProfileStatus
  fv_snapshot :: "uuid option"
  fv_config_version :: "int option"
  fv_source_revision :: "int option"
  fv_observed_at :: "int option"
  fv_collected_at :: "int option"
  fv_expires_at :: "int option"
  fv_profile :: "Profile option"

record TrustedProfile =
  tf_view :: ProfileView
  tf_expires :: instant

definition TrustedProfile_view :: "TrustedProfile \<Rightarrow> instant \<Rightarrow> AuthorityError + ProfileView" where
  "TrustedProfile_view p t = (if t \<ge> tf_expires p then Err AuthorityError.Rejected else Ok (tf_view p))"

record LocalProfileView =
  lv_revision :: int
  lv_value :: "LocalProfile option"

record ProfileChange =
  cg_operation :: uuid
  cg_expected :: int
  cg_value :: "LocalProfile option"

record ProfileReceipt =
  rc_operation :: uuid
  rc_revision :: int

record ProfileSourceView =
  fs_source :: ProfileSource
  fs_config_version :: "int option"
  fs_extensions_root :: "ustr option"
  fs_max_age_seconds :: nat

subsection \<open>Reading a profile\<close>

definition empty_view :: "InstanceId \<Rightarrow> AccountKey \<Rightarrow> ProfileSource option \<Rightarrow> ProfileStatus \<Rightarrow> ProfileView" where
  "empty_view i target source status =
    \<lparr>fv_instance = i, fv_target = target, fv_source = source, fv_status = status, fv_snapshot = None,
     fv_config_version = None, fv_source_revision = None, fv_observed_at = None,
     fv_collected_at = None, fv_expires_at = None, fv_profile = None\<rparr>"

text \<open>What is read: the latest observation of a target's source, or the reader's own session. The
  last component is \<open>Some\<close> of the snapshot the session is bound to.\<close>

definition profile_subject ::
  "Authority \<Rightarrow> Reader \<Rightarrow> Loaded \<Rightarrow> (AccountKey \<times> ProfileSource) option
    \<Rightarrow> (MutationError, AccountKey \<times> ProfileSource \<times> uuid option option) tx" where
  "profile_subject a reader loaded latest =
    (case latest of
       Some (target, source) \<Rightarrow>
         bind (widen Rule (authorize (au_policy a) (au_instance a) loaded ReadLatestProfile (Some target))) (\<lambda>_.
         ret (target, source, None))
     | None \<Rightarrow>
         bind (widen Storage (fetch_one (\<lambda>d. find (is_session (ak_tenant (rd_key reader)) (rd_session reader))
             (d_sessions d)))) (\<lambda>r.
         ret (rd_key reader,
           (case se_profile_source r of None \<Rightarrow> ProfileSource.IdentityLocal | Some s \<Rightarrow> s),
           Some (se_profile_snapshot r))))"

text \<open>The provider of an observed source is still the one it was observed under.\<close>

definition source_current ::
  "Libraries \<Rightarrow> AccountKey \<Rightarrow> ProfileSource \<Rightarrow> observation_row \<Rightarrow> (MutationError, bool) tx" where
  "source_current L target source row =
    (case source of
       ProfileSource.IdentityLocal \<Rightarrow> ret True
     | ProfileSource.Idp p \<Rightarrow>
         bind (widen Storage (provider L (ak_tenant target) p)) (\<lambda>view.
         bind (query (\<lambda>d. list_ex (\<lambda>e. ei_tenant e = ak_tenant target \<and> ei_principal e = key_uuid target
             \<and> ei_provider e = provider_uuid (vw_id view)) (d_identities d))) (\<lambda>linked.
         ret (\<not> (\<not> linked \<or> \<not> vw_enabled view \<or> Some (vw_version view) \<noteq> ob_config_version row
           \<or> Some (vw_revocation_epoch view) \<noteq> ob_source_epoch row)))))"

definition profile_end :: "Authority \<Rightarrow> Loaded \<Rightarrow> observation_row \<Rightarrow> int" where
  "profile_end a loaded row =
    min (min (ob_expires row) (sv_absolute_expires_at (ld_view loaded)))
      (saturating_add (ob_observed row) (int (pl_max_age (au_limits a))))"

definition view_status :: "Authority \<Rightarrow> Reader \<Rightarrow> Loaded \<Rightarrow> observation_row \<Rightarrow> int \<Rightarrow> ProfileStatus" where
  "view_status a reader loaded row micros =
    (if checks_seconds (sc_controlled (rd_checks reader)) (micros div 1000000) \<ge> profile_end a loaded row
     then ProfileStatus.Expired else ProfileStatus.Available)"

text \<open>The host deadline of an available view, from the instant taken before the clock was read.\<close>

definition view_deadline :: "int \<Rightarrow> instant \<Rightarrow> int \<Rightarrow> instant \<Rightarrow> PgError + instant" where
  "view_deadline until started micros expires =
    (let remaining = max 0 (saturating_sub (saturating_sub (clamp_i64 (until * 1000000)) micros) 1) in
     and_then (ok_or corrupt (instant_checked_add started (remaining * 1000))) (\<lambda>e. Ok (min expires e)))"

definition view_values :: "Authority \<Rightarrow> bool \<Rightarrow> observation_row \<Rightarrow> (PgError, Profile option) tx" where
  "view_values a shown row =
    (if shown
     then
       bind (lift (profile_from_value (au_libs a) (ob_value row))) (\<lambda>p.
       bind (lift (map_err (\<lambda>_. corrupt) (Profile_validate p))) (\<lambda>_.
       ret (Some (apply_limits (xl_json_len (au_libs a)) (au_limits a) p))))
     else ret None)"

definition read_observation ::
  "Authority \<Rightarrow> Reader \<Rightarrow> Loaded \<Rightarrow> bool \<Rightarrow> AccountKey \<Rightarrow> ProfileSource \<Rightarrow> instant \<Rightarrow> observation_row
    \<Rightarrow> (PgError, TrustedProfile) tx" where
  "read_observation a reader loaded latest target source expires row =
    bind instant_now (\<lambda>started.
    bind clock_timestamp (\<lambda>micros.
    let status = view_status a reader loaded row micros in
    bind (lift (if status = ProfileStatus.Available
        then view_deadline (profile_end a loaded row) started micros expires else Ok expires)) (\<lambda>deadline.
    bind (view_values a (latest \<or> status = ProfileStatus.Available) row) (\<lambda>profile.
    ret \<lparr>tf_view = \<lparr>fv_instance = au_instance a, fv_target = target, fv_source = Some source,
          fv_status = status, fv_snapshot = Some (ob_snapshot row),
          fv_config_version = ob_config_version row, fv_source_revision = ob_source_revision row,
          fv_observed_at = Some (ob_observed row), fv_collected_at = Some (ob_collected row),
          fv_expires_at = Some (profile_end a loaded row), fv_profile = profile\<rparr>, tf_expires = deadline\<rparr>))))"

definition read_profile_body ::
  "Authority \<Rightarrow> Reader \<Rightarrow> (AccountKey \<times> ProfileSource) option \<Rightarrow> instant
    \<Rightarrow> (MutationError, TrustedProfile) tx" where
  "read_profile_body a reader latest budget =
    (let L = au_libs a; unavailable = (\<lambda>target source expires. \<lparr>tf_view =
        empty_view (au_instance a) target source ProfileStatus.Unavailable, tf_expires = expires\<rparr>) in
    bind (widen Storage (Reader_recheck L reader)) (\<lambda>loaded.
    bind (widen Storage (checked_expiry loaded (min budget (rd_expires reader)))) (\<lambda>expires.
    bind (profile_subject a reader loaded latest) (\<lambda>(target, source, bound).
    bind (load_active target) (\<lambda>_.
    if bound = Some None then ret (unavailable target None expires)
    else
      bind (query (\<lambda>d. find (is_observation target source) (d_observations d))) (\<lambda>found.
      case found of
        None \<Rightarrow> ret \<lparr>tf_view = empty_view (au_instance a) target (Some source) ProfileStatus.Missing,
                   tf_expires = expires\<rparr>
      | Some row \<Rightarrow>
          if bound \<noteq> None \<and> bound \<noteq> Some (Some (ob_snapshot row))
          then ret (unavailable target (Some source) expires)
          else
            bind (source_current L target source row) (\<lambda>ok.
            if \<not> ok then ret (unavailable target (Some source) expires)
            else widen Storage (read_observation a reader loaded (latest \<noteq> None) target source expires row))))))))"

definition read_profile ::
  "Authority \<Rightarrow> AuthenticatedSession \<Rightarrow> (AccountKey \<times> ProfileSource) option \<Rightarrow> int \<Rightarrow> TrustedProfile op" where
  "read_profile a actor latest deadline =
    op_bind (op_lift (require_runtime a)) (\<lambda>_.
    op_bind (Reader_new actor) (\<lambda>reader.
    op_bind (Budget_new deadline) (\<lambda>budget.
    op_bind (op_require (\<not> (case latest of None \<Rightarrow> False
        | Some (target, _) \<Rightarrow> ak_tenant target \<noteq> ak_tenant (rd_key reader))) AuthorityError.Rejected) (\<lambda>_.
    op_bind (Budget_remaining budget) (\<lambda>timeout.
    read_sql (au_bundle a) (ak_tenant (rd_key reader)) timeout (read_profile_body a reader latest budget))))))"

definition current_profile :: "Authority \<Rightarrow> AuthenticatedSession \<Rightarrow> int \<Rightarrow> TrustedProfile op" where
  "current_profile a actor deadline = read_profile a actor None deadline"

definition latest_profile ::
  "Authority \<Rightarrow> AuthenticatedSession \<Rightarrow> AccountKey \<Rightarrow> ProfileSource \<Rightarrow> int \<Rightarrow> TrustedProfile op" where
  "latest_profile a actor target source deadline = read_profile a actor (Some (target, source)) deadline"

text \<open>\<open>ProfileSource::key\<close>, the text a source is ordered by.\<close>

definition profile_source_key :: "Libraries \<Rightarrow> ProfileSource \<Rightarrow> ustr" where
  "profile_source_key L s =
    (case s of ProfileSource.IdentityLocal \<Rightarrow> lit ''local''
     | ProfileSource.Idp p \<Rightarrow> xl_show_uuid L (provider_uuid p))"

definition source_page :: "Libraries \<Rightarrow> AccountKey \<Rightarrow> ProfileSource option \<Rightarrow> db \<Rightarrow> ProfileSource list" where
  "source_page L target after d =
    take 101 (filter (\<lambda>s. case after of None \<Rightarrow> True
        | Some f \<Rightarrow> map int (profile_source_key L s) > map int (profile_source_key L f))
      (sort_key (\<lambda>s. map int (profile_source_key L s))
        (map ob_source (filter (\<lambda>r. ob_tenant r = ak_tenant target \<and> ob_principal r = key_uuid target)
          (d_observations d)))))"

definition latest_profile_sources ::
  "Authority \<Rightarrow> AuthenticatedSession \<Rightarrow> AccountKey \<Rightarrow> ProfileSource option \<Rightarrow> int
    \<Rightarrow> (ProfileSource list \<times> ProfileSource option) op" where
  "latest_profile_sources a actor target after deadline =
    op_bind (op_lift (require_runtime a)) (\<lambda>_.
    op_bind (Reader_new actor) (\<lambda>reader.
    op_bind (op_require (\<not> ak_tenant target \<noteq> ak_tenant (rd_key reader)) AuthorityError.Rejected) (\<lambda>_.
    read_sql (au_bundle a) (ak_tenant target) deadline
      (bind (widen Storage (Reader_recheck (au_libs a) reader)) (\<lambda>loaded.
       bind (widen Rule (authorize (au_policy a) (au_instance a) loaded ReadLatestProfile (Some target))) (\<lambda>_.
       bind (load_active target) (\<lambda>_.
       bind (query (source_page (au_libs a) target after)) (\<lambda>rows.
       let sources = take 100 rows in
       ret (sources, if length rows > 100 then Some (last sources) else None)))))))))"

subsection \<open>The local profile\<close>

definition local_view :: "Libraries \<Rightarrow> AccountKey \<Rightarrow> (PgError, LocalProfileView) tx" where
  "local_view L key =
    bind (query (\<lambda>d. find (is_local_profile key) (d_local_profiles d))) (\<lambda>row.
    case row of
      None \<Rightarrow> ret \<lparr>lv_revision = 0, lv_value = None\<rparr>
    | Some r \<Rightarrow>
        bind (lift (case lo_value r of None \<Rightarrow> Ok None
            | Some v \<Rightarrow> and_then (local_from_value L v) (\<lambda>x. Ok (Some x)))) (\<lambda>v.
        ret \<lparr>lv_revision = lo_revision r, lv_value = v\<rparr>))"

definition read_local_profile ::
  "Authority \<Rightarrow> AuthenticatedSession \<Rightarrow> AccountKey \<Rightarrow> int \<Rightarrow> LocalProfileView op" where
  "read_local_profile a actor target deadline =
    op_bind (op_lift (require_runtime a)) (\<lambda>_.
    op_bind (Reader_new actor) (\<lambda>reader.
    op_bind (op_require (\<not> ak_tenant target \<noteq> ak_tenant (rd_key reader)) AuthorityError.Rejected) (\<lambda>_.
    read_sql (au_bundle a) (ak_tenant target) deadline
      (bind (widen Storage (Reader_recheck (au_libs a) reader)) (\<lambda>loaded.
       bind (widen Rule (authorize (au_policy a) (au_instance a) loaded ReadLocalProfile (Some target))) (\<lambda>_.
       bind (load_active target) (\<lambda>_.
       widen Storage (local_view (au_libs a) target))))))))"

definition is_operation :: "TenantId \<Rightarrow> uuid \<Rightarrow> profile_operation_row \<Rightarrow> bool" where
  "is_operation tenant operation r \<longleftrightarrow> po_tenant r = tenant \<and> po_operation r = operation"

text \<open>The digest of a change: of its JSON text.\<close>

definition change_digest :: "Libraries \<Rightarrow> (ProfileChange \<Rightarrow> ustr) \<Rightarrow> ProfileChange \<Rightarrow> byte list" where
  "change_digest L change_json change = digest L (change_json change)"

definition changed_fields ::
  "LocalProfile option \<Rightarrow> LocalProfile option \<Rightarrow> PgError + ustr list" where
  "changed_fields old new =
    and_then (case old of None \<Rightarrow> Ok None
        | Some v \<Rightarrow> and_then (map_err (\<lambda>_. corrupt) (observation v)) (\<lambda>p. Ok (Some p))) (\<lambda>before.
    and_then (case new of None \<Rightarrow> Ok Profile_missing
        | Some v \<Rightarrow> map_err (\<lambda>_. corrupt) (observation v)) (\<lambda>after.
    Ok (changes before after @
      (if map_option lp_max_age_seconds old \<noteq> map_option lp_max_age_seconds new
       then [lit ''maxAgeSeconds''] else []))))"

text \<open>The part of the body that writes: past the replay of a recorded operation.\<close>

definition write_local_profile ::
  "Libraries \<Rightarrow> AccountKey \<Rightarrow> AccountKey \<Rightarrow> byte list \<Rightarrow> ProfileChange
    \<Rightarrow> (MutationError, ProfileReceipt \<times> SecurityEvent list) tx" where
  "write_local_profile L actor target fingerprint change =
    bind (query (\<lambda>d. count_where (\<lambda>r. po_tenant r = ak_tenant target \<and> po_principal r = key_uuid target)
        (d_profile_operations d))) (\<lambda>operations.
    bind (require (\<not> operations \<ge> 4096) (Storage reject)) (\<lambda>_.
    bind (widen Storage (local_view L target)) (\<lambda>old.
    bind (require (\<not> lv_revision old \<noteq> cg_expected change) MutationError.RevisionConflict) (\<lambda>_.
    bind (lift (ok_or (Storage corrupt) (checked_add (lv_revision old) 1))) (\<lambda>revision.
    bind (lift (map_err Storage (changed_fields (lv_value old) (cg_value change)))) (\<lambda>fields.
    bind (exec (\<lambda>d. d\<lparr>d_local_profiles := upsert (is_local_profile target)
        (\<lambda>_. \<lparr>lo_tenant = ak_tenant target, lo_principal = key_uuid target, lo_revision = revision,
             lo_value = cg_value change\<rparr>) (d_local_profiles d)\<rparr>)) (\<lambda>_.
    bind (exec (\<lambda>d. d\<lparr>d_profile_operations := \<lparr>po_tenant = ak_tenant target,
        po_operation = cg_operation change, po_principal = key_uuid target, po_actor = key_uuid actor,
        po_digest = fingerprint, po_revision = revision\<rparr> # d_profile_operations d\<rparr>)) (\<lambda>_.
    ret (\<lparr>rc_operation = cg_operation change, rc_revision = revision\<rparr>,
      [profile_event target (Some actor) (lit ''local_updated'') ProfileSource.IdentityLocal None
         (Some revision) fields])))))))))"

definition update_local_body ::
  "Authority \<Rightarrow> (ProfileChange \<Rightarrow> ustr) \<Rightarrow> AuthenticatedSession \<Rightarrow> AccountKey \<Rightarrow> ProfileChange
    \<Rightarrow> (MutationError, ProfileReceipt \<times> SecurityEvent list) tx" where
  "update_local_body a change_json actor target change =
    (let fingerprint = change_digest (au_libs a) change_json change in
    bind (widen Storage (recheck (au_libs a) actor)) (\<lambda>loaded.
    bind (widen Rule (authorize (au_policy a) (au_instance a) loaded UpdateLocalProfile (Some target))) (\<lambda>_.
    bind (load_active target) (\<lambda>_.
    bind (query (\<lambda>d. find (is_operation (ak_tenant target) (cg_operation change)) (d_profile_operations d))) (\<lambda>done_before.
    case done_before of
      Some r \<Rightarrow>
        bind (require (\<not> (po_principal r \<noteq> key_uuid target \<or> po_actor r \<noteq> key_uuid (px_key actor)
            \<or> po_digest r \<noteq> fingerprint)) MutationError.OperationConflict) (\<lambda>_.
        ret (\<lparr>rc_operation = cg_operation change, rc_revision = po_revision r\<rparr>, []))
    | None \<Rightarrow> write_local_profile (au_libs a) (px_key actor) target fingerprint change)))))"

definition update_local_profile ::
  "Authority \<Rightarrow> (ProfileChange \<Rightarrow> ustr) \<Rightarrow> (nat \<Rightarrow> uuid) \<Rightarrow> AuthenticatedSession \<Rightarrow> AccountKey \<Rightarrow> ProfileChange
    \<Rightarrow> int \<Rightarrow> ProfileReceipt op" where
  "update_local_profile a change_json fresh actor target change deadline =
    op_bind (op_lift (require_runtime a)) (\<lambda>_.
    op_bind (op_require (\<not> (ak_tenant target \<noteq> ak_tenant (px_key actor) \<or> cg_operation change = uuid_nil
        \<or> cg_expected change < 0
        \<or> (case cg_value change of None \<Rightarrow> False | Some v \<Rightarrow> \<not> is_ok (observation v))))
      AuthorityError.InvalidInput) (\<lambda>_.
    conditional_write_sql (au_bundle a) (ak_tenant target) deadline fresh
      (update_local_body a change_json actor target change)))"

definition local_profile_receipt ::
  "Authority \<Rightarrow> AuthenticatedSession \<Rightarrow> AccountKey \<Rightarrow> uuid \<Rightarrow> int \<Rightarrow> ProfileReceipt option op" where
  "local_profile_receipt a actor target operation deadline =
    op_bind (op_lift (require_runtime a)) (\<lambda>_.
    op_bind (Reader_new actor) (\<lambda>reader.
    op_bind (op_require (\<not> ak_tenant target \<noteq> ak_tenant (rd_key reader)) AuthorityError.Rejected) (\<lambda>_.
    read_sql (au_bundle a) (ak_tenant target) deadline
      (bind (widen Storage (Reader_recheck (au_libs a) reader)) (\<lambda>loaded.
       bind (widen Rule (authorize (au_policy a) (au_instance a) loaded UpdateLocalProfile (Some target))) (\<lambda>_.
       bind (query (\<lambda>d. find (\<lambda>r. is_operation (ak_tenant target) operation r
           \<and> po_principal r = key_uuid target \<and> po_actor r = key_uuid (rd_key reader)) (d_profile_operations d))) (\<lambda>row.
       ret (map_option (\<lambda>r. \<lparr>rc_operation = operation, rc_revision = po_revision r\<rparr>) row))))))))"

subsection \<open>Published sources\<close>

fun source_views :: "Libraries \<Rightarrow> provider_row list \<Rightarrow> MutationError + ProfileSourceView list" where
  "source_views L [] = Ok []"
| "source_views L (r # rs) =
    and_then (map_err (\<lambda>_. Storage corrupt)
      (ProviderSettings_try_from (xl_show_uuid L) (xl_url_parse L) (pv_settings r))) (\<lambda>settings.
    and_then (source_views L rs) (\<lambda>rest.
    let p = cm_profile (pv_claims settings) in
    Ok (\<lparr>fs_source = ProfileSource.Idp (ProviderId (pv_provider r)), fs_config_version = Some (pv_version r),
         fs_extensions_root = ps_extensions_claim p, fs_max_age_seconds = ps_max_age_seconds p\<rparr> # rest)))"

definition local_source_view :: ProfileSourceView where
  "local_source_view = \<lparr>fs_source = ProfileSource.IdentityLocal, fs_config_version = None,
     fs_extensions_root = Some (lit ''extensions''), fs_max_age_seconds = 14400\<rparr>"

definition profile_sources ::
  "Authority \<Rightarrow> AuthenticatedSession \<Rightarrow> int \<Rightarrow> ProfileSourceView list op" where
  "profile_sources a actor deadline =
    op_bind (op_lift (require_runtime a)) (\<lambda>_.
    op_bind (Reader_new actor) (\<lambda>reader.
    read_sql (au_bundle a) (ak_tenant (rd_key reader)) deadline
      (bind (widen Storage (Reader_recheck (au_libs a) reader)) (\<lambda>loaded.
       bind (widen Rule (authorize (au_policy a) (au_instance a) loaded ReadProfileSources None)) (\<lambda>_.
       bind (query (\<lambda>d. take 101 (sort_key pv_provider (filter (\<lambda>r. pv_tenant r = ak_tenant (rd_key reader)
           \<and> pv_enabled r) (d_providers d))))) (\<lambda>rows.
       bind (require (\<not> length rows > 100) (Storage reject)) (\<lambda>_.
       bind (lift (source_views (au_libs a) rows)) (\<lambda>views.
       ret (local_source_view # views)))))))))"

text \<open>profile_admission.rs, in a transaction of the host.\<close>

datatype AdmissionError = AdmissionRejected | AdmissionInvariant | AdmissionStorage PgError

definition admit_profile_source_on ::
  "Libraries \<Rightarrow> HostConnection \<Rightarrow> InstanceId \<Rightarrow> TenantId \<Rightarrow> ProfileSource
    \<Rightarrow> (AdmissionError, ProfileSourceView) tx" where
  "admit_profile_source_on L c instance_id tenant source =
    bind (require (hc_in_transaction c) AdmissionRejected) (\<lambda>_.
    bind (require (\<not> (hc_scope c \<noteq> Some tenant \<or> hc_isolation c \<noteq> lit ''read committed''))
      AdmissionRejected) (\<lambda>_.
    bind authority_id (\<lambda>i.
    bind (require (\<not> i \<noteq> instance_uuid instance_id) AdmissionRejected) (\<lambda>_.
    bind (query (\<lambda>d. find (\<lambda>r. gd_tenant r = tenant) (d_guard d))) (\<lambda>guard.
    bind (require (guard \<noteq> None) AdmissionRejected) (\<lambda>_.
    case source of
      ProfileSource.IdentityLocal \<Rightarrow> ret local_source_view
    | ProfileSource.Idp p \<Rightarrow>
        bind (query (\<lambda>d. find (\<lambda>r. is_provider tenant p r \<and> pv_enabled r) (d_providers d))) (\<lambda>row.
        bind (lift (ok_or AdmissionRejected row)) (\<lambda>r.
        bind (lift (map_err (\<lambda>_. AdmissionInvariant)
          (ProviderSettings_try_from (xl_show_uuid L) (xl_url_parse L) (pv_settings r)))) (\<lambda>settings.
        let p = cm_profile (pv_claims settings) in
        ret \<lparr>fs_source = source, fs_config_version = Some (pv_version r),
             fs_extensions_root = ps_extensions_claim p, fs_max_age_seconds = ps_max_age_seconds p\<rparr>)))))))))"

subsection \<open>What an accepted observation establishes\<close>

lemma store_observation_Inr:
  assumes "store_observation L snapshot key session v profile expiry w = Inr (e, w')"
  shows "w_micros w' = w_micros w \<and> (case e of
      None \<Rightarrow> w_db w' = w_db w
    | Some event \<Rightarrow>
        (\<exists>collected. let row = observed_row key v profile snapshot collected expiry in
          observation_check row \<and> admits_observation key row (w_db w)
          \<and> w_db w' = bind_profile (ak_tenant key) session (on_source v) snapshot
              ((w_db w)\<lparr>d_observations := upsert (is_observation key (on_source v)) (\<lambda>_. row)
                 (d_observations (w_db w))\<rparr>)
          \<and> (\<exists>fields. event = profile_event key None (lit ''observed'') (on_source v) (Some snapshot)
               (on_revision v) fields)))"
  using assms
  by (auto simp: store_observation_def put_observation_def bind_Inr insert_checked_Inr Let_def
      observed_row_def [THEN arg_cong [where f = ob_source]] split: if_splits
      intro!: exI [of _ "w_micros w (w_tick w)"])

lemma accept_Inr:
  assumes "accept L snapshot key session absolute v limits w = Inr (e, w')"
  defines "profile \<equiv> apply_limits (xl_json_len L) limits (on_profile v)"
    and "expiry \<equiv> min (min (on_source_time v + int (min (on_max_age v) (pl_max_age limits))) (on_source_expiry v)) absolute"
  shows "w_micros w' = w_micros w \<and> (case e of
      None \<Rightarrow> w_db w' = w_db w
    | Some event \<Rightarrow>
        (\<exists>collected. let row = observed_row key v profile snapshot collected expiry in
          on_source_time v \<le> w_micros w (w_tick w) div 1000000 \<and> w_micros w (w_tick w) div 1000000 < expiry
          \<and> observation_check row \<and> admits_observation key row (w_db w)
          \<and> is_ok (Profile_validate (on_profile v))
          \<and> w_db w' = bind_profile (ak_tenant key) session (on_source v) snapshot
              ((w_db w)\<lparr>d_observations := upsert (is_observation key (on_source v)) (\<lambda>_. row)
                 (d_observations (w_db w))\<rparr>)
          \<and> (\<exists>fields. event = profile_event key None (lit ''observed'') (on_source v) (Some snapshot)
               (on_revision v) fields)))"
proof -
  let ?t = "w_micros w (w_tick w) div 1000000"
  from assms(1) have "is_ok (Profile_validate (on_profile v))
    \<and> (if on_source_time v > ?t \<or> expiry \<le> ?t then e = None \<and> w' = w\<lparr>w_tick := Suc (w_tick w)\<rparr>
       else store_observation L snapshot key session v profile expiry (w\<lparr>w_tick := Suc (w_tick w)\<rparr>) = Inr (e, w'))"
    by (auto simp: accept_def Let_def bind_Inr is_ok_iff checked_add_def expiry_def profile_def split: if_splits)
  then show ?thesis
    by (auto simp: not_le not_less Let_def observed_row_def split: if_splits option.splits
        dest!: store_observation_Inr)
qed

lemma find_upsert_self: "q row \<Longrightarrow> find q (upsert q (\<lambda>_. row) t) = Some row"
  by (rule find_upsert_same) simp_all

text \<open>C10: An accepted observation is bounded and current. When a login's observation is accepted, the
  stored row carries the login's fresh snapshot, ends no later than the session, than the source
  says, and than the source time plus the limit, and has not ended at the reading of the clock
  before it was stored; it replaced only a row with a smaller number of the tenant's sequence; and
  the session of the login is bound to exactly this snapshot.\<close>

theorem accepted_observation_bounded:
  assumes "accept L snapshot key session absolute v limits w = Ok (Some event, w')"
    and "find (is_session (ak_tenant key) session) (d_sessions (w_db w)) = Some r"
  shows "\<exists>row r'. find (is_observation key (on_source v)) (d_observations (w_db w')) = Some row
    \<and> ob_snapshot row = snapshot \<and> ob_sequence row = on_sequence v
    \<and> ob_expires row \<le> absolute \<and> ob_expires row \<le> on_source_expiry v
    \<and> ob_expires row \<le> on_source_time v + int (pl_max_age limits)
    \<and> w_micros w (w_tick w) div 1000000 < ob_expires row
    \<and> (\<forall>old. find (is_observation key (on_source v)) (d_observations (w_db w)) = Some old
        \<longrightarrow> ob_sequence old < ob_sequence row)
    \<and> find (is_session (ak_tenant key) session) (d_sessions (w_db w')) = Some r'
    \<and> se_profile_source r' = Some (on_source v) \<and> se_profile_snapshot r' = Some snapshot"
proof -
  define expiry where "expiry = min (min (on_source_time v + int (min (on_max_age v) (pl_max_age limits)))
    (on_source_expiry v)) absolute"
  from accept_Inr [OF assms(1), folded expiry_def] obtain collected where
    t: "w_micros w (w_tick w) div 1000000 < expiry" and
    adm: "admits_observation key (observed_row key v (apply_limits (xl_json_len L) limits (on_profile v)) snapshot collected expiry) (w_db w)"
    and db: "w_db w' = bind_profile (ak_tenant key) session (on_source v) snapshot
              ((w_db w)\<lparr>d_observations := upsert (is_observation key (on_source v))
                (\<lambda>_. observed_row key v (apply_limits (xl_json_len L) limits (on_profile v)) snapshot collected expiry)
                 (d_observations (w_db w))\<rparr>)"
    by (auto simp: Let_def)
  let ?row = "observed_row key v (apply_limits (xl_json_len L) limits (on_profile v)) snapshot collected expiry"
  have "find (is_observation key (on_source v)) (d_observations (w_db w')) = Some ?row"
    unfolding db bind_profile_def by (simp add: find_upsert_self is_observation_def observed_row_def)
  moreover have "\<forall>old. find (is_observation key (on_source v)) (d_observations (w_db w)) = Some old
      \<longrightarrow> ob_sequence old < ob_sequence ?row"
    using adm by (auto simp: admits_observation_def supersedes_def observed_row_def)
  moreover have "find (is_session (ak_tenant key) session) (d_sessions (w_db w')) =
      Some (r\<lparr>se_profile_source := Some (on_source v), se_profile_snapshot := Some snapshot\<rparr>)"
    using assms(2) find_SomeD [OF assms(2)]
    by (simp add: db bind_profile_def find_update_where is_session_def)
  moreover have "expiry \<le> absolute" "expiry \<le> on_source_expiry v"
    "expiry \<le> on_source_time v + int (pl_max_age limits)"
    unfolding expiry_def by linarith+
  ultimately show ?thesis
    using t by (intro exI [of _ ?row] exI [of _ "r\<lparr>se_profile_source := Some (on_source v), se_profile_snapshot := Some snapshot\<rparr>"])
      (simp add: observed_row_def)
qed

subsection \<open>A session sees the profile of its own login\<close>

lemma Reader_recheck_Inr:
  assumes "Reader_recheck L reader w = Inr (l, w')"
  shows "\<exists>r. loaded_from L (rd_checks reader) (w_db w) r (rd_key reader) l \<and> sv_id (ld_view l) = rd_session reader
    \<and> d_authority (w_db w) = rd_instance reader"
proof -
  from assms obtain w1 where l: "lookup L (ak_tenant (rd_key reader)) (rd_digest reader) (rd_kind reader) (rd_checks reader) w1 = Inr (l, w')"
    and "w_db w1 = w_db w" "sv_id (ld_view l) = rd_session reader" "st_key (ld_state l) = rd_key reader"
      "d_authority (w_db w) = rd_instance reader"
    unfolding Reader_recheck_def by (elim bindE) auto
  with lookup_Inr [OF l] show ?thesis by auto
qed

lemma Reader_recheck_reads:
  assumes "checks_contract (rd_checks reader)" shows "reads_only (Reader_recheck L reader)"
  unfolding Reader_recheck_def by (intro pure.steps lookup_reads assms)

lemma checked_expiry_Inr:
  "checked_expiry loaded budget w = Inr (e, w') \<Longrightarrow>
    e = min budget (ld_expires loaded) \<and> w_instants w (w_tick w) < e \<and> w' = w\<lparr>w_tick := Suc (w_tick w)\<rparr>"
  by (auto simp: checked_expiry_def Let_def bind_Inr)

lemma load_active_Inr [simp]:
  "load_active target w = Inr (u, w') \<longleftrightarrow> guarded (w_db w) (ak_tenant target)
    \<and> (\<exists>s. stored_of (w_db w) target = Some s \<and> active (so_state s)) \<and> w' = w"
  by (auto simp: load_active_def bind_Inr load_Inr)

lemma source_current_same:
  "source_current L target source row w = Inr (ok, w') \<Longrightarrow> w' = w"
  by (auto simp: source_current_def tx_simps split: ProfileSource.splits)

lemma read_observation_Inr:
  assumes "read_observation a reader loaded latest target source expires row w = Inr (p, w')"
  shows "tf_expires p \<le> expires \<and> w_db w' = w_db w
    \<and> fv_target (tf_view p) = target \<and> fv_source (tf_view p) = Some source
    \<and> fv_snapshot (tf_view p) = Some (ob_snapshot row)
    \<and> (fv_status (tf_view p) = ProfileStatus.Available \<or> fv_status (tf_view p) = ProfileStatus.Expired)
    \<and> (\<forall>value. fv_profile (tf_view p) = Some value \<longrightarrow>
        (latest \<or> fv_status (tf_view p) = ProfileStatus.Available)
        \<and> (\<exists>stored. profile_from_value (au_libs a) (ob_value row) = Ok stored
             \<and> is_ok (Profile_validate stored)
             \<and> value = apply_limits (xl_json_len (au_libs a)) (au_limits a) stored))"
proof -
  let ?status = "view_status a reader loaded row (w_micros w (Suc (w_tick w)))"
  let ?w = "w\<lparr>w_tick := Suc (Suc (w_tick w))\<rparr>"
  have st: "?status = ProfileStatus.Available \<or> ?status = ProfileStatus.Expired" by (simp add: view_status_def)
  from assms obtain profile deadline where vals: "view_values a (latest \<or> ?status = ProfileStatus.Available) row ?w = Inr (profile, w')"
    and d: "(if ?status = ProfileStatus.Available
        then view_deadline (profile_end a loaded row) (w_instants w (w_tick w)) (w_micros w (Suc (w_tick w))) expires
        else Ok expires) = Ok deadline"
    and p: "fv_target (tf_view p) = target" "fv_source (tf_view p) = Some source"
      "fv_snapshot (tf_view p) = Some (ob_snapshot row)" "fv_status (tf_view p) = ?status"
      "fv_profile (tf_view p) = profile" "tf_expires p = deadline"
    unfolding read_observation_def Let_def by (elim bindE) (auto split del: if_split)
  from vals have "w' = ?w \<and> (\<forall>value. profile = Some value \<longrightarrow> (latest \<or> ?status = ProfileStatus.Available)
      \<and> (\<exists>stored. profile_from_value (au_libs a) (ob_value row) = Ok stored \<and> is_ok (Profile_validate stored)
             \<and> value = apply_limits (xl_json_len (au_libs a)) (au_limits a) stored))"
    by (auto simp: view_values_def bind_Inr is_ok_iff split: if_splits)
  moreover have "deadline \<le> expires"
    using d by (auto simp: view_deadline_def Let_def and_then_Inr_iff split: if_splits)
  ultimately show ?thesis using p st by simp
qed

text \<open>C9: The profile a session reads for itself is the one its own login observed. A current read
  that returns values found the session's row bound to the snapshot that the row of its own
  account and source still has, so that a later login of another session has not replaced it;
  the values are that row's under the present limits, the status is \<open>Available\<close>, the view's
  deadline is not after the proof's, and nothing was written.\<close>

theorem current_profile_is_own:
  assumes "checks_contract (rd_checks reader)"
    and "read_profile_body a reader None budget w = Ok (p, w')"
    and "fv_profile (tf_view p) = Some value"
  shows "\<exists>r row stored. find (is_session (ak_tenant (rd_key reader)) (rd_session reader)) (d_sessions (w_db w)) = Some r
    \<and> find (is_observation (rd_key reader)
        (case se_profile_source r of None \<Rightarrow> ProfileSource.IdentityLocal | Some s \<Rightarrow> s)) (d_observations (w_db w)) = Some row
    \<and> se_profile_snapshot r = Some (ob_snapshot row) \<and> fv_snapshot (tf_view p) = Some (ob_snapshot row)
    \<and> profile_from_value (au_libs a) (ob_value row) = Ok stored
    \<and> value = apply_limits (xl_json_len (au_libs a)) (au_limits a) stored
    \<and> fv_status (tf_view p) = ProfileStatus.Available \<and> tf_expires p \<le> rd_expires reader
    \<and> w_db w' = w_db w"
proof -
  let ?source = "\<lambda>r. case se_profile_source r of None \<Rightarrow> ProfileSource.IdentityLocal | Some s \<Rightarrow> s"
  let ?q = "\<lambda>r. find (is_observation (rd_key reader) (?source r))"
  from assms(2) obtain loaded w1 expires w2 r w3 where load: "Reader_recheck (au_libs a) reader w = Inr (loaded, w1)"
    and exp: "checked_expiry loaded (min budget (rd_expires reader)) w1 = Inr (expires, w2)"
    and r: "find (is_session (ak_tenant (rd_key reader)) (rd_session reader)) (d_sessions (w_db w2)) = Some r"
    and w3: "w_db w3 = w_db w2"
    and rest: "(if Some (se_profile_snapshot r) = Some None
      then ret \<lparr>tf_view = empty_view (au_instance a) (rd_key reader) None ProfileStatus.Unavailable, tf_expires = expires\<rparr>
      else bind (query (\<lambda>d. ?q r (d_observations d))) (\<lambda>found.
        case found of
          None \<Rightarrow> ret \<lparr>tf_view = empty_view (au_instance a) (rd_key reader) (Some (?source r)) ProfileStatus.Missing,
                     tf_expires = expires\<rparr>
        | Some row \<Rightarrow>
            if Some (se_profile_snapshot r) \<noteq> None \<and> Some (se_profile_snapshot r) \<noteq> Some (Some (ob_snapshot row))
            then ret \<lparr>tf_view = empty_view (au_instance a) (rd_key reader) (Some (?source r)) ProfileStatus.Unavailable, tf_expires = expires\<rparr>
            else
              bind (source_current (au_libs a) (rd_key reader) (?source r) row) (\<lambda>ok.
              if \<not> ok then ret \<lparr>tf_view = empty_view (au_instance a) (rd_key reader) (Some (?source r)) ProfileStatus.Unavailable, tf_expires = expires\<rparr>
              else widen Storage (read_observation a reader loaded (None \<noteq> (None :: (AccountKey \<times> ProfileSource) option)) (rd_key reader) (?source r) expires row)))) w3
        = Inr (p, w')"
    unfolding read_profile_body_def Let_def profile_subject_def
    by (elim bindE) (auto simp: bind_Inr)
  have db: "w_db w3 = w_db w" "w_db w2 = w_db w"
    using reads_onlyD [OF Reader_recheck_reads [OF assms(1)] load] checked_expiry_Inr [OF exp] w3 by auto
  have exp': "expires \<le> rd_expires reader" using checked_expiry_Inr [OF exp] by simp
  from rest assms(3) obtain row where row: "?q r (d_observations (w_db w3)) = Some row"
    and snap: "se_profile_snapshot r = Some (ob_snapshot row)"
    and obs: "read_observation a reader loaded False (rd_key reader) (?source r) expires row w3 = Inr (p, w')"
    by (auto simp: bind_Inr empty_view_def split: if_splits option.splits dest: source_current_same)
  from read_observation_Inr [OF obs] assms(3) obtain stored where
    "profile_from_value (au_libs a) (ob_value row) = Ok stored"
    "value = apply_limits (xl_json_len (au_libs a)) (au_limits a) stored"
    "fv_snapshot (tf_view p) = Some (ob_snapshot row)" "fv_status (tf_view p) = ProfileStatus.Available"
    "tf_expires p \<le> expires" "w_db w' = w_db w3"
    by auto
  with row snap r db exp' show ?thesis
    by (intro exI [of _ r] exI [of _ row] exI [of _ stored]) auto
qed

subsection \<open>Updates of the local profile\<close>

text \<open>The revision an account's local profile has; zero before the first update.\<close>

definition local_revision :: "db \<Rightarrow> AccountKey \<Rightarrow> int" where
  "local_revision d key =
    (case find (is_local_profile key) (d_local_profiles d) of None \<Rightarrow> 0 | Some r \<Rightarrow> lo_revision r)"

definition recorded :: "db \<Rightarrow> TenantId \<Rightarrow> uuid \<Rightarrow> profile_operation_row option" where
  "recorded d tenant operation = find (is_operation tenant operation) (d_profile_operations d)"

definition same_operation :: "Libraries \<Rightarrow> (ProfileChange \<Rightarrow> ustr) \<Rightarrow> AccountKey \<Rightarrow> AccountKey \<Rightarrow> ProfileChange
    \<Rightarrow> profile_operation_row \<Rightarrow> bool" where
  "same_operation L cj actor target change r \<longleftrightarrow> po_principal r = key_uuid target
    \<and> po_actor r = key_uuid actor \<and> po_digest r = change_digest L cj change"

lemma local_view_Inr:
  "local_view L key w = Inr (v, w') \<Longrightarrow> w' = w \<and> lv_revision v = local_revision (w_db w) key"
  by (auto simp: local_view_def local_revision_def bind_Inr split: option.splits)

lemma write_local_profile_Inr:
  assumes "write_local_profile L actor target fingerprint change w = Inr ((receipt, events), w')"
  shows "local_revision (w_db w) target = cg_expected change
    \<and> receipt = \<lparr>rc_operation = cg_operation change, rc_revision = cg_expected change + 1\<rparr> \<and> length events = 1
    \<and> w_db w' = (w_db w)\<lparr>d_local_profiles := upsert (is_local_profile target)
        (\<lambda>_. \<lparr>lo_tenant = ak_tenant target, lo_principal = key_uuid target,
             lo_revision = cg_expected change + 1, lo_value = cg_value change\<rparr>) (d_local_profiles (w_db w)),
        d_profile_operations := \<lparr>po_tenant = ak_tenant target,
          po_operation = cg_operation change, po_principal = key_uuid target, po_actor = key_uuid actor,
          po_digest = fingerprint, po_revision = cg_expected change + 1\<rparr> # d_profile_operations (w_db w)\<rparr>"
  using assms unfolding write_local_profile_def
  by (elim bindE) (auto simp: checked_add_def split: if_splits dest!: local_view_Inr)

lemma load_active_Inl: "load_active target w = Inl e \<Longrightarrow> \<exists>s. e = Storage s"
  by (auto simp: load_active_def bind_Inl widen_Inl)

lemma unchanged_by:
  "policy_contract (au_policy a) \<Longrightarrow> authorize (au_policy a) i l operation target w = Inr (u, w') \<Longrightarrow> w_db w' = w_db w"
  "checks_contract (px_checks actor) \<Longrightarrow> recheck L actor w = Inr (l', w'') \<Longrightarrow> w_db w'' = w_db w"
  by (auto dest: reads_onlyD [OF authorize_reads] reads_onlyD [OF recheck_reads])

lemma update_local_body_run:
  assumes "checks_contract (px_checks actor)" and "policy_contract (au_policy a)"
    and "update_local_body a cj actor target change w = r"
    and "is_ok r \<or> r = Inl OperationConflict \<or> r = Inl MutationError.RevisionConflict"
  shows "\<exists>w0. w_db w0 = w_db w \<and> r = (case recorded (w_db w) (ak_tenant target) (cg_operation change) of
      Some row \<Rightarrow>
        if same_operation (au_libs a) cj (px_key actor) target change row
        then Inr ((\<lparr>rc_operation = cg_operation change, rc_revision = po_revision row\<rparr>, []), w0)
        else Inl OperationConflict
    | None \<Rightarrow> write_local_profile (au_libs a) (px_key actor) target
        (change_digest (au_libs a) cj change) change w0)"
proof -
  have no: "\<not> (is_ok (Inl e :: MutationError + 'z) \<or> (Inl e :: MutationError + 'z) = Inl OperationConflict
      \<or> (Inl e :: MutationError + 'z) = Inl MutationError.RevisionConflict)"
    if "e \<noteq> OperationConflict" "e \<noteq> MutationError.RevisionConflict" for e using that by (simp add: is_ok_iff)
  let ?L = "au_libs a" and ?cx = "change_digest (au_libs a) cj change"
  obtain loaded w1 where l: "recheck ?L actor w = Inr (loaded, w1)"
    using assms(3,4) no by (cases "recheck ?L actor w") (auto simp: update_local_body_def Let_def bind_def widen_def and_then_def)
  obtain w2 where p: "authorize (au_policy a) (au_instance a) loaded UpdateLocalProfile (Some target) w1 = Inr ((), w2)"
    using assms(3,4) no l
    by (cases "authorize (au_policy a) (au_instance a) loaded UpdateLocalProfile (Some target) w1")
       (auto simp: update_local_body_def Let_def bind_def widen_def and_then_def)
  have db: "w_db w1 = w_db w" "w_db w2 = w_db w1" using unchanged_by assms(1,2) l p by blast+
  obtain "load_active target w2 = Inr ((), w2)"
    using assms(3,4) no l p
    by (cases "load_active target w2")
       (auto simp: update_local_body_def Let_def bind_def widen_def and_then_def dest: load_active_Inl)
  with l p have "r = (case recorded (w_db w) (ak_tenant target) (cg_operation change) of
      Some row \<Rightarrow>
        if same_operation ?L cj (px_key actor) target change row
        then Inr ((\<lparr>rc_operation = cg_operation change, rc_revision = po_revision row\<rparr>, []), w2)
        else Inl OperationConflict
    | None \<Rightarrow> write_local_profile ?L (px_key actor) target ?cx change w2)"
    unfolding assms(3) [symmetric] update_local_body_def Let_def
    by (auto simp: run_simps recorded_def same_operation_def db split: option.split)
  with db show ?thesis by (intro exI [of _ w2]) simp
qed


text \<open>C12: The revision of a local profile counts its updates. An update that emits an event found the
  revision the caller expected, leaves exactly the next one with the caller's value and its
  receipt, and changes the local profile of no other account; an update without an event changed
  nothing.\<close>

theorem local_update_advances:
  assumes "policy_contract (au_policy a)" and "checks_contract (px_checks actor)"
    and "update_local_body a change_json actor target change w = Ok ((receipt, events), w1)"
  shows "(if events = [] then w_db w1 = w_db w
    else local_revision (w_db w) target = cg_expected change
      \<and> local_revision (w_db w1) target = cg_expected change + 1 \<and> rc_revision receipt = cg_expected change + 1
      \<and> map_option lo_value (find (is_local_profile target) (d_local_profiles (w_db w1))) = Some (cg_value change)
      \<and> (\<forall>other. other \<noteq> target \<longrightarrow> find (is_local_profile other) (d_local_profiles (w_db w1))
           = find (is_local_profile other) (d_local_profiles (w_db w))))"
proof -
  from update_local_body_run [OF assms(2,1,3)] obtain w0 where w0: "w_db w0 = w_db w" and
    run: "Inr ((receipt, events), w1) = (case recorded (w_db w) (ak_tenant target) (cg_operation change) of
      Some row \<Rightarrow>
        if same_operation (au_libs a) change_json (px_key actor) target change row
        then Inr ((\<lparr>rc_operation = cg_operation change, rc_revision = po_revision row\<rparr>, []), w0)
        else Inl OperationConflict
    | None \<Rightarrow> write_local_profile (au_libs a) (px_key actor) target
        (change_digest (au_libs a) change_json change) change w0)"
    by auto
  show ?thesis
  proof (cases "recorded (w_db w) (ak_tenant target) (cg_operation change)")
    case (Some row)
    with run w0 show ?thesis by (auto split: if_splits)
  next
    case None
    with run have "write_local_profile (au_libs a) (px_key actor) target
        (change_digest (au_libs a) change_json change) change w0 = Inr ((receipt, events), w1)" by simp
    note step = write_local_profile_Inr [OF this]
    let ?row = "\<lparr>lo_tenant = ak_tenant target, lo_principal = key_uuid target,
             lo_revision = cg_expected change + 1, lo_value = cg_value change\<rparr>"
    have new: "find (is_local_profile target) (d_local_profiles (w_db w1)) = Some ?row"
      using step by (simp add: find_upsert_self is_local_profile_def)
    have "find (is_local_profile other) (d_local_profiles (w_db w1))
        = find (is_local_profile other) (d_local_profiles (w_db w))" if "other \<noteq> target" for other
      using step w0 that same_account_key [of target other]
      by (auto simp: is_local_profile_def intro!: find_upsert_other)
    with step w0 new show ?thesis by (auto simp: local_revision_def)
  qed
qed

subsection \<open>Examples\<close>

definition missing_observation :: Observation where
  "missing_observation = \<lparr>on_source = ProfileSource.IdentityLocal, on_profile = Profile_missing, on_source_time = 1000,
     on_source_expiry = i64_max, on_max_age = 14400, on_sequence = 1, on_config_version = None,
     on_source_epoch = None, on_revision = None\<rparr>"

definition missing_row :: observation_row where
  "missing_row = observed_row user_key missing_observation Profile_missing 77 1000000000 10900"

lemma sample_accept:
  "accept sample_libs 77 user_key (SessionId 3) 10900 missing_observation ProfileLimits_default session_world
    = Ok (Some (profile_event user_key None (lit ''observed'') ProfileSource.IdentityLocal (Some 77) None
        (changes None Profile_missing)),
      session_world\<lparr>w_tick := 2, w_db := bind_profile sample_tenant (SessionId 3) ProfileSource.IdentityLocal 77
        (session_db\<lparr>d_observations := [missing_row]\<rparr>)\<rparr>)"
  by (simp add: accept_def run_simps Let_def missing_observation_def Profile_missing_def Profile_validate_def
      apply_limits_def checked_add_def in_i64_def i64_min_def i64_max_def session_world_def sample_world_def
      store_observation_def put_observation_def previous_profile_def session_db_def sample_db_def
      admits_observation_def observed_row_def observation_check_def upsert_def ProfileLimits_default_def
      missing_row_def attribute_value.simps)

theorem accepted_observation_bounded_witness:
  "\<exists>event w' row. accept sample_libs 77 user_key (SessionId 3) 10900 missing_observation ProfileLimits_default session_world
      = Ok (Some event, w')
    \<and> find (is_observation user_key ProfileSource.IdentityLocal) (d_observations (w_db w')) = Some row
    \<and> ob_expires row \<le> 10900"
  using accepted_observation_bounded [OF sample_accept, of user_session] sample_accept
  by (auto simp: session_world_def session_db_def is_session_def user_session_def missing_observation_def)

definition user_reader :: Reader where
  "user_reader = \<lparr>rd_key = user_key, rd_digest = user_token, rd_session = SessionId 3, rd_kind = Cookie,
     rd_instance = 5, rd_expires = 500000000, rd_checks = no_checks\<rparr>"

definition profile_world :: world where
  "profile_world = sample_world\<lparr>w_db := session_db\<lparr>d_sessions := [user_session\<lparr>
       se_profile_source := Some ProfileSource.IdentityLocal, se_profile_snapshot := Some 77\<rparr>],
     d_observations := [missing_row]\<rparr>\<rparr>"

lemma profile_world_signed_in: "user_signed_in profile_world"
  by (auto simp: user_signed_in_def profile_world_def session_db_def sample_world_def sample_db_def guarded_def)

lemma sample_reader:
  assumes "user_signed_in w" "w_tick w < 900"
  shows "Reader_recheck L user_reader w = Inr (user_loaded (w_tick w + 1), w\<lparr>w_tick := w_tick w + 3\<rparr>)"
proof -
  let ?w = "w\<lparr>w_tick := Suc (w_tick w)\<rparr>"
  have "user_signed_in ?w" using assms by (simp add: user_signed_in_def)
  note l = lookup_sample [OF this, of L]
  show ?thesis
    using assms
    by (simp add: Reader_recheck_def run_simps user_reader_def user_signed_in_def
        bind_run(1) [where m = "lookup L sample_tenant user_token Cookie no_checks" and w = ?w, OF l]
        user_view_def SessionView_new_def user_loaded_def user_state_def)
qed

definition missing_view :: TrustedProfile where
  "missing_view = \<lparr>tf_view = \<lparr>fv_instance = InstanceId 5, fv_target = user_key,
     fv_source = Some ProfileSource.IdentityLocal, fv_status = ProfileStatus.Available,
     fv_snapshot = Some 77, fv_config_version = None, fv_source_revision = None, fv_observed_at = Some 1000,
     fv_collected_at = Some 1000000000, fv_expires_at = Some 10900, fv_profile = Some Profile_missing\<rparr>,
     tf_expires = 400000000\<rparr>"

lemma sample_read_profile:
  "read_profile_body sample_authority user_reader None 400000000 profile_world
    = Inr (missing_view, profile_world\<lparr>w_tick := 6\<rparr>)"
proof -
  have r: "Reader_recheck sample_libs user_reader profile_world = Inr (user_loaded 1, profile_world\<lparr>w_tick := 3\<rparr>)"
    using sample_reader [OF profile_world_signed_in, of sample_libs] by (simp add: profile_world_def sample_world_def)
  have l: "load_active user_key (profile_world\<lparr>w_tick := n\<rparr>) = Inr ((), profile_world\<lparr>w_tick := n\<rparr>)" for n
    using load_sample [of "profile_world\<lparr>w_tick := n\<rparr>"] profile_world_signed_in
    by (simp add: user_signed_in_def load_active_def run_simps user_state_def active_def)
  have e: "profile_end sample_authority (user_loaded n) missing_row = 10900" for n
    by (simp add: profile_end_def missing_row_def observed_row_def missing_observation_def user_loaded_def user_view_def
        SessionView_new_def user_lifetime_def saturating_add_def clamp_i64_def i64_max_def i64_min_def sample_authority_def
        ProfileLimits_default_def)
  have a: "au_libs sample_authority = sample_libs" "au_instance sample_authority = InstanceId 5"
    by (simp_all add: sample_authority_def)
  have rd: "rd_expires user_reader = 500000000" "ld_expires (user_loaded (Suc 0)) = 799999999001"
    "rd_key user_reader = user_key" "rd_session user_reader = SessionId 3"
    by (simp_all add: user_reader_def user_loaded_def)
  have s': "find (is_session sample_tenant (SessionId 3)) (d_sessions (w_db profile_world)) = Some
      (user_session\<lparr>se_profile_source := Some ProfileSource.IdentityLocal, se_profile_snapshot := Some 77\<rparr>)"
    by (simp add: profile_world_def is_session_def user_session_def)
  have ob: "find (is_observation user_key ProfileSource.IdentityLocal) (d_observations (w_db profile_world)) = Some missing_row"
      "ob_snapshot missing_row = 77"
    by (simp_all add: profile_world_def is_observation_def missing_row_def observed_row_def missing_observation_def)
  have t: "w_micros profile_world n = 1000000000" "w_instants profile_world n = int n" for n
    by (simp_all add: profile_world_def sample_world_def)
  have v: "view_values sample_authority True missing_row w = Inr (Some Profile_missing, w)" for w
    by (simp add: view_values_def run_simps missing_row_def observed_row_def missing_observation_def Profile_missing_def
        Profile_validate_def apply_limits_def profile_from_value_def sample_authority_def ProfileLimits_default_def
        sample_libs_def)
  have o': "read_observation sample_authority user_reader (user_loaded 1) False user_key ProfileSource.IdentityLocal
      400000000 missing_row (profile_world\<lparr>w_tick := 4\<rparr>) = Inr (missing_view, profile_world\<lparr>w_tick := 6\<rparr>)"
    by (simp add: read_observation_def run_simps Let_def view_status_def e t user_reader_def no_checks_def
        checks_seconds_def view_deadline_def v saturating_sub_def clamp_i64_def i64_max_def i64_min_def
        instant_checked_add_def)
      (simp add: missing_view_def missing_row_def observed_row_def missing_observation_def sample_authority_def)
  have ps: "profile_subject sample_authority user_reader (user_loaded 1) None (profile_world\<lparr>w_tick := 4\<rparr>)
      = Inr ((user_key, ProfileSource.IdentityLocal, Some (Some 77)), profile_world\<lparr>w_tick := 4\<rparr>)"
    using s' by (simp add: profile_subject_def run_simps rd fetch_one_def)
  show ?thesis
    using t [of 3] o' ob
    by (simp add: read_profile_body_def run_simps Let_def a r checked_expiry_def l
        bind_run(1) [where m = "profile_subject sample_authority user_reader (user_loaded (Suc 0)) None"
          and w = "profile_world\<lparr>w_tick := 4\<rparr>", OF ps [unfolded One_nat_def]] rd source_current_def)
qed

theorem current_profile_is_own_witness:
  "\<exists>r row. find (is_session sample_tenant (SessionId 3)) (d_sessions (w_db profile_world)) = Some r
    \<and> find (is_observation user_key ProfileSource.IdentityLocal) (d_observations (w_db profile_world)) = Some row
    \<and> se_profile_snapshot r = Some (ob_snapshot row) \<and> fv_snapshot (tf_view missing_view) = Some 77"
  using current_profile_is_own [OF _ sample_read_profile, of Profile_missing] sample_contracts(2)
  by (auto simp: user_reader_def missing_view_def profile_world_def is_session_def user_session_def
      is_observation_def missing_row_def observed_row_def missing_observation_def)

definition clear_profile :: ProfileChange where
  "clear_profile = \<lparr>cg_operation = 88, cg_expected = 0, cg_value = None\<rparr>"

lemma sample_update:
  "\<exists>e w'. update_local_body sample_authority (\<lambda>_. [120]) user_proof user_key clear_profile session_world
    = Inr ((\<lparr>rc_operation = 88, rc_revision = 1\<rparr>, [e]), w')"
proof -
  have r: "recheck sample_libs user_proof session_world
      = Inr ((user_loaded 1)\<lparr>ld_expires := 500000000\<rparr>, session_world\<lparr>w_tick := 4\<rparr>)"
    using recheck_sample [OF session_world_signed_in, of sample_libs] by (simp add: session_world_def sample_world_def)
  have l: "load_active user_key (session_world\<lparr>w_tick := n\<rparr>) = Inr ((), session_world\<lparr>w_tick := n\<rparr>)" for n
    using load_sample [of "session_world\<lparr>w_tick := n\<rparr>"] session_world_signed_in
    by (simp add: user_signed_in_def load_active_def run_simps user_state_def active_def)
  have a: "authorize (au_policy sample_authority) i ((user_loaded n)\<lparr>ld_expires := 500000000\<rparr>) UpdateLocalProfile
      (Some user_key) (session_world\<lparr>w_tick := 4\<rparr>) = Inr ((), session_world\<lparr>w_tick := 6\<rparr>)" for i n
    using authorize_sample [of "session_world\<lparr>w_tick := 4\<rparr>" "(user_loaded n)\<lparr>ld_expires := 500000000\<rparr>" user_key i]
    by (simp add: session_world_def sample_world_def user_loaded_def user_state_def)
  have L: "au_libs sample_authority = sample_libs" by (simp add: sample_authority_def)
  have no_ops: "d_profile_operations (w_db session_world) = []" "d_local_profiles (w_db session_world) = []"
    by (simp_all add: session_world_def session_db_def sample_db_def)
  show ?thesis
    using r a
    by (simp add: update_local_body_def Let_def run_simps l L no_ops write_local_profile_def local_view_def
        clear_profile_def count_where_def checked_add_def in_i64_def i64_min_def i64_max_def changed_fields_def)
qed


theorem local_update_advances_witness:
  "\<exists>e w1. update_local_body sample_authority (\<lambda>_. [120]) user_proof user_key clear_profile session_world
      = Inr ((\<lparr>rc_operation = 88, rc_revision = 1\<rparr>, [e]), w1)
    \<and> local_revision (w_db w1) user_key = 1"
proof -
  obtain e w1 where u: "update_local_body sample_authority (\<lambda>_. [120]) user_proof user_key clear_profile session_world
      = Inr ((\<lparr>rc_operation = 88, rc_revision = 1\<rparr>, [e]), w1)"
    using sample_update by blast
  from u local_update_advances [OF sample_contracts(1,4) u] show ?thesis by (simp add: clear_profile_def)
qed

end
