(* ===== verification/Session_Life.thy ===== *)
theory Session_Life
  imports Sessions Profiles
begin

section \<open>What the session operations guarantee\<close>

lemma account_of_same:
  assumes "d_accounts d = d_accounts e" "d_memberships d = d_memberships e" "d_credentials d = d_credentials e"
  shows "account_of d = account_of e"
  by (rule ext) (simp add: account_of_def stored_of_def join_account_def assms cong: option.case_cong)

subsection \<open>The table of sessions\<close>

definition sessions_ok :: "db \<Rightarrow> bool" where
  "sessions_ok d \<longleftrightarrow>
    unique_on (\<lambda>r. (se_tenant r, se_session r)) (d_sessions d)
    \<and> unique_on (\<lambda>r. (se_tenant r, se_hash r)) (d_sessions d)
    \<and> (\<forall>r\<in>set (d_sessions d). session_check r)"

lemma update_where_none: "(\<And>r. r \<in> set t \<Longrightarrow> \<not> p r) \<Longrightarrow> update_where p f t = t"
  by (simp add: update_where_def map_idI)

lemma unique_on_update_one:
  assumes "unique_on k t" and "\<And>r. p r \<Longrightarrow> k (f r) = new" and "\<And>r. r \<in> set t \<Longrightarrow> \<not> p r \<Longrightarrow> k r \<noteq> new"
    and "\<And>r s. r \<in> set t \<Longrightarrow> s \<in> set t \<Longrightarrow> p r \<Longrightarrow> p s \<Longrightarrow> r = s"
  shows "unique_on k (update_where p f t)"
  using assms
proof (induction t)
  case (Cons a t)
  have u: "unique_on k t" "\<forall>x\<in>set t. k x \<noteq> k a" using Cons.prems(1) by (simp_all add: unique_on_insert)
  show ?case
  proof (cases "p a")
    case True
    have no: "\<not> p x" if "x \<in> set t" for x using Cons.prems(4) [of a x] True that u by auto
    then have "update_where p f t = t" by (intro update_where_none)
    then have "update_where p f (a # t) = f a # t" using True by (simp add: update_where_def)
    then show ?thesis using u no Cons.prems(2,3) True by (auto simp: unique_on_insert)
  next
    case False
    have "unique_on k (update_where p f t)" using Cons.prems u by (intro Cons.IH) auto
    moreover have "k x \<noteq> k a" if x: "x \<in> set (update_where p f t)" for x
    proof -
      from x obtain y where y: "y \<in> set t" "x = (if p y then f y else y)" by (auto simp: set_update_where)
      then show ?thesis using u Cons.prems(2) [of y] Cons.prems(3) [of a] False by auto
    qed
    moreover have "update_where p f (a # t) = a # update_where p f t" using False by (simp add: update_where_def)
    ultimately show ?thesis by (simp add: unique_on_insert)
  qed
qed (simp add: update_where_def unique_on_def)

lemma sessions_ok_update:
  assumes "sessions_ok d" and "list_all (\<lambda>r. p r \<longrightarrow> session_check (f r)) (d_sessions d)"
    and "\<And>r. se_tenant (f r) = se_tenant r" "\<And>r. se_session (f r) = se_session r" "\<And>r. se_hash (f r) = se_hash r"
  shows "sessions_ok (d\<lparr>d_sessions := update_where p f (d_sessions d)\<rparr>)"
  using assms
  by (auto simp: sessions_ok_def unique_on_update_where set_update_where list_all_iff)

lemma write_session_ok:
  assumes "\<And>r. se_tenant (f r) = se_tenant r" "\<And>r. se_session (f r) = se_session r" "\<And>r. se_hash (f r) = se_hash r"
  shows "keeps (maintains sessions_ok) (write_session tenant sid f)"
  unfolding write_session_def
  by (rule keeps_insert_checked) (auto simp: maintains_def intro!: sessions_ok_update assms)

lemma touch_ok: "keeps (maintains sessions_ok) (touch l)"
  unfolding touch_def by (intro invariant.steps write_session_ok) simp_all

lemma close_ok: "keeps (maintains sessions_ok) (close key sid t)"
  unfolding close_def by (intro write_session_ok) simp_all

lemma rotate_token_ok: "keeps (maintains sessions_ok) (rotate_token tenant sid token)"
  unfolding rotate_token_def
proof (rule keeps_insert_checked)
  fix d :: db
  assume free: "length token = 32 \<and> \<not> list_ex (\<lambda>r. se_tenant r = tenant \<and> se_hash r = token
        \<and> \<not> is_session tenant sid r) (d_sessions d)"
  show "maintains sessions_ok d (d\<lparr>d_sessions := update_where (is_session tenant sid) (\<lambda>r. r\<lparr>se_hash := token\<rparr>) (d_sessions d)\<rparr>)"
    unfolding maintains_def
  proof
    assume ok: "sessions_ok d"
    have "unique_on (\<lambda>r. (se_tenant r, se_hash r))
        (update_where (is_session tenant sid) (\<lambda>r. r\<lparr>se_hash := token\<rparr>) (d_sessions d))"
    proof (rule unique_on_update_one [where new = "(tenant, token)"])
      show "r = s" if "r \<in> set (d_sessions d)" "s \<in> set (d_sessions d)" "is_session tenant sid r" "is_session tenant sid s" for r s
        using ok that by (auto simp: sessions_ok_def is_session_def dest: unique_onD)
    qed (use ok free in \<open>auto simp: sessions_ok_def is_session_def list_ex_iff\<close>)
    then show "sessions_ok (d\<lparr>d_sessions := update_where (is_session tenant sid) (\<lambda>r. r\<lparr>se_hash := token\<rparr>) (d_sessions d)\<rparr>)"
      using ok by (auto simp: sessions_ok_def unique_on_update_where set_update_where session_check_def cong: option.case_cong)
  qed
qed

lemma insert_session_ok: "keeps (maintains sessions_ok) (insert_session L draws state replaced authentication t policy kind)"
  unfolding insert_session_def Let_def IssuedSession_new_def
  by (intro invariant.steps close_ok keeps_insert_checked)
    (auto simp: maintains_def sessions_ok_def session_admissible_def unique_on_insert list_ex_iff)

lemma same_sessions_ok: "keeps (same d_sessions) m \<Longrightarrow> keeps (maintains sessions_ok) m"
  by (auto simp: keeps_def same_def maintains_def sessions_ok_def)

lemma sequence_frame: "keeps (same d_sessions) (sequence tenant)"
  by (rule keepsI) (auto simp: same_def dest: sequence_Inr)

lemma local_observation_frame: "keeps (same d_sessions) (local_observation L key t)"
  unfolding local_observation_def by (intro frame.steps sequence_frame)

lemma bind_profile_ok: "sessions_ok d \<Longrightarrow> sessions_ok (bind_profile tenant session source snapshot d)"
  unfolding bind_profile_def
  by (intro sessions_ok_update) (auto simp: sessions_ok_def list_all_iff session_check_def cong: option.case_cong)

lemma accept_ok: "keeps (maintains sessions_ok) (accept L snapshot key session absolute v limits)"
  unfolding accept_def store_observation_def put_observation_def Let_def
  by (intro invariant.steps keeps_insert_checked keeps_exec)
    (auto simp: maintains_def sessions_ok_def intro!: bind_profile_ok [unfolded sessions_ok_def])

lemma reading_ok:
  assumes "checks_contract checks"
  shows "keeps (maintains sessions_ok) (lookup L tenant token kind checks)"
    and "px_checks p = checks \<Longrightarrow> keeps (maintains sessions_ok) (recheck L p)"
    and "keeps (maintains sessions_ok) (current c)"
    and "keeps (maintains sessions_ok) (checked_expiry loaded budget)"
  using assms lookup_reads recheck_reads current_reads
  by (auto intro!: reads_only_keeps [where R = "maintains sessions_ok"] simp: maintains_def checked_expiry_def Let_def
      intro: pure.steps)

lemma create_session_ok:
  assumes "checks_contract (px_checks p)" and "replacement = None \<or> replacement = Some p"
  shows "keeps (maintains sessions_ok) (create_session_body a draws candidate replacement kind)"
proof -
  note reads = reading_ok [OF assms(1)]
  have r: "keeps (maintains sessions_ok) (case replacement of None \<Rightarrow> ret None
        | Some held \<Rightarrow> bind (recheck L held) (\<lambda>l. ret (Some (sv_id (ld_view l)))))" for L
    using assms(2) by (elim disjE) (simp_all add: invariant.ret invariant.bind reads)
  have l: "keeps (maintains sessions_ok) (local_observation L key t)" for L key t
    by (intro same_sessions_ok local_observation_frame)
  show ?thesis
    unfolding create_session_body_def Let_def
    by (intro invariant.steps(1-15,18,19) insert_session_ok accept_ok l r reads)
qed

lemma proof_ok:
  assumes "checks_contract checks"
  shows "keeps (maintains sessions_ok) (proof_body L checks tenant token kind budget renewing)"
  unfolding proof_body_def by (intro invariant.steps touch_ok reading_ok [OF assms])

lemma refresh_ok:
  assumes "checks_contract checks"
  shows "keeps (maintains sessions_ok) (refresh_body L checks tenant old secret budget)"
  unfolding refresh_body_def IssuedSession_new_def
  by (intro invariant.steps touch_ok rotate_token_ok reading_ok [OF assms])

lemma revoke_ok:
  assumes "checks_contract (px_checks actor)"
  shows "keeps (maintains sessions_ok) (revoke_body L actor all_sessions)"
proof -
  have e: "keeps (maintains sessions_ok) (write_epoch key epoch)" for key epoch
    unfolding write_epoch_def by (intro keeps_exec) (simp add: maintains_def sessions_ok_def)
  show ?thesis
    unfolding revoke_body_def by (intro invariant.steps close_ok e reading_ok [OF assms] refl)
qed


subsection \<open>What a proof stands for\<close>

lemma row_lifetime_Inr:
  "row_lifetime r = Inr l \<Longrightarrow> lt_issued_at l = se_issued_at r \<and> lt_idle_expires_at l = se_idle_expires r
    \<and> lt_absolute_expires_at l = se_absolute_expires r \<and> se_idle_expires r \<le> se_absolute_expires r
    \<and> lt_policy l = \<lparr>pol_idle = se_idle_timeout r, pol_absolute = se_absolute_timeout r\<rparr>"
  by (auto simp: row_lifetime_def and_then_Inr_iff SessionLifetime_restore_def lifetime_policy_def SessionPolicy_new_def
      split: if_splits)

lemma lookup_hash:
  assumes "checks_contract checks" and "lookup L tenant token kind checks w = Inr (l, w')"
  shows "\<exists>r. loaded_from L checks (w_db w) r (st_key (ld_state l)) l \<and> se_hash r = token
    \<and> ak_tenant (st_key (ld_state l)) = tenant \<and> sv_kind (ld_view l) = kind \<and> w_db w' = w_db w
    \<and> ld_sample l = \<lparr>ts_started = w_instants w (w_tick w), ts_micros = w_micros w (Suc (w_tick w))\<rparr>
    \<and> sample_deadline (ld_sample l) (sv_idle_expires_at (ld_view l)) = Ok (ld_expires l)"
proof -
  from assms(2) obtain r' again :: session_row where
    load: "by_id L \<lparr>ak_tenant = tenant, ak_principal = PrincipalId (se_principal r')\<rparr> (SessionId (se_session r')) checks w = Inr (l, w')"
    and again: "find (is_session tenant (SessionId (se_session r'))) (d_sessions (w_db w')) = Some again"
    and rest: "se_hash again = token" "sv_kind (ld_view l) = kind"
    unfolding lookup_def Let_def by (elim bindE) auto
  from by_id_Inr [OF load] obtain r where
    r: "loaded_from L checks (w_db w) r \<lparr>ak_tenant = tenant, ak_principal = PrincipalId (se_principal r')\<rparr> l"
    and sid: "sv_id (ld_view l) = SessionId (se_session r')"
    and s: "ld_sample l = \<lparr>ts_started = w_instants w (w_tick w), ts_micros = w_micros w (Suc (w_tick w))\<rparr>"
      "sample_deadline (ld_sample l) (sv_idle_expires_at (ld_view l)) = Ok (ld_expires l)" by blast
  have same: "w_db w' = w_db w" using reads_onlyD [OF by_id_reads [OF assms(1)] load] .
  have key: "st_key (ld_state l) = \<lparr>ak_tenant = tenant, ak_principal = PrincipalId (se_principal r')\<rparr>"
    using r by (simp add: loaded_from_def)
  have "se_hash r = token" using r sid again same rest by (auto simp: loaded_from_def)
  with r key rest s same show ?thesis by (intro exI [of _ r]) simp
qed

text \<open>C13: A proof of a session stands for a live session of an active account. When a secret is
  proved, the row with its digest belongs to the account and the tenant of the proof, was issued
  under the account's present epochs, has not been revoked, and is within its idle and absolute
  deadlines by the database clock read after the tenant was locked; the account is enabled and an
  active member; the proof ends with the caller's budget at the latest. Proving writes nothing,
  or, with renewal, only this session's idle deadline, and not past its absolute one.\<close>

theorem session_proof_sound:
  assumes "checks_contract checks"
    and "proof_body L checks tenant token kind budget renewing w = Inr (p, w')"
  shows "\<exists>r state idle. find (is_session tenant (sv_id (px_view p))) (d_sessions (w_db w)) = Some r
    \<and> se_hash r = token \<and> px_digest p = token \<and> se_principal r = key_uuid (px_key p) \<and> ak_tenant (px_key p) = tenant
    \<and> account_of (w_db w) (px_key p) = Some state \<and> active state
    \<and> se_auth_epoch r = st_epoch state \<and> se_membership_epoch r = st_membership_epoch state \<and> se_revoked r = None
    \<and> (let t = w_micros w (Suc (w_tick w)) div 1000000 in
        se_issued_at r \<le> t \<and> t < se_idle_expires r \<and> t < se_absolute_expires r)
    \<and> px_expires p \<le> budget
    \<and> se_idle_expires r \<le> idle \<and> idle \<le> se_absolute_expires r
    \<and> w_db w' = (if renewing then (w_db w)\<lparr>d_sessions := update_where (is_session tenant (sv_id (px_view p)))
         (\<lambda>r. r\<lparr>se_idle_expires := idle\<rparr>) (d_sessions (w_db w))\<rparr> else w_db w)"
proof -
  from assms(2) obtain found w1 loaded w2 expires w3 where
    found: "lookup L tenant token kind checks w = Inr (found, w1)"
    and t: "(if renewing then touch found else ret found) w1 = Inr (loaded, w2)"
    and e: "checked_expiry loaded budget w2 = Inr (expires, w')"
    and p: "px_key p = st_key (ld_state loaded)" "px_digest p = token" "px_expires p = expires" "px_view p = ld_view loaded"
    unfolding proof_body_def by (elim bindE) auto
  from lookup_hash [OF assms(1) found] obtain r where
    r: "loaded_from L checks (w_db w) r (st_key (ld_state found)) found" "se_hash r = token"
      "ak_tenant (st_key (ld_state found)) = tenant" "w_db w1 = w_db w"
    and smp: "ld_sample found = \<lparr>ts_started = w_instants w (w_tick w), ts_micros = w_micros w (Suc (w_tick w))\<rparr>" by blast
  note from_row = r(1) [unfolded loaded_from_def]
  have lt: "lt_issued_at (ld_lifetime found) = se_issued_at r" "lt_idle_expires_at (ld_lifetime found) = se_idle_expires r"
      "lt_absolute_expires_at (ld_lifetime found) = se_absolute_expires r"
    using from_row by (auto dest: row_lifetime_Inr)
  let ?idle = "lt_idle_expires_at (ld_lifetime loaded)"
  have kept: "ld_state loaded = ld_state found \<and> sv_id (ld_view loaded) = sv_id (ld_view found)
    \<and> se_idle_expires r \<le> ?idle \<and> ?idle \<le> se_absolute_expires r
    \<and> w_db w2 = (if renewing then (w_db w)\<lparr>d_sessions := update_where (is_session tenant (sv_id (ld_view found)))
         (\<lambda>r. r\<lparr>se_idle_expires := ?idle\<rparr>) (d_sessions (w_db w))\<rparr> else w_db w)"
  proof (cases renewing)
    case True
    with t have "touch found w1 = Inr (loaded, w2)" by simp
    note step = touch_Inr [OF this]
    have eq: "loaded = found\<lparr>ld_lifetime := ld_lifetime loaded, ld_expires := ld_expires loaded,
        ld_view := SessionView_new (sv_id (ld_view found)) (ld_lifetime loaded) (sv_kind (ld_view found))\<rparr>"
      using step by blast
    have st: "ld_state loaded = ld_state found" by (subst eq) simp
    have sv: "sv_id (ld_view loaded) = sv_id (ld_view found)" by (subst eq) (simp add: SessionView_new_def)
    have "se_idle_expires r \<le> ?idle \<and> ?idle \<le> se_absolute_expires r"
      using step lt from_row by (auto simp: renew_Ok dest: row_lifetime_Inr)
    with True st sv step r show ?thesis by simp
  next
    case False
    with t r lt from_row show ?thesis by (auto dest: row_lifetime_Inr)
  qed
  from e have "expires \<le> budget \<and> w_db w' = w_db w2" by (auto dest: checked_expiry_Inr)
  with kept p r from_row lt smp show ?thesis
    by (intro exI [of _ r] exI [of _ "ld_state found"] exI [of _ ?idle])
      (auto simp: row_current_def valid_at_def sample_seconds_def Let_def)
qed

subsection \<open>Rotation\<close>

lemma refresh_body_Inr:
  assumes "checks_contract checks" and "refresh_body L checks tenant old secret budget w = Inr ((issued, e), w')"
  shows "\<exists>r found idle. loaded_from L checks (w_db w) r (st_key (ld_state found)) found \<and> se_hash r = old
    \<and> ak_tenant (st_key (ld_state found)) = tenant \<and> sv_id (is_view issued) = sv_id (ld_view found)
    \<and> is_secret issued = secret
    \<and> se_idle_expires r \<le> idle \<and> idle \<le> se_absolute_expires r
    \<and> d_sessions (w_db w') = update_where (is_session tenant (sv_id (is_view issued)))
        (\<lambda>r. r\<lparr>se_idle_expires := idle, se_hash := SessionSecret_digest (xl_sha256 L) secret\<rparr>) (d_sessions (w_db w))"
proof -
  from assms(2) obtain found w1 loaded w2 w3 w4 w5 where
    found: "lookup L tenant old Cookie checks w = Inr (found, w1)"
    and t: "touch found w1 = Inr (loaded, w2)"
    and rot: "rotate_token tenant (sv_id (ld_view loaded)) (SessionSecret_digest (xl_sha256 L) secret) w2 = Inr ((), w3)"
    and e: "checked_expiry loaded budget w3 = Inr (w4)"
    and i: "IssuedSession_new secret (ld_view loaded) (ld_now loaded) (ld_state loaded) (snd w4) = (Inr (issued, w') :: PgError + _)"
    unfolding refresh_body_def by (elim bindE) auto
  from lookup_hash [OF assms(1) found] obtain r where
    r: "loaded_from L checks (w_db w) r (st_key (ld_state found)) found" "se_hash r = old"
      "ak_tenant (st_key (ld_state found)) = tenant" "w_db w1 = w_db w" by blast
  note step = touch_Inr [OF t]
  let ?idle = "lt_idle_expires_at (ld_lifetime loaded)"
  have eq: "loaded = found\<lparr>ld_lifetime := ld_lifetime loaded, ld_expires := ld_expires loaded,
        ld_view := SessionView_new (sv_id (ld_view found)) (ld_lifetime loaded) (sv_kind (ld_view found))\<rparr>"
    using step by blast
  have sv: "sv_id (ld_view loaded) = sv_id (ld_view found)" by (subst eq) (simp add: SessionView_new_def)
  have lt: "row_lifetime r = Ok (ld_lifetime found)" using r by (simp add: loaded_from_def)
  from step have "renew (ld_lifetime found) (ld_now found) = Ok (ld_lifetime loaded)" by blast
  with row_lifetime_Inr [OF lt] have idle: "se_idle_expires r \<le> ?idle \<and> ?idle \<le> se_absolute_expires r"
    by (auto simp: renew_Ok)
  from e have "w_db (snd w4) = w_db w3" by (cases w4) (auto dest: checked_expiry_Inr)
  then have w': "w_db w' = w_db w3" "is_view issued = ld_view loaded" "is_secret issued = secret"
    using i by (auto simp: IssuedSession_new_def tx_simps)
  have "d_sessions (w_db w3) = update_where (is_session tenant (sv_id (ld_view found)))
        (\<lambda>r. r\<lparr>se_idle_expires := ?idle, se_hash := SessionSecret_digest (xl_sha256 L) secret\<rparr>) (d_sessions (w_db w))"
    using rot step r sv
    by (auto simp: rotate_token_def tx_simps update_where_def is_session_def)
  with r idle w' sv show ?thesis by (intro exI [of _ r] exI [of _ found] exI [of _ ?idle]) simp
qed

text \<open>C15: A rotation replaces the secret of a session and nothing else. After a refresh the old
  secret opens no session any more, whichever kind of credential it is presented as, in every
  later transaction that finds the sessions as the refresh left them; the same session, with the
  same absolute deadline, carries the new digest, and the sessions of everyone else are as before.\<close>

theorem refresh_retires_secret:
  assumes "checks_contract checks" and "sessions_ok (w_db w)"
    and "refresh_body L checks tenant old secret budget w = Inr ((issued, e), w')"
    and "SessionSecret_digest (xl_sha256 L) secret \<noteq> old"
    and "d_sessions (w_db u) = d_sessions (w_db w')"
  shows "\<not> is_ok (lookup L tenant old kind other_checks u)
    \<and> (\<exists>r idle. find (is_session tenant (sv_id (is_view issued))) (d_sessions (w_db w)) = Some r \<and> se_hash r = old
        \<and> find (is_session tenant (sv_id (is_view issued))) (d_sessions (w_db u))
            = Some (r\<lparr>se_idle_expires := idle, se_hash := SessionSecret_digest (xl_sha256 L) secret\<rparr>)
        \<and> idle \<le> se_absolute_expires r)
    \<and> (\<forall>r. (r \<in> set (d_sessions (w_db w)) \<and> \<not> is_session tenant (sv_id (is_view issued)) r)
        = (r \<in> set (d_sessions (w_db u)) \<and> \<not> is_session tenant (sv_id (is_view issued)) r))"
proof -
  let ?sid = "sv_id (is_view issued)" and ?new = "SessionSecret_digest (xl_sha256 L) secret"
  from refresh_body_Inr [OF assms(1,3)] obtain r found idle where
    r: "loaded_from L checks (w_db w) r (st_key (ld_state found)) found" "se_hash r = old"
      "ak_tenant (st_key (ld_state found)) = tenant" "?sid = sv_id (ld_view found)"
    and idle: "idle \<le> se_absolute_expires r"
    and d: "d_sessions (w_db u) = update_where (is_session tenant ?sid)
        (\<lambda>r. r\<lparr>se_idle_expires := idle, se_hash := ?new\<rparr>) (d_sessions (w_db w))"
    using assms(5) by auto
  have f: "find (is_session tenant ?sid) (d_sessions (w_db w)) = Some r"
    using r by (simp add: loaded_from_def)
  then have mem: "r \<in> set (d_sessions (w_db w))" "is_session tenant ?sid r" by (auto dest: find_SomeD)
  have "\<not> has_token tenant old x" if x: "x \<in> set (d_sessions (w_db u))" for x
  proof
    assume tok: "has_token tenant old x"
    from x d obtain y where y: "y \<in> set (d_sessions (w_db w))"
      "x = (if is_session tenant ?sid y then y\<lparr>se_idle_expires := idle, se_hash := ?new\<rparr> else y)"
      by (auto simp: set_update_where)
    with tok assms(4) have "\<not> is_session tenant ?sid y" "se_tenant y = tenant" "se_hash y = old"
      by (auto simp: has_token_def split: if_splits)
    moreover have "y = r"
      using assms(2) y(1) mem calculation r(2) by (auto simp: sessions_ok_def is_session_def dest: unique_onD)
    ultimately show False using mem by simp
  qed
  then have "find (has_token tenant old) (d_sessions (w_db u)) = None" by (simp add: find_None_iff)
  then have "\<not> is_ok (lookup L tenant old kind other_checks u)"
    by (auto simp: lookup_def Let_def is_ok_iff run_simps)
  moreover have "find (is_session tenant ?sid) (d_sessions (w_db u))
      = Some (r\<lparr>se_idle_expires := idle, se_hash := ?new\<rparr>)"
    using f mem(2) unfolding d by (subst find_update_where) (auto simp: is_session_def)
  ultimately show ?thesis
    using f r(2) idle by (auto simp: d set_update_where is_session_def intro!: exI [of _ idle])
qed

subsection \<open>A session that was issued can be used\<close>

text \<open>The row of a session of a local account, as \<open>insert_session\<close> leaves it.\<close>

definition local_row :: "session_row \<Rightarrow> int \<Rightarrow> bool" where
  "local_row r at \<longleftrightarrow> se_source r = lit ''local_password'' \<and> se_local_at r = Some at \<and> 0 < at \<and> at \<le> se_issued_at r
    \<and> in_i64 (se_issued_at r) \<and> se_identity r = None \<and> se_provider_epoch r = None \<and> se_facts r = None"

lemma local_session_loads:
  assumes "find (is_session (ak_tenant key) sid) (d_sessions (w_db w)) = Some r"
    and "guarded (w_db w) (ak_tenant key)" and "account_of (w_db w) key = Some state" and "row_current key state r"
    and "local_row r at" and "row_lifetime r = Ok lifetime" and "credential_kind r = Ok kind"
    and "0 < w_micros w (Suc (w_tick w))" and "valid_at lifetime (w_micros w (Suc (w_tick w)) div 1000000)"
    and "is_ok (sample_deadline \<lparr>ts_started = w_instants w (w_tick w), ts_micros = w_micros w (Suc (w_tick w))\<rparr>
          (lt_idle_expires_at lifetime))"
  shows "\<exists>l w'. by_id L key sid checks w = Inr (l, w') \<and> ld_source l = AuthenticationSource.LocalPassword
    \<and> ld_state l = state \<and> ld_view l = SessionView_new sid lifetime kind \<and> w_db w' = w_db w"
proof -
  let ?m = "w_micros w (Suc (w_tick w))"
  obtain stored where l: "load key w = Inr (stored, w)" "so_state stored = state"
    using assms(2,3) by (auto simp: load_Inr account_of_def)
  obtain e where e: "sample_deadline \<lparr>ts_started = w_instants w (w_tick w), ts_micros = ?m\<rparr>
      (lt_idle_expires_at lifetime) = Ok e"
    using assms(10) by (auto simp: is_ok_iff)
  have s: "read_sample w = Inr (\<lparr>ts_started = w_instants w (w_tick w), ts_micros = ?m\<rparr>, w\<lparr>w_tick := Suc (Suc (w_tick w))\<rparr>)"
    using assms(8) by (simp add: read_sample_def run_simps TimeSample_read_def lift_def)
  have a: "Assurance_password at = Ok \<lparr>as_auth_time = Some at, as_acr = Acr.Unspecified, as_amr = [Pwd]\<rparr>"
    using assms(5) by (simp add: Assurance_password_def Assurance_try_from_def local_row_def canonical_methods_def)
  have issued: "lt_issued_at lifetime = se_issued_at r" "0 < se_issued_at r"
    using row_lifetime_Inr [OF assms(6)] assms(5) by (auto simp: local_row_def)
  have now: "se_issued_at r \<le> ?m div 1000000" using assms(9) issued by (simp add: valid_at_def)
  have c: "Assurance_check \<lparr>as_auth_time = Some at, as_acr = Acr.Unspecified, as_amr = [Pwd]\<rparr> AuthenticationMode.Login
      (se_issued_at r) (?m div 1000000) = Ok ()"
    using issued now assms(5)
    by (auto simp: Assurance_check_def local_row_def saturating_add_def clamp_i64_def in_i64_def i64_max_def i64_min_def)
  let ?w2 = "w\<lparr>w_tick := Suc (Suc (w_tick w))\<rparr>"
  have og: "origin (ak_tenant key) sid w = Inr (None, w)"
    using assms(1,5) by (simp add: origin_Inr decode_origin_def local_row_def)
  have f: "load_facts key checks r None None fs ?w2 = Inr ((AuthenticationSource.LocalPassword,
      \<lparr>as_auth_time = Some at, as_acr = Acr.Unspecified, as_amr = [Pwd]\<rparr>,
      groups_unavailable FactUnavailableReason.LocalIdentity), ?w2)" for fs
    using assms(5) a by (simp add: load_facts_def run_simps local_row_def)
  have d: "load_department r None None fs = Ok (DepartmentFacts.Unavailable DepartmentUnavailableReason.LocalIdentity)" for fs
    using assms(5) by (simp add: load_department_def local_row_def lit_def)
  have g: "GroupFacts_new (groups_unavailable FactUnavailableReason.LocalIdentity) fs
      = Ok \<lparr>gf_facts = groups_unavailable FactUnavailableReason.LocalIdentity, gf_expires = ts_started fs\<rparr>" for fs
    by (simp add: GroupFacts_new_def groups_unavailable_def)
  show ?thesis
    using assms(1,4,6,7,9) e issued(1) c
    by (simp add: by_id_def run_simps Let_def bind_run(1) [where m = "load key" and w = w, OF l(1)] l(2)
        bind_run(1) [where m = "origin (ak_tenant key) sid" and w = w, OF og] check_source_def
        bind_run(1) [where m = read_sample and w = w, OF s] sample_seconds_def d
        bind_run(1) [where m = "load_facts key checks r None None fs" and w = ?w2 for fs, OF f] g)
qed

lemma IssuedSession_new_Inr:
  "IssuedSession_new secret view t state w = Inr (i, w') \<Longrightarrow>
    is_view i = view \<and> is_secret i = secret \<and> w_db w' = w_db w"
  by (auto simp: IssuedSession_new_def bind_Inr)

lemma add_session_Inr:
  "insert_checked P (\<lambda>d. d\<lparr>d_sessions := row # d_sessions d\<rparr>) w = Inr (u, w') \<Longrightarrow>
    P (w_db w) \<and> w_db w' = (w_db w)\<lparr>d_sessions := row # d_sessions (w_db w)\<rparr>"
  by (auto simp: insert_checked_Inr)

lemma insert_session_Inr:
  assumes "insert_session L draws state replaced authentication t policy kind w = Inr ((issued, e), w')"
  shows "\<exists>p bytes lifetime facts d. present authentication t kind = Ok p \<and> dr_secret draws = Some bytes
    \<and> is_secret issued = SessionSecret (hex bytes) \<and> SessionLifetime_new t policy = Ok lifetime
    \<and> encoded_facts L (pr_origin p) = Ok facts
    \<and> is_view issued = SessionView_new (SessionId (dr_session draws)) lifetime kind
    \<and> (let row = issued_row L draws state p facts lifetime kind (SessionSecret (hex bytes)) in
        session_admissible L row d \<and> w_db w' = d\<lparr>d_sessions := row # d_sessions d\<rparr>)
    \<and> d = (case replaced of None \<Rightarrow> w_db w
         | Some sid \<Rightarrow> (w_db w)\<lparr>d_sessions := update_where (is_session (ak_tenant (st_key state)) sid)
             (\<lambda>r. r\<lparr>se_revoked := Some t\<rparr>) (d_sessions (w_db w))\<rparr>)"
proof -
  from assms obtain p secret lifetime w1 facts nothing where
    p: "present authentication t kind = Ok p"
    and s: "SessionSecret_generate (dr_secret draws) = Ok secret"
    and lt: "SessionLifetime_new t policy = Ok lifetime"
    and c: "(case replaced of None \<Rightarrow> ret () | Some sid \<Rightarrow> close (st_key state) sid t) w = (Inr (nothing, w1) :: PgError + _)"
    and f: "encoded_facts L (pr_origin p) = Ok facts"
    and adm: "session_admissible L (issued_row L draws state p facts lifetime kind secret) (w_db w1)"
    and rest: "w_db w' = (w_db w1)\<lparr>d_sessions := issued_row L draws state p facts lifetime kind secret # d_sessions (w_db w1)\<rparr>"
      "is_secret issued = secret" "is_view issued = SessionView_new (SessionId (dr_session draws)) lifetime kind"
    unfolding insert_session_def Let_def
    by (elim bindE) (drule add_session_Inr, drule IssuedSession_new_Inr,
      simp only: lift_Inr ret_simps map_err_Inr_iff prod.inject, elim conjE, blast)
  from s obtain bytes where b: "dr_secret draws = Some bytes" "secret = SessionSecret (hex bytes)"
    by (auto simp: SessionSecret_generate_def and_then_Inr_iff)
  have d: "w_db w1 = (case replaced of None \<Rightarrow> w_db w
         | Some sid \<Rightarrow> (w_db w)\<lparr>d_sessions := update_where (is_session (ak_tenant (st_key state)) sid)
             (\<lambda>r. r\<lparr>se_revoked := Some t\<rparr>) (d_sessions (w_db w))\<rparr>)"
    using c by (auto split: option.splits dest: close_Inr)
  from p b lt f adm rest d show ?thesis
    by (intro exI [of _ p] exI [of _ bytes] exI [of _ lifetime] exI [of _ facts] exI [of _ "w_db w1"]) (simp add: Let_def)
qed

lemma accept_sessions:
  assumes "accept L snapshot key session absolute v limits w = Inr (e, w')"
  shows "\<exists>f. d_sessions (w_db w') = update_where (is_session (ak_tenant key) session) f (d_sessions (w_db w))
      \<and> (\<forall>r. \<exists>a b. f r = r\<lparr>se_profile_source := a, se_profile_snapshot := b\<rparr>)
    \<and> d_accounts (w_db w') = d_accounts (w_db w) \<and> d_memberships (w_db w') = d_memberships (w_db w)
    \<and> d_credentials (w_db w') = d_credentials (w_db w) \<and> d_guard (w_db w') = d_guard (w_db w)"
proof (cases e)
  case None
  with accept_Inr [OF assms] have same: "w_db w' = w_db w" by simp
  have "update_where (is_session (ak_tenant key) session) (\<lambda>r. r) t = t" for t
    by (simp add: update_where_def)
  moreover have "\<forall>r :: session_row. \<exists>a b. r = r\<lparr>se_profile_source := a, se_profile_snapshot := b\<rparr>"
  proof
    fix r :: session_row
    show "\<exists>a b. r = r\<lparr>se_profile_source := a, se_profile_snapshot := b\<rparr>"
      by (rule exI [of _ "se_profile_source r"], rule exI [of _ "se_profile_snapshot r"]) simp
  qed
  ultimately show ?thesis using same by (intro exI [of _ "\<lambda>r. r"]) simp
next
  case (Some event)
  with accept_Inr [OF assms] show ?thesis
    by (intro exI [of _ "\<lambda>r. r\<lparr>se_profile_source := Some (on_source v), se_profile_snapshot := Some snapshot\<rparr>"])
      (auto simp: bind_profile_def Let_def)
qed

lemma local_observation_Inr:
  assumes "local_observation L key t w = Inr (v, w')"
  shows "d_sessions (w_db w') = d_sessions (w_db w) \<and> d_accounts (w_db w') = d_accounts (w_db w)
    \<and> d_memberships (w_db w') = d_memberships (w_db w) \<and> d_credentials (w_db w') = d_credentials (w_db w)
    \<and> (\<forall>tenant. guarded (w_db w') tenant = guarded (w_db w) tenant)"
proof -
  have m: "map gd_tenant (update_where p (\<lambda>r. r\<lparr>gd_profile_sequence := n\<rparr>) t) = map gd_tenant t" for p n t
    by (simp add: update_where_def)
  have g: "guarded d tenant = (tenant \<in> set (map gd_tenant (d_guard d)))" for d tenant
    by (auto simp: guarded_def)
  show ?thesis
    using assms unfolding g
    by (auto simp: local_observation_def tx_simps m simp del: set_map split: prod.splits dest!: sequence_Inr)
qed

text \<open>The account a row belongs to; its key and its epoch are never changed by a session operation.\<close>

definition session_key :: "session_row \<Rightarrow> AccountKey" where
  "session_key r = \<lparr>ak_tenant = se_tenant r, ak_principal = PrincipalId (se_principal r)\<rparr>"

definition session_issue :: "session_row \<Rightarrow> AccountKey \<times> int" where
  "session_issue r = (session_key r, se_auth_epoch r)"

lemma session_issue_simps [simp]:
  "session_issue (r\<lparr>se_revoked := v\<rparr>) = session_issue r"
  "session_issue (r\<lparr>se_profile_source := a, se_profile_snapshot := b\<rparr>) = session_issue r"
  "session_issue (r\<lparr>se_idle_expires := n\<rparr>) = session_issue r"
  "session_issue (r\<lparr>se_hash := h\<rparr>) = session_issue r"
  by (simp_all add: session_issue_def session_key_def)

definition same_issues :: "session_row list \<Rightarrow> session_row list \<Rightarrow> bool" where
  "same_issues t t' \<longleftrightarrow> session_issue ` set t = session_issue ` set t'"

lemma same_issues_update:
  assumes "\<And>r. session_issue (f r) = session_issue r"
  shows "same_issues (update_where p f t) t' = same_issues t t'"
  unfolding same_issues_def
  by (rule arg_cong [where f = "\<lambda>x. x = _"], induction t) (auto simp: update_where_def assms)

lemma same_issues_refl [simp]: "same_issues t t"
  by (simp add: same_issues_def)

lemma create_session_Inr:
  assumes "create_session_body a draws candidate replacement kind w = Inr ((issued, events), w')"
    and "\<And>p. replacement = Some p \<Longrightarrow> checks_contract (px_checks p)"
  shows "\<exists>state t lifetime bytes d ps sn rest.
    account_of (w_db w) (candidate_account candidate) = Some state \<and> matches_verification state (cn_state candidate)
    \<and> guarded (w_db w) (ak_tenant (candidate_account candidate))
    \<and> 0 < cn_authenticated_at candidate \<and> cn_authenticated_at candidate \<le> t
    \<and> dr_secret draws = Some bytes \<and> is_secret issued = SessionSecret (hex bytes)
    \<and> SessionLifetime_new t (au_session_policy a) = Ok lifetime
    \<and> is_view issued = SessionView_new (SessionId (dr_session draws)) lifetime kind
    \<and> (let row = issued_row (au_libs a) draws state \<lparr>pr_source = AuthenticationSource.LocalPassword,
          pr_local_at = Some (cn_authenticated_at candidate), pr_origin = None, pr_platform = None\<rparr> None lifetime kind
          (SessionSecret (hex bytes)) in
        session_admissible (au_libs a) row d
        \<and> d_sessions (w_db w') = row\<lparr>se_profile_source := ps, se_profile_snapshot := sn\<rparr> # rest)
    \<and> same_issues rest (d_sessions (w_db w))
    \<and> d_accounts (w_db w') = d_accounts (w_db w) \<and> d_memberships (w_db w') = d_memberships (w_db w)
    \<and> d_credentials (w_db w') = d_credentials (w_db w)
    \<and> (\<forall>tenant. guarded (w_db w') tenant = guarded (w_db w) tenant)"
proof -
  let ?key = "candidate_account candidate"
  have key: "candidate_account candidate = st_key (cn_state candidate)" by (simp add: candidate_account_def)
  from assms(1) obtain state w1 replaced w2 t fact w4 v w5 profile where
    cur: "current candidate w = Inr (state, w1)"
    and rep: "(case replacement of None \<Rightarrow> ret None
        | Some held \<Rightarrow> bind (recheck (au_libs a) held) (\<lambda>l. ret (Some (sv_id (ld_view l))))) w1 = (Inr (replaced, w2) :: PgError + _)"
    and ins: "insert_session (au_libs a) draws state replaced
        (SessionAuthentication.LocalPassword (cn_authenticated_at candidate)) t (au_session_policy a) kind
        (w2\<lparr>w_tick := Suc (Suc (w_tick w2))\<rparr>) = Inr ((issued, fact), w4)"
    and obs: "local_observation (au_libs a) ?key t w4 = Inr (v, w5)"
    and acc: "accept (au_libs a) (dr_snapshot draws) ?key (sv_id (is_view issued)) (sv_absolute_expires_at (is_view issued)) v
        (au_limits a) w5 = Inr (profile, w')"
    unfolding create_session_body_def Let_def key by (elim bindE) (auto split: prod.splits elim!: bindE)
  note st = current_Inr [OF cur]
  have db2: "w_db w2 = w_db w"
    using rep st assms(2) reads_onlyD [OF recheck_reads]
    by (cases replacement) (auto simp: tx_simps)
  let ?w3 = "w2\<lparr>w_tick := Suc (Suc (w_tick w2))\<rparr>"
  from insert_session_Inr [OF ins] obtain p bytes lifetime facts d where
    p: "present (SessionAuthentication.LocalPassword (cn_authenticated_at candidate)) t kind = Ok p"
    and b: "dr_secret draws = Some bytes" "is_secret issued = SessionSecret (hex bytes)"
    and lt: "SessionLifetime_new t (au_session_policy a) = Ok lifetime"
    and f: "encoded_facts (au_libs a) (pr_origin p) = Ok facts"
    and v: "is_view issued = SessionView_new (SessionId (dr_session draws)) lifetime kind"
    and row: "session_admissible (au_libs a) (issued_row (au_libs a) draws state p facts lifetime kind (SessionSecret (hex bytes))) d"
      "w_db w4 = d\<lparr>d_sessions := issued_row (au_libs a) draws state p facts lifetime kind (SessionSecret (hex bytes)) # d_sessions d\<rparr>"
    and d: "d = (case replaced of None \<Rightarrow> w_db ?w3
         | Some sid \<Rightarrow> (w_db ?w3)\<lparr>d_sessions := update_where (is_session (ak_tenant (st_key state)) sid)
             (\<lambda>r. r\<lparr>se_revoked := Some t\<rparr>) (d_sessions (w_db ?w3))\<rparr>)"
    unfolding Let_def by blast
  from p have p': "p = \<lparr>pr_source = AuthenticationSource.LocalPassword,
          pr_local_at = Some (cn_authenticated_at candidate), pr_origin = None, pr_platform = None\<rparr>"
      "0 < cn_authenticated_at candidate" "cn_authenticated_at candidate \<le> t"
    by (auto simp: present_def split: if_splits)
  with f have facts: "facts = None" by (simp add: encoded_facts_def)
  have w5: "d_sessions (w_db w5) = d_sessions (w_db w4)" "d_accounts (w_db w5) = d_accounts (w_db w4)"
    "d_memberships (w_db w5) = d_memberships (w_db w4)" "d_credentials (w_db w5) = d_credentials (w_db w4)"
    "guarded (w_db w5) tenant = guarded (w_db w4) tenant" for tenant
    using local_observation_Inr [OF obs] by blast+
  from accept_sessions [OF acc] obtain g where
    g: "d_sessions (w_db w') = update_where (is_session (ak_tenant ?key) (sv_id (is_view issued))) g (d_sessions (w_db w5))"
    "\<forall>r. \<exists>a b. g r = r\<lparr>se_profile_source := a, se_profile_snapshot := b\<rparr>"
    and same: "d_accounts (w_db w') = d_accounts (w_db w5)" "d_memberships (w_db w') = d_memberships (w_db w5)"
      "d_credentials (w_db w') = d_credentials (w_db w5)" "d_guard (w_db w') = d_guard (w_db w5)"
    by auto
  let ?row = "issued_row (au_libs a) draws state p facts lifetime kind (SessionSecret (hex bytes))"
  obtain ps sn where ps: "(if is_session (ak_tenant ?key) (sv_id (is_view issued)) ?row then g ?row else ?row)
      = ?row\<lparr>se_profile_source := ps, se_profile_snapshot := sn\<rparr>"
  proof (cases "is_session (ak_tenant ?key) (sv_id (is_view issued)) ?row")
    case True
    then show ?thesis using g(2) that by auto
  next
    case False
    then show ?thesis using that [where ps = "se_profile_source ?row" and sn = "se_profile_snapshot ?row"] by simp
  qed
  have "d_sessions (w_db w') = ?row\<lparr>se_profile_source := ps, se_profile_snapshot := sn\<rparr>
      # update_where (is_session (ak_tenant ?key) (sv_id (is_view issued))) g (d_sessions d)"
    using g(1) w5(1) row(2) ps by (simp add: update_where_def)
  moreover have "same_issues (update_where (is_session (ak_tenant ?key) (sv_id (is_view issued))) g (d_sessions d)) (d_sessions (w_db w))"
  proof -
    have "session_issue (g r) = session_issue r" for r
    proof -
      from g(2) obtain x y where "g r = r\<lparr>se_profile_source := x, se_profile_snapshot := y\<rparr>" by blast
      then show ?thesis by simp
    qed
    moreover have "same_issues (d_sessions d) (d_sessions (w_db w))"
    proof (cases replaced)
      case (Some sid)
      with d db2 show ?thesis
        by (simp add: same_issues_update)
    qed (use d db2 in simp)
    ultimately show ?thesis by (simp add: same_issues_update)
  qed
  moreover have "d_accounts d = d_accounts (w_db w)" "d_memberships d = d_memberships (w_db w)"
      "d_credentials d = d_credentials (w_db w)" "d_guard d = d_guard (w_db w)"
    using d db2 by (auto split: option.splits)
  ultimately show ?thesis
    using st p' facts b lt v row w5 same
    by (intro exI [of _ state] exI [of _ t] exI [of _ lifetime] exI [of _ bytes] exI [of _ d] exI [of _ ps] exI [of _ sn])
      (auto simp: Let_def guarded_def)
qed

text \<open>C16: A session that was issued can be used at once. After a password sign-in commits, whoever
  presents the issued secret as the kind of credential it was issued as resolves to the account
  that signed in and to the session of the receipt, in every later transaction on that state
  whose database clock is not before the issue and before the idle deadline (and whose host clock
  can represent that deadline): the authority never issues a secret that it would refuse.\<close>

theorem issued_session_usable:
  assumes "create_session_body a draws candidate replacement kind w = Inr ((issued, events), w')"
    and "replacement = None \<or> replacement = Some p" and "checks_contract (px_checks p)"
    and "key_uuid (candidate_account candidate) \<noteq> uuid_nil" and "w_db u = w_db w'"
    and "0 < w_micros u (Suc (w_tick u))"
    and "sv_issued_at (is_view issued) \<le> w_micros u (Suc (w_tick u)) div 1000000"
    and "w_micros u (Suc (w_tick u)) div 1000000 < sv_idle_expires_at (is_view issued)"
    and "is_ok (sample_deadline \<lparr>ts_started = w_instants u (w_tick u), ts_micros = w_micros u (Suc (w_tick u))\<rparr>
          (sv_idle_expires_at (is_view issued)))"
  shows "\<exists>l u'. lookup (au_libs a) (ak_tenant (candidate_account candidate))
      (SessionSecret_digest (xl_sha256 (au_libs a)) (is_secret issued)) kind checks u = Inr (l, u')
    \<and> st_key (ld_state l) = candidate_account candidate \<and> ld_view l = is_view issued
    \<and> ld_source l = AuthenticationSource.LocalPassword \<and> w_db u' = w_db u"
proof -
  let ?L = "au_libs a" and ?key = "candidate_account candidate" and ?m = "w_micros u (Suc (w_tick u))"
  have "checks_contract (px_checks q)" if "replacement = Some q" for q using assms(2,3) that by auto
  from create_session_Inr [OF assms(1) this] obtain state t lifetime bytes d ps sn rest where
    acc: "account_of (w_db w) ?key = Some state" "matches_verification state (cn_state candidate)"
      "guarded (w_db w) (ak_tenant ?key)"
    and at: "0 < cn_authenticated_at candidate" "cn_authenticated_at candidate \<le> t"
    and sec: "is_secret issued = SessionSecret (hex bytes)"
    and lt: "SessionLifetime_new t (au_session_policy a) = Ok lifetime"
    and v: "is_view issued = SessionView_new (SessionId (dr_session draws)) lifetime kind"
    and row: "let row = issued_row ?L draws state \<lparr>pr_source = AuthenticationSource.LocalPassword,
          pr_local_at = Some (cn_authenticated_at candidate), pr_origin = None, pr_platform = None\<rparr> None lifetime kind
          (SessionSecret (hex bytes)) in
        session_admissible ?L row d
        \<and> d_sessions (w_db w') = row\<lparr>se_profile_source := ps, se_profile_snapshot := sn\<rparr> # rest"
    and same: "d_accounts (w_db w') = d_accounts (w_db w)" "d_memberships (w_db w') = d_memberships (w_db w)"
      "d_credentials (w_db w') = d_credentials (w_db w)" "\<And>tenant. guarded (w_db w') tenant = guarded (w_db w) tenant"
    by blast
  have key: "st_key state = ?key" using acc(1) by (rule account_of_key)
  let ?row = "(issued_row ?L draws state \<lparr>pr_source = AuthenticationSource.LocalPassword,
          pr_local_at = Some (cn_authenticated_at candidate), pr_origin = None, pr_platform = None\<rparr> None lifetime kind
          (SessionSecret (hex bytes)))\<lparr>se_profile_source := ps, se_profile_snapshot := sn\<rparr>"
  let ?token = "SessionSecret_digest (xl_sha256 ?L) (is_secret issued)" and ?sid = "SessionId (dr_session draws)"
  have top: "d_sessions (w_db u) = ?row # rest" using row assms(5) by (simp add: Let_def)
  have adm: "dr_session draws \<noteq> uuid_nil" "pol_idle (lt_policy lifetime) > 0"
      "pol_absolute (lt_policy lifetime) \<ge> pol_idle (lt_policy lifetime)"
    using row by (auto simp: Let_def session_admissible_def issued_row_def)
  have tok: "find (has_token (ak_tenant ?key) ?token) (d_sessions (w_db u)) = Some ?row"
    "find (is_session (ak_tenant ?key) ?sid) (d_sessions (w_db u)) = Some ?row"
    unfolding top by (simp_all add: has_token_def is_session_def issued_row_def key sec)
  note new = SessionLifetime_new_Ok [OF lt]
  have life: "row_lifetime ?row = Ok lifetime"
    using adm new
    by (auto simp: row_lifetime_def lifetime_policy_def SessionPolicy_new_def issued_row_def lifetime_inv_def
        SessionLifetime_restore_def checked_sub_def)
  have bound: "in_i64 t"
    using lt adm new
    by (auto simp: SessionLifetime_new_def and_then_Inr_iff checked_add_def in_i64_def lifetime_inv_def i64_min_def
        split: if_splits)
  have accs: "account_of (w_db u) ?key = Some state" "guarded (w_db u) (ak_tenant ?key)"
    using acc(1,3) same assms(5) account_of_same [of "w_db u" "w_db w"] by simp_all
  have cur: "row_current ?key state ?row"
    using acc(2) key by (simp add: row_current_def issued_row_def matches_verification_def)
  have loc: "local_row ?row (cn_authenticated_at candidate)"
    using at new bound by (simp add: local_row_def issued_row_def)
  have kind: "credential_kind ?row = Ok kind"
    by (cases kind) (simp_all add: credential_kind_def issued_row_def lit_def)
  have view: "sv_issued_at (is_view issued) = lt_issued_at lifetime"
    "sv_idle_expires_at (is_view issued) = lt_idle_expires_at lifetime"
    using v by (simp_all add: SessionView_new_def)
  have valid: "valid_at lifetime (?m div 1000000)"
    using assms(7,8) view new(1) by (auto simp: valid_at_def lifetime_inv_def)
  from local_session_loads [OF tok(2) accs(2,1) cur loc life kind assms(6) valid assms(9) [unfolded view],
      where L = ?L and checks = checks]
  obtain l u' where l: "by_id ?L ?key ?sid checks u = Inr (l, u')" "ld_source l = AuthenticationSource.LocalPassword"
    "ld_state l = state" "ld_view l = SessionView_new ?sid lifetime kind" "w_db u' = w_db u" by blast
  have k: "\<lparr>ak_tenant = ak_tenant ?key, ak_principal = PrincipalId (se_principal ?row)\<rparr> = ?key"
    by (cases "ak_principal ?key") (simp add: issued_row_def key)
  have "lookup ?L (ak_tenant ?key) ?token kind checks u = Inr (l, u')"
    using tok l assms(4) accs(2) adm(1) k
    by (simp add: lookup_def run_simps guarded_def Let_def issued_row_def key bind_run(1) [where m = "by_id ?L ?key ?sid checks" and w = u, OF l(1)]
        SessionView_new_def sec)
  with l key v show ?thesis by auto
qed

subsection \<open>Examples\<close>

definition sample_draws :: Draws where
  "sample_draws = \<lparr>dr_secret = Some (replicate 32 17), dr_session = 4, dr_snapshot = 78, dr_principal = 6,
     dr_identity = 7, dr_token = 8, dr_events = (\<lambda>n. 90 + of_nat n)\<rparr>"

definition user_candidate :: AuthenticationCandidate where
  "user_candidate = \<lparr>cn_state = user_state, cn_authority = 5, cn_expires = 500000000, cn_authenticated_at = 900\<rparr>"

lemma session_world_ok: "sessions_ok (w_db session_world)"
  by (simp add: sessions_ok_def session_world_def session_db_def unique_on_def session_check_def user_session_def)

definition new_lifetime :: SessionLifetime where
  "new_lifetime = \<lparr>lt_policy = \<lparr>pol_idle = 900, pol_absolute = 10000\<rparr>, lt_issued_at = 1000,
     lt_idle_expires_at = 1900, lt_absolute_expires_at = 11000\<rparr>"

definition new_secret :: SessionSecret where "new_secret = SessionSecret (hex (replicate 32 17))"

definition new_issued :: IssuedSession where
  "new_issued = \<lparr>is_identity = SessionIdentity_from_state user_state, is_secret = new_secret,
     is_view = SessionView_new (SessionId 4) new_lifetime Cookie, is_remaining = 10000000000000, is_observed = 3\<rparr>"

lemma session_world_simps:
  "w_instants session_world = int" "w_micros session_world = (\<lambda>_. 1000000000)" "w_tick session_world = 0"
  "d_authority (w_db session_world) = 5" "d_sessions (w_db session_world) = [user_session]"
  "d_observations (w_db session_world) = []" "d_local_profiles (w_db session_world) = []"
  "d_guard (w_db session_world) = [\<lparr>gd_tenant = sample_tenant, gd_profile_sequence = 0\<rparr>]"
  by (simp_all add: session_world_def sample_world_def session_db_def sample_db_def)

lemma sample_issue:
  "\<exists>e w'. insert_session sample_libs sample_draws user_state None (SessionAuthentication.LocalPassword 900) 1000
      \<lparr>pol_idle = 900, pol_absolute = 10000\<rparr> Cookie (session_world\<lparr>w_tick := 3\<rparr>) = Inr ((new_issued, e), w')
    \<and> w_db w' = (w_db session_world)\<lparr>d_sessions := d_sessions (w_db w')\<rparr> \<and> w_micros w' = (\<lambda>_. 1000000000) \<and> w_instants w' = int"
proof -
  have p: "present (SessionAuthentication.LocalPassword 900) 1000 Cookie
      = Ok \<lparr>pr_source = AuthenticationSource.LocalPassword, pr_local_at = Some 900, pr_origin = None, pr_platform = None\<rparr>"
    by (simp add: present_def)
  have s: "SessionSecret_generate (dr_secret sample_draws) = Ok new_secret"
    by (simp add: SessionSecret_generate_def sample_draws_def new_secret_def)
  have t: "SessionLifetime_new 1000 \<lparr>pol_idle = 900, pol_absolute = 10000\<rparr> = Ok new_lifetime"
    by (simp add: SessionLifetime_new_def SessionLifetime_restore_def checked_add_def checked_sub_def in_i64_def i64_min_def
        i64_max_def new_lifetime_def)
  let ?row = "issued_row sample_libs sample_draws user_state
      \<lparr>pr_source = AuthenticationSource.LocalPassword, pr_local_at = Some 900, pr_origin = None, pr_platform = None\<rparr>
      None new_lifetime Cookie new_secret"
  have d: "SessionSecret_digest (xl_sha256 sample_libs) new_secret = replicate 32 49"
    by code_simp
  have dr: "dr_session sample_draws = 4" by (simp add: sample_draws_def)
  have lf: "lt_absolute_expires_at new_lifetime = 11000" by (simp add: new_lifetime_def)
  have a: "session_admissible sample_libs ?row (w_db session_world)"
    using d by (simp add: session_admissible_def issued_row_def session_world_simps user_session_def user_token_def
        sample_draws_def uuid_nil_def user_state_def session_check_def new_lifetime_def)
  show ?thesis
    using a by (simp add: insert_session_def run_simps p s t encoded_facts_def Let_def IssuedSession_new_def
        session_world_simps new_issued_def saturating_sub_def clamp_i64_def i64_min_def i64_max_def
        SessionView_new_def dr lf)
qed

lemma sample_create:
  "\<exists>events w'. create_session_body sample_authority sample_draws user_candidate None Cookie session_world
      = Inr ((new_issued, events), w')"
proof -
  let ?w1 = "session_world\<lparr>w_tick := 1\<rparr>"
  have l: "load user_key ?w1 = Inr (\<lparr>so_state = user_state, so_hash = Some (PasswordEncoding [98])\<rparr>, ?w1)"
    using session_world_signed_in by (intro load_sample) (simp_all add: user_signed_in_def)
  have k: "st_key user_state = user_key" "au_libs sample_authority = sample_libs"
    "au_session_policy sample_authority = \<lparr>pol_idle = 900, pol_absolute = 10000\<rparr>"
    by (simp_all add: user_state_def sample_authority_def)
  have c: "current user_candidate session_world = Inr (user_state, ?w1)"
    using l by (simp add: current_def run_simps user_candidate_def session_world_simps k
        bind_run(1) [where m = "load user_key" and w = ?w1] matches_verification_def user_state_def active_def)
  obtain e w4 where i: "insert_session sample_libs sample_draws user_state None (SessionAuthentication.LocalPassword 900) 1000
      \<lparr>pol_idle = 900, pol_absolute = 10000\<rparr> Cookie (session_world\<lparr>w_tick := Suc (Suc (Suc 0))\<rparr>) = Inr ((new_issued, e), w4)"
    "w_db w4 = (w_db session_world)\<lparr>d_sessions := d_sessions (w_db w4)\<rparr>" "w_micros w4 = (\<lambda>_. 1000000000)" "w_instants w4 = int"
    using sample_issue unfolding numeral_3_eq_3 by blast
  have f: "d_guard (w_db w4) = [\<lparr>gd_tenant = sample_tenant, gd_profile_sequence = 0\<rparr>]" "d_local_profiles (w_db w4) = []"
    "d_observations (w_db w4) = []"
    by (subst i(2), simp add: session_world_simps)+
  let ?v = "\<lparr>on_source = ProfileSource.IdentityLocal, on_profile = Profile_missing, on_source_time = 1000,
         on_source_expiry = i64_max, on_max_age = 14400, on_sequence = 1,
         on_config_version = None, on_source_epoch = None, on_revision = None\<rparr>"
  obtain w5 where o': "local_observation sample_libs user_key 1000 w4 = Inr (?v, w5)"
    "d_observations (w_db w5) = []" "w_micros w5 = (\<lambda>_. 1000000000)" "w_instants w5 = int"
    using f i(3,4) by (simp add: local_observation_def run_simps decode_local_def sequence_def fetch_one_def
        in_i64_def i64_min_def i64_max_def bind_def Let_def query_def lift_def insert_checked_def ret_def exec_def)
  have a: "\<exists>x w6. accept sample_libs 78 user_key (SessionId 4) 11000 ?v ProfileLimits_default w5 = Inr (x, w6)"
    using o' by (simp add: accept_def run_simps Let_def Profile_missing_def Profile_validate_def
      apply_limits_def checked_add_def in_i64_def i64_min_def i64_max_def
      store_observation_def put_observation_def previous_profile_def 
      admits_observation_def observed_row_def observation_check_def upsert_def ProfileLimits_default_def attribute_value.simps)
  then obtain x w6 where a': "accept sample_libs 78 user_key (SessionId 4) 11000 ?v ProfileLimits_default w5 = Inr (x, w6)" by blast
  have u: "cn_state user_candidate = user_state" "cn_expires user_candidate = 500000000"
    "cn_authenticated_at user_candidate = 900" "au_limits sample_authority = ProfileLimits_default"
    "dr_snapshot sample_draws = 78" "sv_id (is_view new_issued) = SessionId 4"
    "sv_absolute_expires_at (is_view new_issued) = 11000"
    by (simp_all add: user_candidate_def sample_authority_def sample_draws_def new_issued_def SessionView_new_def
        new_lifetime_def)
  show ?thesis
    by (simp add: create_session_body_def run_simps Let_def c k u session_world_simps
        bind_run(1) [where m = "insert_session sample_libs sample_draws user_state None (SessionAuthentication.LocalPassword 900) 1000
          \<lparr>pol_idle = 900, pol_absolute = 10000\<rparr> Cookie" and w = "session_world\<lparr>w_tick := Suc (Suc (Suc 0))\<rparr>", OF i(1)]
        bind_run(1) [where m = "local_observation sample_libs user_key 1000" and w = w4, OF o'(1)]
        bind_run(1) [where m = "accept sample_libs 78 user_key (SessionId 4) 11000 ?v ProfileLimits_default" and w = w5, OF a'])
qed


theorem session_proof_sound_witness:
  "\<exists>p w' state. proof_body sample_libs no_checks sample_tenant user_token Cookie 500000000 False session_world = Inr (p, w')
    \<and> px_digest p = user_token \<and> account_of (w_db session_world) (px_key p) = Some state \<and> active state
    \<and> px_expires p \<le> 500000000 \<and> w_db w' = w_db session_world"
proof -
  have l: "lookup sample_libs sample_tenant user_token Cookie no_checks session_world
      = Inr (user_loaded 0, session_world\<lparr>w_tick := 2\<rparr>)"
    using lookup_sample [OF session_world_signed_in, of sample_libs] by (simp add: session_world_simps)
  have "\<exists>p w'. proof_body sample_libs no_checks sample_tenant user_token Cookie 500000000 False session_world = Inr (p, w')"
    by (simp add: proof_body_def run_simps checked_expiry_def Let_def session_world_simps user_loaded_def
        bind_run(1) [where m = "lookup sample_libs sample_tenant user_token Cookie no_checks" and w = session_world, OF l])
  then show ?thesis using session_proof_sound [OF sample_contracts(2)] by fastforce
qed

lemma sample_refresh:
  "\<exists>issued e w'. refresh_body sample_libs no_checks sample_tenant user_token new_secret 500000000 session_world
      = Inr ((issued, e), w') \<and> sv_id (is_view issued) = SessionId 3"
proof -
  have l: "lookup sample_libs sample_tenant user_token Cookie no_checks session_world
      = Inr (user_loaded 0, session_world\<lparr>w_tick := 2\<rparr>)"
    using lookup_sample [OF session_world_signed_in, of sample_libs] by (simp add: session_world_simps)
  have r: "renew user_lifetime 1000 = Ok (user_lifetime\<lparr>lt_idle_expires_at := 1900\<rparr>)"
    by (simp add: renew_def valid_at_def user_lifetime_def checked_add_def in_i64_def i64_min_def i64_max_def)
  have d: "length (SessionSecret_digest (xl_sha256 sample_libs) new_secret) = 32"
    by code_simp
  let ?l = "(user_loaded 0)\<lparr>ld_lifetime := user_lifetime\<lparr>lt_idle_expires_at := 1900\<rparr>, ld_expires := 899999999000,
      ld_view := SessionView_new (SessionId 3) (user_lifetime\<lparr>lt_idle_expires_at := 1900\<rparr>) Cookie\<rparr>"
  let ?w = "session_world\<lparr>w_tick := 2, w_db := (w_db session_world)\<lparr>d_sessions := [user_session\<lparr>se_idle_expires := 1900\<rparr>]\<rparr>\<rparr>"
  have t: "touch (user_loaded 0) (session_world\<lparr>w_tick := 2\<rparr>) = Inr (?l, ?w)"
    by (simp add: touch_def run_simps user_loaded_def r [unfolded user_lifetime_def, simplified] sample_deadline_def user_lifetime_def instant_checked_add_def i64_max_def
        write_session_def session_world_simps user_view_def SessionView_new_def is_session_def user_session_def user_state_def
        session_check_def update_where_def)
  show ?thesis
    using d
    by (simp add: refresh_body_def run_simps
        bind_run(1) [where m = "lookup sample_libs sample_tenant user_token Cookie no_checks" and w = session_world, OF l]
        bind_run(1) [where m = "touch (user_loaded 0)" and w = "session_world\<lparr>w_tick := 2\<rparr>", OF t]
        rotate_token_def IssuedSession_new_def checked_expiry_def Let_def is_session_def user_session_def
        SessionView_new_def session_world_simps)
qed

theorem refresh_retires_secret_witness:
  "\<exists>issued e w'. refresh_body sample_libs no_checks sample_tenant user_token new_secret 500000000 session_world
      = Inr ((issued, e), w') \<and> \<not> is_ok (lookup sample_libs sample_tenant user_token Cookie no_checks w')"
proof -
  have d: "SessionSecret_digest (xl_sha256 sample_libs) new_secret \<noteq> user_token"
    by code_simp
  show ?thesis
    using sample_refresh refresh_retires_secret [OF sample_contracts(2) session_world_ok _ d refl] by blast
qed

theorem issued_session_usable_witness:
  "\<exists>events w' l u'. create_session_body sample_authority sample_draws user_candidate None Cookie session_world
      = Inr ((new_issued, events), w')
    \<and> lookup sample_libs sample_tenant (SessionSecret_digest (xl_sha256 sample_libs) new_secret) Cookie no_checks
        (w'\<lparr>w_micros := (\<lambda>_. 1800000000), w_instants := int, w_tick := 0\<rparr>) = Inr (l, u')
    \<and> st_key (ld_state l) = user_key"
proof -
  obtain events w' where c: "create_session_body sample_authority sample_draws user_candidate None Cookie session_world
      = Inr ((new_issued, events), w')" using sample_create by blast
  have k: "candidate_account user_candidate = user_key" "au_libs sample_authority = sample_libs"
    "is_secret new_issued = new_secret" "sv_issued_at (is_view new_issued) = 1000" "sv_idle_expires_at (is_view new_issued) = 1900"
    by (simp_all add: candidate_account_def user_candidate_def user_state_def sample_authority_def new_issued_def
        SessionView_new_def new_lifetime_def)
  have t: "is_ok (sample_deadline \<lparr>ts_started = 0, ts_micros = 1800000000\<rparr> 1900)"
    by (simp add: sample_deadline_def instant_checked_add_def is_ok_def ok_or_def i64_max_def)
  from issued_session_usable [OF c, of user_proof "w'\<lparr>w_micros := (\<lambda>_. 1800000000), w_instants := int, w_tick := 0\<rparr>" no_checks]
  show ?thesis
    using c sample_contracts(4) k t by (auto simp: uuid_nil_def)
qed

end
