(* ===== verification/Account_Life.thy ===== *)
theory Account_Life
  imports Operations Session_Life
begin

section \<open>What the account operations guarantee\<close>

text \<open>
  The abstract state is the map from account keys to account states that \<open>account_of\<close> reads off
  the three tables. An operation that changes an account is one \<open>account_step\<close> of the policy at
  one key of that map; every session issued before it is dead in the transaction that made it.
\<close>

subsection \<open>Changing the rows of an account\<close>

lemma find_update_here:
  "(\<And>r. p (f r) = p r) \<Longrightarrow> find p (update_where p f t) = map_option f (find p t)"
  by (cases "find p t") (auto simp: find_update_where dest: find_SomeD)

lemma find_update_there:
  "(\<And>r. q (f r) = q r) \<Longrightarrow> (\<And>r. p r \<Longrightarrow> \<not> q r) \<Longrightarrow> find q (update_where p f t) = find q t"
  by (cases "find q t") (auto simp: find_update_where dest: find_SomeD)

lemma update_where_id [simp]: "update_where p (\<lambda>r. r) t = t"
  by (simp add: update_where_def)

definition rows_written ::
  "AccountKey \<Rightarrow> (account_row \<Rightarrow> account_row) \<Rightarrow> (membership_row \<Rightarrow> membership_row)
    \<Rightarrow> (local_credential_row \<Rightarrow> local_credential_row) \<Rightarrow> db \<Rightarrow> db \<Rightarrow> bool" where
  "rows_written key fa fm fc d e \<longleftrightarrow>
    d_accounts e = update_where (is_account key) fa (d_accounts d)
    \<and> d_memberships e = update_where (is_membership key) fm (d_memberships d)
    \<and> d_credentials e = update_where (is_credential key) fc (d_credentials d)
    \<and> (\<forall>r. ac_tenant (fa r) = ac_tenant r \<and> ac_principal (fa r) = ac_principal r)
    \<and> (\<forall>r. mb_tenant (fm r) = mb_tenant r \<and> mb_principal (fm r) = mb_principal r)
    \<and> (\<forall>r. lc_tenant (fc r) = lc_tenant r \<and> lc_principal (fc r) = lc_principal r)"

lemma other_row:
  assumes "other \<noteq> key"
  shows "is_account key a \<Longrightarrow> \<not> is_account other a" "is_membership key m \<Longrightarrow> \<not> is_membership other m"
    "is_credential key l \<Longrightarrow> \<not> is_credential other l"
  using assms same_account_key [of key other] by (auto simp: is_account_def is_membership_def is_credential_def)

lemma join_written:
  assumes "rows_written key fa fm fc d e"
  shows "join_account other e = (if other = key
    then map_option (\<lambda>(a, m, l). (fa a, fm m, map_option fc l)) (join_account key d) else join_account other d)"
proof (cases "other = key")
  case True
  then show ?thesis using assms
    by (auto simp: join_account_def rows_written_def find_update_here is_account_def is_membership_def is_credential_def
        split: option.split)
next
  case False
  then have "find (is_account other) (d_accounts e) = find (is_account other) (d_accounts d)"
    "find (is_membership other) (d_memberships e) = find (is_membership other) (d_memberships d)"
    "find (is_credential other) (d_credentials e) = find (is_credential other) (d_credentials d)"
    using assms
    by (auto simp: rows_written_def is_account_def is_membership_def is_credential_def
        dest: other_row intro!: find_update_there)
  with False show ?thesis by (simp add: join_account_def cong: option.case_cong)
qed

lemma account_written:
  assumes "rows_written key fa fm fc d e" and "account_of d key = Some s"
    and "\<And>a. ac_enabled (fa a) = st_enabled s' \<or> fa a = a\<lparr>ac_epoch := st_epoch s'\<rparr> \<and> st_enabled s' = st_enabled s"
    and "\<And>a. ac_epoch (fa a) = st_epoch s'"
    and "\<And>m. mb_active (fm m) = st_member_active s' \<and> mb_epoch (fm m) = st_membership_epoch s'
      \<or> fm m = m \<and> st_member_active s' = st_member_active s \<and> st_membership_epoch s' = st_membership_epoch s"
    and "\<And>l. byte_len (lc_hash l) \<le> 256 \<Longrightarrow> byte_len (lc_hash (fc l)) \<le> 256"
    and "st_key s' = key" "st_has_local_password s' = st_has_local_password s" "1 \<le> st_epoch s'" "1 \<le> st_membership_epoch s'"
  shows "account_of e = (account_of d)(key \<mapsto> s')"
proof
  fix other
  show "account_of e other = ((account_of d)(key \<mapsto> s')) other"
  proof (cases "other = key")
    case False
    then show ?thesis using join_written [OF assms(1), of other] by (simp add: account_of_def stored_of_def)
  next
    case True
    from assms(2) obtain a m l q where j: "join_account key d = Some (a, m, l)" "decode_account key (a, m, l) = Inr q" "so_state q = s"
      by (auto simp: account_of_def stored_of_def split: option.splits sum.splits)
    note row = j(2,3)
    have en: "ac_enabled (fa a) = st_enabled s'" using assms(3) [of a] row by (auto simp: decode_account_Ok)
    have mb: "mb_active (fm m) = st_member_active s'" "mb_epoch (fm m) = st_membership_epoch s'"
      using assms(5) [of m] row by (auto simp: decode_account_Ok)
    have lc: "st_has_local_password s' = (l \<noteq> None)" using assms(8) row by (auto simp: decode_account_Ok)
    have s': "s' = \<lparr>st_key = key, st_enabled = ac_enabled (fa a), st_member_active = mb_active (fm m),
        st_epoch = ac_epoch (fa a), st_has_local_password = (map_option fc l \<noteq> None), st_membership_epoch = mb_epoch (fm m)\<rparr>"
      using en mb lc assms(4) [of a] assms(7) by (cases s') simp
    have "\<exists>h. decode_account key (fa a, fm m, map_option fc l) = Inr \<lparr>so_state = s', so_hash = h\<rparr>"
      using s' mb assms(4) [of a] assms(6,9,10) row by (cases l) (auto simp: decode_account_Ok)
    then obtain h where "decode_account key (fa a, fm m, map_option fc l) = Inr \<lparr>so_state = s', so_hash = h\<rparr>" by blast
    then show ?thesis using True j(1) join_written [OF assms(1), of key] by (simp add: account_of_def stored_of_def)
  qed
qed

subsection \<open>The bodies as steps\<close>

text \<open>One step of the abstract state: the policy changes the account of one key.\<close>

definition accounts_step :: "AccountKey \<Rightarrow> (AccountKey \<Rightarrow> AccountState option) \<Rightarrow> (AccountKey \<Rightarrow> AccountState option) \<Rightarrow> bool" where
  "accounts_step key m m' \<longleftrightarrow> (\<exists>s s'. m key = Some s \<and> account_step s s' \<and> m' = m(key \<mapsto> s'))"

lemma stored_epochs:
  "account_of d key = Some s \<Longrightarrow> 1 \<le> st_epoch s \<and> 1 \<le> st_membership_epoch s"
  by (auto simp: account_of_def stored_of_def decode_account_Ok split: option.splits sum.splits)

lemma replace_password_Inr:
  assumes "replace_password L key hash w = Inr (u, w')"
  shows "\<exists>p. w_db w' = (w_db w)\<lparr>d_credentials := update_where (is_credential key)
      (\<lambda>r. r\<lparr>lc_hash := encoding_str hash\<rparr>) (d_credentials (w_db w)), d_passwords := p\<rparr>"
  using assms by (auto simp: replace_password_def write_hash_def tx_simps dest!: clear_passwords_Inr)

lemma check_reauthentication_reads: "reads_only (check_reauthentication actor target r)"
  unfolding check_reauthentication_def by (intro pure.steps current_reads)

lemma change_body_Inr:
  assumes "authority_contract a" and "checks_contract (px_checks actor)"
    and "change_body a actor target change hash reauthentication w = Inr ((next_state, events), w')"
  shows "\<exists>l w1 old action f. recheck (au_libs a) actor w = Inr (l, w1) \<and> account_of (w_db w) target = Some old
    \<and> transition old change = Ok (next_state, action)
    \<and> events = [SecurityEvent.Account (account_event action next_state (Some (px_key actor)))]
    \<and> rows_written target (\<lambda>r. r\<lparr>ac_enabled := st_enabled next_state, ac_epoch := st_epoch next_state\<rparr>)
        (\<lambda>r. r\<lparr>mb_active := st_member_active next_state, mb_epoch := st_membership_epoch next_state\<rparr>) f (w_db w) (w_db w')
    \<and> f = (case hash of None \<Rightarrow> (\<lambda>r. r) | Some h \<Rightarrow> (\<lambda>r. r\<lparr>lc_hash := encoding_str h\<rparr>))
    \<and> d_sessions (w_db w') = d_sessions (w_db w) \<and> d_authority (w_db w') = d_authority (w_db w)"
proof -
  let ?L = "au_libs a" and ?op = "change_operation change (reauthentication \<noteq> None)"
  from assms(3) obtain l w1 u1 w2 u2 w3 stored w4 action w5 u3 w6 u4 w7 where
    r: "recheck ?L actor w = Inr (l, w1)" and c: "check_reauthentication actor target reauthentication w1 = Inr (u1, w2)"
    and p: "authorize (au_policy a) (au_instance a) l ?op (Some target) w2 = Inr (u2, w3)"
    and o': "load target w3 = Inr (stored, w4)"
    and t: "transition (so_state stored) change = Ok (next_state, action)"
    and e: "events = [SecurityEvent.Account (account_event action next_state (Some (px_key actor)))]"
    and wa: "write_account target (st_enabled next_state) (st_epoch next_state) w4 = (Inr (u3, w6) :: MutationError + _)"
    and wh: "(case hash of None \<Rightarrow> ret () | Some h \<Rightarrow> widen Storage (replace_password ?L target h)) w6 = Inr (u4, w7)"
    and wm: "write_membership target (st_member_active next_state) (st_membership_epoch next_state) w7 = (Inr ((), w') :: MutationError + _)"
    unfolding change_body_def Let_def
    by (elim bindE) (auto elim!: bindE split: prod.splits simp del: not_None_eq)
  have db: "w_db w4 = w_db w"
    using reads_onlyD [OF recheck_reads [OF assms(2)] r] reads_onlyD [OF check_reauthentication_reads c]
      reads_onlyD [OF authorize_reads p] assms(1) load_state [OF o'] by (simp add: authority_contract_def)
  have old: "account_of (w_db w) target = Some (so_state stored)"
    using load_state [OF o'] db by simp
  have "\<exists>q. w_db w7 = (w_db w6)\<lparr>d_credentials := update_where (is_credential target)
      (case hash of None \<Rightarrow> (\<lambda>r. r) | Some h \<Rightarrow> (\<lambda>r. r\<lparr>lc_hash := encoding_str h\<rparr>)) (d_credentials (w_db w6)), d_passwords := q\<rparr>"
  proof (cases hash)
    case None
    with wh show ?thesis by (intro exI [of _ "d_passwords (w_db w6)"]) simp
  next
    case (Some h)
    with wh replace_password_Inr [of ?L target h w6 u4 w7] show ?thesis by simp
  qed
  then obtain q where "w_db w7 = (w_db w6)\<lparr>d_credentials := update_where (is_credential target)
      (case hash of None \<Rightarrow> (\<lambda>r. r) | Some h \<Rightarrow> (\<lambda>r. r\<lparr>lc_hash := encoding_str h\<rparr>)) (d_credentials (w_db w6)), d_passwords := q\<rparr>" by blast
  with r old t e wa wm db show ?thesis
    by (auto simp: rows_written_def write_account_def write_membership_def split: option.split)
qed

lemma transition_frame:
  "transition s c = Inr (s', a) \<Longrightarrow> 1 \<le> st_epoch s \<Longrightarrow> 1 \<le> st_membership_epoch s \<Longrightarrow>
    st_key s' = st_key s \<and> st_has_local_password s' = st_has_local_password s \<and> 1 \<le> st_epoch s' \<and> 1 \<le> st_membership_epoch s'"
  by (auto simp: transition_Ok split: LocalChange.splits)

lemma change_body_accounts:
  assumes "authority_contract a" and "checks_contract (px_checks actor)" and "\<And>h. hash = Some h \<Longrightarrow> byte_len (encoding_str h) \<le> 256"
    and "change_body a actor target change hash reauthentication w = Inr ((next_state, events), w')"
  shows "\<exists>old action. account_of (w_db w) target = Some old \<and> transition old change = Ok (next_state, action)
    \<and> events = [SecurityEvent.Account (account_event action next_state (Some (px_key actor)))]
    \<and> account_of (w_db w') = (account_of (w_db w))(target \<mapsto> next_state)
    \<and> d_sessions (w_db w') = d_sessions (w_db w)"
proof -
  from change_body_Inr [OF assms(1,2,4)] obtain old action f where
    old: "account_of (w_db w) target = Some old" and t: "transition old change = Ok (next_state, action)"
    and e: "events = [SecurityEvent.Account (account_event action next_state (Some (px_key actor)))]"
    and rows: "rows_written target (\<lambda>r. r\<lparr>ac_enabled := st_enabled next_state, ac_epoch := st_epoch next_state\<rparr>)
        (\<lambda>r. r\<lparr>mb_active := st_member_active next_state, mb_epoch := st_membership_epoch next_state\<rparr>) f (w_db w) (w_db w')"
    and f: "f = (case hash of None \<Rightarrow> (\<lambda>r. r) | Some h \<Rightarrow> (\<lambda>r. r\<lparr>lc_hash := encoding_str h\<rparr>))"
    and s: "d_sessions (w_db w') = d_sessions (w_db w)" by blast
  have "account_of (w_db w') = (account_of (w_db w))(target \<mapsto> next_state)"
    using rows old
  proof (rule account_written)
    show "byte_len (lc_hash (f l)) \<le> 256" if "byte_len (lc_hash l) \<le> 256" for l
      using that f assms(3) by (simp split: option.split)
  qed (use transition_frame [OF t] stored_epochs [OF old] account_of_key [OF old] in auto)
  with old t e s show ?thesis by blast
qed

lemma recover_body_accounts:
  assumes "byte_len (encoding_str hash) \<le> 256" and "recover_body L key hash w = Inr ((next_state, event), w')"
  shows "\<exists>old action. account_of (w_db w) key = Some old \<and> recover old = Ok (next_state, action)
    \<and> event = SecurityEvent.Account (account_event action next_state None)
    \<and> account_of (w_db w') = (account_of (w_db w))(key \<mapsto> next_state)
    \<and> d_sessions (w_db w') = d_sessions (w_db w)"
proof -
  from assms(2) obtain stored w1 action w2 u where
    l: "load_for_maintenance key w = Inr (stored, w1)"
    and t: "recover (so_state stored) = Ok (next_state, action)"
    and e: "event = SecurityEvent.Account (account_event action next_state None)"
    and wa: "write_epoch key (st_epoch next_state) w1 = (Inr (u, w2) :: MutationError + _)"
    and wh: "replace_password L key hash w2 = Inr ((), w')"
    unfolding recover_body_def by (elim bindE) (auto elim!: bindE split: prod.splits)
  have w1: "w1 = w" and old: "account_of (w_db w) key = Some (so_state stored)"
    using l by (auto simp: load_for_maintenance_Inr account_of_def)
  from replace_password_Inr [OF wh] obtain q where q: "w_db w' = (w_db w2)\<lparr>d_credentials := update_where (is_credential key)
      (\<lambda>r. r\<lparr>lc_hash := encoding_str hash\<rparr>) (d_credentials (w_db w2)), d_passwords := q\<rparr>" by blast
  have "rows_written key (\<lambda>r. r\<lparr>ac_epoch := st_epoch next_state\<rparr>) (\<lambda>r. r) (\<lambda>r. r\<lparr>lc_hash := encoding_str hash\<rparr>) (w_db w) (w_db w')"
    using wa q w1 by (auto simp: rows_written_def write_epoch_def)
  from this old have "account_of (w_db w') = (account_of (w_db w))(key \<mapsto> next_state)"
    by (rule account_written) (use t stored_epochs [OF old] account_of_key [OF old] assms(1) in \<open>auto simp: recover_Ok\<close>)
  with old t e q wa w1 show ?thesis by (auto simp: write_epoch_def)
qed

lemma revoke_all_accounts:
  assumes "checks_contract (px_checks actor)" and "revoke_body L actor True w = Inr ((u, event), w')"
  shows "\<exists>old next_state. account_of (w_db w) (px_key actor) = Some old \<and> revoke_sessions old = Ok next_state
    \<and> account_of (w_db w') = (account_of (w_db w))(px_key actor \<mapsto> next_state)
    \<and> d_sessions (w_db w') = d_sessions (w_db w)"
proof -
  from assms(2) obtain l w1 next_state v where
    r: "recheck L actor w = Inr (l, w1)"
    and t: "revoke_sessions (ld_state l) = Ok next_state"
    and wa: "write_epoch (px_key actor) (st_epoch next_state) w1 = (Inr (v, w') :: MutationError + _)"
    unfolding revoke_body_def by (elim bindE) (auto elim!: bindE)
  have db: "w_db w1 = w_db w" using reads_onlyD [OF recheck_reads [OF assms(1)] r] .
  have old: "account_of (w_db w) (px_key actor) = Some (ld_state l)"
    using recheck_Inr [OF r] by (auto simp: loaded_from_def)
  have "rows_written (px_key actor) (\<lambda>r. r\<lparr>ac_epoch := st_epoch next_state\<rparr>) (\<lambda>r. r) (\<lambda>r. r) (w_db w) (w_db w')"
    using wa db by (auto simp: rows_written_def write_epoch_def)
  from this old have "account_of (w_db w') = (account_of (w_db w))(px_key actor \<mapsto> next_state)"
    by (rule account_written) (use t stored_epochs [OF old] account_of_key [OF old] in \<open>auto simp: revoke_sessions_Ok\<close>)
  with old t wa db show ?thesis by (auto simp: write_epoch_def)
qed

subsection \<open>The epochs of sessions\<close>

text \<open>No session was issued under an epoch its account has not reached.\<close>

definition epochs_ok :: "db \<Rightarrow> bool" where
  "epochs_ok d \<longleftrightarrow> (\<forall>r\<in>set (d_sessions d). \<forall>s. account_of d (session_key r) = Some s \<longrightarrow> se_auth_epoch r \<le> st_epoch s)"

lemma step_epochs_ok:
  assumes "accounts_step key (account_of d) (account_of e)" and "d_sessions e = d_sessions d" and "epochs_ok d"
  shows "epochs_ok e"
proof -
  from assms(1) obtain s s' where s: "account_of d key = Some s" "account_step s s'" "account_of e = (account_of d)(key \<mapsto> s')"
    by (auto simp: accounts_step_def)
  have "st_epoch s < st_epoch s'" using s(2) by (rule account.step_gen)
  with s assms(2,3) show ?thesis by (force simp: epochs_ok_def)
qed

text \<open>A step of an account ends every session it had.\<close>

lemma step_ends_sessions:
  assumes "accounts_step key (account_of d) (account_of (w_db u))" and "d_sessions (w_db u) = d_sessions d" and "epochs_ok d"
    and "checks_contract checks" and "lookup L tenant token kind checks u = Inr (l, u')"
  shows "st_key (ld_state l) \<noteq> key"
proof
  assume k: "st_key (ld_state l) = key"
  from assms(1) obtain s s' where s: "account_of d key = Some s" "account_step s s'" "account_of (w_db u) = (account_of d)(key \<mapsto> s')"
    by (auto simp: accounts_step_def)
  from lookup_hash [OF assms(4,5)] obtain r where r: "loaded_from L checks (w_db u) r key l" using k by blast
  then have "se_auth_epoch r = st_epoch s'" "r \<in> set (d_sessions d)"
    and same: "se_tenant r = ak_tenant key" "se_principal r = key_uuid key"
    using s(3) assms(2) by (auto simp: loaded_from_def row_current_def is_session_def dest!: find_SomeD)
  moreover have "session_key r = key"
    using same by (cases key; cases "ak_principal key") (simp add: session_key_def)
  moreover have "st_epoch s < st_epoch s'"
    using s(2) by (rule account.step_gen)
  ultimately show False using assms(3) s(1) by (force simp: epochs_ok_def)
qed

text \<open>What a session operation keeps: the accounts, and the account and epoch of every session.\<close>

definition session_frame :: "db \<Rightarrow> db \<Rightarrow> bool" where
  "session_frame d e \<longleftrightarrow> d_accounts e = d_accounts d \<and> d_memberships e = d_memberships d
    \<and> d_credentials e = d_credentials d \<and> same_issues (d_sessions e) (d_sessions d)"

interpretation issuing: kept session_frame
  by unfold_locales (simp_all add: session_frame_def same_issues_def)

lemma session_frame_epochs: "session_frame d e \<Longrightarrow> epochs_ok d \<Longrightarrow> epochs_ok e"
proof -
  assume f: "session_frame d e" and ok: "epochs_ok d"
  have "account_of e = account_of d" using f by (intro account_of_same) (simp_all add: session_frame_def)
  moreover have "\<exists>q\<in>set (d_sessions d). session_issue q = session_issue r" if "r \<in> set (d_sessions e)" for r
  proof -
    have "session_issue r \<in> session_issue ` set (d_sessions d)"
      using f that unfolding session_frame_def same_issues_def by (metis imageI)
    then show ?thesis by auto
  qed
  ultimately show "epochs_ok e" using ok by (fastforce simp: epochs_ok_def session_issue_def)
qed

lemma touch_frame: "keeps session_frame (touch l)"
  and close_frame: "keeps session_frame (close key sid t)"
  and rotate_token_frame: "keeps session_frame (rotate_token tenant sid token)"
  unfolding touch_def close_def rotate_token_def write_session_def
  by (intro issuing.steps keeps_insert_checked; simp add: session_frame_def same_issues_update)+

lemma reading_frame:
  assumes "reads_only m" shows "keeps session_frame m"
  using assms by (rule reads_only_keeps) (simp add: session_frame_def)

lemma checked_expiry_reads: "reads_only (checked_expiry l budget)"
  unfolding checked_expiry_def Let_def by (intro pure.steps)

lemma proof_frame:
  "checks_contract checks \<Longrightarrow> keeps session_frame (proof_body L checks tenant token kind budget renewing)"
  unfolding proof_body_def by (intro issuing.steps touch_frame reading_frame lookup_reads checked_expiry_reads)

lemma refresh_frame:
  "checks_contract checks \<Longrightarrow> keeps session_frame (refresh_body L checks tenant old secret budget)"
  unfolding refresh_body_def IssuedSession_new_def
  by (intro issuing.steps touch_frame rotate_token_frame reading_frame lookup_reads checked_expiry_reads)

lemma revoke_one_frame:
  "checks_contract (px_checks actor) \<Longrightarrow> keeps session_frame (revoke_body L actor False)"
  unfolding revoke_body_def if_False by (intro issuing.steps close_frame reading_frame recheck_reads)

lemma issued_session_issue [simp]:
  "session_issue (issued_row L draws state p facts lifetime kind secret) = (st_key state, st_epoch state)"
  by (cases "st_key state"; cases "ak_principal (st_key state)") (simp add: issued_row_def session_issue_def session_key_def)

lemma create_session_epochs:
  assumes "create_session_body a draws candidate replacement kind w = Inr ((issued, events), w')"
    and "\<And>p. replacement = Some p \<Longrightarrow> checks_contract (px_checks p)" and "epochs_ok (w_db w)"
  shows "epochs_ok (w_db w')"
proof -
  from create_session_Inr [OF assms(1,2)] obtain state t lifetime bytes d ps sn rest where
    acc: "account_of (w_db w) (candidate_account candidate) = Some state"
    and row: "let row = issued_row (au_libs a) draws state \<lparr>pr_source = AuthenticationSource.LocalPassword,
          pr_local_at = Some (cn_authenticated_at candidate), pr_origin = None, pr_platform = None\<rparr> None lifetime kind
          (SessionSecret (hex bytes)) in
        session_admissible (au_libs a) row d
        \<and> d_sessions (w_db w') = row\<lparr>se_profile_source := ps, se_profile_snapshot := sn\<rparr> # rest"
    and rest: "same_issues rest (d_sessions (w_db w))"
    and same: "d_accounts (w_db w') = d_accounts (w_db w)" "d_memberships (w_db w') = d_memberships (w_db w)"
      "d_credentials (w_db w') = d_credentials (w_db w)" by blast
  from row obtain new where top: "d_sessions (w_db w') = new # rest" "session_issue new = (st_key state, st_epoch state)"
    by (simp add: Let_def)
  have "session_frame (w_db w) ((w_db w')\<lparr>d_sessions := rest\<rparr>)"
    using same rest by (simp add: session_frame_def)
  from session_frame_epochs [OF this assms(3)] have old: "epochs_ok ((w_db w')\<lparr>d_sessions := rest\<rparr>)" .
  have eq: "account_of ((w_db w')\<lparr>d_sessions := rest\<rparr>) = account_of (w_db w')" "account_of (w_db w') = account_of (w_db w)"
    by (intro account_of_same; simp add: same)+
  show ?thesis
    using old top acc eq account_of_key [OF acc] by (auto simp: epochs_ok_def session_issue_def)
qed

lemma run_case: "(\<And>r w'. m w = Inr (r, w') \<Longrightarrow> P w') \<Longrightarrow> case m w of Inl _ \<Rightarrow> True | Inr (_, w') \<Rightarrow> P w'"
  by (cases "m w") auto

lemma change_body_step:
  assumes "authority_contract a" and "checks_contract (px_checks actor)" and "\<And>h. hash = Some h \<Longrightarrow> byte_len (encoding_str h) \<le> 256"
    and "change_body a actor target change hash reauthentication w = Inr (r, w')"
  shows "accounts_step target (account_of (w_db w)) (account_of (w_db w')) \<and> d_sessions (w_db w') = d_sessions (w_db w)"
  using change_body_accounts [OF assms(1-3), where next_state = "fst r" and events = "snd r"] assms(4)
  by (fastforce simp: accounts_step_def intro: account_step.change)

lemma recover_body_step:
  assumes "byte_len (encoding_str hash) \<le> 256" and "recover_body L key hash w = Inr (r, w')"
  shows "accounts_step key (account_of (w_db w)) (account_of (w_db w')) \<and> d_sessions (w_db w') = d_sessions (w_db w)"
  using recover_body_accounts [OF assms(1), where next_state = "fst r" and event = "snd r"] assms(2)
  by (fastforce simp: accounts_step_def intro: account_step.recovery)

lemma revoke_all_step:
  assumes "checks_contract (px_checks actor)" and "revoke_body L actor True w = Inr (r, w')"
  shows "accounts_step (px_key actor) (account_of (w_db w)) (account_of (w_db w')) \<and> d_sessions (w_db w') = d_sessions (w_db w)"
  using revoke_all_accounts [OF assms(1), where u = "()" and event = "snd r"] assms(2)
  by (cases r) (fastforce simp: accounts_step_def intro: account_step.revoke)

text \<open>C17: A change of an account is one step of the account policy. Seen as a map from account
  keys to account states, the tables after a committed change (of the enabled flag, of the
  membership, or of the password, by an administrator or by the owner) are the tables before
  with the target at the state that the policy's \<open>transition\<close> computes from its old state, and
  every other account as it was; the change is recorded by exactly the one event of that
  transition, naming the actor. A recovery by maintenance is the policy's \<open>recover\<close> in the same way.\<close>

theorem account_change_refines:
  assumes "authority_contract a" and "checks_contract (px_checks actor)"
    and "case hash of None \<Rightarrow> True | Some h \<Rightarrow> byte_len (encoding_str h) \<le> 256" and "byte_len (encoding_str new) \<le> 256"
  shows "(case change_body a actor target change hash reauthentication w of Inl _ \<Rightarrow> True
      | Inr ((next_state, events), w') \<Rightarrow> \<exists>old action. account_of (w_db w) target = Some old
          \<and> transition old change = Ok (next_state, action)
          \<and> account_of (w_db w') = (account_of (w_db w))(target \<mapsto> next_state)
          \<and> events = [SecurityEvent.Account (account_event action next_state (Some (px_key actor)))])
    \<and> (case recover_body L key new w of Inl _ \<Rightarrow> True
      | Inr ((next_state, event), w') \<Rightarrow> \<exists>old action. account_of (w_db w) key = Some old
          \<and> recover old = Ok (next_state, action)
          \<and> account_of (w_db w') = (account_of (w_db w))(key \<mapsto> next_state)
          \<and> event = SecurityEvent.Account (account_event action next_state None))"
proof
  have h: "\<And>h. hash = Some h \<Longrightarrow> byte_len (encoding_str h) \<le> 256" using assms(3) by simp
  show "case change_body a actor target change hash reauthentication w of Inl _ \<Rightarrow> True
      | Inr ((next_state, events), w') \<Rightarrow> \<exists>old action. account_of (w_db w) target = Some old
          \<and> transition old change = Ok (next_state, action)
          \<and> account_of (w_db w') = (account_of (w_db w))(target \<mapsto> next_state)
          \<and> events = [SecurityEvent.Account (account_event action next_state (Some (px_key actor)))]"
    using change_body_accounts [OF assms(1,2) h] by (fastforce split: sum.split prod.split)
  show "case recover_body L key new w of Inl _ \<Rightarrow> True
      | Inr ((next_state, event), w') \<Rightarrow> \<exists>old action. account_of (w_db w) key = Some old
          \<and> recover old = Ok (next_state, action)
          \<and> account_of (w_db w') = (account_of (w_db w))(key \<mapsto> next_state)
          \<and> event = SecurityEvent.Account (account_event action next_state None)"
    using recover_body_accounts [OF assms(4)] by (fastforce split: sum.split prod.split)
qed

text \<open>\<open>opens L checks w key\<close>: some secret resolves to the account in a transaction on \<open>w\<close>.\<close>

definition opens :: "Libraries \<Rightarrow> SessionChecks \<Rightarrow> world \<Rightarrow> AccountKey \<Rightarrow> bool" where
  "opens L checks w key \<longleftrightarrow> (\<exists>tenant token kind l w'.
    lookup L tenant token kind checks w = Inr (l, w') \<and> st_key (ld_state l) = key)"

lemma step_closes:
  assumes "accounts_step k (account_of d) (account_of (w_db w')) \<and> d_sessions (w_db w') = d_sessions d"
    and "epochs_ok d" and "checks_contract checks" and "w_db u = w_db w'"
  shows "\<not> opens M checks u k"
proof
  assume "opens M checks u k"
  then obtain tenant token kind l u' where o': "lookup M tenant token kind checks u = Inr (l, u')" "st_key (ld_state l) = k"
    by (auto simp: opens_def)
  have "st_key (ld_state l) \<noteq> k"
    by (rule step_ends_sessions [OF _ _ assms(2,3) o'(1)]) (simp_all add: assms)
  with o'(2) show False by simp
qed

text \<open>C18: A change of an account ends every session it had, at once. In the state a committed change
  leaves (a change by an administrator or the owner, a recovery, or the revocation of all
  sessions), no secret of any kind, presented under any checks, resolves to the account that was
  changed, at whatever time the state is read.\<close>

theorem account_change_ends_sessions:
  assumes "epochs_ok (w_db w)" and "authority_contract a" and "checks_contract (px_checks actor)" and "checks_contract checks"
    and "case hash of None \<Rightarrow> True | Some h \<Rightarrow> byte_len (encoding_str h) \<le> 256" and "byte_len (encoding_str new) \<le> 256"
  shows "(case change_body a actor target change hash reauthentication w of Inl _ \<Rightarrow> True
      | Inr (_, w') \<Rightarrow> \<not> opens M checks (w'\<lparr>w_micros := clock, w_instants := host, w_tick := n\<rparr>) target)
    \<and> (case recover_body L key new w of Inl _ \<Rightarrow> True
      | Inr (_, w') \<Rightarrow> \<not> opens M checks (w'\<lparr>w_micros := clock, w_instants := host, w_tick := n\<rparr>) key)
    \<and> (case revoke_body L actor True w of Inl _ \<Rightarrow> True
      | Inr (_, w') \<Rightarrow> \<not> opens M checks (w'\<lparr>w_micros := clock, w_instants := host, w_tick := n\<rparr>) (px_key actor))"
proof -
  have h: "\<And>h. hash = Some h \<Longrightarrow> byte_len (encoding_str h) \<le> 256" using assms(5) by simp
  have change: "accounts_step target (account_of (w_db w)) (account_of (w_db w')) \<and> d_sessions (w_db w') = d_sessions (w_db w)"
    if "change_body a actor target change hash reauthentication w = Inr (r, w')" for r w'
    by (rule change_body_step [OF assms(2,3) h that])
  show ?thesis
    by (intro conjI run_case)
      (rule step_closes [OF change assms(1,4)] step_closes [OF recover_body_step [OF assms(6)] assms(1,4)]
        step_closes [OF revoke_all_step [OF assms(3)] assms(1,4)], assumption, simp)+
qed


subsection \<open>Examples\<close>

lemma session_world_epochs: "epochs_ok (w_db session_world)"
proof -
  have "account_of (w_db session_world) user_key = Some user_state"
    using load_sample [of session_world] session_world_signed_in load_state by (fastforce simp: user_signed_in_def)
  then show ?thesis
    by (auto simp: epochs_ok_def session_world_simps user_session_def session_key_def user_key_def user_state_def)
qed

lemma sample_authority_contract: "authority_contract sample_authority"
  using sample_contracts by (simp add: authority_contract_def)

text \<open>The user disables the account; \<open>changed\<close> is the result.\<close>

lemma sample_change:
  "\<exists>events w'. change_body sample_authority user_proof user_key (LocalChange.Enabled False) None None session_world
    = Inr ((user_state\<lparr>st_enabled := False, st_epoch := 2\<rparr>, events), w')"
proof -
  let ?w4 = "session_world\<lparr>w_tick := 4\<rparr>" and ?w6 = "session_world\<lparr>w_tick := 6\<rparr>"
  let ?l = "(user_loaded (Suc 0))\<lparr>ld_expires := 500000000\<rparr>"
  have r: "recheck sample_libs user_proof session_world = Inr (?l, ?w4)"
    using recheck_sample [OF session_world_signed_in, of sample_libs] by (simp add: session_world_simps)
  have p: "authorize (au_policy sample_authority) (au_instance sample_authority) ?l (SetAccountEnabled False) (Some user_key) ?w4 = Inr ((), ?w6)"
    by (subst authorize_sample) (simp_all add: session_world_simps user_loaded_def user_state_def)
  have o': "load user_key ?w6 = Inr (\<lparr>so_state = user_state, so_hash = Some (PasswordEncoding [98])\<rparr>, ?w6)"
    using session_world_signed_in by (intro load_sample) (simp_all add: user_signed_in_def)
  have t: "transition user_state (LocalChange.Enabled False) = Ok (user_state\<lparr>st_enabled := False, st_epoch := 2\<rparr>, AccountDisabled)"
    by (simp add: transition_def user_state_def checked_add_def in_i64_def i64_min_def i64_max_def)
  have L: "au_libs sample_authority = sample_libs" by (simp add: sample_authority_def)
  show ?thesis
    by (simp add: change_body_def L run_simps Let_def check_reauthentication_def t write_account_def write_membership_def r p o')
qed

lemma short_hash: "byte_len (encoding_str (PasswordEncoding [98])) \<le> 256"
  by (simp add: utf8_width_def)

theorem account_change_refines_witness:
  "\<exists>events w' old action. change_body sample_authority user_proof user_key (LocalChange.Enabled False) None None session_world
      = Inr ((user_state\<lparr>st_enabled := False, st_epoch := 2\<rparr>, events), w')
    \<and> transition old (LocalChange.Enabled False) = Ok (user_state\<lparr>st_enabled := False, st_epoch := 2\<rparr>, action)
    \<and> account_of (w_db w') user_key = Some (user_state\<lparr>st_enabled := False, st_epoch := 2\<rparr>)"
proof -
  obtain events w' where c: "change_body sample_authority user_proof user_key (LocalChange.Enabled False) None None session_world
    = Inr ((user_state\<lparr>st_enabled := False, st_epoch := 2\<rparr>, events), w')" using sample_change by blast
  from account_change_refines [OF sample_authority_contract sample_contracts(4) _ short_hash, where hash = None
      and target = user_key and change = "LocalChange.Enabled False" and reauthentication = None and w = session_world]
  obtain old action where "transition old (LocalChange.Enabled False) = Ok (user_state\<lparr>st_enabled := False, st_epoch := 2\<rparr>, action)"
    "account_of (w_db w') = (account_of (w_db session_world))(user_key \<mapsto> user_state\<lparr>st_enabled := False, st_epoch := 2\<rparr>)"
    using c by (simp only: option.case sum.case prod.case simp_thms) blast
  with c show ?thesis by (intro exI [of _ events] exI [of _ w'] exI [of _ old] exI [of _ action]) simp
qed

theorem account_change_ends_sessions_witness:
  "\<exists>events w'. opens sample_libs no_checks session_world user_key
    \<and> change_body sample_authority user_proof user_key (LocalChange.Enabled False) None None session_world
      = Inr ((user_state\<lparr>st_enabled := False, st_epoch := 2\<rparr>, events), w')
    \<and> \<not> opens sample_libs no_checks (w'\<lparr>w_micros := \<lambda>_. 1000000000, w_instants := int, w_tick := 0\<rparr>) user_key"
proof -
  obtain events w' where c: "change_body sample_authority user_proof user_key (LocalChange.Enabled False) None None session_world
    = Inr ((user_state\<lparr>st_enabled := False, st_epoch := 2\<rparr>, events), w')" using sample_change by blast
  have "opens sample_libs no_checks session_world user_key"
    unfolding opens_def
    by (intro exI conjI, rule lookup_sample [OF session_world_signed_in]) (simp add: user_loaded_def user_state_def)
  moreover have "\<not> opens sample_libs no_checks (w'\<lparr>w_micros := \<lambda>_. 1000000000, w_instants := int, w_tick := 0\<rparr>) user_key"
    using account_change_ends_sessions [OF session_world_epochs sample_authority_contract sample_contracts(4,2) _ short_hash, where hash = None
      and target = user_key and change = "LocalChange.Enabled False" and reauthentication = None] c
    by (simp only: option.case sum.case prod.case simp_thms)
  ultimately show ?thesis using c by blast
qed


end
