(* ===== verification/Directory.thy ===== *)
theory Directory
  imports Federation
begin

section \<open>Account directory queries (identity-core/src/directory.rs)\<close>

text \<open>
  The query language of the account directory: a recursive-descent parser over the raw text with
  budgets for nodes, set items and nesting. A parser state is the unread suffix of the text
  (the source keeps the text and an offset) with the two counters. UUID parsing and printing are
  parameters.
\<close>

datatype Field =
  PrincipalId | Login | Enabled | MemberActive | HasLocalPassword | DisplayName | Email
| ProfileStatus | DepartmentStatus | DepartmentSnapshot | Department | DepartmentSubtree

datatype InvalidQuery = InvalidQuery

fun Field_name :: "Field \<Rightarrow> ustr" where
  "Field_name Field.PrincipalId = lit ''principalId''"
| "Field_name Field.Login = lit ''login''"
| "Field_name Field.Enabled = lit ''enabled''"
| "Field_name MemberActive = lit ''memberActive''"
| "Field_name HasLocalPassword = lit ''hasLocalPassword''"
| "Field_name DisplayName = lit ''displayName''"
| "Field_name Email = lit ''email''"
| "Field_name ProfileStatus = lit ''profileStatus''"
| "Field_name DepartmentStatus = lit ''departmentStatus''"
| "Field_name Field.DepartmentSnapshot = lit ''departmentSnapshot''"
| "Field_name Department = lit ''department''"
| "Field_name DepartmentSubtree = lit ''departmentSubtree''"

definition all_fields :: "Field list" where
  "all_fields = [Field.PrincipalId, Field.Login, Field.Enabled, MemberActive, HasLocalPassword,
     DisplayName, Email, ProfileStatus, DepartmentStatus, Field.DepartmentSnapshot, Department,
     DepartmentSubtree]"

definition Field_parse :: "ustr \<Rightarrow> InvalidQuery + Field" where
  "Field_parse name = ok_or InvalidQuery (find (\<lambda>f. Field_name f = name) all_fields)"

definition field_profile :: "Field \<Rightarrow> bool" where
  "field_profile f \<longleftrightarrow> f \<in> {DisplayName, Email, ProfileStatus}"

definition field_department :: "Field \<Rightarrow> bool" where
  "field_department f \<longleftrightarrow>
    f \<in> {DepartmentStatus, Field.DepartmentSnapshot, Department, DepartmentSubtree}"

definition field_boolean :: "Field \<Rightarrow> bool" where
  "field_boolean f \<longleftrightarrow> f \<in> {Field.Enabled, MemberActive, HasLocalPassword}"

definition field_sortable :: "Field \<Rightarrow> bool" where
  "field_sortable f \<longleftrightarrow> f \<notin> {Field.DepartmentSnapshot, Department, DepartmentSubtree}"

definition field_output :: "Field \<Rightarrow> bool" where
  "field_output f \<longleftrightarrow> f \<notin> {Department, DepartmentSubtree}"

record Sort =
  so_field :: Field
  so_descending :: bool

datatype Expression =
  Compare Field ustr "ustr list"
| And "Expression list"
| Or "Expression list"

fun expression_fields :: "Expression \<Rightarrow> Field list" where
  "expression_fields (Compare field _ _) = [field]"
| "expression_fields (And items) = concat (map expression_fields items)"
| "expression_fields (Or items) = concat (map expression_fields items)"

subsection \<open>The parser\<close>

record Parser =
  ps_rest :: ustr
  ps_nodes :: nat
  ps_set_items :: nat

definition eat :: "ustr \<Rightarrow> Parser \<Rightarrow> Parser option" where
  "eat text p = map_option (\<lambda>rest. p\<lparr>ps_rest := rest\<rparr>) (strip_prefix text (ps_rest p))"

definition parser_node :: "Parser \<Rightarrow> InvalidQuery + Parser" where
  "parser_node p =
    (let p = p\<lparr>ps_nodes := ps_nodes p + 1\<rparr> in
     if ps_nodes p > 128 then Err InvalidQuery else Ok p)"

definition ESCAPABLE :: ustr where
  "ESCAPABLE = [0x5C, 0x27, 0x22, 0x2C, 0x3B, 0x28, 0x29]"

definition BARE_REFUSED :: ustr where
  "BARE_REFUSED = [0x28, 0x27, 0x22, 0x3D, 0x21, 0x3C, 0x3E, 0x2A]"

text \<open>The loop of \<open>value\<close>: the operand read, the unread rest and whether a quote was closed.\<close>

fun value_loop :: "nat option \<Rightarrow> ustr \<Rightarrow> ustr \<Rightarrow> InvalidQuery + ustr \<times> ustr \<times> bool" where
  "value_loop quote value [] = Ok (value, [], quote = None)"
| "value_loop quote value (c # rest) =
    (if quote = Some c then Ok (value, rest, True)
     else if quote = None \<and> c \<in> {0x2C, 0x3B, 0x29} then Ok (value, c # rest, True)
     else if c = 0x5C then
       (case rest of
          [] \<Rightarrow> Err InvalidQuery
        | next # rest' \<Rightarrow>
            if next \<notin> set ESCAPABLE then Err InvalidQuery
            else if is_control next then Err InvalidQuery
            else if byte_len (value @ [next]) > 1024 then Err InvalidQuery
            else value_loop quote (value @ [next]) rest')
     else if quote = None \<and> (is_whitespace c \<or> c \<in> set BARE_REFUSED) then Err InvalidQuery
     else if is_control c then Err InvalidQuery
     else if byte_len (value @ [c]) > 1024 then Err InvalidQuery
     else value_loop quote (value @ [c]) rest)"

definition parse_value :: "Parser \<Rightarrow> InvalidQuery + ustr \<times> Parser" where
  "parse_value p =
    (let (quote, p) = (case eat [0x27] p of
            Some p \<Rightarrow> (Some 0x27, p)
          | None \<Rightarrow> (case eat [0x22] p of Some p \<Rightarrow> (Some 0x22, p) | None \<Rightarrow> (None, p))) in
     and_then (value_loop quote [] (ps_rest p)) (\<lambda>(value, rest, closed).
     if \<not> closed \<or> quote = None \<and> value = [] then Err InvalidQuery
     else Ok (value, p\<lparr>ps_rest := rest\<rparr>)))"

text \<open>The loop over the values of a set, which its own budget of 64 values bounds.\<close>

function set_values :: "ustr list \<Rightarrow> Parser \<Rightarrow> InvalidQuery + ustr list \<times> Parser" where
  "set_values values p =
    (let p = p\<lparr>ps_set_items := ps_set_items p + 1\<rparr> in
     if ps_set_items p > 256 \<or> length values \<ge> 64 then Err InvalidQuery
     else and_then (parse_value p) (\<lambda>(v, p).
       case eat [0x29] p of
         Some p \<Rightarrow> Ok (values @ [v], p)
       | None \<Rightarrow> (case eat [0x2C] p of
           None \<Rightarrow> Err InvalidQuery
         | Some p \<Rightarrow> set_values (values @ [v]) p)))"
  by pat_completeness auto
termination by (relation "measure (\<lambda>(values, p). 64 - length values)") auto

declare set_values.simps [simp del]

definition OPERATORS :: "ustr list" where
  "OPERATORS = map lit
    [''=='', ''!='', ''=lt='', ''=le='', ''=gt='', ''=ge='', ''=icontains='', ''=in='', ''=out='',
     ''=isnull='', ''=isnotnull='']"

fun eat_first :: "ustr list \<Rightarrow> Parser \<Rightarrow> (ustr \<times> Parser) option" where
  "eat_first [] p = None"
| "eat_first (op # ops) p = (case eat op p of Some p' \<Rightarrow> Some (op, p') | None \<Rightarrow> eat_first ops p)"

fun canonical_principals ::
  "(ustr \<Rightarrow> uuid option) \<Rightarrow> (uuid \<Rightarrow> ustr) \<Rightarrow> ustr list \<Rightarrow> InvalidQuery + ustr list" where
  "canonical_principals parse_uuid show_uuid [] = Ok []"
| "canonical_principals parse_uuid show_uuid (v # vs) =
    and_then (map_err (\<lambda>_. InvalidQuery) (PrincipalId_parse parse_uuid v)) (\<lambda>i.
    and_then (canonical_principals parse_uuid show_uuid vs) (\<lambda>ws.
    Ok (show_uuid (principal_uuid i) # ws)))"

definition set_operator :: "ustr \<Rightarrow> bool" where
  "set_operator op \<longleftrightarrow> op = lit ''=in='' \<or> op = lit ''=out=''"

definition compare_values :: "ustr \<Rightarrow> Parser \<Rightarrow> InvalidQuery + ustr list \<times> Parser" where
  "compare_values operator p =
    (if set_operator operator then
       (case eat [0x28] p of None \<Rightarrow> Err InvalidQuery | Some p \<Rightarrow> set_values [] p)
     else and_then (parse_value p) (\<lambda>(v, p). Ok ([v], p)))"

text \<open>The three checks of a comparison against its field and operator.\<close>

definition compare_check :: "Field \<Rightarrow> ustr \<Rightarrow> ustr list \<Rightarrow> InvalidQuery + unit" where
  "compare_check field operator vals =
    (if \<not> field_sortable field
        \<and> (\<not> (field = Department \<or> field = DepartmentSubtree) \<or> operator \<noteq> lit ''=='')
     then Err InvalidQuery
     else if field_boolean field
        \<and> (\<not> (operator = lit ''=='' \<or> operator = lit ''!='')
           \<or> list_ex (\<lambda>v. \<not> (v = lit ''true'' \<or> v = lit ''false'')) vals)
     then Err InvalidQuery
     else if (operator = lit ''=isnull='' \<or> operator = lit ''=isnotnull='') \<and> vals \<noteq> [lit ''true'']
     then Err InvalidQuery
     else Ok ())"

definition parse_compare ::
  "(ustr \<Rightarrow> uuid option) \<Rightarrow> (uuid \<Rightarrow> ustr) \<Rightarrow> Parser \<Rightarrow> InvalidQuery + Expression \<times> Parser" where
  "parse_compare parse_uuid show_uuid p =
    and_then (parser_node p) (\<lambda>p.
    let name = takeWhile is_ascii_alphanumeric (ps_rest p);
        p = p\<lparr>ps_rest := dropWhile is_ascii_alphanumeric (ps_rest p)\<rparr> in
    and_then (Field_parse name) (\<lambda>field.
    and_then (ok_or InvalidQuery (eat_first OPERATORS p)) (\<lambda>(operator, p).
    and_then (compare_values operator p) (\<lambda>(vals, p).
    and_then (compare_check field operator vals) (\<lambda>_.
    and_then (if field = Field.PrincipalId then canonical_principals parse_uuid show_uuid vals
              else Ok vals) (\<lambda>vals.
    Ok (Compare field operator vals, p)))))))"

text \<open>
  The loop of \<open>expression\<close> over the operands of one separator. Every round eats a separator, so a
  fuel above the length of the unread text is never used up.
\<close>

fun operands ::
  "(Parser \<Rightarrow> InvalidQuery + Expression \<times> Parser) \<Rightarrow> ustr \<Rightarrow> nat \<Rightarrow> Expression list \<Rightarrow> Parser
    \<Rightarrow> InvalidQuery + Expression list \<times> Parser" where
  "operands next separator 0 items p = Err InvalidQuery"
| "operands next separator (Suc fuel) items p =
    and_then (next p) (\<lambda>(item, p).
    case eat separator p of
      None \<Rightarrow> Ok (items @ [item], p)
    | Some p \<Rightarrow> operands next separator fuel (items @ [item]) p)"

function expression ::
  "(ustr \<Rightarrow> uuid option) \<Rightarrow> (uuid \<Rightarrow> ustr) \<Rightarrow> nat \<Rightarrow> nat \<Rightarrow> Parser
    \<Rightarrow> InvalidQuery + Expression \<times> Parser" where
  "expression parse_uuid show_uuid precedence depth p =
    (if depth > 16 then Err InvalidQuery
     else if precedence < 2 then
       and_then (expression parse_uuid show_uuid (precedence + 1) depth p) (\<lambda>(first, p).
       let separator = (if precedence = 0 then [0x2C] else [0x3B]) in
       case eat separator p of
         None \<Rightarrow> Ok (first, p)
       | Some p \<Rightarrow>
           and_then (parser_node p) (\<lambda>p.
           and_then (operands (\<lambda>p. expression parse_uuid show_uuid (precedence + 1) depth p) separator
               (length (ps_rest p) + 1) [first] p) (\<lambda>(items, p).
           Ok (if precedence = 0 then Or items else And items, p))))
     else
       (case eat [0x28] p of
          Some p \<Rightarrow>
            and_then (expression parse_uuid show_uuid 0 (depth + 1) p) (\<lambda>(inner, p).
            case eat [0x29] p of None \<Rightarrow> Err InvalidQuery | Some p \<Rightarrow> Ok (inner, p))
        | None \<Rightarrow> parse_compare parse_uuid show_uuid p))"
  by pat_completeness auto
termination
  by (relation "measures [\<lambda>(pu, su, precedence, depth, p). 17 - depth,
    \<lambda>(pu, su, precedence, depth, p). 2 - precedence]") auto

declare expression.simps [simp del]

definition parse_filter ::
  "(ustr \<Rightarrow> uuid option) \<Rightarrow> (uuid \<Rightarrow> ustr) \<Rightarrow> ustr \<Rightarrow> InvalidQuery + Expression" where
  "parse_filter parse_uuid show_uuid raw =
    (if raw = [] \<or> byte_len raw > 8192 then Err InvalidQuery
     else and_then (expression parse_uuid show_uuid 0 0 \<lparr>ps_rest = raw, ps_nodes = 0, ps_set_items = 0\<rparr>)
       (\<lambda>(e, p). if ps_rest p \<noteq> [] then Err InvalidQuery else Ok e))"

subsection \<open>Queries\<close>

record AccountQuery =
  aq_filter :: "Expression option"
  aq_sort :: "Sort list"
  aq_fields :: "Field list"
  aq_source :: "ustr option"
  aq_limit :: nat

definition names :: "ustr \<Rightarrow> InvalidQuery + ustr list" where
  "names raw =
    (if byte_len raw > 4096 then Err InvalidQuery
     else let names = split_on 0x2C raw in
       if names = [] \<or> length names > 16 \<or> list_ex (\<lambda>s. s = [] \<or> byte_len s > 128) names
          \<or> \<not> distinct names
       then Err InvalidQuery else Ok names)"

fun parse_fields :: "ustr list \<Rightarrow> InvalidQuery + Field list" where
  "parse_fields [] = Ok []"
| "parse_fields (n # ns) =
    and_then (Field_parse n) (\<lambda>f. and_then (parse_fields ns) (\<lambda>fs. Ok (f # fs)))"

fun parse_sort :: "ustr list \<Rightarrow> Sort list \<Rightarrow> InvalidQuery + Sort list" where
  "parse_sort [] sorts = Ok sorts"
| "parse_sort (name # rest) sorts =
    and_then (Field_parse (case strip_prefix [0x2D] name of Some n \<Rightarrow> n | None \<Rightarrow> name)) (\<lambda>field.
    if \<not> field_sortable field \<or> list_ex (\<lambda>s. so_field s = field) sorts then Err InvalidQuery
    else parse_sort rest
      (sorts @ [\<lparr>so_field = field, so_descending = (strip_prefix [0x2D] name \<noteq> None)\<rparr>]))"

definition used_fields :: "AccountQuery \<Rightarrow> Field list" where
  "used_fields q = aq_fields q @ map so_field (aq_sort q)
     @ (case aq_filter q of None \<Rightarrow> [] | Some e \<Rightarrow> expression_fields e)"

definition needs_profiles :: "AccountQuery \<Rightarrow> bool" where
  "needs_profiles q \<longleftrightarrow> list_ex field_profile (used_fields q)"

definition needs_departments :: "AccountQuery \<Rightarrow> bool" where
  "needs_departments q \<longleftrightarrow> list_ex field_department (used_fields q)"

definition default_fields :: "Field list" where
  "default_fields = [Field.PrincipalId, Field.Login, Field.Enabled, MemberActive, HasLocalPassword]"

definition AccountQuery_parse ::
  "(ustr \<Rightarrow> uuid option) \<Rightarrow> (uuid \<Rightarrow> ustr) \<Rightarrow> ustr option \<Rightarrow> ustr option \<Rightarrow> ustr option
    \<Rightarrow> ustr option \<Rightarrow> nat \<Rightarrow> InvalidQuery + AccountQuery" where
  "AccountQuery_parse parse_uuid show_uuid filter' sort' fields' source limit =
    and_then (ensure (1 \<le> limit \<and> limit \<le> 100) InvalidQuery) (\<lambda>_.
    and_then (case source of
        None \<Rightarrow> Ok None
      | Some s \<Rightarrow>
          if s = lit ''local'' then Ok (Some s)
          else and_then (map_err (\<lambda>_. InvalidQuery) (ProviderId_parse parse_uuid s)) (\<lambda>i.
            Ok (Some (show_uuid (provider_uuid i))))) (\<lambda>source.
    and_then (case fields' of
        Some raw \<Rightarrow> and_then (names raw) parse_fields
      | None \<Rightarrow> Ok default_fields) (\<lambda>fs.
    and_then (ensure (\<not> list_ex (\<lambda>f. \<not> field_output f) fs) InvalidQuery) (\<lambda>_.
    and_then (case sort' of
        None \<Rightarrow> Ok []
      | Some raw \<Rightarrow> and_then (names raw) (\<lambda>ns. parse_sort ns [])) (\<lambda>sorts.
    let sorts =
      (if list_ex (\<lambda>s. so_field s = Field.PrincipalId) sorts then sorts
       else sorts @ [\<lparr>so_field = Field.PrincipalId, so_descending = False\<rparr>]) in
    and_then (case filter' of
        None \<Rightarrow> Ok None
      | Some raw \<Rightarrow> and_then (parse_filter parse_uuid show_uuid raw) (\<lambda>e. Ok (Some e))) (\<lambda>expr.
    let result = \<lparr>aq_filter = expr, aq_sort = sorts, aq_fields = fs, aq_source = source,
      aq_limit = limit\<rparr> in
    if (needs_profiles result \<or> needs_departments result) \<and> aq_source result = None
    then Err InvalidQuery
    else if needs_departments result \<and> aq_source result = Some (lit ''local'')
    then Err InvalidQuery
    else Ok result))))))"

definition AccountQuery_default ::
  "(ustr \<Rightarrow> uuid option) \<Rightarrow> (uuid \<Rightarrow> ustr) \<Rightarrow> InvalidQuery + AccountQuery" where
  "AccountQuery_default parse_uuid show_uuid =
    AccountQuery_parse parse_uuid show_uuid None None None None 50"

subsection \<open>What the parser accepts\<close>

fun expr_nodes :: "Expression \<Rightarrow> nat" where
  "expr_nodes (Compare _ _ _) = 1"
| "expr_nodes (And items) = 1 + sum_list (map expr_nodes items)"
| "expr_nodes (Or items) = 1 + sum_list (map expr_nodes items)"

fun expr_set_items :: "Expression \<Rightarrow> nat" where
  "expr_set_items (Compare _ op values) = (if set_operator op then length values else 0)"
| "expr_set_items (And items) = sum_list (map expr_set_items items)"
| "expr_set_items (Or items) = sum_list (map expr_set_items items)"

definition operand_text :: "ustr \<Rightarrow> bool" where
  "operand_text v \<longleftrightarrow> byte_len v \<le> 1024 \<and> \<not> list_ex is_control v"

text \<open>A comparison the SQL builder may rely on, and connectives of at least two operands.\<close>

definition compare_ok :: "(uuid \<Rightarrow> ustr) \<Rightarrow> Field \<Rightarrow> ustr \<Rightarrow> ustr list \<Rightarrow> bool" where
  "compare_ok su field op values \<longleftrightarrow>
    op \<in> set OPERATORS \<and> values \<noteq> [] \<and> length values \<le> (if set_operator op then 64 else 1)
    \<and> (field_sortable field \<or> field \<in> {Department, DepartmentSubtree} \<and> op = lit ''=='')
    \<and> (field_boolean field \<longrightarrow>
        op \<in> {lit ''=='', lit ''!=''} \<and> set values \<subseteq> {lit ''true'', lit ''false''})
    \<and> (if field = Field.PrincipalId then list_all (\<lambda>v. \<exists>u. u \<noteq> uuid_nil \<and> v = su u) values
       else list_all operand_text values
         \<and> (op \<in> {lit ''=isnull='', lit ''=isnotnull=''} \<longrightarrow> values = [lit ''true'']))"

fun expr_ok :: "(uuid \<Rightarrow> ustr) \<Rightarrow> Expression \<Rightarrow> bool" where
  "expr_ok su (Compare field op values) = compare_ok su field op values"
| "expr_ok su (And items) = (2 \<le> length items \<and> list_all (expr_ok su) items)"
| "expr_ok su (Or items) = (2 \<le> length items \<and> list_all (expr_ok su) items)"

text \<open>What one successful parser call does to the budgets and the unread text.\<close>

definition parsed :: "(uuid \<Rightarrow> ustr) \<Rightarrow> Parser \<Rightarrow> Expression list \<Rightarrow> Parser \<Rightarrow> bool" where
  "parsed su p es p' \<longleftrightarrow>
    list_all (expr_ok su) es
    \<and> ps_nodes p' = ps_nodes p + sum_list (map expr_nodes es)
    \<and> ps_set_items p' = ps_set_items p + sum_list (map expr_set_items es)
    \<and> (ps_nodes p \<le> 128 \<longrightarrow> ps_nodes p' \<le> 128)
    \<and> (ps_set_items p \<le> 256 \<longrightarrow> ps_set_items p' \<le> 256)
    \<and> length (ps_rest p') \<le> length (ps_rest p)"

lemma eat_Some:
  "eat text p = Some q \<longleftrightarrow> (\<exists>r. ps_rest p = text @ r \<and> q = p\<lparr>ps_rest := r\<rparr>)"
  by (auto simp: eat_def strip_prefix_Some)

lemma eat_budgets:
  "eat text p = Some q \<Longrightarrow> ps_nodes q = ps_nodes p \<and> ps_set_items q = ps_set_items p
    \<and> length (ps_rest p) = length text + length (ps_rest q)"
  by (auto simp: eat_Some)

lemma parser_node_Ok:
  "parser_node p = Ok q \<longleftrightarrow> q = p\<lparr>ps_nodes := ps_nodes p + 1\<rparr> \<and> ps_nodes p + 1 \<le> 128"
  by (auto simp: parser_node_def Let_def)

lemma value_loop_Ok:
  "value_loop quote v s = Ok (w, r, c) \<Longrightarrow> operand_text v \<Longrightarrow> operand_text w \<and> length r \<le> length s"
proof (induction quote v s rule: value_loop.induct)
  case (2 quote v c rest)
  then show ?case
    by (auto simp: operand_text_def split: if_splits list.splits)
qed auto

lemma parse_value_Ok:
  "parse_value p = Ok (v, q) \<Longrightarrow>
    operand_text v \<and> ps_nodes q = ps_nodes p \<and> ps_set_items q = ps_set_items p
    \<and> length (ps_rest q) \<le> length (ps_rest p)"
proof -
  have plain: "operand_text []" by (simp add: operand_text_def)
  have quoted: ?thesis if "eat t p = Some p1" "value_loop quote [] (ps_rest p1) = Ok (v, rest, closed)"
      "q = p1\<lparr>ps_rest := rest\<rparr>" for t p1 quote rest closed
    using value_loop_Ok [OF that(2) plain] eat_budgets [OF that(1)] that(3) by simp
  assume "parse_value p = Ok (v, q)"
  then show ?thesis
    using value_loop_Ok [OF _ plain, of None "ps_rest p"]
    by (auto simp: parse_value_def and_then_Inr_iff Let_def split: option.splits if_splits
        dest!: quoted)
qed

lemma set_values_step:
  assumes "set_values vs p = Ok (ws, q)"
  obtains v p1 where "parse_value (p\<lparr>ps_set_items := ps_set_items p + 1\<rparr>) = Ok (v, p1)"
    and "ps_set_items p < 256" and "length vs < 64"
    and "eat [0x29] p1 = Some q \<and> ws = vs @ [v]
      \<or> (\<exists>p2. eat [0x29] p1 = None \<and> eat [0x2C] p1 = Some p2 \<and> set_values (vs @ [v]) p2 = Ok (ws, q))"
proof -
  from assms obtain v p1 where v: "parse_value (p\<lparr>ps_set_items := ps_set_items p + 1\<rparr>) = Ok (v, p1)"
    and room: "ps_set_items p < 256" "length vs < 64"
    by (auto simp: set_values.simps [of vs p] and_then_Inr_iff Let_def split: if_splits)
  with assms have "(case eat [0x29] p1 of Some p \<Rightarrow> Ok (vs @ [v], p)
      | None \<Rightarrow> (case eat [0x2C] p1 of None \<Rightarrow> Err InvalidQuery
          | Some p \<Rightarrow> set_values (vs @ [v]) p)) = Ok (ws, q)"
    by (simp add: set_values.simps [of vs p])
  then have "eat [0x29] p1 = Some q \<and> ws = vs @ [v]
      \<or> (\<exists>p2. eat [0x29] p1 = None \<and> eat [0x2C] p1 = Some p2 \<and> set_values (vs @ [v]) p2 = Ok (ws, q))"
    by (cases "eat [0x29] p1"; cases "eat [0x2C] p1") simp_all
  with that v room show thesis by blast
qed

lemma set_values_Ok:
  "set_values vs p = Ok (ws, q) \<Longrightarrow> list_all operand_text vs \<Longrightarrow>
    list_all operand_text ws \<and> length vs < length ws \<and> length ws \<le> 64
    \<and> ps_set_items q = ps_set_items p + (length ws - length vs) \<and> ps_set_items q \<le> 256
    \<and> ps_nodes q = ps_nodes p \<and> length (ps_rest q) < length (ps_rest p)"
proof (induction "64 - length vs" arbitrary: vs p rule: less_induct)
  case less
  from less.prems(1) show ?case
  proof (rule set_values_step)
    fix v p1
    assume v: "parse_value (p\<lparr>ps_set_items := ps_set_items p + 1\<rparr>) = Ok (v, p1)"
      and room: "ps_set_items p < 256" "length vs < 64"
      and step: "eat [0x29] p1 = Some q \<and> ws = vs @ [v]
        \<or> (\<exists>p2. eat [0x29] p1 = None \<and> eat [0x2C] p1 = Some p2 \<and> set_values (vs @ [v]) p2 = Ok (ws, q))"
    from parse_value_Ok [OF v] have p1: "operand_text v" "ps_set_items p1 = ps_set_items p + 1"
        "ps_nodes p1 = ps_nodes p" "length (ps_rest p1) \<le> length (ps_rest p)"
      by simp_all
    with less.prems(2) have plain: "list_all operand_text (vs @ [v])" by simp
    from step show ?thesis
    proof (elim disjE exE conjE)
      assume "eat [0x29] p1 = Some q" and ws: "ws = vs @ [v]"
      from eat_budgets [OF this(1)] ws p1 room plain show ?thesis by simp
    next
      fix p2 assume "eat [0x2C] p1 = Some p2" and rest: "set_values (vs @ [v]) p2 = Ok (ws, q)"
      moreover have "64 - length (vs @ [v]) < 64 - length vs" using room by simp
      ultimately show ?thesis
        using eat_budgets [of _ p1 p2] less.hyps [OF _ rest plain] p1 by auto
    qed
  qed
qed

lemma eat_first_Some:
  "eat_first ops p = Some (op, q) \<Longrightarrow> op \<in> set ops \<and> eat op p = Some q"
  by (induction ops) (auto split: option.splits)

lemma canonical_principals_Ok:
  "canonical_principals pu su vs = Ok ws \<Longrightarrow>
    length ws = length vs \<and> list_all (\<lambda>w. \<exists>u. u \<noteq> uuid_nil \<and> w = su u) ws"
proof (induction vs arbitrary: ws)
  case (Cons v vs)
  then obtain i us where "PrincipalId_parse pu v = Ok i" "canonical_principals pu su vs = Ok us"
      "ws = su (principal_uuid i) # us"
    by (auto simp: and_then_Inr_iff)
  with Cons.IH show ?case by (auto simp: PrincipalId_parse_Ok)
qed simp

lemma operators_nonempty: "op \<in> set OPERATORS \<Longrightarrow> op \<noteq> []"
  by (auto simp: OPERATORS_def lit_def)

lemma compare_values_Ok:
  assumes "compare_values operator p = Ok (vals, q)"
  shows "list_all operand_text vals \<and> vals \<noteq> [] \<and> length vals \<le> (if set_operator operator then 64 else 1)
    \<and> ps_nodes q = ps_nodes p \<and> length (ps_rest q) \<le> length (ps_rest p)
    \<and> ps_set_items q = ps_set_items p + (if set_operator operator then length vals else 0)
    \<and> (set_operator operator \<longrightarrow> ps_set_items q \<le> 256)"
proof (cases "set_operator operator")
  case True
  with assms obtain p1 where "eat [0x28] p = Some p1" "set_values [] p1 = Ok (vals, q)"
    by (auto simp: compare_values_def split: option.splits)
  with True eat_budgets [of _ p p1] set_values_Ok [of "[]" p1 vals q] show ?thesis by auto
next
  case False
  with assms obtain v where "parse_value p = Ok (v, q)" "vals = [v]"
    by (auto simp: compare_values_def and_then_Inr_iff)
  with False parse_value_Ok [of p v q] show ?thesis by simp
qed

lemma compare_check_Ok:
  "compare_check field op vals = Ok u \<longleftrightarrow>
    (field_sortable field \<or> field \<in> {Department, DepartmentSubtree} \<and> op = lit ''=='')
    \<and> (field_boolean field \<longrightarrow>
        op \<in> {lit ''=='', lit ''!=''} \<and> set vals \<subseteq> {lit ''true'', lit ''false''})
    \<and> (op \<in> {lit ''=isnull='', lit ''=isnotnull=''} \<longrightarrow> vals = [lit ''true''])"
  by (auto simp: compare_check_def list_ex_iff)

lemma parse_compare_Ok:
  assumes "parse_compare pu su p = Ok (e, q)"
  shows "parsed su p [e] q \<and> length (ps_rest q) < length (ps_rest p)"
proof -
  obtain field operator p2 vals vals' where
    node: "ps_nodes p + 1 \<le> 128"
    and op: "eat_first OPERATORS (p\<lparr>ps_nodes := ps_nodes p + 1,
        ps_rest := dropWhile is_ascii_alphanumeric (ps_rest p)\<rparr>) = Some (operator, p2)"
    and vals: "compare_values operator p2 = Ok (vals, q)"
    and check: "compare_check field operator vals = Ok ()"
    and vals': "(if field = Field.PrincipalId then canonical_principals pu su vals else Ok vals) = Ok vals'"
    and e: "e = Compare field operator vals'"
    using assms unfolding parse_compare_def Let_def
    by (elim and_then_pairE and_then_InrE) (simp add: parser_node_Ok)
  have shorter: "length (dropWhile is_ascii_alphanumeric (ps_rest p)) \<le> length (ps_rest p)"
    by (rule length_dropWhile_le)
  from eat_first_Some [OF op] have known: "operator \<in> set OPERATORS" by simp
  have "length operator > 0" using operators_nonempty [OF known] by simp
  moreover from eat_budgets [OF conjunct2 [OF eat_first_Some [OF op]]] have "ps_nodes p2 = ps_nodes p + 1"
      "ps_set_items p2 = ps_set_items p" "length (dropWhile is_ascii_alphanumeric (ps_rest p)) =
        length operator + length (ps_rest p2)"
    by simp_all
  ultimately have p2: "operator \<in> set OPERATORS" "ps_nodes p2 = ps_nodes p + 1"
      "ps_set_items p2 = ps_set_items p" "length (ps_rest p2) < length (ps_rest p)"
    using known shorter by (cases operator; simp)+
  from vals' compare_values_Ok [OF vals]
  have canonical: "length vals' = length vals"
      "if field = Field.PrincipalId then list_all (\<lambda>w. \<exists>u. u \<noteq> uuid_nil \<and> w = su u) vals'
       else vals' = vals"
    using canonical_principals_Ok [of pu su vals vals'] by (auto split: if_splits)
  have "compare_ok su field operator vals'"
    using check [unfolded compare_check_Ok] compare_values_Ok [OF vals] p2(1) canonical
    by (auto simp: compare_ok_def field_boolean_def split: if_splits)
  with e node p2 compare_values_Ok [OF vals] canonical(1) show ?thesis
    by (auto simp: parsed_def)
qed

lemma parsed_trans:
  "parsed su p es q \<Longrightarrow> parsed su q fs r \<Longrightarrow> parsed su p (es @ fs) r"
  by (auto simp: parsed_def)

lemma parsed_eat:
  "parsed su p es q \<Longrightarrow> eat t q = Some r \<Longrightarrow> parsed su p es r \<and> length (ps_rest r) \<le> length (ps_rest q)"
  by (auto simp: parsed_def dest!: eat_budgets)

lemma eat_parsed:
  "eat t p = Some q \<Longrightarrow> parsed su q es r \<Longrightarrow> parsed su p es r"
  by (auto simp: parsed_def dest!: eat_budgets)

text \<open>The operand loop keeps the accounting of its operand parser.\<close>

lemma operands_parsed:
  assumes next_step: "\<And>p e q. next p = Ok (e, q) \<Longrightarrow> parsed su p [e] q"
  shows "operands next sep fuel items p = Ok (es, q) \<Longrightarrow>
    \<exists>fs. es = items @ fs \<and> fs \<noteq> [] \<and> parsed su p fs q"
proof (induction fuel arbitrary: items p)
  case (Suc fuel)
  then obtain e p1 where e: "next p = Ok (e, p1)"
    by (auto simp: and_then_Inr_iff)
  show ?case
  proof (cases "eat sep p1")
    case None
    with Suc.prems e next_step [OF e] show ?thesis by auto
  next
    case (Some p2)
    with Suc.prems e have "operands next sep fuel (items @ [e]) p2 = Ok (es, q)" by simp
    from Suc.IH [OF this] obtain fs where fs: "es = items @ [e] @ fs" "parsed su p2 fs q" by auto
    with parsed_eat [OF next_step [OF e] Some] parsed_trans [of su p "[e]" p2 fs q]
    show ?thesis by auto
  qed
qed simp

lemma expression_parsed:
  "expression pu su precedence depth p = Ok (e, q) \<Longrightarrow> parsed su p [e] q"
proof (induction pu su precedence depth p arbitrary: e q rule: expression.induct)
  case (1 pu su precedence depth p)
  note parse = "1.prems" [unfolded expression.simps [of pu su precedence depth p]]
  from parse have depth: "\<not> depth > 16" by (auto split: if_splits)
  show ?case
  proof (cases "precedence < 2")
    case True
    let ?sep = "if precedence = 0 then [0x2C] else [0x3B :: nat]"
    from parse depth True obtain first p1 where
      first: "expression pu su (precedence + 1) depth p = Ok (first, p1)"
      by (auto simp: and_then_Inr_iff)
    note ih = "1.IH"(1) [OF depth True first]
    show ?thesis
    proof (cases "eat ?sep p1")
      case None
      with parse depth True first ih show ?thesis by (simp add: Let_def)
    next
      case (Some p2)
      with parse depth True first obtain p3 es where
        node: "parser_node p2 = Ok p3"
        and loop: "operands (\<lambda>p. expression pu su (precedence + 1) depth p) ?sep
            (length (ps_rest p3) + 1) [first] p3 = Ok (es, q)"
        and e: "e = (if precedence = 0 then Or es else And es)"
        by (auto simp: and_then_Inr_iff Let_def)
      have "\<exists>fs. es = [first] @ fs \<and> fs \<noteq> [] \<and> parsed su p3 fs q"
        by (rule operands_parsed [OF _ loop]) (rule "1.IH"(2) [OF depth True refl Some])
      then obtain fs where fs: "es = first # fs" "fs \<noteq> []" "parsed su p3 fs q" by auto
      from parsed_eat [OF ih Some] node fs(3) show ?thesis
        using fs(1,2) e by (auto simp: parsed_def parser_node_Ok Suc_le_eq)
    qed
  next
    case False
    show ?thesis
    proof (cases "eat [0x28] p")
      case None
      with parse depth False parse_compare_Ok show ?thesis by (simp split: if_splits)
    next
      case (Some p1)
      with parse depth False obtain p2 where
        inner: "expression pu su 0 (depth + 1) p1 = Ok (e, p2)" and close: "eat [0x29] p2 = Some q"
        by (auto simp: and_then_Inr_iff split: option.splits)
      from parsed_eat [OF "1.IH"(3) [OF depth False Some inner] close] eat_parsed [OF Some]
      show ?thesis by blast
    qed
  qed
qed

subsection \<open>The fuel of the operand loop is enough\<close>

lemma operands_fuel:
  assumes shrink: "\<And>p e q. next p = Ok (e, q) \<Longrightarrow> length (ps_rest q) \<le> length (ps_rest p)"
    and sep: "sep \<noteq> []"
  shows "length (ps_rest p) < fuel \<Longrightarrow> length (ps_rest p) < fuel' \<Longrightarrow>
    operands next sep fuel items p = operands next sep fuel' items p"
proof (induction fuel arbitrary: fuel' items p)
  case (Suc fuel)
  then obtain fuel2 where fuel': "fuel' = Suc fuel2" by (cases fuel') auto
  have "operands next sep fuel (items @ [e]) p2 = operands next sep fuel2 (items @ [e]) p2"
    if e: "next p = Ok (e, p1)" and p2: "eat sep p1 = Some p2" for e p1 p2
  proof (rule Suc.IH)
    have "0 < length sep" using sep by simp
    with shrink [OF e] eat_budgets [OF p2] have "length (ps_rest p2) < length (ps_rest p)" by linarith
    with Suc.prems fuel' show "length (ps_rest p2) < fuel" "length (ps_rest p2) < fuel2" by auto
  qed
  then show ?case
    by (cases "next p") (auto simp: fuel' split: option.split)
qed simp

text \<open>The loops of the filter parser end by themselves. A loop over the operands of a separator
  eats one separator per round and no operand gives text back, so the rounds are fewer than the
  unread characters: any larger fuel gives the same result, on success and on error, at every
  precedence, nesting depth and parser state. (The set loop and the recursion over nesting are
  total without fuel, by the budgets of 64 values and 16 levels.)\<close>

theorem filter_loops_terminate:
  "operands (expression parse_uuid show_uuid precedence depth) (c # cs)
      (length (ps_rest p) + 1 + extra) items p =
    operands (expression parse_uuid show_uuid precedence depth) (c # cs)
      (length (ps_rest p) + 1) items p"
  by (rule operands_fuel) (auto dest!: expression_parsed simp: parsed_def)

subsection \<open>Accepted queries\<close>

lemma parse_filter_Ok:
  "parse_filter pu su raw = Ok e \<Longrightarrow> expr_ok su e \<and> expr_nodes e \<le> 128 \<and> expr_set_items e \<le> 256"
  by (auto simp: parse_filter_def and_then_Inr_iff parsed_def split: if_splits dest!: expression_parsed)

lemma Field_parse_Ok: "Field_parse name = Ok f \<Longrightarrow> Field_name f = name"
  by (auto simp: Field_parse_def find_Some_iff)

lemma Field_name_inject: "Field_name f = Field_name g \<longleftrightarrow> f = g"
  by (cases f; cases g) (simp_all add: lit_eq_iff)

lemma Field_parse_name: "Field_parse (Field_name f) = Ok f"
proof -
  have "f \<in> set all_fields" by (cases f) (simp_all add: all_fields_def)
  moreover have "find (\<lambda>g. Field_name g = Field_name f) xs = Some f" if "f \<in> set xs" for xs
    using that by (induction xs) (auto simp: Field_name_inject)
  ultimately show ?thesis by (simp add: Field_parse_def)
qed

lemma parse_fields_Ok: "parse_fields ns = Ok fs \<Longrightarrow> map Field_name fs = ns"
  by (induction ns arbitrary: fs) (auto simp: and_then_Inr_iff dest: Field_parse_Ok)

lemma names_Ok: "names raw = Ok ns \<Longrightarrow> distinct ns \<and> ns \<noteq> [] \<and> length ns \<le> 16"
  by (auto simp: names_def Let_def split: if_splits)

definition good_sort :: "Sort list \<Rightarrow> bool" where
  "good_sort ss \<longleftrightarrow> distinct (map so_field ss) \<and> list_all (\<lambda>s. field_sortable (so_field s)) ss"

lemma parse_sort_Ok:
  "parse_sort ns ss = Ok ts \<Longrightarrow> good_sort ss \<Longrightarrow> good_sort ts \<and> length ts = length ss + length ns"
proof (induction ns arbitrary: ss)
  case (Cons n ns)
  then obtain f d where "field_sortable f" "\<not> list_ex (\<lambda>s. so_field s = f) ss"
      "parse_sort ns (ss @ [\<lparr>so_field = f, so_descending = d\<rparr>]) = Ok ts"
    by (auto simp: and_then_Inr_iff split: if_splits)
  moreover from this have "good_sort (ss @ [\<lparr>so_field = f, so_descending = d\<rparr>])"
    using Cons.prems(2) by (auto simp: good_sort_def list_ex_iff)
  ultimately show ?case using Cons.IH by fastforce
qed simp

lemma AccountQuery_parse_Ok:
  assumes "AccountQuery_parse pu su f s fs src limit = Ok q"
  shows "1 \<le> aq_limit q \<and> aq_limit q \<le> 100"
    and "(case aq_source q of None \<Rightarrow> True
       | Some v \<Rightarrow> v = lit ''local'' \<or> (\<exists>u. u \<noteq> uuid_nil \<and> v = su u))"
    and "list_all field_output (aq_fields q) \<and> distinct (aq_fields q) \<and> aq_fields q \<noteq> []"
    and "good_sort (aq_sort q) \<and> Field.PrincipalId \<in> so_field ` set (aq_sort q) \<and> length (aq_sort q) \<le> 17"
    and "(case aq_filter q of None \<Rightarrow> f = None
       | Some e \<Rightarrow> expr_ok su e \<and> expr_nodes e \<le> 128 \<and> expr_set_items e \<le> 256)"
    and "needs_profiles q \<or> needs_departments q \<longrightarrow> aq_source q \<noteq> None"
    and "needs_departments q \<longrightarrow> aq_source q \<noteq> Some (lit ''local'')"
proof -
  let ?add = "\<lambda>ss. if list_ex (\<lambda>s. so_field s = Field.PrincipalId) ss then ss
      else ss @ [\<lparr>so_field = Field.PrincipalId, so_descending = False\<rparr>]"
  let ?q = "\<lambda>src' fs' ss e. \<lparr>aq_filter = e, aq_sort = ?add ss, aq_fields = fs', aq_source = src',
      aq_limit = limit\<rparr>"
  from assms obtain u src' fs' v ss e where
    limit: "ensure (1 \<le> limit \<and> limit \<le> 100) InvalidQuery = Ok u"
    and src: "(case src of None \<Rightarrow> Ok None | Some s \<Rightarrow> if s = lit ''local'' then Ok (Some s)
          else and_then (map_err (\<lambda>_. InvalidQuery) (ProviderId_parse pu s)) (\<lambda>i.
            Ok (Some (su (provider_uuid i))))) = Ok src'"
    and fs: "(case fs of None \<Rightarrow> Ok default_fields | Some raw \<Rightarrow> and_then (names raw) parse_fields) = Ok fs'"
    and out: "ensure (\<not> list_ex (\<lambda>f. \<not> field_output f) fs') InvalidQuery = Ok v"
    and ss: "(case s of None \<Rightarrow> Ok [] | Some raw \<Rightarrow> and_then (names raw) (\<lambda>ns. parse_sort ns [])) = Ok ss"
    and e: "(case f of None \<Rightarrow> Ok None
      | Some raw \<Rightarrow> and_then (parse_filter pu su raw) (\<lambda>e. Ok (Some e))) = Ok e"
    and final: "(if (needs_profiles (?q src' fs' ss e) \<or> needs_departments (?q src' fs' ss e))
          \<and> aq_source (?q src' fs' ss e) = None then Err InvalidQuery
        else if needs_departments (?q src' fs' ss e) \<and> aq_source (?q src' fs' ss e) = Some (lit ''local'')
        then Err InvalidQuery else Ok (?q src' fs' ss e)) = Ok q"
    unfolding AccountQuery_parse_def Let_def
    by (elim and_then_InrE) (rule that)
  define q' where "q' = ?q src' fs' ss e"
  from final [folded q'_def] have q': "q = q'"
      "needs_profiles q' \<or> needs_departments q' \<longrightarrow> aq_source q' \<noteq> None"
      "needs_departments q' \<longrightarrow> aq_source q' \<noteq> Some (lit ''local'')"
    by (simp_all split: if_split_asm del: not_None_eq) blast+
  then have q: "q = ?q src' fs' ss e"
      "needs_profiles q \<or> needs_departments q \<longrightarrow> aq_source q \<noteq> None"
      "needs_departments q \<longrightarrow> aq_source q \<noteq> Some (lit ''local'')"
    by (simp_all only: q'_def)
  from limit out have limit: "1 \<le> limit" "limit \<le> 100" and out: "\<not> list_ex (\<lambda>f. \<not> field_output f) fs'"
    by auto
  show "1 \<le> aq_limit q \<and> aq_limit q \<le> 100" using limit q by simp
  show "needs_profiles q \<or> needs_departments q \<longrightarrow> aq_source q \<noteq> None"
    "needs_departments q \<longrightarrow> aq_source q \<noteq> Some (lit ''local'')" using q by blast+
  show "case aq_source q of None \<Rightarrow> True | Some v \<Rightarrow> v = lit ''local'' \<or> (\<exists>u. u \<noteq> uuid_nil \<and> v = su u)"
    using src q(1) by (auto simp: ProviderId_parse_def and_then_Inr_iff split: option.splits if_splits)
  have "distinct fs' \<and> fs' \<noteq> []"
  proof (cases fs)
    case (Some raw)
    with fs obtain ns where "names raw = Ok ns" "parse_fields ns = Ok fs'"
      by (auto simp: and_then_Inr_iff)
    with names_Ok [of raw ns] parse_fields_Ok [of ns fs'] show ?thesis
      by (auto simp: distinct_map)
  qed (use fs in \<open>auto simp: default_fields_def\<close>)
  with out q(1) show "list_all field_output (aq_fields q) \<and> distinct (aq_fields q) \<and> aq_fields q \<noteq> []"
    by (auto simp: list_ex_iff list_all_iff)
  have "good_sort ss \<and> length ss \<le> 16"
    using ss names_Ok parse_sort_Ok [of _ "[]" ss]
    by (fastforce simp: and_then_Inr_iff good_sort_def split: option.splits)
  with q(1) show "good_sort (aq_sort q) \<and> Field.PrincipalId \<in> so_field ` set (aq_sort q)
      \<and> length (aq_sort q) \<le> 17"
    by (cases "list_ex (\<lambda>s. so_field s = Field.PrincipalId) ss")
      (auto simp: good_sort_def list_ex_iff field_sortable_def intro: rev_image_eqI [OF _ sym])
  show "case aq_filter q of None \<Rightarrow> f = None
      | Some e \<Rightarrow> expr_ok su e \<and> expr_nodes e \<le> 128 \<and> expr_set_items e \<le> 256"
    using e q(1) by (auto simp: and_then_Inr_iff dest!: parse_filter_Ok split: option.splits)
qed

text \<open>C39: An accepted directory query is safe to hand to the SQL builder. The page size is 1 to 100;
  the order is over distinct sortable columns and always contains the unique principal, so paging
  has a total order; every output field may be shown; profile and department columns occur in
  output, order or filter only with an explicit source, departments never with the local one. An
  accepted filter has at most 128 nodes and 256 set values in all, at most 64 per set; every
  connective has two operands or more; every comparison fits its field (booleans compare with
  true and false for equality only, department fields for equality only, null tests with true
  only, principals are canonical non-nil identifiers), and its operands have no control
  characters and at most 1024 bytes.\<close>

theorem directory_query_well_formed:
  assumes "AccountQuery_parse parse_uuid show_uuid f s fs src limit = Ok q"
  shows "1 \<le> aq_limit q \<and> aq_limit q \<le> 100
    \<and> distinct (map so_field (aq_sort q)) \<and> Field.PrincipalId \<in> so_field ` set (aq_sort q)
    \<and> list_all (\<lambda>s. field_sortable (so_field s)) (aq_sort q)
    \<and> list_all field_output (aq_fields q) \<and> distinct (aq_fields q)
    \<and> (needs_profiles q \<or> needs_departments q \<longrightarrow> aq_source q \<noteq> None)
    \<and> (needs_departments q \<longrightarrow> aq_source q \<noteq> Some (lit ''local''))
    \<and> (case aq_filter q of None \<Rightarrow> f = None
       | Some e \<Rightarrow> expr_ok show_uuid e \<and> expr_nodes e \<le> 128 \<and> expr_set_items e \<le> 256)"
  using AccountQuery_parse_Ok [OF assms] unfolding good_sort_def by blast

lemmas run_parser = parse_compare_def parser_node_def Field_parse_def all_fields_def OPERATORS_def
  eat_def strip_prefix_def lit_def compare_values_def parse_value_def compare_check_def
  set_operator_def field_sortable_def field_boolean_def is_ascii_alphanumeric_def
  is_ascii_digit_def is_control_def is_whitespace_def BARE_REFUSED_def ESCAPABLE_def utf8_width_def

definition sample_filter :: ustr where
  "sample_filter = lit ''login==a,enabled==true;(login==b,login==c)''"

text \<open>AND binds tighter than OR, parentheses group.\<close>

lemma sample_filter_parses:
  "parse_filter (\<lambda>_. None) show_uuid sample_filter =
    Ok (Or [Compare Field.Login (lit ''=='') [lit ''a''],
            And [Compare Field.Enabled (lit ''=='') [lit ''true''],
                 Or [Compare Field.Login (lit ''=='') [lit ''b''],
                     Compare Field.Login (lit ''=='') [lit ''c'']]]])"
  by (simp add: parse_filter_def sample_filter_def expression.simps run_parser)

lemma sample_query_parses:
  "\<exists>q. AccountQuery_parse (\<lambda>_. None) show_uuid (Some sample_filter) (Some (lit ''-login''))
      (Some (lit ''principalId,login'')) None 20 = Ok q \<and> aq_filter q \<noteq> None \<and> length (aq_sort q) = 2"
  by (simp add: AccountQuery_parse_def sample_filter_parses names_def needs_profiles_def
      needs_departments_def used_fields_def field_profile_def field_department_def field_output_def
      run_parser)

theorem directory_query_well_formed_witness:
  "\<exists>q. AccountQuery_parse (\<lambda>_. None) hyphenated (Some sample_filter) (Some (lit ''-login''))
      (Some (lit ''principalId,login'')) None 20 = Ok q
    \<and> distinct (map so_field (aq_sort q)) \<and> Field.PrincipalId \<in> so_field ` set (aq_sort q)"
  using sample_query_parses [of hyphenated] directory_query_well_formed by blast

end
