(* ===== verification/Sql.thy ===== *)
theory Sql
  imports Session_Store
begin

section \<open>Expressions and orders of SQL\<close>

text \<open>
  What the larger queries of the authority use of SQL: conditions that are true, false or null, the
  aggregates and \<open>LEAST\<close> over columns that may be null, outer joins, and \<open>ORDER BY\<close> with a
  position to go on from. The locale \<open>row_order\<close> is the contract of an order that a listing is paged
  by; the account directory interprets it.
\<close>

subsection \<open>Three truth values\<close>

type_synonym truth = "bool option"

fun sql_and :: "truth \<Rightarrow> truth \<Rightarrow> truth" where
  "sql_and (Some a) b = (if a then b else Some False)"
| "sql_and None b = (if b = Some False then Some False else None)"

fun sql_or :: "truth \<Rightarrow> truth \<Rightarrow> truth" where
  "sql_or (Some a) b = (if a then Some True else b)"
| "sql_or None b = (if b = Some True then Some True else None)"

definition sql_not :: "truth \<Rightarrow> truth" where "sql_not t = map_option Not t"

definition sql_all :: "truth list \<Rightarrow> truth" where "sql_all ts = foldr sql_and ts (Some True)"
definition sql_any :: "truth list \<Rightarrow> truth" where "sql_any ts = foldr sql_or ts (Some False)"

definition sql_rel :: "('a \<Rightarrow> 'a \<Rightarrow> bool) \<Rightarrow> 'a option \<Rightarrow> 'a option \<Rightarrow> truth" where
  "sql_rel r x y = (case (x, y) of (Some a, Some b) \<Rightarrow> Some (r a b) | _ \<Rightarrow> None)"

text \<open>A condition selects a row, and a branch of a \<open>CASE\<close>, only when it is true.\<close>

definition holds :: "truth \<Rightarrow> bool" where "holds t \<longleftrightarrow> t = Some True"

lemma holds_simps [simp]:
  "holds (Some b) = b"
  "holds None = False"
  "holds (sql_and s t) \<longleftrightarrow> holds s \<and> holds t"
  "holds (sql_or s t) \<longleftrightarrow> holds s \<or> holds t"
  "holds (sql_not t) \<longleftrightarrow> t = Some False"
  by (cases s; auto simp: holds_def sql_not_def)+

lemma holds_all [simp]: "holds (sql_all ts) \<longleftrightarrow> (\<forall>t\<in>set ts. holds t)"
  by (induction ts) (auto simp: sql_all_def)

lemma holds_any [simp]: "holds (sql_any ts) \<longleftrightarrow> (\<exists>t\<in>set ts. holds t)"
  by (induction ts) (auto simp: sql_any_def)

lemma holds_rel: "holds (sql_rel r x y) \<longleftrightarrow> (\<exists>a b. x = Some a \<and> y = Some b \<and> r a b)"
  by (cases x; cases y) (auto simp: sql_rel_def)

subsection \<open>Aggregates and joins\<close>

fun sql_min :: "int list \<Rightarrow> int option" where
  "sql_min [] = None"
| "sql_min (x # xs) = Some (foldr min xs x)"

text \<open>\<open>LEAST\<close> ignores nulls.\<close>

definition sql_least :: "int option list \<Rightarrow> int option" where
  "sql_least xs = sql_min (List.map_filter (\<lambda>x. x) xs)"

definition left_join :: "'r list \<Rightarrow> 'r option list" where
  "left_join t = (if t = [] then [None] else map Some t)"

lemma sql_min_le: "x \<in> set xs \<Longrightarrow> \<exists>m. sql_min xs = Some m \<and> m \<le> x"
proof (cases xs)
  case (Cons y ys)
  have "foldr min ys y \<le> z" if "z = y \<or> z \<in> set ys" for z
    using that by (induction ys) (auto simp: min_le_iff_disj)
  then show "x \<in> set xs \<Longrightarrow> ?thesis" by (auto simp: Cons)
qed simp

lemma sql_least_le: "Some x \<in> set xs \<Longrightarrow> \<exists>m. sql_least xs = Some m \<and> m \<le> x"
  unfolding sql_least_def by (rule sql_min_le) (force simp: List.map_filter_def)

lemma sql_least_min: "x \<in> set ys \<Longrightarrow> sql_min ys \<in> set xs \<Longrightarrow> \<exists>m. sql_least xs = Some m \<and> m \<le> x"
  using sql_min_le [of x ys] sql_least_le [of _ xs] by (metis order.trans)

subsection \<open>Ordered rows\<close>

fun place :: "('r \<Rightarrow> 'r \<Rightarrow> bool) \<Rightarrow> 'r \<Rightarrow> 'r list \<Rightarrow> 'r list" where
  "place before x [] = [x]"
| "place before x (y # ys) = (if before y x then y # place before x ys else x # y # ys)"

definition order_by :: "('r \<Rightarrow> 'r \<Rightarrow> bool) \<Rightarrow> 'r list \<Rightarrow> 'r list" where
  "order_by before t = foldr (place before) t []"

lemma set_place [simp]: "set (place before x ys) = insert x (set ys)"
  by (induction ys) auto

lemma set_order_by [simp]: "set (order_by before t) = set t"
  by (induction t) (simp_all add: order_by_def)

lemma length_place [simp]: "length (place before x ys) = Suc (length ys)"
  by (induction ys) auto

lemma length_order_by [simp]: "length (order_by before t) = length t"
  by (induction t) (simp_all add: order_by_def)

lemma order_by_simps [simp]: "order_by before [] = []" "order_by before (x # t) = place before x (order_by before t)"
  by (simp_all add: order_by_def)

text \<open>A strict order for every admissible list of sort fields \<open>s\<close>, total on rows with different
  keys. \<open>Rest s x\<close> is what comes after a row.\<close>

locale row_order =
  fixes before :: "'s \<Rightarrow> 'r \<Rightarrow> 'r \<Rightarrow> bool" and admissible :: "'s \<Rightarrow> bool" and row_key :: "'r \<Rightarrow> 'k"
  assumes before_irrefl: "\<not> before s x x"
    and before_trans: "before s x y \<Longrightarrow> before s y z \<Longrightarrow> before s x z"
    and before_total: "admissible s \<Longrightarrow> row_key x \<noteq> row_key y \<Longrightarrow> before s x y \<or> before s y x"
begin

lemma before_asym: "before s x y \<Longrightarrow> \<not> before s y x"
  using before_trans before_irrefl by blast

lemma place_sorted:
  assumes "admissible s" "sorted_wrt (before s) ys" "row_key x \<notin> row_key ` set ys"
  shows "sorted_wrt (before s) (place (before s) x ys)"
  using assms(2,3)
proof (induction ys)
  case (Cons y ys)
  show ?case
  proof (cases "before s y x")
    case False
    with before_total [OF assms(1), of x y] Cons.prems have "before s x y" by auto
    with Cons.prems before_trans show ?thesis by (auto simp: False)
  qed (use Cons in auto)
qed simp

lemma order_by_sorted:
  assumes "admissible s" "distinct (map row_key t)"
  shows "sorted_wrt (before s) (order_by (before s) t)"
  using assms(2) by (induction t) (auto intro!: place_sorted [OF assms(1)])

text \<open>Two sorted lists of the same rows are the same list.\<close>

lemma sorted_unique: "sorted_wrt (before s) xs \<Longrightarrow> sorted_wrt (before s) ys \<Longrightarrow> set xs = set ys \<Longrightarrow> xs = ys"
proof (induction xs arbitrary: ys)
  case (Cons x xs)
  then obtain y ys' where ys: "ys = y # ys'" by (cases ys) auto
  have "x = y"
  proof (rule ccontr)
    assume "x \<noteq> y"
    with Cons.prems ys have "before s x y" "before s y x" by auto
    then show False using before_asym by blast
  qed
  moreover have "x \<notin> set xs" "y \<notin> set ys'"
    using Cons.prems ys before_irrefl by (auto simp: Cons.prems)
  then have "set xs = set ys'" using Cons.prems(3) ys \<open>x = y\<close> by (auto dest: equalityD1 equalityD2)
  ultimately show ?case using Cons ys by auto
qed simp

lemma order_by_filter:
  assumes "admissible s" "distinct (map row_key t)"
  shows "order_by (before s) (filter P t) = filter P (order_by (before s) t)"
proof (rule sorted_unique)
  show "sorted_wrt (before s) (order_by (before s) (filter P t))"
    using assms by (intro order_by_sorted distinct_map_filter)
  show "sorted_wrt (before s) (filter P (order_by (before s) t))"
    using order_by_sorted [OF assms] by (rule sorted_wrt_filter)
qed auto

lemma sorted_distinct: "sorted_wrt (before s) t \<Longrightarrow> distinct t"
  by (induction t) (auto simp: before_irrefl)

text \<open>The rows after the row at a position are the rest of the list.\<close>

lemma rows_after:
  assumes "sorted_wrt (before s) t" "i < length t"
  shows "filter (before s (t ! i)) t = drop (Suc i) t"
  using assms
proof (induction t arbitrary: i)
  case (Cons x t)
  show ?case
  proof (cases i)
    case 0
    then show ?thesis using Cons.prems by (simp add: before_irrefl filter_id_conv)
  next
    case (Suc j)
    with Cons.prems have "before s x (t ! j)" by simp
    then have "\<not> before s (t ! j) x" by (rule before_asym)
    then show ?thesis using Cons Suc by simp
  qed
qed simp

text \<open>So a listing that goes on after the last row it has shown shows what follows.\<close>

lemma seek:
  assumes "admissible s" "distinct (map row_key t)" "i < length t"
  shows "order_by (before s) (filter (before s (order_by (before s) t ! i)) t) = drop (Suc i) (order_by (before s) t)"
  using assms by (simp add: order_by_filter rows_after order_by_sorted)

end

end
