(* ===== verification/Personnel.thy ===== *)
theory Personnel
  imports Sql Profile_Store
begin

section \<open>The personnel relation and session references (identity-postgres/src/personnel.rs, session_reference.rs)\<close>

text \<open>
  An embedded host reads people and sessions in one query of its own over two relations that the
  authority installs. Here are the relations as their SQL texts define them (\<^verbatim>\<open>personnel.sql\<close>,
  \<^verbatim>\<open>session_reference.sql\<close>), the window in which what they show cannot change by the passing of
  time, the reading operations, and the references by which a host keeps a session without its
  secret. The host's query is a parameter with \<open>callback_contract\<close>, which the read-only mode of the
  transaction enforces; \<open>personnel_revision\<close>, the counter that the triggers of the schema advance,
  is the parameter \<open>revision\<close>.
\<close>

datatype PersonnelProfileScope = NoProfiles | SelfOnly | All

record PersonnelRevision =
  pr_generation :: int
  pr_valid_until :: int
  pr_logins :: bool
  pr_profiles :: PersonnelProfileScope

record PersonnelWindow =
  pw_generation :: int
  pw_valid_until :: int
  pw_now :: int
  pw_expires :: instant

subsection \<open>The window\<close>

definition open_sessions :: "TenantId \<Rightarrow> db \<Rightarrow> session_row list" where
  "open_sessions tenant d = filter (\<lambda>r. se_tenant r = tenant \<and> se_revoked r = None) (d_sessions d)"

definition tenant_observations :: "TenantId \<Rightarrow> db \<Rightarrow> observation_row list" where
  "tenant_observations tenant d = filter (\<lambda>r. ob_tenant r = tenant) (d_observations d)"

definition after_now :: "int \<Rightarrow> int list \<Rightarrow> int option" where
  "after_now t xs = sql_min (filter (\<lambda>x. x > t) xs)"

text \<open>The two statements: the next moment after \<open>t\<close> at which a session or a profile expires.\<close>

definition next_boundary :: "TenantId \<Rightarrow> int option \<Rightarrow> int \<Rightarrow> db \<Rightarrow> int option" where
  "next_boundary tenant max_age t d =
    sql_least
      ([after_now t (map se_idle_expires (open_sessions tenant d)),
        after_now t (map se_absolute_expires (open_sessions tenant d))] @
       (case max_age of
          None \<Rightarrow> []
        | Some age \<Rightarrow>
            [after_now t (map ob_expires (tenant_observations tenant d)),
             map_option (\<lambda>x. x + age)
               (sql_min (filter (\<lambda>x. x > t - age) (map ob_observed (tenant_observations tenant d))))]))"

text \<open>\<^verbatim>\<open>department-expiry.sql\<close>: the latest observation of the source for every principal. The order
  of the sessions is newest first, a session without a number before all others.\<close>

definition facts_order :: "session_row \<Rightarrow> int list" where
  "facts_order r = (case se_facts_sequence r of None \<Rightarrow> [0, 0] | Some n \<Rightarrow> [1, - n])
     @ [- se_auth_epoch r, - se_membership_epoch r, uint (se_session r)]"

definition from_source :: "Libraries \<Rightarrow> TenantId \<Rightarrow> ustr \<Rightarrow> db \<Rightarrow> session_row \<Rightarrow> bool" where
  "from_source L tenant source d r \<longleftrightarrow> se_tenant r = tenant
    \<and> list_ex (\<lambda>e. ei_tenant e = tenant \<and> Some (ei_identity e) = se_identity r
        \<and> xl_show_uuid L (ei_provider e) = source) (d_identities d)"

definition latest_of_source :: "Libraries \<Rightarrow> TenantId \<Rightarrow> ustr \<Rightarrow> uuid \<Rightarrow> db \<Rightarrow> session_row option" where
  "latest_of_source L tenant source who d =
    (case sort_key facts_order
       (filter (\<lambda>r. from_source L tenant source d r \<and> se_principal r = who) (d_sessions d)) of
       [] \<Rightarrow> None | r # _ \<Rightarrow> Some r)"

definition department_times :: "session_row \<Rightarrow> int list" where
  "department_times r =
    (case map_option af_department_snapshot (se_facts r) of
       Some (DepartmentObservation.Available _ observed_at expires_at _) \<Rightarrow> [observed_at, expires_at]
     | _ \<Rightarrow> [])"

definition department_boundary :: "Libraries \<Rightarrow> TenantId \<Rightarrow> ustr \<Rightarrow> int \<Rightarrow> db \<Rightarrow> int option" where
  "department_boundary L tenant source t d =
    after_now t (concat (map department_times
      (List.map_filter (\<lambda>who. latest_of_source L tenant source who d)
        (remdups (map se_principal (filter (from_source L tenant source d) (d_sessions d)))))))"

definition or_max :: "int option \<Rightarrow> int" where
  "or_max v = (case v of None \<Rightarrow> i64_max | Some x \<Rightarrow> x)"

text \<open>\<open>match (next, until)\<close>: the smaller of the two, or the one there is.\<close>

definition earlier :: "int option \<Rightarrow> int option \<Rightarrow> int option" where
  "earlier a b = (case (a, b) of (Some x, Some y) \<Rightarrow> Some (min x y) | _ \<Rightarrow> if a = None then b else a)"

definition window_end :: "int option \<Rightarrow> int option \<Rightarrow> int \<Rightarrow> int" where
  "window_end next actor_until t = min (min (or_max next) (or_max actor_until)) (saturating_add t 60)"

definition window_deadline :: "int \<Rightarrow> instant \<Rightarrow> int \<Rightarrow> instant \<Rightarrow> PgError + instant" where
  "window_deadline valid_until started m expires =
    (let remaining = max 0 (saturating_sub (saturating_sub (clamp_i64 (valid_until * 1000000)) m) 1) in
     and_then (ok_or reject (instant_checked_add started (remaining * 1000))) (\<lambda>e. Ok (min expires e)))"

definition read_window ::
  "Libraries \<Rightarrow> (TenantId \<Rightarrow> db \<Rightarrow> int) \<Rightarrow> TenantId \<Rightarrow> int option \<Rightarrow> ustr option \<Rightarrow> instant \<Rightarrow> int option
    \<Rightarrow> (PgError, PersonnelWindow) tx" where
  "read_window L revision tenant max_age department_source expires actor_until =
    bind instant_now (\<lambda>started.
    bind clock_timestamp (\<lambda>m.
    bind (fetch_one (\<lambda>d. map_option (\<lambda>_. revision tenant d)
        (find (\<lambda>g. gd_tenant g = tenant) (d_guard d)))) (\<lambda>generation.
    let t = m div 1000000 in
    bind (query (next_boundary tenant max_age t)) (\<lambda>next.
    bind (case department_source of
        None \<Rightarrow> ret next
      | Some source \<Rightarrow> bind (query (department_boundary L tenant source t)) (\<lambda>until. ret (earlier next until))) (\<lambda>next.
    let valid_until = window_end next actor_until t in
    bind (lift (window_deadline valid_until started m expires)) (\<lambda>e.
    ret \<lparr>pw_generation = generation, pw_valid_until = valid_until, pw_now = t, pw_expires = e\<rparr>))))))"

subsection \<open>The personnel relation\<close>

record PersonnelRow =
  pn_tenant :: TenantId
  pn_principal :: uuid
  pn_active :: bool
  pn_login :: "ustr option"
  pn_source :: "ProfileSource option"
  pn_status :: ustr
  pn_display_name :: "ustr option"
  pn_username :: "ustr option"
  pn_expires_at :: "int option"

definition observation_end :: "int \<Rightarrow> observation_row \<Rightarrow> int" where
  "observation_end max_age r = min (ob_expires r) (ob_observed r + max_age)"

text \<open>The provider that an observation names, joined by its tenant and its identifier.\<close>

definition providers_of :: "db \<Rightarrow> observation_row option \<Rightarrow> provider_row list" where
  "providers_of d v =
    (case v of None \<Rightarrow> []
     | Some r \<Rightarrow> filter (\<lambda>p. pv_tenant p = ob_tenant r \<and> ob_source r = ProfileSource.Idp (ProviderId (pv_provider p)))
         (d_providers d))"

definition linked_to :: "db \<Rightarrow> observation_row \<Rightarrow> bool" where
  "linked_to d r \<longleftrightarrow> list_ex (\<lambda>e. ei_tenant e = ob_tenant r \<and> ei_principal e = ob_principal r
     \<and> ob_source r = ProfileSource.Idp (ProviderId (ei_provider e))) (d_identities d)"

text \<open>\<open>p.enabled AND p.config_version = ... AND p.revocation_epoch = ... AND EXISTS(...)\<close>\<close>

definition source_live :: "db \<Rightarrow> observation_row option \<Rightarrow> provider_row option \<Rightarrow> truth" where
  "source_live d v p =
    (case v of None \<Rightarrow> Some False
     | Some r \<Rightarrow>
         sql_and (map_option pv_enabled p)
        (sql_and (sql_rel (=) (map_option pv_version p) (ob_config_version r))
        (sql_and (sql_rel (=) (map_option pv_epoch p) (ob_source_epoch r))
          (Some (linked_to d r)))))"

definition is_foreign :: "observation_row option \<Rightarrow> truth" where
  "is_foreign v = map_option (\<lambda>r. ob_source r \<noteq> ProfileSource.IdentityLocal) v"

definition personnel_status ::
  "db \<Rightarrow> bool \<Rightarrow> bool \<Rightarrow> int \<Rightarrow> int \<Rightarrow> observation_row option \<Rightarrow> provider_row option \<Rightarrow> ustr" where
  "personnel_status d active_now shown max_age t v p =
    (if holds (sql_or (Some (\<not> active_now)) (sql_or (Some (\<not> shown))
          (sql_and (is_foreign v) (sql_not (source_live d v p)))))
     then lit ''unavailable''
     else case v of
       None \<Rightarrow> lit ''missing''
     | Some r \<Rightarrow> if observation_end max_age r \<le> t then lit ''expired'' else lit ''available'')"

definition personnel_attribute ::
  "(Profile \<Rightarrow> ustr Attribute) \<Rightarrow> db \<Rightarrow> bool \<Rightarrow> bool \<Rightarrow> int \<Rightarrow> int \<Rightarrow> observation_row option
    \<Rightarrow> provider_row option \<Rightarrow> ustr option" where
  "personnel_attribute attribute d active_now shown max_age t v p =
    (case v of None \<Rightarrow> None
     | Some r \<Rightarrow>
         if active_now \<and> shown \<and> observation_end max_age r > t
            \<and> holds (sql_or (Some (ob_source r = ProfileSource.IdentityLocal)) (source_live d v p))
         then attribute_value (attribute (ob_value r)) else None)"

text \<open>What is substituted into the text of the relation.\<close>

record PersonnelScope =
  ns_tenant :: TenantId
  ns_logins :: bool
  ns_profiles :: PersonnelProfileScope
  ns_self :: uuid
  ns_max_age :: int
  ns_now :: int

fun shows_profile :: "PersonnelProfileScope \<Rightarrow> uuid \<Rightarrow> uuid \<Rightarrow> bool" where
  "shows_profile All self who \<longleftrightarrow> True"
| "shows_profile SelfOnly self who \<longleftrightarrow> who = self"
| "shows_profile NoProfiles self who \<longleftrightarrow> False"

definition personnel_row ::
  "PersonnelScope \<Rightarrow> db \<Rightarrow> account_row \<Rightarrow> membership_row \<Rightarrow> local_credential_row option
    \<Rightarrow> observation_row option \<Rightarrow> provider_row option \<Rightarrow> PersonnelRow" where
  "personnel_row s d a m l v p =
    (let active_now = ac_enabled a \<and> mb_active m;
         shown = shows_profile (ns_profiles s) (ns_self s) (ac_principal a) in
     \<lparr>pn_tenant = ac_tenant a, pn_principal = ac_principal a, pn_active = active_now,
      pn_login = (if ns_logins s \<and> active_now then map_option lc_login l else None),
      pn_source = map_option ob_source v,
      pn_status = personnel_status d active_now shown (ns_max_age s) (ns_now s) v p,
      pn_display_name = personnel_attribute pr_display_name d active_now shown (ns_max_age s) (ns_now s) v p,
      pn_username = personnel_attribute pr_username d active_now shown (ns_max_age s) (ns_now s) v p,
      pn_expires_at = (if shown then map_option (observation_end (ns_max_age s)) v else None)\<rparr>)"

text \<open>The joins: of an account with its membership, and with what there may be besides.\<close>

definition memberships_of :: "db \<Rightarrow> account_row \<Rightarrow> membership_row list" where
  "memberships_of d a = filter (\<lambda>m. mb_tenant m = ac_tenant a \<and> mb_principal m = ac_principal a) (d_memberships d)"

definition credentials_of :: "db \<Rightarrow> account_row \<Rightarrow> local_credential_row option list" where
  "credentials_of d a =
    left_join (filter (\<lambda>l. lc_tenant l = ac_tenant a \<and> lc_principal l = ac_principal a) (d_credentials d))"

definition observations_of :: "db \<Rightarrow> account_row \<Rightarrow> bool \<Rightarrow> observation_row option list" where
  "observations_of d a shown =
    left_join (filter (\<lambda>r. ob_tenant r = ac_tenant a \<and> ob_principal r = ac_principal a \<and> shown) (d_observations d))"

definition personnel_relation :: "PersonnelScope \<Rightarrow> db \<Rightarrow> PersonnelRow list" where
  "personnel_relation s d =
    [personnel_row s d a m l v p.
       a \<leftarrow> filter (\<lambda>a. ac_tenant a = ns_tenant s) (d_accounts d),
       m \<leftarrow> memberships_of d a,
       l \<leftarrow> credentials_of d a,
       v \<leftarrow> observations_of d a (shows_profile (ns_profiles s) (ns_self s) (ac_principal a)),
       p \<leftarrow> left_join (providers_of d v)]"

subsection \<open>Session references\<close>

text \<open>The locator a host keeps of a session: neither its secret nor the digest of it.\<close>

record SessionReference =
  sx_instance :: uuid
  sx_tenant :: TenantId
  sx_principal :: uuid
  sx_session :: uuid
  sx_kind :: CredentialKind

definition reference :: "AuthenticatedSession \<Rightarrow> SessionReference op" where
  "reference actor =
    op_bind (check_live actor) (\<lambda>_.
    op_ret \<lparr>sx_instance = px_authority actor, sx_tenant = ak_tenant (px_key actor),
      sx_principal = key_uuid (px_key actor), sx_session = session_uuid (sv_id (px_view actor)),
      sx_kind = sv_kind (px_view actor)\<rparr>)"

record RevalidatedSession =
  rs_reference :: SessionReference
  rs_identity :: SessionIdentity
  rs_view :: SessionView
  rs_expires :: instant
  rs_assurance :: Assurance
  rs_groups :: GroupFacts
  rs_department :: DepartmentFacts

definition revalidated_live :: "RevalidatedSession \<Rightarrow> unit op" where
  "revalidated_live s = op_bind op_instant (\<lambda>t. op_require (\<not> t \<ge> rs_expires s) AuthorityError.Rejected)"

definition revalidated_account :: "RevalidatedSession \<Rightarrow> AccountKey" where
  "revalidated_account s =
    \<lparr>ak_tenant = sx_tenant (rs_reference s), ak_principal = PrincipalId (sx_principal (rs_reference s))\<rparr>"

definition revalidated_assurance :: "RevalidatedSession \<Rightarrow> Assurance op" where
  "revalidated_assurance s = op_bind (revalidated_live s) (\<lambda>_. op_ret (rs_assurance s))"

definition recheck_reference_body ::
  "Authority \<Rightarrow> TenantId \<Rightarrow> SessionReference \<Rightarrow> instant \<Rightarrow> (PgError, RevalidatedSession) tx" where
  "recheck_reference_body a tenant held budget =
    (let key = \<lparr>ak_tenant = tenant, ak_principal = PrincipalId (sx_principal held)\<rparr>;
         session = SessionId (sx_session held) in
     bind (lock_guard tenant) (\<lambda>_.
     bind authority_id (\<lambda>authority.
     bind (require (\<not> authority \<noteq> sx_instance held) reject) (\<lambda>_.
     bind (by_id (au_libs a) key session (au_checks a)) (\<lambda>loaded.
     bind (require (\<not> sv_kind (ld_view loaded) \<noteq> sx_kind held) reject) (\<lambda>_.
     bind (checked_expiry loaded budget) (\<lambda>expires.
     ret \<lparr>rs_reference = held, rs_identity = SessionIdentity_from_state (ld_state loaded),
       rs_view = ld_view loaded, rs_expires = expires, rs_assurance = ld_assurance loaded,
       rs_groups = ld_groups loaded, rs_department = ld_department loaded\<rparr>)))))))"

definition recheck_session_reference ::
  "Authority \<Rightarrow> TenantId \<Rightarrow> SessionReference \<Rightarrow> int \<Rightarrow> RevalidatedSession op" where
  "recheck_session_reference a tenant held deadline =
    op_bind (op_lift (require_runtime a)) (\<lambda>_.
    op_bind (op_require (\<not> (sx_instance held \<noteq> instance_uuid (au_instance a) \<or> sx_tenant held \<noteq> tenant
        \<or> sx_principal held = uuid_nil \<or> sx_session held = uuid_nil)) AuthorityError.Rejected) (\<lambda>_.
    op_bind (Budget_new deadline) (\<lambda>budget.
    op_bind (Budget_remaining budget) (\<lambda>timeout.
    read (au_bundle a) tenant timeout (recheck_reference_body a tenant held budget)))))"

text \<open>The relation \<^verbatim>\<open>identity_session_references\<close>; \<open>platform\<close> is the audience of the host's verifier.\<close>

record SessionReferenceRow =
  sy_instance :: InstanceId
  sy_tenant :: TenantId
  sy_principal :: uuid
  sy_session :: uuid
  sy_kind :: ustr
  sy_source :: ustr
  sy_requires_platform_check :: bool
  sy_platform_binding_id :: "uuid option"
  sy_platform_binding_epoch :: "int option"
  sy_platform_source_id :: "uuid option"
  sy_platform_source_version :: "int option"

definition reference_row :: "InstanceId \<Rightarrow> session_row \<Rightarrow> SessionReferenceRow" where
  "reference_row i r =
    (let platform = se_source r = lit ''platform'';
         binding = (if platform then map_option pa_binding (se_platform r) else None) in
     \<lparr>sy_instance = i, sy_tenant = se_tenant r, sy_principal = se_principal r, sy_session = se_session r,
      sy_kind = se_kind r, sy_source = se_source r, sy_requires_platform_check = platform,
      sy_platform_binding_id = map_option pb_binding_id binding,
      sy_platform_binding_epoch = map_option pb_binding_epoch binding,
      sy_platform_source_id = map_option pb_source_id binding,
      sy_platform_source_version = map_option pb_source_version binding\<rparr>)"

definition linked_live :: "db \<Rightarrow> session_row \<Rightarrow> uuid \<Rightarrow> (uuid \<Rightarrow> bool) \<Rightarrow> int \<Rightarrow> int \<Rightarrow> bool" where
  "linked_live d r i of_provider version epoch \<longleftrightarrow>
    list_ex (\<lambda>e. ei_tenant e = se_tenant r \<and> ei_principal e = se_principal r \<and> ei_identity e = i
      \<and> of_provider (ei_provider e) \<and> live_provider (se_tenant r) (ei_provider e) version epoch d) (d_identities d)"

definition oidc_reference :: "db \<Rightarrow> session_row \<Rightarrow> bool" where
  "oidc_reference d r \<longleftrightarrow>
    (case (se_identity r, se_provider_epoch r, se_facts r) of
       (Some i, Some epoch, Some facts) \<Rightarrow> linked_live d r i (\<lambda>_. True) (af_provider_config_version facts) epoch
     | _ \<Rightarrow> False)"

definition platform_reference :: "InstanceId \<Rightarrow> ustr option \<Rightarrow> db \<Rightarrow> session_row \<Rightarrow> bool" where
  "platform_reference i platform d r \<longleftrightarrow>
    (case (platform, se_platform r) of
       (Some audience, Some p) \<Rightarrow>
         pa_audience p = audience \<and> pb_instance (pa_binding p) = i
         \<and> pb_account (pa_binding p) = \<lparr>ak_tenant = se_tenant r, ak_principal = PrincipalId (se_principal r)\<rparr>
         \<and> (case pb_external_identity (pa_binding p) of None \<Rightarrow> True
            | Some x \<Rightarrow> linked_live d r (eb_identity_id x) (\<lambda>u. u = provider_uuid (eb_provider x))
                (eb_config_version x) (eb_revocation_epoch x))
     | _ \<Rightarrow> False)"

definition reference_shown ::
  "InstanceId \<Rightarrow> ustr option \<Rightarrow> int \<Rightarrow> db \<Rightarrow> session_row \<Rightarrow> account_row \<Rightarrow> membership_row \<Rightarrow> bool" where
  "reference_shown i platform t d r a m \<longleftrightarrow>
    ac_enabled a \<and> mb_active m \<and> se_auth_epoch r = ac_epoch a \<and> se_membership_epoch r = mb_epoch m
    \<and> se_revoked r = None \<and> se_idle_expires r > t \<and> se_absolute_expires r > t
    \<and> (se_source r = lit ''local_password''
       \<or> se_source r = lit ''oidc'' \<and> oidc_reference d r
       \<or> se_source r = lit ''platform'' \<and> platform_reference i platform d r)"

definition session_relation ::
  "InstanceId \<Rightarrow> TenantId \<Rightarrow> int \<Rightarrow> ustr option \<Rightarrow> db \<Rightarrow> SessionReferenceRow list" where
  "session_relation i tenant t platform d =
    [reference_row i r.
       r \<leftarrow> filter (\<lambda>r. se_tenant r = tenant) (d_sessions d),
       a \<leftarrow> filter (\<lambda>a. ac_tenant a = se_tenant r \<and> ac_principal a = se_principal r) (d_accounts d),
       m \<leftarrow> filter (\<lambda>m. reference_shown i platform t d r a m) (memberships_of d a)]"

subsection \<open>Reading operations\<close>

text \<open>
  What the host's callback gets. Without the personnel relation it is the trusted entry for session
  references. A host query gives the rows the driver delivers and whether it then fails.
\<close>

record PersonnelRead =
  pe_personnel :: "PersonnelScope option"
  pe_sessions :: "db \<Rightarrow> SessionReferenceRow list"
  pe_expires :: instant
  pe_revision :: PersonnelRevision

definition PersonnelRead_live :: "PersonnelRead \<Rightarrow> unit op" where
  "PersonnelRead_live p = op_bind op_instant (\<lambda>t. op_require (\<not> t \<ge> pe_expires p) AuthorityError.Rejected)"

definition PersonnelRead_revision :: "PersonnelRead \<Rightarrow> PersonnelRevision op" where
  "PersonnelRead_revision p = op_bind (PersonnelRead_live p) (\<lambda>_. op_ret (pe_revision p))"

type_synonym 'r host_select =
  "PersonnelRow list option \<Rightarrow> SessionReferenceRow list \<Rightarrow> 'r list \<times> bool"

definition installed :: "PersonnelRead \<Rightarrow> db \<Rightarrow> PersonnelRow list option \<times> SessionReferenceRow list" where
  "installed p d = (map_option (\<lambda>s. personnel_relation s d) (pe_personnel p), pe_sessions p d)"

definition PersonnelRead_query :: "PersonnelRead \<Rightarrow> 'r host_select \<Rightarrow> nat \<Rightarrow> 'r list op" where
  "PersonnelRead_query p select max_rows =
    op_bind (PersonnelRead_live p) (\<lambda>_.
    op_bind (op_require (1 \<le> max_rows \<and> max_rows \<le> 1001) AuthorityError.Configuration) (\<lambda>_.
    op_bind (\<lambda>w. (case installed p (w_db w) of (people, sessions) \<Rightarrow> Ok (select people sessions), w)) (\<lambda>(rows, failed).
    let delivered = take (max_rows + 1) rows in
    op_bind (op_require (length delivered \<le> max_rows) AuthorityError.Rejected) (\<lambda>_.
    op_bind (op_require (\<not> failed) AuthorityError.Unavailable) (\<lambda>_.
    op_bind (PersonnelRead_live p) (\<lambda>_.
    op_ret delivered))))))"

definition callback_contract :: "(PersonnelRead \<Rightarrow> 'a op) \<Rightarrow> bool" where
  "callback_contract callback \<longleftrightarrow> (\<forall>p w. w_db (snd (callback p w)) = w_db w)"

text \<open>
  The end of both reading operations: the callback runs, a late end is a refusal, and an error of
  the callback is captured beside the refusal that ends the transaction.
\<close>

definition run_callback :: "'a op \<Rightarrow> instant \<Rightarrow> (MutationError \<times> AuthorityError option, 'a) tx" where
  "run_callback callback expires w =
    (case callback w of (r, w1) \<Rightarrow>
      bind instant_now (\<lambda>t.
      bind (require (\<not> t \<ge> expires) (Storage reject, None)) (\<lambda>_.
      lift (map_err (\<lambda>e. (Storage reject, Some e)) r))) w1)"

definition uncaptured :: "('e \<Rightarrow> MutationError) \<Rightarrow> 'e \<Rightarrow> MutationError \<times> AuthorityError option" where
  "uncaptured f e = (f e, None)"

definition captured ::
  "RuntimeBundle \<Rightarrow> TenantId \<Rightarrow> int \<Rightarrow> (MutationError \<times> AuthorityError option, 'a) tx \<Rightarrow> world \<Rightarrow> AuthorityError option" where
  "captured b tenant timeout body w =
    (if tenant \<notin> set (bu_tenants b) \<or> timeout = 0 \<or> rt_start (bu_runtime b) w \<noteq> None
        \<or> d_authority (w_db w) \<noteq> instance_uuid (bu_instance b) then None
     else case body w of Inl (_, e) \<Rightarrow> e | Inr _ \<Rightarrow> None)"

definition read_with_callback ::
  "RuntimeBundle \<Rightarrow> TenantId \<Rightarrow> int \<Rightarrow> (MutationError \<times> AuthorityError option, 'a) tx \<Rightarrow> 'a op" where
  "read_with_callback b tenant timeout body w =
    (case read_sql b tenant timeout (widen fst body) w of (r, w') \<Rightarrow>
      ((if r = Err AuthorityError.Rejected
        then Err (case captured b tenant timeout body w of None \<Rightarrow> AuthorityError.Rejected | Some e \<Rightarrow> e)
        else r), w'))"

text \<open>\<open>permission\<close>: a refusal of the policy is an answer; the clocks have gone on meanwhile.\<close>

definition permission :: "Runtime \<Rightarrow> (AccountRuleError, unit) tx \<Rightarrow> (MutationError, bool) tx" where
  "permission rt m w =
    (case m w of
       Inr (_, w') \<Rightarrow> Ok (True, w')
     | Inl InsufficientPrivilege \<Rightarrow> Ok (False, resumed rt w)
     | Inl e \<Rightarrow> Err (Rule e))"

definition actor_end :: "Loaded \<Rightarrow> int" where
  "actor_end loaded = min (sv_idle_expires_at (ld_view loaded)) (sv_absolute_expires_at (ld_view loaded))"

definition personnel_permissions ::
  "Authority \<Rightarrow> Loaded \<Rightarrow> AccountKey \<Rightarrow> (MutationError, bool \<times> PersonnelProfileScope) tx" where
  "personnel_permissions a loaded self =
    (let rt = bu_runtime (au_bundle a);
         ask = (\<lambda>operation target. permission rt (authorize (au_policy a) (au_instance a) loaded operation target)) in
     bind (ask ListAccounts None) (\<lambda>login.
     bind (ask ReadLatestProfile None) (\<lambda>every.
     bind (if every then ret True else ask ReadLatestProfile (Some self)) (\<lambda>own.
     ret (login, if every then All else if own then SelfOnly else NoProfiles)))))"

definition platform_audience :: "Authority \<Rightarrow> ustr option" where
  "platform_audience a = map_option vf_audience (sc_platform (au_checks a))"

definition personnel_read ::
  "Authority \<Rightarrow> Reader \<Rightarrow> PersonnelWindow \<Rightarrow> bool \<times> PersonnelProfileScope \<Rightarrow> PersonnelRead" where
  "personnel_read a reader window allowed =
    (let tenant = ak_tenant (rd_key reader) in
     \<lparr>pe_personnel = Some \<lparr>ns_tenant = tenant, ns_logins = fst allowed, ns_profiles = snd allowed,
        ns_self = key_uuid (rd_key reader), ns_max_age = int (pl_max_age (au_limits a)), ns_now = pw_now window\<rparr>,
      pe_sessions = session_relation (au_instance a) tenant (pw_now window) (platform_audience a),
      pe_expires = pw_expires window,
      pe_revision = \<lparr>pr_generation = pw_generation window, pr_valid_until = pw_valid_until window,
        pr_logins = fst allowed, pr_profiles = snd allowed\<rparr>\<rparr>)"

definition personnel_body ::
  "Authority \<Rightarrow> (TenantId \<Rightarrow> db \<Rightarrow> int) \<Rightarrow> Reader \<Rightarrow> instant \<Rightarrow> (PersonnelRead \<Rightarrow> 'a op)
    \<Rightarrow> (MutationError \<times> AuthorityError option, 'a) tx" where
  "personnel_body a revision reader budget callback =
    bind (widen (uncaptured Storage) (Reader_recheck (au_libs a) reader)) (\<lambda>loaded.
    bind (widen (uncaptured Storage) (checked_expiry loaded (min budget (rd_expires reader)))) (\<lambda>expires.
    bind (widen (uncaptured (\<lambda>e. e)) (personnel_permissions a loaded (rd_key reader))) (\<lambda>allowed.
    bind (widen (uncaptured Storage) (read_window (au_libs a) revision (ak_tenant (rd_key reader))
        (Some (int (pl_max_age (au_limits a)))) None expires (Some (actor_end loaded)))) (\<lambda>window.
    run_callback (callback (personnel_read a reader window allowed)) (pw_expires window)))))"

definition with_personnel_read ::
  "Authority \<Rightarrow> (TenantId \<Rightarrow> db \<Rightarrow> int) \<Rightarrow> AuthenticatedSession \<Rightarrow> int \<Rightarrow> (PersonnelRead \<Rightarrow> 'a op) \<Rightarrow> 'a op" where
  "with_personnel_read a revision actor deadline callback =
    op_bind (op_lift (require_runtime a)) (\<lambda>_.
    op_bind (Reader_new actor) (\<lambda>reader.
    op_bind (Budget_new deadline) (\<lambda>budget.
    op_bind (Budget_remaining budget) (\<lambda>timeout.
    read_with_callback (au_bundle a) (ak_tenant (rd_key reader)) timeout
      (personnel_body a revision reader budget callback)))))"

definition references_read :: "Authority \<Rightarrow> TenantId \<Rightarrow> PersonnelWindow \<Rightarrow> PersonnelRead" where
  "references_read a tenant window =
    \<lparr>pe_personnel = None,
     pe_sessions = session_relation (au_instance a) tenant (pw_now window) (platform_audience a),
     pe_expires = pw_expires window,
     pe_revision = \<lparr>pr_generation = pw_generation window, pr_valid_until = pw_valid_until window,
       pr_logins = False, pr_profiles = NoProfiles\<rparr>\<rparr>"

definition references_body ::
  "Authority \<Rightarrow> (TenantId \<Rightarrow> db \<Rightarrow> int) \<Rightarrow> TenantId \<Rightarrow> instant \<Rightarrow> (PersonnelRead \<Rightarrow> 'a op)
    \<Rightarrow> (MutationError \<times> AuthorityError option, 'a) tx" where
  "references_body a revision tenant budget callback =
    bind (widen (uncaptured Storage) (lock_guard tenant)) (\<lambda>_.
    bind (widen (uncaptured Storage) (read_window (au_libs a) revision tenant None None budget None)) (\<lambda>window.
    run_callback (callback (references_read a tenant window)) (pw_expires window)))"

definition with_session_references_read ::
  "Authority \<Rightarrow> (TenantId \<Rightarrow> db \<Rightarrow> int) \<Rightarrow> TenantId \<Rightarrow> int \<Rightarrow> (PersonnelRead \<Rightarrow> 'a op) \<Rightarrow> 'a op" where
  "with_session_references_read a revision tenant deadline callback =
    op_bind (op_lift (require_runtime a)) (\<lambda>_.
    op_bind (Budget_new deadline) (\<lambda>budget.
    op_bind (Budget_remaining budget) (\<lambda>timeout.
    read_with_callback (au_bundle a) tenant timeout (references_body a revision tenant budget callback))))"

end
