(* ===== verification/Account_Listing.thy ===== *)
theory Account_Listing
  imports Directory Personnel Operations Profiles
begin

section \<open>The account directory (identity-postgres/src/account_directory.rs, account-directory.sql)\<close>

text \<open>
  A directory query is turned into one SQL statement over the relation \<^verbatim>\<open>account_rows\<close>: its filter,
  its order, and the position after which a page goes on. The relation is that of
  \<^verbatim>\<open>account-directory.sql\<close>; a column of a row is the JSON value that \<open>to_jsonb\<close> makes of it, which is
  also what a cursor keeps. The text of a cursor is authenticated with the key of the deployment
  and bound to the session, the query and the generation of the data. \<open>lower\<close>, the JSON texts
  and the columns that the schema's triggers maintain are parameters.
\<close>

record AccountDirectoryRow =
  ay_principal_id :: ustr
  ay_login :: "ustr option"
  ay_enabled :: bool
  ay_member_active :: bool
  ay_has_local_password :: bool
  ay_display_name :: "ustr option"
  ay_email :: "ustr option"
  ay_profile_status :: ustr
  ay_department_status :: ustr
  ay_department_snapshot :: "DepartmentSnapshot option"

record AccountPage =
  ag_accounts :: "AccountDirectoryRow list"
  ag_fields :: "Field list"
  ag_next_cursor :: "ustr option"

record Cursor =
  cu_binding :: "byte list"
  cu_expires :: int
  cu_position :: "Value list"

record CursorBinding =
  cb_instance :: InstanceId
  cb_tenant :: TenantId
  cb_principal :: uuid
  cb_session :: SessionId
  cb_generation :: int
  cb_query :: AccountQuery

text \<open>The host's side: \<open>lower\<close> of the database's locale, the JSON of cursors and bindings, the key
  and the generation that the database keeps.\<close>

record DirectoryLibrary =
  dl_lower :: "ustr \<Rightarrow> ustr"
  dl_cursor_json :: "Cursor \<Rightarrow> byte list"
  dl_cursor_parse :: "byte list \<Rightarrow> Cursor option"
  dl_binding_json :: "CursorBinding \<Rightarrow> byte list"
  dl_cursor_key :: "byte list"
  dl_revision :: "TenantId \<Rightarrow> db \<Rightarrow> int"

subsection \<open>The relation\<close>

fun department_reason :: "DepartmentUnavailableReason \<Rightarrow> ustr" where
  "department_reason DepartmentUnavailableReason.LocalIdentity = lit ''local_identity''"
| "department_reason DepartmentUnavailableReason.NotConfigured = lit ''not_configured''"
| "department_reason DepartmentUnavailableReason.ClaimMissing = lit ''claim_missing''"
| "department_reason InvalidClaim = lit ''invalid_claim''"
| "department_reason DepartmentUnavailableReason.NotYetValid = lit ''not_yet_valid''"

record DirectoryScope =
  dq_tenant :: TenantId
  dq_source :: "ustr option"
  dq_now :: int
  dq_profiles :: bool
  dq_departments :: bool
  dq_max_age :: int

definition directory_profile_status ::
  "DirectoryScope \<Rightarrow> db \<Rightarrow> bool \<Rightarrow> observation_row option \<Rightarrow> provider_row option \<Rightarrow> ustr" where
  "directory_profile_status q d active_now v p =
    (if \<not> dq_profiles q \<or> \<not> active_now then lit ''unavailable''
     else case v of
       None \<Rightarrow> lit ''missing''
     | Some r \<Rightarrow>
         if holds (is_foreign v) \<and> \<not> holds (source_live d v p) \<or> ob_observed r > dq_now q
         then lit ''unavailable''
         else if observation_end (dq_max_age q) r \<le> dq_now q then lit ''expired''
         else lit ''available'')"

text \<open>The provider, the account and the membership are still those of the latest session's facts.\<close>

definition department_live ::
  "account_row \<Rightarrow> membership_row \<Rightarrow> session_row \<Rightarrow> provider_row option \<Rightarrow> truth" where
  "department_live a m s p =
    sql_and (map_option pv_enabled p)
   (sql_and (sql_rel (=) (map_option pv_version p) (map_option af_provider_config_version (se_facts s)))
   (sql_and (sql_rel (=) (map_option pv_epoch p) (se_provider_epoch s))
     (Some (se_auth_epoch s = ac_epoch a \<and> se_membership_epoch s = mb_epoch m))))"

definition directory_department_status ::
  "DirectoryScope \<Rightarrow> account_row \<Rightarrow> membership_row \<Rightarrow> session_row option \<Rightarrow> provider_row option \<Rightarrow> ustr" where
  "directory_department_status q a m s p =
    (if \<not> dq_departments q \<or> \<not> (ac_enabled a \<and> mb_active m) then lit ''unavailable''
     else case s of None \<Rightarrow> lit ''missing''
     | Some r \<Rightarrow>
         (case se_facts r of None \<Rightarrow> lit ''missing''
          | Some facts \<Rightarrow>
              if \<not> holds (department_live a m r p) then lit ''unavailable''
              else case af_department_snapshot facts of
                DepartmentObservation.Unavailable reason \<Rightarrow> department_reason reason
              | DepartmentObservation.Available _ observed_at expires_at _ \<Rightarrow>
                  if observed_at > dq_now q then lit ''not_yet_valid''
                  else if expires_at \<le> dq_now q then lit ''expired''
                  else lit ''available''))"

definition latest_facts :: "Libraries \<Rightarrow> DirectoryScope \<Rightarrow> db \<Rightarrow> account_row \<Rightarrow> session_row list" where
  "latest_facts L q d a =
    (case dq_source q of
       None \<Rightarrow> []
     | Some source \<Rightarrow>
         if dq_departments q
         then (case latest_of_source L (ac_tenant a) source (ac_principal a) d of None \<Rightarrow> [] | Some r \<Rightarrow> [r])
         else [])"

definition facts_identities :: "db \<Rightarrow> account_row \<Rightarrow> session_row option \<Rightarrow> identity_row list" where
  "facts_identities d a s =
    (case s of None \<Rightarrow> []
     | Some r \<Rightarrow> filter (\<lambda>e. ei_tenant e = ac_tenant a \<and> ei_principal e = ac_principal a
         \<and> Some (ei_identity e) = se_identity r) (d_identities d))"

definition identity_providers :: "db \<Rightarrow> identity_row option \<Rightarrow> provider_row list" where
  "identity_providers d e =
    (case e of None \<Rightarrow> []
     | Some i \<Rightarrow> filter (\<lambda>p. pv_tenant p = ei_tenant i \<and> pv_provider p = ei_provider i) (d_providers d))"

definition source_observations :: "Libraries \<Rightarrow> DirectoryScope \<Rightarrow> db \<Rightarrow> account_row \<Rightarrow> observation_row list" where
  "source_observations L q d a =
    filter (\<lambda>r. ob_tenant r = ac_tenant a \<and> ob_principal r = ac_principal a
      \<and> Some (profile_source_key L (ob_source r)) = dq_source q) (d_observations d)"

definition snapshot_of :: "session_row option \<Rightarrow> DepartmentSnapshot option" where
  "snapshot_of s =
    (case s of None \<Rightarrow> None
     | Some r \<Rightarrow> (case map_option af_department_snapshot (se_facts r) of
         Some (DepartmentObservation.Available _ _ _ v) \<Rightarrow> Some v | _ \<Rightarrow> None))"

definition directory_row ::
  "Libraries \<Rightarrow> DirectoryScope \<Rightarrow> db \<Rightarrow> account_row \<Rightarrow> membership_row \<Rightarrow> local_credential_row option
    \<Rightarrow> observation_row option \<Rightarrow> provider_row option \<Rightarrow> session_row option \<Rightarrow> provider_row option
    \<Rightarrow> AccountDirectoryRow" where
  "directory_row L q d a m l v p s dp =
    (let profile = directory_profile_status q d (ac_enabled a \<and> mb_active m) v p;
         department = directory_department_status q a m s dp;
         shown = (\<lambda>attribute. if profile = lit ''available''
           then (case v of None \<Rightarrow> None | Some r \<Rightarrow> attribute_value (attribute (ob_value r))) else None) in
     \<lparr>ay_principal_id = xl_show_uuid L (ac_principal a), ay_login = map_option lc_login l,
      ay_enabled = ac_enabled a, ay_member_active = mb_active m, ay_has_local_password = (l \<noteq> None),
      ay_display_name = shown pr_display_name, ay_email = shown pr_email, ay_profile_status = profile,
      ay_department_status = department,
      ay_department_snapshot = (if department = lit ''available'' then snapshot_of s else None)\<rparr>)"

definition account_rows :: "Libraries \<Rightarrow> DirectoryScope \<Rightarrow> db \<Rightarrow> AccountDirectoryRow list" where
  "account_rows L q d =
    [directory_row L q d a m l v p s dp.
       a \<leftarrow> filter (\<lambda>a. ac_tenant a = dq_tenant q) (d_accounts d),
       m \<leftarrow> memberships_of d a,
       l \<leftarrow> credentials_of d a,
       v \<leftarrow> left_join (source_observations L q d a),
       p \<leftarrow> left_join (providers_of d v),
       s \<leftarrow> left_join (latest_facts L q d a),
       e \<leftarrow> left_join (facts_identities d a s),
       dp \<leftarrow> left_join (identity_providers d e)]"

subsection \<open>Columns, filters and positions\<close>

definition text_cell :: "ustr option \<Rightarrow> Value" where
  "text_cell v = (case v of None \<Rightarrow> Null | Some s \<Rightarrow> String s)"

text \<open>The last three fields are no columns; the parser lets none of them come this far.\<close>

fun column :: "Field \<Rightarrow> AccountDirectoryRow \<Rightarrow> Value" where
  "column Field.PrincipalId r = String (ay_principal_id r)"
| "column Field.Login r = text_cell (ay_login r)"
| "column Field.Enabled r = Bool (ay_enabled r)"
| "column MemberActive r = Bool (ay_member_active r)"
| "column HasLocalPassword r = Bool (ay_has_local_password r)"
| "column DisplayName r = text_cell (ay_display_name r)"
| "column Email r = text_cell (ay_email r)"
| "column ProfileStatus r = String (ay_profile_status r)"
| "column DepartmentStatus r = String (ay_department_status r)"
| "column _ r = Null"

text \<open>The order of a column: \<open>COLLATE "C"\<close> is the order of the code points, false is below true.\<close>

fun cell_less :: "Value \<Rightarrow> Value \<Rightarrow> bool" where
  "cell_less (String s) (String t) \<longleftrightarrow> s < t"
| "cell_less (Bool a) (Bool b) \<longleftrightarrow> \<not> a \<and> b"
| "cell_less _ _ \<longleftrightarrow> False"

definition cell :: "Value \<Rightarrow> Value option" where
  "cell v = (if v = Null then None else Some v)"

definition operand :: "Field \<Rightarrow> ustr \<Rightarrow> Value" where
  "operand field v = (if field_boolean field then Bool (v = lit ''true'') else String v)"

definition comparison :: "ustr \<Rightarrow> Value \<Rightarrow> Value \<Rightarrow> bool" where
  "comparison operator x y \<longleftrightarrow>
    (if operator = lit ''=='' \<or> operator = lit ''=in='' then x = y
     else if operator = lit ''!='' \<or> operator = lit ''=out='' then x \<noteq> y
     else if operator = lit ''=lt='' then cell_less x y
     else if operator = lit ''=le='' then x = y \<or> cell_less x y
     else if operator = lit ''=gt='' then cell_less y x
     else x = y \<or> cell_less y x)"

definition strpos_positive :: "ustr \<Rightarrow> ustr \<Rightarrow> bool" where
  "strpos_positive text_value part \<longleftrightarrow>
    list_ex (\<lambda>i. take (length part) (drop i text_value) = part) [0..<Suc (length text_value)]"

text \<open>The recursive query over the tree of a snapshot: the memberships and, for a subtree, every
  parent of what was found. A round that finds nothing new ends it, and every other round finds a
  further parent, so that a round for each node is enough.\<close>

definition node_parents :: "DepartmentNode list \<Rightarrow> ustr list \<Rightarrow> ustr list" where
  "node_parents nodes ids =
    List.map_filter (\<lambda>n. if department_str (dn_id n) \<in> set ids then map_option department_str (dn_parent_id n) else None) nodes"

fun ancestor_rounds :: "DepartmentNode list \<Rightarrow> nat \<Rightarrow> ustr list \<Rightarrow> ustr list" where
  "ancestor_rounds nodes 0 ids = ids"
| "ancestor_rounds nodes (Suc n) ids =
    (let new = filter (\<lambda>i. i \<notin> set ids) (remdups (node_parents nodes ids)) in
     if new = [] then ids else ancestor_rounds nodes n (ids @ new))"

definition department_ids :: "bool \<Rightarrow> DepartmentSnapshot \<Rightarrow> ustr list" where
  "department_ids subtree s =
    (let members = map department_str (ds_memberships s) in
     if subtree then ancestor_rounds (ds_nodes s) (length (ds_nodes s)) members else members)"

definition in_department :: "bool \<Rightarrow> ustr \<Rightarrow> AccountDirectoryRow \<Rightarrow> bool" where
  "in_department subtree i r \<longleftrightarrow> ay_department_status r = lit ''available''
    \<and> (case ay_department_snapshot r of None \<Rightarrow> False | Some s \<Rightarrow> i \<in> set (department_ids subtree s))"

definition compare_truth :: "(ustr \<Rightarrow> ustr) \<Rightarrow> Field \<Rightarrow> ustr \<Rightarrow> ustr list \<Rightarrow> AccountDirectoryRow \<Rightarrow> truth" where
  "compare_truth lower field operator vals r =
    (if field = Department \<or> field = DepartmentSubtree
     then Some (in_department (field = DepartmentSubtree) (hd vals) r)
     else if operator = lit ''=isnull='' then Some (column field r = Null)
     else if operator = lit ''=isnotnull='' then Some (column field r \<noteq> Null)
     else if operator = lit ''=icontains=''
     then (case column field r of String s \<Rightarrow> Some (strpos_positive (lower s) (lower (hd vals))) | _ \<Rightarrow> None)
     else
       (if operator = lit ''=out='' then sql_all else sql_any)
         (map (\<lambda>v. sql_rel (comparison operator) (cell (column field r)) (Some (operand field v))) vals))"

fun filter_truth :: "(ustr \<Rightarrow> ustr) \<Rightarrow> AccountDirectoryRow \<Rightarrow> Expression \<Rightarrow> truth" where
  "filter_truth lower r (Compare field operator vals) = compare_truth lower field operator vals r"
| "filter_truth lower r (And items) = sql_all (map (filter_truth lower r) items)"
| "filter_truth lower r (Or items) = sql_any (map (filter_truth lower r) items)"

text \<open>\<open>after\<close>: one alternative for every sort field, equal in the fields before it.\<close>

definition beyond :: "Sort \<Rightarrow> Value \<Rightarrow> AccountDirectoryRow \<Rightarrow> truth" where
  "beyond s v r =
    (if v = Null then Some False
     else sql_or
       (sql_rel (if so_descending s then cell_less else (\<lambda>x y. cell_less y x)) (cell (column (so_field s) r)) (cell v))
       (Some (column (so_field s) r = Null)))"

fun after_terms :: "(Sort \<times> Value) list \<Rightarrow> (Sort \<times> Value) list \<Rightarrow> AccountDirectoryRow \<Rightarrow> truth list" where
  "after_terms prefix [] r = []"
| "after_terms prefix ((s, v) # rest) r =
    sql_and (sql_all (map (\<lambda>(s', v'). Some (column (so_field s') r = v')) prefix)) (beyond s v r)
      # after_terms (prefix @ [(s, v)]) rest r"

definition after_position :: "Sort list \<Rightarrow> Value list \<Rightarrow> AccountDirectoryRow \<Rightarrow> truth" where
  "after_position sorts position r = sql_any (after_terms [] (zip sorts position) r)"

text \<open>\<open>ORDER BY\<close>, nulls last in either direction.\<close>

definition column_before :: "Sort \<Rightarrow> Value \<Rightarrow> Value \<Rightarrow> bool" where
  "column_before s x y \<longleftrightarrow> x \<noteq> Null
    \<and> (y = Null \<or> (if so_descending s then cell_less y x else cell_less x y))"

fun precedes :: "Sort list \<Rightarrow> AccountDirectoryRow \<Rightarrow> AccountDirectoryRow \<Rightarrow> bool" where
  "precedes [] x y \<longleftrightarrow> False"
| "precedes (s # ss) x y \<longleftrightarrow>
    column_before s (column (so_field s) x) (column (so_field s) y)
    \<or> column (so_field s) x = column (so_field s) y \<and> precedes ss x y"

subsection \<open>Cursors\<close>

definition CURSOR_DOMAIN :: "byte list" where
  "CURSOR_DOMAIN = utf8 (lit ''identity.accounts.cursor.v1'') @ [0]"

definition cursor_tag :: "Libraries \<Rightarrow> byte list \<Rightarrow> byte list \<Rightarrow> byte list" where
  "cursor_tag L key plain = xl_hmac L key (CURSOR_DOMAIN @ plain)"

definition encode_cursor :: "Libraries \<Rightarrow> DirectoryLibrary \<Rightarrow> Cursor \<Rightarrow> ustr" where
  "encode_cursor L lib cursor =
    (let plain = dl_cursor_json lib cursor in xl_encode L (cursor_tag L (dl_cursor_key lib) plain @ plain))"

definition decode_cursor :: "Libraries \<Rightarrow> DirectoryLibrary \<Rightarrow> ustr \<Rightarrow> MutationError + Cursor" where
  "decode_cursor L lib raw =
    and_then (ok_or MutationError.InvalidInput (xl_decode L raw)) (\<lambda>bytes.
    and_then (ensure (\<not> (length bytes \<le> 32 \<or> length bytes > 4096)) MutationError.InvalidInput) (\<lambda>_.
    and_then (ensure (cursor_tag L (dl_cursor_key lib) (drop 32 bytes) = take 32 bytes) MutationError.CursorInvalidated) (\<lambda>_.
    ok_or MutationError.InvalidInput (dl_cursor_parse lib (drop 32 bytes)))))"

fun is_bool :: "Value \<Rightarrow> bool" where "is_bool (Bool b) = True" | "is_bool _ = False"
fun is_string :: "Value \<Rightarrow> bool" where "is_string (String s) = True" | "is_string _ = False"

definition position_fits :: "Sort list \<Rightarrow> Value list \<Rightarrow> bool" where
  "position_fits sorts position \<longleftrightarrow> \<not> (length position \<noteq> length sorts
    \<or> list_ex (\<lambda>(s, v). v \<noteq> Null \<and> (if field_boolean (so_field s) then \<not> is_bool v else \<not> is_string v))
        (zip sorts position))"

definition check_seek ::
  "AccountQuery \<Rightarrow> byte list \<Rightarrow> int \<Rightarrow> Cursor \<Rightarrow> MutationError + unit" where
  "check_seek q binding t seek =
    and_then (ensure (\<not> (cu_binding seek \<noteq> binding \<or> cu_expires seek \<le> t)) MutationError.CursorInvalidated) (\<lambda>_.
    ensure (position_fits (aq_sort q) (cu_position seek)) MutationError.InvalidInput)"

subsection \<open>Reading the directory\<close>

definition read_account_body ::
  "Authority \<Rightarrow> AuthenticatedSession \<Rightarrow> AccountKey \<Rightarrow> instant \<Rightarrow> (MutationError, AccountView) tx" where
  "read_account_body a actor target budget =
    bind (widen Storage (recheck (au_libs a) actor)) (\<lambda>loaded.
    bind (widen Rule (authorize (au_policy a) (au_instance a) loaded ReadAccount (Some target))) (\<lambda>_.
    bind (widen Storage (checked_expiry loaded budget)) (\<lambda>expires.
    bind (widen Storage (load target)) (\<lambda>stored.
    bind (query (\<lambda>d. map_option lc_login (find (is_credential target) (d_credentials d)))) (\<lambda>login.
    bind instant_now (\<lambda>t.
    bind (require (\<not> t \<ge> expires) (Storage reject)) (\<lambda>_.
    ret (AccountView_new (so_state stored) login))))))))"

definition read_account :: "Authority \<Rightarrow> AuthenticatedSession \<Rightarrow> AccountKey \<Rightarrow> int \<Rightarrow> AccountView op" where
  "read_account a actor target deadline =
    op_bind (op_lift (require_runtime a)) (\<lambda>_.
    op_bind (op_require (\<not> ak_tenant target \<noteq> ak_tenant (px_key actor)) AuthorityError.Rejected) (\<lambda>_.
    op_bind (Budget_new deadline) (\<lambda>budget.
    op_bind (Budget_remaining budget) (\<lambda>timeout.
    read_sql (au_bundle a) (ak_tenant target) timeout (read_account_body a actor target budget)))))"

fun authorize_each :: "Authority \<Rightarrow> Loaded \<Rightarrow> ManagementOperation list \<Rightarrow> (MutationError, unit) tx" where
  "authorize_each a loaded [] = ret ()"
| "authorize_each a loaded (operation # rest) =
    bind (widen Rule (authorize (au_policy a) (au_instance a) loaded operation None)) (\<lambda>_.
    authorize_each a loaded rest)"

definition listing_operations :: "AccountQuery \<Rightarrow> ManagementOperation list" where
  "listing_operations q = [ListAccounts]
     @ (if needs_profiles q then [ReadLatestProfile] else [])
     @ (if needs_departments q then [ReadLatestDepartments] else [])"

definition listing_window ::
  "Authority \<Rightarrow> DirectoryLibrary \<Rightarrow> AuthenticatedSession \<Rightarrow> AccountQuery \<Rightarrow> instant \<Rightarrow> Loaded
    \<Rightarrow> (PgError, PersonnelWindow) tx" where
  "listing_window a lib actor q budget loaded =
    read_window (au_libs a) (dl_revision lib) (ak_tenant (px_key actor))
      (if needs_profiles q then Some (int (pl_max_age (au_limits a))) else None)
      (if needs_departments q then aq_source q else None) budget (Some (actor_end loaded))"

definition bound_cursor ::
  "Authority \<Rightarrow> AuthenticatedSession \<Rightarrow> AccountQuery \<Rightarrow> SessionId \<Rightarrow> int \<Rightarrow> CursorBinding" where
  "bound_cursor a actor q session gen =
    \<lparr>cb_instance = au_instance a, cb_tenant = ak_tenant (px_key actor), cb_principal = key_uuid (px_key actor),
     cb_session = session, cb_generation = gen, cb_query = q\<rparr>"

definition cursor_binding ::
  "Authority \<Rightarrow> DirectoryLibrary \<Rightarrow> AuthenticatedSession \<Rightarrow> AccountQuery \<Rightarrow> SessionId \<Rightarrow> int \<Rightarrow> byte list" where
  "cursor_binding a lib actor q session gen =
    xl_sha256 (au_libs a) (dl_binding_json lib (bound_cursor a actor q session gen))"

definition directory_scope :: "Authority \<Rightarrow> TenantId \<Rightarrow> AccountQuery \<Rightarrow> int \<Rightarrow> DirectoryScope" where
  "directory_scope a tenant q t =
    \<lparr>dq_tenant = tenant, dq_source = aq_source q, dq_now = t, dq_profiles = needs_profiles q,
     dq_departments = needs_departments q, dq_max_age = int (pl_max_age (au_limits a))\<rparr>"

definition selects :: "DirectoryLibrary \<Rightarrow> AccountQuery \<Rightarrow> AccountDirectoryRow \<Rightarrow> truth" where
  "selects lib q r =
    (case aq_filter q of None \<Rightarrow> Some True | Some e \<Rightarrow> filter_truth (dl_lower lib) r e)"

definition seeks :: "AccountQuery \<Rightarrow> Cursor option \<Rightarrow> AccountDirectoryRow \<Rightarrow> truth" where
  "seeks q seek r =
    (case seek of None \<Rightarrow> Some True | Some c \<Rightarrow> after_position (aq_sort q) (cu_position c) r)"

definition page_rows ::
  "Authority \<Rightarrow> DirectoryLibrary \<Rightarrow> TenantId \<Rightarrow> AccountQuery \<Rightarrow> int \<Rightarrow> Cursor option \<Rightarrow> db \<Rightarrow> AccountDirectoryRow list" where
  "page_rows a lib tenant q t seek d =
    take (aq_limit q + 1) (order_by (precedes (aq_sort q))
      (filter (\<lambda>r. holds (sql_and (selects lib q r) (seeks q seek r)))
        (account_rows (au_libs a) (directory_scope a tenant q t) d)))"

text \<open>\<open>from_value\<close> of a row: the snapshot runs its validating constructor.\<close>

fun decode_rows :: "AccountDirectoryRow list \<Rightarrow> MutationError + AccountDirectoryRow list" where
  "decode_rows [] = Ok []"
| "decode_rows (r # rs) =
    and_then (case ay_department_snapshot r of
        None \<Rightarrow> Ok None
      | Some s \<Rightarrow> and_then (map_err (\<lambda>_. Storage corrupt) (DepartmentSnapshot_try_from s)) (\<lambda>x. Ok (Some x))) (\<lambda>snapshot.
    and_then (decode_rows rs) (\<lambda>rest. Ok (r\<lparr>ay_department_snapshot := snapshot\<rparr> # rest)))"

definition read_seek ::
  "Libraries \<Rightarrow> DirectoryLibrary \<Rightarrow> AccountQuery \<Rightarrow> byte list \<Rightarrow> int \<Rightarrow> ustr option \<Rightarrow> MutationError + Cursor option" where
  "read_seek L lib q binding t cursor =
    (case cursor of None \<Rightarrow> Ok None
     | Some raw \<Rightarrow>
         and_then (decode_cursor L lib raw) (\<lambda>seek.
         and_then (check_seek q binding t seek) (\<lambda>_. Ok (Some seek))))"

definition page_cursor :: "AccountQuery \<Rightarrow> byte list \<Rightarrow> int \<Rightarrow> AccountDirectoryRow list \<Rightarrow> Cursor option" where
  "page_cursor q binding until rows =
    (if length rows > aq_limit q
     then let last_row = last (take (aq_limit q) rows) in
       Some \<lparr>cu_binding = binding, cu_expires = until,
         cu_position = map (\<lambda>s. column (so_field s) last_row) (aq_sort q)\<rparr>
     else None)"

text \<open>The beginning of a listing: the session, the policy, the window.\<close>

definition open_listing ::
  "Authority \<Rightarrow> DirectoryLibrary \<Rightarrow> AuthenticatedSession \<Rightarrow> AccountQuery \<Rightarrow> instant
    \<Rightarrow> (MutationError, Loaded \<times> PersonnelWindow) tx" where
  "open_listing a lib actor q budget =
    bind (widen Storage (recheck (au_libs a) actor)) (\<lambda>loaded.
    bind (authorize_each a loaded (listing_operations q)) (\<lambda>_.
    bind (widen Storage (listing_window a lib actor q budget loaded)) (\<lambda>window.
    ret (loaded, window))))"

definition list_accounts_body ::
  "Authority \<Rightarrow> DirectoryLibrary \<Rightarrow> AuthenticatedSession \<Rightarrow> AccountQuery \<Rightarrow> ustr option \<Rightarrow> instant
    \<Rightarrow> (MutationError, AccountPage) tx" where
  "list_accounts_body a lib actor q cursor budget =
    (let L = au_libs a; tenant = ak_tenant (px_key actor) in
     bind (open_listing a lib actor q budget) (\<lambda>(loaded, window).
     let binding = cursor_binding a lib actor q (sv_id (ld_view loaded)) (pw_generation window) in
     bind (lift (read_seek L lib q binding (pw_now window) cursor)) (\<lambda>seek.
     bind (query (page_rows a lib tenant q (pw_now window) seek)) (\<lambda>rows.
     bind (lift (decode_rows (take (aq_limit q) rows))) (\<lambda>accounts.
     bind instant_now (\<lambda>t.
     bind (require (\<not> t \<ge> pw_expires window) (Storage reject)) (\<lambda>_.
     ret \<lparr>ag_accounts = accounts, ag_fields = aq_fields q,
          ag_next_cursor = map_option (encode_cursor L lib) (page_cursor q binding (pw_valid_until window) rows)\<rparr>)))))))"

definition list_accounts ::
  "Authority \<Rightarrow> DirectoryLibrary \<Rightarrow> AuthenticatedSession \<Rightarrow> AccountQuery \<Rightarrow> ustr option \<Rightarrow> int \<Rightarrow> AccountPage op" where
  "list_accounts a lib actor q cursor deadline =
    op_bind (op_lift (require_runtime a)) (\<lambda>_.
    op_bind (op_require (\<not> (case cursor of None \<Rightarrow> False | Some s \<Rightarrow> s = [] \<or> byte_len s > 4096))
        AuthorityError.InvalidInput) (\<lambda>_.
    op_bind (Budget_new deadline) (\<lambda>whole.
    let budget = min whole (px_expires actor) in
    op_bind (Budget_remaining budget) (\<lambda>timeout.
    read_sql (au_bundle a) (ak_tenant (px_key actor)) timeout
      (list_accounts_body a lib actor q cursor budget)))))"

end
