(* ===== verification/Personnel_Sound.thy ===== *)
theory Personnel_Sound
  imports Personnel Sessions
begin

section \<open>What the personnel relation guarantees\<close>

subsection \<open>The window\<close>

text \<open>What a window is made of: one reading of each clock, the generation, and the next boundary.\<close>

lemma read_window_Inr:
  assumes "read_window L revision tenant max_age source expires until w = Inr (win, w')"
  obtains nb where
    "pw_now win = w_micros w (Suc (w_tick w)) div 1000000"
    "pw_generation win = revision tenant (w_db w)"
    "pw_valid_until win = window_end nb until (pw_now win)"
    "window_deadline (pw_valid_until win) (w_instants w (w_tick w)) (w_micros w (Suc (w_tick w))) expires
      = Ok (pw_expires win)"
    "nb = (case source of None \<Rightarrow> next_boundary tenant max_age (pw_now win) (w_db w)
      | Some s \<Rightarrow> earlier (next_boundary tenant max_age (pw_now win) (w_db w))
          (department_boundary L tenant s (pw_now win) (w_db w)))"
    "w_db w' = w_db w"
  using assms unfolding read_window_def
  by (cases source)
    (auto simp: run_simps Let_def fetch_one_def bind_Inr split: option.splits sum.splits)

lemma read_window_reads: "reads_only (read_window L revision tenant max_age source expires until)"
  by (rule keepsI) (auto simp: unchanged_def elim!: read_window_Inr)

lemma or_max_le: "v = Some x \<Longrightarrow> or_max v \<le> x"
  by (simp add: or_max_def)

lemma window_end_le:
  "window_end nb until t \<le> or_max nb" "window_end nb until t \<le> or_max until"
  "window_end nb until t \<le> saturating_add t 60"
  by (simp_all add: window_end_def)

lemma earlier_le: "a = Some x \<Longrightarrow> or_max (earlier a b) \<le> x" "b = Some x \<Longrightarrow> or_max (earlier a b) \<le> x"
  by (auto simp: earlier_def or_max_def split: option.splits)

text \<open>Every moment after \<open>t\<close> that the boundaries were taken from is at the end of the window or later.\<close>

lemma after_now_le: "x \<in> set xs \<Longrightarrow> t < x \<Longrightarrow> \<exists>m. after_now t xs = Some m \<and> m \<le> x"
  unfolding after_now_def by (rule sql_min_le) simp

lemma least_after:
  assumes "x \<in> set xs" "t < x" "after_now t xs \<in> set vs"
  shows "\<exists>m. sql_least vs = Some m \<and> m \<le> x"
proof -
  from after_now_le [OF assms(1,2)] obtain m where m: "after_now t xs = Some m" "m \<le> x" by blast
  with sql_least_le [of m vs] assms(3) show ?thesis by fastforce
qed

lemma boundary_session:
  assumes "r \<in> set (open_sessions tenant d)" "x \<in> {se_idle_expires r, se_absolute_expires r}" "t < x"
  shows "\<exists>m. next_boundary tenant age t d = Some m \<and> m \<le> x"
proof -
  have "x \<in> set (map se_idle_expires (open_sessions tenant d)) \<or> x \<in> set (map se_absolute_expires (open_sessions tenant d))"
    using assms by auto
  then show ?thesis
    unfolding next_boundary_def using least_after [OF _ assms(3)] by (elim disjE) (auto simp del: set_map)
qed

lemma boundary_observation:
  assumes "r \<in> set (tenant_observations tenant d)" "t < observation_end age r"
  shows "\<exists>m. next_boundary tenant (Some age) t d = Some m \<and> m \<le> observation_end age r"
proof -
  let ?vs = "[after_now t (map se_idle_expires (open_sessions tenant d)),
        after_now t (map se_absolute_expires (open_sessions tenant d)),
        after_now t (map ob_expires (tenant_observations tenant d)),
        map_option (\<lambda>x. x + age) (sql_min (filter (\<lambda>x. x > t - age) (map ob_observed (tenant_observations tenant d))))]"
  have nb: "next_boundary tenant (Some age) t d = sql_least ?vs" by (simp add: next_boundary_def)
  show ?thesis
  proof (cases "ob_expires r \<le> ob_observed r + age")
    case True
    with assms have "\<exists>m. sql_least ?vs = Some m \<and> m \<le> ob_expires r"
      by (intro least_after [where xs = "map ob_expires (tenant_observations tenant d)"])
        (auto simp: observation_end_def)
    with True nb show ?thesis by (simp add: observation_end_def)
  next
    case False
    from sql_min_le [of "ob_observed r" "filter (\<lambda>x. x > t - age) (map ob_observed (tenant_observations tenant d))"] assms
    obtain m where "sql_min (filter (\<lambda>x. x > t - age) (map ob_observed (tenant_observations tenant d))) = Some m"
      "m \<le> ob_observed r" by (auto simp: observation_end_def)
    then have "\<exists>k. sql_least ?vs = Some k \<and> k \<le> m + age" by (intro sql_least_le) simp
    with False \<open>m \<le> ob_observed r\<close> nb show ?thesis by (auto simp: observation_end_def)
  qed
qed

text \<open>A moment inside the window sees each of these moments on the same side as its start.\<close>

lemma window_side:
  assumes "s < b \<Longrightarrow> \<exists>m. nb = Some m \<and> m \<le> b" and "s \<le> t" "t < e" "e \<le> or_max nb"
  shows "b \<le> t \<longleftrightarrow> b \<le> (s::int)"
proof
  assume "b \<le> t"
  show "b \<le> s"
  proof (rule ccontr)
    assume "\<not> b \<le> s"
    with assms(1) obtain m where "nb = Some m" "m \<le> b" by auto
    with assms \<open>b \<le> t\<close> or_max_le [of nb m] show False by auto
  qed
qed (use assms in simp)

lemma session_side:
  assumes "r \<in> set (open_sessions tenant d)" "s \<le> t" "t < e" "e \<le> or_max (next_boundary tenant age s d)"
  shows "se_idle_expires r > t \<longleftrightarrow> se_idle_expires r > s" "se_absolute_expires r > t \<longleftrightarrow> se_absolute_expires r > s"
  using window_side [OF boundary_session [OF assms(1), of "se_idle_expires r"] assms(2-4)]
    window_side [OF boundary_session [OF assms(1), of "se_absolute_expires r"] assms(2-4)] by auto

lemma observation_side:
  assumes "r \<in> set (tenant_observations tenant d)" "s \<le> t" "t < e" "e \<le> or_max (next_boundary tenant (Some age) s d)"
  shows "observation_end age r \<le> t \<longleftrightarrow> observation_end age r \<le> s"
  using window_side [OF boundary_observation [OF assms(1)] assms(2-4)] .

lemma session_relation_stable:
  assumes "s \<le> t" "t < e" "e \<le> or_max (next_boundary tenant age s d)"
  shows "session_relation i tenant t platform d = session_relation i tenant s platform d"
proof -
  have "reference_shown i platform t d r a m = reference_shown i platform s d r a m"
    if "r \<in> set (d_sessions d)" "se_tenant r = tenant" for r a m
  proof (cases "se_revoked r = None")
    case True
    with that have "r \<in> set (open_sessions tenant d)" by (simp add: open_sessions_def)
    from session_side [OF this assms] show ?thesis by (simp add: reference_shown_def)
  qed (auto simp: reference_shown_def)
  then show ?thesis unfolding session_relation_def
    by (intro arg_cong [of _ _ concat] map_cong refl) (auto cong: filter_cong)
qed

lemma personnel_row_stable:
  assumes "\<And>r. v = Some r \<Longrightarrow> observation_end (ns_max_age s) r \<le> t \<longleftrightarrow> observation_end (ns_max_age s) r \<le> ns_now s"
  shows "personnel_row (s\<lparr>ns_now := t\<rparr>) d a m l v p = personnel_row s d a m l v p"
proof (cases v)
  case None
  then show ?thesis by (simp add: personnel_row_def personnel_status_def personnel_attribute_def Let_def cong: if_cong)
next
  case (Some r)
  from assms [OF this] have "observation_end (ns_max_age s) r > t \<longleftrightarrow> observation_end (ns_max_age s) r > ns_now s" by auto
  with assms [OF Some] Some show ?thesis
    by (simp add: personnel_row_def personnel_status_def personnel_attribute_def Let_def cong: if_cong conj_cong)
qed

lemma left_join_Some: "Some x \<in> set (left_join t) \<Longrightarrow> x \<in> set t"
  by (auto simp: left_join_def split: if_splits)

lemma personnel_relation_stable:
  assumes "ns_now s \<le> t" "t < e" "e \<le> or_max (next_boundary (ns_tenant s) (Some (ns_max_age s)) (ns_now s) d)"
  shows "personnel_relation (s\<lparr>ns_now := t\<rparr>) d = personnel_relation s d"
proof -
  have row: "personnel_row (s\<lparr>ns_now := t\<rparr>) d a m l v p = personnel_row s d a m l v p"
    if "ac_tenant a = ns_tenant s" "v \<in> set (observations_of d a shown)" for a m l v p shown
  proof (rule personnel_row_stable)
    fix r assume "v = Some r"
    with that have "r \<in> set (tenant_observations (ns_tenant s) d)"
      by (auto simp: observations_of_def tenant_observations_def dest!: left_join_Some)
    from observation_side [OF this assms]
    show "observation_end (ns_max_age s) r \<le> t \<longleftrightarrow> observation_end (ns_max_age s) r \<le> ns_now s" .
  qed
  show ?thesis
    unfolding personnel_relation_def by (intro arg_cong [of _ _ concat] map_cong refl) (auto intro!: row)
qed

text \<open>The host's deadline of a window is over before its end by the database clock.\<close>

lemma window_deadline_before:
  assumes "window_deadline e started m expires = Ok x" "t < x" "started \<le> r" "started \<le> t" "m = D div 1000"
    "in_i64 m" "in_i64 (e * 1000000)"
  shows "D + (t - r) < e * 1000000000"
proof -
  from assms(1) have "x \<le> started + max 0 (saturating_sub (saturating_sub (clamp_i64 (e * 1000000)) m) 1) * 1000"
    by (auto simp: window_deadline_def Let_def and_then_Inr_iff instant_checked_add_def split: if_splits)
  with assms(2) have lt: "t - started < max 0 (saturating_sub (saturating_sub (clamp_i64 (e * 1000000)) m) 1) * 1000"
    by linarith
  with assms(4) have pos: "saturating_sub (saturating_sub (clamp_i64 (e * 1000000)) m) 1 > 0"
    by (auto simp: max_def split: if_splits)
  then have "saturating_sub (saturating_sub (clamp_i64 (e * 1000000)) m) 1 \<le> e * 1000000 - m - 1"
    using assms(6,7) by (auto simp: saturating_unfold i64_unfold max_def min_def split: if_splits)
  with lt pos have "t - started < (e * 1000000 - m - 1) * 1000" by (simp add: max_def split: if_splits)
  moreover have "D < m * 1000 + 1000" using assms(5) by simp
  ultimately show ?thesis using assms(3) by (simp add: algebra_simps)
qed

text \<open>C6: What a host reads of people and sessions stays true while its window is open. For every
  moment from the window's start to before its end (the \<open>valid_until\<close> that the host stores with a
  page or a cursor) the personnel relation and the session relation of the same data are the same
  rows: no session, profile or fetched attribute expires in between. The window ends at most a
  minute after it began, and the host's own deadline is never late: at every host instant before
  it, the database clock is before the window's end.\<close>

theorem personnel_window_stable:
  assumes "read_window L revision tenant (Some age) source expires until w = Inr (win, w')"
    and "pw_now win \<le> t" "t < pw_valid_until win"
    and "ns_tenant s = tenant" "ns_max_age s = age" "ns_now s = pw_now win"
    and "in_i64 (w_micros w (Suc (w_tick w)))" "in_i64 (pw_valid_until win * 1000000)"
    and "w_micros w (Suc (w_tick w)) = D div 1000" "w_instants w (w_tick w) \<le> r" "r \<le> x" "x < pw_expires win"
  shows "personnel_relation (s\<lparr>ns_now := t\<rparr>) (w_db w) = personnel_relation s (w_db w)
    \<and> session_relation i tenant t platform (w_db w) = session_relation i tenant (pw_now win) platform (w_db w)
    \<and> pw_valid_until win \<le> pw_now win + 60
    \<and> D + (x - r) < pw_valid_until win * 1000000000"
proof -
  from assms(1) obtain nb where win: "pw_now win = w_micros w (Suc (w_tick w)) div 1000000"
      "pw_valid_until win = window_end nb until (pw_now win)"
    and dl: "window_deadline (pw_valid_until win) (w_instants w (w_tick w)) (w_micros w (Suc (w_tick w))) expires
      = Ok (pw_expires win)"
    and nb: "nb = (case source of None \<Rightarrow> next_boundary tenant (Some age) (pw_now win) (w_db w)
      | Some s \<Rightarrow> earlier (next_boundary tenant (Some age) (pw_now win) (w_db w))
          (department_boundary L tenant s (pw_now win) (w_db w)))"
    by (rule read_window_Inr)
  have "or_max nb \<le> or_max (next_boundary tenant (Some age) (pw_now win) (w_db w))
      \<or> next_boundary tenant (Some age) (pw_now win) (w_db w) = None"
    unfolding nb by (auto simp: or_max_def earlier_def split: option.splits)
  moreover have "pw_valid_until win \<le> i64_max"
    using window_end_le(3) [of nb until "pw_now win"] win(2)
    by (auto simp: saturating_unfold split: if_splits)
  ultimately have e: "pw_valid_until win \<le> or_max (next_boundary tenant (Some age) (pw_now win) (w_db w))"
    using window_end_le(1) [of nb until "pw_now win"] win(2) by (auto simp: or_max_def)
  have "personnel_relation (s\<lparr>ns_now := t\<rparr>) (w_db w) = personnel_relation s (w_db w)"
    using assms(2-6) e by (intro personnel_relation_stable) auto
  moreover note session_relation_stable [OF assms(2,3) e, of i platform]
  moreover have "in_i64 (pw_now win)" using assms(7) unfolding win(1) i64_unfold by auto
  then have "pw_valid_until win \<le> pw_now win + 60"
    using window_end_le(3) [of nb until "pw_now win"] win(2)
    by (auto simp: saturating_unfold i64_unfold min_def max_def split: if_splits)
  moreover have "D + (x - r) < pw_valid_until win * 1000000000"
    using window_deadline_before [OF dl assms(12,10) _ assms(9,7,8)] assms(10,11) by linarith
  ultimately show ?thesis by blast
qed

subsection \<open>Sessions that a reference finds\<close>

text \<open>What a load finds of the way a session was signed in is what the relation asks for.\<close>

lemma load_facts_shown:
  assumes "load_facts key checks r og source fs w = Inr (x, w')" "checks_contract checks"
    and "case og of None \<Rightarrow> source = None | Some og' \<Rightarrow> source \<noteq> None"
    and "ak_tenant key = se_tenant r" "key_uuid key = se_principal r"
    and "og \<noteq> None \<Longrightarrow> oidc_reference (w_db w) r"
  shows "se_source r = lit ''local_password''
       \<or> se_source r = lit ''oidc'' \<and> oidc_reference (w_db w) r
       \<or> se_source r = lit ''platform''
         \<and> platform_reference (InstanceId (d_authority (w_db w))) (map_option vf_audience (sc_platform checks)) (w_db w) r"
proof (cases og)
  case (Some o1)
  with assms show ?thesis by (auto simp: load_facts_def tx_simps split: option.splits if_splits)
next
  case None
  with assms(1,3) consider "se_source r = lit ''local_password''"
    | p w1 where "se_source r = lit ''platform''" "se_platform r = Some p" "platform_recheck key p checks w = Inr ((), w1)"
    by (auto simp: load_facts_def tx_simps split: option.splits if_splits)
  then show ?thesis
  proof cases
    case 2
    have key: "key = \<lparr>ak_tenant = se_tenant r, ak_principal = PrincipalId (se_principal r)\<rparr>"
      using assms(4,5) by (simp flip: same_account_key)
    from 2(3) obtain v where v: "sc_platform checks = Some v" "pb_account (pa_binding p) = key"
      "instance_uuid (pb_instance (pa_binding p)) = d_authority (w_db w)" "vf_audience v = pa_audience p"
      "external_valid (pa_binding p) w1 = Inr (True, w1)"
      by (rule platform_recheck_Inr)
    have "w_db w1 = w_db w"
      using platform_recheck_reads [OF assms(2), of key p] 2(3) by (auto dest: reads_onlyD)
    moreover have "pb_instance (pa_binding p) = InstanceId (d_authority (w_db w))"
      using v(3) by (cases "pb_instance (pa_binding p)") auto
    ultimately show ?thesis
      using 2(1,2) v key
      by (auto simp: platform_reference_def external_valid_def linked_live_def list_ex_iff split: option.splits)
  qed simp
qed

lemma by_id_shown:
  assumes "by_id L key sid checks w = Inr (l, w')" "checks_contract checks"
  obtains r where "find (is_session (ak_tenant key) sid) (d_sessions (w_db w)) = Some r"
    "loaded_from L checks (w_db w) r key l"
    "se_source r = lit ''local_password''
       \<or> se_source r = lit ''oidc'' \<and> oidc_reference (w_db w) r
       \<or> se_source r = lit ''platform''
         \<and> platform_reference (InstanceId (d_authority (w_db w))) (map_option vf_audience (sc_platform checks)) (w_db w) r"
proof -
  from assms(1) obtain stored r og source sample facts w1 w2 w3 w4 w5
    where s: "load key w = Inr (stored, w1)"
    and r: "find (is_session (ak_tenant key) sid) (d_sessions (w_db w1)) = Some r"
    and cur: "row_current key (so_state stored) r"
    and og: "origin (ak_tenant key) sid w1 = Inr (og, w2)"
    and src: "check_source L key og w2 = Inr (source, w3)"
    and smp: "read_sample w3 = Inr (sample, w4)"
    and facts: "load_facts key checks r og source (sample_for_facts (sc_controlled checks) sample) w4 = Inr (facts, w5)"
    unfolding by_id_def Let_def by (elim bindE) (auto elim!: bindE split: prod.splits)
  have w1: "w1 = w" using s by (simp add: load_Inr)
  from og w1 r have og': "decode_origin (w_violation w) r = Ok og" and w2: "w2 = w" by (auto simp: origin_Inr)
  from check_source_Inr [OF src] w2 have w3: "w3 = w"
    and fs: "case og of None \<Rightarrow> source = None | Some o1 \<Rightarrow> \<exists>f. source = Some f \<and> check_origin L key o1 w = Inr (f, w)"
    by auto
  have db: "w_db w4 = w_db w" using read_sample_Inr [OF smp] w3 by simp
  from find_SomeD [OF r] cur have key: "ak_tenant key = se_tenant r" "key_uuid key = se_principal r"
    by (auto simp: is_session_def row_current_def)
  have "oidc_reference (w_db w4) r" if "og \<noteq> None"
  proof -
    from that fs obtain o1 f where o1: "og = Some o1" "check_origin L key o1 w = Inr (f, w)" by auto
    from check_origin_Inr [OF o1(2)] decode_origin_Some [OF og' [unfolded o1(1)]] db key
    show ?thesis by (fastforce simp: oidc_reference_def linked_live_def list_ex_iff)
  qed
  from load_facts_shown [OF facts assms(2) _ key this] fs db
  have shown: "se_source r = lit ''local_password''
       \<or> se_source r = lit ''oidc'' \<and> oidc_reference (w_db w) r
       \<or> se_source r = lit ''platform''
         \<and> platform_reference (InstanceId (d_authority (w_db w))) (map_option vf_audience (sc_platform checks)) (w_db w) r"
    by (cases og) auto
  from by_id_Inr [OF assms(1)] r w1 have "loaded_from L checks (w_db w) r key l"
    by (auto simp: loaded_from_def)
  with shown r w1 show ?thesis by (intro that) auto
qed

lemma shown_row:
  assumes "loaded_from L checks d r key l" "account_of d key = Some st"
    and "se_source r = lit ''local_password''
       \<or> se_source r = lit ''oidc'' \<and> oidc_reference d r
       \<or> se_source r = lit ''platform'' \<and> platform_reference i platform d r"
  shows "reference_row i r \<in> set (session_relation i (ak_tenant key) (ld_now l) platform d)"
proof -
  from assms(1) have r: "r \<in> set (d_sessions d)" "se_tenant r = ak_tenant key" "row_current key (ld_state l) r"
    "row_lifetime r = Ok (ld_lifetime l)" "valid_at (ld_lifetime l) (ld_now l)" "account_of d key = Some (ld_state l)"
    by (auto simp: loaded_from_def is_session_def dest!: find_SomeD)
  from r(4) obtain x where "ld_lifetime l = \<lparr>lt_policy = x, lt_issued_at = se_issued_at r,
      lt_idle_expires_at = se_idle_expires r, lt_absolute_expires_at = se_absolute_expires r\<rparr>"
    by (auto simp: row_lifetime_def and_then_Inr_iff SessionLifetime_restore_def Let_def split: if_splits option.splits
        dest!: sym [of _ "ld_lifetime l"])
  with r(5) have times: "se_idle_expires r > ld_now l" "se_absolute_expires r > ld_now l"
    by (simp_all add: valid_at_def)
  from r(6) obtain acc m where rows: "find (is_account key) (d_accounts d) = Some acc" "find (is_membership key) (d_memberships d) = Some m"
    and st: "st_enabled (ld_state l) = ac_enabled acc" "st_member_active (ld_state l) = mb_active m"
      "st_epoch (ld_state l) = ac_epoch acc" "st_membership_epoch (ld_state l) = mb_epoch m"
    by (auto simp: account_of_def stored_of_def join_account_def decode_account_Ok split: option.splits sum.splits)
  from find_SomeD [OF rows(1)] find_SomeD [OF rows(2)] r(2,3)
  have "acc \<in> set (d_accounts d)" "ac_tenant acc = se_tenant r" "ac_principal acc = se_principal r" "m \<in> set (memberships_of d acc)"
    by (auto simp: is_account_def is_membership_def memberships_of_def row_current_def)
  moreover have "reference_shown i platform (ld_now l) d r acc m"
    using r(3) st times assms(3) by (simp add: reference_shown_def row_current_def active_def)
  ultimately show ?thesis using r(1,2) unfolding session_relation_def by fastforce
qed

lemma shown_current:
  assumes "row \<in> set (session_relation i tenant t platform d)"
    and "accounts_ok d" "unique_on (\<lambda>r. (se_tenant r, se_session r)) (d_sessions d)"
  defines "key \<equiv> \<lparr>ak_tenant = tenant, ak_principal = PrincipalId (sy_principal row)\<rparr>"
  shows "\<exists>r. find (is_session tenant (SessionId (sy_session row))) (d_sessions d) = Some r
    \<and> t < se_idle_expires r \<and> t < se_absolute_expires r
    \<and> (case account_of d key of None \<Rightarrow> True | Some st \<Rightarrow> row_current key st r)"
proof -
  from assms(1) obtain r acc m where r: "r \<in> set (d_sessions d)" "se_tenant r = tenant" "row = reference_row i r"
    and acc: "acc \<in> set (d_accounts d)" "ac_tenant acc = se_tenant r" "ac_principal acc = se_principal r"
    and m: "m \<in> set (memberships_of d acc)" "reference_shown i platform t d r acc m"
    by (auto simp: session_relation_def)
  have id: "sy_session row = se_session r" "sy_principal row = se_principal r"
    by (simp_all add: r(3) reference_row_def Let_def)
  have "find (is_session tenant (SessionId (sy_session row))) (d_sessions d) = Some r"
    using find_unique [OF assms(3) r(1), of "is_session tenant (SessionId (sy_session row))"] r(2) id
    by (auto simp: is_session_def)
  moreover have "find (is_account key) (d_accounts d) = Some acc"
    using assms(2) acc r(2) id
    by (intro find_unique [where k = "\<lambda>r. (ac_tenant r, ac_principal r)"])
      (auto simp: accounts_ok_def is_account_def key_def)
  moreover have "find (is_membership key) (d_memberships d) = Some m"
    using assms(2) m(1) acc r(2) id
    by (intro find_unique [where k = "\<lambda>r. (mb_tenant r, mb_principal r)"])
      (auto simp: accounts_ok_def is_membership_def memberships_of_def key_def)
  ultimately show ?thesis
    using m(2) id
    by (auto simp: account_of_def stored_of_def join_account_def decode_account_Ok row_current_def active_def
        reference_shown_def key_def split: option.splits sum.splits)
qed


subsection \<open>Examples\<close>

definition sample_scope :: PersonnelScope where
  "sample_scope = \<lparr>ns_tenant = sample_tenant, ns_logins = True, ns_profiles = All, ns_self = 2,
     ns_max_age = 14400, ns_now = 1000\<rparr>"

definition sample_window :: PersonnelWindow where
  "sample_window = \<lparr>pw_generation = 7, pw_valid_until = 1060, pw_now = 1000, pw_expires = 59999999000\<rparr>"

lemma window_world_simps [simp]:
  "w_db session_world = session_db" "w_micros session_world = (\<lambda>_. 1000000000)" "w_instants session_world = int"
  "w_tick session_world = 0" "d_sessions session_db = [user_session]" "d_observations session_db = []"
  "d_guard session_db = [\<lparr>gd_tenant = sample_tenant, gd_profile_sequence = 0\<rparr>]"
  "d_authority session_db = 5" "d_accounts session_db = d_accounts sample_db"
  "d_memberships session_db = d_memberships sample_db" "d_credentials session_db = d_credentials sample_db"
  by (simp_all add: session_world_def session_db_def sample_world_def sample_db_def)

lemma window_sample:
  "read_window L (\<lambda>_ _. 7) sample_tenant (Some 14400) None 500000000000 (Some 1800) session_world
    = Inr (sample_window, session_world\<lparr>w_tick := 2\<rparr>)"
proof -
  have nb: "next_boundary sample_tenant (Some 14400) 1000 session_db = Some 1800"
    by (simp add: next_boundary_def open_sessions_def tenant_observations_def after_now_def sql_least_def
        List.map_filter_def user_session_def)
  show ?thesis
    by (simp add: read_window_def run_simps Let_def nb window_end_def or_max_def saturating_unfold)
      (simp add: window_deadline_def instant_checked_add_def saturating_unfold sample_window_def)
qed

theorem personnel_window_stable_witness:
  "personnel_relation (sample_scope\<lparr>ns_now := 1059\<rparr>) session_db = personnel_relation sample_scope session_db
    \<and> length (personnel_relation sample_scope session_db) = 1
    \<and> session_relation (InstanceId 5) sample_tenant 1059 None session_db
      = session_relation (InstanceId 5) sample_tenant 1000 None session_db"
proof -
  have "length (personnel_relation sample_scope session_db) = 1"
    by (simp add: personnel_relation_def sample_scope_def memberships_of_def credentials_of_def observations_of_def
        left_join_def providers_of_def sample_db_def)
  moreover have "personnel_relation (sample_scope\<lparr>ns_now := 1059\<rparr>) (w_db session_world)
        = personnel_relation sample_scope (w_db session_world)
      \<and> session_relation (InstanceId 5) sample_tenant 1059 None (w_db session_world)
        = session_relation (InstanceId 5) sample_tenant (pw_now sample_window) None (w_db session_world)
      \<and> pw_valid_until sample_window \<le> pw_now sample_window + 60
      \<and> 1000000000000 + (5 - 4) < pw_valid_until sample_window * 1000000000"
    by (rule personnel_window_stable [OF window_sample, where s = sample_scope])
      (simp_all add: sample_window_def sample_scope_def i64_unfold)
  ultimately show ?thesis by (simp add: sample_window_def)
qed

definition sample_reference :: SessionReference where
  "sample_reference = \<lparr>sx_instance = 5, sx_tenant = sample_tenant, sx_principal = 2, sx_session = 3, sx_kind = Cookie\<rparr>"

lemma reference_sample: "is_ok (recheck_reference_body sample_authority sample_tenant sample_reference 500000000000 session_world)"
proof -
  have k: "\<lparr>ak_tenant = sample_tenant, ak_principal = PrincipalId 2\<rparr> = user_key" by (simp add: user_key_def)
  show ?thesis
    by (simp add: recheck_reference_body_def sample_reference_def run_simps k sample_authority_def
        bind_run(1) [where m = "by_id sample_libs user_key (SessionId 3) no_checks", OF by_id_sample [OF session_world_signed_in]]
        user_loaded_def user_view_def SessionView_new_def checked_expiry_def Let_def)
qed


end
