(* ===== verification/Directory_Life.thy ===== *)
theory Directory_Life
  imports Account_Listing Personnel_Sound
begin

section \<open>What the account directory guarantees\<close>

subsection \<open>The order of a listing\<close>

lemma cell_less_irrefl [simp]: "\<not> cell_less x x"
  by (cases x) auto

lemma cell_less_trans: "cell_less x y \<Longrightarrow> cell_less y z \<Longrightarrow> cell_less x z"
  by (cases x; cases y; cases z) auto

lemma column_before_irrefl [simp]: "\<not> column_before s x x"
  by (auto simp: column_before_def)

lemma column_before_trans: "column_before s x y \<Longrightarrow> column_before s y z \<Longrightarrow> column_before s x z"
  by (auto simp: column_before_def split: if_splits intro: cell_less_trans)

lemma precedes_irrefl: "\<not> precedes ss x x"
  by (induction ss) auto

lemma precedes_trans: "precedes ss x y \<Longrightarrow> precedes ss y z \<Longrightarrow> precedes ss x z"
  by (induction ss) (auto dest: column_before_trans)

lemma columns_comparable:
  "column f x = column f y \<or> column_before s (column f x) (column f y) \<or> column_before s (column f y) (column f x)"
  by (cases f) (auto simp: column_before_def text_cell_def split: option.splits)

lemma precedes_total:
  "Field.PrincipalId \<in> so_field ` set ss \<Longrightarrow> ay_principal_id x \<noteq> ay_principal_id y
    \<Longrightarrow> precedes ss x y \<or> precedes ss y x"
proof (induction ss)
  case (Cons s ss)
  from columns_comparable [of "so_field s" x y s]
  show ?case
  proof (elim disjE)
    assume eq: "column (so_field s) x = column (so_field s) y"
    with Cons.prems have "so_field s \<noteq> Field.PrincipalId" by auto
    with Cons eq show ?thesis by auto
  qed auto
qed simp

interpretation listing: row_order precedes "\<lambda>ss. Field.PrincipalId \<in> so_field ` set ss" ay_principal_id
  by unfold_locales (fact precedes_irrefl precedes_trans precedes_total)+

text \<open>The condition that a cursor adds is the order of the listing, from the row it was made at.\<close>

lemma beyond_iff: "holds (beyond s v r) \<longleftrightarrow> column_before s v (column (so_field s) r)"
  by (auto simp: beyond_def column_before_def holds_rel cell_def)

lemma after_terms_iff:
  "(\<exists>t\<in>set (after_terms prefix (map (\<lambda>s. (s, column (so_field s) x)) ss) r). holds t) \<longleftrightarrow>
    (\<forall>(s, v)\<in>set prefix. column (so_field s) r = v) \<and> precedes ss x r"
proof (induction ss arbitrary: prefix)
  case (Cons s ss)
  show ?case by (auto simp: Cons beyond_iff)
qed simp

lemma after_position_iff:
  "holds (after_position ss (map (\<lambda>s. column (so_field s) x) ss) r) \<longleftrightarrow> precedes ss x r"
proof -
  have "zip ss (map (\<lambda>s. column (so_field s) x) ss) = map (\<lambda>s. (s, column (so_field s) x)) ss"
    by (simp add: zip_map2 zip_same_conv_map)
  with after_terms_iff [of "[]" x ss r] show ?thesis by (simp add: after_position_def)
qed

text \<open>A position that a row gives passes the check of its types.\<close>

lemma position_fits_columns: "position_fits ss (map (\<lambda>s. column (so_field s) x) ss)"
proof -
  have "v = Null \<or> (if field_boolean f then is_bool v else is_string v)" if "v = column f x" for f v
    using that by (cases f) (auto simp: field_boolean_def text_cell_def split: option.splits)
  then show ?thesis
    by (fastforce simp: position_fits_def list_ex_iff set_zip)
qed

subsection \<open>One row for an account\<close>

definition single :: "'r list \<Rightarrow> bool" where "single t \<longleftrightarrow> length t \<le> 1"

lemma single_simps [simp]: "single []" "single [x]" "single (left_join t) \<longleftrightarrow> single t"
  "single (map h t) \<longleftrightarrow> single t"
  by (auto simp: single_def left_join_def)

lemma single_concat:
  assumes "single t" "\<And>x. x \<in> set t \<Longrightarrow> single (f x)" shows "single (concat (map f t))"
proof (cases t)
  case (Cons x u)
  with assms show ?thesis by (cases u) (auto simp: single_def)
qed simp

lemma single_filter:
  assumes "unique_on k t" "\<And>r s. P r \<Longrightarrow> P s \<Longrightarrow> k r = k s"
  shows "single (filter P t)"
  using assms
proof (induction t)
  case (Cons x t)
  show ?case
  proof (cases "P x")
    case True
    have "\<not> P y" if "y \<in> set t" for y
    proof
      assume "P y"
      with Cons.prems(2) True have "k x = k y" by blast
      with Cons.prems(1) that show False by (auto simp: unique_on_insert)
    qed
    then have "filter P t = []" by (simp add: filter_empty_conv)
    with True show ?thesis by simp
  next
    case False
    have "unique_on k t" using Cons.prems(1) by (simp add: unique_on_insert)
    from Cons.IH [OF this Cons.prems(2)] have "single (filter P t)" .
    with False show ?thesis by simp
  qed
qed simp

lemma distinct_concat_keys:
  assumes "distinct (map g xs)" "\<And>x. x \<in> set xs \<Longrightarrow> single (f x)" "\<And>x r. x \<in> set xs \<Longrightarrow> r \<in> set (f x) \<Longrightarrow> k r = g x"
  shows "distinct (map k (concat (map f xs)))"
  using assms
proof (induction xs)
  case (Cons x xs)
  have "distinct (map k (f x))" using Cons.prems(2) [of x] by (cases "f x") (auto simp: single_def)
  moreover have "k r \<noteq> k s" if "r \<in> set (f x)" "y \<in> set xs" "s \<in> set (f y)" for r s y
  proof -
    have "k r = g x" "k s = g y" using that Cons.prems(3) [of x r] Cons.prems(3) [of y s] by simp_all
    with that(2) Cons.prems(1) show ?thesis by auto
  qed
  then have "k ` set (f x) \<inter> k ` (\<Union>y\<in>set xs. set (f y)) = {}" by blast
  moreover have "distinct (map k (concat (map f xs)))"
    using Cons.prems by (intro Cons.IH) simp_all
  ultimately show ?case by simp
qed simp

text \<open>The primary keys of the tables that the relation joins.\<close>

definition directory_keys :: "Libraries \<Rightarrow> db \<Rightarrow> bool" where
  "directory_keys L d \<longleftrightarrow> accounts_ok d
    \<and> unique_on (\<lambda>r. (pv_tenant r, pv_provider r)) (d_providers d)
    \<and> unique_on (\<lambda>r. (ei_tenant r, ei_identity r)) (d_identities d)
    \<and> unique_on (\<lambda>r. (ob_tenant r, ob_principal r, profile_source_key L (ob_source r))) (d_observations d)"

lemma joined_single:
  assumes "directory_keys L d"
  shows "single (memberships_of d a)" "single (credentials_of d a)" "single (source_observations L q d a)"
    "single (providers_of d v)" "single (latest_facts L q d a)" "single (facts_identities d a s)"
    "single (identity_providers d e)"
proof -
  show "single (memberships_of d a)"
    unfolding memberships_of_def using assms
    by (intro single_filter [where k = "\<lambda>r. (mb_tenant r, mb_principal r)"]) (auto simp: directory_keys_def accounts_ok_def)
  show "single (credentials_of d a)"
    unfolding credentials_of_def single_simps using assms
    by (intro single_filter [where k = "\<lambda>r. (lc_tenant r, lc_principal r)"]) (auto simp: directory_keys_def accounts_ok_def)
  show "single (source_observations L q d a)"
    unfolding source_observations_def using assms
    by (intro single_filter [where k = "\<lambda>r. (ob_tenant r, ob_principal r, profile_source_key L (ob_source r))"])
      (auto simp: directory_keys_def dest: sym)
  show "single (providers_of d v)"
    unfolding providers_of_def using assms
    by (cases v) (auto simp: directory_keys_def intro!: single_filter [where k = "\<lambda>r. (pv_tenant r, pv_provider r)"])
  show "single (latest_facts L q d a)"
    by (simp add: latest_facts_def split: option.split)
  show "single (facts_identities d a s)"
    unfolding facts_identities_def using assms
    by (cases s) (auto simp: directory_keys_def dest: sym intro!: single_filter [where k = "\<lambda>r. (ei_tenant r, ei_identity r)"])
  show "single (identity_providers d e)"
    unfolding identity_providers_def using assms
    by (cases e) (auto simp: directory_keys_def intro!: single_filter [where k = "\<lambda>r. (pv_tenant r, pv_provider r)"])
qed

lemma account_rows_distinct:
  assumes "directory_keys L d" "inj (xl_show_uuid L)"
  shows "distinct (map ay_principal_id (account_rows L q d))"
  unfolding account_rows_def
proof (rule distinct_concat_keys [where g = "\<lambda>a. xl_show_uuid L (ac_principal a)"])
  have "unique_on (\<lambda>r. (ac_tenant r, ac_principal r)) (filter (\<lambda>a. ac_tenant a = dq_tenant q) (d_accounts d))"
    using assms(1) by (auto simp: directory_keys_def accounts_ok_def unique_on_def distinct_map_filter)
  then show "distinct (map (\<lambda>a. xl_show_uuid L (ac_principal a)) (filter (\<lambda>a. ac_tenant a = dq_tenant q) (d_accounts d)))"
    using assms(2) by (auto simp: unique_on_def distinct_map inj_on_def dest: injD)
qed (intro single_concat joined_single [OF assms(1)] single_simps(2) single_simps(3,4) [THEN iffD2],
    auto simp: directory_row_def Let_def)

subsection \<open>The directory over time\<close>

lemma latest_of_source_Some:
  assumes "latest_of_source L tenant source who d = Some r"
  shows "r \<in> set (d_sessions d)" "from_source L tenant source d r" "se_principal r = who"
proof -
  let ?P = "\<lambda>r. from_source L tenant source d r \<and> se_principal r = who"
  from assms obtain rs where "sort_key facts_order (filter ?P (d_sessions d)) = r # rs"
    by (auto simp: latest_of_source_def split: list.splits)
  then have "r \<in> set (sort_key facts_order (filter ?P (d_sessions d)))" by simp
  then show "r \<in> set (d_sessions d)" "from_source L tenant source d r" "se_principal r = who" by auto
qed

lemma department_boundary_le:
  assumes "latest_of_source L tenant source who d = Some r" "x \<in> set (department_times r)" "t < x"
  shows "\<exists>m. department_boundary L tenant source t d = Some m \<and> m \<le> x"
  unfolding department_boundary_def
proof (rule after_now_le [OF _ assms(3)])
  have "who \<in> set (map se_principal (filter (from_source L tenant source d) (d_sessions d)))"
    using latest_of_source_Some [OF assms(1)] by auto
  then show "x \<in> set (concat (map department_times (List.map_filter (\<lambda>who. latest_of_source L tenant source who d)
      (remdups (map se_principal (filter (from_source L tenant source d) (d_sessions d)))))))"
    using assms(1,2) by (force simp: List.map_filter_def)
qed

lemma department_side:
  assumes "latest_of_source L tenant source who d = Some r" "x \<in> set (department_times r)"
    "s \<le> t" "t < e" "e \<le> or_max (department_boundary L tenant source s d)"
  shows "x \<le> t \<longleftrightarrow> x \<le> s"
  using window_side [OF department_boundary_le [OF assms(1,2)] assms(3-5)] .

text \<open>The end of a window is no later than the boundaries of the data it was asked for.\<close>

definition within_window :: "Libraries \<Rightarrow> DirectoryScope \<Rightarrow> int \<Rightarrow> db \<Rightarrow> bool" where
  "within_window L q e d \<longleftrightarrow>
    (dq_profiles q \<longrightarrow> e \<le> or_max (next_boundary (dq_tenant q) (Some (dq_max_age q)) (dq_now q) d)
       \<and> (\<forall>r\<in>set (tenant_observations (dq_tenant q) d). ob_observed r \<le> dq_now q))
    \<and> (\<forall>source. dq_departments q \<and> dq_source q = Some source \<longrightarrow>
         e \<le> or_max (department_boundary L (dq_tenant q) source (dq_now q) d))"

lemma profile_status_stable:
  assumes "within_window L q e d" "dq_now q \<le> t" "t < e"
    and "case v of None \<Rightarrow> True | Some r \<Rightarrow> r \<in> set (tenant_observations (dq_tenant q) d)"
  shows "directory_profile_status (q\<lparr>dq_now := t\<rparr>) d active_now v p = directory_profile_status q d active_now v p"
proof (cases "dq_profiles q")
  case True
  show ?thesis
  proof (cases v)
    case (Some r)
    with assms True have r: "r \<in> set (tenant_observations (dq_tenant q) d)" "ob_observed r \<le> dq_now q"
      "e \<le> or_max (next_boundary (dq_tenant q) (Some (dq_max_age q)) (dq_now q) d)"
      by (auto simp: within_window_def)
    have "observation_end (dq_max_age q) r \<le> t \<longleftrightarrow> observation_end (dq_max_age q) r \<le> dq_now q"
      by (rule observation_side [OF r(1) assms(2,3) r(3)])
    moreover have "\<not> ob_observed r > dq_now q" "\<not> ob_observed r > t" using r(2) assms(2) by auto
    ultimately have "observation_end (dq_max_age q) r \<le> t \<longleftrightarrow> observation_end (dq_max_age q) r \<le> dq_now q"
      "\<not> ob_observed r > dq_now q" "\<not> ob_observed r > t" by blast+
    with Some show ?thesis by (simp add: directory_profile_status_def cong: if_cong)
  qed (simp add: directory_profile_status_def)
qed (simp add: directory_profile_status_def)

lemma latest_facts_Some:
  assumes "r \<in> set (latest_facts L q d a)"
  shows "\<exists>source. dq_source q = Some source \<and> latest_of_source L (ac_tenant a) source (ac_principal a) d = Some r"
proof (rule ccontr)
  assume no: "\<not> ?thesis"
  have "r \<notin> set (latest_facts L q d a)"
  proof (cases "dq_source q")
    case (Some source)
    with no have "latest_of_source L (ac_tenant a) source (ac_principal a) d \<noteq> Some r" by simp
    then have "r \<notin> set (case latest_of_source L (ac_tenant a) source (ac_principal a) d of None \<Rightarrow> [] | Some r \<Rightarrow> [r])"
      by (cases "latest_of_source L (ac_tenant a) source (ac_principal a) d") auto
    with Some show ?thesis by (cases "dq_departments q") (simp_all add: latest_facts_def)
  qed (simp add: latest_facts_def)
  with assms show False by contradiction
qed

lemma department_status_stable:
  assumes "within_window L q e d" "dq_now q \<le> t" "t < e" "s \<in> set (left_join (latest_facts L q d a))"
    and "ac_tenant a = dq_tenant q"
  shows "directory_department_status (q\<lparr>dq_now := t\<rparr>) a m s p = directory_department_status q a m s p"
proof (cases "dq_departments q \<and> s \<noteq> None")
  case True
  then obtain r where r: "s = Some r" "r \<in> set (latest_facts L q d a)" using assms(4) by (auto dest: left_join_Some)
  from latest_facts_Some [OF r(2)] obtain source where src: "dq_source q = Some source"
    "latest_of_source L (dq_tenant q) source (ac_principal a) d = Some r"
    unfolding assms(5) by blast
  with assms(1) True have e: "e \<le> or_max (department_boundary L (dq_tenant q) source (dq_now q) d)"
    by (simp add: within_window_def)
  have "x \<le> t \<longleftrightarrow> x \<le> dq_now q" if "x \<in> set (department_times r)" for x
    using department_side [OF src(2) that assms(2,3) e] .
  note side = this
  show ?thesis
  proof (cases "se_facts r")
    case (Some facts)
    show ?thesis
    proof (cases "af_department_snapshot facts")
      case (Available i x y v)
      with side [of x] side [of y] Some r(1) show ?thesis
        by (simp add: directory_department_status_def department_times_def not_le [symmetric] cong: if_cong)
    qed (simp add: directory_department_status_def Some r(1))
  qed (simp add: directory_department_status_def r(1))
qed (auto simp: directory_department_status_def)

lemma account_rows_stable:
  assumes "within_window L q e d" "dq_now q \<le> t" "t < e"
  shows "account_rows L (q\<lparr>dq_now := t\<rparr>) d = account_rows L q d"
proof -
  have row: "directory_row L (q\<lparr>dq_now := t\<rparr>) d a m l v p s dp = directory_row L q d a m l v p s dp"
    if "ac_tenant a = dq_tenant q" "v \<in> set (left_join (source_observations L q d a))"
      "s \<in> set (left_join (latest_facts L q d a))" for a m l v p s dp
  proof -
    have "case v of None \<Rightarrow> True | Some r \<Rightarrow> r \<in> set (tenant_observations (dq_tenant q) d)"
      using that(1,2) by (auto simp: source_observations_def tenant_observations_def split: option.split dest: left_join_Some)
    from profile_status_stable [OF assms this] department_status_stable [OF assms that(3,1)]
    show ?thesis by (simp add: directory_row_def)
  qed
  have same: "source_observations L (q\<lparr>dq_now := t\<rparr>) d a = source_observations L q d a"
    "latest_facts L (q\<lparr>dq_now := t\<rparr>) d a = latest_facts L q d a" for a
    by (simp_all add: source_observations_def latest_facts_def split: option.split)
  show ?thesis
    unfolding account_rows_def same
    by (intro arg_cong [of _ _ concat] map_cong refl) (auto intro!: row)
qed

subsection \<open>What the generation watches\<close>

text \<open>The tables of a tenant whose changes advance the generation, without the columns of a session
  that change with its use and that no row of the directory depends on.\<close>

definition watched_session :: "session_row \<Rightarrow> session_row" where
  "watched_session r = r\<lparr>se_hash := [], se_idle_expires := 0, se_profile_source := None, se_profile_snapshot := None\<rparr>"

definition watched :: "TenantId \<Rightarrow> db \<Rightarrow> db" where
  "watched tenant d =
    \<lparr>d_authority = 0, d_guard = [], d_accounts = filter (\<lambda>r. ac_tenant r = tenant) (d_accounts d),
     d_credentials = filter (\<lambda>r. lc_tenant r = tenant) (d_credentials d),
     d_memberships = filter (\<lambda>r. mb_tenant r = tenant) (d_memberships d), d_attempts = [], d_passwords = [],
     d_providers = filter (\<lambda>r. pv_tenant r = tenant) (d_providers d),
     d_identities = filter (\<lambda>r. ei_tenant r = tenant) (d_identities d),
     d_sessions = map watched_session (filter (\<lambda>r. se_tenant r = tenant) (d_sessions d)), d_oidc = [], d_links = [],
     d_local_profiles = [], d_observations = filter (\<lambda>r. ob_tenant r = tenant) (d_observations d),
     d_profile_operations = [], d_webauthn_rp = [], d_webauthn_credentials = [],
     d_webauthn_accounts = [], d_ceremonies = [], d_sealed = [], d_grants = [], d_challenges = [],
     d_audit = []\<rparr>"

lemma filter_narrow: "(\<And>x. P x \<Longrightarrow> Q x) \<Longrightarrow> filter P (filter Q xs) = filter P xs"
  by (induction xs) auto

lemma list_ex_narrow: "(\<And>x. P x \<Longrightarrow> Q x) \<Longrightarrow> list_ex P (filter Q xs) = list_ex P xs"
  by (induction xs) auto

lemma watched_session_simps [simp]:
  "se_tenant (watched_session r) = se_tenant r" "se_principal (watched_session r) = se_principal r"
  "se_identity (watched_session r) = se_identity r" "se_facts (watched_session r) = se_facts r"
  "se_provider_epoch (watched_session r) = se_provider_epoch r"
  "se_auth_epoch (watched_session r) = se_auth_epoch r"
  "se_membership_epoch (watched_session r) = se_membership_epoch r"
  "facts_order (watched_session r) = facts_order r"
  by (simp_all add: watched_session_def facts_order_def)

lemma insort_key_map: "(\<And>x. k (f x) = k x) \<Longrightarrow> map f (insort_key k x xs) = insort_key k (f x) (map f xs)"
  by (induction xs) auto

lemma sort_key_map: "(\<And>x. k (f x) = k x) \<Longrightarrow> map f (sort_key k xs) = sort_key k (map f xs)"
  by (induction xs) (simp_all add: insort_key_map)

lemma from_source_watched: "from_source L tenant source (watched tenant d) (watched_session r) = from_source L tenant source d r"
  by (auto simp: from_source_def watched_def list_ex_iff)

lemma latest_watched:
  "latest_of_source L tenant source who (watched tenant d) = map_option watched_session (latest_of_source L tenant source who d)"
proof -
  let ?P = "\<lambda>e r. from_source L tenant source e r \<and> se_principal r = who"
  have "filter (?P (watched tenant d)) (map watched_session (filter (\<lambda>r. se_tenant r = tenant) (d_sessions d)))
      = map watched_session (filter (?P d) (filter (\<lambda>r. se_tenant r = tenant) (d_sessions d)))"
    by (simp add: filter_map comp_def from_source_watched)
  also have "filter (?P d) (filter (\<lambda>r. se_tenant r = tenant) (d_sessions d)) = filter (?P d) (d_sessions d)"
    by (rule filter_narrow) (simp add: from_source_def)
  finally have "sort_key facts_order (filter (?P (watched tenant d)) (d_sessions (watched tenant d)))
      = map watched_session (sort_key facts_order (filter (?P d) (d_sessions d)))"
    by (simp add: sort_key_map watched_def)
  then show ?thesis by (simp add: latest_of_source_def split: list.split)
qed

lemma directory_row_watched: "directory_row L q d a m l v p (map_option watched_session s) dp = directory_row L q d a m l v p s dp"
proof -
  have "department_live a m (watched_session r) dp = department_live a m r dp" for r
    by (simp add: department_live_def)
  then have status: "directory_department_status q a m (map_option watched_session s) dp = directory_department_status q a m s dp"
    by (cases s) (simp_all add: directory_department_status_def cong: if_cong option.case_cong)
  have snapshot: "snapshot_of (map_option watched_session s) = snapshot_of s"
    by (cases s) (simp_all add: snapshot_of_def)
  show ?thesis unfolding directory_row_def status snapshot ..
qed

lemma left_join_map: "left_join (map f t) = map (map_option f) (left_join t)"
  by (simp add: left_join_def)

lemma joins_watched:
  assumes "ac_tenant a = tenant"
  shows "memberships_of (watched tenant d) a = memberships_of d a"
    "credentials_of (watched tenant d) a = credentials_of d a"
    "source_observations L q (watched tenant d) a = source_observations L q d a"
    "latest_facts L q (watched tenant d) a = map watched_session (latest_facts L q d a)"
    "facts_identities (watched tenant d) a (map_option watched_session s) = facts_identities d a s"
proof -
  show "memberships_of (watched tenant d) a = memberships_of d a"
    "credentials_of (watched tenant d) a = credentials_of d a"
    "source_observations L q (watched tenant d) a = source_observations L q d a"
    using assms by (auto simp: memberships_of_def credentials_of_def source_observations_def watched_def
        intro!: filter_narrow arg_cong [of _ _ left_join])
  show "latest_facts L q (watched tenant d) a = map watched_session (latest_facts L q d a)"
    using assms by (simp add: latest_facts_def latest_watched split: option.split)
  show "facts_identities (watched tenant d) a (map_option watched_session s) = facts_identities d a s"
    using assms by (cases s) (auto simp: facts_identities_def watched_def intro!: filter_narrow)
qed

lemma providers_watched:
  "(case v of None \<Rightarrow> True | Some r \<Rightarrow> ob_tenant r = tenant) \<Longrightarrow> providers_of (watched tenant d) v = providers_of d v"
  "(case e of None \<Rightarrow> True | Some i \<Rightarrow> ei_tenant i = tenant) \<Longrightarrow> identity_providers (watched tenant d) e = identity_providers d e"
  by (cases v; cases e; auto simp: providers_of_def identity_providers_def watched_def intro!: filter_narrow)+

lemma row_watched:
  assumes "case v of None \<Rightarrow> True | Some r \<Rightarrow> ob_tenant r = tenant"
  shows "directory_row L q (watched tenant d) a m l v p s dp = directory_row L q d a m l v p s dp"
proof -
  have live: "source_live (watched tenant d) v p = source_live d v p"
  proof (cases v)
    case (Some r)
    have "linked_to (watched tenant d) r = linked_to d r"
      using assms Some by (auto simp: linked_to_def watched_def list_ex_iff)
    with Some show ?thesis by (simp add: source_live_def)
  qed (simp add: source_live_def)
  show ?thesis unfolding directory_row_def directory_profile_status_def live ..
qed

definition source_rows where
  "source_rows L q d a m l v =
    [directory_row L q d a m l v p s dp.
       p \<leftarrow> left_join (providers_of d v), s \<leftarrow> left_join (latest_facts L q d a),
       e \<leftarrow> left_join (facts_identities d a s), dp \<leftarrow> left_join (identity_providers d e)]"

lemma account_rows_nested:
  "account_rows L q d =
    concat (map (\<lambda>a. concat (map (\<lambda>m. concat (map (\<lambda>l.
      concat (map (source_rows L q d a m l) (left_join (source_observations L q d a))))
      (credentials_of d a))) (memberships_of d a)))
      (filter (\<lambda>a. ac_tenant a = dq_tenant q) (d_accounts d)))"
  unfolding account_rows_def source_rows_def [abs_def] ..

text \<open>The directory depends on the watched tables only.\<close>

lemma source_rows_watched:
  assumes a: "ac_tenant a = tenant"
    and v: "case v of None \<Rightarrow> True | Some r \<Rightarrow> ob_tenant r = tenant"
  shows "source_rows L q (watched tenant d) a m l v = source_rows L q d a m l v"
proof -
  have e: "identity_providers (watched tenant d) e = identity_providers d e"
    if "e \<in> set (left_join (facts_identities d a s))" for e s
    using that a by (intro providers_watched(2)) (auto simp: facts_identities_def split: option.splits dest!: left_join_Some)
  show ?thesis
    unfolding source_rows_def joins_watched(4) [OF a] left_join_map providers_watched(1) [OF v] map_map comp_def
      joins_watched(5) [OF a] row_watched [OF v] directory_row_watched
    by (intro arg_cong [of _ _ concat] map_cong refl) (auto simp: e)
qed

lemma account_rows_watched: "account_rows L q (watched (dq_tenant q) d) = account_rows L q d"
proof -
  let ?t = "dq_tenant q"
  have accounts: "filter (\<lambda>a. ac_tenant a = ?t) (d_accounts (watched ?t d)) = filter (\<lambda>a. ac_tenant a = ?t) (d_accounts d)"
    by (simp add: watched_def)
  have sources: "map (source_rows L q (watched ?t d) a m l) (left_join (source_observations L q d a))
      = map (source_rows L q d a m l) (left_join (source_observations L q d a))"
    if a: "ac_tenant a = ?t" for a m l
    using a by (intro map_cong refl source_rows_watched)
      (auto simp: source_observations_def split: option.split dest: left_join_Some)
  have account: "concat (map (\<lambda>m. concat (map (\<lambda>l.
      concat (map (source_rows L q (watched ?t d) a m l) (left_join (source_observations L q (watched ?t d) a))))
      (credentials_of (watched ?t d) a))) (memberships_of (watched ?t d) a))
    = concat (map (\<lambda>m. concat (map (\<lambda>l.
      concat (map (source_rows L q d a m l) (left_join (source_observations L q d a))))
      (credentials_of d a))) (memberships_of d a))"
    if a: "ac_tenant a = ?t" for a
    unfolding joins_watched(1-3) [OF a] sources [OF a] ..
  show ?thesis
    unfolding account_rows_nested accounts
    by (intro arg_cong [of _ _ concat] map_cong refl account) simp
qed

end
