(* ===== verification/Account_Paging.thy ===== *)
theory Account_Paging
  imports Directory_Life Account_Life
begin

section \<open>Paging through the account directory\<close>

text \<open>
  A listing that follows its cursors, over requests that each see a database of their own at a time
  of their own. A request is the call with its deadline, the state it ran in, the window and the
  position it computed, and the page it returned.
\<close>

record request =
  rq_budget :: instant
  rq_world :: world
  rq_window :: PersonnelWindow
  rq_seek :: "Cursor option"
  rq_page :: AccountPage

abbreviation rq_db :: "request \<Rightarrow> db" where "rq_db r \<equiv> w_db (rq_world r)"

definition rq_binding :: "Authority \<Rightarrow> DirectoryLibrary \<Rightarrow> AuthenticatedSession \<Rightarrow> AccountQuery \<Rightarrow> request \<Rightarrow> byte list" where
  "rq_binding a lib actor q r = cursor_binding a lib actor q (sv_id (px_view actor)) (pw_generation (rq_window r))"

definition rq_rows :: "Authority \<Rightarrow> DirectoryLibrary \<Rightarrow> AuthenticatedSession \<Rightarrow> AccountQuery \<Rightarrow> request \<Rightarrow> AccountDirectoryRow list" where
  "rq_rows a lib actor q r =
    page_rows a lib (ak_tenant (px_key actor)) q (pw_now (rq_window r)) (rq_seek r) (rq_db r)"

definition rq_next :: "Authority \<Rightarrow> DirectoryLibrary \<Rightarrow> AuthenticatedSession \<Rightarrow> AccountQuery \<Rightarrow> request \<Rightarrow> Cursor option" where
  "rq_next a lib actor q r =
    page_cursor q (rq_binding a lib actor q r) (pw_valid_until (rq_window r)) (rq_rows a lib actor q r)"

definition served ::
  "Authority \<Rightarrow> DirectoryLibrary \<Rightarrow> AuthenticatedSession \<Rightarrow> AccountQuery \<Rightarrow> ustr option \<Rightarrow> request \<Rightarrow> bool" where
  "served a lib actor q cursor r \<longleftrightarrow>
    (\<exists>l w'. open_listing a lib actor q (rq_budget r) (rq_world r) = Inr ((l, rq_window r), w'))
    \<and> read_seek (au_libs a) lib q (rq_binding a lib actor q r) (pw_now (rq_window r)) cursor = Ok (rq_seek r)
    \<and> (\<exists>w'. list_accounts_body a lib actor q cursor (rq_budget r) (rq_world r) = Inr (rq_page r, w'))"

text \<open>Every request after the first follows the cursor of the page before it, and no clock goes back.\<close>

fun listing_served ::
  "Authority \<Rightarrow> DirectoryLibrary \<Rightarrow> AuthenticatedSession \<Rightarrow> AccountQuery \<Rightarrow> ustr option \<Rightarrow> request list \<Rightarrow> bool" where
  "listing_served a lib actor q cursor [] \<longleftrightarrow> True"
| "listing_served a lib actor q cursor (r # rs) \<longleftrightarrow> served a lib actor q cursor r
    \<and> (rs = [] \<or> ag_next_cursor (rq_page r) \<noteq> None \<and> pw_now (rq_window r) \<le> pw_now (rq_window (hd rs))
        \<and> listing_served a lib actor q (ag_next_cursor (rq_page r)) rs)"

definition rq_scope :: "Authority \<Rightarrow> AuthenticatedSession \<Rightarrow> AccountQuery \<Rightarrow> request \<Rightarrow> DirectoryScope" where
  "rq_scope a actor q r = directory_scope a (ak_tenant (px_key actor)) q (pw_now (rq_window r))"

text \<open>The rows that the query selects, in its order: what the whole listing is to show.\<close>

definition rq_directory :: "Authority \<Rightarrow> DirectoryLibrary \<Rightarrow> AuthenticatedSession \<Rightarrow> AccountQuery \<Rightarrow> request \<Rightarrow> AccountDirectoryRow list" where
  "rq_directory a lib actor q r =
    order_by (precedes (aq_sort q)) (filter (\<lambda>x. holds (selects lib q x)) (account_rows (au_libs a) (rq_scope a actor q r) (rq_db r)))"

text \<open>What the schema and the clocks keep, the generation, and the codecs of the cursors.\<close>

definition directory_contract ::
  "Authority \<Rightarrow> DirectoryLibrary \<Rightarrow> AuthenticatedSession \<Rightarrow> AccountQuery \<Rightarrow> request set \<Rightarrow> bool" where
  "directory_contract a lib actor q rs \<longleftrightarrow>
    authority_contract a \<and> checks_contract (px_checks actor)
    \<and> inj (xl_show_uuid (au_libs a))
    \<and> (\<forall>b. xl_decode (au_libs a) (xl_encode (au_libs a) b) = Some b)
    \<and> (\<forall>k b. length (xl_hmac (au_libs a) k b) = 32)
    \<and> (\<forall>r\<in>rs. directory_keys (au_libs a) (rq_db r)
        \<and> (\<forall>v\<in>set (tenant_observations (ak_tenant (px_key actor)) (rq_db r)). ob_observed v \<le> pw_now (rq_window r))
        \<and> (\<forall>c. rq_next a lib actor q r = Some c \<longrightarrow> dl_cursor_parse lib (dl_cursor_json lib c) = Some c))
    \<and> (\<forall>r\<in>rs. \<forall>s\<in>rs.
        (rq_binding a lib actor q r = rq_binding a lib actor q s \<longrightarrow> pw_generation (rq_window r) = pw_generation (rq_window s))
        \<and> (dl_revision lib (ak_tenant (px_key actor)) (rq_db r) = dl_revision lib (ak_tenant (px_key actor)) (rq_db s)
            \<longrightarrow> watched (ak_tenant (px_key actor)) (rq_db r) = watched (ak_tenant (px_key actor)) (rq_db s)))"

lemma dq_tenant_rq_scope [simp]: "dq_tenant (rq_scope a actor q r) = ak_tenant (px_key actor)"
  by (simp add: rq_scope_def directory_scope_def)

subsection \<open>One request\<close>

lemma authorize_each_reads: "policy_contract (au_policy a) \<Longrightarrow> reads_only (authorize_each a l ops)"
  by (induction ops) (auto intro!: pure.steps authorize_reads)

lemma or_max_earlier:
  assumes "e \<le> or_max (earlier x y)" "e \<le> i64_max" shows "e \<le> or_max x" "e \<le> or_max y"
  using assms by (auto simp: earlier_def or_max_def split: option.splits if_splits)

lemma open_listing_Inr:
  assumes "open_listing a lib actor q budget w = Inr ((l, win), w')"
    and "authority_contract a" "checks_contract (px_checks actor)"
  shows "sv_id (ld_view l) = sv_id (px_view actor)" "w_db w' = w_db w"
    "pw_generation win = dl_revision lib (ak_tenant (px_key actor)) (w_db w)"
    "needs_profiles q \<Longrightarrow> pw_valid_until win
      \<le> or_max (next_boundary (ak_tenant (px_key actor)) (Some (int (pl_max_age (au_limits a)))) (pw_now win) (w_db w))"
    "needs_departments q \<Longrightarrow> aq_source q = Some source \<Longrightarrow> pw_valid_until win
      \<le> or_max (department_boundary (au_libs a) (ak_tenant (px_key actor)) source (pw_now win) (w_db w))"
proof -
  from assms(1) obtain w1 w2 where r: "recheck (au_libs a) actor w = Inr (l, w1)"
    and z: "authorize_each a l (listing_operations q) w1 = Inr ((), w2)"
    and win: "listing_window a lib actor q budget l w2 = Inr (win, w')"
    unfolding open_listing_def by (auto elim!: bindE)
  have policy: "policy_contract (au_policy a)" using assms(2) by (simp add: authority_contract_def)
  have d: "w_db w2 = w_db w"
    using reads_onlyD [OF recheck_reads [OF assms(3)] r] reads_onlyD [OF authorize_each_reads [OF policy] z] by simp
  show "sv_id (ld_view l) = sv_id (px_view actor)" using recheck_Inr [OF r] by blast
  from read_window_Inr [OF win [unfolded listing_window_def]] obtain nb where w:
    "pw_generation win = dl_revision lib (ak_tenant (px_key actor)) (w_db w2)"
    "pw_valid_until win = window_end nb (Some (actor_end l)) (pw_now win)"
    "nb = (case (if needs_departments q then aq_source q else None) of
        None \<Rightarrow> next_boundary (ak_tenant (px_key actor)) (if needs_profiles q then Some (int (pl_max_age (au_limits a))) else None) (pw_now win) (w_db w2)
      | Some s \<Rightarrow> earlier (next_boundary (ak_tenant (px_key actor)) (if needs_profiles q then Some (int (pl_max_age (au_limits a))) else None) (pw_now win) (w_db w2))
          (department_boundary (au_libs a) (ak_tenant (px_key actor)) s (pw_now win) (w_db w2)))"
    "w_db w' = w_db w2"
    by blast
  show "w_db w' = w_db w" using w(4) d by simp
  show "pw_generation win = dl_revision lib (ak_tenant (px_key actor)) (w_db w)" using w(1) d by simp
  have e: "pw_valid_until win \<le> or_max nb" "pw_valid_until win \<le> i64_max"
    using w(2) window_end_le(1,3) [of nb "Some (actor_end l)" "pw_now win"] by (auto simp: saturating_unfold)
  show "pw_valid_until win
      \<le> or_max (next_boundary (ak_tenant (px_key actor)) (Some (int (pl_max_age (au_limits a)))) (pw_now win) (w_db w))"
    if "needs_profiles q"
    using w(3) e or_max_earlier(1) [OF _ e(2)] that unfolding d
    by (cases "if needs_departments q then aq_source q else None") auto
  show "pw_valid_until win
      \<le> or_max (department_boundary (au_libs a) (ak_tenant (px_key actor)) source (pw_now win) (w_db w))"
    if "needs_departments q" "aq_source q = Some source"
    using w(3) e or_max_earlier(2) [OF _ e(2)] that unfolding d by simp
qed

lemma try_from_same: "DepartmentSnapshot_try_from s = Inr x \<Longrightarrow> x = s"
  by (cases s) (auto simp: DepartmentSnapshot_try_from_def DepartmentSnapshot_new_Ok split: if_splits)

lemma decode_rows_same: "decode_rows rs = Ok xs \<Longrightarrow> xs = rs"
proof (induction rs arbitrary: xs)
  case (Cons r rs)
  from Cons.prems obtain snapshot rest where
    "snapshot = ay_department_snapshot r" "decode_rows rs = Ok rest" "xs = r\<lparr>ay_department_snapshot := snapshot\<rparr> # rest"
    by (auto simp: and_then_Inr_iff dest!: try_from_same split: option.splits)
  with Cons.IH show ?case by simp
qed simp

lemma served_Inr:
  assumes "served a lib actor q cursor r" "authority_contract a" "checks_contract (px_checks actor)"
  shows "ag_accounts (rq_page r) = take (aq_limit q) (rq_rows a lib actor q r)"
    "ag_next_cursor (rq_page r) = map_option (encode_cursor (au_libs a) lib) (rq_next a lib actor q r)"
proof -
  from assms(1) obtain l w1 w' where o: "open_listing a lib actor q (rq_budget r) (rq_world r) = Inr ((l, rq_window r), w1)"
    and seek: "read_seek (au_libs a) lib q (rq_binding a lib actor q r) (pw_now (rq_window r)) cursor = Ok (rq_seek r)"
    and body: "list_accounts_body a lib actor q cursor (rq_budget r) (rq_world r) = Inr (rq_page r, w')"
    by (auto simp: served_def)
  note opened = open_listing_Inr [OF o assms(2,3)]
  have b: "cursor_binding a lib actor q (sv_id (ld_view l)) (pw_generation (rq_window r)) = rq_binding a lib actor q r"
    by (simp add: rq_binding_def opened(1))
  from body have "\<exists>accounts. decode_rows (take (aq_limit q) (rq_rows a lib actor q r)) = Ok accounts
    \<and> rq_page r = \<lparr>ag_accounts = accounts, ag_fields = aq_fields q,
        ag_next_cursor = map_option (encode_cursor (au_libs a) lib) (rq_next a lib actor q r)\<rparr>"
    unfolding list_accounts_body_def Let_def bind_run(1) [where m = "open_listing a lib actor q (rq_budget r)", OF o]
      prod.case b seek
    by (auto simp: run_simps rq_rows_def rq_next_def opened(2) lift_def elim!: bindE split: sum.splits if_splits)
  then show "ag_accounts (rq_page r) = take (aq_limit q) (rq_rows a lib actor q r)"
    "ag_next_cursor (rq_page r) = map_option (encode_cursor (au_libs a) lib) (rq_next a lib actor q r)"
    by (auto dest: decode_rows_same)
qed

lemma served_window:
  assumes "served a lib actor q cursor r" "authority_contract a" "checks_contract (px_checks actor)"
  shows "pw_generation (rq_window r) = dl_revision lib (ak_tenant (px_key actor)) (rq_db r)"
    and "(\<forall>v\<in>set (tenant_observations (ak_tenant (px_key actor)) (rq_db r)). ob_observed v \<le> pw_now (rq_window r))
      \<Longrightarrow> within_window (au_libs a) (rq_scope a actor q r) (pw_valid_until (rq_window r)) (rq_db r)"
proof -
  from assms(1) obtain l w1 where o: "open_listing a lib actor q (rq_budget r) (rq_world r) = Inr ((l, rq_window r), w1)"
    by (auto simp: served_def)
  note opened = open_listing_Inr [OF o assms(2,3)]
  show "pw_generation (rq_window r) = dl_revision lib (ak_tenant (px_key actor)) (rq_db r)" by (rule opened(3))
  show "within_window (au_libs a) (rq_scope a actor q r) (pw_valid_until (rq_window r)) (rq_db r)"
    if "\<forall>v\<in>set (tenant_observations (ak_tenant (px_key actor)) (rq_db r)). ob_observed v \<le> pw_now (rq_window r)"
    using that opened(4,5) by (auto simp: within_window_def rq_scope_def directory_scope_def)
qed

text \<open>The cursor of a page, read back, is the position after it.\<close>

lemma read_seek_next:
  assumes "read_seek L lib q b t (Some (encode_cursor L lib c)) = Ok seek"
    and "\<forall>b. xl_decode L (xl_encode L b) = Some b" "\<forall>k b. length (xl_hmac L k b) = 32"
    and "dl_cursor_parse lib (dl_cursor_json lib c) = Some c"
  shows "seek = Some c" "cu_binding c = b" "t < cu_expires c"
  using assms
  by (auto simp: read_seek_def decode_cursor_def encode_cursor_def cursor_tag_def check_seek_def Let_def and_then_Inr_iff)

lemma rq_rows_first: "rq_seek r = None \<Longrightarrow> rq_rows a lib actor q r = take (Suc (aq_limit q)) (rq_directory a lib actor q r)"
  by (simp add: rq_rows_def page_rows_def seeks_def rq_directory_def rq_scope_def)

lemma rq_rows_after:
  assumes "rq_seek r = Some c" "cu_position c = map (\<lambda>s. column (so_field s) (rq_directory a lib actor q r ! i)) (aq_sort q)"
    and "i < length (rq_directory a lib actor q r)" "Field.PrincipalId \<in> so_field ` set (aq_sort q)"
    and "directory_keys (au_libs a) (rq_db r)" "inj (xl_show_uuid (au_libs a))"
  shows "rq_rows a lib actor q r = take (Suc (aq_limit q)) (drop (Suc i) (rq_directory a lib actor q r))"
proof -
  let ?t = "filter (\<lambda>x. holds (selects lib q x)) (account_rows (au_libs a) (rq_scope a actor q r) (rq_db r))"
  have "distinct (map ay_principal_id ?t)"
    by (intro distinct_map_filter account_rows_distinct assms)
  from listing.seek [OF assms(4) this] assms(3)
  have "order_by (precedes (aq_sort q)) (filter (precedes (aq_sort q) (rq_directory a lib actor q r ! i)) ?t)
      = drop (Suc i) (rq_directory a lib actor q r)"
    by (simp add: rq_directory_def)
  then show ?thesis
    by (simp add: rq_rows_def page_rows_def seeks_def assms(1,2) after_position_iff rq_scope_def conj_commute)
qed

text \<open>A request that follows a cursor sees the rows that the cursor was made on.\<close>

lemma rq_directory_same:
  assumes "served a lib actor q cursor r" "directory_contract a lib actor q rs" "r \<in> rs" "s \<in> rs"
    and "served a lib actor q cursor' s"
    and "rq_binding a lib actor q s = rq_binding a lib actor q r"
    and "pw_now (rq_window r) \<le> pw_now (rq_window s)" "pw_now (rq_window s) < pw_valid_until (rq_window r)"
  shows "rq_directory a lib actor q s = rq_directory a lib actor q r"
proof -
  let ?t = "ak_tenant (px_key actor)"
  have c: "authority_contract a" "checks_contract (px_checks actor)" using assms(2) by (simp_all add: directory_contract_def)
  have obs: "\<forall>v\<in>set (tenant_observations ?t (rq_db r)). ob_observed v \<le> pw_now (rq_window r)"
    using assms(2,3) by (simp add: directory_contract_def)
  have "watched ?t (rq_db s) = watched ?t (rq_db r)"
    using assms(2-4,6) served_window(1) [OF assms(1) c] served_window(1) [OF assms(5) c]
    unfolding directory_contract_def by metis
  then have "account_rows (au_libs a) (rq_scope a actor q s) (rq_db s) = account_rows (au_libs a) (rq_scope a actor q s) (rq_db r)"
    using account_rows_watched [of "au_libs a" "rq_scope a actor q s"] by (metis dq_tenant_rq_scope)
  moreover have "rq_scope a actor q s = (rq_scope a actor q r)\<lparr>dq_now := pw_now (rq_window s)\<rparr>"
    by (simp add: rq_scope_def directory_scope_def)
  moreover have "account_rows (au_libs a) ((rq_scope a actor q r)\<lparr>dq_now := pw_now (rq_window s)\<rparr>) (rq_db r)
      = account_rows (au_libs a) (rq_scope a actor q r) (rq_db r)"
    using assms(7,8) by (intro account_rows_stable [OF served_window(2) [OF assms(1) c obs]])
      (simp_all add: rq_scope_def directory_scope_def)
  ultimately show ?thesis by (simp add: rq_directory_def)
qed

subsection \<open>The whole listing\<close>

lemma rq_next_Some:
  assumes "rq_rows a lib actor q r = take (Suc (aq_limit q)) (drop k shown)" "1 \<le> aq_limit q"
  shows "rq_next a lib actor q r = None \<longleftrightarrow> length shown \<le> k + aq_limit q"
    "rq_next a lib actor q r = Some c \<Longrightarrow> cu_binding c = rq_binding a lib actor q r \<and> cu_expires c = pw_valid_until (rq_window r)
      \<and> cu_position c = map (\<lambda>s. column (so_field s) (shown ! (k + aq_limit q - 1))) (aq_sort q)"
proof -
  show "rq_next a lib actor q r = None \<longleftrightarrow> length shown \<le> k + aq_limit q"
    by (auto simp: rq_next_def page_cursor_def Let_def assms(1))
  assume "rq_next a lib actor q r = Some c"
  moreover have "last (take (aq_limit q) (drop k shown)) = shown ! (k + aq_limit q - 1)" if "k + aq_limit q < length shown"
    using that assms(2) by (subst last_conv_nth) (auto simp: min_def)
  ultimately show "cu_binding c = rq_binding a lib actor q r \<and> cu_expires c = pw_valid_until (rq_window r)
      \<and> cu_position c = map (\<lambda>s. column (so_field s) (shown ! (k + aq_limit q - 1))) (aq_sort q)"
    by (auto simp: rq_next_def page_cursor_def Let_def assms(1) min_def split: if_splits)
qed

lemma listing_pages:
  assumes "directory_contract a lib actor q S" "1 \<le> aq_limit q" "Field.PrincipalId \<in> so_field ` set (aq_sort q)"
    and "listing_served a lib actor q cursor (r # rs)" "set (r # rs) \<subseteq> S"
    and "rq_directory a lib actor q r = shown" "rq_rows a lib actor q r = take (Suc (aq_limit q)) (drop k shown)"
  shows "concat (map (\<lambda>r. ag_accounts (rq_page r)) (r # rs)) = take (length (r # rs) * aq_limit q) (drop k shown)
    \<and> (ag_next_cursor (rq_page (last (r # rs))) = None \<longleftrightarrow> length shown \<le> k + length (r # rs) * aq_limit q)"
  using assms(4-7)
proof (induction rs arbitrary: r cursor k)
  case Nil
  have c: "authority_contract a" "checks_contract (px_checks actor)" using assms(1) by (simp_all add: directory_contract_def)
  from Nil have "served a lib actor q cursor r" by simp
  note served_Inr [OF this c]
  with rq_next_Some(1) [OF Nil(4) assms(2)] Nil(4) show ?case by (simp add: min_def)
next
  case (Cons s rs)
  let ?n = "aq_limit q"
  have c: "authority_contract a" "checks_contract (px_checks actor)" using assms(1) by (simp_all add: directory_contract_def)
  from Cons.prems(1) have r: "served a lib actor q cursor r" "ag_next_cursor (rq_page r) \<noteq> None"
    and time: "pw_now (rq_window r) \<le> pw_now (rq_window s)"
    and rest: "listing_served a lib actor q (ag_next_cursor (rq_page r)) (s # rs)"
    by simp_all
  from rest have s: "served a lib actor q (ag_next_cursor (rq_page r)) s" by simp
  note page = served_Inr [OF r(1) c]
  from r(2) page(2) obtain cur where cur: "rq_next a lib actor q r = Some cur" by auto
  with rq_next_Some [OF Cons.prems(4) assms(2)] have more_rows: "k + ?n < length shown"
    and cur': "cu_binding cur = rq_binding a lib actor q r" "cu_expires cur = pw_valid_until (rq_window r)"
      "cu_position cur = map (\<lambda>s. column (so_field s) (shown ! (k + ?n - 1))) (aq_sort q)"
    by auto
  have S: "r \<in> S" "s \<in> S" using Cons.prems(2) by simp_all
  have "read_seek (au_libs a) lib q (rq_binding a lib actor q s) (pw_now (rq_window s)) (Some (encode_cursor (au_libs a) lib cur))
      = Ok (rq_seek s)"
    using s page(2) cur by (simp add: served_def)
  from read_seek_next [OF this] assms(1) S(1) cur
  have seek: "rq_seek s = Some cur" "cu_binding cur = rq_binding a lib actor q s" "pw_now (rq_window s) < cu_expires cur"
    by (simp_all add: directory_contract_def)
  have same: "rq_directory a lib actor q s = shown"
    using rq_directory_same [OF r(1) assms(1) S s _ time] seek(2,3) cur' Cons.prems(3) by simp
  have "rq_rows a lib actor q s = take (Suc ?n) (drop (Suc (k + ?n - 1)) (rq_directory a lib actor q s))"
    using more_rows assms(1) S(2) unfolding directory_contract_def
    by (intro rq_rows_after [OF seek(1) _ _ assms(3)]) (simp_all add: same cur'(3))
  with assms(2) have rows: "rq_rows a lib actor q s = take (Suc ?n) (drop (k + ?n) shown)" by (simp add: same)
  have "set (s # rs) \<subseteq> S" using Cons.prems(2) by simp
  from Cons.IH [OF rest this same rows] page(1) Cons.prems(4) show ?case
    by (simp add: take_add [of ?n] min_def add.assoc drop_drop add.commute)
qed

text \<open>C8: A listing that follows its cursors is one consistent listing. For an accepted query, when the
  deployment meets its contract (the keys of the schema, a generation that only stays when the watched
  tables stay, bindings that do not collide, cursors that decode to what was encoded, no profile
  observed in the future), the pages of any number of requests, each against its own database at its
  own time, show in order exactly the rows that the first request's directory selects: no account is
  shown twice and none is left out between two pages, whatever other writes happened in between, and
  there is a next cursor exactly as long as rows remain.\<close>

theorem directory_pages_partition:
  assumes "AccountQuery_parse parse_uuid show_uuid f s fs src limit = Ok q"
    and "directory_contract a lib actor q (set (r # rs))"
    and "listing_served a lib actor q None (r # rs)"
  shows "concat (map (\<lambda>r. ag_accounts (rq_page r)) (r # rs))
      = take (length (r # rs) * aq_limit q) (rq_directory a lib actor q r)
    \<and> (ag_next_cursor (rq_page (last (r # rs))) = None
      \<longleftrightarrow> length (rq_directory a lib actor q r) \<le> length (r # rs) * aq_limit q)
    \<and> set (rq_directory a lib actor q r) = {x \<in> set (account_rows (au_libs a) (rq_scope a actor q r) (rq_db r)). holds (selects lib q x)}
    \<and> sorted_wrt (precedes (aq_sort q)) (rq_directory a lib actor q r)
    \<and> distinct (map ay_principal_id (concat (map (\<lambda>r. ag_accounts (rq_page r)) (r # rs))))"
proof -
  let ?shown = "rq_directory a lib actor q r"
  note q = AccountQuery_parse_Ok [OF assms(1)]
  have "rq_seek r = None" using assms(3) by (simp add: served_def read_seek_def)
  then have rows: "rq_rows a lib actor q r = take (Suc (aq_limit q)) (drop 0 ?shown)" by (simp add: rq_rows_first)
  have pages: "concat (map (\<lambda>r. ag_accounts (rq_page r)) (r # rs)) = take (length (r # rs) * aq_limit q) (drop 0 ?shown)
    \<and> (ag_next_cursor (rq_page (last (r # rs))) = None \<longleftrightarrow> length ?shown \<le> 0 + length (r # rs) * aq_limit q)"
    using q(1,4) by (intro listing_pages [OF assms(2) _ _ assms(3) subset_refl refl rows]) auto
  let ?t = "filter (\<lambda>x. holds (selects lib q x)) (account_rows (au_libs a) (rq_scope a actor q r) (rq_db r))"
  have keys: "distinct (map ay_principal_id ?t)"
    using assms(2) by (intro distinct_map_filter account_rows_distinct) (auto simp: directory_contract_def)
  have sorted: "sorted_wrt (precedes (aq_sort q)) ?shown"
    unfolding rq_directory_def using q(4) by (intro listing.order_by_sorted keys) simp
  have "distinct ?shown" using sorted by (rule listing.sorted_distinct)
  moreover have "set ?shown = set ?t" by (simp add: rq_directory_def)
  ultimately have "distinct (map ay_principal_id ?shown)"
    using keys by (simp add: distinct_map)
  with pages sorted show ?thesis
    by (simp add: rq_directory_def flip: take_map del: listing_served.simps)
qed

subsection \<open>Two accounts on two pages\<close>

definition listing_libs :: Libraries where
  "listing_libs = sample_libs\<lparr>xl_show_uuid := (\<lambda>u. [unat u]), xl_encode := map unat,
     xl_decode := (\<lambda>s. Some (map of_nat s))\<rparr>"

definition listing_authority :: Authority where
  "listing_authority = sample_authority\<lparr>au_libs := listing_libs\<rparr>"

definition listing_query :: AccountQuery where
  "listing_query = \<lparr>aq_filter = None, aq_sort = [\<lparr>so_field = Field.PrincipalId, so_descending = False\<rparr>],
     aq_fields = default_fields, aq_source = None, aq_limit = 1\<rparr>"

definition first_cursor :: Cursor where
  "first_cursor = \<lparr>cu_binding = replicate 32 0, cu_expires = 1060, cu_position = [String [2]]\<rparr>"

definition listing_library :: DirectoryLibrary where
  "listing_library = \<lparr>dl_lower = (\<lambda>s. s), dl_cursor_json = (\<lambda>_. [1]), dl_cursor_parse = (\<lambda>_. Some first_cursor),
     dl_binding_json = (\<lambda>_. []), dl_cursor_key = [], dl_revision = (\<lambda>_ _. 7)\<rparr>"

text \<open>The session is touched between the two pages, which no row depends on.\<close>

definition two_accounts :: "ProfileSource option \<Rightarrow> db" where
  "two_accounts source = session_db
     \<lparr>d_accounts := d_accounts sample_db @ [\<lparr>ac_tenant = sample_tenant, ac_principal = 3, ac_enabled = False, ac_epoch = 1\<rparr>],
      d_memberships := d_memberships sample_db @ [\<lparr>mb_tenant = sample_tenant, mb_principal = 3, mb_active = True, mb_epoch = 1\<rparr>],
      d_sessions := [user_session\<lparr>se_profile_source := source\<rparr>]\<rparr>"

definition listing_world :: "nat \<Rightarrow> ProfileSource option \<Rightarrow> world" where
  "listing_world n source = session_world\<lparr>w_db := two_accounts source, w_tick := n\<rparr>"

definition listing_window' :: "nat \<Rightarrow> PersonnelWindow" where
  "listing_window' n = \<lparr>pw_generation = 7, pw_valid_until = 1060, pw_now = 1000, pw_expires = int n + 59999999006\<rparr>"

definition listed_row :: "uuid \<Rightarrow> ustr option \<Rightarrow> bool \<Rightarrow> AccountDirectoryRow" where
  "listed_row who login enabled = \<lparr>ay_principal_id = [unat who], ay_login = login, ay_enabled = enabled, ay_member_active = True,
     ay_has_local_password = (login \<noteq> None), ay_display_name = None, ay_email = None,
     ay_profile_status = lit ''unavailable'', ay_department_status = lit ''unavailable'', ay_department_snapshot = None\<rparr>"

definition first_request :: request where
  "first_request = \<lparr>rq_budget = 500000000000, rq_world = listing_world 0 None, rq_window = listing_window' 0, rq_seek = None,
     rq_page = \<lparr>ag_accounts = [listed_row 2 (Some [97]) True], ag_fields = default_fields, ag_next_cursor = Some (replicate 33 1)\<rparr>\<rparr>"

definition second_request :: request where
  "second_request = \<lparr>rq_budget = 500000000000, rq_world = listing_world 20 (Some ProfileSource.IdentityLocal), rq_window = listing_window' 20,
     rq_seek = Some first_cursor,
     rq_page = \<lparr>ag_accounts = [listed_row 3 None False], ag_fields = default_fields, ag_next_cursor = None\<rparr>\<rparr>"

lemma listing_query_parsed:
  "AccountQuery_parse (\<lambda>_. None) (\<lambda>u. [unat u]) None None None None 1 = Ok listing_query"
  by (simp add: AccountQuery_parse_def listing_query_def needs_profiles_def needs_departments_def default_fields_def
      field_output_def used_fields_def field_profile_def field_department_def Let_def)

lemma listing_signed_in: "n < 1000 \<Longrightarrow> user_signed_in (listing_world n source)"
proof -
  have "\<exists>a b. user_session\<lparr>se_profile_source := source\<rparr> = user_session\<lparr>se_profile_source := a, se_profile_snapshot := b\<rparr>"
    by (intro exI [of _ source] exI [of _ None]) (simp add: user_session_def)
  then show "n < 1000 \<Longrightarrow> user_signed_in (listing_world n source)"
    using session_world_signed_in
    by (simp add: user_signed_in_def listing_world_def two_accounts_def guarded_def session_world_def session_db_def)
qed

lemma listing_world_simps [simp]:
  "w_db (listing_world n source) = two_accounts source" "w_micros (listing_world n source) = (\<lambda>_. 1000000000)"
  "w_instants (listing_world n source) = int" "w_tick (listing_world n source) = n"
  "(listing_world n source)\<lparr>w_tick := m\<rparr> = listing_world m source"
  "d_guard (two_accounts source) = [\<lparr>gd_tenant = sample_tenant, gd_profile_sequence = 0\<rparr>]"
  "d_observations (two_accounts source) = []"
  by (simp_all add: listing_world_def session_world_def sample_world_def two_accounts_def session_db_def sample_db_def)

lemma listing_needs [simp]:
  "needs_profiles listing_query = False" "needs_departments listing_query = False" "aq_source listing_query = None"
  "aq_sort listing_query = [\<lparr>so_field = Field.PrincipalId, so_descending = False\<rparr>]" "aq_limit listing_query = 1"
  "aq_filter listing_query = None" "aq_fields listing_query = default_fields"
  by (simp_all add: listing_query_def needs_profiles_def needs_departments_def default_fields_def
      used_fields_def field_profile_def field_department_def)

lemma listing_authority_simps [simp]:
  "au_libs listing_authority = listing_libs" "au_policy listing_authority = allow_all"
  by (simp_all add: listing_authority_def sample_authority_def)

lemma listing_opened:
  assumes "n < 800"
  shows "open_listing listing_authority listing_library user_proof listing_query 500000000000 (listing_world n source)
    = Inr (((user_loaded (Suc n))\<lparr>ld_expires := 500000000\<rparr>, listing_window' n), listing_world (n + 8) source)"
proof -
  let ?l = "(user_loaded (Suc n))\<lparr>ld_expires := 500000000\<rparr>"
  have r: "recheck listing_libs user_proof (listing_world n source) = Inr (?l, listing_world (n + 4) source)"
    using recheck_sample [of "listing_world n source" listing_libs] assms by (simp add: listing_signed_in)
  have z: "authorize_each listing_authority ?l (listing_operations listing_query) (listing_world (n + 4) source)
      = Inr ((), listing_world (n + 6) source)"
    using assms by (simp add: listing_operations_def authorize_def run_simps allow_all_def check_recency_def requirement_age_def add.commute)
  have nb: "next_boundary sample_tenant None 1000 (two_accounts source) = Some 1800"
    by (simp add: next_boundary_def open_sessions_def after_now_def sql_least_def
        List.map_filter_def user_session_def two_accounts_def)
  have e: "window_end (Some 1800) (Some (actor_end ((user_loaded (Suc n))\<lparr>ld_expires := 500000000\<rparr>))) 1000 = 1060"
    by (simp add: actor_end_def user_loaded_def user_view_def SessionView_new_def user_lifetime_def window_end_def
        or_max_def saturating_unfold)
  have deadline: "window_deadline 1060 (int n + 6) 1000000000 500000000000 = Ok (int n + 59999999006)"
    using assms by (simp add: window_deadline_def instant_checked_add_def saturating_unfold)
  have px: "px_key user_proof = user_key" by (simp add: user_proof_def)
  have win: "listing_window listing_authority listing_library user_proof listing_query 500000000000 ?l (listing_world (n + 6) source)
      = Inr (listing_window' n, listing_world (n + 8) source)"
    by (simp add: listing_window_def read_window_def run_simps fetch_one_def deadline e nb listing_library_def px
        listing_window'_def Let_def add.commute)
  show ?thesis by (simp add: open_listing_def run_simps r z win)
qed

lemma listing_rows:
  "account_rows listing_libs (directory_scope listing_authority sample_tenant listing_query t) (two_accounts source)
    = [listed_row 2 (Some [97]) True, listed_row 3 None False]"
  by (simp add: account_rows_def directory_scope_def two_accounts_def session_db_def sample_db_def memberships_of_def
      credentials_of_def left_join_def source_observations_def providers_of_def latest_facts_def facts_identities_def
      identity_providers_def directory_row_def directory_profile_status_def directory_department_status_def listed_row_def
      listing_libs_def snapshot_of_def Let_def cong: if_cong)

lemma listing_ids [simp]:
  "ay_principal_id (listed_row who l e) = [unat who]"
  by (simp add: listed_row_def)

lemma listing_after:
  "holds (after_position [\<lparr>so_field = Field.PrincipalId, so_descending = False\<rparr>] [String [2]] (listed_row 2 l e)) = False"
  "holds (after_position [\<lparr>so_field = Field.PrincipalId, so_descending = False\<rparr>] [String [2]] (listed_row 3 l e)) = True"
  by (simp_all add: after_position_def beyond_iff column_before_def)

lemma listing_sha: "xl_sha256 listing_libs [] = replicate 32 0"
  by (simp add: listing_libs_def sample_libs_def)

lemma listing_requests:
  "rq_binding listing_authority listing_library user_proof listing_query r = replicate 32 0"
  "rq_rows listing_authority listing_library user_proof listing_query first_request
    = [listed_row 2 (Some [97]) True, listed_row 3 None False]"
  "rq_rows listing_authority listing_library user_proof listing_query second_request = [listed_row 3 None False]"
  by (simp_all add: rq_binding_def cursor_binding_def listing_sha listing_library_def
      rq_rows_def page_rows_def first_request_def second_request_def user_proof_def listing_rows selects_def seeks_def
      column_before_def listing_after first_cursor_def)

lemma request_simps [simp]:
  "rq_budget first_request = 500000000000" "rq_world first_request = listing_world 0 None"
  "rq_window first_request = listing_window' 0" "rq_seek first_request = None"
  "rq_page first_request = \<lparr>ag_accounts = [listed_row 2 (Some [97]) True], ag_fields = default_fields,
     ag_next_cursor = Some (replicate 33 1)\<rparr>"
  "rq_budget second_request = 500000000000" "rq_world second_request = listing_world 20 (Some ProfileSource.IdentityLocal)"
  "rq_window second_request = listing_window' 20" "rq_seek second_request = Some first_cursor"
  "rq_page second_request = \<lparr>ag_accounts = [listed_row 3 None False], ag_fields = default_fields, ag_next_cursor = None\<rparr>"
  "pw_now (listing_window' n) = 1000" "pw_valid_until (listing_window' n) = 1060" "pw_generation (listing_window' n) = 7"
  by (simp_all add: first_request_def second_request_def listing_window'_def)

lemma listing_nexts:
  "rq_next listing_authority listing_library user_proof listing_query first_request = Some first_cursor"
  "rq_next listing_authority listing_library user_proof listing_query second_request = None"
  by (simp_all add: rq_next_def page_cursor_def listing_requests first_cursor_def)

lemma first_cursor_codec:
  "encode_cursor listing_libs listing_library first_cursor = replicate 33 1"
  "decode_cursor listing_libs listing_library (replicate 33 1) = Ok first_cursor"
  by (simp_all add: encode_cursor_def decode_cursor_def cursor_tag_def listing_libs_def sample_libs_def listing_library_def
      Let_def numeral_eq_Suc)

lemma first_cursor_read:
  "read_seek listing_libs listing_library listing_query (replicate 32 0) 1000 (Some (replicate 33 1)) = Ok (Some first_cursor)"
proof -
  have "check_seek listing_query (replicate 32 0) 1000 first_cursor = Ok ()"
    by (simp add: check_seek_def first_cursor_def position_fits_def field_boolean_def)
  then show ?thesis by (simp add: read_seek_def first_cursor_codec del: One_nat_def)
qed

lemma listed_departments [simp]: "ay_department_snapshot (listed_row who l e) = None"
  "listed_row who l e\<lparr>ay_department_snapshot := None\<rparr> = listed_row who l e"
  by (simp_all add: listed_row_def)

lemma listing_body:
  assumes "n < 800" "rq_world r = listing_world n source" "rq_window r = listing_window' n" "rq_budget r = 500000000000"
    and "read_seek listing_libs listing_library listing_query (replicate 32 0) 1000 cursor = Ok (rq_seek r)"
    and "rq_page r = \<lparr>ag_accounts = take 1 (rq_rows listing_authority listing_library user_proof listing_query r),
      ag_fields = default_fields, ag_next_cursor = map_option (encode_cursor listing_libs listing_library)
        (rq_next listing_authority listing_library user_proof listing_query r)\<rparr>"
    and "\<And>x. x \<in> set (rq_rows listing_authority listing_library user_proof listing_query r) \<Longrightarrow> ay_department_snapshot x = None"
  shows "served listing_authority listing_library user_proof listing_query cursor r"
proof -
  have same: "decode_rows xs = Ok xs" if "\<And>x. x \<in> set xs \<Longrightarrow> ay_department_snapshot x = None" for xs
    using that by (induction xs) simp_all
  let ?rows = "rq_rows listing_authority listing_library user_proof listing_query r"
  have d: "decode_rows (take 1 ?rows) = Ok (take 1 ?rows)" using assms(7) by (intro same) (meson in_set_takeD)
  have b: "cursor_binding listing_authority listing_library user_proof listing_query s g = replicate 32 0" for s g
    by (simp add: cursor_binding_def listing_sha listing_library_def)
  note o = listing_opened [OF assms(1), of source]
  have px: "px_key user_proof = user_key" by (simp add: user_proof_def)
  have "\<exists>w'. list_accounts_body listing_authority listing_library user_proof listing_query cursor 500000000000 (listing_world n source)
      = Inr (rq_page r, w')"
    unfolding list_accounts_body_def Let_def bind_run(1) [where m = "open_listing listing_authority listing_library user_proof listing_query 500000000000", OF o]
      prod.case b
    using assms d
    by (simp add: run_simps rq_rows_def rq_next_def rq_binding_def b px listing_window'_def)
  then show ?thesis
    using assms o by (simp add: served_def rq_binding_def b)
qed

lemma listing_both:
  "listing_served listing_authority listing_library user_proof listing_query None [first_request, second_request]"
proof -
  have "served listing_authority listing_library user_proof listing_query None first_request"
    by (rule listing_body [of 0 _ None])
      (auto simp: listing_requests listing_nexts first_cursor_codec read_seek_def)
  moreover have "served listing_authority listing_library user_proof listing_query (Some (replicate 33 1)) second_request"
    by (rule listing_body [of 20 _ "Some ProfileSource.IdentityLocal"])
      (auto simp: listing_requests listing_nexts first_cursor_read simp del: One_nat_def)
  moreover have "ag_next_cursor (rq_page first_request) = Some (replicate 33 1)"
    "pw_now (rq_window first_request) \<le> pw_now (rq_window second_request)"
    by simp_all
  ultimately show ?thesis by simp
qed

lemma listing_contract:
  "directory_contract listing_authority listing_library user_proof listing_query (set [first_request, second_request])"
proof -
  have c: "authority_contract listing_authority" "checks_contract (px_checks user_proof)"
    using sample_contracts by (simp_all add: authority_contract_def listing_authority_def)
  have libs: "inj (xl_show_uuid listing_libs)" "\<forall>b. xl_decode listing_libs (xl_encode listing_libs b) = Some b"
    "\<forall>k b. length (xl_hmac listing_libs k b) = 32"
    by (auto simp: listing_libs_def sample_libs_def inj_def comp_def intro: word_unat_eq_iff [THEN iffD2])
  have keys: "directory_keys listing_libs (two_accounts source)" for source
    by (simp add: directory_keys_def accounts_ok_def unique_on_def two_accounts_def session_db_def sample_db_def)
  have obs: "tenant_observations t (two_accounts source) = []" for t source
    by (simp add: tenant_observations_def)
  have same: "watched t (two_accounts source) = watched t (two_accounts source')" for t source source'
    by (simp add: watched_def two_accounts_def watched_session_def)
  have parse: "dl_cursor_parse listing_library j = Some first_cursor" for j by (simp add: listing_library_def)
  have db: "\<exists>source. rq_db r = two_accounts source" "pw_generation (rq_window r) = 7"
    and nxt: "rq_next listing_authority listing_library user_proof listing_query r = Some cur \<Longrightarrow> cur = first_cursor"
    if "r \<in> set [first_request, second_request]" for r cur
    using that by (auto simp: listing_nexts)
  show ?thesis
    unfolding directory_contract_def listing_authority_simps
    using c libs db nxt keys obs parse same by (intro conjI ballI allI impI) (metis empty_iff empty_set)+
qed

theorem directory_pages_partition_witness:
  "rq_directory listing_authority listing_library user_proof listing_query first_request
      = [listed_row 2 (Some [97]) True, listed_row 3 None False]
    \<and> concat (map (\<lambda>r. ag_accounts (rq_page r)) [first_request, second_request])
      = rq_directory listing_authority listing_library user_proof listing_query first_request
    \<and> ag_next_cursor (rq_page second_request) = None"
proof -
  have "rq_directory listing_authority listing_library user_proof listing_query first_request
      = [listed_row 2 (Some [97]) True, listed_row 3 None False]"
    by (simp add: rq_directory_def rq_scope_def selects_def listing_rows column_before_def user_proof_def)
  with directory_pages_partition [OF listing_query_parsed listing_contract listing_both] show ?thesis
    by simp
qed

end
