(* ===== verification/Credentials.thy ===== *)
theory Credentials
  imports Management Samples
begin

section \<open>Provider credentials (identity-postgres/src/credentials.rs)\<close>

text \<open>
  The client secret of a provider is stored sealed under a key ring: one key seals, every key of
  the ring opens, and the associated data ties a sealed value to its authority, tenant, provider
  and version. The AEAD of the ring crate and the JSON texts of the two documents are parameters;
  \<open>sealing_contract\<close> is what the code relies on of them: opening undoes sealing with the same key,
  nonce and associated data, the tag takes sixteen bytes, and the reader of a document undoes its writer.
\<close>

record Sealing =
  sl_seal :: "byte list \<Rightarrow> byte list \<Rightarrow> byte list \<Rightarrow> byte list \<Rightarrow> byte list option"
  sl_open :: "byte list \<Rightarrow> byte list \<Rightarrow> byte list \<Rightarrow> byte list \<Rightarrow> byte list option"
  sl_context :: "uuid \<Rightarrow> ustr \<Rightarrow> ustr \<Rightarrow> int \<Rightarrow> byte list"
  sl_plain :: "ustr \<Rightarrow> ustr option \<Rightarrow> byte list"
  sl_parse :: "byte list \<Rightarrow> (ustr \<times> ustr option) option"

definition sealing_contract :: "Sealing \<Rightarrow> bool" where
  "sealing_contract S \<longleftrightarrow>
    (\<forall>k n a p c. sl_seal S k n a p = Some c \<longrightarrow> sl_open S k n a c = Some p)
    \<and> (\<forall>k n a p c. sl_open S k n a c = Some p \<longrightarrow> length c = length p + 16)
    \<and> (\<forall>s ca. sl_parse S (sl_plain S s ca) = Some (s, ca))"

record CredentialKeys =
  ck_active :: ustr
  ck_keys :: "ustr \<rightharpoonup> byte list"

definition is_key_id_byte :: "byte \<Rightarrow> bool" where
  "is_key_id_byte b \<longleftrightarrow> is_ascii_alphanumeric (unat b) \<or> unat b \<in> set (lit ''-_'')"

fun add_keys ::
  "(byte list \<Rightarrow> byte list) \<Rightarrow> (ustr \<times> byte list) list \<Rightarrow> byte list list \<Rightarrow> (ustr \<rightharpoonup> byte list)
    \<Rightarrow> AuthorityError + (ustr \<rightharpoonup> byte list)" where
  "add_keys sha256 [] digests m = Ok m"
| "add_keys sha256 ((i, raw) # ks) digests m =
    (if i = [] \<or> byte_len i > 64 \<or> \<not> list_all is_key_id_byte (utf8 i) \<or> list_all (\<lambda>b. b = 0) raw
        \<or> sha256 raw \<in> set digests
     then Err AuthorityError.Configuration
     else if m i \<noteq> None then Err AuthorityError.Configuration
     else add_keys sha256 ks (sha256 raw # digests) (m(i \<mapsto> raw)))"

definition CredentialKeys_new ::
  "(byte list \<Rightarrow> byte list) \<Rightarrow> ustr \<Rightarrow> (ustr \<times> byte list) list \<Rightarrow> AuthorityError + CredentialKeys" where
  "CredentialKeys_new sha256 key_id keys =
    and_then (ensure (\<not> (keys = [] \<or> length keys > 8)) AuthorityError.Configuration) (\<lambda>_.
    and_then (add_keys sha256 keys [] Map.empty) (\<lambda>ring.
    and_then (ensure (\<not> ring key_id = None) AuthorityError.Configuration) (\<lambda>_.
    Ok \<lparr>ck_active = key_id, ck_keys = ring\<rparr>)))"

definition has_key :: "CredentialKeys \<Rightarrow> ustr \<Rightarrow> bool" where
  "has_key keys i \<longleftrightarrow> ck_keys keys i \<noteq> None"

definition sealed_aad ::
  "Libraries \<Rightarrow> Sealing \<Rightarrow> uuid \<Rightarrow> TenantId \<Rightarrow> ProviderId \<Rightarrow> int \<Rightarrow> AuthorityError + byte list" where
  "sealed_aad L S authority tenant p version =
    and_then (ensure (\<not> version < 1) AuthorityError.InvalidInput) (\<lambda>_.
    Ok (sl_context S authority (xl_show_tenant L tenant) (xl_show_uuid L (provider_uuid p)) version))"

text \<open>\<open>seal\<close>; the active key of a ring is one of its keys. The nonce is drawn, twelve bytes or nothing.\<close>

definition seal ::
  "Libraries \<Rightarrow> Sealing \<Rightarrow> CredentialKeys \<Rightarrow> byte list option \<Rightarrow> uuid \<Rightarrow> TenantId \<Rightarrow> ProviderId \<Rightarrow> int
    \<Rightarrow> ProviderCredentials \<Rightarrow> AuthorityError + Sealed" where
  "seal L S keys random authority tenant p version credentials =
    and_then (sealed_aad L S authority tenant p version) (\<lambda>aad.
    and_then (ok_or AuthorityError.Unavailable random) (\<lambda>nonce.
    and_then (ok_or AuthorityError.Unavailable
      (sl_seal S (the (ck_keys keys (ck_active keys))) nonce aad (sl_plain S (cr_secret credentials) (cr_ca credentials)))) (\<lambda>bytes.
    Ok \<lparr>sd_version = 1, sd_key_id = ck_active keys, sd_nonce = nonce, sd_ciphertext = bytes\<rparr>)))"

definition open_sealed ::
  "Libraries \<Rightarrow> Sealing \<Rightarrow> CredentialKeys \<Rightarrow> uuid \<Rightarrow> TenantId \<Rightarrow> ProviderId \<Rightarrow> int \<Rightarrow> Sealed
    \<Rightarrow> AuthorityError + ProviderCredentials" where
  "open_sealed L S keys authority tenant p version v =
    and_then (ensure (\<not> (sd_version v \<noteq> 1 \<or> length (sd_ciphertext v) > 32768)) AuthorityError.Unavailable) (\<lambda>_.
    and_then (sealed_aad L S authority tenant p version) (\<lambda>aad.
    and_then (ok_or AuthorityError.Unavailable (ck_keys keys (sd_key_id v))) (\<lambda>key.
    and_then (ok_or AuthorityError.Unavailable (sl_open S key (sd_nonce v) aad (sd_ciphertext v))) (\<lambda>plain.
    and_then (ok_or AuthorityError.Unavailable (sl_parse S plain)) (\<lambda>(secret, ca).
    map_err (\<lambda>_. AuthorityError.Unavailable) (ProviderCredentials_new secret ca))))))"

definition reencrypt_value ::
  "Libraries \<Rightarrow> Sealing \<Rightarrow> CredentialKeys \<Rightarrow> byte list option \<Rightarrow> uuid \<Rightarrow> TenantId \<Rightarrow> ProviderId \<Rightarrow> int \<Rightarrow> Sealed
    \<Rightarrow> AuthorityError + Sealed" where
  "reencrypt_value L S keys random authority tenant p version v =
    and_then (ensure (\<not> \<not> has_key keys (sd_key_id v)) AuthorityError.Unavailable) (\<lambda>_.
    and_then (open_sealed L S keys authority tenant p version v) (\<lambda>plain.
    if sd_key_id v = ck_active keys then Ok v
    else seal L S keys random authority tenant p version plain))"

subsection \<open>Stored credentials\<close>

definition is_sealed :: "TenantId \<Rightarrow> ProviderId \<Rightarrow> sealed_row \<Rightarrow> bool" where
  "is_sealed tenant p r \<longleftrightarrow> sr_tenant r = tenant \<and> sr_provider r = provider_uuid p"

definition sealed_check :: "Libraries \<Rightarrow> sealed_row \<Rightarrow> bool" where
  "sealed_check L r \<longleftrightarrow> sr_version r > 0 \<and> xl_sealed_size L (sr_sealed r) \<le> 131072"

definition write_credentials ::
  "Libraries \<Rightarrow> Sealing \<Rightarrow> CredentialKeys \<Rightarrow> byte list option \<Rightarrow> TenantId \<Rightarrow> ProviderId \<Rightarrow> int \<Rightarrow> ProviderCredentials
    \<Rightarrow> (MutationError, unit) tx" where
  "write_credentials L S keys random tenant p version credentials =
    bind authority_id (\<lambda>authority.
    bind (lift (map_err (\<lambda>_. Storage corrupt) (seal L S keys random authority tenant p version credentials))) (\<lambda>v.
    let row = \<lparr>sr_tenant = tenant, sr_provider = provider_uuid p, sr_version = version, sr_sealed = v\<rparr> in
    widen Storage (insert_checked (\<lambda>_. sealed_check L row)
      (\<lambda>d. d\<lparr>d_sealed := upsert (is_sealed tenant p) (\<lambda>_. row) (d_sealed d)\<rparr>))))"

definition credentials_body ::
  "Libraries \<Rightarrow> Sealing \<Rightarrow> CredentialKeys \<Rightarrow> TenantId \<Rightarrow> ProviderId \<Rightarrow> int \<Rightarrow> (MutationError, ProviderCredentials) tx" where
  "credentials_body L S keys tenant p version =
    bind authority_id (\<lambda>authority.
    bind (query (\<lambda>d. find (is_sealed tenant p) (d_sealed d))) (\<lambda>row.
    bind (lift (ok_or (MutationError.Federation FederationError.Rejected) row)) (\<lambda>r.
    bind (require (\<not> sr_version r \<noteq> version) (MutationError.Federation StaleConfiguration)) (\<lambda>_.
    lift (map_err (\<lambda>_. Storage corrupt) (open_sealed L S keys authority tenant p version (sr_sealed r)))))))"

definition tenant_sealed :: "TenantId \<Rightarrow> db \<Rightarrow> sealed_row list" where
  "tenant_sealed tenant d = take 101 (sort_key sr_provider (filter (\<lambda>r. sr_tenant r = tenant) (d_sealed d)))"

fun check_rows ::
  "Libraries \<Rightarrow> Sealing \<Rightarrow> CredentialKeys \<Rightarrow> uuid \<Rightarrow> TenantId \<Rightarrow> sealed_row list \<Rightarrow> PgError + unit" where
  "check_rows L S keys authority tenant [] = Ok ()"
| "check_rows L S keys authority tenant (r # rs) =
    and_then (ensure (sr_provider r \<noteq> uuid_nil) corrupt) (\<lambda>_.
    and_then (map_err (\<lambda>_. corrupt)
      (open_sealed L S keys authority tenant (ProviderId (sr_provider r)) (sr_version r) (sr_sealed r))) (\<lambda>_.
    check_rows L S keys authority tenant rs))"

definition check_tenant_body ::
  "Libraries \<Rightarrow> Sealing \<Rightarrow> CredentialKeys \<Rightarrow> TenantId \<Rightarrow> (MutationError, unit) tx" where
  "check_tenant_body L S keys tenant =
    bind authority_id (\<lambda>authority.
    bind (query (\<lambda>d. take 101 (filter (\<lambda>r. sr_tenant r = tenant) (d_sealed d)))) (\<lambda>rows.
    bind (require (\<not> length rows > 100) (Storage corrupt)) (\<lambda>_.
    lift (map_err Storage (check_rows L S keys authority tenant rows)))))"

fun check_tenants ::
  "Authority \<Rightarrow> Sealing \<Rightarrow> CredentialKeys \<Rightarrow> int \<Rightarrow> TenantId list \<Rightarrow> unit op" where
  "check_tenants a S keys deadline [] = op_ret ()"
| "check_tenants a S keys deadline (t # ts) =
    op_bind (read_sql (au_bundle a) t deadline (check_tenant_body (au_libs a) S keys t)) (\<lambda>_.
    check_tenants a S keys deadline ts)"

definition check_credential_keys :: "Authority \<Rightarrow> Sealing \<Rightarrow> CredentialKeys \<Rightarrow> int \<Rightarrow> unit op" where
  "check_credential_keys a S keys deadline = check_tenants a S keys deadline (bu_tenants (au_bundle a))"

text \<open>
  \<open>reencrypt_tenant\<close> runs in a transaction of the schema owner; \<open>owner\<close> is whether the current role
  owns the schema. Each row is opened and written back under the active key, with a nonce of its own.
\<close>

fun reencrypt_rows ::
  "Libraries \<Rightarrow> Sealing \<Rightarrow> CredentialKeys \<Rightarrow> (nat \<Rightarrow> byte list option) \<Rightarrow> uuid \<Rightarrow> TenantId \<Rightarrow> nat \<Rightarrow> sealed_row list
    \<Rightarrow> (AuthorityError, unit) tx" where
  "reencrypt_rows L S keys random i tenant n [] = ret ()"
| "reencrypt_rows L S keys random i tenant n (r # rs) =
    bind (require (sr_provider r \<noteq> uuid_nil) AuthorityError.Unavailable) (\<lambda>_.
    bind (lift (reencrypt_value L S keys (random n) i tenant (ProviderId (sr_provider r)) (sr_version r) (sr_sealed r))) (\<lambda>v.
    bind (widen (\<lambda>_. AuthorityError.Unavailable) (insert_checked
      (\<lambda>_. xl_sealed_size L v \<le> 131072)
      (\<lambda>d. d\<lparr>d_sealed := update_where (is_sealed tenant (ProviderId (sr_provider r)))
        (\<lambda>r. r\<lparr>sr_sealed := v\<rparr>) (d_sealed d)\<rparr>))) (\<lambda>_.
    reencrypt_rows L S keys random i tenant (Suc n) rs)))"

definition reencrypt_tenant ::
  "Libraries \<Rightarrow> Sealing \<Rightarrow> CredentialKeys \<Rightarrow> (nat \<Rightarrow> byte list option) \<Rightarrow> bool \<Rightarrow> InstanceId \<Rightarrow> TenantId
    \<Rightarrow> (AuthorityError, nat) tx" where
  "reencrypt_tenant L S keys random owner instance_id tenant =
    bind (require owner AuthorityError.Configuration) (\<lambda>_.
    bind authority_id (\<lambda>i.
    bind (require (\<not> i \<noteq> instance_uuid instance_id) AuthorityError.Configuration) (\<lambda>_.
    bind (query (tenant_sealed tenant)) (\<lambda>rows.
    bind (require (\<not> length rows > 100) AuthorityError.Configuration) (\<lambda>_.
    bind (reencrypt_rows L S keys random (instance_uuid instance_id) tenant 0 rows) (\<lambda>_.
    ret (length rows)))))))"


definition provider_credentials ::
  "Authority \<Rightarrow> Sealing \<Rightarrow> CredentialKeys \<Rightarrow> TenantId \<Rightarrow> ProviderId \<Rightarrow> int \<Rightarrow> int \<Rightarrow> ProviderCredentials op" where
  "provider_credentials a S keys tenant p version deadline =
    read_sql (au_bundle a) tenant deadline (credentials_body (au_libs a) S keys tenant p version)"

subsection \<open>Re-encryption keeps what is stored\<close>

text \<open>A value the component itself sealed: what opens is the writer's document.\<close>

definition written :: "Sealing \<Rightarrow> CredentialKeys \<Rightarrow> byte list \<Rightarrow> Sealed \<Rightarrow> bool" where
  "written S keys aad v \<longleftrightarrow>
    (\<forall>key p. ck_keys keys (sd_key_id v) = Some key \<longrightarrow> sl_open S key (sd_nonce v) aad (sd_ciphertext v) = Some p
      \<longrightarrow> p \<in> range (\<lambda>(secret, ca). sl_plain S secret ca))"

definition row_aad :: "Libraries \<Rightarrow> Sealing \<Rightarrow> uuid \<Rightarrow> sealed_row \<Rightarrow> byte list" where
  "row_aad L S authority r =
    sl_context S authority (xl_show_tenant L (sr_tenant r)) (xl_show_uuid L (sr_provider r)) (sr_version r)"

definition row_credentials ::
  "Libraries \<Rightarrow> Sealing \<Rightarrow> CredentialKeys \<Rightarrow> uuid \<Rightarrow> sealed_row \<Rightarrow> AuthorityError + ProviderCredentials" where
  "row_credentials L S keys authority r =
    open_sealed L S keys authority (sr_tenant r) (ProviderId (sr_provider r)) (sr_version r) (sr_sealed r)"

definition sealed_ok :: "Libraries \<Rightarrow> Sealing \<Rightarrow> CredentialKeys \<Rightarrow> db \<Rightarrow> bool" where
  "sealed_ok L S keys d \<longleftrightarrow> unique_on (\<lambda>r. (sr_tenant r, sr_provider r)) (d_sealed d)
    \<and> (\<forall>r\<in>set (d_sealed d). written S keys (row_aad L S (d_authority d) r) (sr_sealed r))"

lemma sealed_aad_Inr:
  "sealed_aad L S authority tenant p version = Inr aad \<longleftrightarrow>
    1 \<le> version \<and> aad = sl_context S authority (xl_show_tenant L tenant) (xl_show_uuid L (provider_uuid p)) version"
  by (auto simp: sealed_aad_def and_then_Inr_iff)

lemma seal_opens:
  assumes "sealing_contract S" and "seal L S keys random authority tenant p version c = Inr v"
    and "ck_keys keys (ck_active keys) = Some key" and "ck_keys ring (ck_active keys) = Some key"
    and "ProviderCredentials_new (cr_secret c) (cr_ca c) = Inr c" and "length (sd_ciphertext v) \<le> 32768"
  shows "sd_key_id v = ck_active keys \<and> open_sealed L S ring authority tenant p version v = Inr c"
  using assms by (auto simp: seal_def open_sealed_def and_then_Inr_iff sealed_aad_Inr sealing_contract_def)

lemma seal_size:
  assumes "sealing_contract S" and "seal L S keys random authority tenant p version c = Inr v"
  shows "length (sd_ciphertext v) = length (sl_plain S (cr_secret c) (cr_ca c)) + 16"
proof -
  from assms(2) obtain k n a where "sl_seal S k n a (sl_plain S (cr_secret c) (cr_ca c)) = Some (sd_ciphertext v)"
    by (auto simp: seal_def and_then_Inr_iff)
  with assms(1) show ?thesis unfolding sealing_contract_def by blast
qed

lemma open_sealed_InrE:
  assumes "open_sealed L S keys authority tenant p version v = Inr c"
  obtains aad key plain secret ca where
    "sealed_aad L S authority tenant p version = Inr aad" "length (sd_ciphertext v) \<le> 32768"
    "ck_keys keys (sd_key_id v) = Some key" "sl_open S key (sd_nonce v) aad (sd_ciphertext v) = Some plain"
    "sl_parse S plain = Some (secret, ca)" "ProviderCredentials_new secret ca = Inr c"
  using assms by (auto simp: open_sealed_def and_then_Inr_iff split: prod.splits)

lemma ProviderCredentials_new_Inr: "ProviderCredentials_new secret ca = Inr c \<Longrightarrow> c = \<lparr>cr_secret = secret, cr_ca = ca\<rparr>"
  by (auto simp: ProviderCredentials_new_def split: if_splits)

lemma reencrypt_value_opens:
  assumes "sealing_contract S" and "reencrypt_value L S keys random authority tenant p version v = Inr v'"
    and "written S keys aad v" and "sealed_aad L S authority tenant p version = Inr aad"
    and "ck_keys keys (ck_active keys) = Some key" and "ck_keys ring (ck_active keys) = Some key"
  shows "sd_key_id v' = ck_active keys
    \<and> (\<exists>c. open_sealed L S keys authority tenant p version v = Inr c \<and> open_sealed L S ring authority tenant p version v' = Inr c)"
proof -
  from assms(2) obtain c where o: "open_sealed L S keys authority tenant p version v = Inr c"
    and rest: "if sd_key_id v = ck_active keys then v' = v else seal L S keys random authority tenant p version c = Inr v'"
    by (auto simp: reencrypt_value_def and_then_Inr_iff split: if_splits)
  show ?thesis
  proof (cases "sd_key_id v = ck_active keys")
    case True
    with o rest assms(5,6) show ?thesis by (auto simp: open_sealed_def)
  next
    case False
    with rest have s: "seal L S keys random authority tenant p version c = Inr v'" by simp
    from o obtain k plain secret ca where len: "length (sd_ciphertext v) \<le> 32768"
      and k: "ck_keys keys (sd_key_id v) = Some k" "sl_open S k (sd_nonce v) aad (sd_ciphertext v) = Some plain"
      and parsed: "sl_parse S plain = Some (secret, ca)" and new: "ProviderCredentials_new secret ca = Inr c"
      using assms(4) by (auto elim!: open_sealed_InrE)
    from ProviderCredentials_new_Inr [OF new] have c: "c = \<lparr>cr_secret = secret, cr_ca = ca\<rparr>" .
    from k assms(3) obtain s2 ca2 where "plain = sl_plain S s2 ca2" by (auto simp: written_def)
    with parsed assms(1) have "plain = sl_plain S secret ca" by (simp add: sealing_contract_def)
    with k(2) assms(1) have "length (sd_ciphertext v) = length (sl_plain S secret ca) + 16"
      by (auto simp: sealing_contract_def)
    with len seal_size [OF assms(1) s] c have "length (sd_ciphertext v') \<le> 32768" by simp
    with seal_opens [OF assms(1) s assms(5,6)] new c o show ?thesis by auto
  qed
qed

lemma reencrypt_rows_ConsE:
  assumes "reencrypt_rows L S keys random i tenant n (r # rs) w = Inr (u, w')"
  obtains v w1 where
    "reencrypt_value L S keys (random n) i tenant (ProviderId (sr_provider r)) (sr_version r) (sr_sealed r) = Inr v"
    "w_db w1 = (w_db w)\<lparr>d_sealed := update_where (is_sealed tenant (ProviderId (sr_provider r)))
        (\<lambda>r. r\<lparr>sr_sealed := v\<rparr>) (d_sealed (w_db w))\<rparr>"
    "reencrypt_rows L S keys random i tenant (Suc n) rs w1 = Inr (u, w')"
proof -
  from assms obtain v where
    v: "reencrypt_value L S keys (random n) i tenant (ProviderId (sr_provider r)) (sr_version r) (sr_sealed r) = Inr v"
    and rest: "reencrypt_rows L S keys random i tenant (Suc n) rs (w\<lparr>w_db := (w_db w)\<lparr>d_sealed :=
        update_where (is_sealed tenant (ProviderId (sr_provider r))) (\<lambda>r. r\<lparr>sr_sealed := v\<rparr>) (d_sealed (w_db w))\<rparr>\<rparr>) = Inr (u, w')"
    unfolding reencrypt_rows.simps by (elim bindE) (auto simp: insert_checked_Inr)
  show ?thesis by (rule that [OF v _ rest]) simp
qed

lemma reencrypt_rows_Inr:
  assumes "reencrypt_rows L S keys random i tenant n rows w = Inr (u, w')" and "distinct (map sr_provider rows)"
  shows "\<exists>f. w_db w' = (w_db w)\<lparr>d_sealed := map (\<lambda>r. if sr_tenant r = tenant \<and> sr_provider r \<in> sr_provider ` set rows
        then r\<lparr>sr_sealed := f (sr_provider r)\<rparr> else r) (d_sealed (w_db w))\<rparr>
    \<and> (\<forall>r\<in>set rows. \<exists>nonce. reencrypt_value L S keys nonce i tenant (ProviderId (sr_provider r)) (sr_version r) (sr_sealed r)
        = Inr (f (sr_provider r)))"
  using assms
proof (induction rows arbitrary: n w)
  case (Cons r rs)
  from Cons.prems(1) obtain v w1 where
    v: "reencrypt_value L S keys (random n) i tenant (ProviderId (sr_provider r)) (sr_version r) (sr_sealed r) = Inr v"
    and w1: "w_db w1 = (w_db w)\<lparr>d_sealed := update_where (is_sealed tenant (ProviderId (sr_provider r)))
        (\<lambda>r. r\<lparr>sr_sealed := v\<rparr>) (d_sealed (w_db w))\<rparr>"
    and rest: "reencrypt_rows L S keys random i tenant (Suc n) rs w1 = Inr (u, w')"
    by (elim reencrypt_rows_ConsE)
  from Cons.IH [OF rest] Cons.prems(2) obtain f where
    f: "w_db w' = (w_db w1)\<lparr>d_sealed := map (\<lambda>r. if sr_tenant r = tenant \<and> sr_provider r \<in> sr_provider ` set rs
        then r\<lparr>sr_sealed := f (sr_provider r)\<rparr> else r) (d_sealed (w_db w1))\<rparr>"
    and g: "\<forall>r\<in>set rs. \<exists>nonce. reencrypt_value L S keys nonce i tenant (ProviderId (sr_provider r)) (sr_version r) (sr_sealed r)
        = Inr (f (sr_provider r))"
    by auto
  let ?f = "f(sr_provider r := v)"
  have new: "sr_provider r \<notin> sr_provider ` set rs" using Cons.prems(2) by simp
  have "w_db w' = (w_db w)\<lparr>d_sealed := map (\<lambda>q. if sr_tenant q = tenant \<and> sr_provider q \<in> sr_provider ` set (r # rs)
        then q\<lparr>sr_sealed := ?f (sr_provider q)\<rparr> else q) (d_sealed (w_db w))\<rparr>"
    using f w1 new by (auto simp: update_where_def is_sealed_def)
  moreover have "\<forall>q\<in>set (r # rs). \<exists>nonce. reencrypt_value L S keys nonce i tenant (ProviderId (sr_provider q)) (sr_version q) (sr_sealed q)
        = Inr (?f (sr_provider q))"
    using g v new by (auto simp: image_iff)
  ultimately show ?case by blast
qed (auto intro: exI [of _ "\<lambda>_. undefined"])


text \<open>The row of the table after a re-encryption of the tenant.\<close>

definition reencrypted ::
  "Libraries \<Rightarrow> Sealing \<Rightarrow> CredentialKeys \<Rightarrow> CredentialKeys \<Rightarrow> uuid \<Rightarrow> TenantId \<Rightarrow> sealed_row \<Rightarrow> sealed_row \<Rightarrow> bool" where
  "reencrypted L S keys ring authority tenant r r' \<longleftrightarrow>
    (if sr_tenant r = tenant then
       r' = r\<lparr>sr_sealed := sr_sealed r'\<rparr> \<and> sd_key_id (sr_sealed r') = ck_active keys
       \<and> is_ok (row_credentials L S keys authority r)
       \<and> row_credentials L S ring authority r' = row_credentials L S keys authority r
     else r' = r)"

lemma reencrypted_row:
  assumes "sealing_contract S"
    and "reencrypt_value L S keys nonce i (sr_tenant r) (ProviderId (sr_provider r)) (sr_version r) (sr_sealed r) = Inr v"
    and "written S keys (row_aad L S i r) (sr_sealed r)"
    and "ck_keys keys (ck_active keys) = Some key" and "ck_keys ring (ck_active keys) = Some key"
  shows "reencrypted L S keys ring i (sr_tenant r) r (r\<lparr>sr_sealed := v\<rparr>)"
proof -
  from assms(2) obtain c where o: "row_credentials L S keys i r = Inr c"
    by (auto simp: reencrypt_value_def and_then_Inr_iff row_credentials_def)
  then have "sealed_aad L S i (sr_tenant r) (ProviderId (sr_provider r)) (sr_version r) = Inr (row_aad L S i r)"
    by (auto simp: row_credentials_def sealed_aad_Inr row_aad_def elim!: open_sealed_InrE)
  from reencrypt_value_opens [OF assms(1,2,3) this assms(4,5)] o show ?thesis
    by (auto simp: reencrypted_def row_credentials_def)
qed

lemma tenant_sealed_small:
  "\<not> length (tenant_sealed t d) > 100 \<Longrightarrow> set (tenant_sealed t d) = {r \<in> set (d_sealed d). sr_tenant r = t}
    \<and> int (length (tenant_sealed t d)) = count_where (\<lambda>r. sr_tenant r = t) (d_sealed d)"
  by (auto simp: tenant_sealed_def count_where_def min_def split: if_splits)

lemma distinct_tenant_sealed:
  assumes "unique_on (\<lambda>r. (sr_tenant r, sr_provider r)) (d_sealed d)"
  shows "distinct (map sr_provider (tenant_sealed t d))"
proof -
  have "distinct (map sr_provider (filter (\<lambda>r. sr_tenant r = t) (d_sealed d)))"
    using assms by (auto simp: unique_on_def distinct_map inj_on_def)
  then have "distinct (map sr_provider (sort_key sr_provider (filter (\<lambda>r. sr_tenant r = t) (d_sealed d))))"
    by (simp add: distinct_map)
  then show ?thesis by (simp add: tenant_sealed_def take_map [symmetric])
qed

text \<open>C24: Re-encryption under a new active key is equivalent, for every reader, to leaving the credentials alone.
  If the transaction of the schema owner commits, every credential of the tenant opened under the
  old ring, is now sealed under the active key, and opens to the same secret and CA under any ring
  that holds that key, such as the one the retired keys were removed from; no other column, no row of
  another tenant and no other table has changed, and the count returned is the number of the tenant's
  credentials, at most one hundred.\<close>

theorem reencryption_equivalence:
  assumes "sealing_contract S" and "sealed_ok L S keys (w_db w)"
    and "ck_keys keys (ck_active keys) = Some key" and "ck_keys ring (ck_active keys) = Some key"
    and "reencrypt_tenant L S keys random owner i tenant w = Inr (n, w')"
  shows "owner \<and> d_authority (w_db w) = instance_uuid i
    \<and> int n = count_where (\<lambda>r. sr_tenant r = tenant) (d_sealed (w_db w)) \<and> n \<le> 100
    \<and> w_db w' = (w_db w)\<lparr>d_sealed := d_sealed (w_db w')\<rparr>
    \<and> list_all2 (reencrypted L S keys ring (instance_uuid i) tenant) (d_sealed (w_db w)) (d_sealed (w_db w'))"
proof -
  let ?rows = "tenant_sealed tenant (w_db w)"
  from assms(5) have ow: "owner" "d_authority (w_db w) = instance_uuid i" and small: "\<not> length ?rows > 100"
    and rows: "reencrypt_rows L S keys random (instance_uuid i) tenant 0 ?rows w = Inr ((), w')" and n: "n = length ?rows"
    unfolding reencrypt_tenant_def by (auto elim!: bindE)
  note all = tenant_sealed_small [OF small]
  have u: "unique_on (\<lambda>r. (sr_tenant r, sr_provider r)) (d_sealed (w_db w))"
    and wr: "\<And>r. r \<in> set (d_sealed (w_db w)) \<Longrightarrow> written S keys (row_aad L S (instance_uuid i) r) (sr_sealed r)"
    using assms(2) ow by (auto simp: sealed_ok_def)
  from reencrypt_rows_Inr [OF rows distinct_tenant_sealed [OF u]] obtain f where
    d: "w_db w' = (w_db w)\<lparr>d_sealed := map (\<lambda>r. if sr_tenant r = tenant \<and> sr_provider r \<in> sr_provider ` set ?rows
        then r\<lparr>sr_sealed := f (sr_provider r)\<rparr> else r) (d_sealed (w_db w))\<rparr>"
    and v: "\<And>r. r \<in> set ?rows \<Longrightarrow> \<exists>nonce. reencrypt_value L S keys nonce (instance_uuid i) tenant (ProviderId (sr_provider r))
        (sr_version r) (sr_sealed r) = Inr (f (sr_provider r))"
    by blast
  have row: "reencrypted L S keys ring (instance_uuid i) tenant r (if sr_tenant r = tenant \<and> sr_provider r \<in> sr_provider ` set ?rows
        then r\<lparr>sr_sealed := f (sr_provider r)\<rparr> else r)" if "r \<in> set (d_sealed (w_db w))" for r
  proof (cases "sr_tenant r = tenant")
    case True
    with that all have mem: "r \<in> set ?rows" by simp
    from v [OF this] True obtain nonce where "reencrypt_value L S keys nonce (instance_uuid i) (sr_tenant r) (ProviderId (sr_provider r))
        (sr_version r) (sr_sealed r) = Inr (f (sr_provider r))" by auto
    from reencrypted_row [OF assms(1) this wr [OF that] assms(3,4)] True mem show ?thesis by auto
  qed (simp add: reencrypted_def)
  have "list_all2 (reencrypted L S keys ring (instance_uuid i) tenant) (d_sealed (w_db w)) (map (\<lambda>r. if sr_tenant r = tenant
      \<and> sr_provider r \<in> sr_provider ` set ?rows then r\<lparr>sr_sealed := f (sr_provider r)\<rparr> else r) (d_sealed (w_db w)))"
    unfolding list_all2_map2 by (rule list.rel_refl_strong) (rule row)
  with d ow n conjunct2 [OF all] small show ?thesis by simp
qed

subsection \<open>Examples\<close>

text \<open>A sealing that meets the contract: a unary text of the two documents, with sixteen bytes of tag.\<close>

definition unary :: "ustr \<Rightarrow> byte list" where
  "unary s = concat (map (\<lambda>c. replicate c 1 @ [0]) s)"

fun read_unary :: "nat \<Rightarrow> byte list \<Rightarrow> ustr \<times> byte list" where
  "read_unary n [] = ([], [])"
| "read_unary n (b # bs) =
    (if b = 1 then read_unary (Suc n) bs
     else if b = 0 then (case read_unary 0 bs of (s, rest) \<Rightarrow> (n # s, rest)) else ([], b # bs))"

definition sample_sealing :: Sealing where
  "sample_sealing = \<lparr>sl_seal = (\<lambda>k n a p. Some (p @ replicate 16 0)),
     sl_open = (\<lambda>k n a c. if length c < 16 \<or> drop (length c - 16) c \<noteq> replicate 16 0 then None else Some (take (length c - 16) c)),
     sl_context = (\<lambda>i t p v. []),
     sl_plain = (\<lambda>s ca. unary s @ (case ca of None \<Rightarrow> [2] | Some v \<Rightarrow> 3 # unary v @ [2])),
     sl_parse = (\<lambda>b. case read_unary 0 b of (s, rest) \<Rightarrow>
       Some (s, if rest = [2] then None else Some (fst (read_unary 0 (tl rest)))))\<rparr>"

lemma read_unary_run: "read_unary n (replicate c 1 @ bs) = read_unary (n + c) bs"
  by (induction c arbitrary: n) simp_all

lemma read_unary: "read_unary 0 (unary s @ b # bs) = (s, b # bs)" if "b \<noteq> 0" "b \<noteq> 1"
  using that by (induction s) (simp_all add: unary_def read_unary_run)

lemma sample_sealing_contract: "sealing_contract sample_sealing"
proof -
  have "(2 :: byte) \<noteq> 0" "(2 :: byte) \<noteq> 1" "(3 :: byte) \<noteq> 0" "(3 :: byte) \<noteq> 1" "(3 :: byte) \<noteq> 2"
    by simp_all
  then show ?thesis
    by (auto simp: sealing_contract_def sample_sealing_def read_unary split: option.split)
qed

definition sample_keys :: CredentialKeys where
  "sample_keys = \<lparr>ck_active = lit ''next'', ck_keys = [lit ''first'' \<mapsto> replicate 32 1, lit ''next'' \<mapsto> replicate 32 2]\<rparr>"

definition retired_keys :: CredentialKeys where
  "retired_keys = \<lparr>ck_active = lit ''next'', ck_keys = [lit ''next'' \<mapsto> replicate 32 2]\<rparr>"

definition sample_sealed :: sealed_row where
  "sample_sealed = \<lparr>sr_tenant = sample_tenant, sr_provider = 4, sr_version = 1,
     sr_sealed = \<lparr>sd_version = 1, sd_key_id = lit ''first'', sd_nonce = replicate 12 0,
       sd_ciphertext = unary [2, 3] @ 2 # replicate 16 0\<rparr>\<rparr>"

definition sealed_world :: world where
  "sealed_world = sample_world\<lparr>w_db := (w_db sample_world)\<lparr>d_authority := 1, d_sealed := [sample_sealed]\<rparr>\<rparr>"

theorem reencryption_equivalence_witness:
  "\<exists>w'. reencrypt_tenant sample_libs sample_sealing sample_keys (\<lambda>_. Some (replicate 12 5)) True (InstanceId 1) sample_tenant sealed_world
      = Inr (1, w')
    \<and> list_all2 (reencrypted sample_libs sample_sealing sample_keys retired_keys 1 sample_tenant) [sample_sealed] (d_sealed (w_db w'))"
proof -
  have n: "lit ''next'' \<noteq> lit ''first''" by code_simp
  have opens: "sl_open sample_sealing k n a (sd_ciphertext (sr_sealed sample_sealed)) = Some (sl_plain sample_sealing [2, 3] None)" for k n a
    by (simp add: sample_sealing_def sample_sealed_def)
  have parses: "sl_parse sample_sealing (sl_plain sample_sealing [2, 3] None) = Some ([2, 3], None)"
    using sample_sealing_contract by (simp add: sealing_contract_def)
  have seals: "sl_seal sample_sealing k n a (sl_plain sample_sealing [2, 3] None) = Some (unary [2, 3] @ 2 # replicate 16 0)" for k n a
    by (simp add: sample_sealing_def)
  have size: "length (sd_ciphertext (sr_sealed sample_sealed)) \<le> 32768"
    "sd_key_id (sr_sealed sample_sealed) = lit ''first''" "sd_version (sr_sealed sample_sealed) = 1"
    by (simp_all add: sample_sealed_def unary_def)
  have first: "ck_keys sample_keys (lit ''first'') = Some (replicate 32 1)" "ck_active sample_keys = lit ''next''"
    using n by (simp_all add: sample_keys_def)
  have new: "ProviderCredentials_new [2, 3] None = Inr \<lparr>cr_secret = [2, 3], cr_ca = None\<rparr>"
    by code_simp
  have row: "reencrypt_value sample_libs sample_sealing sample_keys (Some (replicate 12 5)) 1 sample_tenant (ProviderId 4) 1 (sr_sealed sample_sealed)
      = Inr \<lparr>sd_version = 1, sd_key_id = lit ''next'', sd_nonce = replicate 12 5, sd_ciphertext = unary [2, 3] @ 2 # replicate 16 0\<rparr>"
    using n size by (simp add: reencrypt_value_def has_key_def open_sealed_def seal_def sealed_aad_def opens parses seals first new)
  from opens have written: "written sample_sealing sample_keys a (sr_sealed sample_sealed)" for a
    unfolding written_def by (metis (mono_tags, lifting) case_prod_conv option.inject rangeI)
  have ok: "sealed_ok sample_libs sample_sealing sample_keys (w_db sealed_world)"
    using written by (simp add: sealed_ok_def sealed_world_def unique_on_def)
  have rows: "tenant_sealed sample_tenant (w_db sealed_world) = [sample_sealed]"
    by (simp add: tenant_sealed_def sealed_world_def sample_sealed_def)
  obtain w' where run: "reencrypt_tenant sample_libs sample_sealing sample_keys (\<lambda>_. Some (replicate 12 5)) True (InstanceId 1) sample_tenant sealed_world
      = Inr (1, w')"
  proof -
    have "d_authority (w_db sealed_world) = 1" "uuid_nil \<noteq> 4"
      by (simp_all add: sealed_world_def uuid_nil_def)
    moreover have "sr_provider sample_sealed = 4" "sr_version sample_sealed = 1" "xl_sealed_size sample_libs v = 100" for v
      by (simp_all add: sample_sealed_def sample_libs_def)
    ultimately show ?thesis
      by (intro that) (simp add: reencrypt_tenant_def run_simps rows row insert_checked_def)
  qed
  have keys: "ck_keys sample_keys (ck_active sample_keys) = Some (replicate 32 2)" "ck_keys retired_keys (ck_active sample_keys) = Some (replicate 32 2)"
    by (simp_all add: sample_keys_def retired_keys_def)
  from reencryption_equivalence [OF sample_sealing_contract ok keys run] run show ?thesis
    by (auto simp: sealed_world_def)
qed

end
