(* ===== verification/Federation_Providers.thy ===== *)
theory Federation_Providers
  imports Credentials Sessions
begin

section \<open>The federation service and its providers (identity-postgres/src/federation.rs)\<close>

text \<open>
  The service holds the authority, the upstream client, the signer of states, the key ring and the
  return targets of the deployment. Here are its configuration and the administration of
  providers: create, update, enable, list, test, the options of a login page, the security facts
  of a session, and the reconciliation that bumps the epoch of every provider whose assurance the
  host now interprets differently. The upstream client is a parameter; a call that does not end
  before its deadline gives \<open>None\<close>.
\<close>

record ConnectionReport =
  rp_checks :: "ProviderStage list"
  rp_tls_verified :: bool
  rp_response_issuer :: bool

type_synonym 'a upstream = "instant \<Rightarrow> world \<Rightarrow> (FederationError + 'a) option"

record UpstreamOidc =
  uo_assurance_profile :: "TenantId \<Rightarrow> ProviderSettings \<Rightarrow> AssuranceProfile"
  uo_validate :: "TenantId \<Rightarrow> ProviderSettings \<Rightarrow> ProviderCredentials \<Rightarrow> FederationError + unit"
  uo_prepare :: "TenantId \<Rightarrow> ProviderSettings \<Rightarrow> ProviderCredentials \<Rightarrow> ProtocolMaterial \<Rightarrow> AuthenticationMode
    \<Rightarrow> ustr upstream"
  uo_exchange :: "TenantId \<Rightarrow> ProviderSettings \<Rightarrow> ProviderCredentials \<Rightarrow> ProtocolMaterial \<Rightarrow> ustr
    \<Rightarrow> UpstreamClaims upstream"
  uo_test :: "TenantId \<Rightarrow> ProviderSettings \<Rightarrow> ProviderCredentials \<Rightarrow> ConnectionReport upstream"

text \<open>The targets are a \<open>BTreeMap\<close> from names to return URLs: an association list with distinct names.\<close>

record FederationConfig =
  fc_callback :: ustr
  fc_keys :: CredentialKeys
  fc_targets :: "(ustr \<times> ustr) list"

record FederationService =
  fe_authority :: Authority
  fe_oidc :: UpstreamOidc
  fe_signer :: StateSigner
  fe_group_policy :: GroupFactsMaxAge
  fe_sealing :: Sealing
  fe_keys :: CredentialKeys
  fe_callback :: ustr
  fe_targets :: "(ustr \<times> ustr) list"

subsection \<open>Configuration\<close>

definition target_ok :: "(ustr \<Rightarrow> url_parts option) \<Rightarrow> ustr \<Rightarrow> ustr \<Rightarrow> bool" where
  "target_ok url_parse i target \<longleftrightarrow>
    (case url_parse target of None \<Rightarrow> False
     | Some url \<Rightarrow> \<not> (i = [] \<or> byte_len i > 128 \<or> byte_len target > 2048 \<or> url_scheme url \<noteq> lit ''https''
         \<or> url_host url = None \<or> url_username url \<noteq> [] \<or> url_password url \<noteq> None \<or> url_fragment url \<noteq> None
         \<or> list_ex (\<lambda>k. k = lit ''identity_result'') (url_names url)))"

definition callback_ok :: "(ustr \<Rightarrow> url_parts option) \<Rightarrow> ustr \<Rightarrow> bool" where
  "callback_ok url_parse callback \<longleftrightarrow>
    (case url_parse callback of None \<Rightarrow> False
     | Some url \<Rightarrow> \<not> (url_scheme url \<noteq> lit ''https'' \<or> url_host url = None
         \<or> url_path url \<noteq> lit ''/api/v1/identity/oidc/callback'' \<or> url_query url \<noteq> None \<or> url_fragment url \<noteq> None
         \<or> url_username url \<noteq> [] \<or> url_password url \<noteq> None))"

definition FederationConfig_validate :: "(ustr \<Rightarrow> url_parts option) \<Rightarrow> FederationConfig \<Rightarrow> AuthorityError + unit" where
  "FederationConfig_validate url_parse config =
    and_then (ensure (\<not> length (fc_targets config) > 128) (AuthorityError.Federation FederationError.Configuration)) (\<lambda>_.
    and_then (ensure (list_all (\<lambda>(i, target). target_ok url_parse i target) (fc_targets config))
      (AuthorityError.Federation FederationError.Configuration)) (\<lambda>_.
    ensure (callback_ok url_parse (fc_callback config)) (AuthorityError.Federation FederationError.Configuration)))"

definition FederationService_new ::
  "GroupFactsMaxAge \<Rightarrow> Authority \<Rightarrow> UpstreamOidc \<Rightarrow> StateSigner \<Rightarrow> Sealing \<Rightarrow> FederationConfig
    \<Rightarrow> AuthorityError + FederationService" where
  "FederationService_new group_policy a oidc signer sealing config =
    and_then (require_runtime a) (\<lambda>_.
    and_then (FederationConfig_validate (xl_url_parse (au_libs a)) config) (\<lambda>_.
    Ok \<lparr>fe_authority = a, fe_oidc = oidc, fe_signer = signer, fe_group_policy = group_policy,
        fe_sealing = sealing, fe_keys = fc_keys config, fe_callback = fc_callback config,
        fe_targets = fc_targets config\<rparr>))"

definition fe_target :: "FederationService \<Rightarrow> ustr \<Rightarrow> AuthorityError + ustr" where
  "fe_target f i = ok_or (AuthorityError.Federation FederationError.Configuration) (map_of (fe_targets f) i)"

definition allowed_return :: "FederationService \<Rightarrow> ustr \<Rightarrow> bool" where
  "allowed_return f url \<longleftrightarrow> list_ex (\<lambda>(_, u). u = url) (fe_targets f)"

text \<open>\<open>upstream\<close>: a call bounded by the budget of the operation.\<close>

definition upstream_call :: "instant \<Rightarrow> 'a upstream \<Rightarrow> 'a op" where
  "upstream_call budget future w =
    ((case future budget w of None \<Rightarrow> Err (AuthorityError.Federation FederationError.Unavailable)
      | Some r \<Rightarrow> map_err AuthorityError.Federation r), w)"

abbreviation fe_libs :: "FederationService \<Rightarrow> Libraries" where "fe_libs f \<equiv> au_libs (fe_authority f)"
abbreviation fe_bundle :: "FederationService \<Rightarrow> RuntimeBundle" where "fe_bundle f \<equiv> au_bundle (fe_authority f)"

definition federation_event ::
  "TenantId \<Rightarrow> FederationAction \<Rightarrow> ProviderView \<Rightarrow> PrincipalId option \<Rightarrow> SecurityEvent" where
  "federation_event tenant action view holder =
    SecurityEvent.Federation
      \<lparr>fev_tenant = tenant, fev_action = action, fev_provider_id = vw_id view, fev_config_version = vw_version view,
       fev_principal = map_option principal_uuid holder, fev_diagnostic = None\<rparr>"

subsection \<open>Writing providers\<close>

text \<open>The \<open>CHECK\<close> constraints of the table.\<close>

definition provider_check :: "Libraries \<Rightarrow> provider_row \<Rightarrow> bool" where
  "provider_check L r \<longleftrightarrow> pv_provider r \<noteq> uuid_nil \<and> pv_version r > 0 \<and> pv_epoch r > 0
    \<and> xl_settings_size L (pv_settings r) \<le> 16384 \<and> length (pv_assurance r) = 32 \<and> pv_credential_version r > 0"

definition provider_row_of :: "TenantId \<Rightarrow> ProviderView \<Rightarrow> provider_row" where
  "provider_row_of tenant v =
    \<lparr>pv_tenant = tenant, pv_provider = provider_uuid (vw_id v), pv_version = vw_version v,
     pv_epoch = vw_revocation_epoch v, pv_enabled = vw_enabled v,
     pv_settings = ProviderSettings_input (vw_settings v), pv_assurance = vw_assurance_profile v,
     pv_credential_version = vw_credential_version v\<rparr>"

definition insert_provider :: "Libraries \<Rightarrow> TenantId \<Rightarrow> ProviderView \<Rightarrow> (PgError, unit) tx" where
  "insert_provider L tenant v =
    (let row = provider_row_of tenant v in
     insert_checked (\<lambda>d. provider_check L row \<and> \<not> list_ex (is_provider tenant (vw_id v)) (d_providers d))
       (\<lambda>d. d\<lparr>d_providers := row # d_providers d\<rparr>))"

definition update_provider_row :: "Libraries \<Rightarrow> TenantId \<Rightarrow> ProviderView \<Rightarrow> (PgError, unit) tx" where
  "update_provider_row L tenant v =
    (let row = provider_row_of tenant v in
     insert_checked (\<lambda>d. list_ex (is_provider tenant (vw_id v)) (d_providers d) \<longrightarrow> provider_check L row)
       (\<lambda>d. d\<lparr>d_providers := update_where (is_provider tenant (vw_id v)) (\<lambda>_. row) (d_providers d)\<rparr>))"

text \<open>What an administration draws at random: the identifier of a new provider and a nonce.\<close>

record ProviderDraws =
  pd_provider :: uuid
  pd_nonce :: "byte list option"
  pd_events :: "nat \<Rightarrow> uuid"

definition managed ::
  "Authority \<Rightarrow> AuthenticatedSession \<Rightarrow> ManagementOperation \<Rightarrow> (MutationError, unit) tx" where
  "managed a actor operation =
    bind (widen Storage (recheck (au_libs a) actor)) (\<lambda>loaded.
    widen Rule (authorize (au_policy a) (au_instance a) loaded operation None))"

definition create_provider_body ::
  "FederationService \<Rightarrow> ProviderDraws \<Rightarrow> AuthenticatedSession \<Rightarrow> ProviderSettings \<Rightarrow> ProviderCredentials \<Rightarrow> byte list
    \<Rightarrow> (MutationError, ProviderView \<times> SecurityEvent list) tx" where
  "create_provider_body f draws actor settings credentials profile =
    (let tenant = ak_tenant (px_key actor) in
    bind (managed (fe_authority f) actor CreateProvider) (\<lambda>_.
    bind (query (\<lambda>d. count_where (\<lambda>r. pv_tenant r = tenant) (d_providers d))) (\<lambda>n.
    bind (require (\<not> n \<ge> 100) (MutationError.Federation ProviderLimitReached)) (\<lambda>_.
    let view = \<lparr>vw_id = ProviderId (pd_provider draws), vw_version = 1, vw_enabled = False,
      vw_revocation_epoch = 1, vw_settings = settings, vw_assurance_profile = profile, vw_credential_version = 1\<rparr> in
    bind (widen Storage (insert_provider (fe_libs f) tenant view)) (\<lambda>_.
    bind (write_credentials (fe_libs f) (fe_sealing f) (fe_keys f) (pd_nonce draws) tenant (vw_id view) 1 credentials) (\<lambda>_.
    ret (view, [federation_event tenant ProviderCreated view (Some (ak_principal (px_key actor)))])))))))"

definition persist_create_provider ::
  "FederationService \<Rightarrow> ProviderDraws \<Rightarrow> AuthenticatedSession \<Rightarrow> ProviderSettings \<Rightarrow> ProviderCredentials \<Rightarrow> byte list
    \<Rightarrow> int \<Rightarrow> ProviderView op" where
  "persist_create_provider f draws actor settings credentials profile deadline =
    op_bind (op_lift (require_runtime (fe_authority f))) (\<lambda>_.
    write_sql (fe_bundle f) (ak_tenant (px_key actor)) deadline (pd_events draws)
      (create_provider_body f draws actor settings credentials profile))"

text \<open>The two edits: new settings with their credentials, or the switch.\<close>

definition checked_next :: "int \<Rightarrow> (MutationError, int) tx" where
  "checked_next n = lift (ok_or (MutationError.Federation FederationError.Rejected) (checked_add n 1))"

definition edit_settings ::
  "FederationService \<Rightarrow> ProviderDraws \<Rightarrow> TenantId \<Rightarrow> ProviderView \<Rightarrow> ProviderSettings \<Rightarrow> ProviderCredentials \<Rightarrow> byte list
    \<Rightarrow> (MutationError, ProviderView \<times> FederationAction) tx" where
  "edit_settings f draws tenant view settings credentials profile =
    bind (require (\<not> pv_issuer settings \<noteq> pv_issuer (vw_settings view))
      (MutationError.Federation FederationError.Configuration)) (\<lambda>_.
    bind (checked_next (vw_credential_version view)) (\<lambda>credential_version.
    bind (checked_next (vw_revocation_epoch view)) (\<lambda>epoch.
    bind (write_credentials (fe_libs f) (fe_sealing f) (fe_keys f) (pd_nonce draws) tenant (vw_id view) credential_version credentials) (\<lambda>_.
    ret (view\<lparr>vw_settings := settings, vw_assurance_profile := profile,
      vw_credential_version := credential_version, vw_revocation_epoch := epoch\<rparr>, ProviderUpdated)))))"

definition edit_enabled ::
  "ProviderView \<Rightarrow> bool \<Rightarrow> (MutationError, ProviderView \<times> FederationAction) tx" where
  "edit_enabled view enabled =
    bind (if vw_enabled view \<noteq> enabled then checked_next (vw_revocation_epoch view) else ret (vw_revocation_epoch view)) (\<lambda>epoch.
    ret (view\<lparr>vw_revocation_epoch := epoch, vw_enabled := enabled\<rparr>, if enabled then ProviderEnabled else ProviderDisabled))"

definition edit_provider_body ::
  "FederationService \<Rightarrow> ProviderDraws \<Rightarrow> AuthenticatedSession \<Rightarrow> ProviderId \<Rightarrow> int
    \<Rightarrow> (ProviderSettings \<times> ProviderCredentials \<times> byte list) option \<Rightarrow> bool option
    \<Rightarrow> (MutationError, ProviderView \<times> SecurityEvent list) tx" where
  "edit_provider_body f draws actor i expected settings enabled =
    (let tenant = ak_tenant (px_key actor);
         operation = (case enabled of Some v \<Rightarrow> SetProviderEnabled i v | None \<Rightarrow> UpdateProvider i) in
    bind (managed (fe_authority f) actor operation) (\<lambda>_.
    bind (widen Storage (provider (fe_libs f) tenant i)) (\<lambda>view.
    bind (require (\<not> vw_version view \<noteq> expected) (MutationError.Federation StaleConfiguration)) (\<lambda>_.
    bind (case settings of
        Some (s, c, p) \<Rightarrow> edit_settings f draws tenant view s c p
      | None \<Rightarrow> (case enabled of Some v \<Rightarrow> edit_enabled view v | None \<Rightarrow> fail (Storage reject))) (\<lambda>(edited, action).
    bind (checked_next (vw_version edited)) (\<lambda>version.
    let next_view = edited\<lparr>vw_version := version\<rparr> in
    bind (widen Storage (update_provider_row (fe_libs f) tenant next_view)) (\<lambda>_.
    ret (next_view, [federation_event tenant action next_view (Some (ak_principal (px_key actor)))]))))))))"

definition edit_provider ::
  "FederationService \<Rightarrow> ProviderDraws \<Rightarrow> AuthenticatedSession \<Rightarrow> ProviderId \<Rightarrow> int
    \<Rightarrow> (ProviderSettings \<times> ProviderCredentials \<times> byte list) option \<Rightarrow> bool option \<Rightarrow> int \<Rightarrow> ProviderView op" where
  "edit_provider f draws actor i expected settings enabled deadline =
    op_bind (op_lift (require_runtime (fe_authority f))) (\<lambda>_.
    write_sql (fe_bundle f) (ak_tenant (px_key actor)) deadline (pd_events draws)
      (edit_provider_body f draws actor i expected settings enabled))"

definition vetted ::
  "FederationService \<Rightarrow> TenantId \<Rightarrow> ProviderSettings \<Rightarrow> ProviderCredentials \<Rightarrow> AuthorityError + byte list" where
  "vetted f tenant settings credentials =
    and_then (ensure (\<not> pv_redirect_uri settings \<noteq> fe_callback f) (AuthorityError.Federation FederationError.Configuration)) (\<lambda>_.
    and_then (map_err AuthorityError.Federation (uo_validate (fe_oidc f) tenant settings credentials)) (\<lambda>_.
    Ok (ap_fingerprint (uo_assurance_profile (fe_oidc f) tenant settings))))"

definition create_provider ::
  "FederationService \<Rightarrow> ProviderDraws \<Rightarrow> AuthenticatedSession \<Rightarrow> ProviderSettings \<Rightarrow> ProviderCredentials \<Rightarrow> int
    \<Rightarrow> ProviderView op" where
  "create_provider f draws actor settings credentials deadline =
    op_bind (op_lift (require_runtime (fe_authority f))) (\<lambda>_.
    op_bind (op_lift (vetted f (ak_tenant (px_key actor)) settings credentials)) (\<lambda>profile.
    persist_create_provider f draws actor settings credentials profile deadline))"

definition update_provider ::
  "FederationService \<Rightarrow> ProviderDraws \<Rightarrow> AuthenticatedSession \<Rightarrow> ProviderId \<Rightarrow> int \<Rightarrow> ProviderSettings
    \<Rightarrow> ProviderCredentials \<Rightarrow> int \<Rightarrow> ProviderView op" where
  "update_provider f draws actor i expected settings credentials deadline =
    op_bind (op_lift (require_runtime (fe_authority f))) (\<lambda>_.
    op_bind (op_lift (vetted f (ak_tenant (px_key actor)) settings credentials)) (\<lambda>profile.
    edit_provider f draws actor i expected (Some (settings, credentials, profile)) None deadline))"

definition enable_provider ::
  "FederationService \<Rightarrow> ProviderDraws \<Rightarrow> AuthenticatedSession \<Rightarrow> ProviderId \<Rightarrow> int \<Rightarrow> bool \<Rightarrow> int \<Rightarrow> ProviderView op" where
  "enable_provider f draws actor i expected enabled deadline =
    edit_provider f draws actor i expected None (Some enabled) deadline"

subsection \<open>Listing and testing\<close>

definition provider_ids :: "TenantId \<Rightarrow> db \<Rightarrow> uuid list" where
  "provider_ids tenant d = take 101 (sort (map pv_provider (filter (\<lambda>r. pv_tenant r = tenant) (d_providers d))))"

fun read_providers :: "Libraries \<Rightarrow> TenantId \<Rightarrow> uuid list \<Rightarrow> (MutationError, ProviderView list) tx" where
  "read_providers L tenant [] = ret []"
| "read_providers L tenant (u # us) =
    bind (require (u \<noteq> uuid_nil) (Storage corrupt)) (\<lambda>_.
    bind (widen Storage (provider L tenant (ProviderId u))) (\<lambda>v.
    bind (read_providers L tenant us) (\<lambda>vs.
    ret (v # vs))))"

definition list_providers_body :: "Authority \<Rightarrow> AuthenticatedSession \<Rightarrow> (MutationError, ProviderView list) tx" where
  "list_providers_body a actor =
    (let tenant = ak_tenant (px_key actor) in
    bind (widen Storage (lock_guard tenant)) (\<lambda>_.
    bind (managed a actor ListProviders) (\<lambda>_.
    bind (query (provider_ids tenant)) (\<lambda>ids.
    bind (require (\<not> length ids > 100) (MutationError.Federation ProviderLimitReached)) (\<lambda>_.
    read_providers (au_libs a) tenant ids)))))"

definition list_providers :: "FederationService \<Rightarrow> AuthenticatedSession \<Rightarrow> int \<Rightarrow> ProviderView list op" where
  "list_providers f actor deadline =
    op_bind (op_lift (require_runtime (fe_authority f))) (\<lambda>_.
    op_bind (Budget_new deadline) (\<lambda>budget.
    op_bind (Budget_remaining (min budget (px_expires actor))) (\<lambda>timeout.
    read_sql (fe_bundle f) (ak_tenant (px_key actor)) timeout (list_providers_body (fe_authority f) actor))))"

definition test_snapshot_body ::
  "Authority \<Rightarrow> AuthenticatedSession \<Rightarrow> ProviderId \<Rightarrow> (MutationError, ProviderView) tx" where
  "test_snapshot_body a actor i =
    bind (widen Storage (lock_guard (ak_tenant (px_key actor)))) (\<lambda>_.
    bind (managed a actor (TestProvider i)) (\<lambda>_.
    widen Storage (provider (au_libs a) (ak_tenant (px_key actor)) i)))"

definition test_event :: "AuthenticatedSession \<Rightarrow> ProviderView \<Rightarrow> FederationError + ConnectionReport \<Rightarrow> SecurityEvent" where
  "test_event actor view result =
    SecurityEvent.Federation
      \<lparr>fev_tenant = ak_tenant (px_key actor), fev_action = (if is_ok result then ProviderTested else ProviderTestFailed),
       fev_provider_id = vw_id view, fev_config_version = vw_version view,
       fev_principal = Some (key_uuid (px_key actor)),
       fev_diagnostic = (case result of Inl e \<Rightarrow> Some (diagnostic e) | Inr _ \<Rightarrow> None)\<rparr>"

definition test_settle_body ::
  "Authority \<Rightarrow> AuthenticatedSession \<Rightarrow> ProviderId \<Rightarrow> ProviderView \<Rightarrow> FederationError + ConnectionReport
    \<Rightarrow> (MutationError, unit \<times> SecurityEvent list) tx" where
  "test_settle_body a actor i view result =
    bind (test_snapshot_body a actor i) (\<lambda>current.
    bind (require (\<not> vw_version current \<noteq> vw_version view) (MutationError.Federation StaleConfiguration)) (\<lambda>_.
    ret ((), [test_event actor view result])))"

definition test_provider ::
  "FederationService \<Rightarrow> (nat \<Rightarrow> uuid) \<Rightarrow> AuthenticatedSession \<Rightarrow> ProviderId \<Rightarrow> int \<Rightarrow> ConnectionReport op" where
  "test_provider f fresh actor i deadline =
    (let a = fe_authority f; tenant = ak_tenant (px_key actor) in
    op_bind (op_lift (require_runtime a)) (\<lambda>_.
    op_bind (Budget_new deadline) (\<lambda>b0.
    let budget = min b0 (px_expires actor) in
    op_bind (Budget_remaining budget) (\<lambda>timeout.
    op_bind (read_sql (au_bundle a) tenant timeout (test_snapshot_body a actor i)) (\<lambda>view.
    op_bind (Budget_remaining budget) (\<lambda>timeout.
    op_bind (provider_credentials a (fe_sealing f) (fe_keys f) tenant i (vw_credential_version view) timeout) (\<lambda>credentials.
    op_bind (Budget_remaining budget) (\<lambda>remaining.
    let upstream_deadline = budget - min (remaining div 4) 1000000000 in
    op_bind (\<lambda>w. (Ok (case uo_test (fe_oidc f) tenant (vw_settings view) credentials upstream_deadline w of
        None \<Rightarrow> Err FederationError.Unavailable | Some r \<Rightarrow> r), w)) (\<lambda>result.
    op_bind (Budget_remaining budget) (\<lambda>timeout.
    op_bind (write_sql (au_bundle a) tenant timeout fresh (test_settle_body a actor i view result)) (\<lambda>_.
    op_lift (map_err AuthorityError.Federation result))))))))))))"

subsection \<open>What browsers see\<close>

record LoginOption =
  lo_provider :: uuid
  lo_label :: ustr

definition option_label :: "Libraries \<Rightarrow> ustr \<Rightarrow> ProviderSettings \<Rightarrow> uuid \<Rightarrow> ustr" where
  "option_label L issuer settings i =
    (let dot = [0x20, 0xB7, 0x20] in issuer @ dot @ client_str (pv_client_id settings) @ dot @ xl_show_uuid L i)"

definition login_option :: "Libraries \<Rightarrow> provider_row \<Rightarrow> MutationError + LoginOption" where
  "login_option L r =
    and_then (map_err (\<lambda>_. Storage corrupt)
      (ProviderSettings_try_from (xl_show_uuid L) (xl_url_parse L) (pv_settings r))) (\<lambda>settings.
    and_then (ok_or (Storage corrupt) (xl_url_parse L (issuer_str (pv_issuer settings)))) (\<lambda>issuer.
    Ok \<lparr>lo_provider = pv_provider r, lo_label = option_label L (url_str issuer) settings (pv_provider r)\<rparr>))"

fun login_option_list :: "Libraries \<Rightarrow> provider_row list \<Rightarrow> MutationError + LoginOption list" where
  "login_option_list L [] = Ok []"
| "login_option_list L (r # rs) =
    and_then (login_option L r) (\<lambda>x. and_then (login_option_list L rs) (\<lambda>xs. Ok (x # xs)))"

definition login_options_body :: "Libraries \<Rightarrow> TenantId \<Rightarrow> (MutationError, LoginOption list) tx" where
  "login_options_body L tenant =
    bind (query (\<lambda>d. take 101 (sort_key pv_provider (filter (\<lambda>r. pv_tenant r = tenant \<and> pv_enabled r) (d_providers d))))) (\<lambda>rows.
    bind (require (\<not> length rows > 100) (Storage reject)) (\<lambda>_.
    lift (login_option_list L rows)))"

definition login_options :: "FederationService \<Rightarrow> TenantId \<Rightarrow> int \<Rightarrow> LoginOption list op" where
  "login_options f tenant deadline = read_sql (fe_bundle f) tenant deadline (login_options_body (fe_libs f) tenant)"

definition check_step_up :: "AccountKey \<Rightarrow> ProviderView \<Rightarrow> UpstreamOidc \<Rightarrow> (MutationError, unit) tx" where
  "check_step_up key view oidc =
    (let profile = uo_assurance_profile oidc (ak_tenant key) (vw_settings view) in
    bind (require (\<not> ap_fingerprint profile \<noteq> vw_assurance_profile view) (MutationError.Federation StaleConfiguration)) (\<lambda>_.
    bind (require (\<not> (\<not> vw_enabled view \<or> \<not> ap_supports_step_up profile))
      (MutationError.Federation FederationError.Rejected)) (\<lambda>_.
    bind (query (\<lambda>d. list_ex (\<lambda>e. ei_tenant e = ak_tenant key \<and> ei_principal e = key_uuid key
        \<and> ei_provider e = provider_uuid (vw_id view) \<and> ei_issuer e = issuer_str (pv_issuer (vw_settings view)))
        (d_identities d))) (\<lambda>linked.
    require (\<not> \<not> linked) (MutationError.Federation FederationError.Rejected)))))"

text \<open>A provider that refuses is left out; any other error ends the read.\<close>

fun eligible :: "Libraries \<Rightarrow> AccountKey \<Rightarrow> UpstreamOidc \<Rightarrow> uuid list \<Rightarrow> (MutationError, LoginOption list) tx" where
  "eligible L key oidc [] = ret []"
| "eligible L key oidc (u # us) =
    bind (require (u \<noteq> uuid_nil) (MutationError.Federation FederationError.Configuration)) (\<lambda>_.
    bind (widen Storage (provider L (ak_tenant key) (ProviderId u))) (\<lambda>view.
    bind (\<lambda>w. case check_step_up key view oidc w of
        Inr (_, w') \<Rightarrow> Inr ([\<lparr>lo_provider = u,
          lo_label = option_label L (issuer_str (pv_issuer (vw_settings view))) (vw_settings view) u\<rparr>], w')
      | Inl e \<Rightarrow>
          if e = MutationError.Federation FederationError.Rejected \<or> e = MutationError.Federation StaleConfiguration
          then Inr ([], w) else Inl e) (\<lambda>found.
    bind (eligible L key oidc us) (\<lambda>rest.
    ret (found @ rest)))))"

record SessionSecurity =
  ss_source :: AuthenticationSource
  ss_session :: SessionId
  ss_assurance :: Assurance
  ss_eligible :: "LoginOption list"

definition origin_current :: "Libraries \<Rightarrow> UpstreamOidc \<Rightarrow> AccountKey \<Rightarrow> SessionId \<Rightarrow> (MutationError, unit) tx" where
  "origin_current L oidc key sid =
    bind (widen Storage (origin (ak_tenant key) sid)) (\<lambda>og.
    case og of None \<Rightarrow> ret ()
    | Some o1 \<Rightarrow>
        bind (widen Storage (identity (ak_tenant key) (or_identity o1))) (\<lambda>(p, _, _).
        bind (widen Storage (provider L (ak_tenant key) p)) (\<lambda>view.
        require (\<not> ap_fingerprint (uo_assurance_profile oidc (ak_tenant key) (vw_settings view)) \<noteq> vw_assurance_profile view)
          (MutationError.Federation StaleConfiguration))))"

definition session_security_body ::
  "Libraries \<Rightarrow> UpstreamOidc \<Rightarrow> AuthenticatedSession \<Rightarrow> (MutationError, SessionSecurity) tx" where
  "session_security_body L oidc actor =
    (let key = px_key actor in
    bind (widen Storage (lock_guard (ak_tenant key))) (\<lambda>_.
    bind (widen Storage (recheck L actor)) (\<lambda>loaded.
    bind (origin_current L oidc key (sv_id (ld_view loaded))) (\<lambda>_.
    bind (query (provider_ids (ak_tenant key))) (\<lambda>ids.
    bind (require (\<not> length ids > 100) (Storage reject)) (\<lambda>_.
    bind (eligible L key oidc ids) (\<lambda>providers.
    ret \<lparr>ss_source = ld_source loaded, ss_session = sv_id (ld_view loaded), ss_assurance = ld_assurance loaded,
         ss_eligible = providers\<rparr>)))))))"

definition current_session_security :: "FederationService \<Rightarrow> AuthenticatedSession \<Rightarrow> int \<Rightarrow> SessionSecurity op" where
  "current_session_security f actor deadline =
    read_sql (fe_bundle f) (ak_tenant (px_key actor)) deadline (session_security_body (fe_libs f) (fe_oidc f) actor)"

definition check_assurance_profile :: "FederationService \<Rightarrow> TenantId \<Rightarrow> ProviderView \<Rightarrow> AuthorityError + unit" where
  "check_assurance_profile f tenant view =
    (if vw_assurance_profile view \<noteq> ap_fingerprint (uo_assurance_profile (fe_oidc f) tenant (vw_settings view))
     then Err (AuthorityError.Federation StaleConfiguration) else Ok ())"

subsection \<open>Reconciliation\<close>

text \<open>
  The loop over the providers of a transaction ends after \<open>MAX_MUTATION_EVENTS\<close> changes with
  \<open>True\<close>: there may be more. The outer loop runs transactions until one says there are none; it is
  a partial function, whose value is \<open>None\<close> when it does not end.
\<close>

fun reconcile_rows ::
  "Libraries \<Rightarrow> UpstreamOidc \<Rightarrow> TenantId \<Rightarrow> uuid list \<Rightarrow> SecurityEvent list
    \<Rightarrow> (MutationError, bool \<times> SecurityEvent list) tx" where
  "reconcile_rows L oidc tenant [] events = ret (False, events)"
| "reconcile_rows L oidc tenant (u # us) events =
    bind (require (u \<noteq> uuid_nil) (MutationError.Federation FederationError.Configuration)) (\<lambda>_.
    bind (widen Storage (provider L tenant (ProviderId u))) (\<lambda>view.
    let profile = ap_fingerprint (uo_assurance_profile oidc tenant (vw_settings view)) in
    if profile = vw_assurance_profile view then reconcile_rows L oidc tenant us events
    else
      bind (checked_next (vw_version view)) (\<lambda>version.
      bind (checked_next (vw_revocation_epoch view)) (\<lambda>epoch.
      let next_view = view\<lparr>vw_version := version, vw_revocation_epoch := epoch, vw_assurance_profile := profile\<rparr> in
      bind (widen Storage (update_provider_row L tenant next_view)) (\<lambda>_.
      let events' = events @ [federation_event tenant ProviderUpdated next_view None] in
      if length events' = MAX_MUTATION_EVENTS then ret (True, events')
      else reconcile_rows L oidc tenant us events')))))"

definition reconcile_body ::
  "Libraries \<Rightarrow> UpstreamOidc \<Rightarrow> TenantId \<Rightarrow> (MutationError, bool \<times> SecurityEvent list) tx" where
  "reconcile_body L oidc tenant =
    bind (query (provider_ids tenant)) (\<lambda>ids.
    bind (require (\<not> length ids > 100) (Storage reject)) (\<lambda>_.
    if ids = [] then ret (False, [])
    else
      bind (widen Storage (lock_guard tenant)) (\<lambda>_.
      reconcile_rows L oidc tenant ids [])))"

definition reconcile_step :: "FederationService \<Rightarrow> (nat \<Rightarrow> uuid) \<Rightarrow> TenantId \<Rightarrow> instant \<Rightarrow> bool op" where
  "reconcile_step f fresh tenant budget =
    op_bind (Budget_remaining budget) (\<lambda>timeout.
    conditional_write_sql (fe_bundle f) tenant timeout fresh (reconcile_body (fe_libs f) (fe_oidc f) tenant))"

partial_function (option) reconcile_loop ::
  "FederationService \<Rightarrow> (nat \<Rightarrow> nat \<Rightarrow> uuid) \<Rightarrow> TenantId \<Rightarrow> instant \<Rightarrow> nat \<Rightarrow> world
    \<Rightarrow> ((AuthorityError + unit) \<times> world) option" where
  "reconcile_loop f fresh tenant budget n w =
    (case reconcile_step f (fresh n) tenant budget w of
       (Inl e, w') \<Rightarrow> Some (Inl e, w')
     | (Inr again, w') \<Rightarrow>
         if again then reconcile_loop f fresh tenant budget (Suc n) w' else Some (Inr (), w'))"

definition reconcile_assurance_profiles ::
  "FederationService \<Rightarrow> (nat \<Rightarrow> nat \<Rightarrow> uuid) \<Rightarrow> TenantId \<Rightarrow> int \<Rightarrow> world \<Rightarrow> ((AuthorityError + unit) \<times> world) option" where
  "reconcile_assurance_profiles f fresh tenant deadline w =
    (case Budget_new deadline w of
       (Inl e, w') \<Rightarrow> Some (Inl e, w')
     | (Inr budget, w') \<Rightarrow> reconcile_loop f fresh tenant budget 0 w')"

end
