(* ===== verification/Federation_Link.thy ===== *)
theory Federation_Link
  imports Federation_Providers Operations
begin

section \<open>Linking an identity (identity-postgres/src/federation_link.rs, federation_login.rs)\<close>

text \<open>
  A signed-in user links a further identity to the account. The account is proved again first: by
  its password, or by signing in once more with the identity of the session. The proof and the
  target are kept in an intent, a small state machine; the OIDC attempts of the flow carry it.
  Here are the intent and its stages, the check of the actor that every completion makes, the
  begin of a link and the end of its reauthentication. What the flow draws at random is an
  argument.
\<close>

datatype LinkStage = ReauthenticationRequired | TargetReady | Completed

definition LinkStage_restore :: "int \<Rightarrow> PgError + LinkStage" where
  "LinkStage_restore n =
    (if n = 0 then Ok LinkStage.ReauthenticationRequired else if n = 1 then Ok TargetReady
     else if n = 2 then Ok Completed else Err corrupt)"

fun LinkStage_code :: "LinkStage \<Rightarrow> int" where
  "LinkStage_code LinkStage.ReauthenticationRequired = 0"
| "LinkStage_code TargetReady = 1"
| "LinkStage_code Completed = 2"

record LinkIntent =
  in_browser :: "byte list"
  in_id :: uuid
  in_principal :: PrincipalId
  in_session :: SessionId
  in_epoch :: int
  in_member_epoch :: int
  in_origin :: "Origin option"
  in_local_authenticated_at :: "int option"
  in_target :: ProviderId
  in_version :: int
  in_stage :: LinkStage
  in_created :: int
  in_expiry :: int

definition is_link :: "TenantId \<Rightarrow> uuid \<Rightarrow> link_row \<Rightarrow> bool" where
  "is_link tenant i r \<longleftrightarrow> li_tenant r = tenant \<and> li_intent r = i"

definition intent_origin :: "PgError \<Rightarrow> link_row \<Rightarrow> PgError + Origin option" where
  "intent_origin e r =
    (case li_identity r of None \<Rightarrow> Ok None
     | Some i \<Rightarrow>
         and_then (ok_or e (li_source_epoch r)) (\<lambda>epoch.
         and_then (ok_or e (li_facts_sequence r)) (\<lambda>facts_sequence.
         and_then (ok_or e (li_facts r)) (\<lambda>raw.
         and_then (facts_decode raw) (\<lambda>facts.
         Ok (Some \<lparr>or_identity = i, or_epoch = epoch, or_facts = facts, or_facts_sequence = facts_sequence\<rparr>))))))"

definition decode_intent :: "PgError \<Rightarrow> link_row \<Rightarrow> PgError + LinkIntent" where
  "decode_intent e r =
    and_then (intent_origin e r) (\<lambda>og.
    and_then (ensure (li_principal r \<noteq> uuid_nil \<and> li_session r \<noteq> uuid_nil \<and> li_target r \<noteq> uuid_nil) corrupt) (\<lambda>_.
    and_then (LinkStage_restore (li_stage r)) (\<lambda>stage.
    Ok \<lparr>in_browser = li_browser r, in_id = li_intent r, in_principal = PrincipalId (li_principal r),
        in_session = SessionId (li_session r), in_epoch = li_auth_epoch r, in_member_epoch = li_membership_epoch r,
        in_origin = og, in_local_authenticated_at = li_local_at r, in_target = ProviderId (li_target r),
        in_version = li_version r, in_stage = stage, in_created = li_created r, in_expiry = li_expires r\<rparr>)))"

definition intent :: "TenantId \<Rightarrow> uuid \<Rightarrow> (PgError, LinkIntent) tx" where
  "intent tenant i =
    bind (query (\<lambda>d. find (is_link tenant i) (d_links d))) (\<lambda>row.
    bind (lift (ok_or reject row)) (\<lambda>r.
    bind driver_error (\<lambda>e.
    lift (decode_intent e r))))"

definition stage_after :: "LinkStage \<Rightarrow> PgError + LinkStage" where
  "stage_after stage =
    (case stage of LinkStage.ReauthenticationRequired \<Rightarrow> Ok TargetReady | TargetReady \<Rightarrow> Ok Completed
     | Completed \<Rightarrow> Err corrupt)"

definition at_stage :: "TenantId \<Rightarrow> uuid \<Rightarrow> LinkStage \<Rightarrow> link_row \<Rightarrow> bool" where
  "at_stage tenant i stage r \<longleftrightarrow> is_link tenant i r \<and> li_stage r = LinkStage_code stage"

definition advance :: "TenantId \<Rightarrow> uuid \<Rightarrow> LinkStage \<Rightarrow> (PgError, unit) tx" where
  "advance tenant i stage =
    bind (lift (stage_after stage)) (\<lambda>later.
    bind (query (\<lambda>d. count_where (at_stage tenant i stage) (d_links d))) (\<lambda>n.
    bind (exec (\<lambda>d. d\<lparr>d_links := update_where (at_stage tenant i stage)
      (\<lambda>r. r\<lparr>li_stage := LinkStage_code later\<rparr>) (d_links d)\<rparr>)) (\<lambda>_.
    require (\<not> n \<noteq> 1) reject)))"

subsection \<open>The browser and the actor of an attempt\<close>

definition check_browser :: "ustr \<Rightarrow> AuthorityError + unit" where
  "check_browser browser =
    (if byte_len browser \<noteq> 43
        \<or> \<not> list_all (\<lambda>b. is_ascii_alphanumeric (unat b) \<or> unat b \<in> set (lit ''_-'')) (utf8 browser)
     then Err (AuthorityError.Federation FederationError.Rejected) else Ok ())"

definition intent_matches :: "OidcAttempt \<Rightarrow> LinkIntent \<Rightarrow> int \<Rightarrow> bool" where
  "intent_matches a i t \<longleftrightarrow>
    \<not> (in_browser i \<noteq> oa_browser a \<or> t < in_created i \<or> t \<ge> in_expiry i
       \<or> in_stage i \<noteq> (if oa_purpose a = Purpose.Reauthenticate then LinkStage.ReauthenticationRequired else TargetReady))"

definition intent_actor :: "LinkIntent \<Rightarrow> Loaded \<Rightarrow> bool" where
  "intent_actor i actor \<longleftrightarrow>
    \<not> (sv_id (ld_view actor) \<noteq> in_session i \<or> ak_principal (st_key (ld_state actor)) \<noteq> in_principal i
       \<or> st_epoch (ld_state actor) \<noteq> in_epoch i \<or> st_membership_epoch (ld_state actor) \<noteq> in_member_epoch i)"

definition check_actor ::
  "Libraries \<Rightarrow> TenantId \<Rightarrow> OidcAttempt \<Rightarrow> byte list option \<Rightarrow> (PgError, Loaded option) tx" where
  "check_actor L tenant a session =
    (case oa_link a of
       Some i \<Rightarrow>
         bind (intent tenant i) (\<lambda>it.
         bind now (\<lambda>t.
         bind (require (intent_matches a it t) reject) (\<lambda>_.
         bind (lift (ok_or reject session)) (\<lambda>token.
         bind (lookup L tenant token Cookie no_checks) (\<lambda>actor.
         bind (require (intent_actor it actor) reject) (\<lambda>_.
         ret (Some actor)))))))
     | None \<Rightarrow>
       (case oa_replacement a of
          Some expected \<Rightarrow>
            bind (lift (ok_or reject session)) (\<lambda>token.
            bind (lookup L tenant token Cookie no_checks) (\<lambda>actor.
            bind (require (\<not> sv_id (ld_view actor) \<noteq> expected) reject) (\<lambda>_.
            ret (Some actor))))
        | None \<Rightarrow> ret None))"

subsection \<open>States and draws\<close>

record FederationDraws =
  fd_session :: Draws
  fd_state :: "byte list option"
  fd_nonce :: "byte list option"
  fd_verifier :: "byte list option"
  fd_intent :: uuid
  fd_groups :: uuid
  fd_department :: uuid
  fd_grant :: "byte list option"

definition issue_state :: "FederationService \<Rightarrow> TenantId \<Rightarrow> Purpose \<Rightarrow> byte list option \<Rightarrow> AuthorityError + ustr" where
  "issue_state f tenant purpose random = map_err AuthorityError.Federation
    (state_issue (xl_hmac (fe_libs f)) (xl_encode (fe_libs f)) (xl_parse_uuid (fe_libs f)) (xl_show_tenant (fe_libs f))
      (fe_signer f) tenant purpose random)"

definition verify_state :: "FederationService \<Rightarrow> ustr \<Rightarrow> AuthorityError + StateLocator" where
  "verify_state f state = map_err AuthorityError.Federation
    (state_verify (xl_hmac (fe_libs f)) (xl_encode (fe_libs f)) (xl_decode (fe_libs f)) (xl_show_uuid (fe_libs f))
      (xl_parse_tenant (fe_libs f)) (fe_signer f) state)"

text \<open>The state, its locator and the material of a new attempt.\<close>

definition new_material ::
  "FederationService \<Rightarrow> FederationDraws \<Rightarrow> TenantId \<Rightarrow> Purpose \<Rightarrow> AuthorityError + (StateLocator \<times> ProtocolMaterial)" where
  "new_material f draws tenant purpose =
    and_then (issue_state f tenant purpose (fd_state draws)) (\<lambda>state.
    and_then (verify_state f state) (\<lambda>locator.
    and_then (map_err AuthorityError.Federation
      (ProtocolMaterial_new (xl_encode (fe_libs f)) state (fd_nonce draws) (fd_verifier draws))) (\<lambda>material.
    Ok (locator, material))))"

subsection \<open>Beginning a link\<close>

record LinkRequest =
  lq_actor :: AuthenticatedSession
  lq_target_provider :: ProviderId
  lq_password :: "Password option"
  lq_browser :: ustr
  lq_target :: ustr
  lq_source :: AttemptSource

definition link_snapshot_body ::
  "Libraries \<Rightarrow> AuthenticatedSession \<Rightarrow> (MutationError, AccountState \<times> Origin option \<times> ustr option) tx" where
  "link_snapshot_body L actor =
    bind (widen Storage (recheck L actor)) (\<lambda>loaded.
    bind (widen Storage (origin (ak_tenant (px_key actor)) (sv_id (px_view actor)))) (\<lambda>og.
    bind (query (\<lambda>d. map_option lc_login (find (is_credential (px_key actor)) (d_credentials d)))) (\<lambda>login.
    ret (ld_state loaded, og, login))))"

definition prove_account ::
  "FederationService \<Rightarrow> (int \<Rightarrow> int) \<Rightarrow> FederationDraws \<Rightarrow> LinkRequest \<Rightarrow> AccountState \<Rightarrow> ustr option \<Rightarrow> instant
    \<Rightarrow> AuthenticationCandidate option op" where
  "prove_account f float_interval draws q account login budget =
    (let a = fe_authority f; tenant = ak_tenant (px_key (lq_actor q)) in
     case login of
       Some name \<Rightarrow>
         op_bind (op_lift (map_err (\<lambda>_. AuthorityError.Rejected) (LoginKey_parse name))) (\<lambda>key.
         op_bind (op_lift (ok_or AuthorityError.Rejected (lq_password q))) (\<lambda>password.
         op_bind (Budget_remaining budget) (\<lambda>timeout.
         op_bind (verify_password a float_interval (dr_token (fd_session draws)) tenant key password (lq_source q) timeout) (\<lambda>candidate.
         op_bind (op_require (\<not> st_key (cn_state candidate) \<noteq> st_key account) AuthorityError.Rejected) (\<lambda>_.
         op_ret (Some candidate))))))
     | None \<Rightarrow>
         op_bind (op_require (\<not> lq_password q \<noteq> None) AuthorityError.Rejected) (\<lambda>_.
         op_bind (Budget_remaining budget) (\<lambda>timeout.
         op_bind (reserve (au_bundle a) tenant
           (lit ''link:'' @ xl_show_uuid (au_libs a) (key_uuid (px_key (lq_actor q)))) (lq_source q) timeout) (\<lambda>_.
         op_ret None))))"

definition link_provider ::
  "FederationService \<Rightarrow> TenantId \<Rightarrow> ProviderView \<Rightarrow> AuthenticationCandidate option \<Rightarrow> Origin option \<Rightarrow> instant
    \<Rightarrow> (ProviderView \<times> Purpose) op" where
  "link_provider f tenant target candidate og budget =
    (case candidate of
       Some _ \<Rightarrow> op_ret (target, Link)
     | None \<Rightarrow>
         op_bind (op_lift (ok_or AuthorityError.Rejected og)) (\<lambda>o1.
         op_bind (Budget_remaining budget) (\<lambda>timeout.
         op_bind (read_sql (fe_bundle f) tenant timeout
           (bind (widen Storage (identity tenant (or_identity o1))) (\<lambda>(p, _, _). ret p))) (\<lambda>p.
         op_bind (Budget_remaining budget) (\<lambda>timeout.
         op_bind (read_provider (fe_bundle f) (fe_libs f) tenant p timeout) (\<lambda>view.
         op_ret (view, Purpose.Reauthenticate)))))))"

definition link_mode :: "Purpose \<Rightarrow> AuthenticationMode" where
  "link_mode purpose =
    (if purpose = Purpose.Reauthenticate then AuthenticationMode.Reauthenticate else AuthenticationMode.Login)"

text \<open>The \<open>CHECK\<close> constraints of the table of intents.\<close>

definition link_check :: "Libraries \<Rightarrow> link_row \<Rightarrow> bool" where
  "link_check L r \<longleftrightarrow> li_auth_epoch r > 0 \<and> li_membership_epoch r > 0
    \<and> (case li_facts_sequence r of None \<Rightarrow> True | Some n \<Rightarrow> n > 0)
    \<and> (case li_identity r of None \<Rightarrow> (case li_local_at r of None \<Rightarrow> False | Some t \<Rightarrow> t > 0) | Some _ \<Rightarrow> li_local_at r = None)
    \<and> li_version r > 0 \<and> length (li_browser r) = 32 \<and> li_expires r > li_created r
    \<and> (case li_identity r of
         None \<Rightarrow> li_source_epoch r = None \<and> li_facts r = None \<and> li_facts_sequence r = None
       | Some _ \<Rightarrow> li_facts_sequence r \<noteq> None \<and> (case li_source_epoch r of None \<Rightarrow> False | Some n \<Rightarrow> n > 0)
           \<and> (case li_facts r of None \<Rightarrow> False | Some v \<Rightarrow> xl_json_size L v \<le> 32768 \<and> af_format_version v = 3))"

definition new_link_row ::
  "Libraries \<Rightarrow> AuthenticatedSession \<Rightarrow> AccountState \<Rightarrow> Origin option \<Rightarrow> AuthenticationFacts option \<Rightarrow> int option
    \<Rightarrow> ProviderView \<Rightarrow> ustr \<Rightarrow> Purpose \<Rightarrow> uuid \<Rightarrow> int \<Rightarrow> link_row" where
  "new_link_row L actor account og facts local_at target browser purpose i t =
    \<lparr>li_tenant = ak_tenant (px_key actor), li_intent = i, li_principal = key_uuid (st_key account),
     li_session = session_uuid (sv_id (px_view actor)), li_auth_epoch = st_epoch account,
     li_membership_epoch = st_membership_epoch account, li_identity = map_option or_identity og,
     li_source_epoch = map_option or_epoch og, li_facts = facts, li_facts_sequence = map_option or_facts_sequence og,
     li_local_at = local_at, li_target = provider_uuid (vw_id target), li_version = vw_version target,
     li_browser = digest L browser,
     li_stage = LinkStage_code (if purpose = Link then TargetReady else LinkStage.ReauthenticationRequired),
     li_created = t, li_expires = t + 300\<rparr>"

definition kept_origin :: "AuthenticationCandidate option \<Rightarrow> Origin option \<Rightarrow> (PgError, Origin option) tx" where
  "kept_origin candidate og =
    (case candidate of Some c \<Rightarrow> bind (current c) (\<lambda>_. ret None) | None \<Rightarrow> ret og)"

definition begin_link_body ::
  "Libraries \<Rightarrow> FederationDraws \<Rightarrow> LinkRequest \<Rightarrow> AccountState \<Rightarrow> Origin option \<Rightarrow> AuthenticationCandidate option
    \<Rightarrow> ProviderView \<Rightarrow> ProviderView \<Rightarrow> Purpose \<Rightarrow> StateLocator \<Rightarrow> ProtocolMaterial \<Rightarrow> ustr \<Rightarrow> (MutationError, unit) tx" where
  "begin_link_body L draws q account og candidate target view purpose locator material return_url =
    (let actor = lq_actor q; tenant = ak_tenant (px_key actor) in
    bind (widen Storage (recheck L actor)) (\<lambda>loaded.
    bind (require (\<not> \<not> matches_verification (ld_state loaded) account) (Storage reject)) (\<lambda>_.
    bind (widen Storage (provider L tenant (vw_id target))) (\<lambda>target_now.
    bind (lift (map_err MutationError.Federation (exact target_now (vw_version target)))) (\<lambda>_.
    bind (widen Storage (kept_origin candidate og)) (\<lambda>kept_og.
    bind now (\<lambda>t.
    bind (lift (map_err Storage (encoded_facts L kept_og))) (\<lambda>facts.
    let row = new_link_row L actor account kept_og facts (map_option cn_authenticated_at candidate) target (lq_browser q)
      purpose (fd_intent draws) t in
    bind (widen Storage (insert_checked
      (\<lambda>d. link_check L row \<and> \<not> list_ex (is_link tenant (fd_intent draws)) (d_links d))
      (\<lambda>d. d\<lparr>d_links := row # d_links d\<rparr>))) (\<lambda>_.
    insert_attempt L
      \<lparr>na_context = None, na_mode = link_mode purpose, na_locator = locator, na_material = material,
       na_provider = view, na_browser = lq_browser q, na_return_url = return_url, na_link = Some (fd_intent draws),
       na_replacement = None, na_expiry = Some (t + 300)\<rparr>)))))))))"

definition begin_link ::
  "FederationService \<Rightarrow> (int \<Rightarrow> int) \<Rightarrow> FederationDraws \<Rightarrow> LinkRequest \<Rightarrow> int \<Rightarrow> ustr op" where
  "begin_link f float_interval draws q deadline =
    (let a = fe_authority f; L = fe_libs f; actor = lq_actor q; tenant = ak_tenant (px_key actor) in
    op_bind (op_require (\<not> sv_kind (px_view actor) \<noteq> Cookie) AuthorityError.Rejected) (\<lambda>_.
    op_bind (op_lift (check_browser (lq_browser q))) (\<lambda>_.
    op_bind (Budget_new deadline) (\<lambda>b0.
    let budget = min b0 (px_expires actor) in
    op_bind (op_lift (fe_target f (lq_target q))) (\<lambda>return_url.
    op_bind (Budget_remaining budget) (\<lambda>timeout.
    op_bind (read_sql (au_bundle a) tenant timeout (link_snapshot_body L actor)) (\<lambda>(account, og, login).
    op_bind (prove_account f float_interval draws q account login budget) (\<lambda>candidate.
    op_bind (Budget_remaining budget) (\<lambda>timeout.
    op_bind (read_provider (au_bundle a) L tenant (lq_target_provider q) timeout) (\<lambda>target.
    op_bind (op_require (\<not> \<not> vw_enabled target) AuthorityError.Rejected) (\<lambda>_.
    op_bind (link_provider f tenant target candidate og budget) (\<lambda>(view, purpose).
    op_bind (op_lift (new_material f draws tenant purpose)) (\<lambda>(locator, material).
    op_bind (op_lift (check_assurance_profile f tenant view)) (\<lambda>_.
    op_bind (Budget_remaining budget) (\<lambda>timeout.
    op_bind (provider_credentials a (fe_sealing f) (fe_keys f) tenant (vw_id view) (vw_credential_version view) timeout) (\<lambda>credentials.
    op_bind (upstream_call budget (uo_prepare (fe_oidc f) tenant (vw_settings view) credentials material (link_mode purpose))) (\<lambda>url.
    op_bind (Budget_remaining budget) (\<lambda>timeout.
    op_bind (read_sql (au_bundle a) tenant timeout
      (begin_link_body L draws q account og candidate target view purpose locator material return_url)) (\<lambda>_.
    op_ret url)))))))))))))))))))"


subsection \<open>The end of the reauthentication\<close>

record Reauthentication =
  re_state :: ustr
  re_browser :: ustr
  re_session :: "byte list option"
  re_old :: OidcAttempt
  re_source :: ProviderView
  re_claims :: UpstreamClaims

definition target_body :: "Libraries \<Rightarrow> TenantId \<Rightarrow> uuid \<Rightarrow> (MutationError, ProviderView) tx" where
  "target_body L tenant i =
    bind (widen Storage (intent tenant i)) (\<lambda>it.
    bind (widen Storage (provider L tenant (in_target it))) (\<lambda>target.
    bind (lift (map_err MutationError.Federation (exact target (in_version it)))) (\<lambda>_.
    ret target)))"

definition same_subject ::
  "Libraries \<Rightarrow> ProviderView \<Rightarrow> UpstreamClaims \<Rightarrow> OidcAttempt \<Rightarrow> ProviderId \<Rightarrow> ustr \<Rightarrow> ustr \<Rightarrow> int \<Rightarrow> bool" where
  "same_subject L source claims a source_id issuer subject t \<longleftrightarrow>
    \<not> (source_id \<noteq> vw_id source \<or> issuer \<noteq> uc_issuer claims
       \<or> subject \<noteq> storage_key (xl_show_uuid L) (uc_subject claims)
       \<or> \<not> is_ok (Assurance_check (uc_assurance claims) AuthenticationMode.Reauthenticate (oa_created a) t))"

definition collect_facts ::
  "FederationService \<Rightarrow> FederationDraws \<Rightarrow> UpstreamClaims \<Rightarrow> int \<Rightarrow> ProviderView \<Rightarrow> int
    \<Rightarrow> MutationError + AuthenticationFacts" where
  "collect_facts f draws claims version view t = map_err MutationError.Federation
    (facts_collect (fd_groups draws) (fd_department draws) claims version (fe_group_policy f)
      (cm_department_snapshot (pv_claims (vw_settings view))) t)"

definition store_reauthentication ::
  "FederationService \<Rightarrow> FederationDraws \<Rightarrow> TenantId \<Rightarrow> uuid \<Rightarrow> UpstreamClaims \<Rightarrow> int \<Rightarrow> ProviderView \<Rightarrow> int
    \<Rightarrow> (MutationError, unit) tx" where
  "store_reauthentication f draws tenant i claims version current_source t =
    bind (lift (collect_facts f draws claims version current_source t)) (\<lambda>facts.
    bind (lift (map_err Storage (facts_encode (xl_json_size (fe_libs f)) facts))) (\<lambda>stored.
    bind (widen Storage (sequence tenant)) (\<lambda>n.
    bind (widen Storage (insert_checked
      (\<lambda>d. list_all (\<lambda>r. is_link tenant i r \<longrightarrow> link_check (fe_libs f) (r\<lparr>li_facts := Some stored, li_facts_sequence := Some n\<rparr>)) (d_links d))
      (\<lambda>d. d\<lparr>d_links := update_where (is_link tenant i)
        (\<lambda>r. r\<lparr>li_facts := Some stored, li_facts_sequence := Some n\<rparr>) (d_links d)\<rparr>))) (\<lambda>_.
    widen Storage (advance tenant i LinkStage.ReauthenticationRequired)))))"

definition reauthentication_body ::
  "FederationService \<Rightarrow> FederationDraws \<Rightarrow> StateLocator \<Rightarrow> Reauthentication \<Rightarrow> uuid \<Rightarrow> ProviderView \<Rightarrow> StateLocator
    \<Rightarrow> ProtocolMaterial \<Rightarrow> (MutationError, unit \<times> SecurityEvent list) tx" where
  "reauthentication_body f draws locator input i target new_locator material =
    (let L = fe_libs f; tenant = sl_tenant locator; source = re_source input; claims = re_claims input in
    bind (widen Storage (lock_guard tenant)) (\<lambda>_.
    bind (widen Storage (oidc_attempt L locator (re_state input) (re_browser input) True)) (\<lambda>(a, _).
    bind (widen Storage (provider L tenant (vw_id source))) (\<lambda>current_source.
    bind (lift (map_err MutationError.Federation (exact current_source (vw_version source)))) (\<lambda>_.
    bind (widen Storage (check_actor L tenant a (re_session input))) (\<lambda>_.
    bind (widen Storage (intent tenant i)) (\<lambda>it.
    bind (lift (ok_or (Storage reject) (in_origin it))) (\<lambda>og.
    bind (widen Storage (check_origin L \<lparr>ak_tenant = tenant, ak_principal = in_principal it\<rparr> og)) (\<lambda>_.
    bind (widen Storage (identity tenant (or_identity og))) (\<lambda>(source_id, issuer, subject).
    bind now (\<lambda>t.
    bind (require (same_subject L source claims a source_id issuer subject t) (MutationError.Federation FederationError.Claims)) (\<lambda>_.
    bind (store_reauthentication f draws tenant i claims (vw_version source) current_source t) (\<lambda>_.
    bind (consume_oidc locator) (\<lambda>_.
    bind (insert_attempt L
      \<lparr>na_context = None, na_mode = AuthenticationMode.Login, na_locator = new_locator, na_material = material,
       na_provider = target, na_browser = re_browser input, na_return_url = oa_return_url a, na_link = Some i,
       na_replacement = None, na_expiry = Some (in_expiry it)\<rparr>) (\<lambda>_.
    ret ((), [federation_event tenant Reauthenticated source (Some (in_principal it))]))))))))))))))))"

definition finish_reauthentication ::
  "FederationService \<Rightarrow> FederationDraws \<Rightarrow> Reauthentication \<Rightarrow> instant \<Rightarrow> ustr op" where
  "finish_reauthentication f draws input budget =
    (let a = fe_authority f; L = fe_libs f in
    op_bind (op_lift (verify_state f (re_state input))) (\<lambda>locator.
    let tenant = sl_tenant locator in
    op_bind (op_lift (ok_or AuthorityError.Rejected (oa_link (re_old input)))) (\<lambda>i.
    op_bind (Budget_remaining budget) (\<lambda>timeout.
    op_bind (read_sql (au_bundle a) tenant timeout (target_body L tenant i)) (\<lambda>target.
    op_bind (op_lift (new_material f draws tenant Link)) (\<lambda>(new_locator, material).
    op_bind (op_lift (check_assurance_profile f tenant target)) (\<lambda>_.
    op_bind (Budget_remaining budget) (\<lambda>timeout.
    op_bind (provider_credentials a (fe_sealing f) (fe_keys f) tenant (vw_id target) (vw_credential_version target) timeout) (\<lambda>credentials.
    op_bind (upstream_call budget (uo_prepare (fe_oidc f) tenant (vw_settings target) credentials material AuthenticationMode.Login)) (\<lambda>url.
    op_bind (Budget_remaining budget) (\<lambda>timeout.
    op_bind (write_sql (au_bundle a) tenant timeout (dr_events (fd_session draws))
      (reauthentication_body f draws locator input i target new_locator material)) (\<lambda>_.
    op_ret url))))))))))))"

end
