(* ===== verification/Step_Up.thy ===== *)
theory Step_Up
  imports Sessions Histories Samples
begin

section \<open>Step-up grants (identity-postgres/src/step_up.rs)\<close>

text \<open>
  A grant is the one-use proof of a recent authentication for one operation: bound to the account
  and the session that earned it, to the epochs of both, to the operation's context, and to the
  identity or the authenticator it rests on. The host consumes it in the transaction of the
  operation. Only the digest of its handle is stored.
\<close>

record StepUpGrant =
  sg_secret :: ustr
  sg_expires_at :: int

record ConsumedStepUp =
  cp_authenticated_at :: int
  cp_source :: GrantSource

definition authentication_event :: "AccountKey \<Rightarrow> AuthenticationAction \<Rightarrow> SecurityEvent" where
  "authentication_event key action =
    SecurityEvent.Authentication
      \<lparr>nev_tenant = ak_tenant key, nev_principal = key_uuid key, nev_action = action\<rparr>"

definition new_handle :: "Libraries \<Rightarrow> byte list option \<Rightarrow> (MutationError, ustr) tx" where
  "new_handle L random = lift (map_err MutationError.Federation (random_secret (xl_encode L) random))"

definition is_grant :: "TenantId \<Rightarrow> byte list \<Rightarrow> grant_row \<Rightarrow> bool" where
  "is_grant tenant token r \<longleftrightarrow> gr_tenant r = tenant \<and> gr_hash r = token"

definition owns_grant :: "AccountKey \<Rightarrow> grant_row \<Rightarrow> bool" where
  "owns_grant key r \<longleftrightarrow> gr_tenant r = ak_tenant key \<and> gr_principal r = key_uuid key"

text \<open>The key and the \<open>CHECK\<close> constraints of the table.\<close>

definition grant_admissible :: "Libraries \<Rightarrow> grant_row \<Rightarrow> db \<Rightarrow> bool" where
  "grant_admissible L r d \<longleftrightarrow>
    \<not> list_ex (is_grant (gr_tenant r) (gr_hash r)) (d_grants d)
    \<and> length (gr_hash r) = 32 \<and> gr_auth_epoch r > 0 \<and> gr_membership_epoch r > 0
    \<and> xl_context_size L (gr_context r) \<le> 2048 \<and> xl_source_size L (gr_source r) \<le> 2048
    \<and> gr_authenticated_at r > 0 \<and> gr_expires r > gr_authenticated_at r
    \<and> gr_expires r - gr_authenticated_at r \<le> 300"

definition grant_row_of :: "Libraries \<Rightarrow> Loaded \<Rightarrow> StepUpContext \<Rightarrow> GrantSource \<Rightarrow> int \<Rightarrow> int \<Rightarrow> ustr \<Rightarrow> grant_row" where
  "grant_row_of L loaded context source authenticated_at expires secret =
    \<lparr>gr_tenant = ak_tenant (st_key (ld_state loaded)), gr_hash = digest L secret,
     gr_principal = key_uuid (st_key (ld_state loaded)), gr_session = session_uuid (sv_id (ld_view loaded)),
     gr_auth_epoch = st_epoch (ld_state loaded), gr_membership_epoch = st_membership_epoch (ld_state loaded),
     gr_context = step_up_columns context, gr_source = source,
     gr_authenticated_at = authenticated_at, gr_expires = expires\<rparr>"

definition sweep_grants :: "AccountKey \<Rightarrow> int \<Rightarrow> ('e, unit) tx" where
  "sweep_grants key t =
    bind (exec (\<lambda>d. d\<lparr>d_grants := delete_where (\<lambda>r. owns_grant key r \<and> gr_expires r \<le> t) (d_grants d)\<rparr>)) (\<lambda>_.
    exec (\<lambda>d. d\<lparr>d_grants := delete_first gr_expires 128
      (\<lambda>r. gr_tenant r = ak_tenant key \<and> gr_expires r \<le> t) (d_grants d)\<rparr>))"

definition issue_grant ::
  "Libraries \<Rightarrow> byte list option \<Rightarrow> Loaded \<Rightarrow> StepUpContext \<Rightarrow> GrantSource \<Rightarrow> int \<Rightarrow> (MutationError, StepUpGrant) tx" where
  "issue_grant L random loaded context source authenticated_at =
    (let key = st_key (ld_state loaded);
         expires = min (min (authenticated_at + 300) (sv_idle_expires_at (ld_view loaded)))
           (sv_absolute_expires_at (ld_view loaded)) in
    bind now (\<lambda>t.
    bind (require (\<not> (authenticated_at \<le> 0 \<or> authenticated_at > t \<or> t - authenticated_at \<ge> 300)) (Storage reject)) (\<lambda>_.
    bind (require (\<not> expires \<le> t) (Storage reject)) (\<lambda>_.
    bind (sweep_grants key t) (\<lambda>_.
    bind (query (\<lambda>d. count_where (owns_grant key) (d_grants d))) (\<lambda>n.
    bind (require (\<not> n \<ge> 32) (Storage reject)) (\<lambda>_.
    bind (new_handle L random) (\<lambda>secret.
    let row = grant_row_of L loaded context source authenticated_at expires secret in
    bind (widen Storage (insert_checked (grant_admissible L row) (\<lambda>d. d\<lparr>d_grants := row # d_grants d\<rparr>))) (\<lambda>_.
    ret \<lparr>sg_secret = secret, sg_expires_at = expires\<rparr>)))))))))"

text \<open>\<open>validate_source\<close>: what the grant rests on is still live.\<close>

fun source_live :: "AccountKey \<Rightarrow> GrantSource \<Rightarrow> db \<Rightarrow> bool" where
  "source_live key (GrantSource.Oidc i p version epoch) d =
    list_ex (\<lambda>e. ei_tenant e = ak_tenant key \<and> ei_principal e = key_uuid key \<and> ei_identity e = i
      \<and> ei_provider e = p \<and> live_provider (ak_tenant key) p version epoch d) (d_identities d)"
| "source_live key (GrantSource.Webauthn i epoch rp configuration) d =
    list_ex (\<lambda>c. wc_tenant c = ak_tenant key \<and> wc_principal c = key_uuid key \<and> wc_id c = i
      \<and> wc_epoch c = epoch \<and> wc_rp c = rp \<and> \<not> wc_revoked c
      \<and> list_ex (\<lambda>r. wr_tenant r = ak_tenant key \<and> wr_rp r = wc_rp c \<and> wr_fingerprint r = wc_rp_config c
          \<and> wr_generation r = configuration) (d_webauthn_rp d)) (d_webauthn_credentials d)"

definition validate_source :: "AccountKey \<Rightarrow> GrantSource \<Rightarrow> (PgError, unit) tx" where
  "validate_source key source =
    bind (query (source_live key source)) (\<lambda>valid. require valid reject)"

text \<open>What \<open>consume_step_up_on\<close> compares before it accepts a row.\<close>

definition grant_matches :: "AccountKey \<Rightarrow> Loaded \<Rightarrow> StepUpContext \<Rightarrow> StepUpContext \<Rightarrow> grant_row \<Rightarrow> int \<Rightarrow> bool" where
  "grant_matches key loaded stored expected r t \<longleftrightarrow>
    \<not> (stored \<noteq> expected
       \<or> gr_principal r \<noteq> key_uuid key
       \<or> gr_session r \<noteq> session_uuid (sv_id (ld_view loaded))
       \<or> gr_auth_epoch r \<noteq> st_epoch (ld_state loaded)
       \<or> gr_membership_epoch r \<noteq> st_membership_epoch (ld_state loaded)
       \<or> t \<ge> gr_expires r \<or> t < gr_authenticated_at r)"

definition consume_step_up_on ::
  "Libraries \<Rightarrow> HostConnection \<Rightarrow> AuthenticatedSession \<Rightarrow> StepUpContext \<Rightarrow> ustr \<Rightarrow> (PgError, ConsumedStepUp) tx" where
  "consume_step_up_on L c actor expected handle =
    (let key = px_key actor; token = digest L handle in
    bind (require (\<not> byte_len handle \<noteq> 43) reject) (\<lambda>_.
    bind (recheck_on L c actor) (\<lambda>loaded.
    bind (query (\<lambda>d. find (is_grant (ak_tenant key) token) (d_grants d))) (\<lambda>row.
    bind (lift (ok_or reject row)) (\<lambda>r.
    bind (lift (map_err (\<lambda>_. corrupt) (StepUpContext_try_from (gr_context r)))) (\<lambda>context.
    bind now (\<lambda>t.
    bind (require (grant_matches key loaded context expected r t) reject) (\<lambda>_.
    bind (validate_source key (gr_source r)) (\<lambda>_.
    bind (recheck L actor) (\<lambda>_.
    bind now (\<lambda>t.
    bind (require (\<not> t \<ge> gr_expires r) reject) (\<lambda>_.
    bind (exec (\<lambda>d. d\<lparr>d_grants := delete_where (is_grant (ak_tenant key) token) (d_grants d)\<rparr>)) (\<lambda>_.
    ret \<lparr>cp_authenticated_at = gr_authenticated_at r, cp_source = gr_source r\<rparr>)))))))))))))"

definition cancel_body :: "Libraries \<Rightarrow> AuthenticatedSession \<Rightarrow> ustr \<Rightarrow> (MutationError, unit) tx" where
  "cancel_body L actor handle =
    bind (widen Storage (recheck L actor)) (\<lambda>_.
    exec (\<lambda>d. d\<lparr>d_grants := delete_where (\<lambda>r. owns_grant (px_key actor) r
      \<and> gr_session r = session_uuid (sv_id (px_view actor)) \<and> gr_hash r = digest L handle) (d_grants d)\<rparr>))"

definition cancel_step_up :: "Authority \<Rightarrow> AuthenticatedSession \<Rightarrow> ustr \<Rightarrow> int \<Rightarrow> unit op" where
  "cancel_step_up a actor handle deadline =
    op_bind (op_lift (require_runtime a)) (\<lambda>_.
    op_bind (op_require (\<not> byte_len handle \<noteq> 43) AuthorityError.InvalidInput) (\<lambda>_.
    read_sql (au_bundle a) (ak_tenant (px_key actor)) deadline (cancel_body (au_libs a) actor handle)))"

subsection \<open>What a consumption establishes\<close>

definition grants_ok :: "db \<Rightarrow> bool" where
  "grants_ok d \<longleftrightarrow> unique_on (\<lambda>r. (gr_tenant r, gr_hash r)) (d_grants d)
    \<and> (\<forall>r\<in>set (d_grants d). gr_expires r \<le> gr_authenticated_at r + 300)"

definition grant_of :: "Libraries \<Rightarrow> db \<Rightarrow> TenantId \<Rightarrow> ustr \<Rightarrow> grant_row option" where
  "grant_of L d tenant handle = find (is_grant tenant (digest L handle)) (d_grants d)"

lemma issue_grant_Inr:
  assumes "issue_grant L random loaded context source at w = Inr (g, w')"
  shows "\<exists>ds. random \<noteq> None \<and> sg_secret g = xl_encode L (the random)
    \<and> sg_expires_at g = min (min (at + 300) (sv_idle_expires_at (ld_view loaded))) (sv_absolute_expires_at (ld_view loaded))
    \<and> set ds \<subseteq> set (d_grants (w_db w)) \<and> (unique_on (\<lambda>r. (gr_tenant r, gr_hash r)) (d_grants (w_db w)) \<longrightarrow> unique_on (\<lambda>r. (gr_tenant r, gr_hash r)) ds)
    \<and> count_where (owns_grant (st_key (ld_state loaded))) ds < 32
    \<and> (let row = grant_row_of L loaded context source at (sg_expires_at g) (sg_secret g) in
        grant_admissible L row ((w_db w)\<lparr>d_grants := ds\<rparr>) \<and> w_db w' = (w_db w)\<lparr>d_grants := row # ds\<rparr>)"
proof -
  let ?key = "st_key (ld_state loaded)"
  let ?expires = "min (min (at + 300) (sv_idle_expires_at (ld_view loaded))) (sv_absolute_expires_at (ld_view loaded))"
  from assms obtain t w1 w2 secret where
    sw: "sweep_grants ?key t (w\<lparr>w_tick := Suc (w_tick w)\<rparr>) = (Inr ((), w1) :: MutationError + _)"
    and n: "\<not> count_where (owns_grant ?key) (d_grants (w_db w1)) \<ge> 32"
    and h: "new_handle L random w1 = Inr (secret, w2)"
    and row: "grant_admissible L (grant_row_of L loaded context source at ?expires secret) (w_db w2)"
      "w' = w2\<lparr>w_db := (w_db w2)\<lparr>d_grants := grant_row_of L loaded context source at ?expires secret # d_grants (w_db w2)\<rparr>\<rparr>"
    and g: "g = \<lparr>sg_secret = secret, sg_expires_at = ?expires\<rparr>"
    unfolding issue_grant_def Let_def by (elim bindE) (auto simp: insert_checked_Inr)
  let ?ds = "delete_first gr_expires 128 (\<lambda>r. gr_tenant r = ak_tenant ?key \<and> gr_expires r \<le> t)
      (delete_where (\<lambda>r. owns_grant ?key r \<and> gr_expires r \<le> t) (d_grants (w_db w)))"
  have sub: "set ?ds \<subseteq> set (d_grants (w_db w))"
    by (rule order_trans [OF set_delete_first_subset]) (auto simp: delete_where_def)
  have uniq: "unique_on (\<lambda>r. (gr_tenant r, gr_hash r)) (d_grants (w_db w)) \<longrightarrow> unique_on (\<lambda>r. (gr_tenant r, gr_hash r)) ?ds"
    by (simp add: unique_on_delete_first unique_on_delete_where)
  from sw n h row g have "random \<noteq> None \<and> sg_secret g = xl_encode L (the random) \<and> sg_expires_at g = ?expires
    \<and> count_where (owns_grant ?key) ?ds < 32
    \<and> (let row = grant_row_of L loaded context source at (sg_expires_at g) (sg_secret g) in
        grant_admissible L row ((w_db w)\<lparr>d_grants := ?ds\<rparr>) \<and> w_db w' = (w_db w)\<lparr>d_grants := row # ?ds\<rparr>)"
    by (auto simp: sweep_grants_def new_handle_def random_secret_def tx_simps and_then_Inr_iff Let_def split: option.splits)
  with sub uniq show ?thesis by (intro exI [of _ ?ds]) blast
qed

lemma recheck_on_Inr:
  "recheck_on L c actor w = Inr (l, w') \<Longrightarrow> recheck L actor w = Inr (l, w')
    \<and> hc_scope c = Some (ak_tenant (px_key actor))"
  by (auto simp: recheck_on_def elim!: bindE)

lemma consume_step_up_Inr:
  assumes "checks_contract (px_checks actor)" and "consume_step_up_on L c actor expected handle w = Inr (p, w')"
  shows "\<exists>l w1 r t u. recheck L actor w = Inr (l, w1) \<and> grant_of L (w_db w) (ak_tenant (px_key actor)) handle = Some r
    \<and> StepUpContext_try_from (gr_context r) = Ok expected
    \<and> grant_matches (px_key actor) l expected expected r t \<and> source_live (px_key actor) (gr_source r) (w_db w)
    \<and> t = w_micros w1 (w_tick w1) div 1000000 \<and> u < gr_expires r
    \<and> p = \<lparr>cp_authenticated_at = gr_authenticated_at r, cp_source = gr_source r\<rparr>
    \<and> w_db w' = (w_db w)\<lparr>d_grants := delete_where (is_grant (ak_tenant (px_key actor)) (digest L handle)) (d_grants (w_db w))\<rparr>"
proof -
  from assms(2) obtain l w1 r stored l2 w2 where
    one: "recheck_on L c actor w = Inr (l, w1)"
    and r: "find (is_grant (ak_tenant (px_key actor)) (digest L handle)) (d_grants (w_db w1)) = Some r"
    and cx: "StepUpContext_try_from (gr_context r) = Ok stored"
    and m: "grant_matches (px_key actor) l stored expected r (w_micros w1 (w_tick w1) div 1000000)"
    and live: "source_live (px_key actor) (gr_source r) (w_db w1)"
    and two: "recheck L actor (w1\<lparr>w_tick := Suc (w_tick w1)\<rparr>) = Inr (l2, w2)"
    and end_: "w_micros w2 (w_tick w2) div 1000000 < gr_expires r"
    and p: "p = \<lparr>cp_authenticated_at = gr_authenticated_at r, cp_source = gr_source r\<rparr>"
    and w': "w' = w2\<lparr>w_tick := Suc (w_tick w2), w_db := (w_db w2)\<lparr>d_grants := delete_where (is_grant (ak_tenant (px_key actor)) (digest L handle)) (d_grants (w_db w2))\<rparr>\<rparr>"
    unfolding consume_step_up_on_def Let_def validate_source_def
    by (elim bindE) (auto simp: not_le)
  note first = recheck_on_Inr [OF one]
  have db: "w_db w1 = w_db w" "w_db w2 = w_db w"
    using reads_onlyD [OF recheck_reads [OF assms(1)] conjunct1 [OF first]] reads_onlyD [OF recheck_reads [OF assms(1)] two] by simp_all
  have "stored = expected" using m by (simp add: grant_matches_def)
  with first r cx m live end_ p w' db show ?thesis
    by (intro exI [of _ l] exI [of _ w1] exI [of _ r] exI [of _ "w_micros w1 (w_tick w1) div 1000000"]
        exI [of _ "w_micros w2 (w_tick w2) div 1000000"]) (auto simp: grant_of_def)
qed

lemma cancel_body_Inr:
  assumes "checks_contract (px_checks actor)" and "cancel_body L actor handle w = Inr (u, w')"
  shows "\<exists>P. w_db w' = (w_db w)\<lparr>d_grants := delete_where P (d_grants (w_db w))\<rparr>"
  using assms(2) reads_onlyD [OF recheck_reads [OF assms(1)]]
  by (auto simp: cancel_body_def tx_simps elim!: bindE)

subsection \<open>A grant is used once\<close>

text \<open>The requests that touch grants; \<open>Issue\<close> is what a completed authentication does.\<close>

datatype grant_request =
  Issue "byte list option" Loaded StepUpContext GrantSource int
| Consume HostConnection AuthenticatedSession StepUpContext ustr
| Cancel AuthenticatedSession ustr

definition consumed_body :: "(PgError, ConsumedStepUp) tx \<Rightarrow> (MutationError, bool) tx" where
  "consumed_body m = bind (widen Storage m) (\<lambda>_. ret True)"

fun grant_body :: "Libraries \<Rightarrow> grant_request \<Rightarrow> (MutationError, bool) tx" where
  "grant_body L (Issue random loaded cx source at) =
    bind (issue_grant L random loaded cx source at) (\<lambda>_. ret True)"
| "grant_body L (Consume c actor expected handle) = consumed_body (consume_step_up_on L c actor expected handle)"
| "grant_body L (Cancel actor handle) = bind (cancel_body L actor handle) (\<lambda>_. ret True)"

definition grant_available :: "TenantId \<Rightarrow> byte list \<Rightarrow> db \<Rightarrow> bool" where
  "grant_available tenant token d \<longleftrightarrow> list_ex (is_grant tenant token) (d_grants d)"

fun consumes :: "Libraries \<Rightarrow> TenantId \<Rightarrow> byte list \<Rightarrow> grant_request \<Rightarrow> bool" where
  "consumes L tenant token (Consume c actor expected handle) \<longleftrightarrow>
    ak_tenant (px_key actor) = tenant \<and> digest L handle = token"
| "consumes L tenant token (Issue random loaded cx source at) \<longleftrightarrow> False"
| "consumes L tenant token (Cancel actor handle) \<longleftrightarrow> False"

fun draws :: "Libraries \<Rightarrow> TenantId \<Rightarrow> byte list \<Rightarrow> grant_request \<Rightarrow> bool" where
  "draws L tenant token (Issue random loaded cx source at) \<longleftrightarrow>
    ak_tenant (st_key (ld_state loaded)) = tenant
    \<and> (case random of None \<Rightarrow> False | Some bytes \<Rightarrow> digest L (xl_encode L bytes) = token)"
| "draws L tenant token (Consume c actor expected handle) \<longleftrightarrow> False"
| "draws L tenant token (Cancel actor handle) \<longleftrightarrow> False"

fun request_admitted :: "grant_request \<Rightarrow> bool" where
  "request_admitted (Consume c actor expected handle) \<longleftrightarrow> checks_contract (px_checks actor)"
| "request_admitted (Cancel actor handle) \<longleftrightarrow> checks_contract (px_checks actor)"
| "request_admitted (Issue random loaded cx source at) \<longleftrightarrow> True"

lemma not_available_subset:
  "\<not> grant_available tenant token d \<Longrightarrow> set (d_grants e) \<subseteq> set (d_grants d) \<Longrightarrow> \<not> grant_available tenant token e"
  by (auto simp: grant_available_def list_ex_iff)

interpretation grants: one_use "grant_body L" "grant_available tenant token" "consumes L tenant token"
    "draws L tenant token" request_admitted
  for L tenant token
proof unfold_locales
  fix q w w'
  assume "request_admitted q" "consumes L tenant token q" "grant_body L q w = Inr (True, w')"
  then obtain c actor expected handle p w1 where
    q: "checks_contract (px_checks actor)" "ak_tenant (px_key actor) = tenant" "digest L handle = token"
    and run: "consume_step_up_on L c actor expected handle w = Inr (p, w1)" and w1: "w' = w1"
    by (cases q) (auto simp: consumed_body_def tx_simps)
  from consume_step_up_Inr [OF q(1) run] obtain r where
    r: "grant_of L (w_db w) tenant handle = Some r"
    and d: "w_db w1 = (w_db w)\<lparr>d_grants := delete_where (is_grant tenant token) (d_grants (w_db w))\<rparr>"
    using q by auto
  have "grant_available tenant token (w_db w)"
    using r q(3) by (auto simp: grant_of_def grant_available_def list_ex_iff dest!: find_SomeD)
  moreover have "\<not> grant_available tenant token (w_db w')"
    using d w1 by (simp add: grant_available_def delete_where_def list_ex_iff)
  ultimately show "grant_available tenant token (w_db w) \<and> \<not> grant_available tenant token (w_db w')" by blast
next
  fix q w ok w'
  assume ad: "request_admitted q" and no: "\<not> draws L tenant token q" and run: "grant_body L q w = Inr (ok, w')"
    and gone: "\<not> grant_available tenant token (w_db w)"
  show "\<not> grant_available tenant token (w_db w')"
  proof (cases q)
    case (Issue random loaded cx source at)
    with run obtain g where g: "issue_grant L random loaded cx source at w = Inr (g, w')" by (auto simp: tx_simps)
    from issue_grant_Inr [OF g] obtain ds where ds: "random \<noteq> None" "sg_secret g = xl_encode L (the random)"
      "set ds \<subseteq> set (d_grants (w_db w))"
      "w_db w' = (w_db w)\<lparr>d_grants := grant_row_of L loaded cx source at (sg_expires_at g) (sg_secret g) # ds\<rparr>"
      by (auto simp: Let_def)
    have "\<not> is_grant tenant token (grant_row_of L loaded cx source at (sg_expires_at g) (sg_secret g))"
      using no Issue ds(1,2) by (auto simp: is_grant_def grant_row_of_def)
    with ds gone show ?thesis by (auto simp: grant_available_def list_ex_iff)
  next
    case (Consume c actor expected handle)
    with run ad obtain p where "checks_contract (px_checks actor)" "consume_step_up_on L c actor expected handle w = Inr (p, w')"
      by (auto simp: consumed_body_def tx_simps)
    from consume_step_up_Inr [OF this] show ?thesis
      by (intro not_available_subset [OF gone]) (auto simp: delete_where_def)
  next
    case (Cancel actor handle)
    with run ad have "checks_contract (px_checks actor)" "cancel_body L actor handle w = Inr ((), w')"
      by (auto simp: tx_simps)
    from cancel_body_Inr [OF this] show ?thesis
      by (intro not_available_subset [OF gone]) (auto simp: delete_where_def)
  qed
qed

text \<open>C20: A step-up grant is used at most once. Whatever requests clients and hosts make over time
  (issuing grants, consuming them in the transactions of their operations, cancelling them), in
  whatever order and with whatever failures in between, at most one consumption of a handle
  succeeds, unless the random generator draws the digest of that handle again.\<close>

theorem step_up_grant_once:
  assumes "list_all (\<lambda>q. request_admitted q \<and> \<not> draws L tenant token q) qs"
  shows "length (filter (\<lambda>(q, ok). consumes L tenant token q \<and> ok) (fst (serve (grant_body L) qs w))) \<le> 1"
  using assms by (rule grants.at_most_once)


subsection \<open>Examples\<close>

definition sample_handle :: ustr where "sample_handle = replicate 43 97"

definition sample_context :: StepUpContext where
  "sample_context = \<lparr>su_purpose = lit ''pay'', su_digest = replicate 32 3\<rparr>"

definition host_connection :: HostConnection where
  "host_connection = \<lparr>hc_in_transaction = True, hc_scope = Some sample_tenant, hc_isolation = lit ''read committed''\<rparr>"

definition sample_grant :: grant_row where
  "sample_grant = \<lparr>gr_tenant = sample_tenant, gr_hash = replicate 32 97, gr_principal = 2, gr_session = 3,
     gr_auth_epoch = 1, gr_membership_epoch = 1, gr_context = (lit ''pay'', replicate 32 3),
     gr_source = GrantSource.Webauthn 9 1 (lit ''rp'') 1, gr_authenticated_at = 950, gr_expires = 1250\<rparr>"

definition grant_world :: world where
  "grant_world = session_world\<lparr>w_db := (w_db session_world)\<lparr>d_grants := [sample_grant],
     d_webauthn_rp := [\<lparr>wr_tenant = sample_tenant, wr_rp = lit ''rp'', wr_fingerprint = replicate 32 1, wr_generation = 1\<rparr>],
     d_webauthn_credentials := [\<lparr>wc_tenant = sample_tenant, wc_principal = 2, wc_id = 9, wc_rp = lit ''rp'',
       wc_rp_config = replicate 32 1, wc_hash = replicate 32 2, wc_value = Null, wc_label = lit ''key'', wc_epoch = 1,
       wc_version = 1, wc_revoked = False\<rparr>]\<rparr>\<rparr>"

lemma grant_world_signed_in: "user_signed_in (grant_world\<lparr>w_tick := n\<rparr>)" if "n < 1000"
  using session_world_signed_in that by (simp add: grant_world_def user_signed_in_def guarded_def)

lemma grant_world_simps:
  "w_instants grant_world = int" "w_micros grant_world = (\<lambda>_. 1000000000)" "w_tick grant_world = 0"
  "d_grants (w_db grant_world) = [sample_grant]"
  "d_guard (w_db grant_world) = [\<lparr>gd_tenant = sample_tenant, gd_profile_sequence = 0\<rparr>]"
  by (simp_all add: grant_world_def session_world_def sample_world_def session_db_def sample_db_def)

lemma sample_consumption:
  "consume_step_up_on sample_libs host_connection user_proof sample_context sample_handle grant_world
    = Inr (\<lparr>cp_authenticated_at = 950, cp_source = GrantSource.Webauthn 9 1 (lit ''rp'') 1\<rparr>,
        grant_world\<lparr>w_tick := 10, w_db := (w_db grant_world)\<lparr>d_grants := []\<rparr>\<rparr>)"
proof -
  let ?l = "\<lambda>n. (user_loaded n)\<lparr>ld_expires := 500000000\<rparr>"
  have one: "recheck sample_libs user_proof grant_world = Inr (?l (Suc 0), grant_world\<lparr>w_tick := 4\<rparr>)"
    using recheck_sample [OF grant_world_signed_in [of 0], of sample_libs] by (simp add: grant_world_def session_world_def sample_world_def)
  have two: "recheck sample_libs user_proof (grant_world\<lparr>w_tick := 5\<rparr>) = Inr (?l 6, grant_world\<lparr>w_tick := 9\<rparr>)"
    using recheck_sample [OF grant_world_signed_in [of 5], of sample_libs] by simp
  have d: "digest sample_libs sample_handle = replicate 32 97"
    by code_simp
  have b: "byte_len sample_handle = 43"
    by code_simp
  have cx: "StepUpContext_new (lit ''pay'') (replicate 32 3) = Ok sample_context"
    by code_simp
  have live: "source_live user_key (GrantSource.Webauthn 9 1 (lit ''rp'') 1) (w_db grant_world)"
    by (simp add: grant_world_def)
  have k: "px_key user_proof = user_key" by (simp add: user_proof_def)
  have on: "recheck_on sample_libs host_connection user_proof grant_world = Inr (?l (Suc 0), grant_world\<lparr>w_tick := 4\<rparr>)"
    by (simp add: recheck_on_def run_simps host_connection_def k grant_world_simps one)
  have m: "grant_matches user_key (?l (Suc 0)) sample_context sample_context sample_grant 1000"
    by (simp add: grant_matches_def sample_grant_def user_loaded_def user_state_def user_view_def SessionView_new_def)
  have g: "find (is_grant sample_tenant (replicate 32 97)) [sample_grant] = Some sample_grant"
    "gr_context sample_grant = (lit ''pay'', replicate 32 3)" "gr_source sample_grant = GrantSource.Webauthn 9 1 (lit ''rp'') 1"
    "gr_expires sample_grant = 1250" "gr_authenticated_at sample_grant = 950"
    "is_grant sample_tenant (replicate 32 97) sample_grant"
    by (simp_all add: is_grant_def sample_grant_def)
  show ?thesis
    using live m
    by (simp add: consume_step_up_on_def run_simps Let_def d b k grant_world_simps g cx validate_source_def delete_where_def
        bind_run(1) [where m = "recheck_on sample_libs host_connection user_proof" and w = grant_world, OF on]
        bind_run(1) [where m = "recheck sample_libs user_proof" and w = "grant_world\<lparr>w_tick := 5\<rparr>", OF two]
        del: replicate.simps)
qed


theorem step_up_grant_once_witness:
  "fst (serve (grant_body sample_libs) [Consume host_connection user_proof sample_context sample_handle,
      Consume host_connection user_proof sample_context sample_handle] grant_world)
    = [(Consume host_connection user_proof sample_context sample_handle, True),
       (Consume host_connection user_proof sample_context sample_handle, False)]"
proof -
  let ?q = "Consume host_connection user_proof sample_context sample_handle"
  have a: "list_all (\<lambda>q. request_admitted q \<and> \<not> draws sample_libs sample_tenant (digest sample_libs sample_handle) q) [?q, ?q]"
    using sample_contracts(4) by simp
  have u: "consumes sample_libs sample_tenant (digest sample_libs sample_handle) ?q" by (simp add: user_proof_def)
  obtain w1 where one: "grant_body sample_libs ?q grant_world = Inr (True, w1)"
    by (simp add: consumed_body_def run_simps sample_consumption)
  from step_up_grant_once [OF a, of grant_world] show ?thesis
    using one u by (auto simp: consumed_body_def tx_simps split: sum.splits prod.splits if_splits)
qed

end
