(* ===== verification/Federation_Login.thy ===== *)
theory Federation_Login
  imports Federation_Link Step_Up
begin

section \<open>Signing in upstream (identity-postgres/src/federation_login.rs)\<close>

text \<open>
  A federated login has two halves. The first prepares an authorization request and stores a
  one-use attempt; the second takes the browser's return: it claims the attempt, exchanges the
  code with the provider outside every transaction, and settles everything the claims establish
  in one transaction: the account (made on the spot when the provider allows it), the identity,
  the session or the step-up grant, the profile, the audit events. A completion that fails after
  the claim leaves the attempt claimed, so its code is never exchanged again.
\<close>

subsection \<open>The first half\<close>

record LoginRequest =
  lg_tenant :: TenantId
  lg_provider :: ProviderId
  lg_browser :: ustr
  lg_target :: ustr
  lg_replacement :: "AuthenticatedSession option"
  lg_source :: AttemptSource

definition hex_digit :: "nat \<Rightarrow> nat" where
  "hex_digit n = (if n < 10 then 0x30 + n else 0x57 + n)"

definition hex_digest :: "Libraries \<Rightarrow> ustr \<Rightarrow> ustr" where
  "hex_digest L browser = concat (map (\<lambda>b. [hex_digit (unat b div 16), hex_digit (unat b mod 16)]) (digest L browser))"

definition step_up_view_body ::
  "FederationService \<Rightarrow> TenantId \<Rightarrow> ProviderId \<Rightarrow> AuthenticatedSession \<Rightarrow> (MutationError, ProviderView) tx" where
  "step_up_view_body f tenant p actor =
    bind (widen Storage (lock_guard tenant)) (\<lambda>_.
    bind (require (\<not> ak_tenant (px_key actor) \<noteq> tenant) (Storage reject)) (\<lambda>_.
    bind (widen Storage (recheck (fe_libs f) actor)) (\<lambda>_.
    bind (widen Storage (provider (fe_libs f) tenant p)) (\<lambda>view.
    bind (check_step_up (px_key actor) view (fe_oidc f)) (\<lambda>_.
    ret view)))))"

definition login_view ::
  "FederationService \<Rightarrow> LoginRequest \<Rightarrow> AuthenticationMode \<Rightarrow> instant \<Rightarrow> ProviderView op" where
  "login_view f q mode budget =
    (if mode = AuthenticationMode.StepUp then
       op_bind (op_lift (ok_or (AuthorityError.Federation FederationError.Rejected) (lg_replacement q))) (\<lambda>actor.
       op_bind (Budget_remaining budget) (\<lambda>timeout.
       read_sql (fe_bundle f) (lg_tenant q) timeout (step_up_view_body f (lg_tenant q) (lg_provider q) actor)))
     else
       op_bind (Budget_remaining budget) (\<lambda>timeout.
       read_provider (fe_bundle f) (fe_libs f) (lg_tenant q) (lg_provider q) timeout))"

definition replaced_session ::
  "FederationService \<Rightarrow> LoginRequest \<Rightarrow> AuthenticationMode \<Rightarrow> ProviderView \<Rightarrow> (MutationError, SessionId option) tx" where
  "replaced_session f q mode view =
    (case lg_replacement q of
       None \<Rightarrow> ret None
     | Some held \<Rightarrow>
         bind (require (\<not> ak_tenant (px_key held) \<noteq> lg_tenant q) (Storage reject)) (\<lambda>_.
         bind (widen Storage (recheck (fe_libs f) held)) (\<lambda>loaded.
         bind (when_tx (mode = AuthenticationMode.StepUp)
           (bind (widen Storage (provider (fe_libs f) (lg_tenant q) (lg_provider q))) (\<lambda>current_view.
            bind (lift (map_err MutationError.Federation (exact current_view (vw_version view)))) (\<lambda>_.
            check_step_up (px_key held) current_view (fe_oidc f))))) (\<lambda>_.
         ret (Some (sv_id (ld_view loaded)))))))"

definition begin_body ::
  "FederationService \<Rightarrow> LoginRequest \<Rightarrow> AuthenticationMode \<Rightarrow> StepUpContext option \<Rightarrow> ProviderView \<Rightarrow> StateLocator
    \<Rightarrow> ProtocolMaterial \<Rightarrow> ustr \<Rightarrow> (MutationError, unit) tx" where
  "begin_body f q mode cx view locator material return_url =
    bind (widen Storage (lock_guard (lg_tenant q))) (\<lambda>_.
    bind (replaced_session f q mode view) (\<lambda>replacement.
    insert_attempt (fe_libs f)
      \<lparr>na_context = cx, na_mode = mode, na_locator = locator, na_material = material, na_provider = view,
       na_browser = lg_browser q, na_return_url = return_url, na_link = None, na_replacement = replacement,
       na_expiry = None\<rparr>))"

definition begin_authentication ::
  "FederationService \<Rightarrow> FederationDraws \<Rightarrow> LoginRequest \<Rightarrow> AuthenticationMode \<Rightarrow> StepUpContext option \<Rightarrow> int \<Rightarrow> ustr op" where
  "begin_authentication f drawn q mode cx deadline =
    (let a = fe_authority f; L = fe_libs f; tenant = lg_tenant q in
    op_bind (op_require (\<not> (case lg_replacement q of None \<Rightarrow> False | Some p \<Rightarrow> sv_kind (px_view p) \<noteq> Cookie))
      AuthorityError.Rejected) (\<lambda>_.
    op_bind (op_lift (check_browser (lg_browser q))) (\<lambda>_.
    op_bind (Budget_new deadline) (\<lambda>budget.
    op_bind (op_lift (fe_target f (lg_target q))) (\<lambda>return_url.
    op_bind (login_view f q mode budget) (\<lambda>view.
    op_bind (op_lift (check_assurance_profile f tenant view)) (\<lambda>_.
    op_bind (Budget_remaining budget) (\<lambda>timeout.
    op_bind (provider_credentials a (fe_sealing f) (fe_keys f) tenant (vw_id view) (vw_credential_version view) timeout) (\<lambda>credentials.
    op_bind (op_require (\<not> \<not> vw_enabled view) (AuthorityError.Federation FederationError.Rejected)) (\<lambda>_.
    op_bind (Budget_remaining budget) (\<lambda>timeout.
    op_bind (reserve (au_bundle a) tenant
      (lit ''oidc:'' @ xl_show_uuid L (provider_uuid (lg_provider q)) @ lit '':'' @ hex_digest L (lg_browser q))
      (lg_source q) timeout) (\<lambda>_.
    op_bind (op_lift (new_material f drawn tenant Purpose.Login)) (\<lambda>(locator, material).
    op_bind (upstream_call budget (uo_prepare (fe_oidc f) tenant (vw_settings view) credentials material mode)) (\<lambda>url.
    op_bind (Budget_remaining budget) (\<lambda>timeout.
    op_bind (read_sql (au_bundle a) tenant timeout (begin_body f q mode cx view locator material return_url)) (\<lambda>_.
    op_ret url))))))))))))))))"

definition begin_login :: "FederationService \<Rightarrow> FederationDraws \<Rightarrow> LoginRequest \<Rightarrow> int \<Rightarrow> ustr op" where
  "begin_login f drawn q deadline = begin_authentication f drawn q AuthenticationMode.Login None deadline"

definition begin_step_up ::
  "FederationService \<Rightarrow> FederationDraws \<Rightarrow> LoginRequest \<Rightarrow> StepUpContext \<Rightarrow> int \<Rightarrow> ustr op" where
  "begin_step_up f drawn q cx deadline =
    op_bind (op_require (\<not> lg_replacement q = None) (AuthorityError.Federation FederationError.Rejected)) (\<lambda>_.
    begin_authentication f drawn q AuthenticationMode.StepUp (Some cx) deadline)"

subsection \<open>Cancelling\<close>

definition session_digest :: "Libraries \<Rightarrow> SessionSecret option \<Rightarrow> byte list option" where
  "session_digest L session = map_option (SessionSecret_digest (xl_sha256 L)) session"

definition cancel_login_body ::
  "Libraries \<Rightarrow> StateLocator \<Rightarrow> ustr \<Rightarrow> ustr \<Rightarrow> ustr \<Rightarrow> byte list option \<Rightarrow> (MutationError, unit) tx" where
  "cancel_login_body L locator state browser response_issuer session =
    (let tenant = sl_tenant locator in
    bind (widen Storage (lock_guard tenant)) (\<lambda>_.
    bind (widen Storage (oidc_attempt L locator state browser False)) (\<lambda>(a, _).
    bind (widen Storage (provider L tenant (oa_provider a))) (\<lambda>view.
    bind (lift (map_err MutationError.Federation (exact view (oa_version a)))) (\<lambda>_.
    bind (require (\<not> issuer_str (pv_issuer (vw_settings view)) \<noteq> response_issuer)
      (MutationError.Federation FederationError.Claims)) (\<lambda>_.
    bind (widen Storage (check_actor L tenant a session)) (\<lambda>_.
    consume_oidc locator)))))))"

definition cancel_login ::
  "FederationService \<Rightarrow> ustr \<Rightarrow> ustr \<Rightarrow> ustr \<Rightarrow> SessionSecret option \<Rightarrow> int \<Rightarrow> unit op" where
  "cancel_login f state browser response_issuer session deadline =
    op_bind (op_lift (check_browser browser)) (\<lambda>_.
    op_bind (op_lift (verify_state f state)) (\<lambda>locator.
    read_sql (fe_bundle f) (sl_tenant locator) deadline
      (cancel_login_body (fe_libs f) locator state browser response_issuer (session_digest (fe_libs f) session))))"

subsection \<open>The claim of the second half\<close>

definition claim_login_body ::
  "FederationService \<Rightarrow> StateLocator \<Rightarrow> ustr \<Rightarrow> ustr \<Rightarrow> ustr \<Rightarrow> byte list option
    \<Rightarrow> (MutationError, OidcAttempt \<times> ProviderView \<times> ProtocolMaterial) tx" where
  "claim_login_body f locator state browser response_issuer session =
    (let L = fe_libs f; tenant = sl_tenant locator in
    bind (widen Storage (lock_guard tenant)) (\<lambda>_.
    bind (widen Storage (oidc_attempt L locator state browser False)) (\<lambda>(a, secrets).
    bind (widen Storage (provider L tenant (oa_provider a))) (\<lambda>view.
    bind (lift (map_err MutationError.Federation (exact view (oa_version a)))) (\<lambda>_.
    bind (require (\<not> issuer_str (pv_issuer (vw_settings view)) \<noteq> response_issuer)
      (MutationError.Federation FederationError.Claims)) (\<lambda>_.
    bind (widen Storage (check_actor L tenant a session)) (\<lambda>actor.
    bind (when_tx (oa_mode a = AuthenticationMode.StepUp)
      (bind (lift (ok_or (Storage reject) actor)) (\<lambda>l. check_step_up (st_key (ld_state l)) view (fe_oidc f)))) (\<lambda>_.
    bind (lift (ok_or (Storage corrupt) secrets)) (\<lambda>(nonce, verifier).
    bind (claim_attempt locator) (\<lambda>_.
    ret (a, view, \<lparr>pm_state = state, pm_nonce = nonce, pm_verifier = verifier\<rparr>)))))))))))"


subsection \<open>The settlement of the second half\<close>

datatype LinkResult = Linked | AlreadyLinked

datatype FederatedOutcome =
  StepUp StepUpGrant ustr
| Redirect ustr
| Session IssuedSession ustr "LinkResult option"

definition has_subject :: "Libraries \<Rightarrow> TenantId \<Rightarrow> ProviderView \<Rightarrow> UpstreamClaims \<Rightarrow> identity_row \<Rightarrow> bool" where
  "has_subject L tenant view claims e \<longleftrightarrow> ei_tenant e = tenant \<and> ei_provider e = provider_uuid (vw_id view)
    \<and> ei_issuer e = uc_issuer claims \<and> ei_subject e = storage_key (xl_show_uuid L) (uc_subject claims)"

text \<open>The account the claims lead to, and whether it was made on the spot.\<close>

definition chosen_account ::
  "FederationService \<Rightarrow> FederationDraws \<Rightarrow> TenantId \<Rightarrow> OidcAttempt \<Rightarrow> ProviderView \<Rightarrow> Loaded option \<Rightarrow> identity_row option
    \<Rightarrow> (MutationError, AccountKey \<times> bool) tx" where
  "chosen_account f drawn tenant a view actor existing =
    (if oa_purpose a = Link then
       bind (lift (ok_or (Storage reject) actor)) (\<lambda>l. ret (st_key (ld_state l), False))
     else case existing of
       Some e \<Rightarrow>
         bind (require (ei_principal e \<noteq> uuid_nil) (Storage corrupt)) (\<lambda>_.
         ret (\<lparr>ak_tenant = tenant, ak_principal = PrincipalId (ei_principal e)\<rparr>, False))
     | None \<Rightarrow>
         bind (require (\<not> (oa_mode a = AuthenticationMode.StepUp \<or> \<not> pv_jit (vw_settings view)))
           (MutationError.Federation FederationError.Rejected)) (\<lambda>_.
         let key = \<lparr>ak_tenant = tenant, ak_principal = PrincipalId (dr_principal (fd_session drawn))\<rparr> in
         bind (widen Storage (insert_federated_account key)) (\<lambda>_.
         ret (key, True))))"

text \<open>The keys and the \<open>CHECK\<close> constraints of the identities; every storage key has the pattern of the column.\<close>

definition identity_admissible :: "identity_row \<Rightarrow> db \<Rightarrow> bool" where
  "identity_admissible e d \<longleftrightarrow> 1 \<le> byte_len (ei_issuer e) \<and> byte_len (ei_issuer e) \<le> 2048
    \<and> 6 \<le> byte_len (ei_subject e) \<and> byte_len (ei_subject e) \<le> 260
    \<and> \<not> list_ex (\<lambda>o'. ei_tenant o' = ei_tenant e \<and> (ei_identity o' = ei_identity e
        \<or> ei_provider o' = ei_provider e \<and> ei_issuer o' = ei_issuer e \<and> ei_subject o' = ei_subject e)) (d_identities d)"

definition bound_identity ::
  "Libraries \<Rightarrow> FederationDraws \<Rightarrow> ProviderView \<Rightarrow> UpstreamClaims \<Rightarrow> AccountKey \<Rightarrow> identity_row option
    \<Rightarrow> (MutationError, uuid) tx" where
  "bound_identity L drawn view claims key existing =
    (case existing of
       Some e \<Rightarrow>
         bind (require (\<not> ei_principal e \<noteq> key_uuid key) (MutationError.Federation FederationError.Conflict)) (\<lambda>_.
         ret (ei_identity e))
     | None \<Rightarrow>
         let e = \<lparr>ei_tenant = ak_tenant key, ei_identity = dr_identity (fd_session drawn), ei_principal = key_uuid key,
           ei_provider = provider_uuid (vw_id view), ei_issuer = uc_issuer claims,
           ei_subject = storage_key (xl_show_uuid L) (uc_subject claims)\<rparr> in
         bind (widen Storage (insert_checked (identity_admissible e) (\<lambda>d. d\<lparr>d_identities := e # d_identities d\<rparr>))) (\<lambda>_.
         ret (ei_identity e)))"

definition in_time :: "OidcAttempt \<Rightarrow> (MutationError, unit) tx" where
  "in_time a = bind now (\<lambda>t. require (\<not> t \<ge> oa_expiry a) (Storage reject))"

definition settle_step_up ::
  "FederationService \<Rightarrow> FederationDraws \<Rightarrow> StateLocator \<Rightarrow> OidcAttempt \<Rightarrow> ProviderView \<Rightarrow> Loaded option \<Rightarrow> UpstreamClaims
    \<Rightarrow> AccountKey \<Rightarrow> uuid \<Rightarrow> (MutationError, FederatedOutcome \<times> SecurityEvent list) tx" where
  "settle_step_up f drawn locator a view actor claims key i =
    bind (lift (ok_or (Storage reject) actor)) (\<lambda>l.
    bind (require (\<not> st_key (ld_state l) \<noteq> key) (Storage reject)) (\<lambda>_.
    bind (lift (ok_or (Storage corrupt) (oa_context a))) (\<lambda>cx.
    bind (lift (ok_or (Storage reject) (as_auth_time (uc_assurance claims)))) (\<lambda>at.
    bind (issue_grant (fe_libs f) (fd_grant drawn) l cx
      (GrantSource.Oidc i (provider_uuid (vw_id view)) (vw_version view) (vw_revocation_epoch view)) at) (\<lambda>grant.
    bind (in_time a) (\<lambda>_.
    bind (consume_oidc locator) (\<lambda>_.
    ret (FederatedOutcome.StepUp grant (oa_return_url a), [authentication_event key Verified]))))))))"

text \<open>What the new session rests on and which one it replaces: for a link, the proof of the intent,
  after every session of the account has been revoked; for a login, the claims.\<close>

definition link_authentication ::
  "Libraries \<Rightarrow> TenantId \<Rightarrow> OidcAttempt \<Rightarrow> ProviderView \<Rightarrow> AccountKey \<Rightarrow> AccountState
    \<Rightarrow> (MutationError, SessionAuthentication \<times> SessionId option \<times> AccountState) tx" where
  "link_authentication L tenant a view key state =
    bind (lift (ok_or (Storage reject) (oa_link a))) (\<lambda>i.
    bind (widen Storage (intent tenant i)) (\<lambda>it.
    bind (require (\<not> (in_stage it \<noteq> TargetReady \<or> in_target it \<noteq> vw_id view \<or> in_version it \<noteq> vw_version view)) (Storage reject)) (\<lambda>_.
    bind (lift (map_err Rule (revoke_sessions state))) (\<lambda>revoked.
    bind (write_epoch key (st_epoch revoked)) (\<lambda>_.
    bind (widen Storage (advance tenant (in_id it) TargetReady)) (\<lambda>_.
    bind (case in_origin it of None \<Rightarrow> ret ()
      | Some og \<Rightarrow> bind (widen Storage (check_origin L key og)) (\<lambda>_. ret ())) (\<lambda>_.
    bind (case in_origin it of Some og \<Rightarrow> ret (SessionAuthentication.Oidc og)
      | None \<Rightarrow> bind (lift (ok_or (Storage reject) (in_local_authenticated_at it))) (\<lambda>at.
          ret (SessionAuthentication.LocalPassword at))) (\<lambda>authentication.
    ret (authentication, Some (in_session it), revoked)))))))))"

definition login_authentication ::
  "FederationService \<Rightarrow> FederationDraws \<Rightarrow> TenantId \<Rightarrow> OidcAttempt \<Rightarrow> ProviderView \<Rightarrow> Loaded option \<Rightarrow> UpstreamClaims
    \<Rightarrow> AccountKey \<Rightarrow> uuid \<Rightarrow> AccountState \<Rightarrow> int
    \<Rightarrow> (MutationError, SessionAuthentication \<times> SessionId option \<times> AccountState) tx" where
  "login_authentication f drawn tenant a view actor claims key i state t =
    bind (require (\<not> (case actor of None \<Rightarrow> False | Some l \<Rightarrow> st_key (ld_state l) \<noteq> key)) (Storage reject)) (\<lambda>_.
    bind (widen Storage (sequence tenant)) (\<lambda>n.
    bind (lift (collect_facts f drawn claims (vw_version view) view t)) (\<lambda>facts.
    ret (SessionAuthentication.Oidc \<lparr>or_identity = i, or_epoch = vw_revocation_epoch view, or_facts = facts,
           or_facts_sequence = n\<rparr>, oa_replacement a, state))))"

definition login_action :: "OidcAttempt \<Rightarrow> bool \<Rightarrow> bool \<Rightarrow> FederationAction" where
  "login_action a already new_account =
    (if oa_purpose a = Link then if already then FederationAction.AlreadyLinked else FederationAction.Linked
     else if oa_mode a = AuthenticationMode.StepUp then SteppedUp
     else if new_account then JitCreated else LoggedIn)"

definition settle_session ::
  "FederationService \<Rightarrow> FederationDraws \<Rightarrow> StateLocator \<Rightarrow> OidcAttempt \<Rightarrow> ProviderView \<Rightarrow> Loaded option \<Rightarrow> UpstreamClaims
    \<Rightarrow> AccountKey \<Rightarrow> uuid \<Rightarrow> AccountState \<Rightarrow> int \<Rightarrow> bool \<Rightarrow> bool
    \<Rightarrow> (MutationError, FederatedOutcome \<times> SecurityEvent list) tx" where
  "settle_session f drawn locator a view actor claims key i state t already new_account =
    (let L = fe_libs f; tenant = sl_tenant locator; linked = (oa_purpose a = Link) in
    bind (if linked then link_authentication L tenant a view key state
          else login_authentication f drawn tenant a view actor claims key i state t) (\<lambda>(authentication, replaced, current_state).
    bind (widen Storage (insert_session L (fd_session drawn) current_state replaced authentication t
      (au_session_policy (fe_authority f)) Cookie)) (\<lambda>(issued, fact).
    bind (when_tx linked
      (bind (lift (ok_or (Storage reject) replaced)) (\<lambda>old.
       widen Storage (retain_binding key old (sv_id (is_view issued)))))) (\<lambda>_.
    bind (in_time a) (\<lambda>_.
    bind (if linked then ret None
          else widen Storage (accept L (dr_snapshot (fd_session drawn)) key (sv_id (is_view issued))
            (sv_absolute_expires_at (is_view issued)) (oidc_observation claims view (oa_profile_sequence a))
            (au_limits (fe_authority f)))) (\<lambda>profile.
    bind (consume_oidc locator) (\<lambda>_.
    ret (FederatedOutcome.Session issued (oa_return_url a)
           (if linked then Some (if already then LinkResult.AlreadyLinked else LinkResult.Linked) else None),
         federation_event tenant (login_action a already new_account) view (Some (ak_principal key)) # fact
           # (case profile of None \<Rightarrow> [] | Some e \<Rightarrow> [e])))))))))"

definition settle_login_body ::
  "FederationService \<Rightarrow> FederationDraws \<Rightarrow> StateLocator \<Rightarrow> ustr \<Rightarrow> ustr \<Rightarrow> byte list option \<Rightarrow> UpstreamClaims
    \<Rightarrow> (MutationError, FederatedOutcome \<times> SecurityEvent list) tx" where
  "settle_login_body f drawn locator state browser session claims =
    (let L = fe_libs f; tenant = sl_tenant locator in
    bind (widen Storage (lock_guard tenant)) (\<lambda>_.
    bind (widen Storage (oidc_attempt L locator state browser True)) (\<lambda>(a, _).
    bind (widen Storage (provider L tenant (oa_provider a))) (\<lambda>view.
    bind (lift (map_err MutationError.Federation (exact view (oa_version a)))) (\<lambda>_.
    bind (widen Storage (check_actor L tenant a session)) (\<lambda>actor.
    bind (when_tx (oa_mode a = AuthenticationMode.StepUp)
      (bind (lift (ok_or (Storage reject) actor)) (\<lambda>l. check_step_up (st_key (ld_state l)) view (fe_oidc f)))) (\<lambda>_.
    bind (query (\<lambda>d. find (has_subject L tenant view claims) (d_identities d))) (\<lambda>existing.
    bind (chosen_account f drawn tenant a view actor existing) (\<lambda>(key, new_account).
    bind (bound_identity L drawn view claims key existing) (\<lambda>i.
    bind (widen Storage (load key)) (\<lambda>stored.
    bind (require (\<not> \<not> active (so_state stored)) (Storage reject)) (\<lambda>_.
    bind now (\<lambda>t.
    bind (lift (map_err MutationError.Federation (Assurance_check (uc_assurance claims) (oa_mode a) (oa_created a) t))) (\<lambda>_.
    if oa_mode a = AuthenticationMode.StepUp then settle_step_up f drawn locator a view actor claims key i
    else settle_session f drawn locator a view actor claims key i (so_state stored) t (existing \<noteq> None) new_account))))))))))))))"

definition check_claims :: "ProviderView \<Rightarrow> UpstreamClaims \<Rightarrow> AuthorityError + unit" where
  "check_claims view claims =
    and_then (map_err AuthorityError.Federation (UpstreamClaims_validate claims)) (\<lambda>_.
    and_then (ensure (\<not> \<not> subject_matches (uc_subject claims) (cm_subject (pv_claims (vw_settings view))))
      (AuthorityError.Federation FederationError.Claims)) (\<lambda>_.
    ensure (\<not> uc_issuer claims \<noteq> issuer_str (pv_issuer (vw_settings view))) (AuthorityError.Federation FederationError.Claims)))"

definition complete_login ::
  "FederationService \<Rightarrow> FederationDraws \<Rightarrow> ustr \<Rightarrow> ustr \<Rightarrow> ustr \<Rightarrow> ustr \<Rightarrow> SessionSecret option \<Rightarrow> int
    \<Rightarrow> FederatedOutcome op" where
  "complete_login f drawn state browser code response_issuer secret deadline =
    (let a = fe_authority f; L = fe_libs f; session = session_digest L secret in
    op_bind (op_lift (check_browser browser)) (\<lambda>_.
    op_bind (Budget_new deadline) (\<lambda>budget.
    op_bind (op_lift (verify_state f state)) (\<lambda>locator.
    let tenant = sl_tenant locator in
    op_bind (Budget_remaining budget) (\<lambda>timeout.
    op_bind (read_sql (au_bundle a) tenant timeout
      (claim_login_body f locator state browser response_issuer session)) (\<lambda>(attempted, view, material).
    op_bind (op_lift (check_assurance_profile f tenant view)) (\<lambda>_.
    op_bind (Budget_remaining budget) (\<lambda>timeout.
    op_bind (provider_credentials a (fe_sealing f) (fe_keys f) tenant (vw_id view) (vw_credential_version view) timeout) (\<lambda>credentials.
    op_bind (op_require (\<not> \<not> allowed_return f (oa_return_url attempted)) (AuthorityError.Federation FederationError.Rejected)) (\<lambda>_.
    op_bind (upstream_call budget (uo_exchange (fe_oidc f) tenant (vw_settings view) credentials material code)) (\<lambda>claims.
    op_bind (op_lift (check_claims view claims)) (\<lambda>_.
    if oa_purpose attempted = Purpose.Reauthenticate then
      op_bind (finish_reauthentication f drawn
        \<lparr>re_state = state, re_browser = browser, re_session = session, re_old = attempted, re_source = view, re_claims = claims\<rparr>
        budget) (\<lambda>url. op_ret (Redirect url))
    else
      op_bind (op_lift (verify_state f state)) (\<lambda>locator.
      op_bind (Budget_remaining budget) (\<lambda>timeout.
      write_sql (au_bundle a) tenant timeout (dr_events (fd_session drawn))
        (settle_login_body f drawn locator state browser session claims)))))))))))))))"

end
