(* ===== verification/Provider_Life.thy ===== *)
theory Provider_Life
  imports Federation_Providers Account_Life
begin

section \<open>What the administration of providers guarantees\<close>

subsection \<open>The database after any settlement\<close>

lemma read_bundle_any:
  assumes "read_bundle b t timeout v operation w = (r, reason, w')"
  shows "w_db w' = w_db w \<or> (\<exists>x w1. operation w = Inr (x, w1) \<and> w_db w' = w_db w1)"
  using assms
  by (auto simp: read_bundle_def Let_def local_tx_def resumed_def checked_body_def tx_simps
      split: if_splits option.splits sum.splits prod.splits SuccessFate.splits FailureFate.splits)

lemma settle_events_any:
  assumes "audit_contract b" and "settle_events b t timeout fresh operation require_event w = (r, w')"
  shows "w_db w' = w_db w \<or> (\<exists>w0 x w1. w_db w0 = w_db w \<and> operation w0 = Inr (x, w1)
    \<and> w_db w' = (w_db w1)\<lparr>d_audit := d_audit (w_db w')\<rparr>)"
proof -
  from assms(2) obtain q reason where "read_bundle b t timeout True (settled_body b t fresh operation require_event) w = (q, reason, w')"
    by (auto simp: settle_events_def with_reason_def split: prod.splits)
  from read_bundle_any [OF this] show ?thesis
    by (auto elim!: settled_body_Ok [OF assms(1)])
qed

lemma Budget_new_db: "Budget_new timeout w = (r, w') \<Longrightarrow> w_db w' = w_db w"
  by (auto simp: Budget_new_def op_bind_def op_require_def op_lift_def op_instant_def split: prod.splits sum.splits)

lemma Budget_remaining_run:
  "Budget_remaining b w = (Inr (max 0 (b - w_instants w (w_tick w))), w\<lparr>w_tick := Suc (w_tick w)\<rparr>)"
  by (simp add: Budget_remaining_def op_bind_def op_ret_def op_instant_def)

subsection \<open>Reconciliation\<close>

text \<open>A provider whose stored fingerprint is not the host's present one, and what becomes of it.\<close>

definition row_view :: "Libraries \<Rightarrow> provider_row \<Rightarrow> PgError + ProviderView" where
  "row_view L r = decode_provider L (ProviderId (pv_provider r)) r"

definition fingerprint :: "UpstreamOidc \<Rightarrow> TenantId \<Rightarrow> ProviderView \<Rightarrow> byte list" where
  "fingerprint oidc tenant v = ap_fingerprint (uo_assurance_profile oidc tenant (vw_settings v))"

definition stale :: "Libraries \<Rightarrow> UpstreamOidc \<Rightarrow> TenantId \<Rightarrow> provider_row \<Rightarrow> bool" where
  "stale L oidc tenant r \<longleftrightarrow> pv_tenant r = tenant
    \<and> (case row_view L r of Inl _ \<Rightarrow> False | Inr v \<Rightarrow> fingerprint oidc tenant v \<noteq> vw_assurance_profile v)"

definition refreshed :: "Libraries \<Rightarrow> UpstreamOidc \<Rightarrow> TenantId \<Rightarrow> provider_row \<Rightarrow> provider_row" where
  "refreshed L oidc tenant r =
    (if stale L oidc tenant r
     then r\<lparr>pv_version := pv_version r + 1, pv_epoch := pv_epoch r + 1,
            pv_assurance := fingerprint oidc tenant (projr (row_view L r))\<rparr>
     else r)"

abbreviation stale_rows :: "Libraries \<Rightarrow> UpstreamOidc \<Rightarrow> TenantId \<Rightarrow> db \<Rightarrow> nat" where
  "stale_rows L oidc tenant d \<equiv> length (filter (stale L oidc tenant) (d_providers d))"

lemma decode_provider_Inr:
  "decode_provider L p r = Inr v \<Longrightarrow>
    v = \<lparr>vw_id = p, vw_version = pv_version r, vw_enabled = pv_enabled r, vw_revocation_epoch = pv_epoch r,
      vw_settings = vw_settings v, vw_assurance_profile = pv_assurance r, vw_credential_version = pv_credential_version r\<rparr>
    \<and> ProviderSettings_try_from (xl_show_uuid L) (xl_url_parse L) (pv_settings r) = Inr (vw_settings v)
    \<and> ProviderSettings_input (vw_settings v) = pv_settings r \<and> 1 \<le> pv_version r \<and> 1 \<le> pv_epoch r"
  by (auto simp: decode_provider_def and_then_Inr_iff ProviderSettings_try_from_Ok)

lemma refreshed_not_stale: "\<not> stale L oidc tenant (refreshed L oidc tenant r)"
proof (cases "stale L oidc tenant r")
  case True
  then obtain v where v: "decode_provider L (ProviderId (pv_provider r)) r = Inr v"
    by (auto simp: stale_def row_view_def split: sum.splits)
  note old = decode_provider_Inr [OF v]
  let ?n = "refreshed L oidc tenant r"
  have n: "pv_settings ?n = pv_settings r" "pv_assurance ?n = fingerprint oidc tenant v"
    using True v by (simp_all add: refreshed_def row_view_def)
  have "fingerprint oidc tenant u = vw_assurance_profile u" if u: "row_view L ?n = Inr u" for u
  proof -
    from decode_provider_Inr [OF u [unfolded row_view_def]] old n have "vw_settings u = vw_settings v" "vw_assurance_profile u = pv_assurance ?n"
      by (auto dest: arg_cong [where f = vw_assurance_profile])
    with n show ?thesis by (simp add: fingerprint_def)
  qed
  then show ?thesis by (auto simp: stale_def split: sum.splits)
qed (simp add: refreshed_def)

lemma refreshed_idem [simp]: "refreshed L oidc tenant (refreshed L oidc tenant r) = refreshed L oidc tenant r"
  using refreshed_not_stale [of L oidc tenant r] by (simp add: refreshed_def [of _ _ _ "refreshed L oidc tenant r"])

lemma refreshed_key [simp]:
  "pv_tenant (refreshed L oidc tenant r) = pv_tenant r" "pv_provider (refreshed L oidc tenant r) = pv_provider r"
  by (simp_all add: refreshed_def)

definition providers_unique :: "db \<Rightarrow> bool" where
  "providers_unique d \<longleftrightarrow> unique_on (\<lambda>r. (pv_tenant r, pv_provider r)) (d_providers d)"

text \<open>The rows a pass has visited.\<close>

definition refresh_some :: "Libraries \<Rightarrow> UpstreamOidc \<Rightarrow> TenantId \<Rightarrow> uuid set \<Rightarrow> provider_row list \<Rightarrow> provider_row list" where
  "refresh_some L oidc tenant us rows =
    map (\<lambda>r. if pv_tenant r = tenant \<and> pv_provider r \<in> us then refreshed L oidc tenant r else r) rows"

lemma refresh_some_empty [simp]: "refresh_some L oidc tenant {} rows = rows"
  by (simp add: refresh_some_def)

lemma refresh_some_twice:
  "refresh_some L oidc tenant us (refresh_some L oidc tenant vs rows) = refresh_some L oidc tenant (us \<union> vs) rows"
  by (auto simp: refresh_some_def)

lemma refresh_some_unique: "providers_unique d \<Longrightarrow> providers_unique (d\<lparr>d_providers := refresh_some L oidc tenant us (d_providers d)\<rparr>)"
proof -
  assume "providers_unique d"
  moreover have "map (\<lambda>r. (pv_tenant r, pv_provider r)) (refresh_some L oidc tenant us (d_providers d))
      = map (\<lambda>r. (pv_tenant r, pv_provider r)) (d_providers d)"
    by (auto simp: refresh_some_def)
  ultimately show ?thesis by (simp add: providers_unique_def unique_on_def)
qed

lemma provider_row_refreshed:
  assumes "decode_provider L (ProviderId (pv_provider r)) r = Inr v" and "pv_tenant r = tenant"
    and "fingerprint oidc tenant v \<noteq> vw_assurance_profile v"
  shows "provider_row_of tenant (v\<lparr>vw_version := vw_version v + 1, vw_revocation_epoch := vw_revocation_epoch v + 1,
      vw_assurance_profile := fingerprint oidc tenant v\<rparr>) = refreshed L oidc tenant r"
proof -
  note d = decode_provider_Inr [OF assms(1)]
  then have "vw_id v = ProviderId (pv_provider r)" "vw_version v = pv_version r" "vw_enabled v = pv_enabled r"
    "vw_revocation_epoch v = pv_epoch r" "vw_credential_version v = pv_credential_version r"
    by (metis ProviderView.select_convs)+
  moreover have "stale L oidc tenant r" using assms by (simp add: stale_def row_view_def)
  ultimately show ?thesis using d assms(1,2)
    by (simp add: provider_row_of_def refreshed_def row_view_def)
qed


lemma update_provider_row_Inr:
  "update_provider_row L tenant v w = Inr (u, w') \<Longrightarrow>
    w' = w\<lparr>w_db := (w_db w)\<lparr>d_providers := update_where (is_provider tenant (vw_id v)) (\<lambda>_. provider_row_of tenant v) (d_providers (w_db w))\<rparr>\<rparr>"
  by (auto simp: update_provider_row_def Let_def tx_simps)

lemma update_one_row:
  assumes "unique_on k t" and "r \<in> set t" and "\<And>s. s \<in> set t \<Longrightarrow> p s \<longleftrightarrow> k s = k r"
  shows "update_where p (\<lambda>_. f r) t = map (\<lambda>s. if p s then f s else s) t"
  using assms unique_onD [OF assms(1)] by (auto simp: update_where_def)

lemma checked_next_Inr [simp, tx_simps]: "checked_next n w = Inr (m, w') \<longleftrightarrow> m = n + 1 \<and> in_i64 m \<and> w' = w"
  by (auto simp: checked_next_def checked_add_Some)

text \<open>One provider of a pass: read, left alone when its fingerprint is current, else bumped.\<close>

lemma reconcile_row:
  assumes "provider L tenant (ProviderId u) w = Inr (view, w1)" and "providers_unique (w_db w)"
  shows "w1 = w \<and> (fingerprint oidc tenant view = vw_assurance_profile view \<longrightarrow>
      refresh_some L oidc tenant {u} (d_providers (w_db w)) = d_providers (w_db w))
    \<and> (fingerprint oidc tenant view \<noteq> vw_assurance_profile view \<longrightarrow>
      (\<exists>r\<in>set (d_providers (w_db w)). stale L oidc tenant r \<and> pv_provider r = u)
      \<and> update_where (is_provider tenant (vw_id view)) (\<lambda>_. provider_row_of tenant
          (view\<lparr>vw_version := vw_version view + 1, vw_revocation_epoch := vw_revocation_epoch view + 1,
            vw_assurance_profile := fingerprint oidc tenant view\<rparr>)) (d_providers (w_db w))
        = refresh_some L oidc tenant {u} (d_providers (w_db w)))"
proof -
  from assms(1) have w1: "w1 = w" and of: "provider_of L (w_db w) tenant (ProviderId u) = Some view"
    by (simp_all add: provider_Inr)
  from of obtain r where r: "find (is_provider tenant (ProviderId u)) (d_providers (w_db w)) = Some r"
    and v: "decode_provider L (ProviderId u) r = Inr view"
    by (auto simp: provider_of_def split: option.splits sum.splits)
  from find_SomeD [OF r] have mem: "r \<in> set (d_providers (w_db w))" and k: "pv_tenant r = tenant" "pv_provider r = u"
    by (auto simp: is_provider_def)
  have uq: "unique_on (\<lambda>r. (pv_tenant r, pv_provider r)) (d_providers (w_db w))"
    using assms(2) by (simp add: providers_unique_def)
  have only: "s = r" if "s \<in> set (d_providers (w_db w))" "pv_tenant s = tenant" "pv_provider s = u" for s
    using unique_onD [OF uq that(1) mem] that k by simp
  have id: "vw_id view = ProviderId u" using decode_provider_Inr [OF v] by (metis ProviderView.select_convs(1))
  have st: "stale L oidc tenant r \<longleftrightarrow> fingerprint oidc tenant view \<noteq> vw_assurance_profile view"
    using v k by (simp add: stale_def row_view_def)
  have "refresh_some L oidc tenant {u} (d_providers (w_db w)) = map (\<lambda>s. if is_provider tenant (vw_id view) s then refreshed L oidc tenant s else s) (d_providers (w_db w))"
    by (simp add: refresh_some_def is_provider_def id)
  moreover have "update_where (is_provider tenant (vw_id view)) (\<lambda>_. refreshed L oidc tenant r) (d_providers (w_db w))
      = map (\<lambda>s. if is_provider tenant (vw_id view) s then refreshed L oidc tenant s else s) (d_providers (w_db w))"
    using only by (auto simp: update_where_def is_provider_def id)
  moreover have "refresh_some L oidc tenant {u} (d_providers (w_db w)) = d_providers (w_db w)" if "\<not> stale L oidc tenant r"
    using only that by (auto simp: refresh_some_def refreshed_def intro!: map_idI)
  ultimately show ?thesis
    using w1 mem k st provider_row_refreshed [of L r view tenant oidc] v by auto
qed

lemma reconcile_rows_Inr:
  assumes "reconcile_rows L oidc tenant us events w = Inr ((again, events'), w')" and "providers_unique (w_db w)"
  shows "\<exists>vs. set vs \<subseteq> set us
    \<and> w_db w' = (w_db w)\<lparr>d_providers := refresh_some L oidc tenant (set vs) (d_providers (w_db w))\<rparr>
    \<and> (\<not> again \<longrightarrow> set vs = set us)
    \<and> (again \<longrightarrow> (\<exists>r\<in>set (d_providers (w_db w)). stale L oidc tenant r \<and> pv_provider r \<in> set vs))"
  using assms
proof (induction us arbitrary: events w)
  case Nil
  then show ?case by (intro exI [of _ "[]"]) auto
next
  case (Cons u us)
  from Cons.prems(1) obtain view w1 where p: "provider L tenant (ProviderId u) w = Inr (view, w1)"
    and rest: "(if fingerprint oidc tenant view = vw_assurance_profile view then reconcile_rows L oidc tenant us events
      else
        bind (checked_next (vw_version view)) (\<lambda>version.
        bind (checked_next (vw_revocation_epoch view)) (\<lambda>epoch.
        let next_view = view\<lparr>vw_version := version, vw_revocation_epoch := epoch, vw_assurance_profile := fingerprint oidc tenant view\<rparr> in
        bind (widen Storage (update_provider_row L tenant next_view)) (\<lambda>_.
        let events' = events @ [federation_event tenant ProviderUpdated next_view None] in
        if length events' = MAX_MUTATION_EVENTS then ret (True, events')
        else reconcile_rows L oidc tenant us events')))) w1 = Inr ((again, events'), w')"
    unfolding reconcile_rows.simps Let_def fingerprint_def by (elim bindE) auto
  note row = reconcile_row [OF p Cons.prems(2), where oidc = oidc]
  show ?case
  proof (cases "fingerprint oidc tenant view = vw_assurance_profile view")
    case True
    with rest row have "reconcile_rows L oidc tenant us events w = Inr ((again, events'), w')" by simp
    from Cons.IH [OF this Cons.prems(2)] obtain vs where vs: "set vs \<subseteq> set us"
      "w_db w' = (w_db w)\<lparr>d_providers := refresh_some L oidc tenant (set vs) (d_providers (w_db w))\<rparr>"
      "\<not> again \<longrightarrow> set vs = set us" "again \<longrightarrow> (\<exists>r\<in>set (d_providers (w_db w)). stale L oidc tenant r \<and> pv_provider r \<in> set vs)"
      by blast
    have "refresh_some L oidc tenant (set (u # vs)) (d_providers (w_db w)) = refresh_some L oidc tenant (set vs) (d_providers (w_db w))"
      using True row refresh_some_twice [of L oidc tenant "set vs" "{u}" "d_providers (w_db w)"] by simp
    with vs show ?thesis by (intro exI [of _ "u # vs"]) auto
  next
    case False
    let ?next = "view\<lparr>vw_version := vw_version view + 1, vw_revocation_epoch := vw_revocation_epoch view + 1, vw_assurance_profile := fingerprint oidc tenant view\<rparr>"
    from False rest row obtain w2 where up: "update_provider_row L tenant ?next w = Inr ((), w2)"
      and go: "(if length (events @ [federation_event tenant ProviderUpdated ?next None]) = MAX_MUTATION_EVENTS
          then ret (True, events @ [federation_event tenant ProviderUpdated ?next None])
          else reconcile_rows L oidc tenant us (events @ [federation_event tenant ProviderUpdated ?next None])) w2 = Inr ((again, events'), w')"
      unfolding Let_def by (auto elim!: bindE)
    from update_provider_row_Inr [OF up] row False
    have w2: "w_db w2 = (w_db w)\<lparr>d_providers := refresh_some L oidc tenant {u} (d_providers (w_db w))\<rparr>" by simp
    have st: "\<exists>r\<in>set (d_providers (w_db w)). stale L oidc tenant r \<and> pv_provider r = u" using row False by blast
    show ?thesis
    proof (cases "length (events @ [federation_event tenant ProviderUpdated ?next None]) = MAX_MUTATION_EVENTS")
      case True
      with go w2 st show ?thesis by (intro exI [of _ "[u]"]) auto
    next
      case more: False
      with go have "reconcile_rows L oidc tenant us (events @ [federation_event tenant ProviderUpdated ?next None]) w2 = Inr ((again, events'), w')" by simp
      moreover have "providers_unique (w_db w2)" using refresh_some_unique [OF Cons.prems(2)] w2 by simp
      ultimately obtain vs where vs: "set vs \<subseteq> set us"
        "w_db w' = (w_db w2)\<lparr>d_providers := refresh_some L oidc tenant (set vs) (d_providers (w_db w2))\<rparr>"
        "\<not> again \<longrightarrow> set vs = set us"
        using Cons.IH by blast
      have "w_db w' = (w_db w)\<lparr>d_providers := refresh_some L oidc tenant (set (u # vs)) (d_providers (w_db w))\<rparr>"
        using vs(2) w2 by (simp add: refresh_some_twice)
      with vs st show ?thesis by (intro exI [of _ "u # vs"]) auto
    qed
  qed
qed


text \<open>Part of the way: some rows refreshed, nothing else changed but the audit trail.\<close>

definition reconciling :: "Libraries \<Rightarrow> UpstreamOidc \<Rightarrow> TenantId \<Rightarrow> db \<Rightarrow> db \<Rightarrow> bool" where
  "reconciling L oidc tenant d e \<longleftrightarrow>
    (\<exists>us x. e = d\<lparr>d_providers := refresh_some L oidc tenant us (d_providers d), d_audit := x\<rparr>)"

interpretation reconciling: kept "reconciling L oidc tenant" for L oidc tenant
proof (unfold_locales, goal_cases)
  case (1 d)
  have "d = d\<lparr>d_providers := refresh_some L oidc tenant {} (d_providers d), d_audit := d_audit d\<rparr>" by simp
  then show ?case unfolding reconciling_def by blast
next
  case (2 d e f)
  then obtain us x vs y where e: "e = d\<lparr>d_providers := refresh_some L oidc tenant us (d_providers d), d_audit := x\<rparr>"
    and "f = e\<lparr>d_providers := refresh_some L oidc tenant vs (d_providers e), d_audit := y\<rparr>"
    unfolding reconciling_def by blast
  then have "f = d\<lparr>d_providers := refresh_some L oidc tenant (vs \<union> us) (d_providers d), d_audit := y\<rparr>"
    by (simp add: refresh_some_twice)
  then show ?case unfolding reconciling_def by blast
qed

lemma reconciling_stale:
  assumes "reconciling L oidc tenant d e" shows "stale_rows L oidc tenant e \<le> stale_rows L oidc tenant d"
proof -
  have "length (filter (stale L oidc tenant) (refresh_some L oidc tenant us rows)) \<le> length (filter (stale L oidc tenant) rows)" for us rows
    by (induction rows) (auto simp: refresh_some_def refreshed_not_stale)
  with assms show ?thesis by (auto simp: reconciling_def)
qed

lemma refresh_decreases:
  assumes "r \<in> set rows" and "stale L oidc tenant r" and "pv_provider r \<in> us"
  shows "length (filter (stale L oidc tenant) (refresh_some L oidc tenant us rows)) < length (filter (stale L oidc tenant) rows)"
  using assms
proof (induction rows)
  case (Cons a rows)
  have le: "length (filter (stale L oidc tenant) (refresh_some L oidc tenant us rows)) \<le> length (filter (stale L oidc tenant) rows)"
    by (induction rows) (auto simp: refresh_some_def refreshed_not_stale)
  have "pv_tenant r = tenant" using Cons.prems(2) by (simp add: stale_def)
  with Cons le show ?case by (auto simp: refresh_some_def refreshed_not_stale)
qed simp

lemma provider_ids_all:
  "\<not> length (provider_ids tenant d) > 100 \<Longrightarrow> set (provider_ids tenant d) = pv_provider ` {r \<in> set (d_providers d). pv_tenant r = tenant}"
  by (auto simp: provider_ids_def min_def split: if_splits)

lemma reconcile_body_Inr:
  assumes "reconcile_body L oidc tenant w = Inr ((again, events), w')" and "providers_unique (w_db w)"
  shows "reconciling L oidc tenant (w_db w) (w_db w')
    \<and> (again \<longrightarrow> stale_rows L oidc tenant (w_db w') < stale_rows L oidc tenant (w_db w))
    \<and> (\<not> again \<longrightarrow> d_providers (w_db w') = map (refreshed L oidc tenant) (d_providers (w_db w)))"
proof -
  let ?ids = "provider_ids tenant (w_db w)"
  have all: "refresh_some L oidc tenant (set ?ids) (d_providers (w_db w)) = map (refreshed L oidc tenant) (d_providers (w_db w))"
    if "\<not> length ?ids > 100"
    unfolding refresh_some_def provider_ids_all [OF that]
    by (rule map_cong [OF refl]) (auto simp: refreshed_def stale_def)
  show ?thesis
  proof (cases "?ids = []")
    case True
    with assms(1) have "w' = w" "\<not> again" by (auto simp: reconcile_body_def tx_simps)
    with True all show ?thesis by (auto simp: reconciling.kept_refl)
  next
    case False
    with assms(1) have small: "\<not> length ?ids > 100" and rows: "reconcile_rows L oidc tenant ?ids [] w = Inr ((again, events), w')"
      by (auto simp: reconcile_body_def tx_simps)
    from reconcile_rows_Inr [OF rows assms(2)] obtain vs where
      d: "w_db w' = (w_db w)\<lparr>d_providers := refresh_some L oidc tenant (set vs) (d_providers (w_db w))\<rparr>"
      and full: "\<not> again \<longrightarrow> set vs = set ?ids"
      and some: "again \<longrightarrow> (\<exists>r\<in>set (d_providers (w_db w)). stale L oidc tenant r \<and> pv_provider r \<in> set vs)"
      by blast
    from d have "w_db w' = (w_db w)\<lparr>d_providers := refresh_some L oidc tenant (set vs) (d_providers (w_db w)), d_audit := d_audit (w_db w)\<rparr>"
      by simp
    then have "reconciling L oidc tenant (w_db w) (w_db w')" unfolding reconciling_def by blast
    with d full some all [OF small] show ?thesis by (auto intro: refresh_decreases)
  qed
qed

text \<open>A step of the outer loop, whatever the runtime does with its transaction.\<close>

lemma reconcile_step_any:
  assumes "audit_contract (fe_bundle f)" and "providers_unique (w_db w)"
    and "reconcile_step f fresh tenant budget w = (r, w')"
  shows "reconciling (fe_libs f) (fe_oidc f) tenant (w_db w) (w_db w')
    \<and> (r = Inr True \<longrightarrow> stale_rows (fe_libs f) (fe_oidc f) tenant (w_db w') < stale_rows (fe_libs f) (fe_oidc f) tenant (w_db w))
    \<and> (r = Inr False \<longrightarrow> d_providers (w_db w') = map (refreshed (fe_libs f) (fe_oidc f) tenant) (d_providers (w_db w)))"
proof -
  let ?L = "fe_libs f" and ?O = "fe_oidc f"
  obtain timeout w0 where b: "Budget_remaining budget w = (Inr timeout, w0)" and db0: "w_db w0 = w_db w"
    by (simp add: Budget_remaining_run)
  from assms(3) b have s: "settle_events (fe_bundle f) tenant timeout fresh (reconcile_body ?L ?O tenant) False w0 = (r, w')"
    by (simp add: reconcile_step_def op_bind_def conditional_write_sql_def)
  have audit: "reconciling ?L ?O tenant d (e\<lparr>d_audit := x\<rparr>)" if "reconciling ?L ?O tenant d e" for d e :: db and x
    using that by (fastforce simp: reconciling_def)
  have step: "reconciling ?L ?O tenant (w_db w) (w_db w')"
    using settle_events_any [OF assms(1) s]
  proof
    assume "w_db w' = w_db w0"
    then show ?thesis by (simp add: db0 reconciling.kept_refl)
  next
    assume "\<exists>w0' x w1. w_db w0' = w_db w0 \<and> reconcile_body ?L ?O tenant w0' = Inr (x, w1) \<and> w_db w' = (w_db w1)\<lparr>d_audit := d_audit (w_db w')\<rparr>"
    then obtain u again events w1 where u: "w_db u = w_db w" "reconcile_body ?L ?O tenant u = Inr ((again, events), w1)"
      and w': "w_db w' = (w_db w1)\<lparr>d_audit := d_audit (w_db w')\<rparr>" by (auto simp: db0)
    from reconcile_body_Inr [OF u(2)] assms(2) u(1) have "reconciling ?L ?O tenant (w_db w) (w_db w1)" by simp
    from audit [OF this] w' show ?thesis by metis
  qed
  have "(again \<longrightarrow> stale_rows ?L ?O tenant (w_db w') < stale_rows ?L ?O tenant (w_db w))
      \<and> (\<not> again \<longrightarrow> d_providers (w_db w') = map (refreshed ?L ?O tenant) (d_providers (w_db w)))" if "r = Inr again" for again
  proof -
    from settled_body_Ok [OF assms(1) conjunct2 [OF conjunct2 [OF settle_events_Ok [OF s [unfolded that]]]]]
    obtain u events w1 records where u: "w_db u = w_db w0" "reconcile_body ?L ?O tenant u = Inr ((again, events), w1)"
      and w': "w_db w' = (w_db w1)\<lparr>d_audit := d_audit (w_db w1) @ records\<rparr>" by metis
    from reconcile_body_Inr [OF u(2)] assms(2) u(1) w' show ?thesis by (simp add: db0)
  qed
  from step this [of True] this [of False] show ?thesis by simp
qed

lemma reconciling_unique: "reconciling L oidc tenant d e \<Longrightarrow> providers_unique d \<Longrightarrow> providers_unique e"
  using refresh_some_unique by (fastforce simp: reconciling_def providers_unique_def)

lemma reconcile_loop_ends:
  assumes "audit_contract (fe_bundle f)" and "providers_unique (w_db w)"
  shows "\<exists>r w'. reconcile_loop f fresh tenant budget n w = Some (r, w')
    \<and> reconciling (fe_libs f) (fe_oidc f) tenant (w_db w) (w_db w')
    \<and> (r = Inr () \<longrightarrow> d_providers (w_db w') = map (refreshed (fe_libs f) (fe_oidc f) tenant) (d_providers (w_db w)))"
  using assms(2)
proof (induction "stale_rows (fe_libs f) (fe_oidc f) tenant (w_db w)" arbitrary: n w rule: less_induct)
  case less
  let ?L = "fe_libs f" and ?O = "fe_oidc f"
  obtain r w1 where s: "reconcile_step f (fresh n) tenant budget w = (r, w1)" by force
  note step = reconcile_step_any [OF assms(1) less.prems s]
  then have un: "providers_unique (w_db w1)"
    using reconciling_unique less.prems by blast
  show ?case
  proof (cases r)
    case (Inl e)
    with s step show ?thesis by (subst reconcile_loop.simps) auto
  next
    case (Inr again)
    show ?thesis
    proof (cases again)
      case False
      with s step Inr show ?thesis by (subst reconcile_loop.simps) auto
    next
      case True
      with step Inr less.hyps [OF _ un, of "Suc n"] obtain q w2 where
        q: "reconcile_loop f fresh tenant budget (Suc n) w1 = Some (q, w2)"
        and r2: "reconciling ?L ?O tenant (w_db w1) (w_db w2)"
        and d2: "q = Inr () \<longrightarrow> d_providers (w_db w2) = map (refreshed ?L ?O tenant) (d_providers (w_db w1))"
        by auto
      have "\<exists>us. d_providers (w_db w1) = refresh_some ?L ?O tenant us (d_providers (w_db w))"
        using conjunct1 [OF step] by (fastforce simp: reconciling_def)
      then have "map (refreshed ?L ?O tenant) (d_providers (w_db w1)) = map (refreshed ?L ?O tenant) (d_providers (w_db w))"
        by (auto simp: refresh_some_def)
      moreover have "reconcile_loop f fresh tenant budget n w = Some (q, w2)"
        using s Inr True q by (subst reconcile_loop.simps) simp
      ultimately show ?thesis using d2 reconciling.kept_trans [OF conjunct1 [OF step] r2] by auto
    qed
  qed
qed

text \<open>C23: Reconciliation always returns, however many transactions it takes, and whatever the runtime does to
  them. When it reports success, every provider of the tenant whose stored fingerprint differed
  from the host's present interpretation has exactly one more version, one more epoch and the
  present fingerprint, and every other provider is as it was; when it reports an error, some of
  those providers have been refreshed and the others not. No other table changes but the audit log.\<close>

theorem reconciliation_terminates:
  assumes "audit_contract (fe_bundle f)" and "providers_unique (w_db w)"
  shows "\<exists>r w'. reconcile_assurance_profiles f fresh tenant deadline w = Some (r, w')
    \<and> reconciling (fe_libs f) (fe_oidc f) tenant (w_db w) (w_db w')
    \<and> (is_ok r \<longrightarrow> d_providers (w_db w') = map (refreshed (fe_libs f) (fe_oidc f) tenant) (d_providers (w_db w)))"
proof -
  obtain b w0 where b: "Budget_new deadline w = (b, w0)" by force
  note db = Budget_new_db [OF this]
  show ?thesis
  proof (cases b)
    case (Inl e)
    with b db show ?thesis by (simp add: reconcile_assurance_profiles_def reconciling.kept_refl)
  next
    case (Inr budget)
    from reconcile_loop_ends [OF assms(1), of w0 fresh tenant budget 0] assms(2) db
    obtain r w' where "reconcile_loop f fresh tenant budget 0 w0 = Some (r, w')"
      "reconciling (fe_libs f) (fe_oidc f) tenant (w_db w) (w_db w')"
      "r = Inr () \<longrightarrow> d_providers (w_db w') = map (refreshed (fe_libs f) (fe_oidc f) tenant) (d_providers (w_db w))"
      by auto
    with b Inr show ?thesis by (auto simp: reconcile_assurance_profiles_def is_ok_iff)
  qed
qed


subsection \<open>A change of a provider ends its sessions\<close>

text \<open>A session of an identity of the provider.\<close>

definition provider_session :: "db \<Rightarrow> ProviderId \<Rightarrow> session_row \<Rightarrow> bool" where
  "provider_session d p r \<longleftrightarrow> (\<exists>i. se_identity r = Some i
    \<and> (\<forall>e\<in>set (d_identities d). ei_tenant e = se_tenant r \<and> ei_identity e = i \<longrightarrow> ei_provider e = provider_uuid p))"

text \<open>No session was issued under a version of its provider that does not exist yet.\<close>

definition versions_ok :: "db \<Rightarrow> bool" where
  "versions_ok d \<longleftrightarrow> (\<forall>r\<in>set (d_sessions d). \<forall>e\<in>set (d_identities d). \<forall>p\<in>set (d_providers d). \<forall>facts.
    se_identity r = Some (ei_identity e) \<and> ei_tenant e = se_tenant r \<and> pv_tenant p = se_tenant r
      \<and> pv_provider p = ei_provider e \<and> se_facts r = Some facts
    \<longrightarrow> af_provider_config_version facts \<le> pv_version p)"

lemma version_fence:
  assumes "by_id L key sid checks w = Inr (l, w')" and "find (is_session (ak_tenant key) sid) (d_sessions (w_db w)) = Some r"
    and "provider_session (w_db w) i r"
  shows "\<exists>e\<in>set (d_identities (w_db w)). \<exists>p\<in>set (d_providers (w_db w)). \<exists>facts. se_facts r = Some facts
    \<and> se_identity r = Some (ei_identity e) \<and> ei_tenant e = ak_tenant key \<and> ei_provider e = provider_uuid i
    \<and> is_provider (ak_tenant key) i p \<and> pv_enabled p
    \<and> pv_version p = af_provider_config_version facts \<and> se_provider_epoch r = Some (pv_epoch p)"
proof -
  from by_id_Inr [OF assms(1)] obtain r' where "loaded_from L checks (w_db w) r' key l" "sv_id (ld_view l) = sid" by blast
  with assms(2) have from_row: "loaded_from L checks (w_db w) r key l" by (auto simp: loaded_from_def)
  from assms(3) obtain j where j: "se_identity r = Some j"
    "\<forall>e\<in>set (d_identities (w_db w)). ei_tenant e = se_tenant r \<and> ei_identity e = j \<longrightarrow> ei_provider e = provider_uuid i"
    by (auto simp: provider_session_def)
  from from_row j obtain e facts epoch where e: "e \<in> set (d_identities (w_db w))" "ei_tenant e = ak_tenant key" "ei_identity e = j"
    "se_provider_epoch r = Some epoch" "se_facts r = Some facts"
    "live_provider (ak_tenant key) (ei_provider e) (af_provider_config_version facts) epoch (w_db w)"
    by (auto simp: loaded_from_def)
  have "se_tenant r = ak_tenant key" using find_SomeD [OF assms(2)] by (auto simp: is_session_def)
  with j e have p: "ei_provider e = provider_uuid i" by auto
  with e(6) obtain p where "p \<in> set (d_providers (w_db w))" "is_provider (ak_tenant key) i p" "pv_enabled p"
    "pv_version p = af_provider_config_version facts" "pv_epoch p = epoch"
    by (auto simp: live_provider_iff is_provider_def)
  with e j p show ?thesis by blast
qed

lemma managed_reads:
  assumes "authority_contract a" and "checks_contract (px_checks actor)"
  shows "reads_only (managed a actor operation)"
  unfolding managed_def
  using assms by (intro pure.steps recheck_reads authorize_reads) (auto simp: authority_contract_def)

lemma write_credentials_frame:
  assumes "\<And>d x. f (d\<lparr>d_sealed := x\<rparr>) = f d"
  shows "keeps (same f) (write_credentials L S keys random tenant p version c)"
  unfolding write_credentials_def Let_def
  by (intro frame.steps keeps_insert_checked) (simp add: same_def assms)

lemma edit_provider_body_Inr:
  assumes "authority_contract (fe_authority f)" and "checks_contract (px_checks actor)"
    and "edit_provider_body f draws actor i expected settings enabled w = Inr ((v, events), w')"
  shows "vw_version v = expected + 1 \<and> vw_id v = i
    \<and> (\<exists>old. provider_of (fe_libs f) (w_db w) (ak_tenant (px_key actor)) i = Some old \<and> vw_version old = expected)
    \<and> d_providers (w_db w') = update_where (is_provider (ak_tenant (px_key actor)) i)
        (\<lambda>_. provider_row_of (ak_tenant (px_key actor)) v) (d_providers (w_db w))
    \<and> d_sessions (w_db w') = d_sessions (w_db w) \<and> d_identities (w_db w') = d_identities (w_db w)"
proof -
  let ?t = "ak_tenant (px_key actor)" and ?L = "fe_libs f"
  let ?tables = "\<lambda>d. (d_providers d, d_sessions d, d_identities d)"
  define edit where "edit view = (case settings of
        Some (s, c, p) \<Rightarrow> edit_settings f draws ?t view s c p
      | None \<Rightarrow> (case enabled of Some v \<Rightarrow> edit_enabled view v | None \<Rightarrow> fail (Storage reject)))" for view
  from assms(3) obtain w1 w2 w3 w4 view edited action where
    m: "managed (fe_authority f) actor (case enabled of Some v \<Rightarrow> SetProviderEnabled i v | None \<Rightarrow> UpdateProvider i) w = Inr ((), w1)"
    and view: "provider ?L ?t i w1 = Inr (view, w2)" and exp: "vw_version view = expected"
    and ed: "edit view w2 = Inr ((edited, action), w3)"
    and up: "update_provider_row ?L ?t (edited\<lparr>vw_version := vw_version edited + 1\<rparr>) w3 = Inr ((), w4)"
    and v: "v = edited\<lparr>vw_version := vw_version edited + 1\<rparr>" "w' = w4"
    unfolding edit_provider_body_def Let_def edit_def [symmetric] by (elim bindE) (auto elim!: bindE split: prod.splits)
  have w1: "w_db w1 = w_db w" using reads_onlyD [OF managed_reads [OF assms(1,2)] m] .
  from view have w2: "w2 = w1" and old: "provider_of ?L (w_db w1) ?t i = Some view" by (simp_all add: provider_Inr)
  from old have vid: "vw_id view = i" by (auto elim!: provider_of_row)
  have kept: "keeps (same ?tables) (edit view)"
    unfolding edit_def edit_settings_def edit_enabled_def checked_next_def
    by (intro frame.steps write_credentials_frame) simp_all
  have same: "?tables (w_db w3) = ?tables (w_db w2)" using keepsD [OF kept ed] by (simp add: same_def)
  have edited: "vw_version edited = vw_version view \<and> vw_id edited = vw_id view"
    using ed unfolding edit_def edit_settings_def edit_enabled_def
    by (auto split: option.splits prod.splits if_splits elim!: bindE)
  from update_provider_row_Inr [OF up] v same w1 w2 edited vid exp old show ?thesis by auto
qed

text \<open>C22: Any change of a provider, its settings, its switch either way, ends every session that came
  through it, at once. The change is conditional on the version the administrator saw and moves
  it on by one; afterwards no session of an identity of that provider loads, whatever its epochs,
  deadlines and checks, and still no session is newer than its provider.\<close>

theorem provider_change_ends_sessions:
  assumes "authority_contract (fe_authority f)" and "checks_contract (px_checks actor)" and "versions_ok (w_db w)"
    and "edit_provider f draws actor i expected settings enabled deadline w = (Inr v, w')"
  shows "(\<exists>old. provider_of (fe_libs f) (w_db w) (ak_tenant (px_key actor)) i = Some old \<and> vw_version old = expected)
    \<and> vw_version v = expected + 1 \<and> versions_ok (w_db w')
    \<and> (\<forall>L key sid checks w2 r. w_db w2 = w_db w' \<and> ak_tenant key = ak_tenant (px_key actor)
        \<and> find (is_session (ak_tenant key) sid) (d_sessions (w_db w2)) = Some r \<and> provider_session (w_db w2) i r
        \<longrightarrow> \<not> is_ok (by_id L key sid checks w2))"
proof -
  let ?t = "ak_tenant (px_key actor)"
  have audit: "audit_contract (fe_bundle f)" using assms(1) by (simp add: authority_contract_def)
  from assms(4) have "settle_events (fe_bundle f) ?t deadline (pd_events draws) (edit_provider_body f draws actor i expected settings enabled) True w = (Inr v, w')"
    by (auto simp: edit_provider_def write_sql_def elim!: op_bindE)
  from settled_body_Ok [OF audit conjunct2 [OF conjunct2 [OF settle_events_Ok [OF this]]]]
  obtain w0 events w1 records where w0: "w_db w0 = w_db w"
    and body: "edit_provider_body f draws actor i expected settings enabled w0 = Inr ((v, events), w1)"
    and w': "w_db w' = (w_db w1)\<lparr>d_audit := d_audit (w_db w1) @ records\<rparr>" by metis
  from edit_provider_body_Inr [OF assms(1,2) body] w0 w' obtain old where
    old: "provider_of (fe_libs f) (w_db w) ?t i = Some old" "vw_version old = expected" and v: "vw_version v = expected + 1" "vw_id v = i"
    and d: "d_providers (w_db w') = update_where (is_provider ?t i) (\<lambda>_. provider_row_of ?t v) (d_providers (w_db w))"
      "d_sessions (w_db w') = d_sessions (w_db w)" "d_identities (w_db w') = d_identities (w_db w)"
    by auto
  from old(1) obtain row where row: "row \<in> set (d_providers (w_db w))" "is_provider ?t i row" "pv_version row = expected"
    using old(2) by (auto elim!: provider_of_row dest!: find_SomeD)
  have new: "pv_version p = expected + 1" if "p \<in> set (d_providers (w_db w'))" "is_provider ?t i p" for p
    using that d v by (auto simp: set_update_where provider_row_of_def split: if_splits)
  have low: "af_provider_config_version facts \<le> expected"
    if "r \<in> set (d_sessions (w_db w))" "e \<in> set (d_identities (w_db w))" "se_identity r = Some (ei_identity e)"
      "ei_tenant e = se_tenant r" "se_tenant r = ?t" "ei_provider e = provider_uuid i" "se_facts r = Some facts" for r e facts
    using assms(3) row that unfolding versions_ok_def is_provider_def by metis
  have ok: "versions_ok (w_db w')"
    unfolding versions_ok_def
  proof (intro ballI allI impI, elim conjE)
    fix r e p facts
    assume r: "r \<in> set (d_sessions (w_db w'))" "e \<in> set (d_identities (w_db w'))" "p \<in> set (d_providers (w_db w'))"
      "se_identity r = Some (ei_identity e)" "ei_tenant e = se_tenant r" "pv_tenant p = se_tenant r"
      "pv_provider p = ei_provider e" "se_facts r = Some facts"
    show "af_provider_config_version facts \<le> pv_version p"
    proof (cases "is_provider ?t i p")
      case True
      with new r low d show ?thesis by (fastforce simp: is_provider_def)
    next
      case False
      then have "p \<in> set (d_providers (w_db w))"
        using r(3) d v by (auto simp: set_update_where provider_row_of_def is_provider_def split: if_splits)
      with assms(3) r d show ?thesis unfolding versions_ok_def by metis
    qed
  qed
  have "\<not> is_ok (by_id L key sid checks w2)"
    if w2: "w_db w2 = w_db w'" and t: "ak_tenant key = ?t"
      and r: "find (is_session (ak_tenant key) sid) (d_sessions (w_db w2)) = Some r" "provider_session (w_db w2) i r"
    for L key sid checks w2 r
  proof
    assume "is_ok (by_id L key sid checks w2)"
    then obtain l w3 where run: "by_id L key sid checks w2 = Inr (l, w3)" by (auto simp: is_ok_iff)
    from version_fence [OF run r] obtain e p facts where e: "e \<in> set (d_identities (w_db w))" "p \<in> set (d_providers (w_db w'))"
      "se_facts r = Some facts" "se_identity r = Some (ei_identity e)" "ei_tenant e = ?t" "ei_provider e = provider_uuid i"
      "is_provider ?t i p" "pv_version p = af_provider_config_version facts"
      using w2 t d by auto
    from find_SomeD [OF r(1)] w2 d t have "r \<in> set (d_sessions (w_db w))" "se_tenant r = ?t" by (auto simp: is_session_def)
    with low [of r e facts] e new [of p] show False by simp
  qed
  with old v ok show ?thesis by blast
qed


subsection \<open>Examples\<close>

text \<open>A mutation through the honest runtime of the examples.\<close>

lemma sample_bundle_commits:
  assumes "settled_body sample_bundle sample_tenant fresh operation require_event w = Inr (x, w')"
    and "d_authority (w_db w) = 5" and "timeout \<noteq> 0"
  shows "settle_events sample_bundle sample_tenant timeout fresh operation require_event w = (Inr x, w')"
proof -
  have c: "checked_body sample_bundle True (settled_body sample_bundle sample_tenant fresh operation require_event) w = Inr (x, w')"
    using assms by (simp add: checked_body_def run_simps) (simp add: sample_bundle_def)
  have b: "sample_tenant \<in> set (bu_tenants sample_bundle)" "bu_runtime sample_bundle = honest_runtime"
    by (simp_all add: sample_bundle_def)
  show ?thesis
    using assms(3) b by (simp add: settle_events_def read_bundle_def with_reason_def c local_tx_def honest_runtime_def)
qed

lemma settle_sample_run:
  assumes "operation w = Inr ((x, events), w1)" and "d_authority (w_db w) = 5" and "timeout \<noteq> 0"
    and "length events \<le> 8" and "require_event \<longrightarrow> events \<noteq> []"
    and "list_all (\<lambda>(n, e). is_ok (map_event (InstanceId 5) sample_tenant (fresh n) (w_micros w1 (w_tick w1) div 1000000) e)) (enumerate 0 events)"
  shows "\<exists>w'. settle_events sample_bundle sample_tenant timeout fresh operation require_event w = (Inr x, w')
    \<and> w_db w' = (w_db w1)\<lparr>d_audit := d_audit (w_db w')\<rparr> \<and> w_micros w' = w_micros w1 \<and> w_instants w' = w_instants w1"
proof (cases "events = []")
  case True
  with assms show ?thesis
    by (simp add: settle_events_def read_bundle_def sample_bundle_def local_tx_def honest_runtime_def checked_body_def
        settled_body_def append_events_def with_reason_def run_simps MAX_MUTATION_EVENTS_def Let_def no_slot_def)
next
  case False
  let ?at = "w_micros w1 (w_tick w1) div 1000000"
  let ?records = "map (\<lambda>(n, e). projr (map_event (InstanceId 5) sample_tenant (fresh n) ?at e)) (enumerate 0 events)"
  have p: "prepare_events sample_bundle sample_tenant fresh ?at events = Inr ?records"
    using assms(6) by (auto simp: prepare_events_def Let_def sample_bundle_def list_all_iff is_ok_iff split: sum.splits)
  have "settled_body sample_bundle sample_tenant fresh operation require_event w
      = Inr (x, w1\<lparr>w_tick := Suc (w_tick w1), w_db := (w_db w1)\<lparr>d_audit := d_audit (w_db w1) @ ?records\<rparr>\<rparr>)"
    using False assms p
    by (simp add: settled_body_def run_simps append_events_def MAX_MUTATION_EVENTS_def widen_def)
      (simp add: sample_bundle_def exec_def)
  from sample_bundle_commits [OF this assms(2,3)] show ?thesis by simp
qed

definition sample_oidc :: UpstreamOidc where
  "sample_oidc = \<lparr>uo_assurance_profile = (\<lambda>_ _. \<lparr>ap_fingerprint = replicate 32 8, ap_supports_step_up = True\<rparr>),
     uo_validate = (\<lambda>_ _ _. Ok ()), uo_prepare = (\<lambda>_ _ _ _ _ _ _. Some (Ok (lit ''https://h/a''))),
     uo_exchange = (\<lambda>_ _ _ _ _ _ _. Some (Ok sample_claims)),
     uo_test = (\<lambda>_ _ _ _ _. Some (Ok \<lparr>rp_checks = [Discovery], rp_tls_verified = True, rp_response_issuer = True\<rparr>))\<rparr>"

definition sample_service :: FederationService where
  "sample_service = \<lparr>fe_authority = sample_authority, fe_oidc = sample_oidc,
     fe_signer = \<lparr>sg_key = replicate 32 1, sg_origin = lit ''https://h/r''\<rparr>, fe_group_policy = GroupFactsMaxAge 300,
     fe_sealing = sample_sealing, fe_keys = sample_keys, fe_callback = lit ''https://h/r'',
     fe_targets = [(lit ''home'', lit ''https://h/home'')]\<rparr>"

definition sample_provider :: provider_row where
  "sample_provider = \<lparr>pv_tenant = sample_tenant, pv_provider = 4, pv_version = 1, pv_epoch = 1, pv_enabled = False,
     pv_settings = sample_input, pv_assurance = replicate 32 7, pv_credential_version = 1\<rparr>"

definition sample_provider_view :: ProviderView where
  "sample_provider_view = \<lparr>vw_id = ProviderId 4, vw_version = 1, vw_enabled = False, vw_revocation_epoch = 1,
     vw_settings = sample_settings, vw_assurance_profile = replicate 32 7, vw_credential_version = 1\<rparr>"

definition provider_world :: world where
  "provider_world = session_world\<lparr>w_db := session_db\<lparr>d_providers := [sample_provider]\<rparr>\<rparr>"

lemma sample_provider_decodes: "decode_provider sample_libs (ProviderId 4) sample_provider = Inr sample_provider_view"
proof -
  have "ProviderSettings_try_from (xl_show_uuid sample_libs) (xl_url_parse sample_libs) sample_input = Inr sample_settings"
    using sample_input_Ok by (simp add: sample_libs_def)
  then show ?thesis by (simp add: decode_provider_def sample_provider_def sample_provider_view_def)
qed

lemma provider_world_simps [simp]:
  "d_providers (w_db provider_world) = [sample_provider]" "w_tick provider_world = 0" "w_instants provider_world = int"
  "w_micros provider_world = (\<lambda>_. 1000000000)" "d_authority (w_db provider_world) = 5"
  "d_sessions (w_db provider_world) = [user_session]"
  "d_guard (w_db provider_world) = [\<lparr>gd_tenant = sample_tenant, gd_profile_sequence = 0\<rparr>]"
  by (simp_all add: provider_world_def session_world_def session_db_def sample_world_def sample_db_def)

lemma provider_world_signed_in: "user_signed_in provider_world"
  using session_world_signed_in by (simp add: provider_world_def user_signed_in_def session_world_def guarded_def)

lemma sample_provider_read:
  assumes "d_providers (w_db w) = [sample_provider]"
  shows "provider sample_libs sample_tenant (ProviderId 4) w = Inr (sample_provider_view, w)"
  using assms sample_provider_decodes
  by (simp add: provider_Inr provider_of_def is_provider_def sample_provider_def)

lemma sample_service_simps [simp]:
  "fe_authority sample_service = sample_authority" "fe_oidc sample_service = sample_oidc"
  "au_libs sample_authority = sample_libs" "au_bundle sample_authority = sample_bundle"
  "au_profile sample_authority = Runtime" "au_instance sample_authority = InstanceId 5"
  by (simp_all add: sample_service_def sample_authority_def)

theorem reconciliation_terminates_witness:
  "\<exists>w'. reconcile_assurance_profiles sample_service (\<lambda>_ _. 9) sample_tenant 1000 provider_world = Some (Inr (), w')
    \<and> d_providers (w_db w') = [sample_provider\<lparr>pv_version := 2, pv_epoch := 2, pv_assurance := replicate 32 8\<rparr>]"
proof -
  let ?w = "provider_world\<lparr>w_tick := 2\<rparr>"
  let ?next = "sample_provider_view\<lparr>vw_version := 2, vw_revocation_epoch := 2, vw_assurance_profile := replicate 32 8\<rparr>"
  have p: "provider sample_libs sample_tenant (ProviderId 4) ?w = Inr (sample_provider_view, ?w)"
    by (rule sample_provider_read) simp
  have ne: "replicate 32 8 \<noteq> (replicate 32 7 :: byte list)" by simp
  have n: "uuid_nil \<noteq> 4" by (simp add: uuid_nil_def)
  have ids: "provider_ids sample_tenant (w_db provider_world) = [4]"
    by (simp add: provider_ids_def sample_provider_def)
  have guard: "lock_guard sample_tenant ?w = Inr ((), ?w)" by simp
  have up: "update_provider_row sample_libs sample_tenant ?next ?w = Inr ((), ?w\<lparr>w_db := (w_db ?w)\<lparr>d_providers :=
      update_where (is_provider sample_tenant (ProviderId 4)) (\<lambda>_. provider_row_of sample_tenant ?next) [sample_provider]\<rparr>\<rparr>)"
    by (simp add: update_provider_row_def Let_def insert_checked_def run_simps provider_check_def)
      (simp add: provider_row_of_def sample_provider_view_def sample_libs_def uuid_nil_def)
  have view: "vw_version sample_provider_view = 1" "vw_revocation_epoch sample_provider_view = 1"
      "vw_assurance_profile sample_provider_view = replicate 32 7"
      "ap_fingerprint (uo_assurance_profile sample_oidc sample_tenant s) = replicate 32 8" for s
    by (simp_all add: sample_provider_view_def sample_oidc_def)
  have bump: "checked_add 1 1 = Some 2" by (simp add: checked_add_def in_i64_def i64_min_def i64_max_def)
  have rows: "\<exists>w1. reconcile_rows sample_libs sample_oidc sample_tenant [4] [] ?w = Inr ((False, [federation_event sample_tenant ProviderUpdated ?next None]), w1)
      \<and> w_micros w1 = (\<lambda>_. 1000000000)"
    using n by (simp add: run_simps p Let_def view checked_next_def bump up MAX_MUTATION_EVENTS_def del: replicate.simps)
  have "\<exists>w1. reconcile_body sample_libs sample_oidc sample_tenant ?w = Inr ((False, [federation_event sample_tenant ProviderUpdated ?next None]), w1)
      \<and> w_micros w1 = (\<lambda>_. 1000000000)"
    using rows by (simp add: reconcile_body_def run_simps ids guard del: replicate.simps reconcile_rows.simps)
  then obtain w1 where b: "reconcile_body sample_libs sample_oidc sample_tenant ?w = Inr ((False, [federation_event sample_tenant ProviderUpdated ?next None]), w1)"
    and m: "w_micros w1 = (\<lambda>_. 1000000000)" by blast
  have ev: "is_ok (map_event (InstanceId 5) sample_tenant 9 1000 (federation_event sample_tenant ProviderUpdated ?next None))"
    by (simp add: federation_event_def map_event_def map_federation_def sample_provider_view_def is_ok_and_then is_provider_action_def uuid_nil_def)
  obtain w' where s: "settle_events sample_bundle sample_tenant 999 (\<lambda>_. 9) (reconcile_body sample_libs sample_oidc sample_tenant) False ?w = (Inr False, w')"
    using settle_sample_run [where operation = "reconcile_body sample_libs sample_oidc sample_tenant" and w = ?w, OF b, of 999 False "\<lambda>_. 9"] m ev
    by auto
  have step: "reconcile_step sample_service (\<lambda>_. 9) sample_tenant 1000 (provider_world\<lparr>w_tick := Suc 0\<rparr>) = (Inr False, w')"
    using s by (simp add: reconcile_step_def op_bind_def Budget_remaining_run conditional_write_sql_def numeral_2_eq_2)
  have loop: "reconcile_loop sample_service (\<lambda>_ _. 9) sample_tenant 1000 0 (provider_world\<lparr>w_tick := Suc 0\<rparr>) = Some (Inr (), w')"
    by (subst reconcile_loop.simps) (simp add: step)
  have run: "reconcile_assurance_profiles sample_service (\<lambda>_ _. 9) sample_tenant 1000 provider_world = Some (Inr (), w')"
    using loop by (simp add: reconcile_assurance_profiles_def Budget_new_def op_bind_def op_require_def op_lift_def op_instant_def
        instant_checked_add_def i64_max_def)
  have un: "providers_unique (w_db provider_world)" by (simp add: providers_unique_def unique_on_def)
  have au: "audit_contract (fe_bundle sample_service)" by (simp add: sample_contract)
  have "refreshed sample_libs sample_oidc sample_tenant sample_provider = sample_provider\<lparr>pv_version := 2, pv_epoch := 2, pv_assurance := replicate 32 8\<rparr>"
  proof -
    have k: "pv_provider sample_provider = 4" "pv_tenant sample_provider = sample_tenant" "pv_version sample_provider = 1" "pv_epoch sample_provider = 1"
      by (simp_all add: sample_provider_def)
    show ?thesis
      using sample_provider_decodes ne by (simp add: refreshed_def stale_def row_view_def fingerprint_def k view del: replicate.simps)
  qed
  with reconciliation_terminates [OF au un, of "\<lambda>_ _. 9" sample_tenant 1000] run show ?thesis by auto
qed


lemma managed_sample:
  assumes "user_signed_in w" and "w_tick w < 800"
  shows "managed sample_authority user_proof operation w = Inr ((), w\<lparr>w_tick := w_tick w + 6\<rparr>)"
proof -
  note r = recheck_sample [OF assms(1), of sample_libs]
  have au: "au_policy sample_authority = allow_all" by (simp add: sample_authority_def)
  show ?thesis
    using assms
    by (simp add: managed_def run_simps r widen_def au authorize_def allow_all_def check_recency_def requirement_age_def user_signed_in_def)
qed

text \<open>The provider is switched on.\<close>

lemma sample_enable:
  "\<exists>w'. edit_provider sample_service \<lparr>pd_provider = 9, pd_nonce = None, pd_events = \<lambda>_. 9\<rparr> user_proof (ProviderId 4) 1 None (Some True) 1000 provider_world
    = (Inr (sample_provider_view\<lparr>vw_version := 2, vw_enabled := True, vw_revocation_epoch := 2\<rparr>), w')"
proof -
  let ?draws = "\<lparr>pd_provider = 9, pd_nonce = None, pd_events = \<lambda>_. 9\<rparr>"
  let ?next = "sample_provider_view\<lparr>vw_version := 2, vw_enabled := True, vw_revocation_epoch := 2\<rparr>"
  let ?event = "federation_event sample_tenant ProviderEnabled ?next (Some (PrincipalId 2))"
  let ?w = "provider_world\<lparr>w_tick := 6\<rparr>"
  have m: "managed sample_authority user_proof operation provider_world = Inr ((), ?w)" for operation
    using managed_sample [OF provider_world_signed_in, of operation] by simp
  have p: "provider sample_libs sample_tenant (ProviderId 4) ?w = Inr (sample_provider_view, ?w)"
    by (rule sample_provider_read) simp
  have k: "px_key user_proof = user_key" by (simp add: user_proof_def)
  have bump: "checked_add 1 1 = Some 2" by (simp add: checked_add_def in_i64_def i64_min_def i64_max_def)
  have view: "vw_version sample_provider_view = 1" "vw_revocation_epoch sample_provider_view = 1" "\<not> vw_enabled sample_provider_view"
    by (simp_all add: sample_provider_view_def)
  have edited: "edit_enabled sample_provider_view True w = Inr ((sample_provider_view\<lparr>vw_revocation_epoch := 2, vw_enabled := True\<rparr>, ProviderEnabled), w)" for w
    by (simp add: edit_enabled_def run_simps checked_next_def bump view)
  have next_eq: "sample_provider_view\<lparr>vw_revocation_epoch := 2, vw_enabled := True, vw_version := 2\<rparr> = ?next" by simp
  have up: "update_provider_row sample_libs sample_tenant ?next ?w = Inr ((), ?w\<lparr>w_db := (w_db ?w)\<lparr>d_providers :=
      update_where (is_provider sample_tenant (ProviderId 4)) (\<lambda>_. provider_row_of sample_tenant ?next) [sample_provider]\<rparr>\<rparr>)"
    by (simp add: update_provider_row_def Let_def insert_checked_def run_simps provider_check_def)
      (simp add: provider_row_of_def sample_provider_view_def sample_libs_def uuid_nil_def)
  have "\<exists>w1. edit_provider_body sample_service ?draws user_proof (ProviderId 4) 1 None (Some True) provider_world = Inr ((?next, [?event]), w1)
      \<and> w_micros w1 = (\<lambda>_. 1000000000)"
    by (simp add: edit_provider_body_def Let_def k bind_run(1) [where m = "managed sample_authority user_proof (SetProviderEnabled (ProviderId 4) True)" and w = provider_world, OF m]
        run_simps p view bind_run(1) [where m = "edit_enabled sample_provider_view True" and w = ?w, OF edited] checked_next_def bump next_eq up)
  then obtain w1 where b: "edit_provider_body sample_service ?draws user_proof (ProviderId 4) 1 None (Some True) provider_world = Inr ((?next, [?event]), w1)"
    and mic: "w_micros w1 = (\<lambda>_. 1000000000)" by blast
  have ev: "is_ok (map_event (InstanceId 5) sample_tenant 9 1000 ?event)"
    by (simp add: federation_event_def map_event_def map_federation_def sample_provider_view_def is_ok_and_then is_provider_action_def uuid_nil_def)
  show ?thesis
    using settle_sample_run [where operation = "edit_provider_body sample_service ?draws user_proof (ProviderId 4) 1 None (Some True)" and w = provider_world,
        OF b, of 1000 True "\<lambda>_. 9"] mic ev
    by (auto simp: edit_provider_def op_bind_def op_lift_def require_runtime_def write_sql_def k)
qed

theorem provider_change_ends_sessions_witness:
  "\<exists>w'. edit_provider sample_service \<lparr>pd_provider = 9, pd_nonce = None, pd_events = \<lambda>_. 9\<rparr> user_proof (ProviderId 4) 1 None (Some True) 1000 provider_world
      = (Inr (sample_provider_view\<lparr>vw_version := 2, vw_enabled := True, vw_revocation_epoch := 2\<rparr>), w') \<and> versions_ok (w_db w')"
proof -
  obtain w' where r: "edit_provider sample_service \<lparr>pd_provider = 9, pd_nonce = None, pd_events = \<lambda>_. 9\<rparr> user_proof (ProviderId 4) 1 None (Some True) 1000 provider_world
      = (Inr (sample_provider_view\<lparr>vw_version := 2, vw_enabled := True, vw_revocation_epoch := 2\<rparr>), w')"
    using sample_enable by blast
  have a: "authority_contract (fe_authority sample_service)" by (simp add: sample_authority_contract)
  have v: "versions_ok (w_db provider_world)" by (simp add: versions_ok_def user_session_def)
  from provider_change_ends_sessions [OF a sample_contracts(4) v r] r show ?thesis by blast
qed

end
