(* ===== verification/Login_Life.thy ===== *)
theory Login_Life
  imports Federation_Login Provider_Life
begin

section \<open>What the federated login guarantees\<close>

subsection \<open>An attempt is claimed once\<close>

text \<open>The requests that touch OIDC attempts, each with what its operation hands to the transaction.\<close>

datatype attempt_request =
  Begin LoginRequest AuthenticationMode "StepUpContext option" ProviderView StateLocator ProtocolMaterial ustr
| BeginLink FederationDraws LinkRequest AccountState "Origin option" "AuthenticationCandidate option" ProviderView
    ProviderView Purpose StateLocator ProtocolMaterial ustr
| Claim StateLocator ustr ustr ustr "byte list option"
| CancelAttempt StateLocator ustr ustr ustr "byte list option"
| Settle FederationDraws StateLocator ustr ustr "byte list option" UpstreamClaims
| SettleLink FederationDraws StateLocator Reauthentication uuid ProviderView StateLocator ProtocolMaterial

definition completed :: "(MutationError, 'a) tx \<Rightarrow> (MutationError, bool) tx" where
  "completed m = bind m (\<lambda>_. ret True)"

fun attempt_body :: "FederationService \<Rightarrow> attempt_request \<Rightarrow> (MutationError, bool) tx" where
  "attempt_body f (Begin q mode cx view locator material url) = completed (begin_body f q mode cx view locator material url)"
| "attempt_body f (BeginLink drawn q account og candidate target view purpose locator material url) =
    completed (begin_link_body (fe_libs f) drawn q account og candidate target view purpose locator material url)"
| "attempt_body f (Claim locator state browser issuer session) = completed (claim_login_body f locator state browser issuer session)"
| "attempt_body f (CancelAttempt locator state browser issuer session) =
    completed (cancel_login_body (fe_libs f) locator state browser issuer session)"
| "attempt_body f (Settle drawn locator state browser session claims) =
    completed (settle_login_body f drawn locator state browser session claims)"
| "attempt_body f (SettleLink drawn locator input i target new_locator material) =
    completed (reauthentication_body f drawn locator input i target new_locator material)"

definition unclaimed :: "StateLocator \<Rightarrow> db \<Rightarrow> bool" where
  "unclaimed l d \<longleftrightarrow> list_ex (\<lambda>r. is_attempt l r \<and> \<not> ot_claimed r) (d_oidc d)"

fun claims_attempt :: "StateLocator \<Rightarrow> attempt_request \<Rightarrow> bool" where
  "claims_attempt l (Claim locator state browser issuer session) \<longleftrightarrow>
    sl_tenant locator = sl_tenant l \<and> sl_id locator = sl_id l"
| "claims_attempt l _ \<longleftrightarrow> False"

text \<open>The request stores an attempt of this identifier, which is drawn at random.\<close>

fun stores_attempt :: "StateLocator \<Rightarrow> attempt_request \<Rightarrow> bool" where
  "stores_attempt l (Begin q mode cx view locator material url) \<longleftrightarrow>
    sl_tenant locator = sl_tenant l \<and> sl_id locator = sl_id l"
| "stores_attempt l (BeginLink drawn q account og candidate target view purpose locator material url) \<longleftrightarrow>
    sl_tenant locator = sl_tenant l \<and> sl_id locator = sl_id l"
| "stores_attempt l (SettleLink drawn locator input i target new_locator material) \<longleftrightarrow>
    sl_tenant new_locator = sl_tenant l \<and> sl_id new_locator = sl_id l"
| "stores_attempt l _ \<longleftrightarrow> False"

fun attempt_admitted :: "attempt_request \<Rightarrow> bool" where
  "attempt_admitted (Begin q mode cx view locator material url) \<longleftrightarrow>
    (case lg_replacement q of None \<Rightarrow> True | Some p \<Rightarrow> checks_contract (px_checks p))"
| "attempt_admitted (BeginLink drawn q account og candidate target view purpose locator material url) \<longleftrightarrow>
    checks_contract (px_checks (lq_actor q))"
| "attempt_admitted _ \<longleftrightarrow> True"

text \<open>Bodies that leave the attempts alone.\<close>

lemma no_checks_contract: "checks_contract no_checks"
  by (rule sample_contracts(2))

lemma same_reads: "reads_only m \<Longrightarrow> keeps (same f) m"
  by (auto simp: keeps_def unchanged_def same_def)

lemma intent_reads: "reads_only (intent tenant i)"
  unfolding intent_def driver_error_def by (intro pure.steps) (auto intro: pure.reading)

lemma check_actor_reads: "reads_only (check_actor L tenant a session)"
  unfolding check_actor_def by (intro pure.steps intent_reads lookup_reads no_checks_contract)

lemma check_step_up_reads: "reads_only (check_step_up key view oidc)"
  unfolding check_step_up_def Let_def by (intro pure.steps)

lemma in_time_reads: "reads_only (in_time a)"
  unfolding in_time_def by (intro pure.steps)

lemma current_reads': "reads_only (current c)"
  unfolding current_def by (intro pure.steps load_reads unchanged_refl)

lemma login_reads:
  "keeps (same f) (intent tenant i)" "keeps (same f) (check_actor L tenant a session)" "keeps (same f) (check_step_up key view oidc)"
  "keeps (same f) (in_time a)" "keeps (same f) (current c)" "keeps (same f) (load key)"
  "keeps (same f) (provider L tenant p)" "keeps (same f) (origin tenant sid)" "keeps (same f) (check_origin L key og)"
  "keeps (same f) (identity tenant i2)" "keeps (same f) (oidc_attempt L l st br cl)" "keeps (same f) driver_error"
  by (intro same_reads intent_reads check_actor_reads check_step_up_reads in_time_reads current_reads' load_reads store_reads unchanged_refl)+

lemma oidc_frames:
  "keeps (same d_oidc) (insert_federated_account key)" "keeps (same d_oidc) (write_epoch key n)"
  "keeps (same d_oidc) (advance tenant i stage)" "keeps (same d_oidc) (retain_binding key old new)"
  "keeps (same d_oidc) (close key sid t)" "keeps (same d_oidc) (bound_identity L drawn view claims key existing)"
  unfolding insert_federated_account_def insert_account_row_def insert_membership_row_def write_epoch_def advance_def
    retain_binding_def close_def write_session_def bound_identity_def Let_def
  by (intro frame.steps keeps_exec keeps_insert_checked; simp add: same_def)+

lemma sequence_oidc: "keeps (same d_oidc) (sequence tenant)"
  by (rule keepsI) (auto simp: same_def dest: sequence_Inr)

lemma insert_session_oidc: "keeps (same d_oidc) (insert_session L dr state replaced authentication t policy kind)"
  unfolding insert_session_def Let_def IssuedSession_new_def
  by (intro frame.steps oidc_frames keeps_insert_checked) (simp add: same_def)

lemma accept_oidc: "keeps (same d_oidc) (accept L snapshot key session absolute v limits)"
  unfolding accept_def store_observation_def put_observation_def bind_profile_def Let_def
  by (intro frame.steps keeps_insert_checked keeps_exec) (auto simp: same_def)

lemma issue_grant_oidc: "keeps (same d_oidc) (issue_grant L random l cx source at)"
  unfolding issue_grant_def sweep_grants_def new_handle_def Let_def
  by (intro frame.steps keeps_insert_checked keeps_exec) (simp_all add: same_def)

lemma chosen_account_oidc: "keeps (same d_oidc) (chosen_account f drawn tenant a view actor existing)"
  unfolding chosen_account_def Let_def by (intro frame.steps oidc_frames)

lemma authentication_oidc:
  "keeps (same d_oidc) (link_authentication L tenant a view key state)"
  "keeps (same d_oidc) (login_authentication f drawn tenant a view actor claims key i state t)"
  unfolding link_authentication_def login_authentication_def
  by (intro frame.steps oidc_frames sequence_oidc login_reads)+

lemma store_reauthentication_oidc:
  "keeps (same d_oidc) (store_reauthentication f drawn tenant i claims version view t)"
  unfolding store_reauthentication_def
  by (intro frame.steps oidc_frames sequence_oidc keeps_insert_checked) (simp add: same_def)

text \<open>Once claimed or gone, an attempt stays so.\<close>

abbreviation spent :: "StateLocator \<Rightarrow> db \<Rightarrow> db \<Rightarrow> bool" where
  "spent l \<equiv> maintains (\<lambda>d. \<not> unclaimed l d)"

lemma same_spent: "keeps (same d_oidc) m \<Longrightarrow> keeps (spent l) m"
  by (auto simp: keeps_def same_def maintains_def unclaimed_def)

lemma unclaimed_subset: "set (d_oidc e) \<subseteq> set (d_oidc d) \<Longrightarrow> \<not> unclaimed l d \<Longrightarrow> \<not> unclaimed l e"
  by (auto simp: unclaimed_def list_ex_iff)

lemma consume_spent: "keeps (spent l) (consume_oidc l2)"
  unfolding consume_oidc_def
  by (rule keeps_exec) (auto simp: maintains_def delete_where_def unclaimed_def list_ex_iff)

lemma claim_spent: "keeps (spent l) (claim_attempt l2)"
  unfolding claim_attempt_def
  by (rule keeps_exec) (auto simp: maintains_def unclaimed_def list_ex_iff set_update_where is_attempt_def split: if_splits)

lemma insert_attempt_spent:
  assumes "\<not> (sl_tenant (na_locator input) = sl_tenant l \<and> sl_id (na_locator input) = sl_id l)"
  shows "keeps (spent l) (insert_attempt L input)"
proof -
  have ins: "keeps (spent l) (insert_checked p (\<lambda>d. d\<lparr>d_oidc := new_oidc_row L input t expiry n # d_oidc d\<rparr>))" for p t expiry n
    using assms by (intro keeps_insert_checked) (auto simp: maintains_def unclaimed_def is_attempt_def new_oidc_row_def)
  have del: "keeps (spent l) (exec (\<lambda>d. d\<lparr>d_oidc := delete_first ot_expires 128 (expired_oidc tenant t) (d_oidc d)\<rparr>))" for tenant t
    by (rule keeps_exec) (auto simp: maintains_def intro: unclaimed_subset [THEN notE] dest: subsetD [OF set_delete_first_subset]
        simp: unclaimed_def list_ex_iff)
  have links: "keeps (spent l) (exec (\<lambda>d. d\<lparr>d_links := g d\<rparr>))" for g
    by (rule keeps_exec) (simp add: maintains_def unclaimed_def)
  have reads: "keeps (spent l) (provider L tenant p)" for tenant p
    by (intro store_reads) (simp add: maintains_def)
  show ?thesis
    unfolding insert_attempt_def Let_def
    by (intro invariant.steps ins del links reads same_spent [OF sequence_oidc])
qed


lemmas spent_reads = login_reads [THEN same_spent]

lemma settle_spent:
  "keeps (spent l) (settle_step_up f drawn l2 a view actor claims key i)"
  "keeps (spent l) (settle_session f drawn l2 a view actor claims key i state t already fresh)"
  unfolding settle_step_up_def settle_session_def Let_def
  by (intro invariant.steps spent_reads consume_spent same_spent [OF issue_grant_oidc] same_spent [OF insert_session_oidc]
      same_spent [OF accept_oidc] authentication_oidc [THEN same_spent] oidc_frames [THEN same_spent])+

lemma settle_login_spent: "keeps (spent l) (settle_login_body f drawn l2 st br session claims)"
  unfolding settle_login_body_def Let_def
  by (intro invariant.steps spent_reads settle_spent same_spent [OF chosen_account_oidc] oidc_frames [THEN same_spent])

lemma cancel_login_spent: "keeps (spent l) (cancel_login_body L l2 st br issuer session)"
  unfolding cancel_login_body_def Let_def by (intro invariant.steps spent_reads consume_spent)

lemma claim_login_spent: "keeps (spent l) (claim_login_body f l2 st br issuer session)"
  unfolding claim_login_body_def Let_def by (intro invariant.steps spent_reads claim_spent)

lemma begin_spent:
  assumes "\<not> (sl_tenant locator = sl_tenant l \<and> sl_id locator = sl_id l)"
    and "case lg_replacement q of None \<Rightarrow> True | Some p \<Rightarrow> checks_contract (px_checks p)"
  shows "keeps (spent l) (begin_body f q mode cx view locator material url)"
proof -
  have r: "keeps (spent l) (replaced_session f q mode view)"
  proof (cases "lg_replacement q")
    case None
    then show ?thesis by (simp add: replaced_session_def invariant.ret)
  next
    case (Some p)
    with assms(2) have "keeps (spent l) (recheck (fe_libs f) p)"
      by (intro same_spent same_reads recheck_reads) simp
    with Some show ?thesis
      unfolding replaced_session_def by (auto intro!: invariant.steps spent_reads)
  qed
  show ?thesis
    unfolding begin_body_def by (intro invariant.steps r insert_attempt_spent) (use assms(1) in simp)
qed

lemma begin_link_spent:
  assumes "\<not> (sl_tenant locator = sl_tenant l \<and> sl_id locator = sl_id l)" and "checks_contract (px_checks (lq_actor q))"
  shows "keeps (spent l) (begin_link_body L drawn q account og candidate target view purpose locator material url)"
proof -
  have rc: "keeps (spent l) (recheck L (lq_actor q))" by (intro same_spent same_reads recheck_reads assms)
  have k: "keeps (spent l) (kept_origin candidate og)"
    unfolding kept_origin_def by (intro invariant.steps spent_reads)
  have ins: "keeps (spent l) (insert_checked g (\<lambda>d. d\<lparr>d_links := h d\<rparr>))" for g h
    by (rule keeps_insert_checked) (simp add: maintains_def unclaimed_def)
  show ?thesis
    unfolding begin_link_body_def Let_def
    by (intro invariant.steps rc k ins spent_reads insert_attempt_spent) (use assms(1) in simp)
qed

lemma reauthentication_spent:
  assumes "\<not> (sl_tenant new_locator = sl_tenant l \<and> sl_id new_locator = sl_id l)"
  shows "keeps (spent l) (reauthentication_body f drawn l2 input i target new_locator material)"
  unfolding reauthentication_body_def Let_def
  by (intro invariant.steps spent_reads consume_spent same_spent [OF store_reauthentication_oidc] insert_attempt_spent)
    (use assms in simp)

text \<open>What a claim that succeeds found and left.\<close>

lemma claim_login_Inr:
  assumes "claim_login_body f l st br issuer session w = Inr ((a, view, material), w')"
  shows "\<exists>r w1 actor w2. find (is_attempt l) (d_oidc (w_db w)) = Some r \<and> \<not> ot_claimed r
    \<and> ot_state_hash r = digest (fe_libs f) st \<and> ot_browser_hash r = digest (fe_libs f) br
    \<and> (\<exists>t. ot_created r \<le> t \<and> t < ot_expires r)
    \<and> decode_attempt (fe_libs f) l br r = Inr a
    \<and> provider_of (fe_libs f) (w_db w) (sl_tenant l) (oa_provider a) = Some view \<and> vw_enabled view \<and> vw_version view = oa_version a
    \<and> issuer_str (pv_issuer (vw_settings view)) = issuer
    \<and> w_db w1 = w_db w \<and> check_actor (fe_libs f) (sl_tenant l) a session w1 = Inr (actor, w2)
    \<and> material = \<lparr>pm_state = st, pm_nonce = the (ot_nonce r), pm_verifier = the (ot_verifier r)\<rparr>
    \<and> w_db w' = (w_db w)\<lparr>d_oidc := update_where (is_attempt l) (\<lambda>r. r\<lparr>ot_claimed := True, ot_nonce := None, ot_verifier := None\<rparr>) (d_oidc (w_db w))\<rparr>"
proof -
  let ?L = "fe_libs f" and ?t = "sl_tenant l"
  from assms obtain w1 nonce verifier actor w2 w3 where
    a: "oidc_attempt ?L l st br False w = Inr ((a, Some (nonce, verifier)), w1)"
    and v: "provider_of ?L (w_db w1) ?t (oa_provider a) = Some view" "vw_enabled view" "vw_version view = oa_version a"
      "issuer_str (pv_issuer (vw_settings view)) = issuer"
    and act: "check_actor ?L ?t a session w1 = Inr (actor, w2)"
    and su: "when_tx (oa_mode a = AuthenticationMode.StepUp)
        (bind (lift (ok_or (Storage reject) actor)) (\<lambda>l. check_step_up (st_key (ld_state l)) view (fe_oidc f))) w2 = Inr ((), w3)"
    and cl: "claim_attempt l w3 = (Inr ((), w') :: MutationError + _)"
    and m: "material = \<lparr>pm_state = st, pm_nonce = nonce, pm_verifier = verifier\<rparr>"
    unfolding claim_login_body_def Let_def
    by (elim bindE) (auto simp: provider_Inr split: prod.splits option.splits elim!: bindE simp del: not_None_eq)
  obtain r where r: "find (is_attempt l) (d_oidc (w_db w)) = Some r"
    "ot_state_hash r = digest ?L st" "ot_browser_hash r = digest ?L br" "\<not> ot_claimed r"
    "ot_created r \<le> w_micros w (w_tick w) div 1000000" "w_micros w (w_tick w) div 1000000 < ot_expires r"
    "decode_attempt ?L l br r = Inr a" "w_db w1 = w_db w" "nonce = the (ot_nonce r)" "verifier = the (ot_verifier r)"
    by (rule oidc_attempt_Inr [OF a], intro that) simp_all
  have db2: "w_db w2 = w_db w1" by (rule reads_onlyD [OF check_actor_reads act])
  have "reads_only (when_tx (oa_mode a = AuthenticationMode.StepUp)
        (bind (lift (ok_or (Storage reject) actor)) (\<lambda>l. check_step_up (st_key (ld_state l)) view (fe_oidc f))))"
    by (intro pure.steps check_step_up_reads)
  from reads_onlyD [OF this su] db2 r(8) have db3: "w_db w3 = w_db w" by simp
  from cl db3 have "w_db w' = (w_db w)\<lparr>d_oidc := update_where (is_attempt l) (\<lambda>r. r\<lparr>ot_claimed := True, ot_nonce := None, ot_verifier := None\<rparr>) (d_oidc (w_db w))\<rparr>"
    by (simp add: claim_attempt_def)
  with r v act m show ?thesis
    by (intro exI [of _ r] exI [of _ w1] exI [of _ actor] exI [of _ w2]) auto
qed

interpretation attempts: one_use "attempt_body f" "unclaimed l" "claims_attempt l" "stores_attempt l" attempt_admitted
  for f l
proof unfold_locales
  fix q w w'
  assume "attempt_admitted q" "claims_attempt l q" and run: "attempt_body f q w = Inr (True, w')"
  then obtain locator st br issuer session where q: "q = Claim locator st br issuer session"
    and same: "sl_tenant locator = sl_tenant l" "sl_id locator = sl_id l"
    by (cases q) auto
  from run q obtain x w1 where c: "claim_login_body f locator st br issuer session w = Inr (x, w1)" and w1: "w' = w1"
    by (auto simp: completed_def tx_simps)
  obtain a view material where "x = (a, view, material)" by (cases x)
  with c claim_login_Inr obtain r where r: "find (is_attempt locator) (d_oidc (w_db w)) = Some r" "\<not> ot_claimed r"
    and d: "w_db w1 = (w_db w)\<lparr>d_oidc := update_where (is_attempt locator) (\<lambda>r. r\<lparr>ot_claimed := True, ot_nonce := None, ot_verifier := None\<rparr>) (d_oidc (w_db w))\<rparr>"
    by blast
  have att: "is_attempt locator = is_attempt l" using same by (auto simp: is_attempt_def)
  from r have "unclaimed l (w_db w)" by (auto simp: unclaimed_def list_ex_iff att dest!: find_SomeD)
  moreover have "\<not> unclaimed l (w_db w')"
    using d w1 by (auto simp: unclaimed_def list_ex_iff set_update_where att is_attempt_def split: if_splits)
  ultimately show "unclaimed l (w_db w) \<and> \<not> unclaimed l (w_db w')" by blast
next
  fix q w ok w'
  assume ad: "attempt_admitted q" and no: "\<not> stores_attempt l q" and run: "attempt_body f q w = Inr (ok, w')"
    and gone: "\<not> unclaimed l (w_db w)"
  have "keeps (spent l) (attempt_body f q)"
    using ad no
    by (cases q) (auto simp: completed_def intro!: invariant.bind invariant.ret begin_spent begin_link_spent claim_login_spent
        cancel_login_spent settle_login_spent reauthentication_spent)
  from keepsD [OF this run] gone show "\<not> unclaimed l (w_db w')" by (simp add: maintains_def)
qed

text \<open>C25: An authorization response is used at most once. Whatever requests browsers make over time, in
  whatever order and with whatever failures in between (begins of logins, step-ups and links,
  returns of the browser, cancellations, settlements), at most one return of a given state claims
  its attempt and so gets to exchange the code, unless the random generator draws the
  identifier of that attempt again.\<close>

theorem oidc_attempt_once:
  assumes "list_all (\<lambda>q. attempt_admitted q \<and> \<not> stores_attempt l q) qs"
  shows "length (filter (\<lambda>(q, ok). claims_attempt l q \<and> ok) (fst (serve (attempt_body f) qs w))) \<le> 1"
  using assms by (rule attempts.at_most_once)

end
