(* ===== verification/Login_Sound.thy ===== *)
theory Login_Sound
  imports Login_Life
begin

section \<open>What a completed federated login stands for\<close>

text \<open>
  The settlement of a login is one transaction. Its success is traced back to the rows it read:
  the claimed attempt, the provider, the identity and the account; and forward to the session row
  it wrote.
\<close>

definition login_tables :: "db \<Rightarrow> account_row list \<times> membership_row list \<times> local_credential_row list \<times> identity_row list" where
  "login_tables d = (d_accounts d, d_memberships d, d_credentials d, d_identities d)"

lemma login_tables_same:
  assumes "login_tables d = login_tables e"
  shows "account_of d = account_of e" "d_identities d = d_identities e"
  using assms by (auto simp: login_tables_def intro: account_of_same)

lemma login_tables_frames:
  "keeps (same login_tables) (sequence tenant)"
  "keeps (same login_tables) (consume_oidc l)"
  "keeps (same login_tables) (retain_binding key old new)"
  "keeps (same login_tables) (insert_session L dr state replaced authentication t policy kind)"
  "keeps (same login_tables) (accept L snapshot key session absolute v limits)"
proof -
  show "keeps (same login_tables) (sequence tenant)"
    by (rule keepsI) (auto simp: same_def login_tables_def dest: sequence_Inr)
  show "keeps (same login_tables) (consume_oidc l)"
    unfolding consume_oidc_def by (rule keeps_exec) (simp add: same_def login_tables_def)
  show "keeps (same login_tables) (retain_binding key old new)"
    unfolding retain_binding_def by (intro frame.steps keeps_exec; simp add: same_def login_tables_def)
  have c: "keeps (same login_tables) (close k s n)" for k s n
    unfolding close_def write_session_def by (intro frame.steps keeps_insert_checked; simp add: same_def login_tables_def)
  show "keeps (same login_tables) (insert_session L dr state replaced authentication t policy kind)"
    unfolding insert_session_def Let_def IssuedSession_new_def
    by (intro frame.steps c keeps_insert_checked) (simp add: same_def login_tables_def)
  show "keeps (same login_tables) (accept L snapshot key session absolute v limits)"
    unfolding accept_def store_observation_def put_observation_def bind_profile_def Let_def
    by (intro frame.steps keeps_insert_checked keeps_exec) (auto simp: same_def login_tables_def)
qed

lemma login_reads_all:
  "reads_only (in_time a)" "reads_only (check_actor L tenant a session)" "reads_only (intent tenant i)"
  by (rule in_time_reads check_actor_reads intent_reads)+

text \<open>A new row is the only one of its identifier, so later updates by identifier touch no other.\<close>

lemma admitted_alone:
  assumes "session_admissible L row d"
  shows "update_where (\<lambda>r. is_session (se_tenant row) (SessionId (se_session row)) r \<and> Q r) g (row # d_sessions d)
    = (if Q row then g row else row) # d_sessions d"
proof -
  have "\<not> is_session (se_tenant row) (SessionId (se_session row)) r" if "r \<in> set (d_sessions d)" for r
    using assms that by (auto simp: session_admissible_def list_ex_iff is_session_def)
  then have "update_where (\<lambda>r. is_session (se_tenant row) (SessionId (se_session row)) r \<and> Q r) g (d_sessions d) = d_sessions d"
    by (intro update_where_none) simp
  then show ?thesis by (simp add: update_where_def is_session_def)
qed

definition with_profile :: "ProfileSource option \<Rightarrow> uuid option \<Rightarrow> session_row \<Rightarrow> session_row" where
  "with_profile source snapshot r = r\<lparr>se_profile_source := source, se_profile_snapshot := snapshot\<rparr>"

lemma retain_binding_Inr:
  assumes "retain_binding key old (SessionId (se_session row)) w = Inr (u, w')"
    and "d_sessions (w_db w) = row # d_sessions d" and "session_admissible L row d" and "se_tenant row = ak_tenant key"
  shows "\<exists>x y. d_sessions (w_db w') = with_profile x y row # d_sessions d"
proof -
  note alone = admitted_alone [OF assms(3), unfolded assms(4)]
  let ?p = "\<lambda>r. is_session (ak_tenant key) (SessionId (se_session row)) r \<and> se_principal r = key_uuid key"
  from assms(1) obtain x y where u: "w_db w' = (w_db w)\<lparr>d_sessions := update_where ?p (with_profile x y) (d_sessions (w_db w))\<rparr>"
    unfolding retain_binding_def with_profile_def by (auto simp: tx_simps)
  have same: "with_profile (se_profile_source row) (se_profile_snapshot row) row = row" by (simp add: with_profile_def)
  show ?thesis
  proof (cases "se_principal row = key_uuid key")
    case True
    with u alone [of "\<lambda>r. se_principal r = key_uuid key" "with_profile x y"] assms(2)
    have "d_sessions (w_db w') = with_profile x y row # d_sessions d" by simp
    then show ?thesis by blast
  next
    case False
    with u alone [of "\<lambda>r. se_principal r = key_uuid key" "with_profile x y"] assms(2) same
    have "d_sessions (w_db w') = with_profile (se_profile_source row) (se_profile_snapshot row) row # d_sessions d" by simp
    then show ?thesis by blast
  qed
qed

lemma accept_row:
  assumes "accept L snapshot key (SessionId (se_session row)) absolute v limits w = Inr (e, w')"
    and "d_sessions (w_db w) = row # d_sessions d" and "session_admissible L row d" and "se_tenant row = ak_tenant key"
  shows "\<exists>x y. d_sessions (w_db w') = with_profile x y row # d_sessions d"
proof -
  from accept_sessions [OF assms(1)] obtain f where
    f: "d_sessions (w_db w') = update_where (is_session (ak_tenant key) (SessionId (se_session row))) f (d_sessions (w_db w))"
      "\<forall>r. \<exists>a b. f r = r\<lparr>se_profile_source := a, se_profile_snapshot := b\<rparr>" by blast
  from f(1) admitted_alone [OF assms(3), unfolded assms(4), of "\<lambda>_. True" f] assms(2)
  have "d_sessions (w_db w') = f row # d_sessions d" by simp
  with f(2) show ?thesis unfolding with_profile_def by metis
qed

subsection \<open>The settlement of a session\<close>

definition authenticated ::
  "FederationService \<Rightarrow> FederationDraws \<Rightarrow> TenantId \<Rightarrow> OidcAttempt \<Rightarrow> ProviderView \<Rightarrow> Loaded option \<Rightarrow> UpstreamClaims
    \<Rightarrow> AccountKey \<Rightarrow> uuid \<Rightarrow> AccountState \<Rightarrow> int
    \<Rightarrow> (MutationError, SessionAuthentication \<times> SessionId option \<times> AccountState) tx" where
  "authenticated f drawn tenant a view actor claims key i state t =
    (if oa_purpose a = Link then link_authentication (fe_libs f) tenant a view key state
     else login_authentication f drawn tenant a view actor claims key i state t)"

lemma authenticated_oidc: "keeps (same d_oidc) (authenticated f drawn tenant a view actor claims key i state t)"
  unfolding authenticated_def by (simp add: authentication_oidc)

lemma issued_tenant: "se_tenant (issued_row L dr state p facts lifetime kind s) = ak_tenant (st_key state)"
  "se_session (issued_row L dr state p facts lifetime kind s) = dr_session dr"
  by (simp_all add: issued_row_def)

lemma settle_session_Inr:
  assumes run: "settle_session f drawn l a view actor claims key i state t already fresh w = Inr ((out, events), w')"
  shows "\<exists>issued authentication replaced current w1 p bytes lifetime facts d x y.
    out = FederatedOutcome.Session issued (oa_return_url a)
      (if oa_purpose a = Link then Some (if already then LinkResult.AlreadyLinked else LinkResult.Linked) else None)
    \<and> authenticated f drawn (sl_tenant l) a view actor claims key i state t w = Inr ((authentication, replaced, current), w1)
    \<and> present authentication t Cookie = Ok p \<and> dr_secret (fd_session drawn) = Some bytes
    \<and> is_secret issued = SessionSecret (hex bytes)
    \<and> SessionLifetime_new t (au_session_policy (fe_authority f)) = Ok lifetime
    \<and> is_view issued = SessionView_new (SessionId (dr_session (fd_session drawn))) lifetime Cookie
    \<and> encoded_facts (fe_libs f) (pr_origin p) = Ok facts
    \<and> d = (case replaced of None \<Rightarrow> w_db w1
         | Some sid \<Rightarrow> (w_db w1)\<lparr>d_sessions := update_where (is_session (ak_tenant (st_key current)) sid)
             (\<lambda>r. r\<lparr>se_revoked := Some t\<rparr>) (d_sessions (w_db w1))\<rparr>)
    \<and> (st_key current = key \<longrightarrow> d_sessions (w_db w') =
        with_profile x y (issued_row (fe_libs f) (fd_session drawn) current p facts lifetime Cookie (SessionSecret (hex bytes))) # d_sessions d)
    \<and> login_tables (w_db w') = login_tables (w_db w1)
    \<and> d_oidc (w_db w') = delete_where (is_attempt l) (d_oidc (w_db w))"
proof -
  let ?L = "fe_libs f" and ?t = "sl_tenant l" and ?linked = "oa_purpose a = Link"
  let ?bind = "\<lambda>replaced issued. when_tx ?linked
      (bind (lift (ok_or (Storage reject) replaced)) (\<lambda>old. widen Storage (retain_binding key old (sv_id (is_view issued)))))"
  let ?accept = "\<lambda>issued. if ?linked then ret None
      else widen Storage (accept ?L (dr_snapshot (fd_session drawn)) key (sv_id (is_view issued))
        (sv_absolute_expires_at (is_view issued)) (oidc_observation claims view (oa_profile_sequence a)) (au_limits (fe_authority f)))"
  from run obtain authentication replaced current issued fact profile w1 w2 w3 w4 w5 where
    au: "authenticated f drawn ?t a view actor claims key i state t w = Inr ((authentication, replaced, current), w1)"
    and ins: "insert_session ?L (fd_session drawn) current replaced authentication t
        (au_session_policy (fe_authority f)) Cookie w1 = Inr ((issued, fact), w2)"
    and b: "?bind replaced issued w2 = Inr ((), w3)"
    and tm: "in_time a w3 = Inr ((), w4)"
    and acc: "?accept issued w4 = Inr (profile, w5)"
    and con: "consume_oidc l w5 = (Inr ((), w') :: MutationError + _)"
    and out: "out = FederatedOutcome.Session issued (oa_return_url a)
      (if ?linked then Some (if already then LinkResult.AlreadyLinked else LinkResult.Linked) else None)"
    unfolding settle_session_def Let_def authenticated_def [symmetric]
    by (elim bindE) (auto elim!: bindE split: prod.splits simp del: not_None_eq)
  let ?row = "\<lambda>p facts lifetime bytes. issued_row ?L (fd_session drawn) current p facts lifetime Cookie (SessionSecret (hex bytes))"
  from insert_session_Inr [OF ins] obtain p bytes lifetime facts d where
    parts: "present authentication t Cookie = Ok p" "dr_secret (fd_session drawn) = Some bytes"
      "is_secret issued = SessionSecret (hex bytes)" "SessionLifetime_new t (au_session_policy (fe_authority f)) = Ok lifetime"
      "encoded_facts ?L (pr_origin p) = Ok facts"
      "is_view issued = SessionView_new (SessionId (dr_session (fd_session drawn))) lifetime Cookie"
    and adm: "session_admissible ?L (?row p facts lifetime bytes) d"
    and w2: "w_db w2 = d\<lparr>d_sessions := ?row p facts lifetime bytes # d_sessions d\<rparr>"
    and d: "d = (case replaced of None \<Rightarrow> w_db w1
         | Some sid \<Rightarrow> (w_db w1)\<lparr>d_sessions := update_where (is_session (ak_tenant (st_key current)) sid)
             (\<lambda>r. r\<lparr>se_revoked := Some t\<rparr>) (d_sessions (w_db w1))\<rparr>)"
    unfolding Let_def by blast
  have sid: "sv_id (is_view issued) = SessionId (se_session (?row p facts lifetime bytes))"
    by (simp add: parts SessionView_new_def issued_tenant)
  have w4: "w_db w4 = w_db w3" by (rule reads_onlyD [OF in_time_reads tm])
  have kept: "keeps (same g) (?bind replaced issued)" "keeps (same g) (?accept issued)"
    if "\<And>k o' n. keeps (same g) (retain_binding k o' n)" "\<And>s k n ab v lm. keeps (same g) (accept ?L s k n ab v lm)" for g :: "db \<Rightarrow> 'x"
    using that by (auto intro!: frame.steps)
  have tables: "login_tables (w_db w') = login_tables (w_db w1)"
    using keepsD [OF kept(1) b, of login_tables] keepsD [OF kept(2) acc, of login_tables] w4 w2 d con
    by (simp add: same_def login_tables_frames consume_oidc_def, simp add: login_tables_def split: option.splits)
  have rows: "\<exists>x y. d_sessions (w_db w') = with_profile x y (?row p facts lifetime bytes) # d_sessions d" if key: "st_key current = key"
  proof (cases ?linked)
    case True
    with b sid obtain old where "retain_binding key old (SessionId (se_session (?row p facts lifetime bytes))) w2 = Inr ((), w3)"
      by (auto simp: tx_simps)
    from retain_binding_Inr [OF this _ adm] w2 key obtain x y where
      "d_sessions (w_db w3) = with_profile x y (?row p facts lifetime bytes) # d_sessions d" by (auto simp: issued_tenant)
    with True acc w4 con show ?thesis by (auto simp: consume_oidc_def)
  next
    case False
    with b have "w3 = w2" by (simp add: when_tx_def tx_simps)
    with w4 w2 have w4': "d_sessions (w_db w4) = ?row p facts lifetime bytes # d_sessions d" by simp
    from False acc sid obtain v where "accept ?L (dr_snapshot (fd_session drawn)) key (SessionId (se_session (?row p facts lifetime bytes)))
        (sv_absolute_expires_at (is_view issued)) v (au_limits (fe_authority f)) w4 = Inr (profile, w5)"
      by (auto simp: tx_simps)
    from accept_row [OF this w4' adm] key obtain x y where
      "d_sessions (w_db w5) = with_profile x y (?row p facts lifetime bytes) # d_sessions d" by (auto simp: issued_tenant)
    with con show ?thesis by (auto simp: consume_oidc_def)
  qed
  have oidc: "d_oidc (w_db w') = delete_where (is_attempt l) (d_oidc (w_db w))"
  proof -
    have "keeps (same d_oidc) (retain_binding k o' n)" for k o' n by (rule oidc_frames)
    moreover have "keeps (same d_oidc) (accept ?L s k n ab v lm)" for s k n ab v lm by (rule accept_oidc)
    ultimately have "d_oidc (w_db w5) = d_oidc (w_db w2)"
      using keepsD [OF kept(1) b, of d_oidc] keepsD [OF kept(2) acc, of d_oidc] w4 by (simp add: same_def)
    moreover have "d_oidc (w_db w2) = d_oidc (w_db w1)" using keepsD [OF insert_session_oidc ins] by (simp add: same_def)
    moreover have "d_oidc (w_db w1) = d_oidc (w_db w)" using keepsD [OF authenticated_oidc au] by (simp add: same_def)
    ultimately show ?thesis using con by (auto simp: consume_oidc_def)
  qed
  show ?thesis
  proof (cases "st_key current = key")
    case True
    from rows [OF this] out au parts d tables oidc show ?thesis by blast
  next
    case False
    with out au parts d tables oidc show ?thesis by blast
  qed
qed

subsection \<open>A login\<close>

lemma login_authentication_Inr:
  assumes "login_authentication f drawn tenant a view actor claims key i state t w = Inr ((authentication, replaced, cur), w')"
  shows "replaced = oa_replacement a \<and> cur = state
    \<and> (\<exists>n facts. authentication = SessionAuthentication.Oidc \<lparr>or_identity = i, or_epoch = vw_revocation_epoch view,
        or_facts = facts, or_facts_sequence = n\<rparr> \<and> collect_facts f drawn claims (vw_version view) view t = Inr facts)
    \<and> login_tables (w_db w') = login_tables (w_db w) \<and> d_sessions (w_db w') = d_sessions (w_db w)"
  using assms unfolding login_authentication_def
  by (auto simp: tx_simps login_tables_def dest!: sequence_Inr)

text \<open>The identity of the claims, found or made; only a provider that creates accounts makes one.\<close>

lemma settled_identity:
  assumes "chosen_account f drawn tenant a view actor (find (has_subject L tenant view claims) (d_identities (w_db w))) w = Inr ((key, fresh), w1)"
    and "bound_identity L drawn view claims key (find (has_subject L tenant view claims) (d_identities (w_db w))) w1 = Inr (i, w2)"
    and "ak_tenant key = tenant"
  shows "\<exists>e. e \<in> set (d_identities (w_db w2)) \<and> has_subject L tenant view claims e \<and> ei_identity e = i
    \<and> ei_principal e = key_uuid key
    \<and> (e \<in> set (d_identities (w_db w)) \<or> oa_purpose a = Link
       \<or> pv_jit (vw_settings view) \<and> key_uuid key = dr_principal (fd_session drawn) \<and> ei_identity e = dr_identity (fd_session drawn))
    \<and> d_sessions (w_db w2) = d_sessions (w_db w)"
proof (cases "find (has_subject L tenant view claims) (d_identities (w_db w))")
  case (Some e)
  from Some assms have w: "w_db w1 = w_db w" "w2 = w1" "i = ei_identity e" "ei_principal e = key_uuid key"
    by (auto simp: chosen_account_def bound_identity_def tx_simps split: if_splits)
  with find_SomeD [OF Some] show ?thesis by (intro exI [of _ e]) simp
next
  case None
  let ?e = "\<lparr>ei_tenant = ak_tenant key, ei_identity = dr_identity (fd_session drawn), ei_principal = key_uuid key,
     ei_provider = provider_uuid (vw_id view), ei_issuer = uc_issuer claims,
     ei_subject = storage_key (xl_show_uuid L) (uc_subject claims)\<rparr>"
  from None assms(2) have b: "i = dr_identity (fd_session drawn)" "w_db w2 = (w_db w1)\<lparr>d_identities := ?e # d_identities (w_db w1)\<rparr>"
    by (auto simp: bound_identity_def Let_def tx_simps insert_checked_Inr)
  have c: "d_sessions (w_db w1) = d_sessions (w_db w)
    \<and> (oa_purpose a = Link \<or> pv_jit (vw_settings view) \<and> key_uuid key = dr_principal (fd_session drawn))"
    using None assms(1)
    by (auto simp: chosen_account_def Let_def tx_simps insert_federated_account_def insert_account_row_def
        insert_membership_row_def insert_checked_Inr split: if_splits)
  from b c assms(3) show ?thesis by (intro exI [of _ ?e]) (auto simp: has_subject_def)
qed

text \<open>The parts of a settlement.\<close>

lemma settle_login_parts:
  assumes "settle_login_body f drawn l st br session claims w = Inr (x, w')"
  shows "\<exists>r a view actor w0 w1 w2 key fresh i (state :: AccountState) t w3.
    find (is_attempt l) (d_oidc (w_db w)) = Some r \<and> ot_claimed r
    \<and> ot_state_hash r = digest (fe_libs f) st \<and> ot_browser_hash r = digest (fe_libs f) br
    \<and> (let s = w_micros w (w_tick w) div 1000000 in ot_created r \<le> s \<and> s < ot_expires r)
    \<and> decode_attempt (fe_libs f) l br r = Inr a
    \<and> provider_of (fe_libs f) (w_db w) (sl_tenant l) (oa_provider a) = Some view \<and> vw_enabled view \<and> vw_version view = oa_version a
    \<and> (\<exists>w9 w8. w_db w9 = w_db w \<and> check_actor (fe_libs f) (sl_tenant l) a session w9 = Inr (actor, w8) \<and> w_db w8 = w_db w)
    \<and> w_db w0 = w_db w
    \<and> chosen_account f drawn (sl_tenant l) a view actor (find (has_subject (fe_libs f) (sl_tenant l) view claims) (d_identities (w_db w0))) w0
        = Inr ((key, fresh), w1)
    \<and> bound_identity (fe_libs f) drawn view claims key (find (has_subject (fe_libs f) (sl_tenant l) view claims) (d_identities (w_db w0))) w1
        = Inr (i, w2)
    \<and> account_of (w_db w2) key = Some state \<and> st_key state = key \<and> active state
    \<and> is_ok (Assurance_check (uc_assurance claims) (oa_mode a) (oa_created a) t) \<and> w_db w3 = w_db w2
    \<and> (if oa_mode a = AuthenticationMode.StepUp then settle_step_up f drawn l a view actor claims key i
       else settle_session f drawn l a view actor claims key i state t
         (find (has_subject (fe_libs f) (sl_tenant l) view claims) (d_identities (w_db w0)) \<noteq> None) fresh) w3 = Inr (x, w')"
proof -
  let ?L = "fe_libs f" and ?t = "sl_tenant l"
  let ?su = "\<lambda>a actor view. when_tx (oa_mode a = AuthenticationMode.StepUp)
        (bind (lift (ok_or (Storage reject) actor)) (\<lambda>l. check_step_up (st_key (ld_state l)) view (fe_oidc f)))"
  let ?found = "\<lambda>view d. find (has_subject ?L ?t view claims) (d_identities d)"
  from assms obtain a secrets view actor w9 w8 w0 key fresh w1 i w2 stored t where
    a: "oidc_attempt ?L l st br True w = Inr ((a, secrets), w9)"
    and v: "provider_of ?L (w_db w9) ?t (oa_provider a) = Some view" "vw_enabled view" "vw_version view = oa_version a"
    and act: "check_actor ?L ?t a session w9 = Inr (actor, w8)"
    and su: "?su a actor view w8 = Inr ((), w0)"
    and ch: "chosen_account f drawn ?t a view actor (?found view (w_db w0)) w0 = Inr ((key, fresh), w1)"
    and bi: "bound_identity ?L drawn view claims key (?found view (w_db w0)) w1 = Inr (i, w2)"
    and ld: "load key w2 = Inr (stored, w2)" "active (so_state stored)"
    and ok: "is_ok (Assurance_check (uc_assurance claims) (oa_mode a) (oa_created a) t)"
    and rest: "(if oa_mode a = AuthenticationMode.StepUp then settle_step_up f drawn l a view actor claims key i
       else settle_session f drawn l a view actor claims key i (so_state stored) t (?found view (w_db w0) \<noteq> None) fresh)
         (w2\<lparr>w_tick := Suc (w_tick w2)\<rparr>) = Inr (x, w')"
    unfolding settle_login_body_def Let_def
    by (elim bindE) (auto simp: provider_Inr load_Inr is_ok_iff elim!: bindE split: prod.splits simp del: not_None_eq split del: if_split)
  obtain r where r: "find (is_attempt l) (d_oidc (w_db w)) = Some r"
    "ot_state_hash r = digest ?L st" "ot_browser_hash r = digest ?L br" "ot_claimed r"
    "ot_created r \<le> w_micros w (w_tick w) div 1000000" "w_micros w (w_tick w) div 1000000 < ot_expires r"
    "decode_attempt ?L l br r = Inr a" "w_db w9 = w_db w"
    by (rule oidc_attempt_Inr [OF a], intro that) simp_all
  have db8: "w_db w8 = w_db w" using reads_onlyD [OF check_actor_reads act] r by simp
  have "reads_only (?su a actor view)" by (intro pure.steps check_step_up_reads)
  from reads_onlyD [OF this su] db8 have db0: "w_db w0 = w_db w" by simp
  from load_state [OF ld(1)] have acc: "account_of (w_db w2) key = Some (so_state stored)" "st_key (so_state stored) = key" by auto
  show ?thesis
    by (rule exI [of _ r], rule exI [of _ a], rule exI [of _ view], rule exI [of _ actor], rule exI [of _ w0], rule exI [of _ w1],
        rule exI [of _ w2], rule exI [of _ key], rule exI [of _ fresh], rule exI [of _ i], rule exI [of _ "so_state stored"], rule exI [of _ t],
        rule exI [of _ "w2\<lparr>w_tick := Suc (w_tick w2)\<rparr>"], intro conjI)
      (use r v act db8 db0 ch bi acc ld(2) ok rest in \<open>(simp add: Let_def; fail | metis)+\<close>)
qed

text \<open>The row of a session that rests on an identity.\<close>

definition rests_on :: "Libraries \<Rightarrow> SessionSecret \<Rightarrow> SessionId \<Rightarrow> AccountState \<Rightarrow> uuid \<Rightarrow> int \<Rightarrow> session_row \<Rightarrow> bool" where
  "rests_on L secret sid state i epoch s \<longleftrightarrow>
    is_session (ak_tenant (st_key state)) sid s \<and> se_principal s = key_uuid (st_key state)
    \<and> se_hash s = SessionSecret_digest (xl_sha256 L) secret \<and> se_auth_epoch s = st_epoch state
    \<and> se_membership_epoch s = st_membership_epoch state \<and> se_identity s = Some i \<and> se_provider_epoch s = Some epoch
    \<and> se_revoked s = None"

lemma present_oidc:
  "present (SessionAuthentication.Oidc og) t kind = Inr p \<Longrightarrow> pr_origin p = Some og"
  by (auto simp: present_def split: if_splits)

lemma issued_rests_on:
  "pr_origin p = Some og \<Longrightarrow> rests_on L (SessionSecret (hex bytes)) (SessionId (dr_session dr)) state (or_identity og) (or_epoch og)
    (with_profile x y (issued_row L dr state p facts lifetime Cookie (SessionSecret (hex bytes))))"
  by (simp add: rests_on_def issued_row_def with_profile_def is_session_def)

text \<open>C26: A completed federated login stands for a fresh, valid proof of the account's identity. When a
  settlement answers with a session that is not the end of a link, the state names a claimed
  attempt whose hashes match the state and the browser and whose time has not passed; its provider
  is enabled at the very version the attempt began with; an identity row of that provider carries
  the claims' issuer and subject, and the session's account is that row's account, which existed
  before or was made on the spot by a provider that may; the account is active; the claimed
  assurance passes the attempt's mode; the new session row carries the digest of the secret that
  is handed out, the account's present epochs, the identity and the provider's revocation epoch;
  the replaced session of the attempt, if any, is revoked, every other session row is as it was;
  and the attempt is gone.\<close>

theorem federated_login_sound:
  assumes "settle_login_body f drawn l st br session claims w = Inr ((FederatedOutcome.Session issued url None, events), w')"
  shows "\<exists>r view e state mode t s.
    find (is_attempt l) (d_oidc (w_db w)) = Some r \<and> ot_claimed r
    \<and> ot_state_hash r = digest (fe_libs f) st \<and> ot_browser_hash r = digest (fe_libs f) br
    \<and> (let now = w_micros w (w_tick w) div 1000000 in ot_created r \<le> now \<and> now < ot_expires r) \<and> url = ot_return_url r
    \<and> provider_of (fe_libs f) (w_db w) (sl_tenant l) (ProviderId (ot_provider r)) = Some view
    \<and> vw_enabled view \<and> vw_version view = ot_version r
    \<and> e \<in> set (d_identities (w_db w')) \<and> has_subject (fe_libs f) (sl_tenant l) view claims e
    \<and> (e \<in> set (d_identities (w_db w)) \<or> pv_jit (vw_settings view) \<and> ei_principal e = dr_principal (fd_session drawn))
    \<and> account_of (w_db w') \<lparr>ak_tenant = sl_tenant l, ak_principal = PrincipalId (ei_principal e)\<rparr> = Some state \<and> active state
    \<and> AuthenticationMode_code mode = ot_mode r \<and> is_ok (Assurance_check (uc_assurance claims) mode (ot_created r) t)
    \<and> rests_on (fe_libs f) (is_secret issued) (sv_id (is_view issued)) state (ei_identity e) (vw_revocation_epoch view) s
    \<and> d_sessions (w_db w') = s # (case ot_replacement r of None \<Rightarrow> d_sessions (w_db w)
        | Some u \<Rightarrow> update_where (is_session (sl_tenant l) (SessionId u)) (\<lambda>x. x\<lparr>se_revoked := Some t\<rparr>) (d_sessions (w_db w)))
    \<and> d_oidc (w_db w') = delete_where (is_attempt l) (d_oidc (w_db w'))"
proof -
  let ?L = "fe_libs f" and ?T = "sl_tenant l"
  let ?found = "\<lambda>view d. find (has_subject ?L ?T view claims) (d_identities d)"
  from settle_login_parts [OF assms] obtain r a view actor w0 w1 w2 key fresh i state t w3 where
    r: "find (is_attempt l) (d_oidc (w_db w)) = Some r" "ot_claimed r"
      "ot_state_hash r = digest ?L st" "ot_browser_hash r = digest ?L br"
      "(let s = w_micros w (w_tick w) div 1000000 in ot_created r \<le> s \<and> s < ot_expires r)"
    and a: "decode_attempt ?L l br r = Inr a"
    and v: "provider_of ?L (w_db w) ?T (oa_provider a) = Some view" "vw_enabled view" "vw_version view = oa_version a"
    and db0: "w_db w0 = w_db w"
    and ch: "chosen_account f drawn ?T a view actor (?found view (w_db w0)) w0 = Inr ((key, fresh), w1)"
    and bi: "bound_identity ?L drawn view claims key (?found view (w_db w0)) w1 = Inr (i, w2)"
    and st: "account_of (w_db w2) key = Some state" "st_key state = key" "active state"
    and ok: "is_ok (Assurance_check (uc_assurance claims) (oa_mode a) (oa_created a) t)"
    and db3: "w_db w3 = w_db w2"
    and rest: "(if oa_mode a = AuthenticationMode.StepUp then settle_step_up f drawn l a view actor claims key i
       else settle_session f drawn l a view actor claims key i state t (?found view (w_db w0) \<noteq> None) fresh) w3
      = Inr ((FederatedOutcome.Session issued url None, events), w')" by blast
  note da = decode_attempt_Inr [OF a]
  have "oa_mode a \<noteq> AuthenticationMode.StepUp"
    using rest by (auto simp: settle_step_up_def tx_simps)
  with rest have sess: "settle_session f drawn l a view actor claims key i state t (?found view (w_db w0) \<noteq> None) fresh w3
      = Inr ((FederatedOutcome.Session issued url None, events), w')" by simp
  from settle_session_Inr [OF sess] obtain authentication replaced now_state w4 p bytes lifetime facts d x y where
    out: "FederatedOutcome.Session issued url None = FederatedOutcome.Session issued (oa_return_url a)
      (if oa_purpose a = Link then Some (if ?found view (w_db w0) \<noteq> None then LinkResult.AlreadyLinked else LinkResult.Linked) else None)"
    and au: "authenticated f drawn ?T a view actor claims key i state t w3 = Inr ((authentication, replaced, now_state), w4)"
    and p: "present authentication t Cookie = Inr p" "is_secret issued = SessionSecret (hex bytes)"
      "is_view issued = SessionView_new (SessionId (dr_session (fd_session drawn))) lifetime Cookie"
    and d: "d = (case replaced of None \<Rightarrow> w_db w4
         | Some sid \<Rightarrow> (w_db w4)\<lparr>d_sessions := update_where (is_session (ak_tenant (st_key now_state)) sid)
             (\<lambda>r. r\<lparr>se_revoked := Some t\<rparr>) (d_sessions (w_db w4))\<rparr>)"
    and rows: "st_key now_state = key \<longrightarrow> d_sessions (w_db w') =
        with_profile x y (issued_row ?L (fd_session drawn) now_state p facts lifetime Cookie (SessionSecret (hex bytes))) # d_sessions d"
    and tables: "login_tables (w_db w') = login_tables (w_db w4)"
    and oidc: "d_oidc (w_db w') = delete_where (is_attempt l) (d_oidc (w_db w3))" by blast
  from out have plain: "oa_purpose a \<noteq> Link" "url = oa_return_url a" by (auto split: if_splits)
  with au have "login_authentication f drawn ?T a view actor claims key i state t w3 = Inr ((authentication, replaced, now_state), w4)"
    by (simp add: authenticated_def)
  from login_authentication_Inr [OF this] obtain n held where
    same: "replaced = oa_replacement a" "now_state = state" "login_tables (w_db w4) = login_tables (w_db w3)"
      "d_sessions (w_db w4) = d_sessions (w_db w3)"
    and og: "authentication = SessionAuthentication.Oidc \<lparr>or_identity = i, or_epoch = vw_revocation_epoch view,
        or_facts = held, or_facts_sequence = n\<rparr>" by blast
  have key: "ak_tenant key = ?T"
    using ch plain by (auto simp: chosen_account_def Let_def tx_simps split: option.splits)
  from settled_identity [OF ch bi] key db0 plain obtain e where
    e: "e \<in> set (d_identities (w_db w2))" "has_subject ?L ?T view claims e" "ei_identity e = i" "ei_principal e = key_uuid key"
      "e \<in> set (d_identities (w_db w)) \<or> pv_jit (vw_settings view) \<and> key_uuid key = dr_principal (fd_session drawn)"
      "d_sessions (w_db w2) = d_sessions (w_db w)" by auto
  have k: "\<lparr>ak_tenant = ?T, ak_principal = PrincipalId (ei_principal e)\<rparr> = key"
    using e key by (simp add: same_account_key [symmetric])
  have lt: "login_tables (w_db w') = login_tables (w_db w2)" using tables same db3 by simp
  note up = login_tables_same [OF lt]
  let ?s = "with_profile x y (issued_row ?L (fd_session drawn) state p facts lifetime Cookie (SessionSecret (hex bytes)))"
  have rests: "rests_on ?L (is_secret issued) (sv_id (is_view issued)) state (ei_identity e) (vw_revocation_epoch view) ?s"
    using issued_rests_on [OF present_oidc [OF p(1) [unfolded og]], of ?L bytes "fd_session drawn" state x y facts lifetime] p(2,3) e(3)
    by (simp add: SessionView_new_def)
  have sessions: "d_sessions (w_db w') = ?s # (case ot_replacement r of None \<Rightarrow> d_sessions (w_db w)
        | Some u \<Rightarrow> update_where (is_session ?T (SessionId u)) (\<lambda>x. x\<lparr>se_revoked := Some t\<rparr>) (d_sessions (w_db w)))"
  proof -
    have row: "d_sessions (w_db w') = ?s # d_sessions d" using rows same st by simp
    have prior: "d_sessions (w_db w4) = d_sessions (w_db w)" using same db3 e(6) by simp
    show ?thesis
    proof (cases "oa_replacement a")
      case None
      with da have "ot_replacement r = None" by auto
      with None row prior d same show ?thesis by simp
    next
      case (Some sid)
      with da have rep: "ot_replacement r = Some (session_uuid sid)" by auto
      have "SessionId (session_uuid sid) = sid" by (cases sid) simp
      with Some row prior d same rep st key show ?thesis by simp
    qed
  qed
  have gone: "d_oidc (w_db w') = delete_where (is_attempt l) (d_oidc (w_db w'))"
    by (simp add: oidc delete_where_def filter_filter)
  show ?thesis
    by (rule exI [of _ r], rule exI [of _ view], rule exI [of _ e], rule exI [of _ state], rule exI [of _ "oa_mode a"],
        rule exI [of _ t], rule exI [of _ ?s], intro conjI)
      (use r v da e up k st ok rests sessions gone plain in \<open>simp_all\<close>)
qed

subsection \<open>The actor of an attempt\<close>

lemma no_platform: "sc_platform no_checks = None"
  by (simp add: no_checks_def)

text \<open>The completion looks the session up with the default checks, which hold no platform verifier. A
  session that a platform authenticated is therefore never the actor of an attempt.\<close>

lemma actor_session:
  assumes "lookup L tenant token Cookie no_checks w = Inr (x, w')"
  shows "\<exists>r. find (is_session tenant (sv_id (ld_view x))) (d_sessions (w_db w)) = Some r \<and> se_hash r = token
    \<and> row_current (st_key (ld_state x)) (ld_state x) r \<and> account_of (w_db w) (st_key (ld_state x)) = Some (ld_state x)
    \<and> ak_tenant (st_key (ld_state x)) = tenant \<and> ld_source x \<noteq> AuthenticationSource.Platform"
proof -
  from lookup_hash [OF no_checks_contract assms] obtain r where
    r: "loaded_from L no_checks (w_db w) r (st_key (ld_state x)) x" "se_hash r = token" "ak_tenant (st_key (ld_state x)) = tenant"
    by blast
  then show ?thesis by (intro exI [of _ r]) (auto simp: loaded_from_def no_platform)
qed

lemma check_actor_Inr:
  assumes "check_actor L tenant a session w = Inr (actor, w')"
  shows "case actor of None \<Rightarrow> oa_link a = None \<and> oa_replacement a = None
    | Some x \<Rightarrow> \<exists>token r. session = Some token
        \<and> find (is_session tenant (sv_id (ld_view x))) (d_sessions (w_db w)) = Some r \<and> se_hash r = token
        \<and> row_current (st_key (ld_state x)) (ld_state x) r \<and> account_of (w_db w) (st_key (ld_state x)) = Some (ld_state x)
        \<and> ak_tenant (st_key (ld_state x)) = tenant \<and> ld_source x \<noteq> AuthenticationSource.Platform
        \<and> (case oa_link a of
             Some i \<Rightarrow> \<exists>it. intent tenant i w = Inr (it, w) \<and> intent_actor it x \<and> in_browser it = oa_browser a
               \<and> in_stage it = (if oa_purpose a = Purpose.Reauthenticate then LinkStage.ReauthenticationRequired else TargetReady)
           | None \<Rightarrow> oa_replacement a = Some (sv_id (ld_view x)))"
proof (cases "oa_link a")
  case (Some i)
  with assms obtain it w1 t w2 token x w3 where
    it: "intent tenant i w = Inr (it, w1)" and m: "intent_matches a it t"
    and l: "lookup L tenant token Cookie no_checks w2 = Inr (x, w3)" and x: "actor = Some x" "session = Some token" "intent_actor it x"
    and w2: "w_db w2 = w_db w1"
    unfolding check_actor_def by (simp, elim bindE) (auto elim!: bindE)
  have w1: "w1 = w" using it by (auto simp: intent_def tx_simps)
  from actor_session [OF l] x Some m it w1 w2 show ?thesis by (auto simp: intent_matches_def)
next
  case None
  then show ?thesis
    using assms unfolding check_actor_def
    by (auto split: option.splits elim!: bindE dest!: actor_session)
qed

lemma platform_not_loaded:
  assumes "by_id L key sid no_checks w = Inr (x, w')" and "find (is_session (ak_tenant key) sid) (d_sessions (w_db w)) = Some r"
  shows "se_source r \<noteq> lit ''platform''"
proof
  assume p: "se_source r = lit ''platform''"
  then have s: "se_source r \<noteq> lit ''oidc''" "se_source r \<noteq> lit ''local_password''" by (simp_all add: lit_def)
  from assms obtain og source fs v w4 where "load_facts key no_checks r og source fs w4 = Inr (v, w')"
    unfolding by_id_def Let_def by (elim bindE) (auto elim!: bindE simp: load_Inr split: prod.splits)
  with p s show False
    by (auto simp: load_facts_def tx_simps split: option.splits)
qed

lemma platform_not_looked_up:
  assumes "lookup L tenant token Cookie no_checks w = Inr (x, w')"
    and "find (is_session tenant (sv_id (ld_view x))) (d_sessions (w_db w)) = Some r"
  shows "se_source r \<noteq> lit ''platform''"
proof -
  from assms(1) obtain r' :: session_row where
    load: "by_id L \<lparr>ak_tenant = tenant, ak_principal = PrincipalId (se_principal r')\<rparr> (SessionId (se_session r')) no_checks w = Inr (x, w')"
    unfolding lookup_def Let_def by (elim bindE) auto
  from by_id_Inr [OF load] have "sv_id (ld_view x) = SessionId (se_session r')" by blast
  with platform_not_loaded [OF load] assms(2) show ?thesis by simp
qed

lemma decoded_replacement:
  assumes "decode_attempt L l browser r = Inr a" and "ot_replacement r = Some u"
  shows "oa_replacement a = Some (SessionId u)"
  using assms by (auto simp: decode_attempt_def and_then_Inr_iff stored_session_def split: if_splits)

lemma platform_actor_refused:
  assumes "oa_link a = None" and "oa_replacement a = Some sid"
    and "find (is_session tenant sid) (d_sessions (w_db w)) = Some r" and "se_source r = lit ''platform''"
  shows "check_actor L tenant a session w \<noteq> Inr v"
proof
  assume "check_actor L tenant a session w = Inr v"
  with assms(1,2) obtain token x w' where x: "lookup L tenant token Cookie no_checks w = Inr (x, w')" "sv_id (ld_view x) = sid"
    unfolding check_actor_def by (cases v) (auto elim!: bindE)
  with platform_not_looked_up [OF x(1)] assms(3,4) show False by simp
qed

text \<open>C34: An attempt that a platform-authenticated session began to replace can neither be completed nor
  cancelled. The begin rechecks that session with the checks of its proof, which hold the host's
  platform verifier; the return of the browser looks the same session up with the default checks,
  which hold none, so both the claim of the attempt and its cancellation fail while the session's
  row is there.\<close>

theorem platform_session_cannot_return:
  assumes "find (is_attempt l) (d_oidc (w_db w)) = Some r" and "ot_link r = None" and "ot_replacement r = Some u"
    and "find (is_session (sl_tenant l) (SessionId u)) (d_sessions (w_db w)) = Some s" and "se_source s = lit ''platform''"
  shows "\<not> is_ok (claim_login_body f l st br issuer session w) \<and> \<not> is_ok (cancel_login_body (fe_libs f) l st br issuer session w)"
proof -
  let ?L = "fe_libs f" and ?T = "sl_tenant l"
  have no: False if a: "oidc_attempt ?L l st br False w = Inr ((a, secrets), w1)" and c: "check_actor ?L ?T a session w1 = Inr v"
    for a secrets w1 v
  proof -
    obtain r' where r': "find (is_attempt l) (d_oidc (w_db w)) = Some r'" "decode_attempt ?L l br r' = Inr a" "w_db w1 = w_db w"
      by (rule oidc_attempt_Inr [OF a], intro that) simp_all
    with assms(1) have d: "decode_attempt ?L l br r = Inr a" by simp
    note da = decode_attempt_Inr [OF d] decoded_replacement [OF d assms(3)]
    from platform_actor_refused [of a "SessionId u" ?T w1 s ?L session v] da assms(2,4,5) r'(3) c show False by simp
  qed
  have "claim_login_body f l st br issuer session w \<noteq> Inr v" for v
  proof
    assume "claim_login_body f l st br issuer session w = Inr v"
    then show False
      unfolding claim_login_body_def Let_def
      by (elim bindE) (auto simp: provider_Inr split: prod.splits elim!: bindE simp del: not_None_eq dest: no)
  qed
  moreover have "cancel_login_body ?L l st br issuer session w \<noteq> Inr v" for v
  proof
    assume "cancel_login_body ?L l st br issuer session w = Inr v"
    then show False
      unfolding cancel_login_body_def Let_def
      by (elim bindE) (auto simp: provider_Inr split: prod.splits elim!: bindE simp del: not_None_eq dest: no)
  qed
  ultimately show ?thesis by (auto simp: is_ok_iff)
qed

subsection \<open>A link\<close>

lemma advance_Inr:
  assumes "advance tenant i stage w = Inr (u, w')"
  shows "\<exists>later. stage_after stage = Inr later \<and> w_db w' = (w_db w)\<lparr>d_links := update_where (at_stage tenant i stage)
      (\<lambda>r. r\<lparr>li_stage := LinkStage_code later\<rparr>) (d_links (w_db w))\<rparr>"
  using assms by (auto simp: advance_def tx_simps)

lemma intent_Inr:
  assumes "intent tenant i w = Inr (it, w')"
  shows "w' = w \<and> (\<exists>q. find (is_link tenant i) (d_links (w_db w)) = Some q \<and> in_id it = i \<and> in_browser it = li_browser q
    \<and> in_principal it = PrincipalId (li_principal q) \<and> in_session it = SessionId (li_session q)
    \<and> in_epoch it = li_auth_epoch q \<and> in_target it = ProviderId (li_target q) \<and> in_version it = li_version q
    \<and> LinkStage_code (in_stage it) = li_stage q \<and> map_option or_identity (in_origin it) = li_identity q
    \<and> in_local_authenticated_at it = li_local_at q)"
proof -
  from assms obtain q e where q: "find (is_link tenant i) (d_links (w_db w)) = Some q" and d: "decode_intent e q = Inr it" and w: "w' = w"
    by (auto simp: intent_def tx_simps)
  have "li_intent q = i" using find_SomeD [OF q] by (simp add: is_link_def)
  with d have "in_id it = i \<and> in_browser it = li_browser q
    \<and> in_principal it = PrincipalId (li_principal q) \<and> in_session it = SessionId (li_session q)
    \<and> in_epoch it = li_auth_epoch q \<and> in_target it = ProviderId (li_target q) \<and> in_version it = li_version q
    \<and> LinkStage_code (in_stage it) = li_stage q \<and> map_option or_identity (in_origin it) = li_identity q
    \<and> in_local_authenticated_at it = li_local_at q"
    by (auto simp: decode_intent_def intent_origin_def and_then_Inr_iff LinkStage_restore_def split: option.splits if_splits)
  with q w show ?thesis by blast
qed

text \<open>What the link branch rests on: the proof of the intent, under an advanced epoch.\<close>

lemma link_authentication_Inr:
  assumes run: "link_authentication L tenant a view key state w = Inr ((authentication, replaced, later), w')"
    and acc: "account_of (w_db w) key = Some state"
  shows "\<exists>i it. oa_link a = Some i \<and> intent tenant i w = Inr (it, w) \<and> in_stage it = TargetReady
    \<and> in_target it = vw_id view \<and> in_version it = vw_version view \<and> replaced = Some (in_session it)
    \<and> later = state\<lparr>st_epoch := st_epoch state + 1\<rparr>
    \<and> (case in_origin it of Some og \<Rightarrow> authentication = SessionAuthentication.Oidc og
       | None \<Rightarrow> \<exists>t. in_local_authenticated_at it = Some t \<and> authentication = SessionAuthentication.LocalPassword t)
    \<and> account_of (w_db w') = (account_of (w_db w))(key \<mapsto> later)
    \<and> d_identities (w_db w') = d_identities (w_db w) \<and> d_sessions (w_db w') = d_sessions (w_db w)"
proof -
  from run obtain i it w1 w2 w3 where
    link: "oa_link a = Some i" and it: "intent tenant i w = Inr (it, w1)"
    and st: "in_stage it = TargetReady" "in_target it = vw_id view" "in_version it = vw_version view"
    and rv: "revoke_sessions state = Inr later" and wa: "write_epoch key (st_epoch later) w1 = (Inr ((), w2) :: MutationError + _)"
    and ad: "advance tenant (in_id it) TargetReady w2 = Inr ((), w3)"
    and og: "case in_origin it of Some og \<Rightarrow> authentication = SessionAuthentication.Oidc og
       | None \<Rightarrow> \<exists>t. in_local_authenticated_at it = Some t \<and> authentication = SessionAuthentication.LocalPassword t"
    and re: "replaced = Some (in_session it)" and w': "w_db w' = w_db w3"
    unfolding link_authentication_def
    by (elim bindE) (auto elim!: bindE split: option.splits dest!: check_origin_Inr simp del: not_None_eq)
  have w1: "w1 = w" using intent_Inr [OF it] by blast
  have "rows_written key (\<lambda>r. r\<lparr>ac_epoch := st_epoch later\<rparr>) (\<lambda>r. r) (\<lambda>r. r) (w_db w) (w_db w2)"
    using wa w1 by (auto simp: rows_written_def write_epoch_def)
  from this acc have upd: "account_of (w_db w2) = (account_of (w_db w))(key \<mapsto> later)"
    by (rule account_written) (use rv stored_epochs [OF acc] account_of_key [OF acc] in \<open>auto simp: revoke_sessions_Ok\<close>)
  from advance_Inr [OF ad] have w3: "account_of (w_db w3) = account_of (w_db w2)" "d_identities (w_db w3) = d_identities (w_db w2)"
      "d_sessions (w_db w3) = d_sessions (w_db w2)"
    by (auto intro!: account_of_same)
  have w2: "d_identities (w_db w2) = d_identities (w_db w)" "d_sessions (w_db w2) = d_sessions (w_db w)"
    using wa w1 by (auto simp: write_epoch_def)
  have "later = state\<lparr>st_epoch := st_epoch state + 1\<rparr>" using rv by (simp add: revoke_sessions_Ok)
  with link it st og re w' w1 upd w3 w2 show ?thesis by (intro exI [of _ i] exI [of _ it]) simp
qed

lemma linked_identity:
  assumes "chosen_account f drawn tenant a view actor found w = Inr ((key, fresh), w1)"
    and "bound_identity L drawn view claims key found w1 = Inr (i, w2)" and "oa_purpose a = Link"
  shows "\<exists>x. actor = Some x \<and> key = st_key (ld_state x) \<and> account_of (w_db w2) = account_of (w_db w)
    \<and> d_sessions (w_db w2) = d_sessions (w_db w) \<and> d_links (w_db w2) = d_links (w_db w)"
  using assms
  by (auto simp: chosen_account_def bound_identity_def Let_def tx_simps insert_checked_Inr split: option.splits if_splits
      intro!: account_of_same)

lemma present_proof:
  assumes "present authentication t kind = Inr p"
    and "case og of Some o1 \<Rightarrow> authentication = SessionAuthentication.Oidc o1
       | None \<Rightarrow> \<exists>t. held = Some t \<and> authentication = SessionAuthentication.LocalPassword t"
  shows "map_option or_identity (pr_origin p) = map_option or_identity og \<and> (og = None \<longrightarrow> pr_local_at p = held)"
  using assms by (auto simp: present_def split: option.splits if_splits)

text \<open>The row of the new session of a link: the proof the intent holds, under the epoch after the link.\<close>

definition carries_proof :: "link_row \<Rightarrow> int \<Rightarrow> session_row \<Rightarrow> bool" where
  "carries_proof q epoch s \<longleftrightarrow> se_tenant s = li_tenant q \<and> se_principal s = li_principal q \<and> se_auth_epoch s = epoch
    \<and> se_identity s = li_identity q \<and> (li_identity q = None \<longrightarrow> se_local_at s = li_local_at q)"


end
