(* ===== verification/Login_Samples.thy ===== *)
theory Login_Samples
  imports Login_Sound
begin

section \<open>Federated logins of the example deployment\<close>

text \<open>
  The provider of the examples is switched on and the account is linked to it. The theories of the
  login are applied to a login and to a link whose settlements succeed.
\<close>

definition live_provider_row :: provider_row where
  "live_provider_row = sample_provider\<lparr>pv_enabled := True\<rparr>"

definition live_view :: ProviderView where
  "live_view = sample_provider_view\<lparr>vw_enabled := True\<rparr>"

definition linked_identity_row :: identity_row where
  "linked_identity_row = \<lparr>ei_tenant = sample_tenant, ei_identity = 21, ei_principal = 2, ei_provider = 4,
     ei_issuer = lit ''https://h'', ei_subject = lit ''oidc:s''\<rparr>"

definition sample_locator :: "Purpose \<Rightarrow> StateLocator" where
  "sample_locator purpose = \<lparr>sl_tenant = sample_tenant, sl_id = replicate 32 5, sl_purpose = purpose\<rparr>"

definition sample_attempt :: "Purpose \<Rightarrow> uuid option \<Rightarrow> uuid option \<Rightarrow> bool \<Rightarrow> oidc_row" where
  "sample_attempt purpose link replacement claimed =
    \<lparr>ot_context = None, ot_tenant = sample_tenant, ot_attempt = replicate 32 5, ot_provider = 4, ot_version = 1,
     ot_state_hash = digest sample_libs (lit ''s''), ot_browser_hash = digest sample_libs (lit ''b''), ot_sequence = 1,
     ot_purpose = uint (Purpose_code purpose), ot_mode = 0,
     ot_nonce = (if claimed then None else Some (lit ''n'')), ot_verifier = (if claimed then None else Some (lit ''v'')),
     ot_claimed = claimed, ot_created = 950, ot_expires = 1070, ot_return_url = lit ''https://h/home'',
     ot_link = link, ot_replacement = replacement\<rparr>"

definition login_db :: "oidc_row \<Rightarrow> db" where
  "login_db r = session_db\<lparr>d_providers := [live_provider_row], d_identities := [linked_identity_row], d_oidc := [r]\<rparr>"

definition login_world :: "oidc_row \<Rightarrow> world" where
  "login_world r = session_world\<lparr>w_db := login_db r\<rparr>"

lemma login_world_simps [simp]:
  "d_providers (w_db (login_world r)) = [live_provider_row]" "d_identities (w_db (login_world r)) = [linked_identity_row]"
  "d_oidc (w_db (login_world r)) = [r]" "d_sessions (w_db (login_world r)) = [user_session]"
  "d_links (w_db (login_world r)) = []" "w_tick (login_world r) = 0" "w_instants (login_world r) = int"
  "w_micros (login_world r) = (\<lambda>_. 1000000000)" "d_observations (w_db (login_world r)) = []"
  "d_guard (w_db (login_world r)) = [\<lparr>gd_tenant = sample_tenant, gd_profile_sequence = 0\<rparr>]"
  by (simp_all add: login_world_def login_db_def session_world_def session_db_def sample_world_def sample_db_def)

lemma live_view_simps [simp]:
  "vw_id live_view = ProviderId 4" "vw_version live_view = 1" "vw_enabled live_view = True" "vw_revocation_epoch live_view = 1"
  "vw_settings live_view = sample_settings"
  by (simp_all add: live_view_def sample_provider_view_def)

lemma live_provider_of:
  assumes "d_providers d = [live_provider_row]"
  shows "provider_of sample_libs d sample_tenant (ProviderId 4) = Some live_view"
proof -
  have "decode_provider sample_libs (ProviderId 4) live_provider_row = Inr live_view"
  proof -
    have "ProviderSettings_try_from (xl_show_uuid sample_libs) (xl_url_parse sample_libs) sample_input = Inr sample_settings"
      using sample_input_Ok by (simp add: sample_libs_def)
    then show ?thesis
      by (simp add: decode_provider_def live_provider_row_def live_view_def sample_provider_def sample_provider_view_def)
  qed
  then show ?thesis using assms
    by (simp add: provider_of_def is_provider_def live_provider_row_def sample_provider_def)
qed

lemma live_provider:
  "d_providers (w_db w) = [live_provider_row] \<Longrightarrow> provider sample_libs sample_tenant (ProviderId 4) w = Inr (live_view, w)"
  by (simp add: provider_Inr live_provider_of)

lemma sample_service_libs [simp]: "fe_libs sample_service = sample_libs"
  by (simp add: sample_service_def sample_authority_def)

lemma sample_attempt_read:
  assumes "find (is_attempt (sample_locator purpose)) (d_oidc (w_db w)) = Some (sample_attempt purpose link rep claimed)"
    and "w_micros w = (\<lambda>_. 1000000000)"
    and "rep \<noteq> Some uuid_nil"
  shows "oidc_attempt sample_libs (sample_locator purpose) (lit ''s'') (lit ''b'') claimed w
    = Inr ((\<lparr>oa_context = None, oa_profile_sequence = 1, oa_mode = AuthenticationMode.Login,
        oa_browser = digest sample_libs (lit ''b''), oa_provider = ProviderId 4, oa_version = 1, oa_purpose = purpose,
        oa_expiry = 1070, oa_created = 950, oa_return_url = lit ''https://h/home'', oa_link = link,
        oa_replacement = map_option SessionId rep\<rparr>, if claimed then None else Some (lit ''n'', lit ''v'')), w\<lparr>w_tick := Suc (w_tick w)\<rparr>)"
  using assms
  by (cases rep)
    (simp_all add: oidc_attempt_def run_simps attempt_matches_def sample_attempt_def sample_locator_def attempt_secrets_def
      decode_attempt_def stored_context_def stored_session_def AuthenticationMode_from_storage_def uuid_nil_def)

subsection \<open>The claim\<close>

abbreviation login_attempt :: "bool \<Rightarrow> oidc_row" where
  "login_attempt claimed \<equiv> sample_attempt Purpose.Login None None claimed"

lemma is_sample_attempt [simp]:
  "is_attempt (sample_locator purpose) (sample_attempt purpose' link rep claimed)"
  by (simp add: is_attempt_def sample_locator_def sample_attempt_def)

lemma sample_guard: "guarded (w_db w) sample_tenant \<Longrightarrow> lock_guard sample_tenant w = Inr ((), w)"
  by (auto simp: guarded_def)

lemma sample_login_claim:
  "is_ok (claim_login_body sample_service (sample_locator Purpose.Login) (lit ''s'') (lit ''b'') (lit ''https://h'') None
    (login_world (login_attempt False)))"
proof -
  let ?w = "login_world (login_attempt False)"
  note a = sample_attempt_read [of Purpose.Login ?w None None False, simplified]
  have i: "issuer_str (pv_issuer sample_settings) = lit ''https://h''" by (simp add: sample_settings_def)
  have t: "sl_tenant (sample_locator p) = sample_tenant" for p by (simp add: sample_locator_def)
  have p: "provider sample_libs sample_tenant (ProviderId 4) (?w\<lparr>w_tick := Suc 0\<rparr>) = Inr (live_view, ?w\<lparr>w_tick := Suc 0\<rparr>)"
    by (rule live_provider) simp
  have g: "lock_guard sample_tenant ?w = Inr ((), ?w)" by (rule sample_guard) (simp add: guarded_def)
  show ?thesis
    by (simp add: claim_login_body_def Let_def run_simps t g a p i check_actor_def exact_def claim_attempt_def is_ok_iff)
qed

theorem oidc_attempt_once_witness:
  "let q = Claim (sample_locator Purpose.Login) (lit ''s'') (lit ''b'') (lit ''https://h'') None in
    length (filter (\<lambda>(q, ok). claims_attempt (sample_locator Purpose.Login) q \<and> ok)
      (fst (serve (attempt_body sample_service) [q, q] (login_world (login_attempt False))))) = 1"
proof -
  let ?l = "sample_locator Purpose.Login"
  let ?q = "Claim ?l (lit ''s'') (lit ''b'') (lit ''https://h'') None"
  from sample_login_claim obtain x w1 where c: "claim_login_body sample_service ?l (lit ''s'') (lit ''b'') (lit ''https://h'') None
      (login_world (login_attempt False)) = Inr (x, w1)" by (auto simp: is_ok_iff)
  then have "attempt_body sample_service ?q (login_world (login_attempt False)) = Inr (True, w1)"
    by (simp add: completed_def bind_def ret_def)
  then have "1 \<le> length (filter (\<lambda>(q, ok). claims_attempt ?l q \<and> ok)
      (fst (serve (attempt_body sample_service) [?q, ?q] (login_world (login_attempt False)))))"
    by (simp add: Let_def split: prod.splits sum.splits)
  moreover have "length (filter (\<lambda>(q, ok). claims_attempt ?l q \<and> ok)
      (fst (serve (attempt_body sample_service) [?q, ?q] (login_world (login_attempt False))))) \<le> 1"
    by (rule oidc_attempt_once) simp
  ultimately show ?thesis by (simp add: Let_def)
qed

theorem platform_session_cannot_return_witness:
  "let w = (login_world (sample_attempt Purpose.Login None (Some 3) False))\<lparr>w_db := (login_db (sample_attempt Purpose.Login None (Some 3) False))
       \<lparr>d_sessions := [user_session\<lparr>se_source := lit ''platform''\<rparr>]\<rparr>\<rparr> in
    \<not> is_ok (claim_login_body sample_service (sample_locator Purpose.Login) (lit ''s'') (lit ''b'') (lit ''https://h'') (Some user_token) w)
    \<and> \<not> is_ok (cancel_login_body sample_libs (sample_locator Purpose.Login) (lit ''s'') (lit ''b'') (lit ''https://h'') (Some user_token) w)"
proof -
  let ?r = "sample_attempt Purpose.Login None (Some 3) False"
  let ?s = "user_session\<lparr>se_source := lit ''platform''\<rparr>"
  let ?w = "(login_world ?r)\<lparr>w_db := (login_db ?r)\<lparr>d_sessions := [?s]\<rparr>\<rparr>"
  have "find (is_attempt (sample_locator Purpose.Login)) (d_oidc (w_db ?w)) = Some ?r" "ot_link ?r = None" "ot_replacement ?r = Some 3"
    "find (is_session (sl_tenant (sample_locator Purpose.Login)) (SessionId 3)) (d_sessions (w_db ?w)) = Some ?s"
    "se_source ?s = lit ''platform''"
    by (simp_all add: login_db_def, simp_all add: sample_attempt_def sample_locator_def is_session_def user_session_def)
  from platform_session_cannot_return [OF this, of sample_service "lit ''s''" "lit ''b''" "lit ''https://h''" "Some user_token"]
  show ?thesis by (simp add: Let_def)
qed

subsection \<open>A login that succeeds\<close>

definition sample_fd :: FederationDraws where
  "sample_fd = \<lparr>fd_session = sample_draws, fd_state = None, fd_nonce = None, fd_verifier = None, fd_intent = 30,
     fd_groups = 1, fd_department = 2, fd_grant = None\<rparr>"

definition sample_origin :: Origin where
  "sample_origin = \<lparr>or_identity = 21, or_epoch = 1, or_facts = sample_facts, or_facts_sequence = 1\<rparr>"

lemma sample_fd_simps [simp]:
  "fd_session sample_fd = sample_draws" "fd_groups sample_fd = 1" "fd_department sample_fd = 2"
  by (simp_all add: sample_fd_def)

lemma sample_login_facts: "collect_facts sample_service sample_fd sample_claims 1 live_view 1000 = Inr sample_facts"
  by (simp add: collect_facts_def sample_service_def sample_settings_def sample_input_def)
    (simp add: facts_collect_def sample_claims_def sample_facts_def UpstreamClaims_validate_def
      lit_def utf8_width_def is_control_def UpstreamGroups_validate_def canonical_values_def
      bounded_values_def Profile_validate_def Profile_missing_def group_expires_at_def
      facts_expires_at_def acceptable_observation_iff checked_add_def i64_unfold
      DepartmentObservation_collect_def)

lemma sample_facts_encode: "facts_encode (xl_json_size sample_libs) sample_facts = Inr sample_facts"
  by (simp add: facts_encode_def sample_facts_def sample_libs_def sample_claims_def valid_assurance_def)

definition oidc_presentation :: presentation where
  "oidc_presentation = \<lparr>pr_source = AuthenticationSource.Oidc, pr_local_at = None, pr_origin = Some sample_origin, pr_platform = None\<rparr>"

definition local_presentation :: presentation where
  "local_presentation = \<lparr>pr_source = AuthenticationSource.LocalPassword, pr_local_at = Some 900, pr_origin = None, pr_platform = None\<rparr>"

definition platform_presentation :: "PlatformAuthentication \<Rightarrow> presentation" where
  "platform_presentation stored = \<lparr>pr_source = AuthenticationSource.Platform, pr_local_at = None, pr_origin = None, pr_platform = Some stored\<rparr>"

lemma sample_insert:
  assumes "present authentication 1000 Cookie = Inr p"
    and "p = oidc_presentation \<or> p = local_presentation \<or> p = platform_presentation stored"
    and "replaced = None \<or> replaced = Some (SessionId 3)"
    and "d_sessions (w_db w) = [user_session]" and "w_instants w = int" and "st_key state = user_key" and "0 < st_epoch state"
    and "st_membership_epoch state = 1" and "w_micros w = (\<lambda>_. 1000000000)"
  shows "\<exists>issued e w'. insert_session sample_libs sample_draws state replaced authentication 1000
      \<lparr>pol_idle = 900, pol_absolute = 10000\<rparr> Cookie w = Inr ((issued, e), w')
    \<and> is_view issued = SessionView_new (SessionId 4) new_lifetime Cookie \<and> is_secret issued = new_secret
    \<and> w_db w' = (w_db w)\<lparr>d_sessions := d_sessions (w_db w')\<rparr> \<and> w_micros w' = w_micros w \<and> w_instants w' = int
    \<and> map (\<lambda>r. (se_tenant r, se_session r, se_principal r)) (d_sessions (w_db w')) = [(sample_tenant, 4, 2), (sample_tenant, 3, 2)]"
proof -
  have s: "SessionSecret_generate (dr_secret sample_draws) = Inr new_secret"
    by (simp add: SessionSecret_generate_def sample_draws_def new_secret_def)
  have t: "SessionLifetime_new 1000 \<lparr>pol_idle = 900, pol_absolute = 10000\<rparr> = Inr new_lifetime"
    by (simp add: SessionLifetime_new_def SessionLifetime_restore_def checked_add_def checked_sub_def in_i64_def i64_min_def
        i64_max_def new_lifetime_def)
  have d: "SessionSecret_digest (xl_sha256 sample_libs) new_secret = replicate 32 49"
    by code_simp
  have dr: "dr_session sample_draws = 4" by (simp add: sample_draws_def)
  have lf: "lt_absolute_expires_at new_lifetime = 11000" by (simp add: new_lifetime_def)
  define facts where "facts = (if p = oidc_presentation then Some sample_facts else None)"
  have f: "encoded_facts sample_libs (pr_origin p) = Inr facts"
    using assms(2) sample_facts_encode
    by (auto simp: encoded_facts_def facts_def oidc_presentation_def local_presentation_def platform_presentation_def sample_origin_def)
  have sz: "xl_json_size sample_libs f \<le> 32768" "xl_platform_size sample_libs q \<le> 4096" for f q by (simp_all add: sample_libs_def)
  have adm: "session_admissible sample_libs (issued_row sample_libs sample_draws state p facts new_lifetime Cookie new_secret) e"
    if "d_sessions e = [user_session\<lparr>se_revoked := x\<rparr>]" for e x
    using d that assms(2,6-8) sz
    by (auto simp: session_admissible_def issued_row_def user_session_def user_token_def facts_def
        sample_draws_def uuid_nil_def session_check_def new_lifetime_def oidc_presentation_def local_presentation_def platform_presentation_def sample_origin_def lit_def)
  have same: "user_session\<lparr>se_revoked := None\<rparr> = user_session" by (simp add: user_session_def)
  note fin = Let_def IssuedSession_new_def saturating_sub_def clamp_i64_def i64_min_def i64_max_def SessionView_new_def
  show ?thesis
  proof (cases replaced)
    case None
    have "session_admissible sample_libs (issued_row sample_libs sample_draws state p facts new_lifetime Cookie new_secret) (w_db w)"
      using adm [of "w_db w" None] assms(4) same by simp
    then show ?thesis
      using None assms(4-6,9) by (simp add: insert_session_def run_simps assms(1) s t f dr lf fin) (simp add: issued_row_def user_session_def dr)
  next
    case (Some sid)
    with assms(3) have sid: "replaced = Some (SessionId 3)" by simp
    have c: "close user_key (SessionId 3) 1000 w = Inr ((), w\<lparr>w_db := (w_db w)\<lparr>d_sessions := [user_session\<lparr>se_revoked := Some 1000\<rparr>]\<rparr>\<rparr>)"
      using assms(4) by (simp add: close_def write_session_def insert_checked_def run_simps is_session_def user_session_def
        session_check_def update_where_def)
    show ?thesis
      using sid assms(4-6,9) adm [of "(w_db w)\<lparr>d_sessions := [user_session\<lparr>se_revoked := Some 1000\<rparr>]\<rparr>" "Some 1000"]
      by (simp add: insert_session_def run_simps assms(1) s t f dr lf fin c)
        (simp add: issued_row_def user_session_def dr)
  qed
qed

lemma sample_login_accept:
  assumes "map (\<lambda>r. (se_tenant r, se_session r, se_principal r)) (d_sessions (w_db w)) = [(sample_tenant, 4, 2), (sample_tenant, 3, 2)]"
    and "d_observations (w_db w) = []" "w_micros w = (\<lambda>_. 1000000000)"
  shows "\<exists>x w'. accept sample_libs 78 user_key (SessionId 4) 11000 (oidc_observation sample_claims live_view 1) ProfileLimits_default w
    = Inr (x, w')"
  using assms
  by (simp add: oidc_observation_def sample_claims_def sample_settings_def sample_input_def ProfileSettings_default_def accept_def run_simps
      Let_def Profile_missing_def Profile_validate_def
      apply_limits_def checked_add_def in_i64_def i64_min_def i64_max_def
      store_observation_def put_observation_def previous_profile_def
      admits_observation_def observed_row_def observation_check_def upsert_def ProfileLimits_default_def attribute_value.simps)

lemma sample_subject [simp]: "has_subject sample_libs sample_tenant live_view sample_claims linked_identity_row"
  by (simp add: has_subject_def linked_identity_row_def sample_claims_def sample_libs_def lit_def)

lemma user_state_simps [simp]:
  "st_key user_state = user_key" "active user_state" "st_epoch user_state = 1" "st_membership_epoch user_state = 1"
  by (simp_all add: user_state_def active_def)

lemma sample_assurance:
  "Assurance_check (uc_assurance sample_claims) AuthenticationMode.Login 950 1000 = Inr ()"
  by (simp add: Assurance_check_def sample_claims_def saturating_add_def clamp_i64_def i64_max_def i64_min_def)

lemma sample_authority_simps [simp]:
  "au_session_policy sample_authority = \<lparr>pol_idle = 900, pol_absolute = 10000\<rparr>" "au_limits sample_authority = ProfileLimits_default"
  by (simp_all add: sample_authority_def)

lemma sample_settle:
  "\<exists>issued events w'. settle_login_body sample_service sample_fd (sample_locator Purpose.Login) (lit ''s'') (lit ''b'') None sample_claims
      (login_world (login_attempt True)) = Inr ((FederatedOutcome.Session issued (lit ''https://h/home'') None, events), w')"
proof -
  let ?w = "login_world (login_attempt True)"
  let ?a = "\<lparr>oa_context = None, oa_profile_sequence = 1, oa_mode = AuthenticationMode.Login,
        oa_browser = digest sample_libs (lit ''b''), oa_provider = ProviderId 4, oa_version = 1, oa_purpose = Purpose.Login,
        oa_expiry = 1070, oa_created = 950, oa_return_url = lit ''https://h/home'', oa_link = None, oa_replacement = None\<rparr>"
  let ?w1 = "?w\<lparr>w_tick := Suc 0\<rparr>" and ?w2 = "?w\<lparr>w_tick := Suc (Suc 0)\<rparr>"
  note a = sample_attempt_read [of Purpose.Login ?w None None True, simplified]
  have t: "sl_tenant (sample_locator p) = sample_tenant" for p by (simp add: sample_locator_def)
  have p: "provider sample_libs sample_tenant (ProviderId 4) ?w1 = Inr (live_view, ?w1)" by (rule live_provider) simp
  have g: "lock_guard sample_tenant ?w = Inr ((), ?w)" by (rule sample_guard) (simp add: guarded_def)
  have k: "\<lparr>ak_tenant = sample_tenant, ak_principal = PrincipalId 2\<rparr> = user_key" by (simp add: user_key_def)
  have e: "ei_principal linked_identity_row = 2" "ei_identity linked_identity_row = 21" by (simp_all add: linked_identity_row_def)
  have l: "load user_key ?w1 = Inr (\<lparr>so_state = user_state, so_hash = Some (PasswordEncoding [98])\<rparr>, ?w1)"
    by (rule load_sample) (simp_all add: login_world_def login_db_def session_db_def guarded_def sample_db_def)
  let ?w3 = "?w2\<lparr>w_db := (w_db ?w)\<lparr>d_guard := [\<lparr>gd_tenant = sample_tenant, gd_profile_sequence = 1\<rparr>]\<rparr>\<rparr>"
  have sq: "sequence sample_tenant ?w2 = Inr (1, ?w3)"
    by (simp add: sequence_def run_simps Let_def in_i64_def i64_min_def i64_max_def update_where_def insert_checked_def)
  have pr: "present (SessionAuthentication.Oidc sample_origin) 1000 Cookie = Inr oidc_presentation"
    by (simp add: present_def oidc_presentation_def)
  have "\<exists>issued e w'. insert_session sample_libs sample_draws user_state None (SessionAuthentication.Oidc sample_origin) 1000
      \<lparr>pol_idle = 900, pol_absolute = 10000\<rparr> Cookie ?w3 = Inr ((issued, e), w')
    \<and> is_view issued = SessionView_new (SessionId 4) new_lifetime Cookie \<and> is_secret issued = new_secret
    \<and> w_db w' = (w_db ?w3)\<lparr>d_sessions := d_sessions (w_db w')\<rparr> \<and> w_micros w' = w_micros ?w3 \<and> w_instants w' = int
    \<and> map (\<lambda>r. (se_tenant r, se_session r, se_principal r)) (d_sessions (w_db w')) = [(sample_tenant, 4, 2), (sample_tenant, 3, 2)]"
    by (rule sample_insert [OF pr]) simp_all
  then obtain issued ev w4 where i: "insert_session sample_libs sample_draws user_state None (SessionAuthentication.Oidc sample_origin) 1000
      \<lparr>pol_idle = 900, pol_absolute = 10000\<rparr> Cookie ?w3 = Inr ((issued, ev), w4)"
    and iv: "is_view issued = SessionView_new (SessionId 4) new_lifetime Cookie"
    and w4: "w_db w4 = (w_db ?w3)\<lparr>d_sessions := d_sessions (w_db w4)\<rparr>" "w_micros w4 = (\<lambda>_. 1000000000)"
      "map (\<lambda>r. (se_tenant r, se_session r, se_principal r)) (d_sessions (w_db w4)) = [(sample_tenant, 4, 2), (sample_tenant, 3, 2)]"
    by auto
  let ?w5 = "w4\<lparr>w_tick := Suc (w_tick w4)\<rparr>"
  have o5: "d_observations (w_db w4) = []" by (subst w4(1)) simp
  obtain x w6 where ac: "accept sample_libs 78 user_key (SessionId 4) 11000 (oidc_observation sample_claims live_view 1) ProfileLimits_default ?w5
      = Inr (x, w6)" using sample_login_accept [of ?w5] w4 o5 by auto
  have or': "\<lparr>or_identity = 21, or_epoch = 1, or_facts = sample_facts, or_facts_sequence = 1\<rparr> = sample_origin"
    by (simp add: sample_origin_def)
  have v: "sv_id (is_view issued) = SessionId 4" "sv_absolute_expires_at (is_view issued) = 11000" "dr_snapshot sample_draws = 78"
    by (simp_all add: iv SessionView_new_def new_lifetime_def sample_draws_def)
  have ss: "settle_session sample_service sample_fd (sample_locator Purpose.Login) ?a live_view None sample_claims user_key 21 user_state 1000
      True False ?w2 = Inr ((FederatedOutcome.Session issued (lit ''https://h/home'') None,
        federation_event sample_tenant LoggedIn live_view (Some (PrincipalId 2)) # ev # (case x of None \<Rightarrow> [] | Some e \<Rightarrow> [e])),
        w6\<lparr>w_db := (w_db w6)\<lparr>d_oidc := delete_where (is_attempt (sample_locator Purpose.Login)) (d_oidc (w_db w6))\<rparr>\<rparr>)"
    by (simp add: settle_session_def Let_def login_authentication_def run_simps t sample_login_facts or' v w4(2) in_time_def consume_oidc_def
        sq [simplified] i [simplified] ac [simplified] login_action_def split: option.split)
  have f: "find (has_subject sample_libs sample_tenant live_view sample_claims) (d_identities (w_db ?w1)) = Some linked_identity_row" by simp
  have ca: "chosen_account sample_service sample_fd sample_tenant ?a live_view None (Some linked_identity_row) ?w1 = Inr ((user_key, False), ?w1)"
    by (simp add: chosen_account_def e k run_simps uuid_nil_def)
  have bi: "bound_identity sample_libs sample_fd live_view sample_claims user_key (Some linked_identity_row) ?w1 = Inr (21, ?w1)"
    by (simp add: bound_identity_def e run_simps)
  show ?thesis
    by (simp add: settle_login_body_def Let_def run_simps t g a p check_actor_def exact_def ca bi l sample_assurance ss [simplified])
qed

theorem federated_login_sound_witness:
  "\<exists>issued events w' (e :: identity_row) state s. settle_login_body sample_service sample_fd (sample_locator Purpose.Login) (lit ''s'') (lit ''b'') None sample_claims
      (login_world (login_attempt True)) = Inr ((FederatedOutcome.Session issued (lit ''https://h/home'') None, events), w')
    \<and> account_of (w_db w') \<lparr>ak_tenant = sample_tenant, ak_principal = PrincipalId (ei_principal e)\<rparr> = Some state \<and> active state
    \<and> rests_on sample_libs (is_secret issued) (sv_id (is_view issued)) state (ei_identity e) 1 s
    \<and> d_sessions (w_db w') = [s, user_session]"
proof -
  from sample_settle obtain issued events w' where
    run: "settle_login_body sample_service sample_fd (sample_locator Purpose.Login) (lit ''s'') (lit ''b'') None sample_claims
      (login_world (login_attempt True)) = Inr ((FederatedOutcome.Session issued (lit ''https://h/home'') None, events), w')" by blast
  have t: "sl_tenant (sample_locator p) = sample_tenant" for p by (simp add: sample_locator_def)
  from federated_login_sound [OF run] obtain r view and e :: identity_row and state t s where
    r: "find (is_attempt (sample_locator Purpose.Login)) (d_oidc (w_db (login_world (login_attempt True)))) = Some r"
    and v: "provider_of sample_libs (w_db (login_world (login_attempt True))) sample_tenant (ProviderId (ot_provider r)) = Some view"
    and acc: "account_of (w_db w') \<lparr>ak_tenant = sample_tenant, ak_principal = PrincipalId (ei_principal e)\<rparr> = Some state" "active state"
    and s: "rests_on sample_libs (is_secret issued) (sv_id (is_view issued)) state (ei_identity e) (vw_revocation_epoch view) s"
    and d: "d_sessions (w_db w') = s # (case ot_replacement r of None \<Rightarrow> d_sessions (w_db (login_world (login_attempt True)))
        | Some u \<Rightarrow> update_where (is_session sample_tenant (SessionId u)) (\<lambda>x. x\<lparr>se_revoked := Some t\<rparr>) (d_sessions (w_db (login_world (login_attempt True)))))"
    unfolding t sample_service_libs by (elim exE conjE) (rule that)
  from r have r': "r = login_attempt True" by simp
  then have p: "ot_provider r = 4" "ot_replacement r = None" by (simp_all add: sample_attempt_def)
  with v live_provider_of [of "w_db (login_world (login_attempt True))"] have "view = live_view" by simp
  with s acc d p run show ?thesis by (intro exI [of _ issued] exI [of _ events] exI [of _ w'] exI [of _ e] exI [of _ state] exI [of _ s]) simp
qed

subsection \<open>A link that succeeds\<close>

definition sample_intent :: link_row where
  "sample_intent = \<lparr>li_tenant = sample_tenant, li_intent = 30, li_principal = 2, li_session = 3, li_auth_epoch = 1,
     li_membership_epoch = 1, li_identity = None, li_source_epoch = None, li_facts = None, li_facts_sequence = None,
     li_local_at = Some 900, li_target = 4, li_version = 1, li_browser = digest sample_libs (lit ''b''), li_stage = 1,
     li_created = 900, li_expires = 1200\<rparr>"

definition sample_link_intent :: LinkIntent where
  "sample_link_intent = \<lparr>in_browser = digest sample_libs (lit ''b''), in_id = 30, in_principal = PrincipalId 2, in_session = SessionId 3,
     in_epoch = 1, in_member_epoch = 1, in_origin = None, in_local_authenticated_at = Some 900, in_target = ProviderId 4,
     in_version = 1, in_stage = TargetReady, in_created = 900, in_expiry = 1200\<rparr>"

definition link_world :: world where
  "link_world = (login_world (sample_attempt Link (Some 30) None True))
     \<lparr>w_db := (login_db (sample_attempt Link (Some 30) None True))\<lparr>d_links := [sample_intent]\<rparr>\<rparr>"

lemma link_world_simps [simp]:
  "d_providers (w_db link_world) = [live_provider_row]" "d_identities (w_db link_world) = [linked_identity_row]"
  "d_oidc (w_db link_world) = [sample_attempt Link (Some 30) None True]" "d_sessions (w_db link_world) = [user_session]"
  "d_links (w_db link_world) = [sample_intent]" "w_tick link_world = 0" "w_instants link_world = int"
  "w_micros link_world = (\<lambda>_. 1000000000)" "guarded (w_db link_world) sample_tenant"
  "d_accounts (w_db link_world) = d_accounts sample_db" "d_memberships (w_db link_world) = d_memberships sample_db"
  "d_credentials (w_db link_world) = d_credentials sample_db" "d_authority (w_db link_world) = 5"
  by (simp_all add: link_world_def login_db_def login_world_def session_world_def session_db_def sample_world_def guarded_def)
    (simp_all add: sample_db_def)

lemma sample_intent_read:
  assumes "d_links (w_db w) = [sample_intent]"
  shows "intent sample_tenant 30 w = Inr (sample_link_intent, w)"
  using assms
  by (simp add: intent_def run_simps is_link_def sample_intent_def decode_intent_def intent_origin_def uuid_nil_def
      LinkStage_restore_def sample_link_intent_def)

lemma sample_advance:
  assumes "d_links (w_db w) = [sample_intent]"
  shows "advance sample_tenant 30 TargetReady w = Inr ((), w\<lparr>w_db := (w_db w)\<lparr>d_links := [sample_intent\<lparr>li_stage := 2\<rparr>]\<rparr>\<rparr>)"
proof -
  have "at_stage sample_tenant 30 TargetReady sample_intent" by (simp add: at_stage_def is_link_def sample_intent_def)
  then show ?thesis using assms by (simp add: advance_def run_simps stage_after_def count_where_def update_where_def)
qed

lemma sample_link_authentication:
  assumes "d_links (w_db w) = [sample_intent]" and "oa_link a = Some 30"
  shows "link_authentication L sample_tenant a live_view user_key user_state w
    = Inr ((SessionAuthentication.LocalPassword 900, Some (SessionId 3), user_state\<lparr>st_epoch := 2\<rparr>),
        w\<lparr>w_db := (w_db w)\<lparr>d_accounts := update_where (is_account user_key) (\<lambda>r. r\<lparr>ac_epoch := 2\<rparr>) (d_accounts (w_db w)),
          d_links := [sample_intent\<lparr>li_stage := 2\<rparr>]\<rparr>\<rparr>)"
proof -
  have "revoke_sessions user_state = Inr (user_state\<lparr>st_epoch := 2\<rparr>)"
    by (simp add: revoke_sessions_Ok in_i64_def i64_min_def i64_max_def)
  then show ?thesis
    using assms
    by (simp add: link_authentication_def run_simps sample_intent_read write_epoch_def)
      (simp add: sample_link_intent_def run_simps sample_advance)
qed

lemma sample_link:
  "\<exists>issued events w'. settle_login_body sample_service sample_fd (sample_locator Link) (lit ''s'') (lit ''b'') (Some user_token) sample_claims
      link_world = Inr ((FederatedOutcome.Session issued (lit ''https://h/home'') (Some LinkResult.AlreadyLinked), events), w')"
proof -
  let ?w = link_world
  let ?a = "\<lparr>oa_context = None, oa_profile_sequence = 1, oa_mode = AuthenticationMode.Login,
        oa_browser = digest sample_libs (lit ''b''), oa_provider = ProviderId 4, oa_version = 1, oa_purpose = Link,
        oa_expiry = 1070, oa_created = 950, oa_return_url = lit ''https://h/home'', oa_link = Some 30, oa_replacement = None\<rparr>"
  let ?w1 = "?w\<lparr>w_tick := Suc 0\<rparr>" and ?w2 = "?w\<lparr>w_tick := 2\<rparr>" and ?w4 = "?w\<lparr>w_tick := 4\<rparr>" and ?w5 = "?w\<lparr>w_tick := 5\<rparr>"
  note a = sample_attempt_read [of Link ?w "Some 30" None True, simplified]
  have t: "sl_tenant (sample_locator p) = sample_tenant" for p by (simp add: sample_locator_def)
  have p: "provider sample_libs sample_tenant (ProviderId 4) ?w1 = Inr (live_view, ?w1)" by (rule live_provider) simp
  have g: "lock_guard sample_tenant ?w = Inr ((), ?w)" by (rule sample_guard) simp
  have "user_signed_in ?w2"
    by (simp add: user_signed_in_def, intro exI [of _ "None"], simp add: user_session_def)
  from lookup_sample [OF this] have lk: "lookup sample_libs sample_tenant user_token Cookie no_checks ?w2 = Inr (user_loaded 2, ?w4)" by simp
  have ia: "intent_actor sample_link_intent (user_loaded 2)"
    by (simp add: intent_actor_def sample_link_intent_def user_loaded_def user_view_def SessionView_new_def)
  have ca: "check_actor sample_libs sample_tenant ?a (Some user_token) ?w1 = Inr (Some (user_loaded 2), ?w4)"
    by (simp add: check_actor_def run_simps sample_intent_read numeral_2_eq_2 [symmetric] lk ia)
      (simp add: intent_matches_def sample_link_intent_def lk ia numeral_2_eq_2)
  have us: "st_key (ld_state (user_loaded 2)) = user_key" by (simp add: user_loaded_def)
  have e: "ei_principal linked_identity_row = 2" "ei_identity linked_identity_row = 21" by (simp_all add: linked_identity_row_def)
  have l: "load user_key ?w4 = Inr (\<lparr>so_state = user_state, so_hash = Some (PasswordEncoding [98])\<rparr>, ?w4)"
    by (rule load_sample) simp_all
  let ?w6 = "?w5\<lparr>w_db := (w_db ?w5)\<lparr>d_accounts := update_where (is_account user_key) (\<lambda>r. r\<lparr>ac_epoch := 2\<rparr>) (d_accounts (w_db ?w5)),
          d_links := [sample_intent\<lparr>li_stage := 2\<rparr>]\<rparr>\<rparr>"
  have la: "link_authentication sample_libs sample_tenant ?a live_view user_key user_state ?w5
      = Inr ((SessionAuthentication.LocalPassword 900, Some (SessionId 3), user_state\<lparr>st_epoch := 2\<rparr>), ?w6)"
    by (rule sample_link_authentication) simp_all
  have pr: "present (SessionAuthentication.LocalPassword 900) 1000 Cookie = Inr local_presentation"
    by (simp add: present_def local_presentation_def)
  have "\<exists>issued e w'. insert_session sample_libs sample_draws (user_state\<lparr>st_epoch := 2\<rparr>) (Some (SessionId 3)) (SessionAuthentication.LocalPassword 900) 1000
      \<lparr>pol_idle = 900, pol_absolute = 10000\<rparr> Cookie ?w6 = Inr ((issued, e), w')
    \<and> is_view issued = SessionView_new (SessionId 4) new_lifetime Cookie \<and> is_secret issued = new_secret
    \<and> w_db w' = (w_db ?w6)\<lparr>d_sessions := d_sessions (w_db w')\<rparr> \<and> w_micros w' = w_micros ?w6 \<and> w_instants w' = int
    \<and> map (\<lambda>r. (se_tenant r, se_session r, se_principal r)) (d_sessions (w_db w')) = [(sample_tenant, 4, 2), (sample_tenant, 3, 2)]"
    by (rule sample_insert [OF pr]) simp_all
  then obtain issued ev w7 where i: "insert_session sample_libs sample_draws (user_state\<lparr>st_epoch := 2\<rparr>) (Some (SessionId 3)) (SessionAuthentication.LocalPassword 900) 1000
      \<lparr>pol_idle = 900, pol_absolute = 10000\<rparr> Cookie ?w6 = Inr ((issued, ev), w7)"
    and iv: "is_view issued = SessionView_new (SessionId 4) new_lifetime Cookie"
    and w7: "w_micros w7 = (\<lambda>_. 1000000000)"
      "map (\<lambda>r. (se_tenant r, se_session r, se_principal r)) (d_sessions (w_db w7)) = [(sample_tenant, 4, 2), (sample_tenant, 3, 2)]"
    by auto
  have v: "sv_id (is_view issued) = SessionId 4" by (simp add: iv SessionView_new_def)
  from w7(2) obtain r1 r2 where rr: "d_sessions (w_db w7) = [r1, r2]" "se_tenant r1 = sample_tenant" "se_session r1 = 4" "se_principal r1 = 2"
      "se_tenant r2 = sample_tenant" "se_session r2 = 3" "se_principal r2 = 2" by auto
  have "is_ok (retain_binding user_key (SessionId 3) (SessionId 4) w7)"
    using rr by (simp add: retain_binding_def run_simps is_session_def is_ok_iff)
  then obtain w8 where rb: "retain_binding user_key (SessionId 3) (SessionId 4) w7 = Inr ((), w8)" by (auto simp: is_ok_iff)
  then have w8: "w_micros w8 = (\<lambda>_. 1000000000)" using w7(1) by (auto simp: retain_binding_def tx_simps)
  let ?w9 = "w8\<lparr>w_tick := Suc (w_tick w8), w_db := (w_db w8)\<lparr>d_oidc := delete_where (is_attempt (sample_locator Link)) (d_oidc (w_db w8))\<rparr>\<rparr>"
  have ss: "settle_session sample_service sample_fd (sample_locator Link) ?a live_view (Some (user_loaded 2)) sample_claims user_key 21 user_state 1000
      True False ?w5 = Inr ((FederatedOutcome.Session issued (lit ''https://h/home'') (Some LinkResult.AlreadyLinked),
        [federation_event sample_tenant FederationAction.AlreadyLinked live_view (Some (PrincipalId 2)), ev]), ?w9)"
    by (simp add: settle_session_def Let_def run_simps t la [simplified] i [simplified] v rb w8 in_time_def consume_oidc_def login_action_def)
  have ch: "chosen_account sample_service sample_fd sample_tenant ?a live_view (Some (user_loaded 2)) (Some linked_identity_row) ?w4
      = Inr ((user_key, False), ?w4)"
    by (simp add: chosen_account_def run_simps us)
  have bi: "bound_identity sample_libs sample_fd live_view sample_claims user_key (Some linked_identity_row) ?w4 = Inr (21, ?w4)"
    by (simp add: bound_identity_def e run_simps)
  show ?thesis
    by (simp add: settle_login_body_def Let_def run_simps t g a p ca exact_def ch bi l sample_assurance ss [simplified])
qed

lemma link_world_epochs: "epochs_ok (w_db link_world)"
proof -
  have "load user_key link_world = Inr (\<lparr>so_state = user_state, so_hash = Some (PasswordEncoding [98])\<rparr>, link_world)"
    by (rule load_sample) simp_all
  then have "account_of (w_db link_world) user_key = Some user_state" by (auto dest: load_state)
  moreover have "session_key user_session = user_key" "se_auth_epoch user_session = 1"
    by (simp_all add: session_key_def user_session_def user_key_def)
  ultimately show ?thesis by (simp add: epochs_ok_def)
qed


end
