(* ===== verification/Platform_Admission.thy ===== *)
theory Platform_Admission
  imports Platform_Check Session_Store
begin

section \<open>Subjects of native protocols (identity-postgres/src/platform/admission.rs)\<close>

text \<open>
  A host with native protocols of its own admits a subject on its own transaction: no session is
  issued, and what is returned are the epochs the host has to store and to present again.
\<close>

record PlatformSubjectVersion =
  pz_auth_epoch :: int
  pz_membership_epoch :: int

datatype PlatformSubjectAdmissionError = Rejected | Storage PgError

text \<open>The epochs of an enabled account with an active membership, as the joined statement reads them.\<close>

definition subject_epochs :: "AccountKey \<Rightarrow> db \<Rightarrow> (int \<times> int) option" where
  "subject_epochs key d =
    (case find (is_account key) (d_accounts d) of None \<Rightarrow> None
     | Some a \<Rightarrow> (case find (is_membership key) (d_memberships d) of None \<Rightarrow> None
         | Some m \<Rightarrow> if ac_enabled a \<and> mb_active m then Some (ac_epoch a, mb_epoch m) else None))"

definition admit_platform_subject_on ::
  "HostConnection \<Rightarrow> InstanceId \<Rightarrow> PlatformBinding \<Rightarrow> PlatformSubjectVersion option
    \<Rightarrow> (PlatformSubjectAdmissionError, PlatformSubjectVersion) tx" where
  "admit_platform_subject_on c i b expected =
    bind (require (\<not> (\<not> hc_in_transaction c \<or> \<not> binding_valid b \<or> pb_instance b \<noteq> i)) PlatformSubjectAdmissionError.Rejected) (\<lambda>_.
    bind (require (\<not> (hc_scope c \<noteq> Some (ak_tenant (pb_account b)) \<or> hc_isolation c \<noteq> lit ''read committed''))
      PlatformSubjectAdmissionError.Rejected) (\<lambda>_.
    bind authority_id (\<lambda>authority.
    bind (require (\<not> authority \<noteq> instance_uuid i) PlatformSubjectAdmissionError.Rejected) (\<lambda>_.
    bind (query (\<lambda>d. find (\<lambda>g. gd_tenant g = ak_tenant (pb_account b)) (d_guard d))) (\<lambda>guard.
    bind (require (\<not> guard = None) PlatformSubjectAdmissionError.Rejected) (\<lambda>_.
    bind (query (subject_epochs (pb_account b))) (\<lambda>epochs.
    bind (lift (ok_or PlatformSubjectAdmissionError.Rejected epochs)) (\<lambda>(auth_epoch, membership_epoch).
    let version = \<lparr>pz_auth_epoch = auth_epoch, pz_membership_epoch = membership_epoch\<rparr> in
    bind (require (\<not> (auth_epoch < 1 \<or> membership_epoch < 1 \<or> (case expected of None \<Rightarrow> False | Some v \<Rightarrow> v \<noteq> version)))
      PlatformSubjectAdmissionError.Rejected) (\<lambda>_.
    bind (widen PlatformSubjectAdmissionError.Storage (external_valid b)) (\<lambda>ok.
    bind (require (\<not> \<not> ok) PlatformSubjectAdmissionError.Rejected) (\<lambda>_.
    ret version)))))))))))"

end
