(* ===== verification/Platform_Login.thy ===== *)
theory Platform_Login
  imports Federation_Link Operation
begin

section \<open>Platform logins (identity-postgres/src/platform.rs, platform/enterprise.rs, platform/admission.rs)\<close>

text \<open>
  A host whose platform verifies devices installs a verifier. A login then has two halves: the
  authority stores a one-use challenge bound to a device binding, a browser and a purpose; the
  device signs it, the verifier judges the evidence outside every transaction, and one
  transaction rechecks everything, issues the session and, for a relying party of the enterprise,
  an assertion. The signer of assertions and the encoding of the signed payload are parameters;
  what the code draws at random is an argument. Native protocols of the host admit a subject on
  the host's own transaction.
\<close>

subsection \<open>Enterprise assertions\<close>

record EnterpriseClaims =
  el_iss :: ustr
  el_sub :: ustr
  el_aud :: ustr
  el_jti :: ustr
  el_iat :: int
  el_exp :: int
  el_scope :: ustr
  el_client_id :: ustr
  el_rp :: ustr
  el_auth_time :: "int option"
  el_user_presence :: bool
  el_user_verification :: bool
  el_key_possession :: bool

type_synonym EnterpriseSigner = "EnterpriseClaims \<Rightarrow> unit + ustr"

record EnterpriseConfig =
  ef_targets :: "(ustr \<times> EnterpriseTarget) list"
  ef_signer :: EnterpriseSigner

text \<open>The loop of \<open>EnterpriseConfig::new\<close>: no two targets share an issuer or an identifier.\<close>

fun enterprise_targets ::
  "(ustr \<Rightarrow> url_parts option) \<Rightarrow> EnterpriseTarget list \<Rightarrow> ustr set \<Rightarrow> (ustr \<times> EnterpriseTarget) list
    \<Rightarrow> AuthorityError + (ustr \<times> EnterpriseTarget) list" where
  "enterprise_targets url_parse [] issuers m = Ok m"
| "enterprise_targets url_parse (t # ts) issuers m =
    and_then (map_err (\<lambda>_. AuthorityError.Configuration) (EnterpriseTarget_validate url_parse t)) (\<lambda>_.
    if en_issuer t \<in> issuers \<or> map_of m (en_id t) \<noteq> None then Err AuthorityError.Configuration
    else enterprise_targets url_parse ts (insert (en_issuer t) issuers) ((en_id t, t) # m))"

definition EnterpriseConfig_new ::
  "(ustr \<Rightarrow> url_parts option) \<Rightarrow> EnterpriseTarget list \<Rightarrow> EnterpriseSigner \<Rightarrow> AuthorityError + EnterpriseConfig" where
  "EnterpriseConfig_new url_parse targets signer =
    (if targets = [] \<or> length targets > 128 then Err AuthorityError.Configuration
     else and_then (enterprise_targets url_parse targets {} []) (\<lambda>m. Ok \<lparr>ef_targets = m, ef_signer = signer\<rparr>))"

fun EnterpriseConfig_target :: "EnterpriseConfig \<Rightarrow> PlatformPurpose \<Rightarrow> AuthorityError + EnterpriseTarget option" where
  "EnterpriseConfig_target c BrowserLogin = Ok None"
| "EnterpriseConfig_target c (EnterpriseRp i) =
    (case map_of (ef_targets c) i of None \<Rightarrow> Err AuthorityError.Rejected | Some t \<Rightarrow> Ok (Some t))"

text \<open>What both halves do when no enterprise is configured.\<close>

definition purpose_target ::
  "EnterpriseConfig option \<Rightarrow> PlatformPurpose \<Rightarrow> AuthorityError \<Rightarrow> AuthorityError + EnterpriseTarget option" where
  "purpose_target enterprise purpose missing =
    (case enterprise of Some c \<Rightarrow> EnterpriseConfig_target c purpose
     | None \<Rightarrow> if purpose = BrowserLogin then Ok None else Err missing)"

record EnterpriseAssertion =
  es_target :: EnterpriseTarget
  es_expires_at :: int
  es_value :: ustr

text \<open>\<open>join(" ")\<close> over an ordered set.\<close>

fun join_with :: "ustr \<Rightarrow> ustr list \<Rightarrow> ustr" where
  "join_with sep [] = []"
| "join_with sep [x] = x"
| "join_with sep (x # y # rest) = x @ sep @ join_with sep (y # rest)"

definition assertion_claims ::
  "Libraries \<Rightarrow> EnterpriseTarget \<Rightarrow> PlatformAuthentication \<Rightarrow> uuid \<Rightarrow> int \<Rightarrow> int \<Rightarrow> EnterpriseClaims" where
  "assertion_claims L target stored jti t expires =
    (let b = pa_binding stored in
     \<lparr>el_iss = en_issuer target,
      el_sub = xl_show_uuid L (instance_uuid (pb_instance b)) @ lit ''/'' @ xl_show_tenant L (ak_tenant (pb_account b)) @ lit ''/''
        @ xl_show_uuid L (key_uuid (pb_account b)),
      el_aud = en_token_endpoint target, el_jti = xl_show_uuid L jti, el_iat = t, el_exp = expires,
      el_scope = join_with (lit '' '') (sorted_list_of_set (en_scopes target)),
      el_client_id = en_client_id target, el_rp = en_id target, el_auth_time = pa_authenticated_at stored,
      el_user_presence = pa_user_presence stored, el_user_verification = pa_user_verification stored,
      el_key_possession = True\<rparr>)"

definition issue_assertion ::
  "Libraries \<Rightarrow> EnterpriseConfig \<Rightarrow> uuid \<Rightarrow> EnterpriseTarget \<Rightarrow> PlatformAuthentication \<Rightarrow> int \<Rightarrow> int
    \<Rightarrow> MutationError + EnterpriseAssertion" where
  "issue_assertion L config jti target stored t session_expiry =
    (let expires = min (t + 30) session_expiry in
     and_then (map_err (\<lambda>_. Storage (platform_failure PlatformError.Unavailable))
       (ef_signer config (assertion_claims L target stored jti t expires))) (\<lambda>value.
     if value = [] \<or> byte_len value > 16384 then Err (Storage corrupt)
     else Ok \<lparr>es_target = target, es_expires_at = expires, es_value = value\<rparr>))"

subsection \<open>The challenge\<close>

text \<open>The authority with its enterprise configuration, and the JSON of the payload a device signs.\<close>

record PlatformService =
  pf_authority :: Authority
  pf_enterprise :: "EnterpriseConfig option"
  pf_payload :: "PlatformChallengeContext \<Rightarrow> byte list option"

abbreviation pf_libs :: "PlatformService \<Rightarrow> Libraries" where "pf_libs s \<equiv> au_libs (pf_authority s)"

record PlatformDraws =
  pw_session :: Draws
  pw_challenge :: uuid
  pw_nonce :: "byte list option"
  pw_jti :: uuid

record PlatformChallenge =
  ph_signing_payload :: "byte list"
  ph_id :: uuid
  ph_nonce :: ustr
  ph_expires_at :: int

record PlatformLogin =
  py_session :: IssuedSession
  py_assertion :: "EnterpriseAssertion option"

definition signing_payload :: "PlatformService \<Rightarrow> PlatformChallengeContext \<Rightarrow> PlatformError + byte list" where
  "signing_payload s context = ok_or PlatformError.Rejected (pf_payload s context)"

definition is_challenge :: "TenantId \<Rightarrow> uuid \<Rightarrow> challenge_row \<Rightarrow> bool" where
  "is_challenge tenant i r \<longleftrightarrow> ch_tenant r = tenant \<and> ch_challenge r = i"

text \<open>The keys and the \<open>CHECK\<close> constraints of the table.\<close>

definition challenge_admissible :: "Libraries \<Rightarrow> challenge_row \<Rightarrow> db \<Rightarrow> bool" where
  "challenge_admissible L r d \<longleftrightarrow>
    xl_purpose_size L (ch_purpose r) \<le> 512
    \<and> (case ch_target r of None \<Rightarrow> True | Some t \<Rightarrow> xl_target_size L t \<le> 8192)
    \<and> xl_binding_size L (ch_binding r) \<le> 4096 \<and> 1 \<le> byte_len (ch_audience r) \<and> byte_len (ch_audience r) \<le> 256
    \<and> length (ch_nonce_hash r) = 32 \<and> length (ch_browser_hash r) = 32
    \<and> ch_auth_epoch r > 0 \<and> ch_membership_epoch r > 0 \<and> ch_created r > 0 \<and> ch_expires r > ch_created r
    \<and> ch_expires r - ch_created r \<le> 120 \<and> ch_sequence r > 0
    \<and> \<not> list_ex (is_challenge (ch_tenant r) (ch_challenge r)) (d_challenges d)"

definition expired_challenge :: "TenantId \<Rightarrow> int \<Rightarrow> challenge_row \<Rightarrow> bool" where
  "expired_challenge tenant t r \<longleftrightarrow> ch_tenant r = tenant \<and> ch_expires r \<le> t"

definition new_challenge_row ::
  "Libraries \<Rightarrow> PlatformVerifier \<Rightarrow> PlatformBinding \<Rightarrow> AccountState \<Rightarrow> PlatformPurpose \<Rightarrow> EnterpriseTarget option
    \<Rightarrow> ustr \<Rightarrow> ustr \<Rightarrow> uuid \<Rightarrow> int \<Rightarrow> int \<Rightarrow> challenge_row" where
  "new_challenge_row L v resolved state purpose target nonce browser i t n =
    \<lparr>ch_purpose = purpose, ch_target = target, ch_tenant = ak_tenant (pb_account resolved), ch_challenge = i,
     ch_principal = key_uuid (pb_account resolved), ch_binding = resolved, ch_audience = vf_audience v,
     ch_nonce_hash = digest L nonce, ch_browser_hash = digest L browser, ch_auth_epoch = st_epoch state,
     ch_membership_epoch = st_membership_epoch state, ch_created = t, ch_expires = t + vf_challenge_seconds v,
     ch_sequence = n\<rparr>"

text \<open>The resolved binding belongs to this instance, tenant and request, and to an active account.\<close>

definition resolved_binding ::
  "PlatformService \<Rightarrow> PlatformVerifier \<Rightarrow> TenantId \<Rightarrow> uuid \<Rightarrow> (MutationError, PlatformBinding) tx" where
  "resolved_binding s v tenant binding =
    bind (widen (\<lambda>e. Storage (platform_failure e)) (vf_resolve v (au_instance (pf_authority s)) tenant binding)) (\<lambda>resolved.
    bind (require (\<not> (\<not> binding_valid resolved \<or> pb_instance resolved \<noteq> au_instance (pf_authority s)
      \<or> ak_tenant (pb_account resolved) \<noteq> tenant \<or> pb_binding_id resolved \<noteq> binding)) (Storage reject)) (\<lambda>_.
    bind (widen Storage (load (pb_account resolved))) (\<lambda>stored.
    bind (require (\<not> \<not> active (so_state stored)) (Storage reject)) (\<lambda>_.
    ret resolved))))"

definition begin_platform_body ::
  "PlatformService \<Rightarrow> PlatformDraws \<Rightarrow> PlatformVerifier \<Rightarrow> TenantId \<Rightarrow> uuid \<Rightarrow> PlatformPurpose \<Rightarrow> EnterpriseTarget option
    \<Rightarrow> ustr \<Rightarrow> (MutationError, PlatformChallenge) tx" where
  "begin_platform_body s drawn v tenant binding purpose target browser =
    (let L = pf_libs s in
    bind (widen Storage (lock_guard tenant)) (\<lambda>_.
    bind (resolved_binding s v tenant binding) (\<lambda>resolved.
    bind (widen Storage (external resolved)) (\<lambda>_.
    bind (widen (\<lambda>e. Storage (platform_failure e)) (vf_authorize_purpose v resolved purpose)) (\<lambda>_.
    bind (widen Storage (load (pb_account resolved))) (\<lambda>stored.
    bind now (\<lambda>t.
    bind (exec (\<lambda>d. d\<lparr>d_challenges := delete_first (\<lambda>_. 0::nat) 128 (expired_challenge tenant t) (d_challenges d)\<rparr>)) (\<lambda>_.
    bind (query (\<lambda>d. count_where (\<lambda>r. ch_tenant r = tenant) (d_challenges d))) (\<lambda>n.
    bind (require (\<not> n \<ge> 10000) (Storage reject)) (\<lambda>_.
    bind (lift (map_err MutationError.Federation (random_secret (xl_encode L) (pw_nonce drawn)))) (\<lambda>nonce.
    bind (widen Storage (sequence tenant)) (\<lambda>seq.
    let row = new_challenge_row L v resolved (so_state stored) purpose target nonce browser (pw_challenge drawn) t seq in
    bind (widen Storage (insert_checked (challenge_admissible L row) (\<lambda>d. d\<lparr>d_challenges := row # d_challenges d\<rparr>))) (\<lambda>_.
    bind (lift (map_err (\<lambda>e. Storage (platform_failure e)) (signing_payload s
      \<lparr>pc_purpose = purpose, pc_binding = resolved, pc_audience = vf_audience v, pc_nonce = nonce,
       pc_created_at = t, pc_expires_at = t + vf_challenge_seconds v\<rparr>))) (\<lambda>payload.
    ret \<lparr>ph_signing_payload = payload, ph_id = pw_challenge drawn, ph_nonce = nonce,
         ph_expires_at = t + vf_challenge_seconds v\<rparr>))))))))))))))"

definition begin_platform_login ::
  "PlatformService \<Rightarrow> PlatformDraws \<Rightarrow> TenantId \<Rightarrow> uuid \<Rightarrow> PlatformPurpose \<Rightarrow> ustr \<Rightarrow> AttemptSource \<Rightarrow> int
    \<Rightarrow> PlatformChallenge op" where
  "begin_platform_login s drawn tenant binding purpose browser source deadline =
    (let a = pf_authority s in
    op_bind (op_lift (require_runtime a)) (\<lambda>_.
    op_bind (op_lift (check_browser browser)) (\<lambda>_.
    op_bind (op_lift (ok_or AuthorityError.Configuration (sc_platform (au_checks a)))) (\<lambda>v.
    op_bind (op_require (\<not> (vf_audience v = [] \<or> byte_len (vf_audience v) > 256
      \<or> \<not> (1 \<le> vf_challenge_seconds v \<and> vf_challenge_seconds v \<le> 120) \<or> binding = uuid_nil)) AuthorityError.Configuration) (\<lambda>_.
    op_bind (Budget_new deadline) (\<lambda>budget.
    op_bind (Budget_remaining budget) (\<lambda>timeout.
    op_bind (reserve (au_bundle a) tenant (lit ''platform:'' @ xl_show_uuid (pf_libs s) binding) source timeout) (\<lambda>_.
    op_bind (op_lift (purpose_target (pf_enterprise s) purpose AuthorityError.Configuration)) (\<lambda>target.
    op_bind (Budget_remaining budget) (\<lambda>timeout.
    read_sql (au_bundle a) tenant timeout (begin_platform_body s drawn v tenant binding purpose target browser)))))))))))"

subsection \<open>The completion\<close>

definition challenge :: "TenantId \<Rightarrow> uuid \<Rightarrow> byte list \<Rightarrow> byte list \<Rightarrow> (MutationError, challenge_row) tx" where
  "challenge tenant i nonce browser =
    bind (query (\<lambda>d. find (is_challenge tenant i) (d_challenges d))) (\<lambda>row.
    bind (lift (ok_or (Storage reject) row)) (\<lambda>r.
    bind now (\<lambda>t.
    bind (require (\<not> (ch_nonce_hash r \<noteq> nonce \<or> ch_browser_hash r \<noteq> browser \<or> t < ch_created r \<or> t \<ge> ch_expires r))
      (Storage reject)) (\<lambda>_.
    ret r))))"

definition challenge_context_body ::
  "TenantId \<Rightarrow> uuid \<Rightarrow> byte list \<Rightarrow> byte list \<Rightarrow> ustr \<Rightarrow> (MutationError, PlatformChallengeContext) tx" where
  "challenge_context_body tenant i nonce_hash browser_hash nonce =
    bind (widen Storage (lock_guard tenant)) (\<lambda>_.
    bind (challenge tenant i nonce_hash browser_hash) (\<lambda>r.
    ret \<lparr>pc_purpose = ch_purpose r, pc_binding = ch_binding r, pc_audience = ch_audience r, pc_nonce = nonce,
         pc_created_at = ch_created r, pc_expires_at = ch_expires r\<rparr>))"

fun verify_failure :: "PlatformError \<Rightarrow> AuthorityError" where
  "verify_failure PlatformError.Rejected = AuthorityError.Rejected"
| "verify_failure PlatformError.Unavailable = AuthorityError.Unavailable"
| "verify_failure PlatformError.InteractionRequired = AuthorityError.InteractionRequired"
| "verify_failure PlatformError.Cancelled = AuthorityError.Cancelled"

text \<open>The verifier judges the evidence within the budget; what ran out of time is \<open>None\<close>.\<close>

definition verify_evidence ::
  "PlatformVerifier \<Rightarrow> instant \<Rightarrow> PlatformChallengeContext \<Rightarrow> byte list \<Rightarrow> PlatformEvidence op" where
  "verify_evidence v budget context evidence w =
    ((case vf_verify v context evidence budget w of None \<Rightarrow> Err AuthorityError.DeadlineElapsed
      | Some r \<Rightarrow> map_err verify_failure r), w)"

definition authentication_of :: "PlatformChallengeContext \<Rightarrow> PlatformEvidence \<Rightarrow> PlatformAuthentication" where
  "authentication_of context verified =
    \<lparr>pa_binding = pc_binding context, pa_audience = pc_audience context, pa_authenticated_at = ev_authenticated_at verified,
     pa_hardware_key = ev_hardware_key verified, pa_user_presence = ev_user_presence verified,
     pa_user_verification = ev_user_verification verified\<rparr>"

text \<open>The profile the verifier reports, checked against the identity of the binding.\<close>

definition platform_observation ::
  "Libraries \<Rightarrow> TenantId \<Rightarrow> AccountKey \<Rightarrow> PlatformBinding \<Rightarrow> PlatformChallengeContext \<Rightarrow> PlatformProfile \<Rightarrow> int \<Rightarrow> int
    \<Rightarrow> (MutationError, Observation option) tx" where
  "platform_observation L tenant key actual context profile seq t =
    (case profile of
       PlatformProfile.Unavailable \<Rightarrow> ret None
     | PlatformProfile.IdentityLocal \<Rightarrow> bind (widen Storage (local_observation L key t)) (\<lambda>v. ret (Some v))
     | PlatformProfile.Idp p claims \<Rightarrow>
         bind (lift (ok_or (Storage reject) (pb_external_identity actual))) (\<lambda>ext.
         bind (require (\<not> (p \<noteq> eb_provider ext \<or> uc_issued_at claims < saturating_sub (pc_created_at context) 30))
           (Storage reject)) (\<lambda>_.
         bind (widen Storage (provider L tenant p)) (\<lambda>view.
         bind (widen Storage (identity tenant (eb_identity_id ext))) (\<lambda>(_, issuer, subject).
         bind (require (\<not> (uc_issuer claims \<noteq> issuer \<or> storage_key (xl_show_uuid L) (uc_subject claims) \<noteq> subject))
           (Storage reject)) (\<lambda>_.
         ret (Some (oidc_observation claims view seq))))))))"

text \<open>Everything the settlement compares before it issues: the stored challenge, the account's epochs,
  the device by the verifier, the purpose and its target, and the time of the proof.\<close>

definition admitted_challenge ::
  "PlatformService \<Rightarrow> PlatformVerifier \<Rightarrow> TenantId \<Rightarrow> uuid \<Rightarrow> byte list \<Rightarrow> byte list \<Rightarrow> PlatformChallengeContext
    \<Rightarrow> PlatformAuthentication \<Rightarrow> (MutationError, challenge_row \<times> AccountState \<times> EnterpriseTarget option \<times> int) tx" where
  "admitted_challenge s v tenant i nonce_hash browser_hash context stored =
    bind (widen Storage (lock_guard tenant)) (\<lambda>_.
    bind (challenge tenant i nonce_hash browser_hash) (\<lambda>r.
    bind (require (\<not> (ch_binding r \<noteq> pa_binding stored \<or> ch_audience r \<noteq> pa_audience stored)) (Storage reject)) (\<lambda>_.
    let key = pb_account (ch_binding r) in
    bind (widen Storage (load key)) (\<lambda>so.
    bind (require (\<not> (\<not> active (so_state so) \<or> st_epoch (so_state so) \<noteq> ch_auth_epoch r
      \<or> st_membership_epoch (so_state so) \<noteq> ch_membership_epoch r)) (Storage reject)) (\<lambda>_.
    bind (widen Storage (platform_recheck key stored (au_checks (pf_authority s)))) (\<lambda>_.
    bind (require (\<not> ch_purpose r \<noteq> pc_purpose context) (Storage reject)) (\<lambda>_.
    bind (widen (\<lambda>e. Storage (platform_failure e)) (vf_authorize_purpose v (ch_binding r) (ch_purpose r))) (\<lambda>_.
    bind (lift (map_err (\<lambda>_. Storage reject) (purpose_target (pf_enterprise s) (ch_purpose r) AuthorityError.Rejected))) (\<lambda>target.
    bind (require (\<not> ch_target r \<noteq> target) (Storage reject)) (\<lambda>_.
    bind now (\<lambda>t.
    bind (require (\<not> (case pa_authenticated_at stored of None \<Rightarrow> False
      | Some at \<Rightarrow> at < saturating_sub (pc_created_at context) 30 \<or> at > t)) (Storage reject)) (\<lambda>_.
    ret (r, so_state so, target, t)))))))))))))"

definition platform_assertion ::
  "PlatformService \<Rightarrow> PlatformDraws \<Rightarrow> EnterpriseTarget option \<Rightarrow> PlatformAuthentication \<Rightarrow> int \<Rightarrow> IssuedSession
    \<Rightarrow> MutationError + EnterpriseAssertion option" where
  "platform_assertion s drawn target stored t issued =
    (case target of None \<Rightarrow> Ok None
     | Some x \<Rightarrow>
         and_then (ok_or (Storage reject) (pf_enterprise s)) (\<lambda>config.
         and_then (issue_assertion (pf_libs s) config (pw_jti drawn) x stored t
           (min (sv_absolute_expires_at (is_view issued)) (sv_idle_expires_at (is_view issued)))) (\<lambda>a. Ok (Some a))))"

definition platform_profile ::
  "PlatformService \<Rightarrow> PlatformDraws \<Rightarrow> AccountKey \<Rightarrow> IssuedSession \<Rightarrow> Observation option
    \<Rightarrow> (MutationError, SecurityEvent option) tx" where
  "platform_profile s drawn key issued seen =
    (case seen of None \<Rightarrow> ret None
     | Some v \<Rightarrow> widen Storage (accept (pf_libs s) (dr_snapshot (pw_session drawn)) key (sv_id (is_view issued))
         (sv_absolute_expires_at (is_view issued)) v (au_limits (pf_authority s))))"

definition complete_platform_body ::
  "PlatformService \<Rightarrow> PlatformDraws \<Rightarrow> PlatformVerifier \<Rightarrow> TenantId \<Rightarrow> uuid \<Rightarrow> byte list \<Rightarrow> byte list
    \<Rightarrow> PlatformChallengeContext \<Rightarrow> PlatformAuthentication \<Rightarrow> PlatformProfile
    \<Rightarrow> (MutationError, PlatformLogin \<times> SecurityEvent list) tx" where
  "complete_platform_body s drawn v tenant i nonce_hash browser_hash context stored profile =
    (let L = pf_libs s; a = pf_authority s in
    bind (admitted_challenge s v tenant i nonce_hash browser_hash context stored) (\<lambda>(r, state, target, t).
    let actual = ch_binding r; key = pb_account actual in
    bind (platform_observation L tenant key actual context profile (ch_sequence r) t) (\<lambda>seen.
    bind (widen Storage (insert_session L (pw_session drawn) state None (SessionAuthentication.Platform stored) t
      (au_session_policy a) Cookie)) (\<lambda>(issued, event).
    bind (lift (platform_assertion s drawn target stored t issued)) (\<lambda>assertion.
    bind (platform_profile s drawn key issued seen) (\<lambda>accepted.
    bind now (\<lambda>t'.
    bind (require (\<not> t' \<ge> ch_expires r) (Storage reject)) (\<lambda>_.
    bind (exec (\<lambda>d. d\<lparr>d_challenges := delete_where (is_challenge tenant i) (d_challenges d)\<rparr>)) (\<lambda>_.
    ret (\<lparr>py_session = issued, py_assertion = assertion\<rparr>,
         event # (case accepted of None \<Rightarrow> [] | Some e \<Rightarrow> [e])))))))))))"

definition complete_platform_login ::
  "PlatformService \<Rightarrow> PlatformDraws \<Rightarrow> TenantId \<Rightarrow> uuid \<Rightarrow> ustr \<Rightarrow> ustr \<Rightarrow> byte list \<Rightarrow> int \<Rightarrow> PlatformLogin op" where
  "complete_platform_login s drawn tenant i nonce browser evidence deadline =
    (let a = pf_authority s; L = pf_libs s; nonce_hash = digest L nonce; browser_hash = digest L browser in
    op_bind (op_lift (require_runtime a)) (\<lambda>_.
    op_bind (op_lift (check_browser browser)) (\<lambda>_.
    op_bind (op_require (\<not> (byte_len nonce \<noteq> 43 \<or> evidence = [] \<or> length evidence > 65536 \<or> i = uuid_nil))
      AuthorityError.InvalidInput) (\<lambda>_.
    op_bind (Budget_new deadline) (\<lambda>budget.
    op_bind (op_lift (ok_or AuthorityError.Configuration (sc_platform (au_checks a)))) (\<lambda>v.
    op_bind (Budget_remaining budget) (\<lambda>timeout.
    op_bind (read_sql (au_bundle a) tenant timeout (challenge_context_body tenant i nonce_hash browser_hash nonce)) (\<lambda>context.
    op_bind (verify_evidence v budget context evidence) (\<lambda>verified.
    op_bind (op_require (\<not> (\<not> ev_key_possession verified \<or> ev_authenticated_at verified \<noteq> None \<and> \<not> ev_user_verification verified))
      AuthorityError.Rejected) (\<lambda>_.
    op_bind (Budget_remaining budget) (\<lambda>timeout.
    write_sql (au_bundle a) tenant timeout (dr_events (pw_session drawn))
      (complete_platform_body s drawn v tenant i nonce_hash browser_hash context (authentication_of context verified)
        (ev_profile verified)))))))))))))"

end
