(* ===== verification/Platform_Life.thy ===== *)
theory Platform_Life
  imports Platform_Login Platform_Admission Login_Sound
begin

section \<open>What platform logins guarantee\<close>

subsection \<open>Native registrations\<close>

lemma admit_platform_subject_Inr:
  assumes "admit_platform_subject_on c i b expected w = Inr (v, w')"
  shows "hc_in_transaction c \<and> hc_scope c = Some (ak_tenant (pb_account b)) \<and> binding_valid b \<and> pb_instance b = i
    \<and> d_authority (w_db w) = instance_uuid i \<and> subject_epochs (pb_account b) (w_db w) = Some (pz_auth_epoch v, pz_membership_epoch v)
    \<and> (expected = None \<or> expected = Some v) \<and> w_db w' = w_db w"
  using assms unfolding admit_platform_subject_on_def Let_def
  by (elim bindE) (auto elim!: bindE dest!: external_valid_reads split: option.splits prod.splits simp del: not_None_eq)

lemma subject_epochs_account:
  "subject_epochs key d = Some (n, m) \<Longrightarrow> account_of d key = Some s \<Longrightarrow> n = st_epoch s \<and> m = st_membership_epoch s \<and> active s"
  by (auto simp: subject_epochs_def account_of_def stored_of_def join_account_def decode_account_Ok active_def
      split: option.splits sum.splits if_splits)

text \<open>C30: A native registration of a platform is never revived. The version a host stored when a
  subject was admitted is the account's present epochs; once the account has changed (disabled and
  enabled again, its membership ended and restored, its password changed, its sessions revoked, a
  recovery; however often), no admission that presents the stored version succeeds any more,
  whatever binding of the account and whatever connection it is made with.\<close>

theorem registration_never_revived:
  assumes "admit_platform_subject_on c i b expected w = Inr (v, w1)"
    and "account_of (w_db w) (pb_account b) = Some s" and "account_step\<^sup>+\<^sup>+ s s'"
    and "account_of (w_db w2) (pb_account b) = Some s'" and "pb_account b' = pb_account b"
  shows "pz_auth_epoch v = st_epoch s \<and> active s \<and> \<not> is_ok (admit_platform_subject_on c' i' b' (Some v) w2)"
proof -
  from admit_platform_subject_Inr [OF assms(1)] assms(2) have v: "pz_auth_epoch v = st_epoch s" "active s"
    by (auto dest: subject_epochs_account)
  have "admit_platform_subject_on c' i' b' (Some v) w2 \<noteq> Inr (v', w3)" for v' w3
  proof
    assume "admit_platform_subject_on c' i' b' (Some v) w2 = Inr (v', w3)"
    from admit_platform_subject_Inr [OF this] assms(4,5) have "pz_auth_epoch v = st_epoch s'"
      by (auto dest: subject_epochs_account)
    with v account.run_gen [OF assms(3)] show False by simp
  qed
  with v show ?thesis by (auto simp: is_ok_iff)
qed

subsection \<open>The parts of a completion\<close>

lemma challenges_frames:
  "keeps (same d_challenges) (load key)" "keeps (same d_challenges) (external b)" "keeps (same d_challenges) (sequence tenant)"
  "keeps (same d_challenges) (provider L tenant p)" "keeps (same d_challenges) (identity tenant j)"
  "keeps (same d_challenges) (close key sid t)" "keeps (same d_challenges) (local_observation L key t)"
proof -
  show sq: "keeps (same d_challenges) (sequence tenant)" for tenant
    by (rule keepsI) (auto simp: same_def dest: sequence_Inr)
  show "keeps (same d_challenges) (close key sid t)"
    unfolding close_def write_session_def by (intro frame.steps keeps_insert_checked; simp add: same_def)
  show "keeps (same d_challenges) (local_observation L key t)"
    unfolding local_observation_def by (intro frame.steps sq)
  show "keeps (same d_challenges) (external b)"
    unfolding external_def external_valid_def by (intro frame.steps)
qed (intro store_reads load_reads; simp add: same_def)+

lemma insert_session_challenges: "keeps (same d_challenges) (insert_session L dr state replaced authentication t policy kind)"
  unfolding insert_session_def Let_def IssuedSession_new_def
  by (intro frame.steps challenges_frames keeps_insert_checked) (simp add: same_def)

lemma accept_challenges: "keeps (same d_challenges) (accept L snapshot key session absolute v limits)"
  unfolding accept_def store_observation_def put_observation_def bind_profile_def Let_def
  by (intro frame.steps keeps_insert_checked keeps_exec) (auto simp: same_def)

lemma challenge_reads: "reads_only (challenge tenant i nonce browser)"
  unfolding challenge_def by (intro pure.steps)

lemma challenge_Inr:
  assumes "challenge tenant i nonce browser w = Inr (r, w')"
  shows "find (is_challenge tenant i) (d_challenges (w_db w)) = Some r \<and> ch_nonce_hash r = nonce \<and> ch_browser_hash r = browser
    \<and> ch_created r \<le> w_micros w (w_tick w) div 1000000 \<and> w_micros w (w_tick w) div 1000000 < ch_expires r
    \<and> w' = w\<lparr>w_tick := Suc (w_tick w)\<rparr>"
  using assms by (auto simp: challenge_def tx_simps)

lemma platform_observation_frames:
  "keeps (same d_challenges) (platform_observation L tenant key actual context profile seq t)"
  unfolding platform_observation_def by (cases profile) (simp only: PlatformProfile.case, intro frame.steps challenges_frames)+

lemma platform_observation_sessions:
  assumes "platform_observation L tenant key actual context profile seq t w = Inr (x, w')"
  shows "d_sessions (w_db w') = d_sessions (w_db w)"
  using assms unfolding platform_observation_def
  by (auto simp: tx_simps split: PlatformProfile.splits option.splits prod.splits dest!: local_observation_Inr)

text \<open>What the settlement admitted.\<close>

lemma admitted_challenge_Inr:
  assumes contracts: "checks_contract (au_checks (pf_authority s))" "verifier_contract v"
    and run: "admitted_challenge s v tenant i nonce_hash browser_hash context stored w = Inr ((r, state, target, t), w')"
  shows "find (is_challenge tenant i) (d_challenges (w_db w)) = Some r
    \<and> ch_nonce_hash r = nonce_hash \<and> ch_browser_hash r = browser_hash
    \<and> ch_binding r = pa_binding stored \<and> ch_audience r = pa_audience stored
    \<and> account_of (w_db w) (pb_account (ch_binding r)) = Some state \<and> active state
    \<and> st_epoch state = ch_auth_epoch r \<and> st_membership_epoch state = ch_membership_epoch r
    \<and> ch_purpose r = pc_purpose context \<and> ch_target r = target
    \<and> (case pa_authenticated_at stored of None \<Rightarrow> True | Some at \<Rightarrow> saturating_sub (pc_created_at context) 30 \<le> at \<and> at \<le> t)
    \<and> (\<exists>checker w1 w2. sc_platform (au_checks (pf_authority s)) = Some checker \<and> vf_audience checker = ch_audience r
        \<and> w_db w1 = w_db w \<and> vf_recheck checker (ch_binding r) w1 = Inr ((), w2))
    \<and> (\<exists>w1 w2. w_db w1 = w_db w \<and> vf_authorize_purpose v (ch_binding r) (ch_purpose r) w1 = Inr ((), w2))
    \<and> w_db w' = w_db w"
proof -
  let ?key = "pb_account (ch_binding r)" and ?checks = "au_checks (pf_authority s)"
  from run obtain w1 w2 w3 w4 so where
    c: "challenge tenant i nonce_hash browser_hash w = Inr (r, w1)"
    and b: "ch_binding r = pa_binding stored" "ch_audience r = pa_audience stored"
    and l: "load ?key w1 = Inr (so, w1)" and so: "state = so_state so" "active state" "st_epoch state = ch_auth_epoch r"
      "st_membership_epoch state = ch_membership_epoch r"
    and rc: "platform_recheck ?key stored ?checks w1 = Inr ((), w2)"
    and pu: "ch_purpose r = pc_purpose context"
    and ap: "vf_authorize_purpose v (ch_binding r) (ch_purpose r) w2 = Inr ((), w3)"
    and tg: "ch_target r = target"
    and at: "case pa_authenticated_at stored of None \<Rightarrow> True | Some at \<Rightarrow> saturating_sub (pc_created_at context) 30 \<le> at \<and> at \<le> t"
    and w': "w_db w' = w_db w3"
    unfolding admitted_challenge_def Let_def
    by (elim bindE) (auto simp: load_Inr not_less not_le elim!: bindE split: option.splits simp del: not_None_eq)
  note ch = challenge_Inr [OF c]
  have db1: "w_db w1 = w_db w" using ch by simp
  obtain checker where k: "sc_platform ?checks = Some checker" "vf_audience checker = pa_audience stored"
      "vf_recheck checker (pa_binding stored) w1 = Inr ((), w2)"
    by (rule platform_recheck_Inr [OF rc], intro that)
  have db2: "w_db w2 = w_db w1" using reads_onlyD [OF platform_recheck_reads [OF contracts(1)] rc] .
  have "reads_only (vf_authorize_purpose v (ch_binding r) (ch_purpose r))" using contracts(2) by (simp add: verifier_contract_def)
  from reads_onlyD [OF this ap] db2 db1 have db3: "w_db w3 = w_db w" by simp
  from load_state [OF l] so db1 have acc: "account_of (w_db w) ?key = Some state" by simp
  have "\<exists>checker u u'. sc_platform ?checks = Some checker \<and> vf_audience checker = ch_audience r
      \<and> w_db u = w_db w \<and> vf_recheck checker (ch_binding r) u = Inr ((), u')"
    using k db1 b by (intro exI conjI) simp_all
  moreover have "\<exists>u u'. w_db u = w_db w \<and> vf_authorize_purpose v (ch_binding r) (ch_purpose r) u = Inr ((), u')"
    using ap db1 db2 by (intro exI conjI) simp_all
  moreover have "w_db w' = w_db w" using w' db3 by simp
  ultimately show ?thesis
    using ch b so(2-4) pu tg at acc by (intro conjI) simp_all
qed

text \<open>A completion, in parts: what was admitted, the new row, the assertion, the end of the challenge.\<close>

definition stands_for ::
  "Libraries \<Rightarrow> SessionSecret \<Rightarrow> SessionId \<Rightarrow> AccountState \<Rightarrow> PlatformAuthentication \<Rightarrow> session_row \<Rightarrow> bool" where
  "stands_for L secret sid state stored r \<longleftrightarrow>
    is_session (ak_tenant (st_key state)) sid r \<and> se_principal r = key_uuid (st_key state)
    \<and> se_hash r = SessionSecret_digest (xl_sha256 L) secret \<and> se_auth_epoch r = st_epoch state
    \<and> se_membership_epoch r = st_membership_epoch state \<and> se_platform r = Some stored \<and> se_identity r = None
    \<and> se_revoked r = None"

lemma platform_presented:
  "present (SessionAuthentication.Platform stored) t Cookie = Inr p \<Longrightarrow> pr_platform p = Some stored \<and> pr_origin p = None"
  by (auto simp: present_def and_then_Inr_iff)

lemma issued_stands_for:
  "pr_platform p = Some stored \<Longrightarrow> pr_origin p = None \<Longrightarrow>
    stands_for L (SessionSecret (hex bytes)) (SessionId (dr_session dr)) state stored
      (with_profile x y (issued_row L dr state p facts lifetime Cookie (SessionSecret (hex bytes))))"
  by (simp add: stands_for_def issued_row_def with_profile_def is_session_def)

lemma platform_assertion_Inr:
  assumes "platform_assertion s drawn target stored t issued = Inr a"
  shows "case a of None \<Rightarrow> target = None
    | Some x \<Rightarrow> target = Some (es_target x) \<and> es_value x \<noteq> [] \<and> es_expires_at x \<le> t + 30
        \<and> es_expires_at x \<le> sv_absolute_expires_at (is_view issued) \<and> es_expires_at x \<le> sv_idle_expires_at (is_view issued)"
  using assms
  by (cases target; cases "pf_enterprise s")
    (auto simp: platform_assertion_def issue_assertion_def Let_def and_then_Inr_iff split: if_splits)

lemma admitted_challenge_reads:
  assumes "checks_contract (au_checks (pf_authority s))" "verifier_contract v"
  shows "reads_only (admitted_challenge s v tenant i nonce_hash browser_hash context stored)"
proof -
  have "reads_only (vf_authorize_purpose v b p)" for b p using assms(2) by (simp add: verifier_contract_def)
  then show ?thesis
    unfolding admitted_challenge_def Let_def
    by (intro pure.steps challenge_reads load_reads platform_recheck_reads assms) simp_all
qed

lemma complete_platform_Inr:
  assumes run: "complete_platform_body s drawn v tenant i nonce_hash browser_hash context stored profile w = Inr ((login, events), w')"
  shows "\<exists>r state target t w1 w2 issued event w3 a o1 accepted w4.
    admitted_challenge s v tenant i nonce_hash browser_hash context stored w = Inr ((r, state, target, t), w1)
    \<and> platform_observation (pf_libs s) tenant (pb_account (ch_binding r)) (ch_binding r) context profile (ch_sequence r) t w1 = Inr (o1, w2)
    \<and> insert_session (pf_libs s) (pw_session drawn) state None (SessionAuthentication.Platform stored) t
        (au_session_policy (pf_authority s)) Cookie w2 = Inr ((issued, event), w3)
    \<and> platform_assertion s drawn target stored t issued = Inr a
    \<and> platform_profile s drawn (pb_account (ch_binding r)) issued o1 w3 = Inr (accepted, w4)
    \<and> w_db w' = (w_db w4)\<lparr>d_challenges := delete_where (is_challenge tenant i) (d_challenges (w_db w4))\<rparr>
    \<and> login = \<lparr>py_session = issued, py_assertion = a\<rparr>"
proof -
  from run obtain r state target t w1 w2 issued event w3 a o1 accepted w4 where
    parts: "admitted_challenge s v tenant i nonce_hash browser_hash context stored w = Inr ((r, state, target, t), w1)"
      "platform_observation (pf_libs s) tenant (pb_account (ch_binding r)) (ch_binding r) context profile (ch_sequence r) t w1 = Inr (o1, w2)"
      "insert_session (pf_libs s) (pw_session drawn) state None (SessionAuthentication.Platform stored) t
        (au_session_policy (pf_authority s)) Cookie w2 = Inr ((issued, event), w3)"
      "platform_assertion s drawn target stored t issued = Inr a"
      "platform_profile s drawn (pb_account (ch_binding r)) issued o1 w3 = Inr (accepted, w4)"
      "w_db w' = (w_db w4)\<lparr>d_challenges := delete_where (is_challenge tenant i) (d_challenges (w_db w4))\<rparr>"
      "login = \<lparr>py_session = issued, py_assertion = a\<rparr>"
    unfolding complete_platform_body_def Let_def
    by (elim bindE) (auto elim!: bindE split: prod.splits simp del: not_None_eq)
  then show ?thesis by blast
qed

subsection \<open>A challenge is answered once\<close>

text \<open>What devices and their browsers send over time.\<close>

datatype challenge_request =
    BeginPlatform PlatformDraws PlatformVerifier TenantId uuid PlatformPurpose "EnterpriseTarget option" ustr
  | CompletePlatform PlatformDraws PlatformVerifier TenantId uuid "byte list" "byte list" PlatformChallengeContext
      PlatformAuthentication PlatformProfile

fun challenge_body :: "PlatformService \<Rightarrow> challenge_request \<Rightarrow> (MutationError, bool) tx" where
  "challenge_body s (BeginPlatform drawn v tenant binding purpose target browser) =
    completed (begin_platform_body s drawn v tenant binding purpose target browser)"
| "challenge_body s (CompletePlatform drawn v tenant i nonce browser context stored profile) =
    completed (complete_platform_body s drawn v tenant i nonce browser context stored profile)"

definition waiting :: "TenantId \<Rightarrow> uuid \<Rightarrow> db \<Rightarrow> bool" where
  "waiting tenant i d \<longleftrightarrow> list_ex (is_challenge tenant i) (d_challenges d)"

fun answers_challenge :: "TenantId \<Rightarrow> uuid \<Rightarrow> challenge_request \<Rightarrow> bool" where
  "answers_challenge tenant i (CompletePlatform _ _ t j _ _ _ _ _) \<longleftrightarrow> t = tenant \<and> j = i"
| "answers_challenge tenant i _ \<longleftrightarrow> False"

text \<open>A begin stores the challenge when the random generator draws its identifier.\<close>

fun stores_challenge :: "TenantId \<Rightarrow> uuid \<Rightarrow> challenge_request \<Rightarrow> bool" where
  "stores_challenge tenant i (BeginPlatform drawn _ _ _ _ _ _) \<longleftrightarrow> pw_challenge drawn = i"
| "stores_challenge tenant i _ \<longleftrightarrow> False"

fun verified_by_contract :: "challenge_request \<Rightarrow> bool" where
  "verified_by_contract (BeginPlatform _ v _ _ _ _ _) \<longleftrightarrow> verifier_contract v"
| "verified_by_contract (CompletePlatform _ v _ _ _ _ _ _ _) \<longleftrightarrow> verifier_contract v"

abbreviation answered :: "TenantId \<Rightarrow> uuid \<Rightarrow> db \<Rightarrow> db \<Rightarrow> bool" where
  "answered tenant i \<equiv> maintains (\<lambda>d. \<not> waiting tenant i d)"

lemma same_answered: "keeps (same d_challenges) m \<Longrightarrow> keeps (answered tenant i) m"
  by (rule keepsI) (auto simp: same_def maintains_def waiting_def dest: keepsD)

lemma begin_platform_answered:
  assumes "verifier_contract v" "pw_challenge drawn \<noteq> i"
  shows "keeps (answered tenant i) (begin_platform_body s drawn v t binding purpose target browser)"
proof -
  have host: "keeps (answered tenant i) (vf_resolve v a b c)" "keeps (answered tenant i) (vf_authorize_purpose v e p)" for a b c e p
    using assms(1) by (auto simp: verifier_contract_def intro!: same_answered same_reads)
  have ins: "keeps (answered tenant i) (insert_checked g (\<lambda>d. d\<lparr>d_challenges := row # d_challenges d\<rparr>))"
    if "ch_challenge row \<noteq> i" for g row
    by (rule keeps_insert_checked) (use that in \<open>simp add: maintains_def waiting_def is_challenge_def\<close>)
  have del: "keeps (answered tenant i) (exec (\<lambda>d. d\<lparr>d_challenges := delete_first k n p (d_challenges d)\<rparr>))" for k :: "challenge_row \<Rightarrow> nat" and n p
    by (rule keeps_exec) (use set_delete_first_subset in \<open>fastforce simp: maintains_def waiting_def list_ex_iff\<close>)
  show ?thesis
    unfolding begin_platform_body_def resolved_binding_def Let_def
    by (intro invariant.steps host del ins challenges_frames [THEN same_answered])
      (use assms(2) in \<open>simp add: new_challenge_row_def\<close>)
qed

lemma complete_platform_challenges:
  assumes "checks_contract (au_checks (pf_authority s))" "verifier_contract v"
    and run: "complete_platform_body s drawn v tenant i nonce_hash browser_hash context stored profile w = Inr ((login, events), w')"
  shows "waiting tenant i (w_db w) \<and> d_challenges (w_db w') = delete_where (is_challenge tenant i) (d_challenges (w_db w))"
proof -
  from complete_platform_Inr [OF run] obtain r state target t w1 w2 issued event w3 a seen accepted w4 where
    ad: "admitted_challenge s v tenant i nonce_hash browser_hash context stored w = Inr ((r, state, target, t), w1)"
    and ob: "platform_observation (pf_libs s) tenant (pb_account (ch_binding r)) (ch_binding r) context profile (ch_sequence r) t w1 = Inr (seen, w2)"
    and ins: "insert_session (pf_libs s) (pw_session drawn) state None (SessionAuthentication.Platform stored) t
        (au_session_policy (pf_authority s)) Cookie w2 = Inr ((issued, event), w3)"
    and pr: "platform_profile s drawn (pb_account (ch_binding r)) issued seen w3 = Inr (accepted, w4)"
    and w': "w_db w' = (w_db w4)\<lparr>d_challenges := delete_where (is_challenge tenant i) (d_challenges (w_db w4))\<rparr>" by blast
  have "keeps (same d_challenges) (platform_profile s drawn (pb_account (ch_binding r)) issued seen)"
    unfolding platform_profile_def by (intro frame.steps accept_challenges)
  from keepsD [OF this pr] keepsD [OF insert_session_challenges ins] keepsD [OF platform_observation_frames ob]
    reads_onlyD [OF admitted_challenge_reads [OF assms(1,2)] ad]
  have "d_challenges (w_db w4) = d_challenges (w_db w)" by (simp add: same_def)
  with w' admitted_challenge_Inr [OF assms(1,2) ad] show ?thesis
    by (auto simp: waiting_def list_ex_iff dest: find_SomeD)
qed

interpretation challenges: one_use "challenge_body s" "waiting tenant i" "answers_challenge tenant i" "stores_challenge tenant i"
    "\<lambda>q. verified_by_contract q \<and> checks_contract (au_checks (pf_authority s))"
  for s tenant i
proof unfold_locales
  fix q w w'
  assume "verified_by_contract q \<and> checks_contract (au_checks (pf_authority s))" "answers_challenge tenant i q"
    and "challenge_body s q w = Inr (True, w')"
  then show "waiting tenant i (w_db w) \<and> \<not> waiting tenant i (w_db w')"
    by (cases q) (auto simp: completed_def tx_simps waiting_def list_ex_iff delete_where_def
        dest!: complete_platform_challenges [rotated 2])
next
  fix q w ok w'
  assume ad: "verified_by_contract q \<and> checks_contract (au_checks (pf_authority s))" and no: "\<not> stores_challenge tenant i q"
    and run: "challenge_body s q w = Inr (ok, w')" and gone: "\<not> waiting tenant i (w_db w)"
  show "\<not> waiting tenant i (w_db w')"
  proof (cases q)
    case (BeginPlatform drawn v t b p g br)
    with ad no have "keeps (answered tenant i) (challenge_body s q)"
      by (auto simp: completed_def intro!: invariant.bind invariant.ret begin_platform_answered)
    from keepsD [OF this run] gone show ?thesis by (simp add: maintains_def)
  next
    case (CompletePlatform drawn v t j n br cx st pr)
    with ad run gone show ?thesis
      by (auto simp: completed_def tx_simps waiting_def list_ex_iff delete_where_def dest!: complete_platform_challenges [rotated 2])
  qed
qed

text \<open>C29: A platform challenge is answered at most once. Whatever begins and completions devices send
  over time, in whatever order, with whatever evidence and with whatever failures in between, at
  most one completion of a given challenge gets a session, unless the random generator draws the
  identifier of that challenge again.\<close>

theorem platform_challenge_once:
  assumes "checks_contract (au_checks (pf_authority s))"
    and "list_all (\<lambda>q. verified_by_contract q \<and> \<not> stores_challenge tenant i q) qs"
  shows "length (filter (\<lambda>(q, ok). answers_challenge tenant i q \<and> ok) (fst (serve (challenge_body s) qs w))) \<le> 1"
  using assms by (intro challenges.at_most_once) (simp add: list_all_iff)

subsection \<open>What a completed login stands for\<close>

lemma platform_profile_row:
  assumes "platform_profile s drawn key issued seen w = Inr (accepted, w')"
    and "sv_id (is_view issued) = SessionId (se_session row)"
    and "d_sessions (w_db w) = row # d_sessions d" "session_admissible (pf_libs s) row d" "se_tenant row = ak_tenant key"
  shows "\<exists>x y. d_sessions (w_db w') = with_profile x y row # d_sessions d"
proof (cases seen)
  case None
  have "with_profile (se_profile_source row) (se_profile_snapshot row) row = row" by (simp add: with_profile_def)
  then have "d_sessions (w_db w') = with_profile (se_profile_source row) (se_profile_snapshot row) row # d_sessions d"
    using None assms(1,3) by (simp add: platform_profile_def ret_def)
  then show ?thesis by blast
next
  case (Some v)
  with assms(1,2) have "accept (pf_libs s) (dr_snapshot (pw_session drawn)) key (SessionId (se_session row))
      (sv_absolute_expires_at (is_view issued)) v (au_limits (pf_authority s)) w = Inr (accepted, w')"
    by (simp add: platform_profile_def)
  from accept_row [OF this assms(3-5)] show ?thesis .
qed

lemma platform_issue:
  assumes ins: "insert_session (pf_libs s) (pw_session drawn) state None (SessionAuthentication.Platform stored) t policy Cookie w
      = Inr ((issued, event), w1)"
    and pr: "platform_profile s drawn (st_key state) issued seen w1 = Inr (accepted, w')"
  shows "\<exists>row. stands_for (pf_libs s) (is_secret issued) (sv_id (is_view issued)) state stored row
    \<and> d_sessions (w_db w') = row # d_sessions (w_db w)"
proof -
  let ?row = "\<lambda>p facts lifetime bytes. issued_row (pf_libs s) (pw_session drawn) state p facts lifetime Cookie (SessionSecret (hex bytes))"
  from insert_session_Inr [OF ins] obtain p bytes lifetime facts where
    p: "present (SessionAuthentication.Platform stored) t Cookie = Inr p" "is_secret issued = SessionSecret (hex bytes)"
      "is_view issued = SessionView_new (SessionId (dr_session (pw_session drawn))) lifetime Cookie"
    and adm: "session_admissible (pf_libs s) (?row p facts lifetime bytes) (w_db w)"
    and w1: "w_db w1 = (w_db w)\<lparr>d_sessions := ?row p facts lifetime bytes # d_sessions (w_db w)\<rparr>"
    unfolding Let_def by auto
  have id: "sv_id (is_view issued) = SessionId (dr_session (pw_session drawn))" by (simp add: p(3) SessionView_new_def)
  from platform_profile_row [OF pr, of "?row p facts lifetime bytes" "w_db w", OF _ _ adm] w1 obtain x y where
    "d_sessions (w_db w') = with_profile x y (?row p facts lifetime bytes) # d_sessions (w_db w)"
    by (auto simp: id issued_tenant)
  moreover from platform_presented [OF p(1)]
  have "stands_for (pf_libs s) (is_secret issued) (sv_id (is_view issued)) state stored (with_profile x y (?row p facts lifetime bytes))"
    unfolding p(2) id by (intro issued_stands_for) simp_all
  ultimately show ?thesis by blast
qed


end
