(* ===== verification/Platform_Samples.thy ===== *)
theory Platform_Samples
  imports Platform_Life Login_Samples
begin

section \<open>A platform login of the example deployment\<close>

text \<open>
  A verifier that accepts, a device bound to the account of the examples, and a challenge for a
  relying party of the enterprise that the device has answered.
\<close>

definition sample_device :: PlatformBinding where
  "sample_device = \<lparr>pb_instance = InstanceId 5, pb_account = user_key, pb_binding_id = 40, pb_binding_epoch = 1,
     pb_source_id = 41, pb_source_version = 1, pb_external_identity = None\<rparr>"

definition sample_verifier :: PlatformVerifier where
  "sample_verifier = \<lparr>vf_audience = lit ''rp'', vf_challenge_seconds = 120, vf_authorize_purpose = (\<lambda>_ _. ret ()),
     vf_resolve = (\<lambda>_ _ _. ret sample_device), vf_recheck = (\<lambda>_. ret ()),
     vf_verify = (\<lambda>_ _ _ _. Some (Inl PlatformError.Rejected))\<rparr>"

definition sample_target :: EnterpriseTarget where
  "sample_target = \<lparr>en_id = lit ''r'', en_issuer = lit ''https://r'', en_token_endpoint = lit ''https://r/t'',
     en_client_id = lit ''c'', en_scopes = {lit ''openid''}\<rparr>"

definition platform_authority :: Authority where
  "platform_authority = sample_authority\<lparr>au_checks := \<lparr>sc_platform = Some sample_verifier, sc_controlled = None\<rparr>\<rparr>"

definition sample_platform :: PlatformService where
  "sample_platform = \<lparr>pf_authority = platform_authority,
     pf_enterprise = Some \<lparr>ef_targets = [(lit ''r'', sample_target)], ef_signer = (\<lambda>_. Inr (lit ''jwt''))\<rparr>,
     pf_payload = (\<lambda>_. Some [1])\<rparr>"

definition sample_platform_draws :: PlatformDraws where
  "sample_platform_draws = \<lparr>pw_session = sample_draws, pw_challenge = 50, pw_nonce = Some (replicate 32 9), pw_jti = 51\<rparr>"

definition sample_challenge :: challenge_row where
  "sample_challenge = \<lparr>ch_purpose = EnterpriseRp (lit ''r''), ch_target = Some sample_target, ch_tenant = sample_tenant,
     ch_challenge = 50, ch_principal = 2, ch_binding = sample_device, ch_audience = lit ''rp'', ch_nonce_hash = replicate 32 1,
     ch_browser_hash = replicate 32 2, ch_auth_epoch = 1, ch_membership_epoch = 1, ch_created = 950, ch_expires = 1070,
     ch_sequence = 1\<rparr>"

definition sample_context :: PlatformChallengeContext where
  "sample_context = \<lparr>pc_purpose = EnterpriseRp (lit ''r''), pc_binding = sample_device, pc_audience = lit ''rp'',
     pc_nonce = lit ''n'', pc_created_at = 950, pc_expires_at = 1070\<rparr>"

definition sample_proof :: PlatformAuthentication where
  "sample_proof = \<lparr>pa_binding = sample_device, pa_audience = lit ''rp'', pa_authenticated_at = Some 990,
     pa_hardware_key = True, pa_user_presence = True, pa_user_verification = True\<rparr>"

definition platform_world :: world where
  "platform_world = session_world\<lparr>w_db := session_db\<lparr>d_challenges := [sample_challenge]\<rparr>\<rparr>"

abbreviation sample_completion :: "(MutationError, PlatformLogin \<times> SecurityEvent list) tx" where
  "sample_completion \<equiv> complete_platform_body sample_platform sample_platform_draws sample_verifier sample_tenant 50
     (replicate 32 1) (replicate 32 2) sample_context sample_proof PlatformProfile.Unavailable"

lemma sample_verifier_contract: "verifier_contract sample_verifier"
  by (simp add: verifier_contract_def sample_verifier_def pure.ret)

lemma sample_platform_contracts: "checks_contract (au_checks (pf_authority sample_platform))"
  by (simp add: checks_contract_def sample_platform_def platform_authority_def sample_verifier_contract)

lemma platform_world_simps [simp]:
  "d_challenges (w_db platform_world) = [sample_challenge]" "d_sessions (w_db platform_world) = [user_session]"
  "w_tick platform_world = 0" "w_instants platform_world = int" "w_micros platform_world = (\<lambda>_. 1000000000)"
  "d_accounts (w_db platform_world) = d_accounts sample_db" "d_memberships (w_db platform_world) = d_memberships sample_db"
  "d_credentials (w_db platform_world) = d_credentials sample_db" "d_authority (w_db platform_world) = 5"
  "guarded (w_db platform_world) sample_tenant"
  by (simp_all add: platform_world_def session_world_def session_db_def sample_world_def sample_db_def guarded_def)

lemma sample_platform_simps [simp]:
  "au_libs (pf_authority sample_platform) = sample_libs" "pw_session sample_platform_draws = sample_draws"
  "au_session_policy (pf_authority sample_platform) = \<lparr>pol_idle = 900, pol_absolute = 10000\<rparr>"
  "sc_platform (au_checks (pf_authority sample_platform)) = Some sample_verifier"
  by (simp_all add: sample_platform_def platform_authority_def sample_platform_draws_def sample_authority_def)

lemma sample_device_valid: "binding_valid sample_device"
  by (simp add: binding_valid_def sample_device_def uuid_nil_def)

lemma sample_proof_assurance: "is_ok (platform_assurance sample_proof)"
  using sample_device_valid
  by (simp add: platform_assurance_def sample_proof_def Assurance_new_def Assurance_try_from_def canonical_methods_def)

lemma sample_recheck:
  "d_authority (w_db w) = 5 \<Longrightarrow>
    platform_recheck user_key sample_proof (au_checks (pf_authority sample_platform)) w = Inr ((), w)"
proof -
  assume d: "d_authority (w_db w) = 5"
  obtain a where a: "platform_assurance sample_proof = Inr a" using sample_proof_assurance by (auto simp: is_ok_iff)
  have f: "pa_binding sample_proof = sample_device" "pa_audience sample_proof = lit ''rp''" "pb_account sample_device = user_key"
    "pb_instance sample_device = InstanceId 5" "pb_external_identity sample_device = None"
    by (simp_all add: sample_proof_def sample_device_def)
  have v: "vf_audience sample_verifier = lit ''rp''" "vf_recheck sample_verifier = (\<lambda>_. ret ())"
    by (simp_all add: sample_verifier_def)
  have e: "external sample_device u = Inr ((), u)" for u by (simp add: external_valid_def f run_simps)
  show ?thesis by (simp add: platform_recheck_def run_simps sample_device_valid f v a d e)
qed

lemma sample_admitted:
  "\<exists>w'. admitted_challenge sample_platform sample_verifier sample_tenant 50 (replicate 32 1) (replicate 32 2)
      sample_context sample_proof platform_world = Inr ((sample_challenge, user_state, Some sample_target, 1000), w')
    \<and> w_db w' = w_db platform_world \<and> w_instants w' = int \<and> w_micros w' = (\<lambda>_. 1000000000)"
proof -
  have g: "lock_guard sample_tenant platform_world = Inr ((), platform_world)" by (rule sample_guard) simp
  have c: "is_challenge sample_tenant 50 sample_challenge" by (simp add: is_challenge_def sample_challenge_def)
  have k: "pb_account (ch_binding sample_challenge) = user_key" by (simp add: sample_challenge_def sample_device_def)
  let ?w1 = "platform_world\<lparr>w_tick := Suc 0\<rparr>"
  have l: "load user_key ?w1 = Inr (\<lparr>so_state = user_state, so_hash = Some (PasswordEncoding [98])\<rparr>, ?w1)"
    by (rule load_sample) simp_all
  have r: "platform_recheck user_key sample_proof (au_checks (pf_authority sample_platform)) ?w1 = Inr ((), ?w1)"
    by (rule sample_recheck) simp
  have ch: "challenge sample_tenant 50 (replicate 32 1) (replicate 32 2) platform_world = Inr (sample_challenge, ?w1)"
    using c by (simp add: challenge_def run_simps) (simp add: sample_challenge_def)
  have p: "purpose_target (pf_enterprise sample_platform) (EnterpriseRp (lit ''r'')) AuthorityError.Rejected = Inr (Some sample_target)"
    by (simp add: purpose_target_def sample_platform_def)
  have v: "vf_authorize_purpose sample_verifier b q = ret ()" for b q by (simp add: sample_verifier_def)
  have f: "ch_purpose sample_challenge = EnterpriseRp (lit ''r'')" "pc_purpose sample_context = EnterpriseRp (lit ''r'')"
    "ch_binding sample_challenge = pa_binding sample_proof" "ch_audience sample_challenge = pa_audience sample_proof"
    "ch_auth_epoch sample_challenge = 1" "ch_membership_epoch sample_challenge = 1" "ch_target sample_challenge = Some sample_target"
    "pa_authenticated_at sample_proof = Some 990" "pc_created_at sample_context = 950"
    by (simp_all add: sample_challenge_def sample_context_def sample_proof_def)
  show ?thesis
    by (simp add: admitted_challenge_def run_simps g ch k l r p v Let_def f(1,2,5-9) saturating_sub_def clamp_i64_def i64_min_def i64_max_def)
      (simp add: f(3,4))
qed

lemma sample_completed: "\<exists>login events w'. sample_completion platform_world = Inr ((login, events), w') \<and> py_assertion login \<noteq> None"
proof -
  from sample_admitted obtain w1 where
    ad: "admitted_challenge sample_platform sample_verifier sample_tenant 50 (replicate 32 1) (replicate 32 2)
      sample_context sample_proof platform_world = Inr ((sample_challenge, user_state, Some sample_target, 1000), w1)"
    and w1: "w_db w1 = w_db platform_world" "w_instants w1 = int" "w_micros w1 = (\<lambda>_. 1000000000)" by blast
  obtain x where "platform_assurance sample_proof = Inr x" using sample_proof_assurance by (auto simp: is_ok_iff)
  then have pr: "present (SessionAuthentication.Platform sample_proof) 1000 Cookie = Inr (platform_presentation sample_proof)"
    by (simp add: present_def platform_presentation_def)
  have "\<exists>issued e w'. insert_session sample_libs sample_draws user_state None (SessionAuthentication.Platform sample_proof) 1000
      \<lparr>pol_idle = 900, pol_absolute = 10000\<rparr> Cookie w1 = Inr ((issued, e), w')
    \<and> is_view issued = SessionView_new (SessionId 4) new_lifetime Cookie \<and> is_secret issued = new_secret
    \<and> w_db w' = (w_db w1)\<lparr>d_sessions := d_sessions (w_db w')\<rparr> \<and> w_micros w' = w_micros w1 \<and> w_instants w' = int
    \<and> map (\<lambda>r. (se_tenant r, se_session r, se_principal r)) (d_sessions (w_db w')) = [(sample_tenant, 4, 2), (sample_tenant, 3, 2)]"
    by (rule sample_insert [OF pr, where stored = sample_proof]) (simp_all add: w1)
  then obtain issued ev w2 where i: "insert_session sample_libs sample_draws user_state None (SessionAuthentication.Platform sample_proof) 1000
      \<lparr>pol_idle = 900, pol_absolute = 10000\<rparr> Cookie w1 = Inr ((issued, ev), w2)"
    and iv: "is_view issued = SessionView_new (SessionId 4) new_lifetime Cookie" and w2: "w_micros w2 = (\<lambda>_. 1000000000)"
    by (auto simp: w1)
  have as: "\<exists>x. platform_assertion sample_platform sample_platform_draws (Some sample_target) sample_proof 1000 issued = Inr (Some x)"
    by (simp add: platform_assertion_def sample_platform_def issue_assertion_def Let_def and_then_def lit_def utf8_width_def)
  then obtain x where as: "platform_assertion sample_platform sample_platform_draws (Some sample_target) sample_proof 1000 issued = Inr (Some x)"
    by blast
  have e: "ch_expires sample_challenge = 1070" by (simp add: sample_challenge_def)
  show ?thesis
    by (simp add: complete_platform_body_def Let_def run_simps ad platform_observation_def i as platform_profile_def w2 e)
qed


theorem platform_challenge_once_witness:
  "let q = CompletePlatform sample_platform_draws sample_verifier sample_tenant 50 (replicate 32 1) (replicate 32 2)
      sample_context sample_proof PlatformProfile.Unavailable in
    length (filter (\<lambda>(q, ok). answers_challenge sample_tenant 50 q \<and> ok)
      (fst (serve (challenge_body sample_platform) [q, q] platform_world))) = 1"
proof -
  let ?q = "CompletePlatform sample_platform_draws sample_verifier sample_tenant 50 (replicate 32 1) (replicate 32 2)
      sample_context sample_proof PlatformProfile.Unavailable"
  from sample_completed obtain login events w' where "sample_completion platform_world = Inr ((login, events), w')" by blast
  then have "challenge_body sample_platform ?q platform_world = Inr (True, w')"
    by (simp add: completed_def bind_def ret_def)
  then have "1 \<le> length (filter (\<lambda>(q, ok). answers_challenge sample_tenant 50 q \<and> ok)
      (fst (serve (challenge_body sample_platform) [?q, ?q] platform_world)))"
    by (simp add: Let_def split: prod.splits sum.splits)
  moreover have "length (filter (\<lambda>(q, ok). answers_challenge sample_tenant 50 q \<and> ok)
      (fst (serve (challenge_body sample_platform) [?q, ?q] platform_world))) \<le> 1"
    by (rule platform_challenge_once [OF sample_platform_contracts]) (simp add: sample_verifier_contract)
  ultimately show ?thesis by (simp add: Let_def)
qed

subsection \<open>A registration that ends\<close>

definition native_connection :: HostConnection where
  "native_connection = \<lparr>hc_in_transaction = True, hc_scope = Some sample_tenant, hc_isolation = lit ''read committed''\<rparr>"

definition closed_world :: world where
  "closed_world = platform_world\<lparr>w_db := (w_db platform_world)
     \<lparr>d_accounts := update_where (is_account user_key) (\<lambda>r. r\<lparr>ac_epoch := 2\<rparr>) (d_accounts sample_db)\<rparr>\<rparr>"

theorem registration_never_revived_witness:
  "\<exists>w1. admit_platform_subject_on native_connection (InstanceId 5) sample_device None platform_world
      = Inr (\<lparr>pz_auth_epoch = 1, pz_membership_epoch = 1\<rparr>, w1)
    \<and> is_ok (admit_platform_subject_on native_connection (InstanceId 5) sample_device
        (Some \<lparr>pz_auth_epoch = 1, pz_membership_epoch = 1\<rparr>) platform_world)
    \<and> \<not> is_ok (admit_platform_subject_on native_connection (InstanceId 5) sample_device
        (Some \<lparr>pz_auth_epoch = 1, pz_membership_epoch = 1\<rparr>) closed_world)"
proof -
  have g: "\<exists>x. find (\<lambda>g. gd_tenant g = sample_tenant) (d_guard (w_db platform_world)) = Some x"
    by (simp add: platform_world_def session_db_def sample_db_def)
  have e: "subject_epochs user_key (w_db platform_world) = Some (1, 1)"
    by (simp add: subject_epochs_def) (simp add: sample_db_def is_account_def is_membership_def user_key_def)
  have f: "pb_account sample_device = user_key" "pb_instance sample_device = InstanceId 5" "pb_external_identity sample_device = None"
    by (simp_all add: sample_device_def)
  have run: "admit_platform_subject_on native_connection (InstanceId 5) sample_device expected platform_world
      = Inr (\<lparr>pz_auth_epoch = 1, pz_membership_epoch = 1\<rparr>, platform_world)"
    if "expected = None \<or> expected = Some \<lparr>pz_auth_epoch = 1, pz_membership_epoch = 1\<rparr>" for expected
    using that g by (auto simp: admit_platform_subject_on_def native_connection_def run_simps sample_device_valid f e Let_def external_valid_def)
  have a: "account_of (w_db platform_world) user_key = Some user_state"
    using load_state [OF load_sample [of platform_world]] by simp
  have b: "account_of (w_db closed_world) user_key = Some (user_state\<lparr>st_epoch := 2\<rparr>)"
    by (simp add: closed_world_def account_of_def stored_of_def, simp add: sample_db_def update_where_def is_account_def is_membership_def
        is_credential_def user_key_def join_account_def decode_account.simps AccountState_restore_def user_state_def
        PasswordEncoding_from_storage_def utf8_width_def)
  have "revoke_sessions user_state = Inr (user_state\<lparr>st_epoch := 2\<rparr>)"
    by (simp add: revoke_sessions_Ok in_i64_def i64_min_def i64_max_def)
  then have "account_step\<^sup>+\<^sup>+ user_state (user_state\<lparr>st_epoch := 2\<rparr>)" by (intro tranclp.r_into_trancl account_step.revoke)
  from registration_never_revived [OF run [of None], unfolded f, OF _ a this b, of sample_device native_connection "InstanceId 5"]
  have "\<not> is_ok (admit_platform_subject_on native_connection (InstanceId 5) sample_device
        (Some \<lparr>pz_auth_epoch = 1, pz_membership_epoch = 1\<rparr>) closed_world)" by (simp add: f)
  with run [of None] run [of "Some \<lparr>pz_auth_epoch = 1, pz_membership_epoch = 1\<rparr>"] show ?thesis by simp
qed

end
