(* ===== verification/Provisioning.thy ===== *)
theory Provisioning
  imports Operations
begin

section \<open>Account provisioning (identity-postgres/src/provisioning.rs)\<close>

text \<open>
  An account made inside a transaction that the host owns: the transaction runs for the target
  tenant, the actor is a session of the source tenant, and the host commits or rolls back. What
  the runtime does for the host is a parameter: the validation of its transaction and the switch
  of the connection to another tenant and back, which change nothing of the tables.
\<close>

datatype ProvisioningError =
  Rejected | Authority AuthorityError | Storage PgError | Rule AccountRuleError

fun ProvisioningError_from :: "MutationError \<Rightarrow> ProvisioningError" where
  "ProvisioningError_from MutationError.InvalidInput = ProvisioningError.Rejected"
| "ProvisioningError_from MutationError.CursorInvalidated = ProvisioningError.Rejected"
| "ProvisioningError_from MutationError.RevisionConflict = ProvisioningError.Rejected"
| "ProvisioningError_from MutationError.OperationConflict = ProvisioningError.Rejected"
| "ProvisioningError_from (MutationError.Storage e) = ProvisioningError.Storage e"
| "ProvisioningError_from (MutationError.Rule e) = ProvisioningError.Rule e"
| "ProvisioningError_from (MutationError.Federation _) = ProvisioningError.Rejected"

record PreparedLocalAccount =
  pl_login :: LoginKey
  pl_hash :: PasswordEncoding

record AccountProvisioner =
  ap_authority :: Authority
  ap_source :: TenantId

text \<open>The transaction of the host: the tenant it runs for, and the runtime's two services.\<close>

record HostTransaction =
  ht_tenant :: TenantId
  ht_validate :: "(PgError, unit) tx"
  ht_enter :: "TenantId \<Rightarrow> (PgError, unit) tx"

definition host_contract :: "HostTransaction \<Rightarrow> bool" where
  "host_contract tx \<longleftrightarrow> reads_only (ht_validate tx) \<and> (\<forall>t. reads_only (ht_enter tx t))"

definition connect_provisioner ::
  "Authority \<Rightarrow> TenantId \<Rightarrow> (PgError, unit) tx \<Rightarrow> (PgError, ustr option) tx \<Rightarrow> int \<Rightarrow> AccountProvisioner op" where
  "connect_provisioner a source validate_audit probe deadline =
    op_bind (op_require (\<not> source \<notin> set (bu_tenants (au_bundle a))) AuthorityError.Configuration) (\<lambda>_.
    op_bind (connect (a\<lparr>au_profile := AuthorityProfile.Provisioning\<rparr>) validate_audit probe deadline) (\<lambda>authority.
    op_ret \<lparr>ap_authority = authority, ap_source = source\<rparr>))"

definition prepare_local_account ::
  "AccountProvisioner \<Rightarrow> LoginKey \<Rightarrow> Password \<Rightarrow> int \<Rightarrow> PreparedLocalAccount op" where
  "prepare_local_account p login password deadline =
    op_bind (Budget_new deadline) (\<lambda>_.
    op_bind (op_password (kd_hash (au_kdf (ap_authority p)) password)) (\<lambda>hash.
    op_ret \<lparr>pl_login = login, pl_hash = hash\<rparr>))"

definition source_body ::
  "AccountProvisioner \<Rightarrow> TenantId \<Rightarrow> AuthenticatedSession \<Rightarrow> (ProvisioningError, unit) tx" where
  "source_body p target actor =
    (let a = ap_authority p in
    bind authority_id (\<lambda>i.
    bind (require (\<not> i \<noteq> instance_uuid (au_instance a)) ProvisioningError.Rejected) (\<lambda>_.
    bind (widen ProvisioningError.Storage (recheck (au_libs a) actor)) (\<lambda>loaded.
    widen ProvisioningError.Rule
      (authorize (au_policy a) (au_instance a) loaded (ProvisionAccount target) None)))))"

definition authorize_in ::
  "AccountProvisioner \<Rightarrow> HostTransaction \<Rightarrow> AuthenticatedSession \<Rightarrow> (ProvisioningError, unit) tx" where
  "authorize_in p tx actor =
    (let a = ap_authority p; b = au_bundle a; target = ht_tenant tx in
    bind (widen ProvisioningError.Storage (ht_validate tx)) (\<lambda>_.
    bind (case bu_lock_head b of None \<Rightarrow> ret () | Some lock \<Rightarrow> widen ProvisioningError.Storage lock) (\<lambda>_.
    bind (require (\<not> (ak_tenant (px_key actor) \<noteq> ap_source p \<or> target = ap_source p
        \<or> px_authority actor \<noteq> instance_uuid (au_instance a) \<or> target \<notin> set (bu_tenants b)))
      ProvisioningError.Rejected) (\<lambda>_.
    bind (widen ProvisioningError.Storage (ht_enter tx (ap_source p))) (\<lambda>_.
    source_body p target actor)))))"

definition ensure_guard :: "TenantId \<Rightarrow> (PgError, unit) tx" where
  "ensure_guard tenant =
    exec (\<lambda>d. if list_ex (\<lambda>r. gd_tenant r = tenant) (d_guard d) then d
      else d\<lparr>d_guard := \<lparr>gd_tenant = tenant, gd_profile_sequence = 0\<rparr> # d_guard d\<rparr>)"

definition target_body :: "AccountKey \<Rightarrow> PreparedLocalAccount \<Rightarrow> (ProvisioningError, AccountState) tx" where
  "target_body key prepared =
    bind (widen ProvisioningError.Storage (ensure_guard (ak_tenant key))) (\<lambda>_.
    bind (widen ProvisioningError.Storage (lock_guard (ak_tenant key))) (\<lambda>_.
    bind (widen ProvisioningError_from
      (insert_account key (login_str (pl_login prepared)) (encoding_str (pl_hash prepared)))) (\<lambda>_.
    bind (widen ProvisioningError.Storage (load_for_maintenance key)) (\<lambda>stored.
    ret (so_state stored)))))"

definition create_local_account_in ::
  "AccountProvisioner \<Rightarrow> Draws \<Rightarrow> HostTransaction \<Rightarrow> AuthenticatedSession \<Rightarrow> PreparedLocalAccount
    \<Rightarrow> (ProvisioningError, AccountState) tx" where
  "create_local_account_in p draws tx actor prepared =
    (let a = ap_authority p; target = ht_tenant tx;
         key = \<lparr>ak_tenant = target, ak_principal = PrincipalId (dr_principal draws)\<rparr> in
    bind (authorize_in p tx actor) (\<lambda>_.
    bind (target_body key prepared) (\<lambda>state.
    bind (widen ProvisioningError.Storage (append_events (au_bundle a) target target (dr_events draws)
      [provisioned_event state (px_key actor) (au_instance a)])) (\<lambda>_.
    ret state))))"

end
