(* ===== verification/Webauthn.thy ===== *)
theory Webauthn
  imports Step_Up
begin

section \<open>Authenticators of an account (identity-postgres/src/webauthn.rs)\<close>

text \<open>
  Ceremonies of the WebAuthn protocol. The cryptography is the \<open>webauthn-rs\<close> crate's: a
  \<open>WebauthnLibrary\<close> is a verifier built for one relying party, and its states, responses, passkeys
  and options are its own documents. The authority stores a ceremony bound to the session, the
  epochs and the configuration it began under, has the response verified outside every
  transaction, and settles in one transaction that reads everything again. What the code and the
  database draw at random is an argument.
\<close>

record AuthenticationResult =
  ar_user_verified :: bool
  ar_cred_id :: "byte list"
  ar_document :: Value

record WebauthnLibrary =
  wl_build :: "ustr \<Rightarrow> url_parts \<Rightarrow> bool"
  wl_start_registration :: "uuid \<Rightarrow> ustr \<Rightarrow> ustr \<Rightarrow> byte list list \<Rightarrow> byte list \<Rightarrow> (Value \<times> Value) option"
  wl_finish_registration :: "Value \<Rightarrow> Value \<Rightarrow> Passkey option"
  wl_start_authentication :: "Passkey list \<Rightarrow> byte list \<Rightarrow> (Value \<times> Value) option"
  wl_finish_authentication :: "Value \<Rightarrow> Value \<Rightarrow> AuthenticationResult option"
  wl_cred_id :: "Passkey \<Rightarrow> byte list"
  wl_update :: "Passkey \<Rightarrow> AuthenticationResult \<Rightarrow> Passkey option"

text \<open>
  What became of a verification on the blocking pool: no permit of the four was free, the deadline
  passed first, the task panicked, or it completed.
\<close>

datatype WorkerOutcome = NoPermit | Late | Panicked | Completed

text \<open>\<open>wb_connection\<close> is what a transaction of the messaging runtime reports about itself.\<close>

record WebauthnAuthority =
  wb_authority :: Authority
  wb_library :: WebauthnLibrary
  wb_rp :: ustr
  wb_config :: "byte list"
  wb_generations :: "(TenantId \<times> int) list"
  wb_workers :: "instant \<Rightarrow> world \<Rightarrow> WorkerOutcome"
  wb_connection :: "TenantId \<Rightarrow> HostConnection"

abbreviation wb_libs :: "WebauthnAuthority \<Rightarrow> Libraries" where "wb_libs u \<equiv> au_libs (wb_authority u)"

record WebauthnDraws =
  wd_id :: uuid
  wd_handle :: uuid
  wd_challenge :: "byte list"
  wd_secret :: "byte list option"
  wd_events :: "nat \<Rightarrow> uuid"

datatype RegistrationAuthorization = First | StepUp ustr | HostRecovery

record WebauthnChallenge =
  wn_id :: uuid
  wn_options :: Value
  wn_expires_at :: int

record WebauthnCredentialView =
  cv_id :: uuid
  cv_label :: ustr

record ceremony_snapshot =
  sn_ceremony :: Ceremony
  sn_epoch :: int
  sn_observed_at :: int
  sn_expires_at :: int

definition webauthn_management_context ::
  "Libraries \<Rightarrow> AccountKey \<Rightarrow> ustr \<Rightarrow> uuid option \<Rightarrow> AuthorityError + StepUpContext" where
  "webauthn_management_context L key operation credential =
    (if operation \<notin> {lit ''register'', lit ''remove'', lit ''recover''} then Err AuthorityError.InvalidInput
     else
       let value = xl_show_tenant L (ak_tenant key) @ lit ''/'' @ xl_show_uuid L (key_uuid key) @ lit ''/'' @ operation @ lit ''/''
             @ (case credential of None \<Rightarrow> [] | Some i \<Rightarrow> xl_show_uuid L i) in
       map_err (\<lambda>_. AuthorityError.InvalidInput) (StepUpContext_new (lit ''identity.webauthn.'' @ operation) (digest L value)))"

subsection \<open>The relying party\<close>

text \<open>\<open>rp_configuration\<close>: the fingerprint of the configuration.\<close>

definition rp_configuration :: "Libraries \<Rightarrow> WebauthnLibrary \<Rightarrow> ustr \<Rightarrow> url_parts \<Rightarrow> PgError + byte list" where
  "rp_configuration L lib rp origin_url =
    (if url_scheme origin_url \<noteq> lit ''https'' \<or> url_username origin_url \<noteq> [] \<or> url_password origin_url \<noteq> None
        \<or> url_query origin_url \<noteq> None \<or> url_fragment origin_url \<noteq> None \<or> url_path origin_url \<noteq> lit ''/''
     then Err reject
     else if \<not> wl_build lib rp origin_url then Err reject
     else Ok (digest L (rp @ [10] @ url_str origin_url @ [10] @ lit ''uv-required-v1'')))"

definition is_rp :: "TenantId \<Rightarrow> ustr \<Rightarrow> webauthn_rp_row \<Rightarrow> bool" where
  "is_rp tenant rp r \<longleftrightarrow> wr_tenant r = tenant \<and> wr_rp r = rp"

definition rp_check :: "webauthn_rp_row \<Rightarrow> bool" where
  "rp_check r \<longleftrightarrow> 1 \<le> byte_len (wr_rp r) \<and> byte_len (wr_rp r) \<le> 253 \<and> length (wr_fingerprint r) = 32 \<and> wr_generation r > 0"

text \<open>The transaction of \<open>connect\<close> in one tenant: a first configuration is stored, any other has to match.\<close>

definition connect_body :: "TenantId \<Rightarrow> ustr \<Rightarrow> byte list \<Rightarrow> (MutationError, int) tx" where
  "connect_body tenant rp config =
    (let row = \<lparr>wr_tenant = tenant, wr_rp = rp, wr_fingerprint = config, wr_generation = 1\<rparr> in
    bind (widen Storage (insert_checked (\<lambda>_. rp_check row)
      (\<lambda>d. if list_ex (is_rp tenant rp) (d_webauthn_rp d) then d else d\<lparr>d_webauthn_rp := row # d_webauthn_rp d\<rparr>))) (\<lambda>_.
    bind (widen Storage (fetch_one (\<lambda>d. find (is_rp tenant rp) (d_webauthn_rp d)))) (\<lambda>r.
    bind (require (\<not> wr_fingerprint r \<noteq> config) (Storage reject)) (\<lambda>_.
    ret (wr_generation r)))))"

fun connect_tenants ::
  "RuntimeBundle \<Rightarrow> ustr \<Rightarrow> byte list \<Rightarrow> instant \<Rightarrow> TenantId list \<Rightarrow> (TenantId \<times> int) list op" where
  "connect_tenants b rp config budget [] = op_ret []"
| "connect_tenants b rp config budget (t # ts) =
    op_bind (Budget_remaining budget) (\<lambda>timeout.
    op_bind (read_sql b t timeout (connect_body t rp config)) (\<lambda>generation.
    op_bind (connect_tenants b rp config budget ts) (\<lambda>rest.
    op_ret ((t, generation) # rest))))"

definition webauthn_connect ::
  "Authority \<Rightarrow> WebauthnLibrary \<Rightarrow> ustr \<Rightarrow> url_parts \<Rightarrow> (instant \<Rightarrow> world \<Rightarrow> WorkerOutcome)
    \<Rightarrow> (TenantId \<Rightarrow> HostConnection) \<Rightarrow> int \<Rightarrow> WebauthnAuthority op" where
  "webauthn_connect a lib rp origin_url workers connection deadline =
    op_bind (op_lift (require_runtime a)) (\<lambda>_.
    op_bind (op_lift (map_err (\<lambda>_. AuthorityError.Configuration) (rp_configuration (au_libs a) lib rp origin_url))) (\<lambda>config.
    op_bind (Budget_new deadline) (\<lambda>budget.
    op_bind (connect_tenants (au_bundle a) rp config budget (bu_tenants (au_bundle a))) (\<lambda>generations.
    op_ret \<lparr>wb_authority = a, wb_library = lib, wb_rp = rp, wb_config = config, wb_generations = generations,
      wb_workers = workers, wb_connection = connection\<rparr>))))"

definition check_configuration :: "WebauthnAuthority \<Rightarrow> TenantId \<Rightarrow> (MutationError, int) tx" where
  "check_configuration u tenant =
    bind (lift (ok_or (Storage reject) (map_of (wb_generations u) tenant))) (\<lambda>expected.
    bind (query (\<lambda>d. list_ex (\<lambda>r. is_rp tenant (wb_rp u) r \<and> wr_fingerprint r = wb_config u \<and> wr_generation r = expected)
      (d_webauthn_rp d))) (\<lambda>valid.
    bind (require (\<not> \<not> valid) (Storage reject)) (\<lambda>_.
    ret expected)))"

definition webauthn_verify :: "WebauthnAuthority \<Rightarrow> instant \<Rightarrow> AuthorityError + 'a \<Rightarrow> 'a op" where
  "webauthn_verify u budget result w =
    (case wb_workers u budget w of
       NoPermit \<Rightarrow> (Err AuthorityError.Busy, w)
     | Late \<Rightarrow> (Err AuthorityError.DeadlineElapsed, w)
     | Panicked \<Rightarrow> (Err AuthorityError.Unavailable, w)
     | Completed \<Rightarrow> (result, w))"

subsection \<open>Rows of an account\<close>

definition is_wa :: "AccountKey \<Rightarrow> webauthn_account_row \<Rightarrow> bool" where
  "is_wa key r \<longleftrightarrow> wa_tenant r = ak_tenant key \<and> wa_principal r = key_uuid key"

definition is_wc :: "AccountKey \<Rightarrow> webauthn_credential_row \<Rightarrow> bool" where
  "is_wc key r \<longleftrightarrow> wc_tenant r = ak_tenant key \<and> wc_principal r = key_uuid key"

definition is_ceremony :: "TenantId \<Rightarrow> uuid \<Rightarrow> ceremony_row \<Rightarrow> bool" where
  "is_ceremony tenant i r \<longleftrightarrow> cm_tenant r = tenant \<and> cm_id r = i"

definition owns_ceremony :: "AccountKey \<Rightarrow> ceremony_row \<Rightarrow> bool" where
  "owns_ceremony key r \<longleftrightarrow> cm_tenant r = ak_tenant key \<and> cm_principal r = key_uuid key"

text \<open>\<open>account\<close>: the row is made on first use; the handle is the default of its column.\<close>

definition webauthn_account :: "uuid \<Rightarrow> AccountKey \<Rightarrow> (MutationError, uuid \<times> bool \<times> int) tx" where
  "webauthn_account handle key =
    bind (exec (\<lambda>d. if list_ex (\<lambda>r. is_wa key r \<or> wa_handle r = handle) (d_webauthn_accounts d) then d
      else d\<lparr>d_webauthn_accounts := \<lparr>wa_tenant = ak_tenant key, wa_principal = key_uuid key, wa_handle = handle,
        wa_enrolled = False, wa_epoch = 1\<rparr> # d_webauthn_accounts d\<rparr>)) (\<lambda>_.
    bind (widen Storage (fetch_one (\<lambda>d. find (is_wa key) (d_webauthn_accounts d)))) (\<lambda>r.
    ret (wa_handle r, wa_enrolled r, wa_epoch r)))"

definition usable_credential :: "AccountKey \<Rightarrow> ustr \<Rightarrow> byte list \<Rightarrow> webauthn_credential_row \<Rightarrow> bool" where
  "usable_credential key rp config r \<longleftrightarrow> is_wc key r \<and> wc_rp r = rp \<and> wc_rp_config r = config \<and> \<not> wc_revoked r"

definition snapshot_of :: "webauthn_credential_row \<Rightarrow> CredentialSnapshot" where
  "snapshot_of r = \<lparr>cs_id = wc_id r, cs_version = wc_version r, cs_epoch = wc_epoch r, cs_passkey = wc_value r\<rparr>"

definition webauthn_credentials :: "AccountKey \<Rightarrow> ustr \<Rightarrow> byte list \<Rightarrow> (MutationError, CredentialSnapshot list) tx" where
  "webauthn_credentials key rp config =
    query (\<lambda>d. map snapshot_of (take 17 (sort_key wc_id (filter (usable_credential key rp config) (d_webauthn_credentials d)))))"

text \<open>The epoch of the account's authenticators; a \<open>bigint\<close> that would pass its limit refuses the statement.\<close>

definition advance_webauthn_account :: "(webauthn_account_row \<Rightarrow> webauthn_account_row) \<Rightarrow> AccountKey \<Rightarrow> (MutationError, unit) tx" where
  "advance_webauthn_account f key =
    widen Storage (insert_checked (\<lambda>d. list_all (\<lambda>r. is_wa key r \<longrightarrow> in_i64 (wa_epoch r + 1)) (d_webauthn_accounts d))
      (\<lambda>d. d\<lparr>d_webauthn_accounts := update_where (is_wa key) (\<lambda>r. (f r)\<lparr>wa_epoch := wa_epoch r + 1\<rparr>) (d_webauthn_accounts d)\<rparr>))"

definition revoke_credentials :: "(webauthn_credential_row \<Rightarrow> bool) \<Rightarrow> (PgError, unit) tx" where
  "revoke_credentials p =
    insert_checked (\<lambda>d. list_all (\<lambda>r. p r \<and> \<not> wc_revoked r \<longrightarrow> in_i64 (wc_epoch r + 1)) (d_webauthn_credentials d))
      (\<lambda>d. d\<lparr>d_webauthn_credentials := update_where (\<lambda>r. p r \<and> \<not> wc_revoked r)
        (\<lambda>r. r\<lparr>wc_revoked := True, wc_epoch := wc_epoch r + 1\<rparr>) (d_webauthn_credentials d)\<rparr>)"

subsection \<open>Ceremonies\<close>

text \<open>The key and the \<open>CHECK\<close> constraints of the table.\<close>

definition ceremony_admissible :: "Libraries \<Rightarrow> ceremony_row \<Rightarrow> db \<Rightarrow> bool" where
  "ceremony_admissible L r d \<longleftrightarrow>
    cm_auth_epoch r > 0 \<and> cm_membership_epoch r > 0 \<and> cm_credential_epoch r > 0 \<and> length (cm_rp_config r) = 32
    \<and> xl_ceremony_size L (cm_state r) \<le> 131072 \<and> cm_created r > 0 \<and> cm_expires r > cm_created r
    \<and> cm_expires r - cm_created r \<le> 120 \<and> \<not> list_ex (is_ceremony (cm_tenant r) (cm_id r)) (d_ceremonies d)"

definition ceremony_expiry :: "Loaded \<Rightarrow> int \<Rightarrow> int" where
  "ceremony_expiry loaded t =
    min (min (t + 120) (sv_idle_expires_at (ld_view loaded))) (sv_absolute_expires_at (ld_view loaded))"

definition new_ceremony_row :: "uuid \<Rightarrow> Loaded \<Rightarrow> int \<Rightarrow> byte list \<Rightarrow> Ceremony \<Rightarrow> int \<Rightarrow> ceremony_row" where
  "new_ceremony_row i loaded epoch config state t =
    \<lparr>cm_tenant = ak_tenant (st_key (ld_state loaded)), cm_id = i, cm_principal = key_uuid (st_key (ld_state loaded)),
     cm_session = session_uuid (sv_id (ld_view loaded)), cm_auth_epoch = st_epoch (ld_state loaded),
     cm_membership_epoch = st_membership_epoch (ld_state loaded), cm_credential_epoch = epoch, cm_rp_config = config,
     cm_state = state, cm_created = t, cm_expires = ceremony_expiry loaded t\<rparr>"

definition sweep_ceremonies :: "AccountKey \<Rightarrow> int \<Rightarrow> ('e, unit) tx" where
  "sweep_ceremonies key t =
    bind (exec (\<lambda>d. d\<lparr>d_ceremonies := delete_where (\<lambda>r. owns_ceremony key r \<and> cm_expires r \<le> t) (d_ceremonies d)\<rparr>)) (\<lambda>_.
    exec (\<lambda>d. d\<lparr>d_ceremonies := delete_first cm_expires 128
      (\<lambda>r. cm_tenant r = ak_tenant key \<and> cm_expires r \<le> t) (d_ceremonies d)\<rparr>))"

definition store_ceremony ::
  "Libraries \<Rightarrow> uuid \<Rightarrow> Loaded \<Rightarrow> int \<Rightarrow> byte list \<Rightarrow> Ceremony \<Rightarrow> (MutationError, uuid \<times> int) tx" where
  "store_ceremony L i loaded epoch config state =
    (let key = st_key (ld_state loaded) in
    bind now (\<lambda>t.
    bind (sweep_ceremonies key t) (\<lambda>_.
    bind (query (\<lambda>d. count_where (owns_ceremony key) (d_ceremonies d))) (\<lambda>n.
    bind (require (\<not> n \<ge> 8) (Storage reject)) (\<lambda>_.
    let row = new_ceremony_row i loaded epoch config state t in
    bind (widen Storage (insert_checked (ceremony_admissible L row) (\<lambda>d. d\<lparr>d_ceremonies := row # d_ceremonies d\<rparr>))) (\<lambda>_.
    ret (i, ceremony_expiry loaded t)))))))"

text \<open>What a stored ceremony has to agree with, and the decoding of its document.\<close>

definition ceremony_matches :: "Loaded \<Rightarrow> int \<Rightarrow> byte list \<Rightarrow> int \<Rightarrow> ceremony_row \<Rightarrow> bool" where
  "ceremony_matches loaded epoch config t r \<longleftrightarrow>
    \<not> (cm_principal r \<noteq> key_uuid (st_key (ld_state loaded))
       \<or> cm_session r \<noteq> session_uuid (sv_id (ld_view loaded))
       \<or> cm_auth_epoch r \<noteq> st_epoch (ld_state loaded)
       \<or> cm_membership_epoch r \<noteq> st_membership_epoch (ld_state loaded)
       \<or> cm_credential_epoch r \<noteq> epoch
       \<or> cm_rp_config r \<noteq> config
       \<or> t < cm_created r \<or> t \<ge> cm_expires r)"

fun decode_ceremony :: "Ceremony \<Rightarrow> MutationError + Ceremony" where
  "decode_ceremony (Ceremony.Register s l r a h t) = Ok (Ceremony.Register s l r a h t)"
| "decode_ceremony (Ceremony.Authenticate s cx keys) =
    and_then (map_err (\<lambda>_. Storage corrupt) (StepUpContext_try_from cx)) (\<lambda>_. Ok (Ceremony.Authenticate s cx keys))"

definition read_loaded :: "uuid \<Rightarrow> Loaded \<Rightarrow> uuid \<Rightarrow> byte list \<Rightarrow> (MutationError, ceremony_snapshot) tx" where
  "read_loaded handle loaded i config =
    (let key = st_key (ld_state loaded) in
    bind (query (\<lambda>d. find (is_ceremony (ak_tenant key) i) (d_ceremonies d))) (\<lambda>row.
    bind (lift (ok_or (Storage reject) row)) (\<lambda>r.
    bind (webauthn_account handle key) (\<lambda>(_, _, epoch).
    bind now (\<lambda>t.
    bind (require (ceremony_matches loaded epoch config t r) (Storage reject)) (\<lambda>_.
    bind (lift (decode_ceremony (cm_state r))) (\<lambda>ceremony.
    ret \<lparr>sn_ceremony = ceremony, sn_epoch = epoch, sn_observed_at = t, sn_expires_at = cm_expires r\<rparr>)))))))"

definition read_ceremony ::
  "Libraries \<Rightarrow> uuid \<Rightarrow> AuthenticatedSession \<Rightarrow> uuid \<Rightarrow> byte list \<Rightarrow> (MutationError, ceremony_snapshot) tx" where
  "read_ceremony L handle actor i config =
    bind (widen Storage (recheck L actor)) (\<lambda>loaded. read_loaded handle loaded i config)"

definition consume_ceremony :: "AccountKey \<Rightarrow> uuid \<Rightarrow> (MutationError, unit) tx" where
  "consume_ceremony key i =
    (let p = \<lambda>r. owns_ceremony key r \<and> cm_id r = i in
    bind (query (\<lambda>d. count_where p (d_ceremonies d))) (\<lambda>n.
    bind (exec (\<lambda>d. d\<lparr>d_ceremonies := delete_where p (d_ceremonies d)\<rparr>)) (\<lambda>_.
    require (\<not> n \<noteq> 1) (Storage reject))))"

text \<open>\<open>snapshot\<close>: the first reading, before the response is verified.\<close>

definition snapshot_body ::
  "WebauthnAuthority \<Rightarrow> uuid \<Rightarrow> AuthenticatedSession \<Rightarrow> uuid \<Rightarrow> (MutationError, ceremony_snapshot) tx" where
  "snapshot_body u handle actor i =
    bind authority_id (\<lambda>authority.
    bind (require (\<not> authority \<noteq> px_authority actor) (Storage reject)) (\<lambda>_.
    bind (widen Storage (lookup (wb_libs u) (ak_tenant (px_key actor)) (px_digest actor) Cookie (px_checks actor))) (\<lambda>loaded.
    bind (require (\<not> (sv_id (ld_view loaded) \<noteq> sv_id (px_view actor) \<or> st_key (ld_state loaded) \<noteq> px_key actor))
      (Storage reject)) (\<lambda>_.
    bind (check_configuration u (ak_tenant (px_key actor))) (\<lambda>_.
    read_loaded handle loaded i (wb_config u))))))"

definition list_credentials :: "WebauthnAuthority \<Rightarrow> AuthenticatedSession \<Rightarrow> int \<Rightarrow> WebauthnCredentialView list op" where
  "list_credentials u actor deadline =
    read_sql (au_bundle (wb_authority u)) (ak_tenant (px_key actor)) deadline
     (bind (widen Storage (recheck (wb_libs u) actor)) (\<lambda>_.
      bind (check_configuration u (ak_tenant (px_key actor))) (\<lambda>_.
      query (\<lambda>d. map (\<lambda>r. \<lparr>cv_id = wc_id r, cv_label = wc_label r\<rparr>)
        (take 32 (sort_key wc_id (filter (usable_credential (px_key actor) (wb_rp u) (wb_config u)) (d_webauthn_credentials d))))))))"

end
