(* ===== verification/Webauthn_Ceremonies.thy ===== *)
theory Webauthn_Ceremonies
  imports Webauthn
begin

section \<open>Registration, authentication and removal (identity-postgres/src/webauthn.rs)\<close>

text \<open>
  Both halves of the two ceremonies, the removal of an authenticator, the cancellation of a
  ceremony and the activation of a configuration by the owner of the deployment.
\<close>

subsection \<open>Registration\<close>

definition registration_operation :: "bool \<Rightarrow> bool \<Rightarrow> ManagementOperation" where
  "registration_operation host_recovery recovering =
    (if host_recovery then AuthorizeWebauthnRecovery else if recovering then RecoverWebauthn else RegisterWebauthn)"

definition recently :: "Loaded \<Rightarrow> ('e, bool) tx" where
  "recently loaded = bind instant_now (\<lambda>t. ret (recently_authenticated loaded (300) t))"

text \<open>What a registration rests on: a first one on a recent sign-in, any other on a step-up grant, a
  recovery by the host on its policy.\<close>

definition registration_source ::
  "WebauthnAuthority \<Rightarrow> AuthenticatedSession \<Rightarrow> StepUpContext \<Rightarrow> Loaded \<Rightarrow> bool \<Rightarrow> bool \<Rightarrow> RegistrationAuthorization
    \<Rightarrow> (MutationError, GrantSource option \<times> int option) tx" where
  "registration_source u actor context loaded enrolled recovering authorization =
    (case authorization of
       RegistrationAuthorization.First \<Rightarrow>
         if \<not> enrolled \<and> \<not> recovering
         then bind (recently loaded) (\<lambda>recent. if recent then ret (None, None) else fail (Storage reject))
         else fail (Storage reject)
     | RegistrationAuthorization.StepUp token \<Rightarrow>
         bind (widen Storage (consume_step_up_on (wb_libs u) (wb_connection u (ak_tenant (px_key actor))) actor context token))
           (\<lambda>consumed. ret (Some (cp_source consumed), Some (cp_authenticated_at consumed)))
     | RegistrationAuthorization.HostRecovery \<Rightarrow> if recovering then ret (None, None) else fail (Storage reject))"

definition begin_registration_body ::
  "WebauthnAuthority \<Rightarrow> WebauthnDraws \<Rightarrow> AuthenticatedSession \<Rightarrow> ustr \<Rightarrow> bool \<Rightarrow> RegistrationAuthorization \<Rightarrow> StepUpContext
    \<Rightarrow> (MutationError, WebauthnChallenge) tx" where
  "begin_registration_body u drawn actor label recovering authorization context =
    (let a = wb_authority u; L = wb_libs u; key = px_key actor;
         host_recovery = (authorization = RegistrationAuthorization.HostRecovery) in
    bind (widen Storage (recheck L actor)) (\<lambda>loaded.
    bind (check_configuration u (ak_tenant key)) (\<lambda>_.
    bind (webauthn_account (wd_handle drawn) key) (\<lambda>(handle, enrolled, epoch).
    bind (widen Rule (authorize (au_policy a) (au_instance a) loaded (registration_operation host_recovery recovering) (Some key))) (\<lambda>_.
    bind (registration_source u actor context loaded enrolled recovering authorization) (\<lambda>(source, authorization_time).
    bind (webauthn_credentials key (wb_rp u) (wb_config u)) (\<lambda>keys.
    bind (require (\<not> (\<not> recovering \<and> length keys \<ge> 16)) (Storage reject)) (\<lambda>_.
    let name = xl_show_uuid L (key_uuid key) in
    bind (lift (ok_or (Storage reject) (wl_start_registration (wb_library u) handle name name
      (map (\<lambda>k. wl_cred_id (wb_library u) (cs_passkey k)) keys) (wd_challenge drawn)))) (\<lambda>(options, state).
    bind (store_ceremony L (wd_id drawn) loaded epoch (wb_config u)
      (Ceremony.Register state label recovering source host_recovery authorization_time)) (\<lambda>(i, expires).
    ret \<lparr>wn_id = i, wn_options = options, wn_expires_at = expires\<rparr>))))))))))"

definition begin_registration ::
  "WebauthnAuthority \<Rightarrow> WebauthnDraws \<Rightarrow> AuthenticatedSession \<Rightarrow> ustr \<Rightarrow> bool \<Rightarrow> RegistrationAuthorization \<Rightarrow> int
    \<Rightarrow> WebauthnChallenge op" where
  "begin_registration u drawn actor label recovering authorization deadline =
    op_bind (op_require (\<not> (label = [] \<or> byte_len label > 128 \<or> list_ex is_control label)) AuthorityError.InvalidInput) (\<lambda>_.
    op_bind (op_lift (webauthn_management_context (wb_libs u) (px_key actor)
      (if recovering then lit ''recover'' else lit ''register'') None)) (\<lambda>context.
    read_sql (au_bundle (wb_authority u)) (ak_tenant (px_key actor)) deadline
      (begin_registration_body u drawn actor label recovering authorization context)))"

text \<open>The authorization of the beginning, looked at again by the settlement.\<close>

definition registration_authorized ::
  "AccountKey \<Rightarrow> Loaded \<Rightarrow> GrantSource option \<Rightarrow> int option \<Rightarrow> bool \<Rightarrow> (MutationError, unit) tx" where
  "registration_authorized key loaded authorization authorization_time host_recovery =
    (case authorization of
       Some source \<Rightarrow>
         bind now (\<lambda>t.
         bind (require (\<not> (case authorization_time of None \<Rightarrow> True | Some at \<Rightarrow> at > t \<or> t - at \<ge> 300)) (Storage reject)) (\<lambda>_.
         widen Storage (validate_source key source)))
     | None \<Rightarrow>
         if \<not> host_recovery
         then bind (recently loaded) (\<lambda>recent. require (\<not> \<not> recent) (Storage reject))
         else ret ())"

definition new_credential_row ::
  "WebauthnAuthority \<Rightarrow> AccountKey \<Rightarrow> uuid \<Rightarrow> Passkey \<Rightarrow> ustr \<Rightarrow> webauthn_credential_row" where
  "new_credential_row u key i passkey label =
    \<lparr>wc_tenant = ak_tenant key, wc_principal = key_uuid key, wc_id = i, wc_rp = wb_rp u, wc_rp_config = wb_config u,
     wc_hash = xl_sha256 (wb_libs u) (wl_cred_id (wb_library u) passkey), wc_value = passkey, wc_label = label,
     wc_epoch = 1, wc_version = 1, wc_revoked = False\<rparr>"

definition same_credential :: "webauthn_credential_row \<Rightarrow> webauthn_credential_row \<Rightarrow> bool" where
  "same_credential row r \<longleftrightarrow> wc_rp r = wc_rp row \<and> wc_hash r = wc_hash row"

definition credential_admissible :: "Libraries \<Rightarrow> webauthn_credential_row \<Rightarrow> db \<Rightarrow> bool" where
  "credential_admissible L r d \<longleftrightarrow>
    byte_len (wc_rp r) \<le> 253 \<and> length (wc_rp_config r) = 32 \<and> length (wc_hash r) = 32
    \<and> xl_value_size L (wc_value r) \<le> 16384 \<and> 1 \<le> byte_len (wc_label r) \<and> byte_len (wc_label r) \<le> 128
    \<and> wc_epoch r > 0 \<and> wc_version r > 0
    \<and> (list_ex (same_credential r) (d_webauthn_credentials d)
       \<or> \<not> list_ex (\<lambda>x. wc_tenant x = wc_tenant r \<and> wc_id x = wc_id r) (d_webauthn_credentials d))"

definition insert_credential :: "Libraries \<Rightarrow> webauthn_credential_row \<Rightarrow> (MutationError, unit) tx" where
  "insert_credential L row =
    bind (query (\<lambda>d. list_ex (same_credential row) (d_webauthn_credentials d))) (\<lambda>taken.
    bind (widen Storage (insert_checked (credential_admissible L row)
      (\<lambda>d. if taken then d else d\<lparr>d_webauthn_credentials := row # d_webauthn_credentials d\<rparr>))) (\<lambda>_.
    require (\<not> taken) (Storage reject)))"

text \<open>The settlement up to the end of the ceremony, and with it.\<close>

definition settle_registration ::
  "WebauthnAuthority \<Rightarrow> WebauthnDraws \<Rightarrow> AuthenticatedSession \<Rightarrow> uuid \<Rightarrow> ceremony_snapshot \<Rightarrow> Passkey \<Rightarrow> ustr \<Rightarrow> bool
    \<Rightarrow> GrantSource option \<Rightarrow> bool \<Rightarrow> int option \<Rightarrow> (MutationError, WebauthnCredentialView \<times> SecurityEvent list) tx" where
  "settle_registration u drawn actor i snapshot passkey label recovering authorization host_recovery authorization_time =
    (let a = wb_authority u; L = wb_libs u; key = px_key actor in
    bind (widen Storage (recheck L actor)) (\<lambda>loaded.
    bind (check_configuration u (ak_tenant key)) (\<lambda>_.
    bind (read_ceremony L (wd_handle drawn) actor i (wb_config u)) (\<lambda>present_snapshot.
    bind (require (\<not> (sn_epoch present_snapshot \<noteq> sn_epoch snapshot \<or> \<not> is_Register (sn_ceremony present_snapshot)))
      (Storage reject)) (\<lambda>_.
    bind (widen Rule (authorize (au_policy a) (au_instance a) loaded (registration_operation host_recovery recovering) (Some key))) (\<lambda>_.
    bind (registration_authorized key loaded authorization authorization_time host_recovery) (\<lambda>_.
    bind (when_tx recovering (widen Storage (revoke_credentials (is_wc key)))) (\<lambda>_.
    bind (insert_credential L (new_credential_row u key (wd_id drawn) passkey label)) (\<lambda>_.
    bind (advance_webauthn_account (\<lambda>r. r\<lparr>wa_enrolled := True\<rparr>) key) (\<lambda>_.
    bind now (\<lambda>t.
    bind (require (\<not> t \<ge> sn_expires_at present_snapshot) (Storage reject)) (\<lambda>_.
    ret (\<lparr>cv_id = wd_id drawn, cv_label = label\<rparr>,
         [authentication_event key (if recovering then Recovered else Registered)])))))))))))))"

definition finish_registration_body ::
  "WebauthnAuthority \<Rightarrow> WebauthnDraws \<Rightarrow> AuthenticatedSession \<Rightarrow> uuid \<Rightarrow> ceremony_snapshot \<Rightarrow> Passkey \<Rightarrow> ustr \<Rightarrow> bool
    \<Rightarrow> GrantSource option \<Rightarrow> bool \<Rightarrow> int option \<Rightarrow> (MutationError, WebauthnCredentialView \<times> SecurityEvent list) tx" where
  "finish_registration_body u drawn actor i snapshot passkey label recovering authorization host_recovery authorization_time =
    bind (settle_registration u drawn actor i snapshot passkey label recovering authorization host_recovery authorization_time) (\<lambda>settled.
    bind (consume_ceremony (px_key actor) i) (\<lambda>_.
    ret settled))"

definition response_fits :: "Libraries \<Rightarrow> Value \<Rightarrow> AuthorityError + unit" where
  "response_fits L response =
    (case xl_json_len L response of None \<Rightarrow> Err AuthorityError.InvalidInput
     | Some n \<Rightarrow> if n > 65536 then Err AuthorityError.InvalidInput else Ok ())"

definition finish_registration ::
  "WebauthnAuthority \<Rightarrow> WebauthnDraws \<Rightarrow> AuthenticatedSession \<Rightarrow> uuid \<Rightarrow> Value \<Rightarrow> int \<Rightarrow> WebauthnCredentialView op" where
  "finish_registration u drawn actor i response deadline =
    (let b = au_bundle (wb_authority u); tenant = ak_tenant (px_key actor) in
    op_bind (Budget_new deadline) (\<lambda>budget.
    op_bind (Budget_remaining budget) (\<lambda>timeout.
    op_bind (read_sql b tenant timeout (snapshot_body u (wd_handle drawn) actor i)) (\<lambda>snapshot.
    case sn_ceremony snapshot of
      Ceremony.Authenticate _ _ _ \<Rightarrow> op_lift (Err AuthorityError.Rejected)
    | Ceremony.Register state label recovering authorization host_recovery authorization_time \<Rightarrow>
        op_bind (op_lift (response_fits (wb_libs u) response)) (\<lambda>_.
        op_bind (webauthn_verify u budget (ok_or AuthorityError.Rejected (wl_finish_registration (wb_library u) response state))) (\<lambda>passkey.
        op_bind (Budget_remaining budget) (\<lambda>timeout.
        write_sql b tenant timeout (wd_events drawn)
          (finish_registration_body u drawn actor i snapshot passkey label recovering authorization host_recovery authorization_time))))))))"

subsection \<open>Authentication\<close>

definition begin_authentication_body ::
  "WebauthnAuthority \<Rightarrow> WebauthnDraws \<Rightarrow> AuthenticatedSession \<Rightarrow> StepUpContext \<Rightarrow> (MutationError, WebauthnChallenge) tx" where
  "begin_authentication_body u drawn actor context =
    (let L = wb_libs u; key = px_key actor in
    bind (widen Storage (recheck L actor)) (\<lambda>loaded.
    bind (check_configuration u (ak_tenant key)) (\<lambda>_.
    bind (webauthn_account (wd_handle drawn) key) (\<lambda>(_, _, epoch).
    bind (webauthn_credentials key (wb_rp u) (wb_config u)) (\<lambda>keys.
    bind (require (\<not> keys = []) (Storage reject)) (\<lambda>_.
    bind (lift (ok_or (Storage reject) (wl_start_authentication (wb_library u) (map cs_passkey keys) (wd_challenge drawn)))) (\<lambda>(options, state).
    bind (store_ceremony L (wd_id drawn) loaded epoch (wb_config u)
      (Ceremony.Authenticate state (step_up_columns context) keys)) (\<lambda>(i, expires).
    ret \<lparr>wn_id = i, wn_options = options, wn_expires_at = expires\<rparr>))))))))"

definition begin_webauthn_authentication ::
  "WebauthnAuthority \<Rightarrow> WebauthnDraws \<Rightarrow> AuthenticatedSession \<Rightarrow> StepUpContext \<Rightarrow> int \<Rightarrow> WebauthnChallenge op" where
  "begin_webauthn_authentication u drawn actor context deadline =
    read_sql (au_bundle (wb_authority u)) (ak_tenant (px_key actor)) deadline (begin_authentication_body u drawn actor context)"

text \<open>The credential of the ceremony that answered, with the counters of the answer.\<close>

definition answered_credential ::
  "WebauthnLibrary \<Rightarrow> CredentialSnapshot list \<Rightarrow> AuthenticationResult \<Rightarrow> AuthorityError + CredentialSnapshot" where
  "answered_credential lib keys result =
    and_then (ok_or AuthorityError.Rejected (find (\<lambda>v. wl_cred_id lib (cs_passkey v) = ar_cred_id result) keys)) (\<lambda>selected.
    and_then (ok_or AuthorityError.Rejected (wl_update lib (cs_passkey selected) result)) (\<lambda>passkey.
    Ok (selected\<lparr>cs_passkey := passkey\<rparr>)))"

definition at_snapshot :: "AccountKey \<Rightarrow> CredentialSnapshot \<Rightarrow> webauthn_credential_row \<Rightarrow> bool" where
  "at_snapshot key selected r \<longleftrightarrow> is_wc key r \<and> wc_id r = cs_id selected \<and> wc_version r = cs_version selected
    \<and> wc_epoch r = cs_epoch selected \<and> \<not> wc_revoked r"

text \<open>The update of the credential is conditional on the version the ceremony began with.\<close>

definition use_credential :: "Libraries \<Rightarrow> AccountKey \<Rightarrow> CredentialSnapshot \<Rightarrow> (MutationError, unit) tx" where
  "use_credential L key selected =
    bind (query (\<lambda>d. count_where (at_snapshot key selected) (d_webauthn_credentials d))) (\<lambda>updated.
    bind (widen Storage (insert_checked (\<lambda>d. updated = 0
        \<or> in_i64 (cs_version selected + 1) \<and> xl_value_size L (cs_passkey selected) \<le> 16384)
      (\<lambda>d. d\<lparr>d_webauthn_credentials := update_where (at_snapshot key selected)
        (\<lambda>r. r\<lparr>wc_value := cs_passkey selected, wc_version := wc_version r + 1\<rparr>) (d_webauthn_credentials d)\<rparr>))) (\<lambda>_.
    require (\<not> updated \<noteq> 1) (Storage reject)))"

definition settle_authentication ::
  "WebauthnAuthority \<Rightarrow> WebauthnDraws \<Rightarrow> AuthenticatedSession \<Rightarrow> uuid \<Rightarrow> ceremony_snapshot \<Rightarrow> StepUpContext \<Rightarrow> CredentialSnapshot
    \<Rightarrow> (MutationError, StepUpGrant \<times> SecurityEvent list) tx" where
  "settle_authentication u drawn actor i snapshot context selected =
    (let L = wb_libs u; key = px_key actor in
    bind (widen Storage (recheck L actor)) (\<lambda>loaded.
    bind (check_configuration u (ak_tenant key)) (\<lambda>_.
    bind (read_ceremony L (wd_handle drawn) actor i (wb_config u)) (\<lambda>present_snapshot.
    bind (require (\<not> (sn_epoch present_snapshot \<noteq> sn_epoch snapshot \<or> is_Register (sn_ceremony present_snapshot)))
      (Storage reject)) (\<lambda>_.
    bind (use_credential L key selected) (\<lambda>_.
    bind (lift (ok_or (Storage reject) (map_of (wb_generations u) (ak_tenant key)))) (\<lambda>generation.
    bind (issue_grant L (wd_secret drawn) loaded context
      (GrantSource.Webauthn (cs_id selected) (cs_epoch selected) (wb_rp u) generation) (sn_observed_at snapshot)) (\<lambda>grant.
    bind now (\<lambda>t.
    bind (require (\<not> t \<ge> sn_expires_at present_snapshot) (Storage reject)) (\<lambda>_.
    ret (grant, [authentication_event key Verified])))))))))))"

definition finish_authentication_body ::
  "WebauthnAuthority \<Rightarrow> WebauthnDraws \<Rightarrow> AuthenticatedSession \<Rightarrow> uuid \<Rightarrow> ceremony_snapshot \<Rightarrow> StepUpContext \<Rightarrow> CredentialSnapshot
    \<Rightarrow> (MutationError, StepUpGrant \<times> SecurityEvent list) tx" where
  "finish_authentication_body u drawn actor i snapshot context selected =
    bind (settle_authentication u drawn actor i snapshot context selected) (\<lambda>settled.
    bind (consume_ceremony (px_key actor) i) (\<lambda>_.
    ret settled))"

definition finish_webauthn_authentication ::
  "WebauthnAuthority \<Rightarrow> WebauthnDraws \<Rightarrow> AuthenticatedSession \<Rightarrow> uuid \<Rightarrow> Value \<Rightarrow> int \<Rightarrow> StepUpGrant op" where
  "finish_webauthn_authentication u drawn actor i response deadline =
    (let b = au_bundle (wb_authority u); tenant = ak_tenant (px_key actor); lib = wb_library u in
    op_bind (Budget_new deadline) (\<lambda>budget.
    op_bind (Budget_remaining budget) (\<lambda>timeout.
    op_bind (read_sql b tenant timeout (snapshot_body u (wd_handle drawn) actor i)) (\<lambda>snapshot.
    case sn_ceremony snapshot of
      Ceremony.Register _ _ _ _ _ _ \<Rightarrow> op_lift (Err AuthorityError.Rejected)
    | Ceremony.Authenticate state (purpose, proof) keys \<Rightarrow>
        op_bind (op_lift (response_fits (wb_libs u) response)) (\<lambda>_.
        op_bind (webauthn_verify u budget (ok_or AuthorityError.Rejected (wl_finish_authentication lib response state))) (\<lambda>result.
        op_bind (op_require (\<not> \<not> ar_user_verified result) AuthorityError.Rejected) (\<lambda>_.
        op_bind (op_lift (answered_credential lib keys result)) (\<lambda>selected.
        op_bind (Budget_remaining budget) (\<lambda>timeout.
        write_sql b tenant timeout (wd_events drawn)
          (finish_authentication_body u drawn actor i snapshot \<lparr>su_purpose = purpose, su_digest = proof\<rparr> selected))))))))))"

subsection \<open>Removal and cancellation\<close>

definition remove_credential_body ::
  "WebauthnAuthority \<Rightarrow> AuthenticatedSession \<Rightarrow> uuid \<Rightarrow> StepUpContext \<Rightarrow> ustr \<Rightarrow> (MutationError, unit \<times> SecurityEvent list) tx" where
  "remove_credential_body u actor i context handle =
    (let a = wb_authority u; L = wb_libs u; key = px_key actor; p = (\<lambda>r. is_wc key r \<and> wc_id r = i) in
    bind (widen Storage (recheck L actor)) (\<lambda>loaded.
    bind (check_configuration u (ak_tenant key)) (\<lambda>_.
    bind (widen Rule (authorize (au_policy a) (au_instance a) loaded RemoveWebauthn (Some key))) (\<lambda>_.
    bind (widen Storage (consume_step_up_on L (wb_connection u (ak_tenant key)) actor context handle)) (\<lambda>_.
    bind (query (\<lambda>d. count_where (\<lambda>r. p r \<and> \<not> wc_revoked r) (d_webauthn_credentials d))) (\<lambda>changed.
    bind (widen Storage (revoke_credentials p)) (\<lambda>_.
    bind (require (\<not> changed \<noteq> 1) (Storage reject)) (\<lambda>_.
    bind (advance_webauthn_account (\<lambda>r. r) key) (\<lambda>_.
    ret ((), [authentication_event key Removed]))))))))))"

definition remove_credential :: "WebauthnAuthority \<Rightarrow> (nat \<Rightarrow> uuid) \<Rightarrow> AuthenticatedSession \<Rightarrow> uuid \<Rightarrow> ustr \<Rightarrow> int \<Rightarrow> unit op" where
  "remove_credential u fresh actor i handle deadline =
    op_bind (op_lift (webauthn_management_context (wb_libs u) (px_key actor) (lit ''remove'') (Some i))) (\<lambda>context.
    write_sql (au_bundle (wb_authority u)) (ak_tenant (px_key actor)) deadline fresh
      (remove_credential_body u actor i context handle))"

definition cancel_ceremony_body :: "WebauthnAuthority \<Rightarrow> uuid \<Rightarrow> AuthenticatedSession \<Rightarrow> uuid \<Rightarrow> (MutationError, unit) tx" where
  "cancel_ceremony_body u handle actor i =
    bind (read_ceremony (wb_libs u) handle actor i (wb_config u)) (\<lambda>_.
    bind (check_configuration u (ak_tenant (px_key actor))) (\<lambda>_.
    consume_ceremony (px_key actor) i))"

definition cancel_ceremony :: "WebauthnAuthority \<Rightarrow> uuid \<Rightarrow> AuthenticatedSession \<Rightarrow> uuid \<Rightarrow> int \<Rightarrow> unit op" where
  "cancel_ceremony u handle actor i deadline =
    read_sql (au_bundle (wb_authority u)) (ak_tenant (px_key actor)) deadline (cancel_ceremony_body u handle actor i)"

subsection \<open>Activation of a configuration\<close>

text \<open>On a transaction of the owner of the deployment: the generation advances, what was begun under the
  previous configuration is deleted and every credential of the relying party is revoked.\<close>

definition activate_webauthn_rp_on ::
  "Libraries \<Rightarrow> WebauthnLibrary \<Rightarrow> HostConnection \<Rightarrow> InstanceId \<Rightarrow> TenantId \<Rightarrow> ustr \<Rightarrow> url_parts \<Rightarrow> int \<Rightarrow> (PgError, int) tx" where
  "activate_webauthn_rp_on L lib c i tenant rp origin_url expected =
    bind (require (\<not> (\<not> hc_in_transaction c \<or> expected < 1)) reject) (\<lambda>_.
    bind (require (\<not> (hc_scope c \<noteq> Some tenant \<or> hc_isolation c \<noteq> lit ''read committed'')) reject) (\<lambda>_.
    bind authority_id (\<lambda>authority.
    bind (require (\<not> authority \<noteq> instance_uuid i) reject) (\<lambda>_.
    bind (lift (rp_configuration L lib rp origin_url)) (\<lambda>fingerprint.
    bind (lock_guard tenant) (\<lambda>_.
    bind (fetch_one (\<lambda>d. find (is_rp tenant rp) (d_webauthn_rp d))) (\<lambda>r.
    bind (require (\<not> wr_generation r \<noteq> expected) reject) (\<lambda>_.
    bind (insert_checked (\<lambda>_. in_i64 (expected + 1) \<and> length fingerprint = 32)
      (\<lambda>d. d\<lparr>d_webauthn_rp := update_where (is_rp tenant rp)
        (\<lambda>x. x\<lparr>wr_fingerprint := fingerprint, wr_generation := expected + 1\<rparr>) (d_webauthn_rp d)\<rparr>)) (\<lambda>_.
    bind (exec (\<lambda>d. d\<lparr>d_ceremonies := delete_where (\<lambda>x. cm_tenant x = tenant \<and> cm_rp_config x = wr_fingerprint r) (d_ceremonies d)\<rparr>)) (\<lambda>_.
    bind (revoke_credentials (\<lambda>x. wc_tenant x = tenant \<and> wc_rp x = rp)) (\<lambda>_.
    ret (expected + 1))))))))))))"

end
