(* ===== verification/Webauthn_Life.thy ===== *)
theory Webauthn_Life
  imports Webauthn_Ceremonies Login_Life
begin

section \<open>What authenticators guarantee\<close>

subsection \<open>What each step leaves of the ceremonies\<close>

lemma check_configuration_reads: "reads_only (check_configuration u tenant)"
  unfolding check_configuration_def by (intro pure.steps)

lemma check_configuration_Inr:
  "check_configuration u tenant w = Inr (g, w') \<longleftrightarrow> map_of (wb_generations u) tenant = Some g \<and> w' = w
    \<and> list_ex (\<lambda>r. is_rp tenant (wb_rp u) r \<and> wr_fingerprint r = wb_config u \<and> wr_generation r = g) (d_webauthn_rp (w_db w))"
  by (auto simp: check_configuration_def tx_simps)

lemma validate_source_reads: "reads_only (validate_source key source)"
  unfolding validate_source_def by (intro pure.steps)

lemma registration_authorized_reads: "reads_only (registration_authorized key loaded source at host_recovery)"
  unfolding registration_authorized_def recently_def by (intro pure.steps validate_source_reads)

lemma consume_step_up_frame:
  assumes "checks_contract (px_checks actor)" and "\<And>d g. T (d\<lparr>d_grants := g\<rparr>) = T d"
  shows "keeps (same T) (consume_step_up_on L c actor cx handle)"
  by (rule keepsI) (auto simp: same_def assms(2) dest!: consume_step_up_Inr [OF assms(1)])

lemma issue_grant_frame:
  assumes "\<And>d g. T (d\<lparr>d_grants := g\<rparr>) = T d"
  shows "keeps (same T) (issue_grant L random loaded cx source at)"
  by (rule keepsI) (auto simp: same_def Let_def assms dest!: issue_grant_Inr)

lemma ceremony_frames:
  "keeps (same d_ceremonies) (webauthn_account handle key)"
  "keeps (same d_ceremonies) (revoke_credentials p)"
  "keeps (same d_ceremonies) (insert_credential L row)"
  "keeps (same d_ceremonies) (advance_webauthn_account f key)"
  "keeps (same d_ceremonies) (use_credential L key selected)"
  unfolding webauthn_account_def revoke_credentials_def insert_credential_def advance_webauthn_account_def use_credential_def
  by (intro frame.steps keeps_exec keeps_insert_checked frame.reading; simp add: same_def)+

definition open_ceremony :: "AccountKey \<Rightarrow> uuid \<Rightarrow> db \<Rightarrow> bool" where
  "open_ceremony key i d \<longleftrightarrow> list_ex (\<lambda>r. owns_ceremony key r \<and> cm_id r = i) (d_ceremonies d)"

abbreviation closed_stays :: "AccountKey \<Rightarrow> uuid \<Rightarrow> db \<Rightarrow> db \<Rightarrow> bool" where
  "closed_stays key i \<equiv> maintains (\<lambda>d. \<not> open_ceremony key i d)"

lemma same_closed: "keeps (same d_ceremonies) m \<Longrightarrow> keeps (closed_stays key i) m"
  by (rule keepsI) (auto simp: same_def maintains_def open_ceremony_def dest: keepsD)

lemma fewer_ceremonies:
  "set (d_ceremonies e) \<subseteq> set (d_ceremonies d) \<Longrightarrow> maintains (\<lambda>d. \<not> open_ceremony key i d) d e"
  by (auto simp: maintains_def open_ceremony_def list_ex_iff)

lemma store_ceremony_closed:
  assumes "j \<noteq> i" shows "keeps (closed_stays key i) (store_ceremony L j loaded epoch config state)"
proof -
  have ins: "keeps (closed_stays key i) (insert_checked g (\<lambda>d. d\<lparr>d_ceremonies := new_ceremony_row j loaded epoch config state t # d_ceremonies d\<rparr>))" for g t
    by (rule keeps_insert_checked) (use assms in \<open>simp add: maintains_def open_ceremony_def new_ceremony_row_def\<close>)
  have sw: "keeps (closed_stays key i) (sweep_ceremonies k t)" for k t
    unfolding sweep_ceremonies_def
    by (intro invariant.steps keeps_exec fewer_ceremonies) (simp_all add: set_delete_first_subset Collect_mono)
  show ?thesis unfolding store_ceremony_def Let_def by (intro invariant.steps ins sw)
qed

lemma consume_ceremony_closed: "keeps (closed_stays key i) (consume_ceremony k j)"
  unfolding consume_ceremony_def Let_def
  by (intro invariant.steps keeps_exec fewer_ceremonies) (auto simp: delete_where_def)

lemma count_where_zero: "count_where p t = 0 \<longleftrightarrow> \<not> list_ex p t"
  by (simp add: count_where_def filter_empty_conv list_ex_iff)

lemma consume_ceremony_Inr:
  "consume_ceremony key i w = Inr (x, w') \<Longrightarrow> open_ceremony key i (w_db w) \<and> \<not> open_ceremony key i (w_db w')
    \<and> w_db w' = (w_db w)\<lparr>d_ceremonies := delete_where (\<lambda>r. owns_ceremony key r \<and> cm_id r = i) (d_ceremonies (w_db w))\<rparr>"
  using count_where_zero [of "\<lambda>r. owns_ceremony key r \<and> cm_id r = i" "d_ceremonies (w_db w)"]
  by (auto simp: consume_ceremony_def tx_simps Let_def open_ceremony_def list_ex_iff delete_where_def)

lemma read_loaded_frame: "keeps (same d_ceremonies) (read_loaded handle loaded i config)"
  unfolding read_loaded_def Let_def by (intro frame.steps ceremony_frames)

lemma read_ceremony_frame:
  assumes "checks_contract (px_checks actor)"
  shows "keeps (same d_ceremonies) (read_ceremony L handle actor i config)"
  unfolding read_ceremony_def by (intro frame.steps read_loaded_frame same_reads recheck_reads assms)

subsection \<open>A ceremony ends once\<close>

text \<open>What the sessions of accounts ask for over time.\<close>

datatype ceremony_request =
    BeginRegistration WebauthnDraws AuthenticatedSession ustr bool RegistrationAuthorization StepUpContext
  | BeginAuthentication WebauthnDraws AuthenticatedSession StepUpContext
  | FinishRegistration WebauthnDraws AuthenticatedSession uuid ceremony_snapshot Passkey ustr bool "GrantSource option" bool "int option"
  | FinishAuthentication WebauthnDraws AuthenticatedSession uuid ceremony_snapshot StepUpContext CredentialSnapshot
  | CancelCeremony uuid AuthenticatedSession uuid
  | RemoveCredential AuthenticatedSession uuid StepUpContext ustr

fun ceremony_body :: "WebauthnAuthority \<Rightarrow> ceremony_request \<Rightarrow> (MutationError, bool) tx" where
  "ceremony_body u (BeginRegistration dr actor label rec auth cx) = completed (begin_registration_body u dr actor label rec auth cx)"
| "ceremony_body u (BeginAuthentication dr actor cx) = completed (begin_authentication_body u dr actor cx)"
| "ceremony_body u (FinishRegistration dr actor i sn pk label rec src host at) =
    completed (finish_registration_body u dr actor i sn pk label rec src host at)"
| "ceremony_body u (FinishAuthentication dr actor i sn cx sel) = completed (finish_authentication_body u dr actor i sn cx sel)"
| "ceremony_body u (CancelCeremony handle actor i) = completed (cancel_ceremony_body u handle actor i)"
| "ceremony_body u (RemoveCredential actor i cx handle) = completed (remove_credential_body u actor i cx handle)"

fun ends_ceremony :: "AccountKey \<Rightarrow> uuid \<Rightarrow> ceremony_request \<Rightarrow> bool" where
  "ends_ceremony key i (FinishRegistration _ actor j _ _ _ _ _ _ _) \<longleftrightarrow> px_key actor = key \<and> j = i"
| "ends_ceremony key i (FinishAuthentication _ actor j _ _ _) \<longleftrightarrow> px_key actor = key \<and> j = i"
| "ends_ceremony key i (CancelCeremony _ actor j) \<longleftrightarrow> px_key actor = key \<and> j = i"
| "ends_ceremony key i _ \<longleftrightarrow> False"

text \<open>A begin stores the ceremony when the random generator draws its identifier.\<close>

fun stores_ceremony :: "uuid \<Rightarrow> ceremony_request \<Rightarrow> bool" where
  "stores_ceremony i (BeginRegistration dr _ _ _ _ _) \<longleftrightarrow> wd_id dr = i"
| "stores_ceremony i (BeginAuthentication dr _ _) \<longleftrightarrow> wd_id dr = i"
| "stores_ceremony i _ \<longleftrightarrow> False"

fun ceremony_actor :: "ceremony_request \<Rightarrow> AuthenticatedSession" where
  "ceremony_actor (BeginRegistration _ actor _ _ _ _) = actor"
| "ceremony_actor (BeginAuthentication _ actor _) = actor"
| "ceremony_actor (FinishRegistration _ actor _ _ _ _ _ _ _ _) = actor"
| "ceremony_actor (FinishAuthentication _ actor _ _ _ _) = actor"
| "ceremony_actor (CancelCeremony _ actor _) = actor"
| "ceremony_actor (RemoveCredential actor _ _ _) = actor"

fun ceremony_admitted :: "WebauthnAuthority \<Rightarrow> ceremony_request \<Rightarrow> bool" where
  "ceremony_admitted u q \<longleftrightarrow> policy_contract (au_policy (wb_authority u)) \<and> checks_contract (px_checks (ceremony_actor q))"

lemma registration_source_frame:
  assumes "checks_contract (px_checks actor)"
  shows "keeps (same d_ceremonies) (registration_source u actor cx loaded enrolled rec auth)"
  by (cases auth) (auto simp: registration_source_def recently_def intro!: frame.steps consume_step_up_frame assms)

lemma remove_credential_frame:
  assumes "policy_contract (au_policy (wb_authority u))" "checks_contract (px_checks actor)"
  shows "keeps (same d_ceremonies) (remove_credential_body u actor j cx handle)"
  unfolding remove_credential_body_def Let_def
  by (intro frame.steps ceremony_frames consume_step_up_frame
      same_reads [OF authorize_reads] same_reads [OF recheck_reads] same_reads [OF check_configuration_reads] assms) simp

lemma begins_closed:
  assumes "policy_contract (au_policy (wb_authority u))" "checks_contract (px_checks actor)" "wd_id dr \<noteq> i"
  shows "keeps (closed_stays key i) (begin_registration_body u dr actor label rec auth cx)"
    "keeps (closed_stays key i) (begin_authentication_body u dr actor cx)"
  unfolding begin_registration_body_def begin_authentication_body_def webauthn_credentials_def Let_def
  by (intro invariant.steps store_ceremony_closed assms same_closed [OF ceremony_frames(1)] same_closed [OF registration_source_frame]
      same_closed [OF same_reads [OF authorize_reads]] same_closed [OF same_reads [OF recheck_reads]]
      same_closed [OF same_reads [OF check_configuration_reads]])+

lemma settle_frames:
  assumes "policy_contract (au_policy (wb_authority u))" "checks_contract (px_checks actor)"
  shows "keeps (same d_ceremonies) (settle_registration u dr actor j sn pk label rec src host at)"
    "keeps (same d_ceremonies) (settle_authentication u dr actor j sn cx sel)"
  unfolding settle_registration_def settle_authentication_def Let_def
  by (intro frame.steps ceremony_frames read_ceremony_frame issue_grant_frame
      same_reads [OF authorize_reads] same_reads [OF recheck_reads] same_reads [OF check_configuration_reads]
      same_reads [OF registration_authorized_reads] assms; simp)+

lemma ends_closed:
  assumes "ceremony_admitted u q" "ends_ceremony key i q" "ceremony_body u q w = Inr (ok, w')"
  shows "open_ceremony key i (w_db w) \<and> \<not> open_ceremony key i (w_db w')"
proof -
  have step: "open_ceremony key i (w_db w) \<and> \<not> open_ceremony key i (w_db w')"
    if "keeps (same d_ceremonies) m" "m w = Inr (x, v)" "consume_ceremony key i v = Inr (y, w')" for m :: "(MutationError, 'x) tx" and x v y
    using keepsD [OF that(1,2)] consume_ceremony_Inr [OF that(3)] by (auto simp: same_def open_ceremony_def)
  show ?thesis
  proof (cases q)
    case (FinishRegistration dr actor j sn pk label rec src host at)
    with assms(2,3) obtain x v y where m: "settle_registration u dr actor j sn pk label rec src host at w = Inr (x, v)"
      and c: "consume_ceremony key i v = Inr (y, w')"
      by (auto simp: completed_def finish_registration_body_def elim!: bindE)
    from step [OF settle_frames(1) m c] FinishRegistration assms(1) show ?thesis by simp
  next
    case (FinishAuthentication dr actor j sn cx sel)
    with assms(2,3) obtain x v y where m: "settle_authentication u dr actor j sn cx sel w = Inr (x, v)"
      and c: "consume_ceremony key i v = Inr (y, w')"
      by (auto simp: completed_def finish_authentication_body_def elim!: bindE)
    from step [OF settle_frames(2) m c] FinishAuthentication assms(1) show ?thesis by simp
  next
    case (CancelCeremony handle actor j)
    with assms(2,3) obtain x v y where m: "read_ceremony (wb_libs u) handle actor j (wb_config u) w = Inr (x, v)"
      and c: "consume_ceremony key i v = Inr (y, w')"
      by (auto simp: completed_def cancel_ceremony_body_def check_configuration_Inr elim!: bindE)
    from step [OF read_ceremony_frame m c] CancelCeremony assms(1) show ?thesis by simp
  qed (use assms(2) in simp_all)
qed

lemma ceremony_body_closed:
  assumes "ceremony_admitted u q" "\<not> stores_ceremony i q"
  shows "keeps (closed_stays key i) (ceremony_body u q)"
proof (cases q)
  case (BeginRegistration dr actor label rec auth cx)
  with assms show ?thesis by (auto simp: completed_def intro!: invariant.bind invariant.ret begins_closed)
next
  case (BeginAuthentication dr actor cx)
  with assms show ?thesis by (auto simp: completed_def intro!: invariant.bind invariant.ret begins_closed)
next
  case (FinishRegistration dr actor j sn pk label rec src host at)
  with assms show ?thesis
    by (auto simp: completed_def finish_registration_body_def
        intro!: invariant.bind invariant.ret consume_ceremony_closed same_closed [OF settle_frames(1)])
next
  case (FinishAuthentication dr actor j sn cx sel)
  with assms show ?thesis
    by (auto simp: completed_def finish_authentication_body_def
        intro!: invariant.bind invariant.ret consume_ceremony_closed same_closed [OF settle_frames(2)])
next
  case (CancelCeremony handle actor j)
  with assms show ?thesis
    by (auto simp: completed_def cancel_ceremony_body_def intro!: invariant.bind invariant.ret consume_ceremony_closed
        same_closed [OF read_ceremony_frame] same_closed [OF same_reads [OF check_configuration_reads]])
next
  case (RemoveCredential actor j cx handle)
  with assms show ?thesis
    by (auto simp: completed_def intro!: invariant.bind invariant.ret same_closed [OF remove_credential_frame])
qed

interpretation ceremonies: one_use "ceremony_body u" "open_ceremony key i" "ends_ceremony key i" "stores_ceremony i" "ceremony_admitted u"
  for u key i
proof unfold_locales
  fix q w w'
  assume "ceremony_admitted u q" "ends_ceremony key i q" "ceremony_body u q w = Inr (True, w')"
  then show "open_ceremony key i (w_db w) \<and> \<not> open_ceremony key i (w_db w')" by (rule ends_closed)
next
  fix q w ok w'
  assume "ceremony_admitted u q" "\<not> stores_ceremony i q" "ceremony_body u q w = Inr (ok, w')" "\<not> open_ceremony key i (w_db w)"
  with keepsD [OF ceremony_body_closed] show "\<not> open_ceremony key i (w_db w')" by (force simp: maintains_def)
qed

text \<open>C32: A WebAuthn ceremony ends at most once. Whatever sessions of an account ask for over time, in
  whatever order and with whatever failures in between (registrations and authentications begun
  and finished, ceremonies cancelled, authenticators removed), at most one request finishes or
  cancels a given ceremony, so one signed response yields at most one credential or one grant,
  unless the random generator draws the identifier of that ceremony again.\<close>

theorem webauthn_ceremony_once:
  assumes "list_all (\<lambda>q. ceremony_admitted u q \<and> \<not> stores_ceremony i q) qs"
  shows "length (filter (\<lambda>(q, ok). ends_ceremony key i q \<and> ok) (fst (serve (ceremony_body u) qs w))) \<le> 1"
  using assms by (rule ceremonies.at_most_once)

subsection \<open>A change of the configuration\<close>

lemma revoke_credentials_Inr:
  "revoke_credentials p w = Inr (x, w') \<Longrightarrow> w_db w' = (w_db w)\<lparr>d_webauthn_credentials := update_where (\<lambda>r. p r \<and> \<not> wc_revoked r)
      (\<lambda>r. r\<lparr>wc_revoked := True, wc_epoch := wc_epoch r + 1\<rparr>) (d_webauthn_credentials (w_db w))\<rparr>"
  by (auto simp: revoke_credentials_def insert_checked_Inr)

lemma none_left:
  assumes "\<And>r n. p (r\<lparr>wc_revoked := True, wc_epoch := n\<rparr>) = p r"
  shows "\<not> list_ex (\<lambda>r. p r \<and> \<not> wc_revoked r)
    (update_where (\<lambda>r. p r \<and> \<not> wc_revoked r) (\<lambda>r. r\<lparr>wc_revoked := True, wc_epoch := wc_epoch r + 1\<rparr>) t)"
  by (induction t) (simp_all add: update_where_def assms)

lemma one_generation:
  "list_ex (\<lambda>r. is_rp tenant rp r \<and> Q r \<and> wr_generation r = g)
    (update_where (is_rp tenant rp) (\<lambda>x. x\<lparr>wr_fingerprint := h, wr_generation := n\<rparr>) t) \<Longrightarrow> g = n"
  by (induction t) (auto simp: update_where_def is_rp_def split: if_splits)

lemma activate_Inr:
  assumes "activate_webauthn_rp_on L lib c i tenant rp origin_url expected w = Inr (n, w')"
  shows "\<exists>fingerprint r. hc_scope c = Some tenant \<and> d_authority (w_db w) = instance_uuid i
    \<and> find (is_rp tenant rp) (d_webauthn_rp (w_db w)) = Some r \<and> wr_generation r = expected \<and> n = expected + 1
    \<and> d_webauthn_rp (w_db w') = update_where (is_rp tenant rp) (\<lambda>x. x\<lparr>wr_fingerprint := fingerprint, wr_generation := n\<rparr>) (d_webauthn_rp (w_db w))
    \<and> d_ceremonies (w_db w') = delete_where (\<lambda>x. cm_tenant x = tenant \<and> cm_rp_config x = wr_fingerprint r) (d_ceremonies (w_db w))
    \<and> d_webauthn_credentials (w_db w') = update_where (\<lambda>x. (wc_tenant x = tenant \<and> wc_rp x = rp) \<and> \<not> wc_revoked x)
        (\<lambda>x. x\<lparr>wc_revoked := True, wc_epoch := wc_epoch x + 1\<rparr>) (d_webauthn_credentials (w_db w))"
proof -
  from assms obtain fingerprint r where
    rev: "revoke_credentials (\<lambda>x. wc_tenant x = tenant \<and> wc_rp x = rp)
      (w\<lparr>w_db := (w_db w)\<lparr>d_webauthn_rp := update_where (is_rp tenant rp)
        (\<lambda>x. x\<lparr>wr_fingerprint := fingerprint, wr_generation := expected + 1\<rparr>) (d_webauthn_rp (w_db w)),
        d_ceremonies := delete_where (\<lambda>x. cm_tenant x = tenant \<and> cm_rp_config x = wr_fingerprint r) (d_ceremonies (w_db w))\<rparr>\<rparr>)
      = Inr ((), w')"
    and r: "hc_scope c = Some tenant" "d_authority (w_db w) = instance_uuid i"
      "find (is_rp tenant rp) (d_webauthn_rp (w_db w)) = Some r" "wr_generation r = expected" "n = expected + 1"
    by (simp add: activate_webauthn_rp_on_def tx_simps split: if_splits) (elim exE conjE, rule that; simp)
  from revoke_credentials_Inr [OF rev] r show ?thesis
    by (intro exI [of _ fingerprint] exI [of _ r] conjI) simp_all
qed


subsection \<open>What a grant of an authenticator stands for\<close>

lemma webauthn_account_Inr:
  "webauthn_account handle key w = Inr (x, w') \<Longrightarrow> \<exists>a. w_db w' = (w_db w)\<lparr>d_webauthn_accounts := a\<rparr>"
  by (auto simp: webauthn_account_def tx_simps split: if_splits intro: exI [of _ "d_webauthn_accounts (w_db w)"])

lemma read_ceremony_Inr:
  assumes "checks_contract (px_checks actor)" and "read_ceremony L handle actor i config w = Inr (sn, w')"
  shows "\<exists>r l t e a. find (is_ceremony (ak_tenant (px_key actor)) i) (d_ceremonies (w_db w)) = Some r
    \<and> sn_expires_at sn = cm_expires r \<and> sn_epoch sn = e \<and> decode_ceremony (cm_state r) = Inr (sn_ceremony sn)
    \<and> ceremony_matches l e config t r \<and> sn_observed_at sn = t
    \<and> st_key (ld_state l) = px_key actor \<and> sv_id (ld_view l) = sv_id (px_view actor)
    \<and> account_of (w_db w) (px_key actor) = Some (ld_state l) \<and> active (ld_state l)
    \<and> w_db w' = (w_db w)\<lparr>d_webauthn_accounts := a\<rparr>"
proof -
  from assms(2) obtain l w1 where l: "recheck L actor w = Inr (l, w1)" and rd: "read_loaded handle l i config w1 = Inr (sn, w')"
    unfolding read_ceremony_def by (auto elim!: bindE)
  from recheck_Inr [OF l] obtain row where row: "loaded_from L (px_checks actor) (w_db w) row (px_key actor) l"
    "st_key (ld_state l) = px_key actor" "sv_id (ld_view l) = sv_id (px_view actor)" by blast
  have w1: "w_db w1 = w_db w" by (rule reads_onlyD [OF recheck_reads [OF assms(1)] l])
  from rd obtain r h en e w2 w3 where
    r: "find (is_ceremony (ak_tenant (px_key actor)) i) (d_ceremonies (w_db w1)) = Some r"
    and a: "webauthn_account h (px_key actor) w1 = Inr (en, w2)" "snd (snd en) = e"
    and m: "ceremony_matches l e config (sn_observed_at sn) r" "decode_ceremony (cm_state r) = Inr (sn_ceremony sn)"
      "sn_epoch sn = e" "sn_expires_at sn = cm_expires r"
    and w': "w_db w' = w_db w2"
    unfolding read_loaded_def Let_def by (elim bindE) (auto simp: row(2) elim!: bindE split: prod.splits simp del: not_None_eq)
  from webauthn_account_Inr [OF a(1)] obtain x where x: "w_db w2 = (w_db w1)\<lparr>d_webauthn_accounts := x\<rparr>" by blast
  show ?thesis
    by (intro exI [of _ r] exI [of _ l] exI [of _ "sn_observed_at sn"] exI [of _ e] exI [of _ x] conjI)
      (use r m row w1 w' x in \<open>auto simp: loaded_from_def row_current_def\<close>)
qed

lemma use_credential_Inr:
  "use_credential L key selected w = Inr (x, w') \<Longrightarrow> count_where (at_snapshot key selected) (d_webauthn_credentials (w_db w)) = 1
    \<and> w_db w' = (w_db w)\<lparr>d_webauthn_credentials := update_where (at_snapshot key selected)
        (\<lambda>r. r\<lparr>wc_value := cs_passkey selected, wc_version := wc_version r + 1\<rparr>) (d_webauthn_credentials (w_db w))\<rparr>"
  by (auto simp: use_credential_def tx_simps)

lemma version_advanced:
  "count_where (at_snapshot key selected) (update_where (at_snapshot key selected)
    (\<lambda>r. r\<lparr>wc_value := v, wc_version := wc_version r + 1\<rparr>) t) = 0"
  by (induction t) (auto simp: update_where_def at_snapshot_def)

lemma settle_authentication_Inr:
  assumes "settle_authentication u dr actor i sn cx sel w = Inr ((g, events), w')"
  shows "\<exists>l w1 generation now_sn w2 w3. recheck (wb_libs u) actor w = Inr (l, w1)
    \<and> check_configuration u (ak_tenant (px_key actor)) w1 = Inr (generation, w1)
    \<and> read_ceremony (wb_libs u) (wd_handle dr) actor i (wb_config u) w1 = Inr (now_sn, w2)
    \<and> sn_epoch now_sn = sn_epoch sn \<and> \<not> is_Register (sn_ceremony now_sn)
    \<and> use_credential (wb_libs u) (px_key actor) sel w2 = Inr ((), w3)
    \<and> (\<exists>w4. issue_grant (wb_libs u) (wd_secret dr) l cx (GrantSource.Webauthn (cs_id sel) (cs_epoch sel) (wb_rp u) generation)
          (sn_observed_at sn) w3 = Inr (g, w4) \<and> w_db w' = w_db w4)"
proof -
  from assms obtain l w1 generation now_sn w2 w3 w4 where parts: "recheck (wb_libs u) actor w = Inr (l, w1)"
    "check_configuration u (ak_tenant (px_key actor)) w1 = Inr (generation, w1)"
    "read_ceremony (wb_libs u) (wd_handle dr) actor i (wb_config u) w1 = Inr (now_sn, w2)"
    "sn_epoch now_sn = sn_epoch sn" "\<not> is_Register (sn_ceremony now_sn)"
    "use_credential (wb_libs u) (px_key actor) sel w2 = Inr ((), w3)"
    "issue_grant (wb_libs u) (wd_secret dr) l cx (GrantSource.Webauthn (cs_id sel) (cs_epoch sel) (wb_rp u) generation)
          (sn_observed_at sn) w3 = Inr (g, w4)" "w_db w' = w_db w4"
    unfolding settle_authentication_def Let_def
    by (elim bindE) (auto simp: check_configuration_Inr elim!: bindE simp del: not_None_eq)
  then show ?thesis by blast
qed


end
