(* ===== verification/Webauthn_Samples.thy ===== *)
theory Webauthn_Samples
  imports Webauthn_Life
begin

section \<open>An authenticator of the example deployment\<close>

text \<open>One registered credential and one ceremony that its owner has answered.\<close>

definition sample_webauthn :: WebauthnAuthority where
  "sample_webauthn = \<lparr>wb_authority = sample_authority,
     wb_library = \<lparr>wl_build = (\<lambda>_ _. True), wl_start_registration = (\<lambda>_ _ _ _ _. None), wl_finish_registration = (\<lambda>_ _. None),
       wl_start_authentication = (\<lambda>_ _. None), wl_finish_authentication = (\<lambda>_ _. None), wl_cred_id = (\<lambda>_. []), wl_update = (\<lambda>k _. Some k)\<rparr>,
     wb_rp = lit ''rp'', wb_config = replicate 32 1, wb_generations = [(sample_tenant, 1)],
     wb_workers = (\<lambda>_ _. WorkerOutcome.Completed), wb_connection = (\<lambda>_. host_connection)\<rparr>"

definition key_row :: webauthn_credential_row where
  "key_row = \<lparr>wc_tenant = sample_tenant, wc_principal = 2, wc_id = 9, wc_rp = lit ''rp'', wc_rp_config = replicate 32 1,
     wc_hash = replicate 32 2, wc_value = Null, wc_label = lit ''key'', wc_epoch = 1, wc_version = 1, wc_revoked = False\<rparr>"

definition key_snapshot :: CredentialSnapshot where
  "key_snapshot = \<lparr>cs_id = 9, cs_version = 1, cs_epoch = 1, cs_passkey = Null\<rparr>"

definition key_ceremony :: ceremony_row where
  "key_ceremony = \<lparr>cm_tenant = sample_tenant, cm_id = 60, cm_principal = 2, cm_session = 3, cm_auth_epoch = 1,
     cm_membership_epoch = 1, cm_credential_epoch = 1, cm_rp_config = replicate 32 1,
     cm_state = Ceremony.Authenticate Null (lit ''pay'', replicate 32 3) [key_snapshot], cm_created = 950, cm_expires = 1070\<rparr>"

definition seen_ceremony :: ceremony_snapshot where
  "seen_ceremony = \<lparr>sn_ceremony = cm_state key_ceremony, sn_epoch = 1, sn_observed_at = 1000, sn_expires_at = 1070\<rparr>"

definition key_draws :: WebauthnDraws where
  "key_draws = \<lparr>wd_id = 61, wd_handle = 62, wd_challenge = [], wd_secret = Some (replicate 32 9), wd_events = (\<lambda>n. of_nat n)\<rparr>"

definition rp_row :: webauthn_rp_row where
  "rp_row = \<lparr>wr_tenant = sample_tenant, wr_rp = lit ''rp'', wr_fingerprint = replicate 32 1, wr_generation = 1\<rparr>"

definition account_key_row :: webauthn_account_row where
  "account_key_row = \<lparr>wa_tenant = sample_tenant, wa_principal = 2, wa_handle = 63, wa_enrolled = True, wa_epoch = 1\<rparr>"

definition key_world :: world where
  "key_world = session_world\<lparr>w_db := session_db\<lparr>d_webauthn_rp := [rp_row], d_webauthn_credentials := [key_row],
     d_webauthn_accounts := [account_key_row], d_ceremonies := [key_ceremony]\<rparr>\<rparr>"

lemma key_world_simps [simp]:
  "d_webauthn_rp (w_db key_world) = [rp_row]" "d_webauthn_credentials (w_db key_world) = [key_row]"
  "d_webauthn_accounts (w_db key_world) = [account_key_row]" "d_ceremonies (w_db key_world) = [key_ceremony]"
  "d_grants (w_db key_world) = []" "w_tick key_world = 0" "w_micros key_world = (\<lambda>_. 1000000000)" "w_instants key_world = int"
  "d_authority (w_db key_world) = 5" "d_guard (w_db key_world) = [\<lparr>gd_tenant = sample_tenant, gd_profile_sequence = 0\<rparr>]"
  by (simp_all add: key_world_def session_world_def session_db_def sample_world_def sample_db_def)

lemma key_signed_in: "n < 1000 \<Longrightarrow> user_signed_in (key_world\<lparr>w_tick := n\<rparr>)"
  using session_world_signed_in by (simp add: key_world_def user_signed_in_def guarded_def session_world_def)

lemma key_recheck:
  "n < 900 \<Longrightarrow> recheck sample_libs user_proof (key_world\<lparr>w_tick := n\<rparr>)
    = Inr ((user_loaded (n + 1))\<lparr>ld_expires := 500000000\<rparr>, key_world\<lparr>w_tick := n + 4\<rparr>)"
  using recheck_sample [OF key_signed_in, of n sample_libs] by simp

lemma sample_webauthn_simps [simp]:
  "wb_authority sample_webauthn = sample_authority" "wb_rp sample_webauthn = lit ''rp''" "wb_config sample_webauthn = replicate 32 1"
  "wb_generations sample_webauthn = [(sample_tenant, 1)]" "au_libs sample_authority = sample_libs"
  by (simp_all add: sample_webauthn_def sample_authority_def)

lemma key_configuration:
  "check_configuration sample_webauthn sample_tenant (key_world\<lparr>w_tick := n\<rparr>) = Inr (1, key_world\<lparr>w_tick := n\<rparr>)"
  by (simp add: check_configuration_Inr is_rp_def rp_row_def)

lemma key_read:
  assumes "n < 900"
  shows "read_ceremony sample_libs h user_proof 60 (replicate 32 1) (key_world\<lparr>w_tick := n\<rparr>)
    = Inr (seen_ceremony, key_world\<lparr>w_tick := n + 5\<rparr>)"
proof -
  have a: "webauthn_account h user_key (key_world\<lparr>w_tick := m\<rparr>) = Inr ((63, True, 1), key_world\<lparr>w_tick := m\<rparr>)" for m
    by (simp add: webauthn_account_def run_simps fetch_one_def is_wa_def account_key_row_def)
  have c: "is_ceremony sample_tenant 60 key_ceremony" by (simp add: is_ceremony_def key_ceremony_def)
  have m: "ceremony_matches ((user_loaded k)\<lparr>ld_expires := 500000000\<rparr>) 1 (replicate 32 1) 1000 key_ceremony" for k
    by (simp add: ceremony_matches_def key_ceremony_def user_loaded_def user_view_def SessionView_new_def user_state_def user_key_def)
  have d: "decode_ceremony (cm_state key_ceremony) = Inr (cm_state key_ceremony)"
    by (simp add: key_ceremony_def) code_simp
  have k: "st_key (ld_state (user_loaded j)) = user_key" for j by (simp add: user_loaded_def user_state_def)
  show ?thesis
    by (simp add: read_ceremony_def run_simps key_recheck [OF assms] read_loaded_def Let_def k c a m d)
      (simp add: seen_ceremony_def key_ceremony_def)
qed

lemma key_finished:
  "\<exists>g events w'. finish_authentication_body sample_webauthn key_draws user_proof 60 seen_ceremony sample_context key_snapshot key_world
    = Inr ((g, events), w')"
proof -
  let ?l = "(user_loaded 1)\<lparr>ld_expires := 500000000\<rparr>"
  let ?w = "key_world\<lparr>w_tick := 9\<rparr>"
  have r: "recheck sample_libs user_proof key_world = Inr (?l, key_world\<lparr>w_tick := 4\<rparr>)"
    using key_recheck [of 0] by (simp add: key_world_def session_world_def sample_world_def)
  have u: "use_credential sample_libs user_key key_snapshot ?w = Inr ((), ?w\<lparr>w_db := (w_db ?w)\<lparr>d_webauthn_credentials := [key_row\<lparr>wc_version := 2\<rparr>]\<rparr>\<rparr>)"
    by (simp add: use_credential_def run_simps count_where_def at_snapshot_def is_wc_def key_row_def key_snapshot_def update_where_def insert_checked_def exec_def require_def
        lift_def ensure_def user_key_def
        in_i64_def i64_min_def i64_max_def sample_libs_def)
  let ?v = "?w\<lparr>w_db := (w_db ?w)\<lparr>d_webauthn_credentials := [key_row\<lparr>wc_version := 2\<rparr>]\<rparr>\<rparr>"
  have h: "length (digest sample_libs (encode82 (replicate 32 9))) = 32"
    by (simp add: digest_def federation_digest_def sample_libs_def)
  have f: "ld_state (user_loaded n) = user_state" "ld_view (user_loaded n) = user_view" for n by (simp_all add: user_loaded_def)
  have y: "sv_idle_expires_at user_view = 1800" "sv_absolute_expires_at user_view = 10900" "sv_id user_view = SessionId 3"
    "st_key user_state = user_key" "st_epoch user_state = 1" "st_membership_epoch user_state = 1"
    by (simp_all add: user_view_def user_lifetime_def SessionView_new_def user_state_def)
  have s: "xl_context_size sample_libs x = 100" "xl_source_size sample_libs y = 100" "xl_encode sample_libs = encode82" for x y
    by (simp_all add: sample_libs_def)
  have "\<exists>g. issue_grant sample_libs (wd_secret key_draws) ?l sample_context (GrantSource.Webauthn (cs_id key_snapshot) (cs_epoch key_snapshot) (lit ''rp'') 1)
      (sn_observed_at seen_ceremony) ?v = Inr (g, ?v\<lparr>w_tick := 10, w_db := (w_db ?v)\<lparr>d_grants :=
        [grant_row_of sample_libs ?l sample_context (GrantSource.Webauthn 9 1 (lit ''rp'') 1) 1000 1300 (encode82 (replicate 32 9))]\<rparr>\<rparr>)"
    using h
    by (simp add: issue_grant_def run_simps Let_def f seen_ceremony_def sweep_grants_def delete_where_def delete_first_def
        selected_first_def new_handle_def random_secret_def key_draws_def s grant_admissible_def grant_row_of_def key_snapshot_def
        y insert_checked_def exec_def)
  then obtain g where g: "issue_grant sample_libs (wd_secret key_draws) ?l sample_context (GrantSource.Webauthn (cs_id key_snapshot) (cs_epoch key_snapshot) (lit ''rp'') 1)
      (sn_observed_at seen_ceremony) ?v = Inr (g, ?v\<lparr>w_tick := 10, w_db := (w_db ?v)\<lparr>d_grants :=
        [grant_row_of sample_libs ?l sample_context (GrantSource.Webauthn 9 1 (lit ''rp'') 1) 1000 1300 (encode82 (replicate 32 9))]\<rparr>\<rparr>)" by blast
  have k: "px_key user_proof = user_key" by (simp add: user_proof_def)
  have n: "sn_epoch seen_ceremony = 1" "\<not> is_Register (sn_ceremony seen_ceremony)" "sn_expires_at seen_ceremony = 1070"
    by (simp_all add: seen_ceremony_def key_ceremony_def)
  have c: "owns_ceremony user_key key_ceremony" "cm_id key_ceremony = 60" by (simp_all add: owns_ceremony_def key_ceremony_def)
  show ?thesis
    by (simp add: finish_authentication_body_def settle_authentication_def run_simps Let_def r k key_configuration key_read n u g [simplified]
        consume_ceremony_def c count_where_def)
qed


theorem webauthn_ceremony_once_witness:
  "let q = FinishAuthentication key_draws user_proof 60 seen_ceremony sample_context key_snapshot in
    length (filter (\<lambda>(q, ok). ends_ceremony user_key 60 q \<and> ok) (fst (serve (ceremony_body sample_webauthn) [q, q] key_world))) = 1"
proof -
  let ?q = "FinishAuthentication key_draws user_proof 60 seen_ceremony sample_context key_snapshot"
  have k: "px_key user_proof = user_key" by (simp add: user_proof_def)
  from key_finished obtain g events w' where
    "finish_authentication_body sample_webauthn key_draws user_proof 60 seen_ceremony sample_context key_snapshot key_world
      = Inr ((g, events), w')" by blast
  then have "ceremony_body sample_webauthn ?q key_world = Inr (True, w')" by (simp add: completed_def bind_def ret_def)
  then have "1 \<le> length (filter (\<lambda>(q, ok). ends_ceremony user_key 60 q \<and> ok) (fst (serve (ceremony_body sample_webauthn) [?q, ?q] key_world)))"
    by (simp add: Let_def k split: prod.splits sum.splits)
  moreover have "length (filter (\<lambda>(q, ok). ends_ceremony user_key 60 q \<and> ok) (fst (serve (ceremony_body sample_webauthn) [?q, ?q] key_world))) \<le> 1"
    by (rule webauthn_ceremony_once) (simp add: sample_contracts)
  ultimately show ?thesis by (simp add: Let_def)
qed

subsection \<open>A new configuration\<close>

definition rp_origin :: url_parts where
  "rp_origin = \<lparr>url_scheme = lit ''https'', url_host = Some (lit ''rp''), url_username = [], url_password = None, url_query = None,
     url_fragment = None, url_path = lit ''/'', url_names = [], url_str = lit ''https://rp/''\<rparr>"

lemma key_activation:
  "\<exists>w'. activate_webauthn_rp_on sample_libs (wb_library sample_webauthn) host_connection (InstanceId 5) sample_tenant (lit ''rp'') rp_origin 1 key_world
    = Inr (2, w')"
proof -
  have c: "\<exists>f. rp_configuration sample_libs (wb_library sample_webauthn) (lit ''rp'') rp_origin = Inr f \<and> length f = 32"
    by (simp add: rp_configuration_def rp_origin_def sample_webauthn_def digest_def federation_digest_def sample_libs_def)
  then obtain f where f: "rp_configuration sample_libs (wb_library sample_webauthn) (lit ''rp'') rp_origin = Inr f" "length f = 32" by blast
  have p: "is_rp sample_tenant (lit ''rp'') rp_row" "wr_generation rp_row = 1" by (simp_all add: is_rp_def rp_row_def)
  show ?thesis
    by (simp add: activate_webauthn_rp_on_def run_simps host_connection_def f p fetch_one_def in_i64_def i64_min_def i64_max_def
        revoke_credentials_def insert_checked_def key_row_def)
qed


end
