(* ===== verification/Spec2Isabelle.thy ===== *)
theory Spec2Isabelle
  imports Account Account_Life Account_Listing Account_Paging Account_Policy Account_Store
    Assurance Attempts Credentials Department Directory Directory_Life
    Entra Events Fact_Access Facts Federation Federation_Error
    Federation_Link Federation_Login Federation_Providers Federation_Store Group_Facts Histories
    Identifiers Login_Life Login_Samples Login_Sound Management Operation
    Operations Password_Attempts Personnel Personnel_Sound Pg_Errors Platform_Admission
    Platform_Check Platform_Life Platform_Login Platform_Samples Profile Profile_Store
    Profiles Provider_Life Provisioning Samples Session Session_Life
    Session_Store Sessions Settlement Sql Step_Up Tables
    Time_Sample Transactions Webauthn Webauthn_Ceremonies Webauthn_Life Webauthn_Samples
begin

text \<open>
  A model of rss-identity, the identity authority of a multi-tenant deployment: accounts with local
  passwords, sessions, federated logins through OIDC providers, logins with platform devices,
  WebAuthn authenticators, step-up grants, profiles, group and department facts, and the security
  events and audit records of all of them.

  The program. \<^verbatim>\<open>identity-core\<close> holds the values and rules without effects. \<^verbatim>\<open>identity-postgres\<close>
  holds the authority: every operation is one or more transactions on the tables of
  \<^verbatim>\<open>migrations/0001_authority.sql\<close>, and a mutation settles together with its events and audit
  records. \<^verbatim>\<open>identity-oidc\<close> is the network client of the federation, \<^verbatim>\<open>identity-http-axum\<close> the HTTP
  adapter, \<^verbatim>\<open>app/identity\<close> the reference deployment. An operation of the authority runs like this:
  it checks its input and its budget (a deadline of the host), opens a transaction for the tenant,
  takes the tenant's guard, rechecks the session it acts for, asks the host's policy when it is a
  management operation, reads and writes rows, and settles; password computations, the exchange
  of a code with a provider and the judgement of a device happen between transactions.

  How the model stands for the code.
  \<^item> A Rust structure is a \<open>record\<close>, an enumeration a \<open>datatype\<close>, a \<open>Result\<close> a sum whose left side
    is the error, an \<open>Option\<close> an \<open>option\<close>. A Rust string is the list of its code points (\<open>ustr\<close>);
    \<open>lit\<close> makes one from a literal. \<open>i64\<close> values are integers with the range written out
    (\<open>checked_add\<close>, \<open>saturating_add\<close> and the like of \<^verbatim>\<open>Prelude\<close>); a UUID is its 128 bits.
  \<^item> A table is the list of its rows, a JSON column the document it holds. \<open>db\<close> (\<^verbatim>\<open>Tables\<close>) is the
    database. Columns of type \<open>bigint\<close> are seconds, timestamps are microseconds, instants of the
    host are nanoseconds.
  \<^item> A transaction body (\<open>'a tx\<close>, \<^verbatim>\<open>Transactions\<close>) maps a world to an error or to a value and the
    next world. An error carries no world: the transaction is rolled back. The world holds the
    database and the readings of the two clocks; every SQL statement that mentions
    \<open>clock_timestamp()\<close> takes one reading, so does every \<open>Instant::now()\<close>; nothing is assumed of
    the readings. A CHECK constraint of a table is checked where rows are written; a refused
    statement fails with the kind of error the driver reports, which the world gives.
  \<^item> An operation of the authority (\<open>'a op\<close>, \<^verbatim>\<open>Settlement\<close>) sequences transactions and keeps the
    world on an error. The runtime that opens and commits is a parameter with the contract its
    documentation gives: it commits only what succeeded.
  \<^item> What is not in the repository is an argument: the cryptography (SHA-256, HMAC, AEAD, Argon2,
    webauthn-rs), URL, UUID, base64 and JSON texts, random draws (the \<open>Draws\<close> records), the
    upstream client, the host's policy and device verifier. What the code relies on of them is a
    named predicate (\<open>sealing_contract\<close>, \<open>verifier_contract\<close>, \<open>reads_only\<close> and so on), a hypothesis of
    the properties that need it; the witnesses instantiate it with concrete functions.

  The theories.
  \<^item> Values and rules (\<^verbatim>\<open>crates/identity-core/src\<close>): \<^verbatim>\<open>Prelude\<close> has the shared vocabulary;
    \<^verbatim>\<open>Identifiers\<close> is lib.rs; \<^verbatim>\<open>Account\<close> and \<^verbatim>\<open>Account_Policy\<close> are account.rs and account/policy.rs;
    \<^verbatim>\<open>Session\<close> is session.rs; \<^verbatim>\<open>Assurance\<close>, \<^verbatim>\<open>Facts\<close>, \<^verbatim>\<open>Group_Facts\<close>, \<^verbatim>\<open>Department\<close>, \<^verbatim>\<open>Profile\<close>,
    \<^verbatim>\<open>Entra\<close>, \<^verbatim>\<open>Federation_Error\<close>, \<^verbatim>\<open>Federation\<close>, \<^verbatim>\<open>Operation\<close> and \<^verbatim>\<open>Directory\<close> are the files they
    name in their first lines.
  \<^item> The base of the authority (\<^verbatim>\<open>crates/identity-postgres/src\<close>): \<^verbatim>\<open>Pg_Errors\<close>, \<^verbatim>\<open>Time_Sample\<close>,
    \<^verbatim>\<open>Fact_Access\<close>, \<^verbatim>\<open>Tables\<close>, \<^verbatim>\<open>Events\<close>, \<^verbatim>\<open>Transactions\<close> and \<^verbatim>\<open>Settlement\<close>; \<^verbatim>\<open>Sql\<close> has the
    three-valued conditions, joins and orders that the larger queries use.
  \<^item> Storage: \<^verbatim>\<open>Attempts\<close>, \<^verbatim>\<open>Password_Attempts\<close>, \<^verbatim>\<open>Account_Store\<close>, \<^verbatim>\<open>Session_Store\<close>,
    \<^verbatim>\<open>Federation_Store\<close>, \<^verbatim>\<open>Profile_Store\<close>, \<^verbatim>\<open>Credentials\<close>, \<^verbatim>\<open>Platform_Check\<close>.
  \<^item> Operations: \<^verbatim>\<open>Management\<close> (the authority and its policy), \<^verbatim>\<open>Sessions\<close>, \<^verbatim>\<open>Operations\<close> (local
    accounts and maintenance), \<^verbatim>\<open>Provisioning\<close>, \<^verbatim>\<open>Profiles\<close>, \<^verbatim>\<open>Step_Up\<close>, \<^verbatim>\<open>Federation_Providers\<close>,
    \<^verbatim>\<open>Federation_Link\<close>, \<^verbatim>\<open>Federation_Login\<close>, \<^verbatim>\<open>Platform_Login\<close>, \<^verbatim>\<open>Platform_Admission\<close>, \<^verbatim>\<open>Webauthn\<close>,
    \<^verbatim>\<open>Webauthn_Ceremonies\<close>, \<^verbatim>\<open>Personnel\<close> and \<^verbatim>\<open>Account_Listing\<close>.
  \<^item> Guarantees: \<^verbatim>\<open>Session_Life\<close>, \<^verbatim>\<open>Account_Life\<close>, \<^verbatim>\<open>Provider_Life\<close>, \<^verbatim>\<open>Login_Life\<close>, \<^verbatim>\<open>Login_Sound\<close>,
    \<^verbatim>\<open>Platform_Life\<close>, \<^verbatim>\<open>Webauthn_Life\<close>, \<^verbatim>\<open>Personnel_Sound\<close>, \<^verbatim>\<open>Directory_Life\<close> and
    \<^verbatim>\<open>Account_Paging\<close> prove what the operations promise; \<^verbatim>\<open>Histories\<close> has the
    histories of requests they speak of. \<^verbatim>\<open>Samples\<close>, \<^verbatim>\<open>Login_Samples\<close>, \<^verbatim>\<open>Platform_Samples\<close> and
    \<^verbatim>\<open>Webauthn_Samples\<close> hold one small deployment on which the properties are applied.

  What the lemmas show. The \<open>_bind\<close>, \<open>keeps\<close>, \<open>frame\<close>, \<open>pure\<close> and \<open>invariant\<close> lemmas of \<^verbatim>\<open>Transactions\<close>
  compose what statements do to the database, so that an operation is followed step by step; the
  interfaces are locales: \<open>kept\<close> (a relation that statements and their sequences preserve), \<open>generation\<close> (an account change outdates whatever was authenticated
  before), \<open>fixed_window\<close> (counters of attempts), \<open>retained_view\<close> (a fact is never shown after its
  deadline), \<open>one_use\<close> (what is handed out to be used once is used at most once in any history),
  \<open>row_order\<close> (a listing that goes on after its last row shows what follows),
  each interpreted on the model's own definitions. The properties fall into four groups.
  Settlement: an operation is reported done exactly when its change, its events and its audit
  records are committed together, and its errors tell what is known. Sessions and accounts: a
  proof stands for an unrevoked, unexpired session of an enabled member at its present epochs;
  rotation, revocation and every change of an account or a provider end what they must, and the
  sessions issued are usable. One-use tokens: OIDC attempts, platform challenges, WebAuthn
  ceremonies and step-up grants are consumed at most once, and what they grant is backed by the
  rows they were checked against. Values: parsers accept only what is within their bounds, facts
  and grants round-trip, deadlines computed from the database clock are never late.

  Bounds and termination. The recursions follow the code: the filter parser recurses on its
  nesting depth (at most 16) and its precedence, its loop over the operands of a connective runs
  on a fuel above the length of the unread text, and \<open>filter_loops_terminate\<close> shows that more fuel
  changes nothing; the chain check of departments has the code's own bound of sixteen steps. The
  reconciliation of providers, an unbounded loop in the code, is a \<open>partial_function\<close>, and
  \<open>reconciliation_terminates\<close> proves that it returns, whatever the
  runtime does to its transactions.

  Not modelled. The HTTP adapter (\<^verbatim>\<open>identity-http-axum\<close>: axum routes, extractors and the serialised
  shapes of requests and answers, no state of its own), the network client of the federation
  (\<^verbatim>\<open>identity-oidc\<close>: discovery, key sets and token exchange over openidconnect, reqwest and
  hickory; the federation service takes its outcome as a parameter), the process of the reference
  application (\<^verbatim>\<open>app/identity\<close>: files, signals, pools), schema installation (\<^verbatim>\<open>schema.rs\<close>), the Entra
  directory (\<^verbatim>\<open>entra.rs\<close> of the authority),
  row security, foreign keys, indexes and the triggers of the schema, and the syntax checks of the
  audit crate on canonical text. A transaction runs alone: that transactions of one tenant do not
  interleave is what the tenant's guard row (\<open>lock_guard\<close>) and the isolation of PostgreSQL give.
\<close>

end
